(* ===== verification/Cerbero_Prelude.thy ===== *)
theory Cerbero_Prelude
  imports Main "HOL-Library.Word" "HOL-Library.Multiset" "HOL-Library.Char_ord"
    "HOL-Library.List_Lexorder" "HOL-Library.Product_Lexorder"
begin

text \<open>
  The shared base of the development: Rust's \<open>Result\<close> as a sum type (\<open>Inl\<close> the error, \<open>Inr\<close> the
  value), the combinators that stand for the \<open>?\<close> operator and for loops that return early, and
  the facts on lists that the components share. The collection \<open>result_simps\<close> turns the
  statement that a fallible computation succeeded into the conditions under which it does.
\<close>

section \<open>Fallible computations\<close>

named_theorems result_simps \<open>when a fallible computation succeeds\<close>

type_synonym ('a, 'e) result = "'e + 'a"

definition and_then :: "('a, 'e) result \<Rightarrow> ('a \<Rightarrow> ('b, 'e) result) \<Rightarrow> ('b, 'e) result" where
  "and_then r f = (case r of Inl e \<Rightarrow> Inl e | Inr x \<Rightarrow> f x)"

definition ok_or :: "'e \<Rightarrow> 'a option \<Rightarrow> ('a, 'e) result" where
  "ok_or e x = (case x of None \<Rightarrow> Inl e | Some y \<Rightarrow> Inr y)"

definition map_err :: "('e \<Rightarrow> 'f) \<Rightarrow> ('a, 'e) result \<Rightarrow> ('a, 'f) result" where
  "map_err f r = (case r of Inl e \<Rightarrow> Inl (f e) | Inr x \<Rightarrow> Inr x)"

text \<open>A loop whose body may return early: over the elements, collecting results, and with an
  accumulator.\<close>

fun try_each :: "('a \<Rightarrow> (unit, 'e) result) \<Rightarrow> 'a list \<Rightarrow> (unit, 'e) result" where
  "try_each f [] = Inr ()"
| "try_each f (x # xs) = and_then (f x) (\<lambda>_. try_each f xs)"

fun try_map :: "('a \<Rightarrow> ('b, 'e) result) \<Rightarrow> 'a list \<Rightarrow> ('b list, 'e) result" where
  "try_map f [] = Inr []"
| "try_map f (x # xs) = and_then (f x) (\<lambda>y. and_then (try_map f xs) (\<lambda>ys. Inr (y # ys)))"

fun try_fold :: "('s \<Rightarrow> 'a \<Rightarrow> ('s, 'e) result) \<Rightarrow> 's \<Rightarrow> 'a list \<Rightarrow> ('s, 'e) result" where
  "try_fold f s [] = Inr s"
| "try_fold f s (x # xs) = and_then (f s x) (\<lambda>s'. try_fold f s' xs)"

text \<open>The gate at the end of every materializer: check the finished object, return it unchanged.\<close>

definition validated :: "('a \<Rightarrow> (unit, 'e) result) \<Rightarrow> 'a \<Rightarrow> ('a, 'e) result" where
  "validated validate x = and_then (validate x) (\<lambda>_. Inr x)"

definition is_ok :: "('a, 'e) result \<Rightarrow> bool" where
  "is_ok r = (case r of Inl e \<Rightarrow> False | Inr x \<Rightarrow> True)"

subsection \<open>Facts about the combinators\<close>

lemma and_then_simps [simp]:
  "and_then (Inl e) f = Inl e" "and_then (Inr x) f = f x"
  by (simp_all add: and_then_def)

lemma ok_or_simps [simp]: "ok_or e None = Inl e" "ok_or e (Some x) = Inr x"
  by (simp_all add: ok_or_def)

lemma map_err_simps [simp]: "map_err f (Inl e) = Inl (f e)" "map_err f (Inr x) = Inr x"
  by (simp_all add: map_err_def)

lemma is_ok_simps [simp]: "\<not> is_ok (Inl e)" "is_ok (Inr x)"
  by (simp_all add: is_ok_def)

lemma and_then_eq_Inr [result_simps]:
  "and_then r f = Inr y \<longleftrightarrow> (\<exists>x. r = Inr x \<and> f x = Inr y)"
  by (cases r) simp_all

lemma and_then_eq_Inl:
  "and_then r f = Inl e \<longleftrightarrow> r = Inl e \<or> (\<exists>x. r = Inr x \<and> f x = Inl e)"
  by (cases r) simp_all

lemma ok_or_eq_Inr [result_simps]: "ok_or e x = Inr y \<longleftrightarrow> x = Some y"
  by (cases x) simp_all

lemma map_err_eq_Inr [result_simps]: "map_err f r = Inr x \<longleftrightarrow> r = Inr x"
  by (cases r) simp_all

lemma if_error_eq_Inr [result_simps]: "(if c then Inl e else r) = Inr x \<longleftrightarrow> \<not> c \<and> r = Inr x"
  by simp

lemma and_then_cong [fundef_cong]:
  "r = r' \<Longrightarrow> (\<And>x. r' = Inr x \<Longrightarrow> f x = g x) \<Longrightarrow> and_then r f = and_then r' g"
  by (cases r') simp_all

lemma validated_eq_Inr [result_simps]:
  "validated validate x = Inr y \<longleftrightarrow> validate x = Inr () \<and> y = x"
  by (auto simp: validated_def result_simps)

lemma try_each_eq_Inr [result_simps]:
  "try_each f xs = Inr u \<longleftrightarrow> (\<forall>x\<in>set xs. f x = Inr ())"
  by (induction xs) (auto simp: result_simps)

lemma try_map_eq_Inr [result_simps]:
  "try_map f xs = Inr ys \<longleftrightarrow> list_all2 (\<lambda>x y. f x = Inr y) xs ys"
  by (induction xs arbitrary: ys) (auto simp: result_simps list_all2_Cons1)

lemma try_map_cong [fundef_cong]:
  "xs = xs' \<Longrightarrow> (\<And>x. x \<in> set xs' \<Longrightarrow> f x = g x) \<Longrightarrow> try_map f xs = try_map g xs'"
  by (induction xs arbitrary: xs') (auto intro!: and_then_cong)

lemma try_each_cong [fundef_cong]:
  "xs = xs' \<Longrightarrow> (\<And>x. x \<in> set xs' \<Longrightarrow> f x = g x) \<Longrightarrow> try_each f xs = try_each g xs'"
  by (induction xs arbitrary: xs') (auto intro!: and_then_cong)

lemma try_fold_append:
  "try_fold f s (xs @ ys) = and_then (try_fold f s xs) (\<lambda>s'. try_fold f s' ys)"
  by (induction xs arbitrary: s) (auto simp: and_then_def split: sum.splits)

lemma try_map_total:
  "(\<And>x. x \<in> set xs \<Longrightarrow> f x = Inr (g x)) \<Longrightarrow> try_map f xs = Inr (map g xs)"
  by (induction xs) simp_all

text \<open>An invariant of the loop body is an invariant of the loop.\<close>

lemma try_fold_invariant:
  assumes "try_fold f s xs = Inr s'" "I s"
    and "\<And>s x t. x \<in> set xs \<Longrightarrow> I s \<Longrightarrow> f s x = Inr t \<Longrightarrow> I t"
  shows "I s'"
  using assms
proof (induction xs arbitrary: s)
  case (Cons x xs)
  then obtain t where t: "f s x = Inr t" "try_fold f t xs = Inr s'"
    by (auto simp: result_simps)
  have "I t" using Cons.prems t(1) by auto
  then show ?case using Cons.IH [OF t(2)] Cons.prems(3) by auto
qed simp

section \<open>A validator and the predicate it decides\<close>

text \<open>Several components run a contract validator as the last step before they hand an object
  on. Its interface is the well-formedness it decides.\<close>

locale contract_validator =
  fixes validate :: "'a \<Rightarrow> (unit, 'e) result" and well_formed :: "'a \<Rightarrow> bool"
  assumes validate_ok_iff: "validate x = Inr () \<longleftrightarrow> well_formed x"
begin

lemma gate_ok_iff: "validated validate x = Inr y \<longleftrightarrow> y = x \<and> well_formed x"
  by (auto simp: result_simps validate_ok_iff)

lemma gate_sound: "map_err f (validated validate x) = Inr y \<Longrightarrow> well_formed y"
  by (simp add: result_simps validate_ok_iff)

lemma gate_complete: "well_formed x \<Longrightarrow> map_err f (validated validate x) = Inr x"
  by (simp add: gate_ok_iff map_err_eq_Inr)

lemma gate_error: "\<not> well_formed x \<Longrightarrow> \<exists>e. validated validate x = Inl e \<and> validate x = Inl e"
  by (cases "validate x") (auto simp: validated_def validate_ok_iff [symmetric])

end

section \<open>Lists\<close>

lemma ball_enumerate:
  "(\<forall>p\<in>set (enumerate n xs). P p) \<longleftrightarrow> (\<forall>i<length xs. P (n + i, xs ! i))"
  by (induction xs arbitrary: n) (auto simp: less_Suc_eq_0_disj)

lemma set_map_filter: "set (List.map_filter f xs) = {y. \<exists>x\<in>set xs. f x = Some y}"
  by (induction xs) (auto simp: List.map_filter_simps split: option.splits)

lemma sorted_wrt_last: "sorted_wrt R xs \<Longrightarrow> x \<in> set xs \<Longrightarrow> x = last xs \<or> R x (last xs)"
  by (induction xs) (auto split: if_splits)

lemma distinct_map_map_filter:
  assumes "distinct (map g xs)" "\<And>x y. x \<in> set xs \<Longrightarrow> f x = Some y \<Longrightarrow> h y = g x"
  shows "distinct (map h (filter P (List.map_filter f xs)))"
  using assms
proof (induction xs)
  case (Cons x xs)
  have other: "h y \<noteq> g x" if y: "y \<in> set (List.map_filter f xs)" for y
  proof -
    obtain z where "z \<in> set xs" "f z = Some y" using y by (auto simp: set_map_filter)
    then have "h y = g z" "g z \<in> g ` set xs" using Cons.prems(2) [of z y] by auto
    then show ?thesis using Cons.prems(1) by auto
  qed
  have IH: "distinct (map h (filter P (List.map_filter f xs)))" using Cons by auto
  show ?case
  proof (cases "f x")
    case (Some y)
    then have "h y = g x" using Cons.prems(2) by simp
    then show ?thesis using IH other Some by (force simp: List.map_filter_simps)
  qed (simp add: List.map_filter_simps IH)
qed (simp add: List.map_filter_simps)

lemma list_all2_choice: "(\<forall>x\<in>set xs. \<exists>y. P x y) \<Longrightarrow> \<exists>ys. list_all2 P xs ys"
  by (induction xs) (auto simp: list_all2_Cons1)

lemma list_all2_map_eq: "list_all2 (\<lambda>x y. y = f x) xs ys \<longleftrightarrow> ys = map f xs"
  by (induction xs arbitrary: ys) (auto simp: list_all2_Cons1)

end
