(* ===== verification/Rust_Std.thy ===== *)
theory Rust_Std
  imports Cerbero_Prelude
begin

text \<open>
  What the sources use of Rust's standard library. A \<open>str\<close> or a byte slice is the list of its
  bytes, each byte a \<open>char\<close> (so \<open>len\<close> is the length of the list and a text literal is its UTF-8
  encoding). The order on strings is the byte-wise lexicographic one, as \<open>Ord\<close> for \<open>str\<close> has it.
  Signed machine integers are \<open>int\<close> with the range written out, unsigned ones are words.
\<close>

section \<open>Bytes\<close>

definition byte :: "char \<Rightarrow> nat" where
  "byte c = of_char c"

definition is_ascii_digit :: "char \<Rightarrow> bool" where
  "is_ascii_digit c \<longleftrightarrow> 48 \<le> byte c \<and> byte c \<le> 57"

definition is_ascii_lowercase :: "char \<Rightarrow> bool" where
  "is_ascii_lowercase c \<longleftrightarrow> 97 \<le> byte c \<and> byte c \<le> 122"

definition is_ascii_uppercase :: "char \<Rightarrow> bool" where
  "is_ascii_uppercase c \<longleftrightarrow> 65 \<le> byte c \<and> byte c \<le> 90"

definition is_ascii_hexdigit :: "char \<Rightarrow> bool" where
  "is_ascii_hexdigit c \<longleftrightarrow> is_ascii_digit c \<or> (97 \<le> byte c \<and> byte c \<le> 102) \<or> (65 \<le> byte c \<and> byte c \<le> 70)"

definition is_lower_hexdigit :: "char \<Rightarrow> bool" where
  "is_lower_hexdigit c \<longleftrightarrow> is_ascii_digit c \<or> (97 \<le> byte c \<and> byte c \<le> 102)"

definition to_ascii_lowercase :: "char \<Rightarrow> char" where
  "to_ascii_lowercase c = (if is_ascii_uppercase c then char_of (byte c + 32) else c)"

lemmas byte_class_defs = byte_def is_ascii_digit_def is_ascii_lowercase_def is_ascii_uppercase_def
  is_ascii_hexdigit_def is_lower_hexdigit_def to_ascii_lowercase_def

section \<open>Trimming white space\<close>

text \<open>\<open>str::trim\<close> removes the characters with the Unicode property White_Space at both ends:
  U+0009 to U+000D, U+0020, U+0085, U+00A0, U+1680, U+2000 to U+200A, U+2028, U+2029, U+202F,
  U+205F and U+3000. Below they are recognised by their UTF-8 encodings of one, two or three
  bytes.\<close>

definition ws1 :: "char \<Rightarrow> bool" where
  "ws1 a \<longleftrightarrow> (9 \<le> byte a \<and> byte a \<le> 13) \<or> byte a = 32"

definition ws2 :: "char \<Rightarrow> char \<Rightarrow> bool" where
  "ws2 a b \<longleftrightarrow> byte a = 194 \<and> (byte b = 133 \<or> byte b = 160)"

definition ws3 :: "char \<Rightarrow> char \<Rightarrow> char \<Rightarrow> bool" where
  "ws3 a b c \<longleftrightarrow>
     (byte a = 225 \<and> byte b = 154 \<and> byte c = 128)
   \<or> (byte a = 226 \<and> byte b = 128 \<and> ((128 \<le> byte c \<and> byte c \<le> 138) \<or> byte c = 168 \<or> byte c = 169 \<or> byte c = 175))
   \<or> (byte a = 226 \<and> byte b = 129 \<and> byte c = 159)
   \<or> (byte a = 227 \<and> byte b = 128 \<and> byte c = 128)"

fun trim_start :: "string \<Rightarrow> string" where
  "trim_start [] = []"
| "trim_start [a] = (if ws1 a then [] else [a])"
| "trim_start [a, b] = (if ws1 a then trim_start [b] else if ws2 a b then [] else [a, b])"
| "trim_start (a # b # c # s) =
    (if ws1 a then trim_start (b # c # s)
     else if ws2 a b then trim_start (c # s)
     else if ws3 a b c then trim_start s
     else a # b # c # s)"

text \<open>The same from the end, on the reversed string.\<close>

fun trim_end_rev :: "string \<Rightarrow> string" where
  "trim_end_rev [] = []"
| "trim_end_rev [a] = (if ws1 a then [] else [a])"
| "trim_end_rev [b, a] = (if ws1 b then trim_end_rev [a] else if ws2 a b then [] else [b, a])"
| "trim_end_rev (c # b # a # s) =
    (if ws1 c then trim_end_rev (b # a # s)
     else if ws2 b c then trim_end_rev (a # s)
     else if ws3 a b c then trim_end_rev s
     else c # b # a # s)"

definition trim_end :: "string \<Rightarrow> string" where
  "trim_end s = rev (trim_end_rev (rev s))"

definition trim :: "string \<Rightarrow> string" where
  "trim s = trim_end (trim_start s)"

text \<open>A byte that occurs in no encoding of a white-space character survives trimming, so every
  text that contains one is not blank.\<close>

definition solid :: "char \<Rightarrow> bool" where
  "solid c \<longleftrightarrow> 33 \<le> byte c \<and> byte c \<le> 127"

lemma solid_not_ws:
  assumes "solid c"
  shows "\<not> ws1 c" "\<not> ws2 c b" "\<not> ws2 a c" "\<not> ws3 c a b" "\<not> ws3 a c b" "\<not> ws3 a b c"
  using assms by (auto simp: solid_def ws1_def ws2_def ws3_def)

lemma trim_start_keeps: "solid x \<Longrightarrow> x \<in> set s \<Longrightarrow> x \<in> set (trim_start s)"
  by (induction s rule: trim_start.induct) (auto simp: solid_not_ws)

lemma trim_end_rev_keeps: "solid x \<Longrightarrow> x \<in> set s \<Longrightarrow> x \<in> set (trim_end_rev s)"
  by (induction s rule: trim_end_rev.induct) (auto simp: solid_not_ws)

lemma trim_keeps: "solid x \<Longrightarrow> x \<in> set s \<Longrightarrow> x \<in> set (trim s)"
  by (simp add: trim_def trim_end_def trim_start_keeps trim_end_rev_keeps)

lemma trim_nonempty: "solid x \<Longrightarrow> x \<in> set s \<Longrightarrow> trim s \<noteq> []"
  using trim_keeps by fastforce

lemma trim_Nil [simp]: "trim [] = []"
  by (simp add: trim_def trim_end_def)

section \<open>Prefixes\<close>

fun strip_prefix :: "string \<Rightarrow> string \<Rightarrow> string option" where
  "strip_prefix [] s = Some s"
| "strip_prefix (p # ps) [] = None"
| "strip_prefix (p # ps) (c # s) = (if p = c then strip_prefix ps s else None)"

lemma strip_prefix_eq_Some: "strip_prefix p s = Some t \<longleftrightarrow> s = p @ t"
  by (induction p s rule: strip_prefix.induct) auto

lemma strip_prefix_eq_None: "strip_prefix p s = None \<longleftrightarrow> (\<forall>t. s \<noteq> p @ t)"
  by (induction p s rule: strip_prefix.induct) auto

section \<open>Splitting at a separator\<close>

text \<open>\<open>str::split\<close> on an ASCII separator: the pieces between the separators, at least one.\<close>

fun split_on :: "char \<Rightarrow> string \<Rightarrow> string list" where
  "split_on sep [] = [[]]"
| "split_on sep (c # s) =
    (if c = sep then [] # split_on sep s
     else (case split_on sep s of [] \<Rightarrow> [[c]] | p # ps \<Rightarrow> (c # p) # ps))"

fun join_with :: "char \<Rightarrow> string list \<Rightarrow> string" where
  "join_with sep [] = []"
| "join_with sep [p] = p"
| "join_with sep (p # q # ps) = p @ sep # join_with sep (q # ps)"

lemma split_on_nonempty: "split_on sep s \<noteq> []"
  by (induction s) (auto split: list.splits)

lemma join_split: "join_with sep (split_on sep s) = s"
proof (induction s)
  case (Cons c s)
  then show ?case
    using split_on_nonempty [of sep s]
    by (cases "split_on sep s"; cases "tl (split_on sep s)") auto
qed simp

lemma split_on_no_sep: "p \<in> set (split_on sep s) \<Longrightarrow> sep \<notin> set p"
proof (induction s arbitrary: p)
  case (Cons c s)
  then show ?case using split_on_nonempty [of sep s]
    by (cases "split_on sep s") (auto split: if_splits)
qed simp

section \<open>Machine integers\<close>

abbreviation i64_min :: int where "i64_min \<equiv> - (2 ^ 63)"
abbreviation i64_max :: int where "i64_max \<equiv> 2 ^ 63 - 1"

definition fits_i64 :: "int \<Rightarrow> bool" where
  "fits_i64 x \<longleftrightarrow> i64_min \<le> x \<and> x \<le> i64_max"

definition fits_i32 :: "int \<Rightarrow> bool" where
  "fits_i32 x \<longleftrightarrow> - (2 ^ 31) \<le> x \<and> x \<le> 2 ^ 31 - 1"

definition checked_i64 :: "int \<Rightarrow> int option" where
  "checked_i64 x = (if fits_i64 x then Some x else None)"

definition checked_add_i64 :: "int \<Rightarrow> int \<Rightarrow> int option" where
  "checked_add_i64 a b = checked_i64 (a + b)"

definition checked_mul_i64 :: "int \<Rightarrow> int \<Rightarrow> int option" where
  "checked_mul_i64 a b = checked_i64 (a * b)"

lemma checked_i64_eq_Some [simp]: "checked_i64 x = Some y \<longleftrightarrow> fits_i64 x \<and> y = x"
  by (auto simp: checked_i64_def)

text \<open>\<open>u32::try_from\<close> and \<open>u64::try_from\<close> of a length.\<close>

definition u32_try_from :: "nat \<Rightarrow> 32 word option" where
  "u32_try_from n = (if n < 2 ^ 32 then Some (of_nat n) else None)"

definition u64_try_from :: "nat \<Rightarrow> 64 word option" where
  "u64_try_from n = (if n < 2 ^ 64 then Some (of_nat n) else None)"

text \<open>\<open>i64::try_from\<close> and \<open>usize::try_from\<close> of a \<open>u64\<close>; the target is a 64-bit one, where the
  latter always succeeds.\<close>

definition i64_try_from :: "64 word \<Rightarrow> int option" where
  "i64_try_from w = checked_i64 (uint w)"

definition usize_try_from :: "64 word \<Rightarrow> nat option" where
  "usize_try_from w = (if unat w < 2 ^ 64 then Some (unat w) else None)"

lemma unat_bound: "unat w < 2 ^ LENGTH('l)" for w :: "'l :: len word"
  by (rule unsigned_less)

lemma unat_bound_u32: "unat (w :: 32 word) < 2 ^ 32"
  using unat_bound [of w] by simp

lemma unat_bound_u64: "unat (w :: 64 word) < 2 ^ 64"
  using unat_bound [of w] by simp

lemma usize_try_from_eq [simp]: "usize_try_from w = Some (unat w)"
  using unat_bound_u64 [of w] by (simp add: usize_try_from_def)

lemma i64_try_from_eq_Some: "i64_try_from w = Some i \<longleftrightarrow> uint w < 2 ^ 63 \<and> i = uint w"
  by (auto simp: i64_try_from_def fits_i64_def intro: order_trans [of _ 0])

lemma i64_try_from_nonneg: "i64_try_from w = Some i \<Longrightarrow> 0 \<le> i"
  by (simp add: i64_try_from_eq_Some)

lemma u32_try_from_eq_Some: "u32_try_from n = Some w \<longleftrightarrow> unat w = n"
  using unat_bound_u32 [of w] by (auto simp: u32_try_from_def unat_of_nat)

lemma u64_try_from_eq_Some: "u64_try_from n = Some w \<longleftrightarrow> unat w = n"
  using unat_bound_u64 [of w] by (auto simp: u64_try_from_def unat_of_nat)

section \<open>Decimal numbers\<close>

definition digit_char :: "nat \<Rightarrow> char" where
  "digit_char d = char_of (48 + d)"

fun show_nat :: "nat \<Rightarrow> string" where
  "show_nat n = (if n < 10 then [digit_char n] else show_nat (n div 10) @ [digit_char (n mod 10)])"

declare show_nat.simps [simp del]

definition show_int :: "int \<Rightarrow> string" where
  "show_int i = (if i < 0 then CHR ''-'' # show_nat (nat (- i)) else show_nat (nat i))"

text \<open>The value of a string of digits, the accumulator first.\<close>

fun digits_value :: "nat \<Rightarrow> string \<Rightarrow> nat" where
  "digits_value acc [] = acc"
| "digits_value acc (c # s) = digits_value (acc * 10 + (byte c - 48)) s"

text \<open>\<open>str::parse::<u64>\<close>: an optional plus sign, then digits whose value fits.\<close>

definition parse_u64 :: "string \<Rightarrow> 64 word option" where
  "parse_u64 s =
    (let digits = (case s of [] \<Rightarrow> [] | c # cs \<Rightarrow> if c = CHR ''+'' then cs else s) in
     if digits = [] \<or> \<not> list_all is_ascii_digit digits then None
     else if digits_value 0 digits < 2 ^ 64 then Some (of_nat (digits_value 0 digits)) else None)"

definition checked_mul_u64 :: "64 word \<Rightarrow> 64 word \<Rightarrow> 64 word option" where
  "checked_mul_u64 a b = (if unat a * unat b < 2 ^ 64 then Some (a * b) else None)"

text \<open>\<open>str::split_at\<close> panics (here \<open>None\<close>) unless the index is on a character boundary, that is, at
  the end or at a byte that does not continue a UTF-8 sequence.\<close>

definition is_char_boundary :: "string \<Rightarrow> nat \<Rightarrow> bool" where
  "is_char_boundary s i \<longleftrightarrow> i = 0 \<or> i = length s \<or> (i < length s \<and> \<not> (128 \<le> byte (s ! i) \<and> byte (s ! i) < 192))"

definition split_at :: "string \<Rightarrow> nat \<Rightarrow> (string \<times> string) option" where
  "split_at s i = (if is_char_boundary s i then Some (take i s, drop i s) else None)"

definition to_ascii_uppercase :: "char \<Rightarrow> char" where
  "to_ascii_uppercase c = (if is_ascii_lowercase c then char_of (byte c - 32) else c)"

lemma byte_digit_char: "d < 10 \<Longrightarrow> byte (digit_char d) = 48 + d"
  by (simp add: byte_def digit_char_def)

lemma is_ascii_digit_digit_char: "d < 10 \<Longrightarrow> is_ascii_digit (digit_char d)"
  by (simp add: is_ascii_digit_def byte_digit_char)

lemma digits_value_append: "digits_value acc (s @ t) = digits_value (digits_value acc s) t"
  by (induction s arbitrary: acc) simp_all

lemma show_nat_digits: "\<forall>c\<in>set (show_nat n). is_ascii_digit c"
  by (induction n rule: show_nat.induct)
    (subst show_nat.simps, auto simp: is_ascii_digit_digit_char)

lemma checked_mul_u64_eq_Some: "checked_mul_u64 a b = Some c \<longleftrightarrow> unat c = unat a * unat b"
  using unat_bound_u64 [of c]
  by (auto simp: checked_mul_u64_def unat_word_ariths word_unat_eq_iff)

lemma show_nat_nonempty: "show_nat n \<noteq> []"
  by (subst show_nat.simps) auto

lemma digits_value_show_nat: "digits_value 0 (show_nat n) = n"
proof (induction n rule: show_nat.induct)
  case (1 n)
  then show ?case
    by (subst show_nat.simps) (auto simp: digits_value_append byte_digit_char)
qed

lemma parse_u64_digits:
  assumes "s \<noteq> []" "\<forall>c\<in>set s. is_ascii_digit c"
  shows "parse_u64 s = (if digits_value 0 s < 2 ^ 64 then Some (of_nat (digits_value 0 s)) else None)"
proof -
  have "hd s \<noteq> CHR ''+''" using assms by (cases s) (auto simp: byte_class_defs)
  then show ?thesis using assms by (cases s) (auto simp: parse_u64_def Let_def list_all_iff)
qed

lemma parse_u64_show_nat: "n < 2 ^ 64 \<Longrightarrow> parse_u64 (show_nat n) = Some (of_nat n)"
  using parse_u64_digits [OF show_nat_nonempty show_nat_digits, of n] by (simp add: digits_value_show_nat)

end
