(* ===== verification/Contracts.thy ===== *)
theory Contracts
  imports Complex_Main Rust_Std
begin

text \<open>
  The wire contracts of cerbero-common and their validators
  (\<open>cerbero-common/src/contracts/validation.rs\<close>, structs from the generated
  \<open>cerbero.contracts.v1.rs\<close>): identities, timestamps, hash metadata, the event-bus envelope, raw
  and persisted raw events, normalized events and transformations. For each validator there is a
  well-formedness predicate and the proof that the validator decides it. The SHA-256 function of
  the sha2 crate is the parameter \<open>digest\<close>; what is used of it is that a digest has 32 bytes.
\<close>

section \<open>Violations\<close>

record contract_violation =
  cv_field :: string
  cv_reason :: string

definition violation :: "string \<Rightarrow> string \<Rightarrow> contract_violation" where
  "violation field reason = \<lparr>cv_field = field, cv_reason = reason\<rparr>"

definition display_violation :: "contract_violation \<Rightarrow> string" where
  "display_violation v = cv_field v @ '': '' @ cv_reason v"

type_synonym checked = "(unit, contract_violation) result"

section \<open>UUID version 7\<close>

definition hyphen_positions :: "nat list" where
  "hyphen_positions = [8, 13, 18, 23]"

definition validate_uuid_v7 :: "string \<Rightarrow> string \<Rightarrow> checked" where
  "validate_uuid_v7 field bytes =
    (if length bytes \<noteq> 36 \<or> bytes ! 8 \<noteq> CHR ''-'' \<or> bytes ! 13 \<noteq> CHR ''-''
        \<or> bytes ! 18 \<noteq> CHR ''-'' \<or> bytes ! 23 \<noteq> CHR ''-''
     then Inl (violation field ''must be a canonical UUID string'')
     else and_then
       (try_each (\<lambda>(index, b).
          if index \<in> set hyphen_positions then Inr ()
          else if \<not> is_ascii_hexdigit b then Inl (violation field ''contains non-hexadecimal characters'')
          else Inr ()) (enumerate 0 bytes))
       (\<lambda>_. if bytes ! 14 \<noteq> CHR ''7'' then Inl (violation field ''must use UUID version 7'')
            else if to_ascii_lowercase (bytes ! 19) \<notin> {CHR ''8'', CHR ''9'', CHR ''a'', CHR ''b''}
            then Inl (violation field ''must use the RFC UUID variant'')
            else Inr ()))"

text \<open>The canonical form: five groups of hexadecimal digits of 8, 4, 4, 4 and 12 characters joined
  by hyphens, the third starting with the version and the fourth with the variant.\<close>

definition uuid_v7 :: "string \<Rightarrow> bool" where
  "uuid_v7 s \<longleftrightarrow> length s = 36
     \<and> (\<forall>i<36. if i \<in> {8, 13, 18, 23} then s ! i = CHR ''-'' else is_ascii_hexdigit (s ! i))
     \<and> s ! 14 = CHR ''7''
     \<and> to_ascii_lowercase (s ! 19) \<in> {CHR ''8'', CHR ''9'', CHR ''a'', CHR ''b''}"

section \<open>Timestamps\<close>

record timestamp =
  seconds :: int
  nanos :: int

definition PROTO_TIMESTAMP_MIN_SECONDS :: int where
  "PROTO_TIMESTAMP_MIN_SECONDS = -62135596800"

definition PROTO_TIMESTAMP_MAX_SECONDS :: int where
  "PROTO_TIMESTAMP_MAX_SECONDS = 253402300799"

definition PROTO_TIMESTAMP_MAX_NANOS :: int where
  "PROTO_TIMESTAMP_MAX_NANOS = 999999999"

lemmas proto_timestamp_defs =
  PROTO_TIMESTAMP_MIN_SECONDS_def PROTO_TIMESTAMP_MAX_SECONDS_def PROTO_TIMESTAMP_MAX_NANOS_def

definition validate_timestamp :: "string \<Rightarrow> timestamp \<Rightarrow> checked" where
  "validate_timestamp field ts =
    (if \<not> (PROTO_TIMESTAMP_MIN_SECONDS \<le> seconds ts \<and> seconds ts \<le> PROTO_TIMESTAMP_MAX_SECONDS)
     then Inl (violation field ''seconds are outside the Protobuf Timestamp range'')
     else if \<not> (0 \<le> nanos ts \<and> nanos ts \<le> PROTO_TIMESTAMP_MAX_NANOS)
     then Inl (violation field ''nanoseconds must be between 0 and 999999999'')
     else Inr ())"

definition valid_timestamp :: "timestamp \<Rightarrow> bool" where
  "valid_timestamp ts \<longleftrightarrow> seconds ts \<in> {-62135596800..253402300799} \<and> nanos ts \<in> {0..999999999}"

definition validate_required_timestamp :: "string \<Rightarrow> timestamp option \<Rightarrow> checked" where
  "validate_required_timestamp field ts =
    and_then (ok_or (violation field ''is required'') ts) (validate_timestamp field)"

definition timestamp_le :: "timestamp \<Rightarrow> timestamp \<Rightarrow> bool" where
  "timestamp_le left right \<longleftrightarrow> (seconds left, nanos left) \<le> (seconds right, nanos right)"

text \<open>\<open>if let Some(event_time)\<close>: an absent timestamp is accepted, a present one is checked.\<close>

definition validate_optional_timestamp :: "string \<Rightarrow> timestamp option \<Rightarrow> checked" where
  "validate_optional_timestamp field ts =
    (case ts of None \<Rightarrow> Inr () | Some t \<Rightarrow> validate_timestamp field t)"

section \<open>Hash metadata\<close>

definition hex_digit :: "nat \<Rightarrow> char" where
  "hex_digit d = (if d < 10 then char_of (48 + d) else char_of (87 + d))"

definition hex_byte :: "char \<Rightarrow> string" where
  "hex_byte b = [hex_digit (byte b div 16), hex_digit (byte b mod 16)]"

definition sha256_lower_hex :: "(string \<Rightarrow> string) \<Rightarrow> string \<Rightarrow> string" where
  "sha256_lower_hex digest bytes = concat (map hex_byte (digest bytes))"

definition validate_sha256_metadata :: "string \<Rightarrow> string \<Rightarrow> string \<Rightarrow> string \<Rightarrow> checked" where
  "validate_sha256_metadata algorithm_field hash_field algorithm hash =
    (if algorithm \<noteq> ''sha256'' then Inl (violation algorithm_field ''must equal sha256'')
     else if length hash \<noteq> 64 \<or> \<not> list_all is_lower_hexdigit hash
     then Inl (violation hash_field ''must be a 64-character lowercase hexadecimal SHA-256 digest'')
     else Inr ())"

definition validate_sha256 ::
  "(string \<Rightarrow> string) \<Rightarrow> string \<Rightarrow> string \<Rightarrow> string \<Rightarrow> string \<Rightarrow> string \<Rightarrow> checked" where
  "validate_sha256 digest algorithm_field hash_field algorithm hash bytes =
    and_then (validate_sha256_metadata algorithm_field hash_field algorithm hash) (\<lambda>_.
      if sha256_lower_hex digest bytes \<noteq> hash
      then Inl (violation hash_field ''does not match the exact raw payload bytes'')
      else Inr ())"

definition valid_sha256_text :: "string \<Rightarrow> bool" where
  "valid_sha256_text h \<longleftrightarrow> length h = 64 \<and> (\<forall>c\<in>set h. is_lower_hexdigit c)"

section \<open>Messages\<close>

record producer =
  pr_component :: string
  pr_component_version :: string
  pr_instance_id :: string

record any_payload =
  any_type_url :: string
  any_value :: string

record envelope =
  en_contract_version :: string
  en_message_id :: string
  en_message_type :: string
  en_tenant_id :: string
  en_producer :: "producer option"
  en_emitted_at :: "timestamp option"
  en_trace_id :: string
  en_causation_id :: string
  en_correlation_id :: string
  en_payload_schema :: string
  en_payload :: "any_payload option"

record cerbero_error =
  ce_code :: string
  ce_category :: int
  ce_message :: string
  ce_retryable :: bool
  ce_component :: string
  ce_request_id :: string
  ce_metadata :: "string \<rightharpoonup> string"

record raw_event =
  re_event_id :: string
  re_tenant_id :: string
  re_source_id :: string
  re_sensor_id :: string
  re_event_time :: "timestamp option"
  re_ingest_time :: "timestamp option"
  re_content_type :: string
  re_encoding :: string
  re_raw_payload :: string
  re_raw_size :: "64 word"
  re_raw_hash_algorithm :: string
  re_raw_hash :: string
  re_transport :: string
  re_remote_identity :: string
  re_sequence_number :: "64 word option"
  re_integrity_status :: int
  re_pipeline_version :: string

record raw_event_persisted =
  rp_event_id :: string
  rp_tenant_id :: string
  rp_source_id :: string
  rp_sensor_id :: string
  rp_event_time :: "timestamp option"
  rp_ingest_time :: "timestamp option"
  rp_content_type :: string
  rp_encoding :: string
  rp_raw_size :: "64 word"
  rp_raw_hash_algorithm :: string
  rp_raw_hash :: string
  rp_transport :: string
  rp_remote_identity :: string
  rp_sequence_number :: "64 word option"
  rp_integrity_status :: int
  rp_pipeline_version :: string
  rp_storage_uri :: string
  rp_segment_id :: string
  rp_offset :: "64 word"
  rp_length :: "64 word"
  rp_persisted_at :: "timestamp option"

record transformation =
  tf_transformation_id :: string
  tf_input_object_id :: string
  tf_input_object_type :: string
  tf_output_object_id :: string
  tf_output_object_type :: string
  tf_component :: string
  tf_component_version :: string
  tf_configuration_hash :: string
  tf_started_at :: "timestamp option"
  tf_completed_at :: "timestamp option"
  tf_status :: int
  tf_error :: "cerbero_error option"
  tf_execution_mode :: int

text \<open>The dynamic values of \<open>google.protobuf.Struct\<close>, whose fields are a \<open>BTreeMap\<close>: an association
  list in key order. A double is a finite number (a rational), an infinity or NaN; NaN compares
  unequal to everything.\<close>

datatype f64 = Finite rat | Pos_Inf | Neg_Inf | NaN

datatype pvalue = Value (kind: "pkind option")
and pkind =
    NullValue int
  | NumberValue f64
  | StringValue string
  | BoolValue bool
  | StructValue "(string \<times> pvalue) list"
  | ListValue "pvalue list"

record normalized_event =
  ne_normalized_event_id :: string
  ne_raw_event_id :: string
  ne_tenant_id :: string
  ne_normalized_at :: "timestamp option"
  ne_ocsf_version :: string
  ne_class_uid :: "32 word"
  ne_category_uid :: "32 word"
  ne_severity :: "32 word option"
  ne_activity_id :: "32 word option"
  ne_ocsf_event :: "(string \<times> pvalue) list option"
  ne_parser_id :: string
  ne_parser_version :: string
  ne_normalization_status :: int
  ne_normalized_hash_algorithm :: string
  ne_normalized_hash :: string
  ne_pipeline_version :: string

definition validate_envelope :: "envelope \<Rightarrow> checked" where
  "validate_envelope en =
    (if en_contract_version en \<noteq> ''1''
     then Inl (violation ''contract_version'' ''must equal 1 for v1 envelopes'')
     else and_then (validate_uuid_v7 ''message_id'' (en_message_id en)) (\<lambda>_.
     if en_message_type en = '''' then Inl (violation ''message_type'' ''is required'')
     else and_then (ok_or (violation ''producer'' ''is required'') (en_producer en)) (\<lambda>producer.
     if pr_component producer = '''' then Inl (violation ''producer.component'' ''is required'')
     else if pr_component_version producer = ''''
     then Inl (violation ''producer.component_version'' ''is required'')
     else and_then (validate_required_timestamp ''emitted_at'' (en_emitted_at en)) (\<lambda>_.
     if en_payload_schema en = '''' then Inl (violation ''payload_schema'' ''is required'')
     else if en_payload en = None then Inl (violation ''payload'' ''is required'')
     else Inr ()))))"

definition validate_raw_event :: "(string \<Rightarrow> string) \<Rightarrow> raw_event \<Rightarrow> checked" where
  "validate_raw_event digest ev =
    and_then (validate_uuid_v7 ''event_id'' (re_event_id ev)) (\<lambda>_.
    and_then (validate_optional_timestamp ''event_time'' (re_event_time ev)) (\<lambda>_.
    and_then (validate_required_timestamp ''ingest_time'' (re_ingest_time ev)) (\<lambda>_.
    and_then (ok_or (violation ''raw_size'' ''payload length does not fit uint64'')
                (u64_try_from (length (re_raw_payload ev)))) (\<lambda>payload_len.
    if re_raw_size ev \<noteq> payload_len
    then Inl (violation ''raw_size'' ''does not match raw_payload byte length'')
    else validate_sha256 digest ''raw_hash_algorithm'' ''raw_hash''
           (re_raw_hash_algorithm ev) (re_raw_hash ev) (re_raw_payload ev)))))"

definition validate_raw_event_persisted :: "raw_event_persisted \<Rightarrow> checked" where
  "validate_raw_event_persisted ev =
    and_then (validate_uuid_v7 ''event_id'' (rp_event_id ev)) (\<lambda>_.
    and_then (try_each (\<lambda>(field, value).
        if value = '''' then Inl (violation field ''is required'') else Inr ())
      [(''tenant_id'', rp_tenant_id ev), (''source_id'', rp_source_id ev),
       (''pipeline_version'', rp_pipeline_version ev), (''storage_uri'', rp_storage_uri ev),
       (''segment_id'', rp_segment_id ev)]) (\<lambda>_.
    and_then (validate_optional_timestamp ''event_time'' (rp_event_time ev)) (\<lambda>_.
    and_then (validate_required_timestamp ''ingest_time'' (rp_ingest_time ev)) (\<lambda>_.
    and_then (validate_required_timestamp ''persisted_at'' (rp_persisted_at ev)) (\<lambda>_.
    and_then (validate_sha256_metadata ''raw_hash_algorithm'' ''raw_hash''
                (rp_raw_hash_algorithm ev) (rp_raw_hash ev)) (\<lambda>_.
    if rp_length ev \<noteq> rp_raw_size ev then Inl (violation ''length'' ''must equal raw_size'')
    else Inr ()))))))"

definition validate_normalized_event :: "normalized_event \<Rightarrow> checked" where
  "validate_normalized_event ev =
    and_then (validate_uuid_v7 ''normalized_event_id'' (ne_normalized_event_id ev)) (\<lambda>_.
    and_then (validate_uuid_v7 ''raw_event_id'' (ne_raw_event_id ev)) (\<lambda>_.
    validate_required_timestamp ''normalized_at'' (ne_normalized_at ev)))"

definition validate_transformation :: "transformation \<Rightarrow> checked" where
  "validate_transformation t =
    and_then (validate_uuid_v7 ''transformation_id'' (tf_transformation_id t)) (\<lambda>_.
    and_then (validate_required_timestamp ''started_at'' (tf_started_at t)) (\<lambda>_.
    and_then (validate_required_timestamp ''completed_at'' (tf_completed_at t)) (\<lambda>_.
    if tf_status t = 0 then Inl (violation ''status'' ''must not be unspecified'')
    else if tf_execution_mode t = 0
    then Inl (violation ''execution_mode'' ''must distinguish LIVE, REPLAY, or TEST'')
    else if tf_status t = 2 \<and> tf_error t = None
    then Inl (violation ''error'' ''is required when transformation status is FAILED'')
    else Inr ())))"

section \<open>What the validators decide\<close>

lemma uuid_positions:
  "(\<forall>i<36::nat. if i \<in> {8, 13, 18, 23} then P i else Q i) \<longleftrightarrow>
     P 8 \<and> P 13 \<and> P 18 \<and> P 23 \<and> (\<forall>i<36. i \<notin> {8, 13, 18, 23} \<longrightarrow> Q i)"
  (is "?l \<longleftrightarrow> ?r")
proof
  assume l: ?l
  show ?r using l [rule_format, of 8] l [rule_format, of 13] l [rule_format, of 18]
      l [rule_format, of 23] l by simp
next
  assume ?r
  then show ?l by auto
qed

lemma uuid_hex_loop:
  "(\<forall>p\<in>set (enumerate 0 s). (case p of (i, b) \<Rightarrow>
      if i \<in> set hyphen_positions then Inr ()
      else if \<not> is_ascii_hexdigit b then Inl e else Inr ()) = Inr ())
   \<longleftrightarrow> (\<forall>i<length s. i \<notin> {8, 13, 18, 23} \<longrightarrow> is_ascii_hexdigit (s ! i))"
  by (auto simp: ball_enumerate hyphen_positions_def)

lemma validate_uuid_v7_ok [result_simps]: "validate_uuid_v7 field s = Inr u \<longleftrightarrow> uuid_v7 s"
proof (cases "length s = 36")
  case True
  then show ?thesis
    unfolding validate_uuid_v7_def uuid_v7_def uuid_positions
    by (cases u)
      (simp only: result_simps uuid_hex_loop de_Morgan_disj not_not conj_assoc simp_thms ex_simps)
next
  case False
  then show ?thesis by (simp add: validate_uuid_v7_def uuid_v7_def)
qed

lemma uuid_v7_length [dest]: "uuid_v7 s \<Longrightarrow> length s = 36"
  by (simp add: uuid_v7_def)

lemma validate_timestamp_ok [result_simps]: "validate_timestamp field ts = Inr u \<longleftrightarrow> valid_timestamp ts"
  by (auto simp: validate_timestamp_def valid_timestamp_def proto_timestamp_defs)

lemma validate_required_timestamp_ok [result_simps]:
  "validate_required_timestamp field ts = Inr u \<longleftrightarrow> (\<exists>t. ts = Some t \<and> valid_timestamp t)"
  by (auto simp: validate_required_timestamp_def result_simps)

lemma validate_optional_timestamp_ok [result_simps]:
  "validate_optional_timestamp field ts = Inr u \<longleftrightarrow> (\<forall>t. ts = Some t \<longrightarrow> valid_timestamp t)"
  by (auto simp: validate_optional_timestamp_def result_simps split: option.splits)

lemma validate_sha256_metadata_ok [result_simps]:
  "validate_sha256_metadata af hf alg h = Inr u \<longleftrightarrow> alg = ''sha256'' \<and> valid_sha256_text h"
  by (auto simp: validate_sha256_metadata_def valid_sha256_text_def list_all_iff)

lemma validate_sha256_ok [result_simps]:
  "validate_sha256 digest af hf alg h bytes = Inr u \<longleftrightarrow>
     alg = ''sha256'' \<and> valid_sha256_text h \<and> h = sha256_lower_hex digest bytes"
  by (auto simp: validate_sha256_def result_simps)

subsection \<open>The hash text\<close>

lemma byte_lt_256: "byte c < 256"
  by (simp add: byte_def)

lemma byte_char_of: "n < 256 \<Longrightarrow> byte (char_of n) = n"
  by (simp add: byte_def)

lemma is_lower_hexdigit_hex_digit: "d < 16 \<Longrightarrow> is_lower_hexdigit (hex_digit d)"
  by (auto simp: hex_digit_def is_lower_hexdigit_def is_ascii_digit_def byte_char_of)

lemma hex_digit_inject: "d < 16 \<Longrightarrow> d' < 16 \<Longrightarrow> hex_digit d = hex_digit d' \<longleftrightarrow> d = d'"
  by (auto simp: hex_digit_def dest!: arg_cong [where f = byte] simp: byte_char_of split: if_splits)

lemma hex_byte_inject: "hex_byte b = hex_byte b' \<longleftrightarrow> b = b'"
proof
  assume "hex_byte b = hex_byte b'"
  then have "byte b div 16 = byte b' div 16" "byte b mod 16 = byte b' mod 16"
    using byte_lt_256 [of b] byte_lt_256 [of b']
    by (simp_all add: hex_byte_def hex_digit_inject less_mult_imp_div_less)
  then have "byte b = byte b'" by (metis div_mod_decomp)
  then show "b = b'" by (simp add: byte_def)
qed simp

lemma hex_text_digits:
  "\<forall>c\<in>set (concat (map hex_byte d)). is_lower_hexdigit c"
  using byte_lt_256 by (auto simp: hex_byte_def less_mult_imp_div_less intro!: is_lower_hexdigit_hex_digit)

lemma length_hex_text: "length (concat (map hex_byte d)) = 2 * length d"
  by (induction d) (simp_all add: hex_byte_def)

lemma hex_text_inject: "concat (map hex_byte d) = concat (map hex_byte d') \<longleftrightarrow> d = d'"
proof (induction d arbitrary: d')
  case Nil
  then show ?case by (cases d') (simp_all add: hex_byte_def)
next
  case (Cons b d)
  show ?case
  proof (cases d')
    case Nil
    then show ?thesis by (simp add: hex_byte_def)
  next
    case (Cons b' e)
    have "length (hex_byte b) = length (hex_byte b')" by (simp add: hex_byte_def)
    then show ?thesis by (simp add: Cons Cons.IH hex_byte_inject)
  qed
qed

lemma valid_sha256_text_lower_hex:
  "length (digest bytes) = 32 \<Longrightarrow> valid_sha256_text (sha256_lower_hex digest bytes)"
  using hex_text_digits by (simp add: valid_sha256_text_def sha256_lower_hex_def length_hex_text del: set_concat)

subsection \<open>Well-formed messages\<close>

definition wf_envelope :: "envelope \<Rightarrow> bool" where
  "wf_envelope en \<longleftrightarrow> en_contract_version en = ''1'' \<and> uuid_v7 (en_message_id en)
     \<and> en_message_type en \<noteq> ''''
     \<and> (\<exists>p. en_producer en = Some p \<and> pr_component p \<noteq> '''' \<and> pr_component_version p \<noteq> '''')
     \<and> (\<exists>t. en_emitted_at en = Some t \<and> valid_timestamp t)
     \<and> en_payload_schema en \<noteq> '''' \<and> en_payload en \<noteq> None"

definition wf_raw_event :: "(string \<Rightarrow> string) \<Rightarrow> raw_event \<Rightarrow> bool" where
  "wf_raw_event digest ev \<longleftrightarrow> uuid_v7 (re_event_id ev)
     \<and> (\<forall>t. re_event_time ev = Some t \<longrightarrow> valid_timestamp t)
     \<and> (\<exists>t. re_ingest_time ev = Some t \<and> valid_timestamp t)
     \<and> unat (re_raw_size ev) = length (re_raw_payload ev)
     \<and> re_raw_hash_algorithm ev = ''sha256'' \<and> valid_sha256_text (re_raw_hash ev)
     \<and> re_raw_hash ev = sha256_lower_hex digest (re_raw_payload ev)"

definition wf_raw_event_persisted :: "raw_event_persisted \<Rightarrow> bool" where
  "wf_raw_event_persisted ev \<longleftrightarrow> uuid_v7 (rp_event_id ev)
     \<and> rp_tenant_id ev \<noteq> '''' \<and> rp_source_id ev \<noteq> '''' \<and> rp_pipeline_version ev \<noteq> ''''
     \<and> rp_storage_uri ev \<noteq> '''' \<and> rp_segment_id ev \<noteq> ''''
     \<and> (\<forall>t. rp_event_time ev = Some t \<longrightarrow> valid_timestamp t)
     \<and> (\<exists>t. rp_ingest_time ev = Some t \<and> valid_timestamp t)
     \<and> (\<exists>t. rp_persisted_at ev = Some t \<and> valid_timestamp t)
     \<and> rp_raw_hash_algorithm ev = ''sha256'' \<and> valid_sha256_text (rp_raw_hash ev)
     \<and> rp_length ev = rp_raw_size ev"

definition wf_normalized_event :: "normalized_event \<Rightarrow> bool" where
  "wf_normalized_event ev \<longleftrightarrow> uuid_v7 (ne_normalized_event_id ev) \<and> uuid_v7 (ne_raw_event_id ev)
     \<and> (\<exists>t. ne_normalized_at ev = Some t \<and> valid_timestamp t)"

definition wf_transformation :: "transformation \<Rightarrow> bool" where
  "wf_transformation t \<longleftrightarrow> uuid_v7 (tf_transformation_id t)
     \<and> (\<exists>s. tf_started_at t = Some s \<and> valid_timestamp s)
     \<and> (\<exists>s. tf_completed_at t = Some s \<and> valid_timestamp s)
     \<and> tf_status t \<noteq> 0 \<and> tf_execution_mode t \<noteq> 0 \<and> (tf_status t = 2 \<longrightarrow> tf_error t \<noteq> None)"

lemma validate_envelope_ok [result_simps]: "validate_envelope en = Inr u \<longleftrightarrow> wf_envelope en"
  by (auto simp: validate_envelope_def wf_envelope_def result_simps)

lemma validate_raw_event_ok [result_simps]:
  "validate_raw_event digest ev = Inr u \<longleftrightarrow> wf_raw_event digest ev"
  by (auto simp: validate_raw_event_def wf_raw_event_def result_simps u64_try_from_eq_Some)

lemma validate_raw_event_persisted_ok [result_simps]:
  "validate_raw_event_persisted ev = Inr u \<longleftrightarrow> wf_raw_event_persisted ev"
  by (auto simp: validate_raw_event_persisted_def wf_raw_event_persisted_def result_simps)

lemma validate_normalized_event_ok [result_simps]:
  "validate_normalized_event ev = Inr u \<longleftrightarrow> wf_normalized_event ev"
  by (auto simp: validate_normalized_event_def wf_normalized_event_def result_simps)

lemma validate_transformation_ok [result_simps]:
  "validate_transformation t = Inr u \<longleftrightarrow> wf_transformation t"
  by (auto simp: validate_transformation_def wf_transformation_def result_simps)

interpretation envelope_contract: contract_validator validate_envelope wf_envelope
  by unfold_locales (rule validate_envelope_ok)

interpretation raw_contract: contract_validator "validate_raw_event digest" "wf_raw_event digest" for digest
  by unfold_locales (rule validate_raw_event_ok)

interpretation persisted_contract: contract_validator validate_raw_event_persisted wf_raw_event_persisted
  by unfold_locales (rule validate_raw_event_persisted_ok)

interpretation normalized_contract: contract_validator validate_normalized_event wf_normalized_event
  by unfold_locales (rule validate_normalized_event_ok)

interpretation transformation_contract: contract_validator validate_transformation wf_transformation
  by unfold_locales (rule validate_transformation_ok)

end
