(* ===== verification/Ordered_Map.thy ===== *)
theory Ordered_Map
  imports Cerbero_Prelude
begin

text \<open>
  Rust's \<open>BTreeMap\<close> as the detection code uses it: insertion, lookup, \<open>entry().or_default().push()\<close>
  and iteration in key order. The model is an association list kept in strictly ascending key
  order. The locale \<open>ordered_map\<close> is the contract of such a map; what is proved in it is the
  grouping pattern of the THRESHOLD and SEQUENCE evaluators, where every item is pushed onto the
  list of its key and the groups are then visited in key order.
\<close>

type_synonym ('k, 'v) btree = "('k \<times> 'v) list"

fun btree_insert :: "'k :: linorder \<Rightarrow> 'v \<Rightarrow> ('k, 'v) btree \<Rightarrow> ('k, 'v) btree" where
  "btree_insert k v [] = [(k, v)]"
| "btree_insert k v ((k', v') # m) =
    (if k < k' then (k, v) # (k', v') # m
     else if k = k' then (k, v) # m
     else (k', v') # btree_insert k v m)"

definition btree_get :: "('k, 'v) btree \<Rightarrow> 'k \<Rightarrow> 'v option" where
  "btree_get m k = map_of m k"

definition btree_push :: "'k :: linorder \<Rightarrow> 'a \<Rightarrow> ('k, 'a list) btree \<Rightarrow> ('k, 'a list) btree" where
  "btree_push k x m =
    btree_insert k ((case btree_get m k of None \<Rightarrow> [] | Some xs \<Rightarrow> xs) @ [x]) m"

definition btree_invar :: "('k :: linorder, 'v) btree \<Rightarrow> bool" where
  "btree_invar m \<longleftrightarrow> sorted_wrt (<) (map fst m)"

definition btree_entries :: "('k, 'v) btree \<Rightarrow> ('k \<times> 'v) list" where
  "btree_entries m = m"

section \<open>The contract\<close>

locale ordered_map =
  fixes empty :: 'm
    and insert :: "'k :: linorder \<Rightarrow> 'a list \<Rightarrow> 'm \<Rightarrow> 'm"
    and get :: "'m \<Rightarrow> 'k \<Rightarrow> 'a list option"
    and entries :: "'m \<Rightarrow> ('k \<times> 'a list) list"
    and invar :: "'m \<Rightarrow> bool"
  assumes invar_empty: "invar empty"
    and invar_insert: "invar m \<Longrightarrow> invar (insert k v m)"
    and get_empty: "get empty k = None"
    and get_insert: "invar m \<Longrightarrow> get (insert k v m) k' = (if k' = k then Some v else get m k')"
    and entries_get: "invar m \<Longrightarrow> (k, v) \<in> set (entries m) \<longleftrightarrow> get m k = Some v"
    and entries_sorted: "invar m \<Longrightarrow> sorted_wrt (<) (map fst (entries m))"
begin

definition push :: "'k \<Rightarrow> 'a \<Rightarrow> 'm \<Rightarrow> 'm" where
  "push k x m = insert k ((case get m k of None \<Rightarrow> [] | Some xs \<Rightarrow> xs) @ [x]) m"

lemma invar_push: "invar m \<Longrightarrow> invar (push k x m)"
  by (simp add: push_def invar_insert)

lemma get_push: "invar m \<Longrightarrow> get (push k x m) k' =
    (if k' = k then Some ((case get m k of None \<Rightarrow> [] | Some xs \<Rightarrow> xs) @ [x]) else get m k')"
  by (simp add: push_def get_insert)

lemma group_invar: "invar m \<Longrightarrow> invar (fold (\<lambda>x. push (key x) (val x)) xs m)"
  by (induction xs arbitrary: m) (simp_all add: invar_push)

lemma group_get_from:
  "invar m \<Longrightarrow> get (fold (\<lambda>x. push (key x) (val x)) xs m) k =
     (if filter (\<lambda>x. key x = k) xs = [] then get m k
      else Some ((case get m k of None \<Rightarrow> [] | Some ys \<Rightarrow> ys) @ map val (filter (\<lambda>x. key x = k) xs)))"
proof (induction xs arbitrary: m)
  case (Cons x xs)
  then show ?case
    by (auto simp: Cons.IH [OF invar_push] get_push split: option.splits)
qed simp

lemma group_get:
  "get (fold (\<lambda>x. push (key x) (val x)) xs empty) k =
     (if k \<in> key ` set xs then Some (map val (filter (\<lambda>x. key x = k) xs)) else None)"
  using group_get_from [OF invar_empty, of key val xs k] by (auto simp: get_empty filter_empty_conv)

lemma entries_unique:
  assumes "invar m" and "sorted_wrt (<) (map fst es)"
    and "\<And>k v. (k, v) \<in> set es \<longleftrightarrow> get m k = Some v"
  shows "entries m = es"
proof (rule map_sorted_distinct_set_unique [where f = fst])
  have "set (entries m) = set es" using assms(3) entries_get [OF assms(1)] by auto
  then show "set (entries m) = set es" .
  then show "inj_on fst (set (entries m) \<union> set es)"
    using entries_get [OF assms(1)] by (auto simp: inj_on_def)
qed (use entries_sorted [OF assms(1)] assms(2) in \<open>auto simp: strict_sorted_iff\<close>)

text \<open>The groups in key order: each key with its items in their original order.\<close>

lemma group_entries:
  "entries (fold (\<lambda>x. push (key x) (val x)) xs empty) =
     map (\<lambda>k. (k, map val (filter (\<lambda>x. key x = k) xs))) (sorted_list_of_set (key ` set xs))"
proof (rule entries_unique [OF group_invar [OF invar_empty]])
  show "sorted_wrt (<) (map fst (map (\<lambda>k. (k, map val (filter (\<lambda>x. key x = k) xs)))
      (sorted_list_of_set (key ` set xs))))"
    by (simp add: comp_def)
qed (auto simp: group_get)

end

section \<open>The association list meets the contract\<close>

lemma fst_btree_insert: "fst ` set (btree_insert k v m) = insert k (fst ` set m)"
  by (induction k v m rule: btree_insert.induct) auto

lemma btree_invar_insert: "btree_invar m \<Longrightarrow> btree_invar (btree_insert k v m)"
  unfolding btree_invar_def
proof (induction k v m rule: btree_insert.induct)
  case (2 k v k' v' m)
  have "fst ` set (btree_insert k v m) = insert k (fst ` set m)" by (rule fst_btree_insert)
  then show ?case using 2 by (force simp: not_less_iff_gr_or_eq)
qed simp

lemma btree_get_insert:
  "btree_invar m \<Longrightarrow> btree_get (btree_insert k v m) k' = (if k' = k then Some v else btree_get m k')"
  by (induction k v m rule: btree_insert.induct) (auto simp: btree_invar_def btree_get_def)

lemma btree_entries_get: "btree_invar m \<Longrightarrow> (k, v) \<in> set (btree_entries m) \<longleftrightarrow> btree_get m k = Some v"
  by (simp add: btree_entries_def btree_get_def btree_invar_def strict_sorted_iff)

interpretation btree: ordered_map "[]" btree_insert btree_get btree_entries btree_invar
proof unfold_locales
  show "btree_invar []" by (simp add: btree_invar_def)
  show "btree_get [] k = None" for k :: 'a by (simp add: btree_get_def)
  show "sorted_wrt (<) (map fst (btree_entries m))" if "btree_invar m" for m :: "('a, 'b list) btree"
    using that by (simp add: btree_entries_def btree_invar_def)
qed (simp_all add: btree_invar_insert btree_get_insert btree_entries_get)

text \<open>A map is determined by its set of entries.\<close>

lemma btree_eqI: "btree_invar a \<Longrightarrow> btree_invar b \<Longrightarrow> set a = set b \<Longrightarrow> a = b"
  by (rule map_sorted_distinct_set_unique [where f = fst])
    (auto simp: btree_invar_def strict_sorted_iff distinct_map inj_on_def)

lemma btree_get_mem: "btree_invar m \<Longrightarrow> btree_get m k = Some v \<longleftrightarrow> (k, v) \<in> set m"
  using btree_entries_get [of m k v] by (simp add: btree_entries_def)

lemma set_btree_insert_fresh:
  assumes "btree_invar m" "btree_get m k = None"
  shows "set (btree_insert k v m) = insert (k, v) (set m)"
proof -
  have "(a, b) \<in> set (btree_insert k v m) \<longleftrightarrow> (a, b) \<in> insert (k, v) (set m)" for a b
    using assms btree_get_mem [OF btree_invar_insert [OF assms(1)], of k v a b] btree_get_mem [OF assms(1), of a b]
    by (auto simp: btree_get_insert split: if_splits)
  then show ?thesis by auto
qed

lemma btree_push_eq: "btree_push = btree.push"
  by (intro ext) (simp add: btree_push_def btree.push_def)

definition btree_group :: "('a \<Rightarrow> 'k :: linorder) \<Rightarrow> ('a \<Rightarrow> 'b) \<Rightarrow> 'a list \<Rightarrow> ('k, 'b list) btree" where
  "btree_group key val xs = fold (\<lambda>x. btree_push (key x) (val x)) xs []"

lemma btree_group_entries:
  "btree_group key val xs =
     map (\<lambda>k. (k, map val (filter (\<lambda>x. key x = k) xs))) (sorted_list_of_set (key ` set xs))"
  using btree.group_entries [of key val xs] by (simp add: btree_group_def btree_push_eq btree_entries_def)

lemma btree_group_snoc:
  "btree_group key val (xs @ [x]) = btree_push (key x) (val x) (btree_group key val xs)"
  by (simp add: btree_group_def)

lemma btree_eq_iff: "btree_invar a \<Longrightarrow> a = m \<longleftrightarrow> btree_invar m \<and> set m = set a"
  using btree_eqI by blast

section \<open>Collecting by identity\<close>

text \<open>A loop that decodes items and keeps one per identity in a map: an item seen before is skipped,
  one that carries the identity of a different item is an error. Two components run this loop, over
  Signals and over stored rows.\<close>

locale unique_collector =
  fixes decode :: "'x \<Rightarrow> ('a, 'e) result" and key :: "'a \<Rightarrow> 'k :: linorder" and conflict :: "'a \<Rightarrow> 'e"
    and step :: "('k, 'a) btree \<Rightarrow> 'x \<Rightarrow> (('k, 'a) btree, 'e) result"
  assumes step_eq: "step m x = and_then (decode x) (\<lambda>a. case btree_get m (key a) of
      Some existing \<Rightarrow> if existing \<noteq> a then Inl (conflict a) else Inr m
    | None \<Rightarrow> Inr (btree_insert (key a) a m))"
begin

definition keyed :: "'a set \<Rightarrow> ('k \<times> 'a) set" where
  "keyed A = (\<lambda>a. (key a, a)) ` A"

lemma step_ok:
  assumes "btree_invar m0" "set m0 = keyed M" "inj_on key M"
  shows "step m0 x = Inr m \<longleftrightarrow> (\<exists>a. decode x = Inr a \<and> inj_on key (insert a M) \<and> btree_invar m
    \<and> set m = keyed (insert a M))"
proof (cases "decode x")
  case (Inr a)
  have get: "btree_get m0 k = Some t \<longleftrightarrow> t \<in> M \<and> key t = k" for k t
    using assms by (auto simp: btree_get_mem keyed_def)
  show ?thesis
  proof (cases "btree_get m0 (key a)")
    case None
    then have fresh: "key a \<notin> key ` M" using get by (metis imageE option.distinct(1))
    then have "inj_on key (insert a M)" using assms(3) by auto
    moreover have "set (btree_insert (key a) a m0) = keyed (insert a M)"
      using set_btree_insert_fresh [OF assms(1) None] assms(2) by (simp add: keyed_def)
    ultimately show ?thesis
      using Inr None btree_eq_iff [OF btree_invar_insert [OF assms(1)], of "key a" a m]
      by (simp add: step_eq)
  next
    case (Some t)
    then have t: "t \<in> M" "key t = key a" using get by auto
    show ?thesis
    proof (cases "t = a")
      case True
      then have "insert a M = M" using t by auto
      then show ?thesis using True Inr Some assms btree_eq_iff [OF assms(1), of m]
        by (simp add: step_eq del: inj_on_insert)
    next
      case False
      then have "\<not> inj_on key (insert a M)" using t by (auto simp: inj_on_def)
      then show ?thesis using False Inr Some by (simp add: step_eq)
    qed
  qed
qed (simp add: step_eq)

lemma collected_exists:
  assumes "btree_invar m0" "set m0 = keyed M" "inj_on key (insert a M)"
  shows "\<exists>m. btree_invar m \<and> set m = keyed (insert a M)"
proof (cases "a \<in> M")
  case True
  then show ?thesis using assms by (auto simp: insert_absorb)
next
  case False
  then have "btree_get m0 (key a) = None"
    using assms btree_get_mem [OF assms(1), of "key a"]
    by (cases "btree_get m0 (key a)") (auto simp: keyed_def inj_on_def)
  then have "set (btree_insert (key a) a m0) = keyed (insert a M)"
    using set_btree_insert_fresh [OF assms(1)] assms(2) by (simp add: keyed_def)
  then show ?thesis using btree_invar_insert [OF assms(1)] by blast
qed

lemma collect_from:
  assumes "btree_invar m0" "set m0 = keyed M" "inj_on key M"
  shows "try_fold step m0 xs = Inr m \<longleftrightarrow> (\<exists>items. try_map decode xs = Inr items \<and> inj_on key (M \<union> set items)
    \<and> btree_invar m \<and> set m = keyed (M \<union> set items))"
  using assms
proof (induction xs arbitrary: m0 M)
  case Nil
  then show ?case using btree_eqI [of m m0] by auto
next
  case (Cons x xs)
  have "try_fold step m0 (x # xs) = Inr m \<longleftrightarrow> (\<exists>m1 a. decode x = Inr a \<and> inj_on key (insert a M)
      \<and> btree_invar m1 \<and> set m1 = keyed (insert a M) \<and> try_fold step m1 xs = Inr m)"
    using step_ok [OF Cons.prems] by (auto simp: result_simps)
  also have "\<dots> \<longleftrightarrow> (\<exists>a items. decode x = Inr a \<and> try_map decode xs = Inr items
      \<and> inj_on key (insert a M \<union> set items) \<and> btree_invar m \<and> set m = keyed (insert a M \<union> set items))"
    (is "?l \<longleftrightarrow> ?r")
  proof
    assume ?l
    then show ?r using Cons.IH by blast
  next
    assume r: ?r
    then obtain a items where a: "decode x = Inr a" "try_map decode xs = Inr items"
      "inj_on key (insert a M \<union> set items)" "btree_invar m" "set m = keyed (insert a M \<union> set items)" by blast
    then have inj: "inj_on key (insert a M)" by (meson Un_upper1 inj_on_subset)
    then obtain m1 where "btree_invar m1" "set m1 = keyed (insert a M)"
      using collected_exists [OF Cons.prems(1,2) inj] by blast
    then show ?l using Cons.IH [of m1 "insert a M"] a inj by blast
  qed
  also have "\<dots> \<longleftrightarrow> (\<exists>items. try_map decode (x # xs) = Inr items \<and> inj_on key (M \<union> set items)
      \<and> btree_invar m \<and> set m = keyed (M \<union> set items))"
    by (cases "decode x"; cases "try_map decode xs") (simp_all del: inj_on_insert)
  finally show ?case .
qed

lemma collect_ok:
  "try_fold step [] xs = Inr m \<longleftrightarrow> (\<exists>items. try_map decode xs = Inr items \<and> inj_on key (set items)
    \<and> btree_invar m \<and> set m = keyed (set items))"
  using collect_from [of "[]" "{}" xs m] by (simp add: keyed_def btree_invar_def)

end

end
