(* ===== verification/Rust_Text.thy ===== *)
theory Rust_Text
  imports Rust_Std
begin

text \<open>
  The operations of \<open>str\<close> the parsers of the normalizer use: UTF-8 validation with the text of its
  error, searching and splitting at the first occurrence of a pattern, words between white space and
  the decimal parsers of the small unsigned types. A \<open>str\<close> is the list of its bytes; on valid UTF-8,
  where no encoding of a character occurs inside another, searching bytes is searching characters.
\<close>

section \<open>UTF-8\<close>

definition continuation :: "char \<Rightarrow> bool" where
  "continuation c \<longleftrightarrow> 128 \<le> byte c \<and> byte c < 192"

text \<open>The first byte decides the width; for three and four bytes also which second bytes are allowed
  (no overlong form, no surrogate, nothing above U+10FFFF).\<close>

definition utf8_char_width :: "char \<Rightarrow> nat" where
  "utf8_char_width c =
    (if byte c < 128 then 1 else if byte c < 194 then 0 else if byte c < 224 then 2
     else if byte c < 240 then 3 else if byte c < 245 then 4 else 0)"

definition second_ok :: "char \<Rightarrow> char \<Rightarrow> bool" where
  "second_ok a b \<longleftrightarrow> continuation b
     \<and> (byte a = 224 \<longrightarrow> 160 \<le> byte b) \<and> (byte a = 237 \<longrightarrow> byte b \<le> 159)
     \<and> (byte a = 240 \<longrightarrow> 144 \<le> byte b) \<and> (byte a = 244 \<longrightarrow> byte b \<le> 143)"

text \<open>The length of a bad sequence: \<open>Some 0\<close> of a good character, \<open>Some n\<close> of \<open>n\<close> bad bytes, \<open>None\<close>
  when the text ends inside a character.\<close>

definition utf8_fault :: "char \<Rightarrow> string \<Rightarrow> nat option" where
  "utf8_fault a s =
    (let w = utf8_char_width a in
     if w = 1 then Some 0 else if w = 0 then Some 1
     else case s of [] \<Rightarrow> None
     | b # s' \<Rightarrow> if \<not> second_ok a b then Some 1 else if w = 2 then Some 0
       else (case s' of [] \<Rightarrow> None
       | c # s'' \<Rightarrow> if \<not> continuation c then Some 2 else if w = 3 then Some 0
         else (case s'' of [] \<Rightarrow> None | d # _ \<Rightarrow> if \<not> continuation d then Some 3 else Some 0)))"

definition display_utf8_error :: "nat option \<Rightarrow> nat \<Rightarrow> string" where
  "display_utf8_error len index = (case len of
      Some n \<Rightarrow> ''invalid utf-8 sequence of '' @ show_nat n @ '' bytes from index '' @ show_nat index
    | None \<Rightarrow> ''incomplete utf-8 byte sequence from index '' @ show_nat index)"

function utf8_check :: "nat \<Rightarrow> string \<Rightarrow> (unit, string) result" where
  "utf8_check index [] = Inr ()"
| "utf8_check index (a # s) =
    (if utf8_fault a s = Some 0
     then utf8_check (index + utf8_char_width a) (drop (utf8_char_width a - 1) s)
     else Inl (display_utf8_error (utf8_fault a s) index))"
  by pat_completeness auto
termination by (relation "measure (\<lambda>(_, s). length s)") auto

definition from_utf8 :: "string \<Rightarrow> (string, string) result" where
  "from_utf8 bytes = and_then (utf8_check 0 bytes) (\<lambda>_. Inr bytes)"

definition ascii :: "string \<Rightarrow> bool" where
  "ascii s \<longleftrightarrow> (\<forall>c\<in>set s. byte c < 128)"

lemma utf8_ascii_char: "byte a < 128 \<Longrightarrow> utf8_char_width a = 1" "byte a < 128 \<Longrightarrow> utf8_fault a s = Some 0"
  by (simp_all add: utf8_char_width_def utf8_fault_def)

lemma utf8_check_ascii: "ascii s \<Longrightarrow> utf8_check index s = Inr ()"
  by (induction s arbitrary: index) (simp_all add: ascii_def utf8_ascii_char)

lemma from_utf8_ascii: "ascii s \<Longrightarrow> from_utf8 s = Inr s"
  by (simp add: from_utf8_def utf8_check_ascii)

lemma from_utf8_eq: "from_utf8 s = Inr t \<Longrightarrow> t = s"
  by (auto simp: from_utf8_def result_simps)

section \<open>Searching\<close>

text \<open>\<open>str::split_once\<close>: the parts before and after the first occurrence of the pattern.\<close>

fun split_once :: "string \<Rightarrow> string \<Rightarrow> (string \<times> string) option" where
  "split_once pat [] = (if pat = [] then Some ([], []) else None)"
| "split_once pat (c # s) = (case strip_prefix pat (c # s) of
      Some t \<Rightarrow> Some ([], t) | None \<Rightarrow> map_option (\<lambda>(a, b). (c # a, b)) (split_once pat s))"

lemmas split_once_simps = split_once.simps
declare split_once.simps [simp del]

definition contains :: "string \<Rightarrow> string \<Rightarrow> bool" where
  "contains pat s \<longleftrightarrow> split_once pat s \<noteq> None"

text \<open>That a text contains a pattern, as an executable search is specified.\<close>

definition occurs :: "string \<Rightarrow> string \<Rightarrow> bool" where
  "occurs pat s \<longleftrightarrow> (\<exists>a b. s = a @ pat @ b)"



lemma split_once_sound: "split_once pat s = Some (a, b) \<Longrightarrow> s = a @ pat @ b"
proof (induction s arbitrary: a)
  case Nil
  then show ?case by (auto simp: split_once_simps split: if_splits)
next
  case (Cons c s)
  then show ?case by (auto simp: split_once_simps strip_prefix_eq_Some split: option.splits)
qed

lemma split_once_exists: "split_once pat (a @ pat @ b) \<noteq> None"
proof (induction a)
  case Nil
  have "strip_prefix pat (pat @ b) = Some b" by (simp add: strip_prefix_eq_Some)
  then show ?case by (cases "pat @ b") (auto simp: split_once_simps)
next
  case (Cons c a)
  then show ?case by (auto simp: split_once_simps split: option.splits)
qed

lemma contains_iff: "contains pat s \<longleftrightarrow> occurs pat s"
  using split_once_sound split_once_exists by (fastforce simp: contains_def occurs_def)

text \<open>The occurrence found is the first one: with the pattern appended up to its last byte, the part
  before it does not contain the pattern.\<close>

lemma split_once_append:
  assumes "\<not> occurs pat (a @ butlast pat)" "pat \<noteq> []"
  shows "split_once pat (a @ pat @ b) = Some (a, b)"
  using assms(1)
proof (induction a)
  case Nil
  have "strip_prefix pat (pat @ b) = Some b" by (simp add: strip_prefix_eq_Some)
  then show ?case using assms(2) by (cases "pat @ b") (auto simp: split_once_simps)
next
  case (Cons c a)
  have "\<not> occurs pat (a @ butlast pat)"
    using Cons.prems by (auto simp: occurs_def) (metis append_Cons)
  moreover have "strip_prefix pat (c # a @ pat @ b) = None"
  proof (rule ccontr)
    assume "strip_prefix pat (c # a @ pat @ b) \<noteq> None"
    then obtain t where "c # a @ pat @ b = pat @ t" by (auto simp: strip_prefix_eq_Some)
    then have "take (length pat) (c # a @ pat @ b) = pat" by simp
    moreover have "take (length pat) (c # a @ pat @ b) = take (length pat) (c # a @ butlast pat)"
      using assms(2) by (auto simp: take_Cons' butlast_conv_take min_def)
    ultimately have "c # a @ butlast pat = [] @ pat @ drop (length pat) (c # a @ butlast pat)"
      by (metis append_Nil append_take_drop_id)
    then have "occurs pat ((c # a) @ butlast pat)" unfolding occurs_def by (metis append_Cons)
    then show False using Cons.prems by simp
  qed
  ultimately show ?case using Cons.IH by (simp add: split_once_simps)
qed

section \<open>Suffixes and last occurrences\<close>

definition ends_with :: "string \<Rightarrow> string \<Rightarrow> bool" where
  "ends_with suffix s \<longleftrightarrow> length suffix \<le> length s \<and> drop (length s - length suffix) s = suffix"

definition rfind_char :: "char \<Rightarrow> string \<Rightarrow> nat option" where
  "rfind_char c s = (case filter (\<lambda>i. s ! i = c) (rev [0..<length s]) of [] \<Rightarrow> None | i # _ \<Rightarrow> Some i)"

section \<open>Words\<close>

fun take_word :: "string \<Rightarrow> string" where
  "take_word [] = []"
| "take_word [a] = (if ws1 a then [] else [a])"
| "take_word [a, b] = (if ws1 a \<or> ws2 a b then [] else a # take_word [b])"
| "take_word (a # b # c # s) = (if ws1 a \<or> ws2 a b \<or> ws3 a b c then [] else a # take_word (b # c # s))"

definition first_word :: "string \<Rightarrow> string option" where
  "first_word s = (let w = take_word (trim_start s) in if w = [] then None else Some w)"

lemma take_word_solid: "\<forall>c\<in>set w. solid c \<Longrightarrow> take_word w = w"
  by (induction w rule: take_word.induct) (auto simp: solid_not_ws)

lemma take_word_space: "\<forall>c\<in>set w. solid c \<Longrightarrow> take_word (w @ CHR '' '' # s) = w"
proof (induction w)
  case Nil
  then show ?case by (cases s rule: take_word.cases) (auto simp: ws1_def byte_def)
next
  case (Cons a w)
  have "solid a" using Cons.prems by simp
  note this [THEN solid_not_ws(1)] this [THEN solid_not_ws(2)] this [THEN solid_not_ws(4)]
  moreover have "take_word (a # y # t) = (if ws1 a \<or> ws2 a y \<or> (t \<noteq> [] \<and> ws3 a y (hd t)) then [] else a # take_word (y # t))"
    for y t by (cases t) auto
  ultimately show ?case using Cons by (cases w) auto
qed

lemma trim_start_solid: "solid c \<Longrightarrow> trim_start (c # s) = c # s"
  by (cases s; cases "tl s") (auto simp: solid_not_ws)

lemma trim_end_rev_solid: "solid c \<Longrightarrow> trim_end_rev (c # s) = c # s"
  by (cases s; cases "tl s") (auto simp: solid_not_ws)

lemma trim_solid: "solid (hd s) \<Longrightarrow> solid (last s) \<Longrightarrow> s \<noteq> [] \<Longrightarrow> trim s = s"
proof -
  assume s: "solid (hd s)" "solid (last s)" "s \<noteq> []"
  then have "trim_start s = s" by (metis list.collapse trim_start_solid)
  moreover have "trim_end_rev (rev s) = rev s"
    using s by (metis hd_rev list.collapse rev_is_Nil_conv trim_end_rev_solid)
  ultimately show ?thesis by (simp add: trim_def trim_end_def)
qed

lemma first_word_space:
  assumes "w \<noteq> []" "\<forall>c\<in>set w. solid c"
  shows "first_word (w @ CHR '' '' # s) = Some w"
proof -
  have "trim_start (w @ CHR '' '' # s) = w @ CHR '' '' # s"
    using assms by (cases w) (auto simp: trim_start_solid)
  then show ?thesis using assms by (simp add: first_word_def take_word_space)
qed

text \<open>\<open>trim_end_matches\<close> of the line terminators.\<close>

definition trim_line_end :: "string \<Rightarrow> string" where
  "trim_line_end s = rev (dropWhile (\<lambda>c. byte c = 13 \<or> byte c = 10) (rev s))"

section \<open>Small unsigned integers\<close>

definition parse_unsigned :: "nat \<Rightarrow> string \<Rightarrow> nat option" where
  "parse_unsigned bits s =
    (let digits = (case s of [] \<Rightarrow> [] | c # cs \<Rightarrow> if c = CHR ''+'' then cs else s) in
     if digits = [] \<or> \<not> list_all is_ascii_digit digits then None
     else if digits_value 0 digits < 2 ^ bits then Some (digits_value 0 digits) else None)"

definition parse_u8 :: "string \<Rightarrow> 8 word option" where
  "parse_u8 s = map_option of_nat (parse_unsigned 8 s)"

definition parse_u16 :: "string \<Rightarrow> 16 word option" where
  "parse_u16 s = map_option of_nat (parse_unsigned 16 s)"

lemma parse_unsigned_digits:
  assumes "s \<noteq> []" "\<forall>c\<in>set s. is_ascii_digit c"
  shows "parse_unsigned bits s = (if digits_value 0 s < 2 ^ bits then Some (digits_value 0 s) else None)"
proof -
  have "hd s \<noteq> CHR ''+''" using assms by (cases s) (auto simp: byte_class_defs)
  then show ?thesis using assms by (cases s) (auto simp: parse_unsigned_def Let_def list_all_iff)
qed

lemma parse_unsigned_show_nat: "n < 2 ^ bits \<Longrightarrow> parse_unsigned bits (show_nat n) = Some n"
  using parse_unsigned_digits [OF show_nat_nonempty show_nat_digits, of bits n] by (simp add: digits_value_show_nat)

lemma parse_unsigned_less: "parse_unsigned bits s = Some n \<Longrightarrow> n < 2 ^ bits"
  by (auto simp: parse_unsigned_def Let_def split: if_splits)

lemma parse_u16_show_nat: "parse_u16 (show_nat (unat w)) = Some w"
  using unat_bound [of w] by (simp add: parse_u16_def parse_unsigned_show_nat)

lemma show_nat_solid: "\<forall>c\<in>set (show_nat n). solid c"
  using show_nat_digits [of n] by (auto simp: is_ascii_digit_def solid_def)

end
