(* ===== verification/Parser.thy ===== *)
theory Parser
  imports Contracts Ordered_Map Rust_Text
begin

text \<open>
  The parser interface of the normalizer (\<open>parser.rs\<close>): parsed values and events, the registry that
  selects one parser for an input by tier and confidence, and the two versions of the \<open>linux/sshd\<close>
  parser. The trait \<open>Parser\<close> is a record of its methods; a method that panics returns \<open>None\<close>, and
  \<open>catch_unwind\<close> turns that into an error. A \<open>BTreeMap\<close> is an association list sorted by its keys.
\<close>

section \<open>Parsed values\<close>

datatype parser_tier = GenericTier | ContentProtocol | SourceSpecific

definition tier_rank :: "parser_tier \<Rightarrow> nat" where
  "tier_rank t = (case t of GenericTier \<Rightarrow> 0 | ContentProtocol \<Rightarrow> 1 | SourceSpecific \<Rightarrow> 2)"

instantiation parser_tier :: linorder
begin

definition less_eq_parser_tier :: "parser_tier \<Rightarrow> parser_tier \<Rightarrow> bool" where
  "less_eq_parser_tier a b \<longleftrightarrow> tier_rank a \<le> tier_rank b"

definition less_parser_tier :: "parser_tier \<Rightarrow> parser_tier \<Rightarrow> bool" where
  "less_parser_tier a b \<longleftrightarrow> tier_rank a < tier_rank b"

instance
  by standard (auto simp: less_eq_parser_tier_def less_parser_tier_def tier_rank_def split: parser_tier.splits)

end

record parser_limits =
  pl_max_input_bytes :: nat
  pl_max_depth :: nat
  pl_max_fields :: nat
  pl_max_string_bytes :: nat
  pl_max_collection_length :: nat

datatype parsing_status = ParseSuccess | ParsePartial | ParseFailed | ParseUnsupported

record timestamp_candidate =
  tc_value :: string
  tc_source_field :: string
  tc_timezone_assumption :: "string option"
  tc_precision :: string
  tc_confidence :: string

datatype parsed_value =
    PNull
  | PBool bool
  | PNumber string
  | PString string
  | PBytes string
  | PArray "parsed_value list"
  | PObject "(string \<times> parsed_value) list"

definition parsed_object :: "(string \<times> parsed_value) list \<Rightarrow> parsed_value" where
  "parsed_object entries = PObject (fold (\<lambda>(k, v). btree_insert k v) entries [])"

definition parsed_get :: "parsed_value \<Rightarrow> string \<Rightarrow> parsed_value option" where
  "parsed_get value key = (case value of PObject m \<Rightarrow> btree_get m key | _ \<Rightarrow> None)"

definition parsed_str :: "parsed_value \<Rightarrow> string option" where
  "parsed_str value = (case value of PString s \<Rightarrow> Some s | _ \<Rightarrow> None)"

definition parsed_bool :: "parsed_value \<Rightarrow> bool option" where
  "parsed_bool value = (case value of PBool b \<Rightarrow> Some b | _ \<Rightarrow> None)"

definition parsed_number_str :: "parsed_value \<Rightarrow> string option" where
  "parsed_number_str value = (case value of PNumber n \<Rightarrow> Some n | _ \<Rightarrow> None)"

definition parsed_u64 :: "parsed_value \<Rightarrow> 64 word option" where
  "parsed_u64 value = Option.bind (parsed_number_str value) parse_u64"

section \<open>Parsed events and parsers\<close>

record parser_candidate =
  ca_parser_id :: string
  ca_parser_version :: string
  ca_tier :: parser_tier
  ca_confidence :: "8 word"

record parser_selection_trace =
  st_policy :: string
  st_candidates :: "parser_candidate list"
  st_selected_parser_id :: string
  st_selected_parser_version :: string

record parsed_event =
  pe_parser_id :: string
  pe_parser_version :: string
  pe_source_event_type :: string
  pe_fields :: parsed_value
  pe_timestamp_candidates :: "timestamp_candidate list"
  pe_warnings :: "string list"
  pe_status :: parsing_status
  pe_selection :: "parser_selection_trace option"

definition parsed_field :: "parsed_event \<Rightarrow> string \<Rightarrow> parsed_value option" where
  "parsed_field e key = parsed_get (pe_fields e) key"

definition string_field :: "parsed_event \<Rightarrow> string \<Rightarrow> string option" where
  "string_field e key = Option.bind (parsed_field e key) parsed_str"

definition bool_field :: "parsed_event \<Rightarrow> string \<Rightarrow> bool option" where
  "bool_field e key = Option.bind (parsed_field e key) parsed_bool"

definition u64_field :: "parsed_event \<Rightarrow> string \<Rightarrow> 64 word option" where
  "u64_field e key = Option.bind (parsed_field e key) parsed_u64"

record parser_input =
  pi_raw :: string
  pi_persisted :: raw_event_persisted
  pi_configured_parser_id :: "string option"

record parse_error =
  px_code :: string
  px_message :: string
  px_retryable :: bool

definition parse_failure :: "string \<Rightarrow> string \<Rightarrow> parse_error" where
  "parse_failure code message = \<lparr>px_code = code, px_message = message, px_retryable = False\<rparr>"

record parser =
  pa_id :: string
  pa_version :: string
  pa_tier :: parser_tier
  pa_limits :: parser_limits
  pa_probe :: "parser_input \<Rightarrow> 8 word option"
  pa_parse :: "parser_input \<Rightarrow> (parsed_event, parse_error) result option"

section \<open>Selection\<close>

definition candidate_of :: "parser \<Rightarrow> 8 word \<Rightarrow> parser_candidate" where
  "candidate_of p confidence =
    \<lparr>ca_parser_id = pa_id p, ca_parser_version = pa_version p, ca_tier = pa_tier p, ca_confidence = confidence\<rparr>"

definition probe_parser :: "parser \<Rightarrow> parser_input \<Rightarrow> (8 word, parse_error) result" where
  "probe_parser p input =
    ok_or (parse_failure ''CER-PARSE-INTERNAL'' (''parser '' @ pa_id p @ '' panicked while probing'')) (pa_probe p input)"

text \<open>The scan over the candidates: the best tier and confidence so far with its index, and the
  indices that share it.\<close>

type_synonym best_so_far = "(nat \<times> parser_tier \<times> 8 word) option \<times> nat list"

definition scan_candidate :: "best_so_far \<Rightarrow> nat \<times> parser_candidate \<Rightarrow> best_so_far" where
  "scan_candidate state entry = (case (state, entry) of ((best, tied), (index, c)) \<Rightarrow>
    if ca_confidence c = 0 then (best, tied)
    else case best of
      None \<Rightarrow> (Some (index, ca_tier c, ca_confidence c), [index])
    | Some (_, incumbent_tier, incumbent_confidence) \<Rightarrow>
        if (ca_tier c, ca_confidence c) > (incumbent_tier, incumbent_confidence)
        then (Some (index, ca_tier c, ca_confidence c), [index])
        else if (ca_tier c, ca_confidence c) = (incumbent_tier, incumbent_confidence)
        then (best, tied @ [index])
        else (best, tied))"

definition select_trace :: "string \<Rightarrow> parser_candidate list \<Rightarrow> parser \<Rightarrow> parser_selection_trace" where
  "select_trace policy candidates p =
    \<lparr>st_policy = policy, st_candidates = candidates,
     st_selected_parser_id = pa_id p, st_selected_parser_version = pa_version p\<rparr>"

fun join_text :: "string \<Rightarrow> string list \<Rightarrow> string" where
  "join_text sep [] = []"
| "join_text sep [p] = p"
| "join_text sep (p # q # ps) = p @ sep @ join_text sep (q # ps)"

definition ambiguous :: "parser_candidate list \<Rightarrow> nat list \<Rightarrow> parse_error" where
  "ambiguous candidates tied = parse_failure ''CER-PARSE-NO-MATCH''
     (''parser selection is ambiguous at the highest tier/confidence: ''
        @ join_text '', '' (map (\<lambda>i. ca_parser_id (candidates ! i)) tied))"

definition no_match :: parse_error where
  "no_match = parse_failure ''CER-PARSE-NO-MATCH'' ''no registered parser supports the input''"

definition select_configured ::
  "parser list \<Rightarrow> parser_input \<Rightarrow> string \<Rightarrow> (parser \<times> parser_selection_trace, parse_error) result" where
  "select_configured parsers input configured =
    and_then (ok_or (parse_failure ''CER-PARSE-NO-MATCH''
        (''configured parser '' @ configured @ '' is not registered''))
      (find (\<lambda>p. pa_id p = configured) parsers)) (\<lambda>p.
    and_then (probe_parser p input) (\<lambda>confidence.
    Inr (p, select_trace ''configured-parser'' [candidate_of p confidence] p)))"

definition select_auto :: "parser list \<Rightarrow> parser_input \<Rightarrow> (parser \<times> parser_selection_trace, parse_error) result" where
  "select_auto parsers input =
    and_then (try_map (\<lambda>p. and_then (probe_parser p input) (\<lambda>c. Inr (candidate_of p c))) parsers) (\<lambda>candidates.
    case foldl scan_candidate (None, []) (enumerate 0 candidates) of
      (None, _) \<Rightarrow> Inl no_match
    | (Some (best_index, _), tied) \<Rightarrow>
        if length tied > 1 then Inl (ambiguous candidates tied)
        else Inr (parsers ! best_index, select_trace ''auto:tier-then-confidence'' candidates (parsers ! best_index)))"

definition select :: "parser list \<Rightarrow> parser_input \<Rightarrow> (parser \<times> parser_selection_trace, parse_error) result" where
  "select parsers input = (case pi_configured_parser_id input of
      Some configured \<Rightarrow> select_configured parsers input configured
    | None \<Rightarrow> select_auto parsers input)"

definition parse :: "parser list \<Rightarrow> parser_input \<Rightarrow> (parsed_event, parse_error) result" where
  "parse parsers input =
    and_then (select parsers input) (\<lambda>(p, trace).
    and_then (ok_or (parse_failure ''CER-PARSE-INTERNAL'' (''parser '' @ pa_id p @ '' panicked'')) (pa_parse p input)) (\<lambda>r.
    and_then r (\<lambda>parsed.
    if pe_parser_id parsed \<noteq> pa_id p \<or> pe_parser_version parsed \<noteq> pa_version p
    then Inl (parse_failure ''CER-PARSE-INTERNAL'' ''parser output identity differs from selected parser'')
    else Inr (parsed\<lparr>pe_selection := Some trace\<rparr>))))"

section \<open>The sshd parsers\<close>

definition LINUX_SSHD_PARSER_ID :: string where "LINUX_SSHD_PARSER_ID = ''linux/sshd''"
definition LINUX_SSHD_PARSER_VERSION :: string where "LINUX_SSHD_PARSER_VERSION = ''1''"
definition LINUX_SSHD_PARSER_V2_VERSION :: string where "LINUX_SSHD_PARSER_V2_VERSION = ''2''"

lemmas sshd_constants = LINUX_SSHD_PARSER_ID_def LINUX_SSHD_PARSER_VERSION_def LINUX_SSHD_PARSER_V2_VERSION_def

definition LINUX_SSHD_LIMITS :: parser_limits where
  "LINUX_SSHD_LIMITS = \<lparr>pl_max_input_bytes = 65536, pl_max_depth = 8, pl_max_fields = 64,
     pl_max_string_bytes = 65536, pl_max_collection_length = 64\<rparr>"

datatype invalid_user_message_policy = LegacyUserLabel | PreserveInvalidUserLabel

definition parse_malformed :: "string \<Rightarrow> parse_error" where
  "parse_malformed message = parse_failure ''CER-PARSE-MALFORMED'' message"

definition probe_failed_password :: "string \<Rightarrow> 8 word" where
  "probe_failed_password raw = (case from_utf8 raw of
      Inl _ \<Rightarrow> 0
    | Inr s \<Rightarrow> let s = trim s in
        if contains ''Failed password for '' s \<and> contains '' from '' s \<and> contains '' port '' s then 100 else 0)"

definition sshd_event :: "string \<Rightarrow> string \<Rightarrow> string \<Rightarrow> 16 word \<Rightarrow> bool \<Rightarrow> string \<Rightarrow> parsed_event" where
  "sshd_event version username source_ip source_port invalid_user message =
    \<lparr>pe_parser_id = LINUX_SSHD_PARSER_ID, pe_parser_version = version,
     pe_source_event_type = ''linux.ssh.authentication'',
     pe_fields = parsed_object
      [(''username'', PString username), (''source_ip'', PString source_ip),
       (''source_port'', PNumber (show_nat (unat source_port))), (''authentication_succeeded'', PBool False),
       (''invalid_user'', PBool invalid_user), (''message'', PString message)],
     pe_timestamp_candidates = [], pe_warnings = [], pe_status = ParseSuccess, pe_selection = None\<rparr>"

definition sshd_message :: "invalid_user_message_policy \<Rightarrow> bool \<Rightarrow> string \<Rightarrow> string \<Rightarrow> string" where
  "sshd_message policy invalid_user username source_ip =
    ''SSH authentication failed for ''
      @ (if invalid_user \<and> policy = PreserveInvalidUserLabel then ''invalid user '' @ username else ''user '' @ username)
      @ '' from '' @ source_ip"

definition parse_failed_password ::
  "string \<Rightarrow> string \<Rightarrow> invalid_user_message_policy \<Rightarrow> (parsed_event, parse_error) result" where
  "parse_failed_password line version policy =
    (case split_once ''Failed password for '' line of
       None \<Rightarrow> Inl (parse_malformed ''missing 'Failed password for' marker'')
     | Some (_, after_prefix) \<Rightarrow>
    and_then (ok_or (parse_malformed ''missing source address'') (split_once '' from '' after_prefix)) (\<lambda>(identity, source).
    and_then (ok_or (parse_malformed ''missing source port'') (split_once '' port '' source)) (\<lambda>(source_ip, port_and_rest).
    and_then (ok_or (parse_malformed ''empty source port'') (first_word port_and_rest)) (\<lambda>source_port_text.
    and_then (ok_or (parse_malformed ''source port is not a valid unsigned 16-bit integer'')
      (parse_u16 source_port_text)) (\<lambda>source_port.
    let (invalid_user, username) = (case strip_prefix ''invalid user '' identity of
          None \<Rightarrow> (False, identity) | Some user \<Rightarrow> (True, user)) in
    if username = '''' \<or> source_ip = ''''
    then Inl (parse_malformed ''username and source address are required'')
    else Inr (sshd_event version username source_ip source_port invalid_user
      (sshd_message policy invalid_user username source_ip)))))))"

definition parse_linux_sshd ::
  "parser_input \<Rightarrow> string \<Rightarrow> invalid_user_message_policy \<Rightarrow> (parsed_event, parse_error) result" where
  "parse_linux_sshd input version policy =
    (if length (pi_raw input) > pl_max_input_bytes LINUX_SSHD_LIMITS
     then Inl (parse_failure ''CER-PARSE-LIMIT-EXCEEDED''
       (''linux/sshd input exceeds '' @ show_nat (pl_max_input_bytes LINUX_SSHD_LIMITS) @ '' bytes''))
     else and_then (map_err (\<lambda>e. parse_malformed (''linux/sshd v'' @ version @ '' requires UTF-8 input: '' @ e))
       (from_utf8 (pi_raw input))) (\<lambda>s. parse_failed_password (trim s) version policy))"

definition linux_sshd_parser :: parser where
  "linux_sshd_parser =
    \<lparr>pa_id = LINUX_SSHD_PARSER_ID, pa_version = LINUX_SSHD_PARSER_VERSION, pa_tier = SourceSpecific,
     pa_limits = LINUX_SSHD_LIMITS, pa_probe = (\<lambda>input. Some (probe_failed_password (pi_raw input))),
     pa_parse = (\<lambda>input. Some (parse_linux_sshd input LINUX_SSHD_PARSER_VERSION LegacyUserLabel))\<rparr>"

definition linux_sshd_parser_v2 :: parser where
  "linux_sshd_parser_v2 =
    \<lparr>pa_id = LINUX_SSHD_PARSER_ID, pa_version = LINUX_SSHD_PARSER_V2_VERSION, pa_tier = SourceSpecific,
     pa_limits = LINUX_SSHD_LIMITS, pa_probe = (\<lambda>input. Some (probe_failed_password (pi_raw input))),
     pa_parse = (\<lambda>input. Some (parse_linux_sshd input LINUX_SSHD_PARSER_V2_VERSION PreserveInvalidUserLabel))\<rparr>"

end
