(* ===== verification/Json.thy ===== *)
theory Json
  imports Ordered_Map
begin

text \<open>
  \<open>serde_json::Value\<close>, with the type of numbers left open: the normalizer builds the crate with
  \<open>arbitrary_precision\<close>, where a number is its text. An object is the list of its members in the order
  of iteration. Also the canonical form of \<open>canonical.rs\<close>: objects with their members sorted by key.
\<close>

datatype 'n json =
    JNull
  | JBool bool
  | JNumber 'n
  | JString string
  | JArray "'n json list"
  | JObject "(string \<times> 'n json) list"

definition json_object_get :: "(string \<times> 'n json) list \<Rightarrow> string \<Rightarrow> 'n json option" where
  "json_object_get members key = map_of members key"

fun canonicalize :: "'n json \<Rightarrow> 'n json" where
  "canonicalize (JObject members) =
    JObject (fold (\<lambda>(k, v). btree_insert k v) (map (\<lambda>member. (fst member, canonicalize (snd member))) members) [])"
| "canonicalize (JArray values) = JArray (map canonicalize values)"
| "canonicalize value = value"

end
