(* ===== verification/Parser_Formats.thy ===== *)
theory Parser_Formats
  imports Parser Json
begin

text \<open>
  The format parsers of the normalizer (\<open>parser_formats.rs\<close>): generic JSON, the canonical journald
  representation, syslog of RFC 5424 and RFC 3164, and the registry of all five parsers. What the
  sources take from other crates is the record \<open>format_libs\<close>: \<open>serde_json::from_slice\<close> and the base64
  decoder with the text of their errors, whether \<open>OffsetDateTime::parse\<close> accepts an RFC 3339 text, and
  the quoted form of a string in messages (\<open>Debug\<close>, which depends on Unicode tables).
\<close>

record format_libs =
  fl_from_slice :: "string \<Rightarrow> (string json, string) result"
  fl_rfc3339 :: "string \<Rightarrow> (unit, string) result"
  fl_base64 :: "string \<Rightarrow> (string, string) result"
  fl_debug :: "string \<Rightarrow> string"

section \<open>Constants and errors\<close>

definition GENERIC_JSON_PARSER_ID :: string where "GENERIC_JSON_PARSER_ID = ''cerbero.parser.json.generic''"
definition GENERIC_JSON_PARSER_VERSION :: string where "GENERIC_JSON_PARSER_VERSION = ''1''"
definition SYSLOG_RFC3164_PARSER_ID :: string where "SYSLOG_RFC3164_PARSER_ID = ''cerbero.parser.syslog.rfc3164''"
definition SYSLOG_RFC3164_PARSER_VERSION :: string where "SYSLOG_RFC3164_PARSER_VERSION = ''1''"
definition SYSLOG_RFC5424_PARSER_ID :: string where "SYSLOG_RFC5424_PARSER_ID = ''cerbero.parser.syslog.rfc5424''"
definition SYSLOG_RFC5424_PARSER_VERSION :: string where "SYSLOG_RFC5424_PARSER_VERSION = ''1''"
definition JOURNALD_CANONICAL_PARSER_ID :: string where "JOURNALD_CANONICAL_PARSER_ID = ''cerbero.parser.journald.canonical''"
definition JOURNALD_CANONICAL_PARSER_VERSION :: string where "JOURNALD_CANONICAL_PARSER_VERSION = ''1''"

definition JSON_LIMITS :: parser_limits where
  "JSON_LIMITS = \<lparr>pl_max_input_bytes = 1048576, pl_max_depth = 64, pl_max_fields = 8192,
     pl_max_string_bytes = 262144, pl_max_collection_length = 4096\<rparr>"

definition SYSLOG_LIMITS :: parser_limits where
  "SYSLOG_LIMITS = \<lparr>pl_max_input_bytes = 65536, pl_max_depth = 8, pl_max_fields = 128,
     pl_max_string_bytes = 65536, pl_max_collection_length = 128\<rparr>"

definition invalid_timestamp :: "string \<Rightarrow> parse_error" where
  "invalid_timestamp message = parse_failure ''CER-PARSE-INVALID-TIMESTAMP'' message"

definition limit_exceeded :: "string \<Rightarrow> parse_error" where
  "limit_exceeded message = parse_failure ''CER-PARSE-LIMIT-EXCEEDED'' message"

definition ensure_input_limit :: "string \<Rightarrow> parser_limits \<Rightarrow> (unit, parse_error) result" where
  "ensure_input_limit raw limits =
    (if length raw > pl_max_input_bytes limits
     then Inl (limit_exceeded (''parser input exceeds '' @ show_nat (pl_max_input_bytes limits) @ '' bytes''))
     else Inr ())"

definition is_ascii_whitespace :: "char \<Rightarrow> bool" where
  "is_ascii_whitespace c \<longleftrightarrow> byte c \<in> {9, 10, 12, 13, 32}"

definition trim_ascii_whitespace :: "string \<Rightarrow> string" where
  "trim_ascii_whitespace s = rev (dropWhile is_ascii_whitespace (rev (dropWhile is_ascii_whitespace s)))"

section \<open>JSON trees\<close>

fun visit :: "parser_limits \<Rightarrow> nat \<Rightarrow> string json \<Rightarrow> nat \<Rightarrow> (nat, parse_error) result"
  and visit_values :: "parser_limits \<Rightarrow> nat \<Rightarrow> string json list \<Rightarrow> nat \<Rightarrow> (nat, parse_error) result"
  and visit_members :: "parser_limits \<Rightarrow> nat \<Rightarrow> (string \<times> string json) list \<Rightarrow> nat \<Rightarrow> (nat, parse_error) result" where
  "visit limits depth node field_count =
    (if depth > pl_max_depth limits
     then Inl (limit_exceeded (''JSON nesting depth exceeds '' @ show_nat (pl_max_depth limits)))
     else case node of
       JNull \<Rightarrow> Inr field_count
     | JBool _ \<Rightarrow> Inr field_count
     | JNumber n \<Rightarrow>
         if length n > pl_max_string_bytes limits then Inl (limit_exceeded ''JSON number representation is too large'')
         else Inr field_count
     | JString s \<Rightarrow>
         if length s > pl_max_string_bytes limits
         then Inl (limit_exceeded (''JSON string exceeds '' @ show_nat (pl_max_string_bytes limits) @ '' bytes''))
         else Inr field_count
     | JArray vs \<Rightarrow>
         if length vs > pl_max_collection_length limits
         then Inl (limit_exceeded (''JSON array exceeds '' @ show_nat (pl_max_collection_length limits) @ '' elements''))
         else visit_values limits (depth + 1) vs field_count
     | JObject members \<Rightarrow>
         if length members > pl_max_collection_length limits
         then Inl (limit_exceeded (''JSON object exceeds '' @ show_nat (pl_max_collection_length limits) @ '' fields''))
         else let field_count = min (field_count + length members) (2 ^ 64 - 1) in
           if field_count > pl_max_fields limits
           then Inl (limit_exceeded (''JSON field count exceeds '' @ show_nat (pl_max_fields limits)))
           else visit_members limits (depth + 1) members field_count)"
| "visit_values limits depth [] field_count = Inr field_count"
| "visit_values limits depth (v # vs) field_count =
    and_then (visit limits depth v field_count) (\<lambda>field_count. visit_values limits depth vs field_count)"
| "visit_members limits depth [] field_count = Inr field_count"
| "visit_members limits depth ((k, v) # ms) field_count =
    (if length k > pl_max_string_bytes limits then Inl (limit_exceeded ''JSON object key is too large'')
     else and_then (visit limits depth v field_count) (\<lambda>field_count. visit_members limits depth ms field_count))"

declare visit.simps [simp del]

definition validate_json_tree :: "string json \<Rightarrow> parser_limits \<Rightarrow> (unit, parse_error) result" where
  "validate_json_tree node limits = and_then (visit limits 0 node 0) (\<lambda>_. Inr ())"

fun json_to_parsed :: "string json \<Rightarrow> parsed_value" where
  "json_to_parsed JNull = PNull"
| "json_to_parsed (JBool b) = PBool b"
| "json_to_parsed (JNumber n) = PNumber n"
| "json_to_parsed (JString s) = PString s"
| "json_to_parsed (JArray vs) = PArray (map json_to_parsed vs)"
| "json_to_parsed (JObject members) = parsed_object (map (\<lambda>m. (fst m, json_to_parsed (snd m))) members)"

definition timestamp_of_member ::
  "format_libs \<Rightarrow> string \<Rightarrow> string json \<Rightarrow> (timestamp_candidate list \<times> string list)" where
  "timestamp_of_member libs field node = (case node of
      JString s \<Rightarrow> (case fl_rfc3339 libs s of
          Inr _ \<Rightarrow> ([\<lparr>tc_value = s, tc_source_field = field, tc_timezone_assumption = None,
                      tc_precision = ''rfc3339'', tc_confidence = ''high''\<rparr>], [])
        | Inl _ \<Rightarrow> ([\<lparr>tc_value = s, tc_source_field = field, tc_timezone_assumption = None,
                      tc_precision = ''source_text'', tc_confidence = ''low''\<rparr>],
                   [''JSON timestamp candidate '' @ field
                      @ '' is not an absolute RFC3339 value; timezone is not assumed'']))
    | JNumber n \<Rightarrow> ([\<lparr>tc_value = n, tc_source_field = field, tc_timezone_assumption = None,
                      tc_precision = ''source_numeric_unspecified_unit'', tc_confidence = ''low''\<rparr>],
                   [''JSON timestamp candidate '' @ field
                      @ '' has no governed numeric unit; no event_time is inferred''])
    | _ \<Rightarrow> ([], []))"

definition json_timestamp_candidates ::
  "format_libs \<Rightarrow> string json \<Rightarrow> (timestamp_candidate list \<times> string list)" where
  "json_timestamp_candidates libs node = (case node of
      JObject members \<Rightarrow>
        let found = map (\<lambda>field. case json_object_get members field of
              None \<Rightarrow> ([], []) | Some v \<Rightarrow> timestamp_of_member libs field v)
            [''event_time'', ''timestamp'', ''@timestamp'']
        in (concat (map fst found), concat (map snd found))
    | _ \<Rightarrow> ([], []))"

section \<open>Generic JSON\<close>

definition probe_generic_json :: "parser_input \<Rightarrow> 8 word" where
  "probe_generic_json input =
    (let first = find (\<lambda>c. \<not> is_ascii_whitespace c) (pi_raw input);
         opens = (first = Some (CHR ''{'') \<or> first = Some (CHR ''['')) in
     if contains ''json'' (rp_content_type (pi_persisted input)) then (if opens then 60 else 35)
     else if opens then 30 else 0)"

definition parse_generic_json :: "format_libs \<Rightarrow> parser_input \<Rightarrow> (parsed_event, parse_error) result" where
  "parse_generic_json libs input =
    and_then (ensure_input_limit (pi_raw input) JSON_LIMITS) (\<lambda>_.
    and_then (map_err (\<lambda>e. parse_malformed (''invalid JSON syntax: '' @ e)) (fl_from_slice libs (pi_raw input))) (\<lambda>node.
    and_then (validate_json_tree node JSON_LIMITS) (\<lambda>_.
    let (timestamp_candidates, warnings) = json_timestamp_candidates libs node in
    Inr \<lparr>pe_parser_id = GENERIC_JSON_PARSER_ID, pe_parser_version = GENERIC_JSON_PARSER_VERSION,
      pe_source_event_type = ''generic.json'', pe_fields = json_to_parsed node,
      pe_timestamp_candidates = timestamp_candidates, pe_warnings = warnings,
      pe_status = (if warnings = [] then ParseSuccess else ParsePartial), pe_selection = None\<rparr>)))"

definition generic_json_parser :: "format_libs \<Rightarrow> parser" where
  "generic_json_parser libs =
    \<lparr>pa_id = GENERIC_JSON_PARSER_ID, pa_version = GENERIC_JSON_PARSER_VERSION, pa_tier = GenericTier,
     pa_limits = JSON_LIMITS, pa_probe = (\<lambda>input. Some (probe_generic_json input)),
     pa_parse = (\<lambda>input. Some (parse_generic_json libs input))\<rparr>"

section \<open>Canonical journald\<close>

definition ensure_journald_keys ::
  "format_libs \<Rightarrow> (string \<times> string json) list \<Rightarrow> string list \<Rightarrow> (unit, parse_error) result" where
  "ensure_journald_keys libs members allowed = (case find (\<lambda>key. key \<notin> set allowed) (map fst members) of
      Some key \<Rightarrow> Inl (parse_malformed (''unexpected journald canonical member '' @ fl_debug libs key))
    | None \<Rightarrow> Inr ())"

definition required_json_string :: "(string \<times> string json) list \<Rightarrow> string \<Rightarrow> (string, parse_error) result" where
  "required_json_string members field = (case json_object_get members field of
      Some (JString s) \<Rightarrow> Inr s
    | _ \<Rightarrow> Inl (parse_malformed (''journald field '' @ field @ '' must be a string'')))"

definition valid_journal_field_name :: "string \<Rightarrow> bool" where
  "valid_journal_field_name name \<longleftrightarrow> name \<noteq> [] \<and> length name \<le> 64
     \<and> list_all (\<lambda>c. c = CHR ''_'' \<or> is_ascii_uppercase c \<or> is_ascii_digit c) name"

definition journald_value :: "format_libs \<Rightarrow> parser_limits \<Rightarrow> string \<Rightarrow> string \<Rightarrow> (parsed_value, parse_error) result" where
  "journald_value libs limits encoding raw_value =
    (if encoding = ''utf8'' then Inr (PString raw_value)
     else if encoding = ''base64'' then
       and_then (map_err (\<lambda>e. parse_malformed (''invalid journald base64 value: '' @ e)) (fl_base64 libs raw_value)) (\<lambda>decoded.
       if length decoded > pl_max_string_bytes limits
       then Inl (limit_exceeded (''decoded journald field exceeds '' @ show_nat (pl_max_string_bytes limits) @ '' bytes''))
       else Inr (PBytes decoded))
     else Inl (parse_malformed (''journald field encoding must be utf8 or base64, got '' @ fl_debug libs encoding)))"

definition journald_timestamp :: "string \<Rightarrow> string \<Rightarrow> string \<Rightarrow> (timestamp_candidate option, parse_error) result" where
  "journald_timestamp name encoding raw_value =
    (if name \<in> {''__REALTIME_TIMESTAMP'', ''_SOURCE_REALTIME_TIMESTAMP''} \<and> encoding = ''utf8'' then
       if raw_value = [] \<or> \<not> list_all is_ascii_digit raw_value
       then Inl (invalid_timestamp (''journald '' @ name @ '' must be Unix epoch microseconds''))
       else Inr (Some \<lparr>tc_value = raw_value, tc_source_field = name, tc_timezone_assumption = None,
                       tc_precision = ''microsecond'', tc_confidence = ''high''\<rparr>)
     else Inr None)"

definition parse_journald_field ::
  "format_libs \<Rightarrow> parser_limits \<Rightarrow> string json \<Rightarrow> (parsed_value \<times> timestamp_candidate option, parse_error) result" where
  "parse_journald_field libs limits field =
    (case field of
       JObject members \<Rightarrow>
    and_then (ensure_journald_keys libs members [''name'', ''encoding'', ''value'']) (\<lambda>_.
    and_then (required_json_string members ''name'') (\<lambda>name.
    if \<not> valid_journal_field_name name
    then Inl (parse_malformed (''invalid journald field name '' @ fl_debug libs name))
    else
    and_then (required_json_string members ''encoding'') (\<lambda>encoding.
    and_then (required_json_string members ''value'') (\<lambda>raw_value.
    and_then (journald_value libs limits encoding raw_value) (\<lambda>parsed_value.
    and_then (journald_timestamp name encoding raw_value) (\<lambda>timestamp_candidate.
    Inr (parsed_object [(''name'', PString name), (''encoding'', PString encoding), (''value'', parsed_value)],
         timestamp_candidate)))))))
     | _ \<Rightarrow> Inl (parse_malformed ''each journald field must be an object''))"

definition journald_cursor :: "(string \<times> string json) list \<Rightarrow> (parsed_value, parse_error) result" where
  "journald_cursor members = (case json_object_get members ''cursor'' of
      None \<Rightarrow> Inr PNull
    | Some JNull \<Rightarrow> Inr PNull
    | Some (JString s) \<Rightarrow> Inr (PString s)
    | Some _ \<Rightarrow> Inl (parse_malformed ''journald cursor must be a string or null''))"

definition journald_version :: "(string \<times> string json) list \<Rightarrow> (unit, parse_error) result" where
  "journald_version members =
    and_then (ok_or (parse_malformed ''cerbero_journald_version must be an unsigned integer'')
      (case json_object_get members ''cerbero_journald_version'' of Some (JNumber n) \<Rightarrow> parse_u64 n | _ \<Rightarrow> None)) (\<lambda>version.
    if version \<noteq> 1
    then Inl (parse_failure ''CER-PARSE-UNSUPPORTED-VERSION''
      (''unsupported journald canonical version '' @ show_nat (unat version)))
    else Inr ())"

definition probe_journald :: "string \<Rightarrow> 8 word" where
  "probe_journald raw =
    (let trimmed = trim_ascii_whitespace raw; q = [CHR 0x22] in
     if trimmed = [] \<or> hd trimmed \<noteq> CHR ''{'' then 0
     else if contains (q @ ''cerbero_journald_version'' @ q) trimmed \<and> contains (q @ ''fields'' @ q) trimmed
     then 100 else 0)"

definition parse_journald :: "format_libs \<Rightarrow> parser_input \<Rightarrow> (parsed_event, parse_error) result" where
  "parse_journald libs input =
    and_then (ensure_input_limit (pi_raw input) JSON_LIMITS) (\<lambda>_.
    and_then (map_err (\<lambda>e. parse_malformed (''invalid journald canonical JSON: '' @ e)) (fl_from_slice libs (pi_raw input))) (\<lambda>node.
    and_then (validate_json_tree node JSON_LIMITS) (\<lambda>_.
    case node of
      JObject members \<Rightarrow>
        and_then (ensure_journald_keys libs members [''cerbero_journald_version'', ''cursor'', ''fields'']) (\<lambda>_.
        and_then (journald_version members) (\<lambda>_.
        and_then (journald_cursor members) (\<lambda>cursor.
        and_then (case json_object_get members ''fields'' of Some (JArray vs) \<Rightarrow> Inr vs
          | _ \<Rightarrow> Inl (parse_malformed ''journald canonical fields must be an array'')) (\<lambda>entries.
        and_then (try_map (parse_journald_field libs JSON_LIMITS) entries) (\<lambda>parsed.
        Inr \<lparr>pe_parser_id = JOURNALD_CANONICAL_PARSER_ID, pe_parser_version = JOURNALD_CANONICAL_PARSER_VERSION,
          pe_source_event_type = ''journald.entry'',
          pe_fields = parsed_object [(''cursor'', cursor), (''journal_fields'', PArray (map fst parsed))],
          pe_timestamp_candidates = List.map_filter snd parsed, pe_warnings = [], pe_status = ParseSuccess,
          pe_selection = None\<rparr>)))))
    | _ \<Rightarrow> Inl (parse_malformed ''journald canonical representation must be a JSON object''))))"

definition journald_canonical_parser :: "format_libs \<Rightarrow> parser" where
  "journald_canonical_parser libs =
    \<lparr>pa_id = JOURNALD_CANONICAL_PARSER_ID, pa_version = JOURNALD_CANONICAL_PARSER_VERSION, pa_tier = SourceSpecific,
     pa_limits = JSON_LIMITS, pa_probe = (\<lambda>input. Some (probe_journald (pi_raw input))),
     pa_parse = (\<lambda>input. Some (parse_journald libs input))\<rparr>"

section \<open>Syslog\<close>

definition parse_pri_prefix :: "string \<Rightarrow> (8 word \<times> string, parse_error) result" where
  "parse_pri_prefix line =
    and_then (ok_or (parse_malformed (''syslog PRI must start with '<'' @ [CHR 0x27])) (strip_prefix ''<'' line)) (\<lambda>rest.
    and_then (ok_or (parse_malformed (''syslog PRI is missing '>'' @ [CHR 0x27])) (split_once ''>'' rest)) (\<lambda>(pri_text, rest).
    if pri_text = [] \<or> length pri_text > 3 \<or> \<not> list_all is_ascii_digit pri_text
    then Inl (parse_malformed ''syslog PRI must contain 1-3 decimal digits'')
    else
    and_then (ok_or (parse_malformed ''syslog PRI is not a valid integer'') (parse_u16 pri_text)) (\<lambda>pri.
    if pri > 191 then Inl (parse_malformed ''syslog PRI must be between 0 and 191'')
    else Inr (ucast pri, rest))))"

definition take_token :: "string \<Rightarrow> string \<Rightarrow> (string \<times> string, parse_error) result" where
  "take_token input name =
    and_then (ok_or (parse_malformed (''RFC5424 '' @ name @ '' is missing'')) (split_once '' '' input)) (\<lambda>(token, rest).
    if token = [] then Inl (parse_malformed (''RFC5424 '' @ name @ '' is empty'')) else Inr (token, rest))"

definition take_token_allow_terminal :: "string \<Rightarrow> string \<Rightarrow> (string \<times> string, parse_error) result" where
  "take_token_allow_terminal input name = (case split_once '' '' input of
      Some (token, rest) \<Rightarrow>
        if token = [] then Inl (parse_malformed (''RFC3164 '' @ name @ '' is empty'')) else Inr (token, rest)
    | None \<Rightarrow> if input = [] then Inl (parse_malformed (''RFC3164 '' @ name @ '' is missing'')) else Inr (input, []))"

text \<open>The inner loop over one element of the structured data: whether the scan is in quotes and after a
  backslash, whether the element was closed, and what is left.\<close>

fun scan_element :: "bool \<Rightarrow> bool \<Rightarrow> string \<Rightarrow> bool \<times> bool \<times> bool \<times> string" where
  "scan_element in_quotes escaped [] = (in_quotes, escaped, False, [])"
| "scan_element in_quotes escaped (b # s) =
    (if in_quotes then
       if escaped then scan_element True False s
       else if b = CHR 0x5C then scan_element True True s
       else if b = CHR 0x22 then scan_element False escaped s
       else scan_element True escaped s
     else if b = CHR 0x22 then scan_element True escaped s
     else if b = CHR '']'' then (in_quotes, escaped, True, s)
     else scan_element in_quotes escaped s)"

lemma scan_element_shorter: "scan_element q e s = (q', e', is_closed, rest) \<Longrightarrow> length rest \<le> length s"
  by (induction q e s rule: scan_element.induct) (auto split: if_splits)

text \<open>The outer loop, to what follows the last element.\<close>

function scan_elements :: "string \<Rightarrow> (string, parse_error) result" where
  "scan_elements s =
    (if s \<noteq> [] \<and> hd s = CHR ''['' then
       case scan_element False False (tl s) of (in_quotes, escaped, is_closed, rest) \<Rightarrow>
         if \<not> is_closed \<or> in_quotes \<or> escaped then Inl (parse_malformed ''RFC5424 STRUCTURED-DATA is not balanced'')
         else scan_elements rest
     else Inr s)"
  by pat_completeness auto
termination
proof (relation "measure length", goal_cases)
  case (2 s q y e z is_closed rest)
  then have "scan_element False False (tl s) = (q, e, is_closed, rest)" by simp
  then have "length rest \<le> length (tl s)" by (rule scan_element_shorter)
  with 2(1) show ?case by (cases s) simp_all
qed simp

declare scan_elements.simps [simp del]

definition split_structured_data :: "string \<Rightarrow> (string \<times> string, parse_error) result" where
  "split_structured_data input = (case strip_prefix ''-'' input of
      Some rest \<Rightarrow>
        if rest = [] then Inr (''-'', [])
        else (case strip_prefix '' '' rest of
          Some message \<Rightarrow> Inr (''-'', message)
        | None \<Rightarrow> Inl (parse_malformed ''RFC5424 NILVALUE structured data must be followed by a space''))
    | None \<Rightarrow>
        if input = [] \<or> hd input \<noteq> CHR ''[''
        then Inl (parse_malformed (''RFC5424 STRUCTURED-DATA must be '-' or start with '['' @ [CHR 0x27]))
        else and_then (scan_elements input) (\<lambda>rest.
          let structured_data = take (length input - length rest) input in
          if rest = [] then Inr (structured_data, [])
          else case strip_prefix '' '' rest of
            Some message \<Rightarrow> Inr (structured_data, message)
          | None \<Rightarrow> Inl (parse_malformed ''RFC5424 STRUCTURED-DATA must be followed by a space'')))"

definition parse_rfc3164_tag_and_message :: "string \<Rightarrow> string option \<times> string option \<times> string" where
  "parse_rfc3164_tag_and_message input = (case split_once '':'' input of
      None \<Rightarrow> (None, None, input)
    | Some (tag, message) \<Rightarrow>
        let message = (case strip_prefix '' '' message of Some m \<Rightarrow> m | None \<Rightarrow> message);
            plain = (if tag = [] then (None, None, message) else (Some tag, None, message)) in
        case rfind_char (CHR ''['') tag of
          None \<Rightarrow> plain
        | Some i \<Rightarrow>
            if ends_with '']'' tag \<and> i > 0 then
              (let procid = take (length tag - 1 - (i + 1)) (drop (i + 1) tag) in
               if procid \<noteq> [] then (Some (take i tag), Some procid, message) else plain)
            else plain)"

definition parse_ascii_u8 :: "string \<Rightarrow> string \<Rightarrow> (8 word, parse_error) result" where
  "parse_ascii_u8 bytes component =
    and_then (map_err (\<lambda>_. invalid_timestamp (''invalid RFC3164 '' @ component)) (from_utf8 bytes)) (\<lambda>s.
    ok_or (invalid_timestamp (''invalid RFC3164 '' @ component)) (parse_u8 (trim s)))"

definition month_names :: "string list" where
  "month_names = [''Jan'', ''Feb'', ''Mar'', ''Apr'', ''May'', ''Jun'', ''Jul'', ''Aug'', ''Sep'', ''Oct'', ''Nov'', ''Dec'']"

definition slice :: "nat \<Rightarrow> nat \<Rightarrow> string \<Rightarrow> string" where
  "slice i j s = take (j - i) (drop i s)"

definition validate_rfc3164_timestamp :: "string \<Rightarrow> (unit, parse_error) result" where
  "validate_rfc3164_timestamp bytes =
    (if length bytes \<noteq> 15 \<or> bytes ! 3 \<noteq> CHR '' '' \<or> bytes ! 6 \<noteq> CHR '' '' \<or> bytes ! 9 \<noteq> CHR '':'' \<or> bytes ! 12 \<noteq> CHR '':''
     then Inl (invalid_timestamp (''RFC3164 timestamp must match 'Mmm dd HH:MM:SS'' @ [CHR 0x27]))
     else if slice 0 3 bytes \<notin> set month_names then Inl (invalid_timestamp ''invalid RFC3164 month'')
     else
    and_then (parse_ascii_u8 (slice 4 6 bytes) ''day'') (\<lambda>day.
    and_then (parse_ascii_u8 (slice 7 9 bytes) ''hour'') (\<lambda>hour.
    and_then (parse_ascii_u8 (slice 10 12 bytes) ''minute'') (\<lambda>minute.
    and_then (parse_ascii_u8 (slice 13 15 bytes) ''second'') (\<lambda>second.
    if \<not> (1 \<le> day \<and> day \<le> 31) \<or> hour > 23 \<or> minute > 59 \<or> second > 59
    then Inl (invalid_timestamp ''RFC3164 timestamp component out of range'')
    else Inr ())))))"

definition looks_like_rfc3164_timestamp_shape :: "string \<Rightarrow> bool" where
  "looks_like_rfc3164_timestamp_shape input \<longleftrightarrow> length input \<ge> 15 \<and> input ! 3 = CHR '' '' \<and> input ! 6 = CHR '' ''
     \<and> input ! 9 = CHR '':'' \<and> input ! 12 = CHR '':''
     \<and> list_all (\<lambda>c. is_ascii_lowercase c \<or> is_ascii_uppercase c) (take 3 input)"

definition token_value :: "string \<Rightarrow> parsed_value" where
  "token_value token = (if token = ''-'' then PNull else PString token)"

record syslog_field_set =
  sf_pri :: "8 word"
  sf_version :: "16 word option"
  sf_timestamp :: parsed_value
  sf_hostname :: parsed_value
  sf_app_name :: parsed_value
  sf_procid :: parsed_value
  sf_msgid :: parsed_value
  sf_structured_data :: parsed_value
  sf_message :: string

definition syslog_fields :: "syslog_field_set \<Rightarrow> parsed_value" where
  "syslog_fields fs = parsed_object
    [(''pri'', PNumber (show_nat (unat (sf_pri fs)))),
     (''facility'', PNumber (show_nat (unat (sf_pri fs div 8)))),
     (''severity'', PNumber (show_nat (unat (sf_pri fs mod 8)))),
     (''version'', (case sf_version fs of None \<Rightarrow> PNull | Some v \<Rightarrow> PNumber (show_nat (unat v)))),
     (''timestamp'', sf_timestamp fs), (''hostname'', sf_hostname fs), (''app_name'', sf_app_name fs),
     (''procid'', sf_procid fs), (''msgid'', sf_msgid fs), (''structured_data'', sf_structured_data fs),
     (''message'', PString (sf_message fs))]"

definition rfc5424_time ::
  "format_libs \<Rightarrow> string \<Rightarrow> (timestamp_candidate list \<times> string list \<times> parsing_status, parse_error) result" where
  "rfc5424_time libs timestamp =
    (if timestamp = ''-''
     then Inr ([], [''RFC5424 TIMESTAMP is NILVALUE; event_time candidate unavailable''], ParsePartial)
     else and_then (map_err (\<lambda>e. invalid_timestamp (''invalid RFC5424 TIMESTAMP '' @ fl_debug libs timestamp @ '': '' @ e))
       (fl_rfc3339 libs timestamp)) (\<lambda>_.
       Inr ([\<lparr>tc_value = timestamp, tc_source_field = ''timestamp'', tc_timezone_assumption = None,
              tc_precision = ''rfc3339'', tc_confidence = ''high''\<rparr>], [], ParseSuccess)))"

definition parse_rfc5424 :: "format_libs \<Rightarrow> string \<Rightarrow> (parsed_event, parse_error) result" where
  "parse_rfc5424 libs line =
    and_then (parse_pri_prefix line) (\<lambda>(pri, rest).
    and_then (take_token rest ''VERSION'') (\<lambda>(version_text, rest).
    and_then (ok_or (parse_malformed ''RFC5424 VERSION must be an unsigned integer'') (parse_u16 version_text)) (\<lambda>version.
    if version \<noteq> 1
    then Inl (parse_failure ''CER-PARSE-UNSUPPORTED-VERSION'' (''unsupported RFC5424 VERSION '' @ show_nat (unat version)))
    else
    and_then (take_token rest ''TIMESTAMP'') (\<lambda>(timestamp, rest).
    and_then (take_token rest ''HOSTNAME'') (\<lambda>(hostname, rest).
    and_then (take_token rest ''APP-NAME'') (\<lambda>(app_name, rest).
    and_then (take_token rest ''PROCID'') (\<lambda>(procid, rest).
    and_then (take_token rest ''MSGID'') (\<lambda>(msgid, rest).
    and_then (split_structured_data rest) (\<lambda>(structured_data, message).
    and_then (rfc5424_time libs timestamp) (\<lambda>(timestamp_candidates, warnings, status).
    Inr \<lparr>pe_parser_id = SYSLOG_RFC5424_PARSER_ID, pe_parser_version = SYSLOG_RFC5424_PARSER_VERSION,
      pe_source_event_type = ''syslog.rfc5424'',
      pe_fields = syslog_fields
        \<lparr>sf_pri = pri, sf_version = Some version, sf_timestamp = token_value timestamp, sf_hostname = token_value hostname,
         sf_app_name = token_value app_name, sf_procid = token_value procid, sf_msgid = token_value msgid,
         sf_structured_data = (if structured_data = ''-'' then PNull else PString structured_data), sf_message = message\<rparr>,
      pe_timestamp_candidates = timestamp_candidates, pe_warnings = warnings, pe_status = status, pe_selection = None\<rparr>))))))))))"

definition parse_rfc3164 :: "string \<Rightarrow> (parsed_event, parse_error) result" where
  "parse_rfc3164 line =
    and_then (parse_pri_prefix line) (\<lambda>(pri, rest).
    if length rest < 16 then Inl (parse_malformed ''RFC3164 message is missing timestamp/hostname'')
    else if \<not> is_char_boundary rest 15 then Inl (parse_malformed ''RFC3164 timestamp is not ASCII-compatible'')
    else let timestamp = take 15 rest in
    and_then (validate_rfc3164_timestamp timestamp) (\<lambda>_.
    and_then (ok_or (parse_malformed ''RFC3164 timestamp must be followed by a space'')
      (strip_prefix '' '' (drop 15 rest))) (\<lambda>after_timestamp.
    and_then (take_token_allow_terminal after_timestamp ''HOSTNAME'') (\<lambda>(hostname, remainder).
    let (app_name, procid, message) = parse_rfc3164_tag_and_message remainder;
        opt = (\<lambda>v. case v of None \<Rightarrow> PNull | Some s \<Rightarrow> PString s) in
    Inr \<lparr>pe_parser_id = SYSLOG_RFC3164_PARSER_ID, pe_parser_version = SYSLOG_RFC3164_PARSER_VERSION,
      pe_source_event_type = ''syslog.rfc3164'',
      pe_fields = syslog_fields
        \<lparr>sf_pri = pri, sf_version = None, sf_timestamp = PString timestamp, sf_hostname = PString hostname,
         sf_app_name = opt app_name, sf_procid = opt procid, sf_msgid = PNull, sf_structured_data = PNull,
         sf_message = message\<rparr>,
      pe_timestamp_candidates = [\<lparr>tc_value = timestamp, tc_source_field = ''timestamp'', tc_timezone_assumption = None,
        tc_precision = ''second_without_year_or_timezone'', tc_confidence = ''medium''\<rparr>],
      pe_warnings = [''RFC3164 timestamp has no year or timezone; source policy is required and UTC is not assumed''],
      pe_status = ParsePartial, pe_selection = None\<rparr>))))"

definition syslog_text :: "string \<Rightarrow> parser_input \<Rightarrow> (string, parse_error) result" where
  "syslog_text name input =
    and_then (ensure_input_limit (pi_raw input) SYSLOG_LIMITS) (\<lambda>_.
    and_then (map_err (\<lambda>e. parse_malformed (name @ '' input must be UTF-8: '' @ e)) (from_utf8 (pi_raw input))) (\<lambda>s.
    Inr (trim_line_end s)))"

definition probe_syslog :: "(string \<Rightarrow> bool) \<Rightarrow> 8 word \<Rightarrow> string \<Rightarrow> 8 word" where
  "probe_syslog looks_right confidence raw = (case from_utf8 raw of
      Inl _ \<Rightarrow> 0
    | Inr s \<Rightarrow> (case parse_pri_prefix (trim_line_end s) of
        Inl _ \<Rightarrow> 0
      | Inr (_, rest) \<Rightarrow> if looks_right rest then confidence else 0))"

definition looks_like_rfc5424_version :: "string \<Rightarrow> bool" where
  "looks_like_rfc5424_version rest \<longleftrightarrow>
    (let version = hd (split_on (CHR '' '') rest) in version \<noteq> [] \<and> list_all is_ascii_digit version)"

definition syslog_rfc5424_parser :: "format_libs \<Rightarrow> parser" where
  "syslog_rfc5424_parser libs =
    \<lparr>pa_id = SYSLOG_RFC5424_PARSER_ID, pa_version = SYSLOG_RFC5424_PARSER_VERSION, pa_tier = ContentProtocol,
     pa_limits = SYSLOG_LIMITS, pa_probe = (\<lambda>input. Some (probe_syslog looks_like_rfc5424_version 95 (pi_raw input))),
     pa_parse = (\<lambda>input. Some (and_then (syslog_text ''RFC5424'' input) (parse_rfc5424 libs)))\<rparr>"

definition syslog_rfc3164_parser :: parser where
  "syslog_rfc3164_parser =
    \<lparr>pa_id = SYSLOG_RFC3164_PARSER_ID, pa_version = SYSLOG_RFC3164_PARSER_VERSION, pa_tier = ContentProtocol,
     pa_limits = SYSLOG_LIMITS, pa_probe = (\<lambda>input. Some (probe_syslog looks_like_rfc3164_timestamp_shape 90 (pi_raw input))),
     pa_parse = (\<lambda>input. Some (and_then (syslog_text ''RFC3164'' input) parse_rfc3164))\<rparr>"

section \<open>The registry\<close>

definition with_linux_sshd_version :: "format_libs \<Rightarrow> string \<Rightarrow> (parser list, parse_error) result" where
  "with_linux_sshd_version libs version =
    and_then (if version = LINUX_SSHD_PARSER_VERSION then Inr linux_sshd_parser
      else if version = LINUX_SSHD_PARSER_V2_VERSION then Inr linux_sshd_parser_v2
      else Inl (parse_failure ''CER-PARSE-UNSUPPORTED-VERSION''
        (''unsupported governed linux/sshd parser version '' @ version))) (\<lambda>linux_sshd.
    Inr [linux_sshd, journald_canonical_parser libs, syslog_rfc5424_parser libs, syslog_rfc3164_parser,
         generic_json_parser libs])"

text \<open>\<open>with_defaults\<close> expects the default version to be registered; \<open>None\<close> would be its panic.\<close>

definition with_defaults :: "format_libs \<Rightarrow> parser list option" where
  "with_defaults libs = (case with_linux_sshd_version libs LINUX_SSHD_PARSER_VERSION of Inr ps \<Rightarrow> Some ps | Inl _ \<Rightarrow> None)"

definition register :: "parser \<Rightarrow> parser list \<Rightarrow> parser list" where
  "register p parsers = parsers @ [p]"

end
