(* ===== verification/Source_Time.thy ===== *)
theory Source_Time
  imports Parser_Formats
begin

text \<open>
  Source-time policies (\<open>source_time.rs\<close>): a fixed UTC offset per source, read from a specification
  text, and the resolution of an RFC 3164 timestamp, which has no year, to the instant nearest to the
  ingest time. The \<open>time\<close> crate is the record \<open>time_lib\<close> of the calls the code makes, over its types of
  offsets and of instants with an offset; \<open>to_offset\<close> panics outside the years the crate supports,
  which is \<open>None\<close>. A month is its number, a \<open>Date\<close> and a \<open>Time\<close> are their components.
\<close>

record ('o, 't) time_lib =
  tl_offset_from_hms :: "int \<Rightarrow> int \<Rightarrow> int \<Rightarrow> ('o, string) result"
  tl_from_unix_timestamp :: "int \<Rightarrow> ('t, string) result"
  tl_to_offset :: "'t \<Rightarrow> 'o \<Rightarrow> 't option"
  tl_year :: "'t \<Rightarrow> int"
  tl_from_calendar_date :: "int \<Rightarrow> nat \<Rightarrow> nat \<Rightarrow> bool"
  tl_time_from_hms :: "nat \<Rightarrow> nat \<Rightarrow> nat \<Rightarrow> (unit, string) result"
  tl_assume_offset :: "int \<times> nat \<times> nat \<Rightarrow> nat \<times> nat \<times> nat \<Rightarrow> 'o \<Rightarrow> 't"
  tl_unix_timestamp :: "'t \<Rightarrow> int"

section \<open>Policies\<close>

record 'o source_time_policy =
  sp_offset :: 'o
  sp_offset_text :: string

definition policy_text :: "'o source_time_policy \<Rightarrow> string" where
  "policy_text p = ''fixed_utc_offset='' @ sp_offset_text p @ '';rfc3164_year=nearest_ingest_year''"

type_synonym 'o source_time_policies = "(string, 'o source_time_policy) btree"

record event_time_context =
  et_event_time :: "timestamp option"
  et_source :: string
  et_assumption :: "string option"

definition unresolved :: event_time_context where
  "unresolved = \<lparr>et_event_time = None, et_source = ''ingest_time_fallback'', et_assumption = None\<rparr>"

definition from_persisted :: "raw_event_persisted \<Rightarrow> event_time_context" where
  "from_persisted persisted = (case rp_event_time persisted of
      Some t \<Rightarrow> \<lparr>et_event_time = Some t, et_source = ''event_time'', et_assumption = None\<rparr>
    | None \<Rightarrow> unresolved)"

text \<open>A \<open>SourceTimeError\<close> is its message.\<close>

definition parse_offset :: "('o, 't) time_lib \<Rightarrow> string \<Rightarrow> ('o \<times> string, string) result" where
  "parse_offset lib bytes =
    (if length bytes \<noteq> 6 \<or> bytes ! 0 \<notin> {CHR ''+'', CHR ''-''} \<or> bytes ! 3 \<noteq> CHR '':''
        \<or> \<not> list_all is_ascii_digit (slice 1 3 bytes) \<or> \<not> list_all is_ascii_digit (slice 4 6 bytes)
     then Inl ''source UTC offset must use exact +HH:MM or -HH:MM form''
     else let sign = (if bytes ! 0 = CHR ''-'' then - 1 else 1 :: int);
              hours = int (digits_value 0 (slice 1 3 bytes)); minutes = int (digits_value 0 (slice 4 6 bytes)) in
       and_then (map_err (\<lambda>e. ''invalid source UTC offset: '' @ e)
         (tl_offset_from_hms lib (sign * hours) (sign * minutes) 0)) (\<lambda>offset. Inr (offset, bytes)))"

definition parse_spec_entry ::
  "('o, 't) time_lib \<Rightarrow> 'o source_time_policies \<Rightarrow> string \<Rightarrow> ('o source_time_policies, string) result" where
  "parse_spec_entry lib policies entry =
    and_then (ok_or ''source time policy entries must use source_id=+HH:MM or source_id=-HH:MM''
      (split_once ''='' entry)) (\<lambda>(source_id, offset_text).
    let source_id = trim source_id in
    if source_id = [] \<or> contains '','' source_id \<or> contains ''='' source_id
    then Inl (''source time policy source_id must be non-empty and cannot contain ',' or '='' @ [CHR 0x27])
    else if btree_get policies source_id \<noteq> None
    then Inl (''duplicate source time policy for source_id '' @ source_id)
    else and_then (parse_offset lib (trim offset_text)) (\<lambda>(offset, canonical).
      Inr (btree_insert source_id \<lparr>sp_offset = offset, sp_offset_text = canonical\<rparr> policies)))"

definition parse_spec :: "('o, 't) time_lib \<Rightarrow> string \<Rightarrow> ('o source_time_policies, string) result" where
  "parse_spec lib spec =
    (let spec = trim spec in
     if spec = [] then Inr [] else try_fold (parse_spec_entry lib) [] (split_on (CHR '','') spec))"

definition policy_canonical :: "'o source_time_policies \<Rightarrow> string \<Rightarrow> string option" where
  "policy_canonical policies source_id = map_option policy_text (btree_get policies source_id)"

section \<open>Resolution\<close>

definition parse_component_bytes :: "string \<Rightarrow> string \<Rightarrow> (nat, string) result" where
  "parse_component_bytes bytes name =
    and_then (map_err (\<lambda>_. ''invalid RFC3164 '' @ name) (from_utf8 bytes)) (\<lambda>s.
    ok_or (''invalid RFC3164 '' @ name) (parse_unsigned 8 (trim s)))"

definition month_number :: "string \<Rightarrow> nat option" where
  "month_number name = map_option (\<lambda>i. i + 1) (find (\<lambda>i. month_names ! i = name) [0..<12])"

definition parse_rfc3164_components :: "string \<Rightarrow> (nat \<times> nat \<times> nat \<times> nat \<times> nat, string) result" where
  "parse_rfc3164_components bytes =
    (if length bytes \<noteq> 15 then Inl (''RFC3164 candidate must match 'Mmm dd HH:MM:SS'' @ [CHR 0x27])
     else
    and_then (ok_or ''invalid RFC3164 month'' (month_number (slice 0 3 bytes))) (\<lambda>month.
    and_then (parse_component_bytes (slice 4 6 bytes) ''day'') (\<lambda>day.
    and_then (parse_component_bytes (slice 7 9 bytes) ''hour'') (\<lambda>hour.
    and_then (parse_component_bytes (slice 10 12 bytes) ''minute'') (\<lambda>minute.
    and_then (parse_component_bytes (slice 13 15 bytes) ''second'') (\<lambda>second.
    Inr (month, day, hour, minute, second)))))))"

text \<open>One year of the loop: an impossible date is skipped, an impossible time ends the search.\<close>

definition consider_year ::
  "('o, 't) time_lib \<Rightarrow> 'o \<Rightarrow> int \<Rightarrow> nat \<times> nat \<times> nat \<times> nat \<times> nat \<Rightarrow> (nat \<times> 't) option \<Rightarrow> int
     \<Rightarrow> ((nat \<times> 't) option, string) result" where
  "consider_year lib offset ingest components best year = (case components of (month, day, hour, minute, second) \<Rightarrow>
    if \<not> tl_from_calendar_date lib year month day then Inr best
    else and_then (map_err (\<lambda>e. ''invalid RFC3164 time: '' @ e) (tl_time_from_hms lib hour minute second)) (\<lambda>_.
      let candidate = tl_assume_offset lib (year, month, day) (hour, minute, second) offset;
          distance = nat \<bar>tl_unix_timestamp lib candidate - ingest\<bar> in
      Inr (case best of
          None \<Rightarrow> Some (distance, candidate)
        | Some (current, _) \<Rightarrow> if distance < current then Some (distance, candidate) else best)))"

definition resolve_rfc3164_nearest_year ::
  "('o, 't) time_lib \<Rightarrow> string \<Rightarrow> timestamp \<Rightarrow> 'o source_time_policy \<Rightarrow> (timestamp, string) result option" where
  "resolve_rfc3164_nearest_year lib value ingest policy =
    (case and_then (parse_rfc3164_components value) (\<lambda>components.
        and_then (map_err (\<lambda>e. ''invalid ingest_time: '' @ e) (tl_from_unix_timestamp lib (seconds ingest))) (\<lambda>ingest_utc.
        Inr (components, ingest_utc))) of
      Inl e \<Rightarrow> Some (Inl e)
    | Inr (components, ingest_utc) \<Rightarrow>
        (case tl_to_offset lib ingest_utc (sp_offset policy) of
          None \<Rightarrow> None
        | Some local_ingest \<Rightarrow>
            let base_year = tl_year lib local_ingest in
            Some (and_then (try_fold (consider_year lib (sp_offset policy) (tl_unix_timestamp lib ingest_utc) components) None
                [base_year - 1, base_year, base_year + 1]) (\<lambda>best.
              and_then (ok_or ''RFC3164 timestamp cannot be resolved under the source time policy'' best) (\<lambda>(_, best).
              Inr \<lparr>seconds = tl_unix_timestamp lib best, nanos = 0\<rparr>)))))"

definition resolve ::
  "('o, 't) time_lib \<Rightarrow> 'o source_time_policies \<Rightarrow> raw_event_persisted \<Rightarrow> parsed_event
     \<Rightarrow> (event_time_context, string) result option" where
  "resolve lib policies persisted parsed =
    (if rp_event_time persisted \<noteq> None then Some (Inr (from_persisted persisted))
     else if pe_parser_id parsed \<noteq> SYSLOG_RFC3164_PARSER_ID then Some (Inr unresolved)
     else case btree_get policies (rp_source_id persisted) of
       None \<Rightarrow> Some (Inr unresolved)
     | Some policy \<Rightarrow>
        (case find (\<lambda>c. tc_precision c = ''second_without_year_or_timezone'') (pe_timestamp_candidates parsed) of
          None \<Rightarrow> Some (Inr unresolved)
        | Some candidate \<Rightarrow>
            (case rp_ingest_time persisted of
              None \<Rightarrow> Some (Inr unresolved)
            | Some ingest_time \<Rightarrow>
                map_option (\<lambda>r. and_then r (\<lambda>event_time.
                    Inr \<lparr>et_event_time = Some event_time, et_source = ''source_time_policy'',
                         et_assumption = Some (policy_text policy @ '';candidate='' @ tc_source_field candidate)\<rparr>))
                  (resolve_rfc3164_nearest_year lib (tc_value candidate) ingest_time policy))))"

section \<open>The nearest year\<close>

definition instant_in_year ::
  "('o, 't) time_lib \<Rightarrow> 'o \<Rightarrow> nat \<times> nat \<times> nat \<times> nat \<times> nat \<Rightarrow> int \<Rightarrow> int" where
  "instant_in_year lib offset components year = (case components of (month, day, hour, minute, second) \<Rightarrow>
     tl_unix_timestamp lib (tl_assume_offset lib (year, month, day) (hour, minute, second) offset))"

definition in_every_year :: "('o, 't) time_lib \<Rightarrow> nat \<times> nat \<times> nat \<times> nat \<times> nat \<Rightarrow> bool" where
  "in_every_year lib components \<longleftrightarrow> (case components of (month, day, _) \<Rightarrow> \<forall>year. tl_from_calendar_date lib year month day)"

text \<open>The loop keeps a candidate that is at least as near as every year it has considered.\<close>

definition nearest_of :: "('o, 't) time_lib \<Rightarrow> 'o \<Rightarrow> int \<Rightarrow> nat \<times> nat \<times> nat \<times> nat \<times> nat \<Rightarrow> int set \<Rightarrow> (nat \<times> 't) option \<Rightarrow> bool" where
  "nearest_of lib offset ingest components years best = (case best of
      None \<Rightarrow> years = {}
    | Some (distance, c) \<Rightarrow> (\<exists>y\<in>years. tl_unix_timestamp lib c = instant_in_year lib offset components y)
        \<and> distance = nat \<bar>tl_unix_timestamp lib c - ingest\<bar>
        \<and> (\<forall>y\<in>years. distance \<le> nat \<bar>instant_in_year lib offset components y - ingest\<bar>))"

lemma consider_year_nearest:
  assumes "in_every_year lib components" "nearest_of lib offset ingest components years best"
    and "consider_year lib offset ingest components best year = Inr best'"
  shows "nearest_of lib offset ingest components (insert year years) best'"
proof -
  obtain month day hour minute second where c: "components = (month, day, hour, minute, second)" by (cases components)
  let ?c = "tl_assume_offset lib (year, month, day) (hour, minute, second) offset"
  have "best' = (case best of None \<Rightarrow> Some (nat \<bar>tl_unix_timestamp lib ?c - ingest\<bar>, ?c)
      | Some (current, _) \<Rightarrow> if nat \<bar>tl_unix_timestamp lib ?c - ingest\<bar> < current
          then Some (nat \<bar>tl_unix_timestamp lib ?c - ingest\<bar>, ?c) else best)"
    using assms(1,3) by (auto simp: consider_year_def c in_every_year_def result_simps Let_def)
  moreover have "tl_unix_timestamp lib ?c = instant_in_year lib offset components year" by (simp add: instant_in_year_def c)
  note best' = calculation this
  show ?thesis
  proof (cases best)
    case None
    with best' assms(2) show ?thesis by (simp add: nearest_of_def)
  next
    case (Some b)
    then obtain d c where b: "best = Some (d, c)" by (cases b) auto
    show ?thesis
    proof (cases "nat \<bar>tl_unix_timestamp lib ?c - ingest\<bar> < d")
      case True
      then have "best' = Some (nat \<bar>tl_unix_timestamp lib ?c - ingest\<bar>, ?c)" using best'(1) b by simp
      moreover have "\<forall>y\<in>years. d \<le> nat \<bar>instant_in_year lib offset components y - ingest\<bar>"
        using assms(2) unfolding b nearest_of_def option.case prod.case by blast
      then have "\<forall>y\<in>years. nat \<bar>tl_unix_timestamp lib ?c - ingest\<bar> \<le> nat \<bar>instant_in_year lib offset components y - ingest\<bar>"
        using True by fastforce
      ultimately show ?thesis using best'(2) by (simp add: nearest_of_def)
    next
      case False
      then have "best' = best" using best'(1) b by simp
      with False best'(2) assms(2) show ?thesis by (auto simp: b nearest_of_def)
    qed
  qed
qed

lemma try_fold_nearest:
  assumes "in_every_year lib components" "nearest_of lib offset ingest components years best"
    and "try_fold (consider_year lib offset ingest components) best ys = Inr best'"
  shows "nearest_of lib offset ingest components (set ys \<union> years) best'"
  using assms(2,3)
proof (induction ys arbitrary: best years)
  case (Cons y ys)
  then obtain b where "consider_year lib offset ingest components best y = Inr b"
    and "try_fold (consider_year lib offset ingest components) b ys = Inr best'" by (auto simp: result_simps)
  with consider_year_nearest [OF assms(1) Cons.prems(1)] show ?case using Cons.IH by fastforce
qed simp

text \<open>The documented behaviour of the calendar that the policy relies on: a later year is a later
  instant, and the year of the local ingest time is the year the ingest time lies in.\<close>

definition calendar_order :: "('o, 't) time_lib \<Rightarrow> 'o \<Rightarrow> nat \<times> nat \<times> nat \<times> nat \<times> nat \<Rightarrow> int \<Rightarrow> int \<Rightarrow> bool" where
  "calendar_order lib offset components ingest base_year \<longleftrightarrow>
     strict_mono (instant_in_year lib offset components)
     \<and> instant_in_year lib offset components (base_year - 1) < ingest
     \<and> ingest < instant_in_year lib offset components (base_year + 1)"

text \<open>For a date that every year has, an RFC 3164 timestamp is resolved to an instant of some year in
  the policy's offset, and no instant of any other year is nearer to the ingest time.\<close>

theorem rfc3164_nearest_year:
  assumes "resolve_rfc3164_nearest_year lib value ingest policy = Some (Inr resolved)"
    and "parse_rfc3164_components value = Inr components" "in_every_year lib components"
    and "tl_from_unix_timestamp lib (seconds ingest) = Inr ingest_utc" "tl_unix_timestamp lib ingest_utc = seconds ingest"
    and "tl_to_offset lib ingest_utc (sp_offset policy) = Some local_ingest"
    and "calendar_order lib (sp_offset policy) components (seconds ingest) (tl_year lib local_ingest)"
  shows "(\<exists>year. seconds resolved = instant_in_year lib (sp_offset policy) components year)
    \<and> (\<forall>year. \<bar>seconds resolved - seconds ingest\<bar> \<le> \<bar>instant_in_year lib (sp_offset policy) components year - seconds ingest\<bar>)"
proof -
  let ?base = "tl_year lib local_ingest" and ?at = "instant_in_year lib (sp_offset policy) components" and ?now = "seconds ingest"
  obtain best d where fold: "try_fold (consider_year lib (sp_offset policy) ?now components) None
      [?base - 1, ?base, ?base + 1] = Inr (Some (d, best))" and resolved: "seconds resolved = tl_unix_timestamp lib best"
    using assms(1,2,4,5,6) by (auto simp: resolve_rfc3164_nearest_year_def result_simps Let_def)
  have "nearest_of lib (sp_offset policy) ?now components ({?base - 1, ?base, ?base + 1} \<union> {}) (Some (d, best))"
    using try_fold_nearest [OF assms(3) _ fold, of "{}"] by (simp add: nearest_of_def)
  note best = this [unfolded nearest_of_def option.case prod.case, folded resolved]
  then have near: "\<exists>y. seconds resolved = ?at y" by blast
  have near2: "\<bar>seconds resolved - ?now\<bar> \<le> \<bar>?at y - ?now\<bar>" if "y \<in> {?base - 1, ?base, ?base + 1}" for y
  proof -
    have "nat \<bar>seconds resolved - ?now\<bar> \<le> nat \<bar>?at y - ?now\<bar>" using best that by blast
    then show ?thesis by simp
  qed
  have "\<bar>seconds resolved - ?now\<bar> \<le> \<bar>?at y - ?now\<bar>" for y
  proof -
    note order = assms(7) [unfolded calendar_order_def]
    consider "y < ?base - 1" | "y \<in> {?base - 1, ?base, ?base + 1}" | "?base + 1 < y" by fastforce
    then show ?thesis
    proof cases
      case 1
      then have "?at y < ?at (?base - 1)" using order by (auto dest: strict_monoD)
      then show ?thesis using near2 [of "?base - 1"] order by simp
    next
      case 2
      then show ?thesis by (rule near2)
    next
      case 3
      then have "?at (?base + 1) < ?at y" using order by (auto dest: strict_monoD)
      then show ?thesis using near2 [of "?base + 1"] order by simp
    qed
  qed
  with near show ?thesis by blast
qed

text \<open>A calendar of years of 365 days, in which instants are seconds.\<close>

definition day_of_year :: "nat \<Rightarrow> nat \<Rightarrow> int" where
  "day_of_year month day = 31 * (int month - 1) + int day - 1"

definition plain_calendar :: "(int, int) time_lib" where
  "plain_calendar =
    \<lparr>tl_offset_from_hms = (\<lambda>h m s. Inr (3600 * h + 60 * m + s)), tl_from_unix_timestamp = (\<lambda>t. Inr t),
     tl_to_offset = (\<lambda>t offset. Some t), tl_year = (\<lambda>t. 1970 + t div 31536000),
     tl_from_calendar_date = (\<lambda>y m d. 1 \<le> d \<and> d \<le> 28), tl_time_from_hms = (\<lambda>h m s. Inr ()),
     tl_assume_offset = (\<lambda>(y, m, d) (h, mi, s) offset.
       31536000 * (y - 1970) + 86400 * day_of_year m d + 3600 * int h + 60 * int mi + int s - offset),
     tl_unix_timestamp = (\<lambda>t. t)\<rparr>"

lemma plain_calendar_simps:
  "tl_from_unix_timestamp plain_calendar t = Inr t" "tl_unix_timestamp plain_calendar t = t" "tl_to_offset plain_calendar t z = Some t"
  by (simp_all add: plain_calendar_def)

theorem rfc3164_nearest_year_witness:
  "\<bar>seconds (projr (the (resolve_rfc3164_nearest_year plain_calendar ''Oct 11 22:14:15'' \<lparr>seconds = 24300000, nanos = 0\<rparr>
       \<lparr>sp_offset = 0, sp_offset_text = ''+00:00''\<rparr>))) - 24300000\<bar>
   \<le> \<bar>instant_in_year plain_calendar 0 (10, 11, 22, 14, 15) 1970 - 24300000\<bar>"
proof -
  let ?p = "\<lparr>sp_offset = 0, sp_offset_text = ''+00:00''\<rparr> :: int source_time_policy"
  let ?t = "\<lparr>seconds = 24300000, nanos = 0\<rparr> :: timestamp"
  have components: "parse_rfc3164_components ''Oct 11 22:14:15'' = Inr (10, 11, 22, 14, 15)" by code_simp
  have "strict_mono (instant_in_year plain_calendar 0 (10, 11, 22, 14, 15))"
    by (auto simp: strict_mono_def instant_in_year_def plain_calendar_def)
  then have order: "calendar_order plain_calendar (sp_offset ?p) (10, 11, 22, 14, 15) (seconds ?t) (tl_year plain_calendar 24300000)"
    by (simp add: calendar_order_def) (simp add: instant_in_year_def plain_calendar_def day_of_year_def)
  have every: "in_every_year plain_calendar (10, 11, 22, 14, 15)" by (simp add: in_every_year_def plain_calendar_def)
  obtain resolved where r: "resolve_rfc3164_nearest_year plain_calendar ''Oct 11 22:14:15'' ?t ?p = Some (Inr resolved)"
    by (simp add: resolve_rfc3164_nearest_year_def components)
      (simp add: plain_calendar_def consider_year_def Let_def day_of_year_def)
  from rfc3164_nearest_year [OF r components every, of 24300000 24300000] order show ?thesis
    by (simp add: r plain_calendar_simps)
qed

end
