(* ===== verification/Postgres.thy ===== *)
theory Postgres
  imports Rust_Std
begin

text \<open>
  What the stores share of PostgreSQL: the errors of a statement, text and UUID parameters, and the
  fate of a query whose connection may break.
\<close>

datatype pg_error = UniqueViolation string | CheckViolation string | InvalidText

type_synonym 'a pg = "('a, pg_error) result"

text \<open>\<open>$1::text::uuid\<close> reads a canonical UUID text in either case; a text parameter must not contain a
  zero byte.\<close>

definition pg_uuid :: "string \<Rightarrow> string" where
  "pg_uuid s = map to_ascii_lowercase s"

definition pg_text :: "string \<Rightarrow> string pg" where
  "pg_text s = (if CHR 0x00 \<in> set s then Inl InvalidText else Inr s)"

text \<open>A query is answered, or the connection fails before the statement is executed, or after it was
  committed.\<close>

datatype query_fate = Answered | Lost string | LostAfter string

lemma pg_text_ok [result_simps]: "pg_text s = Inr t \<longleftrightarrow> CHR 0x00 \<notin> set s \<and> t = s"
  by (auto simp: pg_text_def)

end
