(* ===== verification/Retry_State.thy ===== *)
theory Retry_State
  imports Postgres
begin

text \<open>
  The durable retry lifecycle of the normalizer (\<open>retry_state.rs\<close> and \<open>retry_state_postgres.rs\<close>): a
  failure is recorded per consumer and message key, up to the budget captured by the first failure;
  then, or when the error is not retryable, the message must be isolated. \<open>advance_retry_state\<close> is
  the reference transition of the source; the PostgreSQL store is modelled statement by statement
  under the constraints of \<open>migrations/postgres/000003_normalizer_retry_state.sql\<close>. An instant is a
  number of nanoseconds; the parameter \<open>to_pg\<close> is the conversion of the client to the resolution of
  \<open>timestamptz\<close> and \<open>show_pg\<close> the text of a database error. A \<open>uuid\<close> column always yields a text that
  \<open>Uuid::parse_str\<close> accepts, so its error branch is not modelled.
\<close>

section \<open>Errors\<close>

record normalizer_error =
  ne_code :: string
  ne_message :: string
  ne_retryable :: bool

definition retry_state_error :: "string \<Rightarrow> normalizer_error" where
  "retry_state_error m = \<lparr>ne_code = ''CER-NORM-RETRY-STATE'', ne_message = m, ne_retryable = False\<rparr>"

section \<open>Failures and states\<close>

record retry_failure =
  rf_consumer_name :: string
  rf_message_key :: string
  rf_message_id :: "128 word option"
  rf_occurred_at :: int
  rf_retry_budget :: "32 word"
  rf_delivery_attempt :: int
  rf_error_code :: string
  rf_error_message :: string
  rf_error_retryable :: bool
  rf_next_retry_at :: int

record retry_state =
  rs_consumer_name :: string
  rs_message_key :: string
  rs_message_id :: "128 word option"
  rs_first_failure_at :: int
  rs_last_failure_at :: int
  rs_failure_count :: "32 word"
  rs_retry_budget :: "32 word"
  rs_last_delivery_attempt :: int
  rs_last_error_code :: string
  rs_last_error_message :: string
  rs_last_error_retryable :: bool
  rs_next_retry_at :: "int option"

definition exhausted :: "retry_state \<Rightarrow> bool" where
  "exhausted s \<longleftrightarrow> rs_failure_count s \<ge> rs_retry_budget s"

definition isolation_required :: "retry_state \<Rightarrow> bool" where
  "isolation_required s \<longleftrightarrow> exhausted s \<or> \<not> rs_last_error_retryable s"

definition validate_key :: "string \<Rightarrow> string \<Rightarrow> (unit, normalizer_error) result" where
  "validate_key consumer_name message_key =
    (if trim consumer_name = '''' then Inl (retry_state_error ''retry consumer name is required'')
     else if trim message_key = '''' then Inl (retry_state_error ''retry message key is required'')
     else if length message_key > 256 then Inl (retry_state_error ''retry message key exceeds 256 bytes'')
     else Inr ())"

definition validate_failure :: "retry_failure \<Rightarrow> (unit, normalizer_error) result" where
  "validate_failure f =
    and_then (validate_key (rf_consumer_name f) (rf_message_key f)) (\<lambda>_.
    if rf_message_id f = Some 0
    then Inl (retry_state_error ''retry message_id must not be the nil UUID when present'')
    else if rf_retry_budget f = 0 then Inl (retry_state_error ''retry budget must be greater than zero'')
    else if rf_delivery_attempt f < 1
    then Inl (retry_state_error ''delivery attempt must be greater than zero'')
    else if trim (rf_error_code f) = '''' then Inl (retry_state_error ''retry error code is required'')
    else if rf_next_retry_at f < rf_occurred_at f
    then Inl (retry_state_error ''next retry time must not precede failure time'')
    else Inr ())"

definition validate_state :: "retry_state \<Rightarrow> (unit, normalizer_error) result" where
  "validate_state s =
    and_then (validate_key (rs_consumer_name s) (rs_message_key s)) (\<lambda>_.
    if rs_message_id s = Some 0
    then Inl (retry_state_error ''stored retry message_id must not be the nil UUID when present'')
    else if rs_failure_count s = 0
    then Inl (retry_state_error ''retry failure count must be greater than zero'')
    else if rs_retry_budget s = 0 then Inl (retry_state_error ''retry budget must be greater than zero'')
    else if rs_failure_count s > rs_retry_budget s
    then Inl (retry_state_error ''retry failure count exceeds captured retry budget'')
    else if rs_last_delivery_attempt s < 1
    then Inl (retry_state_error ''delivery attempt must be greater than zero'')
    else if trim (rs_last_error_code s) = '''' then Inl (retry_state_error ''retry error code is required'')
    else if rs_last_failure_at s < rs_first_failure_at s
    then Inl (retry_state_error ''last failure time must not precede first failure time'')
    else case (isolation_required s, rs_next_retry_at s) of
      (True, Some _) \<Rightarrow> Inl (retry_state_error ''isolating retry state must not have a next retry time'')
    | (False, None) \<Rightarrow> Inl (retry_state_error ''active retry state requires a next retry time'')
    | (False, Some next_retry_at) \<Rightarrow>
        if next_retry_at < rs_last_failure_at s
        then Inl (retry_state_error ''next retry time must not precede last failure time'')
        else Inr ()
    | (True, None) \<Rightarrow> Inr ())"

section \<open>The reference transition\<close>

definition later :: "int \<Rightarrow> int \<Rightarrow> int" where
  "later left right = (if left \<ge> right then left else right)"

definition saturating_add_u32 :: "32 word \<Rightarrow> 32 word \<Rightarrow> 32 word" where
  "saturating_add_u32 a b = (if unat a + unat b < 2 ^ 32 then a + b else - 1)"

definition option_or :: "'a option \<Rightarrow> 'a option \<Rightarrow> 'a option" where
  "option_or a b = (case a of Some x \<Rightarrow> Some x | None \<Rightarrow> b)"

definition ids_conflict :: "128 word option \<Rightarrow> 128 word option \<Rightarrow> bool" where
  "ids_conflict a b = (case (a, b) of (Some x, Some y) \<Rightarrow> x \<noteq> y | _ \<Rightarrow> False)"

definition first_retry_state :: "retry_failure \<Rightarrow> retry_state" where
  "first_retry_state f =
    \<lparr>rs_consumer_name = rf_consumer_name f, rs_message_key = rf_message_key f, rs_message_id = rf_message_id f,
     rs_first_failure_at = rf_occurred_at f, rs_last_failure_at = rf_occurred_at f, rs_failure_count = 1,
     rs_retry_budget = rf_retry_budget f, rs_last_delivery_attempt = rf_delivery_attempt f,
     rs_last_error_code = rf_error_code f, rs_last_error_message = rf_error_message f,
     rs_last_error_retryable = rf_error_retryable f,
     rs_next_retry_at = (if rf_error_retryable f \<and> rf_retry_budget f > 1 then Some (rf_next_retry_at f) else None)\<rparr>"

definition next_retry_state :: "retry_state \<Rightarrow> retry_failure \<Rightarrow> 32 word \<Rightarrow> retry_state" where
  "next_retry_state e f failure_count =
    (let last_failure_at = later (rs_last_failure_at e) (rf_occurred_at f);
         isolation = \<not> rf_error_retryable f \<or> failure_count \<ge> rs_retry_budget e
     in \<lparr>rs_consumer_name = rs_consumer_name e, rs_message_key = rs_message_key e,
         rs_message_id = option_or (rs_message_id e) (rf_message_id f),
         rs_first_failure_at = rs_first_failure_at e, rs_last_failure_at = last_failure_at,
         rs_failure_count = failure_count, rs_retry_budget = rs_retry_budget e,
         rs_last_delivery_attempt = rf_delivery_attempt f, rs_last_error_code = rf_error_code f,
         rs_last_error_message = rf_error_message f, rs_last_error_retryable = rf_error_retryable f,
         rs_next_retry_at = (if isolation then None else Some (later last_failure_at (rf_next_retry_at f)))\<rparr>)"

definition advance_retry_state ::
  "retry_state option \<Rightarrow> retry_failure \<Rightarrow> (retry_state, normalizer_error) result" where
  "advance_retry_state existing f =
    and_then (validate_failure f) (\<lambda>_.
    case existing of
      Some e \<Rightarrow>
        and_then (validate_state e) (\<lambda>_.
        if rs_consumer_name e \<noteq> rf_consumer_name f \<or> rs_message_key e \<noteq> rf_message_key f
        then Inl (retry_state_error ''retry failure key differs from existing lifecycle'')
        else if isolation_required e
        then Inl (retry_state_error ''cannot record another processing failure after isolation became required'')
        else if ids_conflict (rs_message_id e) (rf_message_id f)
        then Inl (retry_state_error ''retry message_id changed within one delivery lifecycle'')
        else let failure_count = saturating_add_u32 (rs_failure_count e) 1 in
        if failure_count > rs_retry_budget e
        then Inl (retry_state_error ''cannot record another processing failure after retry budget exhaustion'')
        else validated validate_state (next_retry_state e f failure_count))
    | None \<Rightarrow> validated validate_state (first_retry_state f))"

section \<open>The table\<close>

record retry_row =
  rw_consumer_name :: string
  rw_message_key :: string
  rw_message_id :: "128 word option"
  rw_first_failure_at :: int
  rw_last_failure_at :: int
  rw_failure_count :: int
  rw_retry_budget :: int
  rw_last_delivery_attempt :: int
  rw_last_error_code :: string
  rw_last_error_message :: string
  rw_last_error_retryable :: bool
  rw_next_retry_at :: "int option"

type_synonym retry_table = "string \<times> string \<rightharpoonup> retry_row"

definition retry_checks :: "retry_row \<Rightarrow> (string \<times> bool) list" where
  "retry_checks r =
    [(''normalizer_retry_state_budget_check'', rw_failure_count r \<le> rw_retry_budget r),
     (''normalizer_retry_state_consumer_name_check'', rw_consumer_name r \<noteq> ''''),
     (''normalizer_retry_state_delivery_attempt_check'', rw_last_delivery_attempt r \<ge> 1),
     (''normalizer_retry_state_error_code_check'', rw_last_error_code r \<noteq> ''''),
     (''normalizer_retry_state_failure_count_check'', rw_failure_count r \<ge> 1),
     (''normalizer_retry_state_failure_time_check'', rw_last_failure_at r \<ge> rw_first_failure_at r),
     (''normalizer_retry_state_lifecycle_check'',
        rw_last_error_retryable r \<and> rw_failure_count r < rw_retry_budget r \<and> rw_next_retry_at r \<noteq> None
        \<or> (\<not> rw_last_error_retryable r \<or> rw_failure_count r \<ge> rw_retry_budget r) \<and> rw_next_retry_at r = None),
     (''normalizer_retry_state_message_key_check'', rw_message_key r \<noteq> '''' \<and> length (rw_message_key r) \<le> 256),
     (''normalizer_retry_state_next_retry_time_check'',
        case rw_next_retry_at r of None \<Rightarrow> True | Some t \<Rightarrow> t \<ge> rw_last_failure_at r),
     (''normalizer_retry_state_retry_budget_check'', rw_retry_budget r \<ge> 1)]"

definition check_row :: "retry_row \<Rightarrow> unit pg" where
  "check_row r = (case find (\<lambda>(_, ok). \<not> ok) (retry_checks r) of
     None \<Rightarrow> Inr () | Some (name, _) \<Rightarrow> Inl (CheckViolation name))"

definition retry_insert_row :: "(int \<Rightarrow> int) \<Rightarrow> retry_failure \<Rightarrow> retry_row" where
  "retry_insert_row to_pg f =
    \<lparr>rw_consumer_name = rf_consumer_name f, rw_message_key = rf_message_key f, rw_message_id = rf_message_id f,
     rw_first_failure_at = to_pg (rf_occurred_at f), rw_last_failure_at = to_pg (rf_occurred_at f),
     rw_failure_count = 1, rw_retry_budget = uint (rf_retry_budget f),
     rw_last_delivery_attempt = rf_delivery_attempt f, rw_last_error_code = rf_error_code f,
     rw_last_error_message = rf_error_message f, rw_last_error_retryable = rf_error_retryable f,
     rw_next_retry_at = (if \<not> rf_error_retryable f \<or> uint (rf_retry_budget f) \<le> 1 then None
       else Some (to_pg (rf_next_retry_at f)))\<rparr>"

definition retry_update_row :: "(int \<Rightarrow> int) \<Rightarrow> retry_failure \<Rightarrow> retry_row \<Rightarrow> retry_row" where
  "retry_update_row to_pg f state = (let excluded = retry_insert_row to_pg f in
    state\<lparr>rw_message_id := option_or (rw_message_id state) (rw_message_id excluded),
      rw_last_failure_at := max (rw_last_failure_at state) (rw_last_failure_at excluded),
      rw_failure_count := rw_failure_count state + 1,
      rw_last_delivery_attempt := rw_last_delivery_attempt excluded,
      rw_last_error_code := rw_last_error_code excluded,
      rw_last_error_retryable := rw_last_error_retryable excluded,
      rw_last_error_message := rw_last_error_message excluded,
      rw_next_retry_at := (if \<not> rw_last_error_retryable excluded
          \<or> rw_failure_count state + 1 \<ge> rw_retry_budget state then None
        else Some (max (max (rw_last_failure_at state) (rw_last_failure_at excluded)) (to_pg (rf_next_retry_at f))))\<rparr>)"

text \<open>\<open>INSERT ... ON CONFLICT DO UPDATE ... WHERE ... RETURNING\<close>: the constraints hold the proposed row
  before the conflict is looked at; no row is returned when the condition of the update fails.\<close>

definition retry_upsert ::
  "(int \<Rightarrow> int) \<Rightarrow> retry_failure \<Rightarrow> retry_table \<Rightarrow> (retry_table \<times> retry_row option) pg" where
  "retry_upsert to_pg f table =
    and_then (try_each (\<lambda>s. and_then (pg_text s) (\<lambda>_. Inr ()))
      [rf_consumer_name f, rf_message_key f, rf_error_code f, rf_error_message f]) (\<lambda>_.
    and_then (check_row (retry_insert_row to_pg f)) (\<lambda>_.
    let k = (rf_consumer_name f, rf_message_key f) in
    case table k of
      None \<Rightarrow> Inr (table(k \<mapsto> retry_insert_row to_pg f), Some (retry_insert_row to_pg f))
    | Some state \<Rightarrow>
        if rw_failure_count state < rw_retry_budget state \<and> rw_last_error_retryable state
        then let row = retry_update_row to_pg f state in
          and_then (check_row row) (\<lambda>_. Inr (table(k \<mapsto> row), Some row))
        else Inr (table, None)))"

section \<open>The store\<close>

definition postgres_error :: "string \<Rightarrow> string \<Rightarrow> normalizer_error" where
  "postgres_error context error =
    \<lparr>ne_code = ''CER-NORM-RETRY-STATE-POSTGRES'', ne_message = context @ '': '' @ error, ne_retryable = True\<rparr>"

definition postgres_state_error :: "string \<Rightarrow> normalizer_error" where
  "postgres_state_error m =
    \<lparr>ne_code = ''CER-NORM-RETRY-STATE-POSTGRES'', ne_message = m, ne_retryable = True\<rparr>"

definition u32_from_bigint :: "int \<Rightarrow> string \<Rightarrow> (32 word, normalizer_error) result" where
  "u32_from_bigint v field =
    (if 0 \<le> v \<and> v < 2 ^ 32 then Inr (of_int v)
     else Inl (retry_state_error (''stored '' @ field @ '' is outside the u32 range'')))"

definition row_to_state :: "retry_row \<Rightarrow> (retry_state, normalizer_error) result" where
  "row_to_state row =
    and_then (u32_from_bigint (rw_failure_count row) ''failure_count'') (\<lambda>failure_count.
    and_then (u32_from_bigint (rw_retry_budget row) ''retry_budget'') (\<lambda>retry_budget.
    validated validate_state
      \<lparr>rs_consumer_name = rw_consumer_name row, rs_message_key = rw_message_key row,
       rs_message_id = rw_message_id row, rs_first_failure_at = rw_first_failure_at row,
       rs_last_failure_at = rw_last_failure_at row, rs_failure_count = failure_count,
       rs_retry_budget = retry_budget, rs_last_delivery_attempt = rw_last_delivery_attempt row,
       rs_last_error_code = rw_last_error_code row, rs_last_error_message = rw_last_error_message row,
       rs_last_error_retryable = rw_last_error_retryable row, rs_next_retry_at = rw_next_retry_at row\<rparr>))"

definition retry_load ::
  "(pg_error \<Rightarrow> string) \<Rightarrow> query_fate \<Rightarrow> string \<Rightarrow> string \<Rightarrow> retry_table \<Rightarrow> (retry_state option, normalizer_error) result" where
  "retry_load show_pg fate consumer_name message_key table =
    and_then (validate_key consumer_name message_key) (\<lambda>_.
    case fate of
      Lost e \<Rightarrow> Inl (postgres_error ''load retry state'' e)
    | LostAfter e \<Rightarrow> Inl (postgres_error ''load retry state'' e)
    | Answered \<Rightarrow>
        and_then (map_err (\<lambda>e. postgres_error ''load retry state'' (show_pg e))
          (and_then (pg_text consumer_name) (\<lambda>_. pg_text message_key))) (\<lambda>_.
        case table (consumer_name, message_key) of
          None \<Rightarrow> Inr None
        | Some row \<Rightarrow> and_then (row_to_state row) (\<lambda>s. Inr (Some s))))"

definition record_failure ::
  "(pg_error \<Rightarrow> string) \<Rightarrow> (int \<Rightarrow> int) \<Rightarrow> query_fate \<times> query_fate \<Rightarrow> retry_failure \<Rightarrow> retry_table
     \<Rightarrow> retry_table \<times> (retry_state, normalizer_error) result" where
  "record_failure show_pg to_pg fates f table =
    (case validate_failure f of
       Inl e \<Rightarrow> (table, Inl e)
     | Inr _ \<Rightarrow>
        (case fst fates of
           Lost e \<Rightarrow> (table, Inl (postgres_error ''record retry failure'' e))
         | LostAfter e \<Rightarrow>
             (case retry_upsert to_pg f table of
                Inl err \<Rightarrow> (table, Inl (postgres_error ''record retry failure'' e))
              | Inr (table', _) \<Rightarrow> (table', Inl (postgres_error ''record retry failure'' e)))
         | Answered \<Rightarrow>
             (case retry_upsert to_pg f table of
                Inl err \<Rightarrow> (table, Inl (postgres_error ''record retry failure'' (show_pg err)))
              | Inr (table', Some row) \<Rightarrow> (table', row_to_state row)
              | Inr (table', None) \<Rightarrow> (table',
                  and_then (retry_load show_pg (snd fates) (rf_consumer_name f) (rf_message_key f) table') (\<lambda>found.
                  case found of
                    Some s \<Rightarrow>
                      if isolation_required s
                      then Inl (retry_state_error ''cannot record another processing failure after isolation became required'')
                      else Inl (postgres_state_error ''retry-state upsert returned no row for an active lifecycle'')
                  | None \<Rightarrow> Inl (postgres_state_error ''retry-state upsert returned no row and no durable state exists''))))))"

definition retry_clear ::
  "(pg_error \<Rightarrow> string) \<Rightarrow> query_fate \<Rightarrow> string \<Rightarrow> string \<Rightarrow> retry_table \<Rightarrow> retry_table \<times> (unit, normalizer_error) result" where
  "retry_clear show_pg fate consumer_name message_key table =
    (case validate_key consumer_name message_key of
       Inl e \<Rightarrow> (table, Inl e)
     | Inr _ \<Rightarrow>
        (case fate of
           Lost e \<Rightarrow> (table, Inl (postgres_error ''clear retry state'' e))
         | LostAfter e \<Rightarrow> (table((consumer_name, message_key) := None), Inl (postgres_error ''clear retry state'' e))
         | Answered \<Rightarrow>
             (case and_then (pg_text consumer_name) (\<lambda>_. pg_text message_key) of
                Inl err \<Rightarrow> (table, Inl (postgres_error ''clear retry state'' (show_pg err)))
              | Inr _ \<Rightarrow> (table((consumer_name, message_key) := None), Inr ()))))"

end
