(* ===== verification/Signal_Contract.thy ===== *)
theory Signal_Contract
  imports Contracts
begin

text \<open>
  The canonical Signal v1 and its validator
  (\<open>cerbero-common/src/contracts/signal_validation.rs\<close>): the predicate \<open>wf_signal\<close> and the proof
  that \<open>validate_signal\<close> decides it. The \<open>HashSet\<close> of the input loop is a finite set, the counter
  of normalized-event inputs is a 64-bit word as in the code.
\<close>

section \<open>Data\<close>

record signal_provenance =
  sp_evaluated_at :: "timestamp option"
  sp_execution_backend :: int

record signal_input =
  si_signal_id :: string
  si_input_type :: int
  si_input_id :: string
  si_relation :: string
  si_ordinal :: "32 word"

record signal =
  sg_signal_id :: string
  sg_tenant_id :: string
  sg_rule_id :: string
  sg_rule_version :: string
  sg_rule_type :: int
  sg_severity :: string
  sg_confidence :: "string option"
  sg_status :: int
  sg_first_observed_at :: "timestamp option"
  sg_last_observed_at :: "timestamp option"
  sg_created_at :: "timestamp option"
  sg_execution_mode :: int
  sg_source_count :: "64 word"
  sg_event_count :: "64 word"
  sg_summary :: string
  sg_provenance :: "signal_provenance option"
  sg_inputs :: "signal_input list"

definition RULE_ID_PREFIX :: string where "RULE_ID_PREFIX = ''CER-DET-''"
definition RULE_ID_DIGITS :: nat where "RULE_ID_DIGITS = 6"
definition SIGNAL_RULE_TYPE_EVENT :: int where "SIGNAL_RULE_TYPE_EVENT = 1"
definition SIGNAL_RULE_TYPE_THRESHOLD :: int where "SIGNAL_RULE_TYPE_THRESHOLD = 2"
definition SIGNAL_RULE_TYPE_CORRELATION :: int where "SIGNAL_RULE_TYPE_CORRELATION = 3"
definition SIGNAL_INPUT_NORMALIZED_EVENT :: int where "SIGNAL_INPUT_NORMALIZED_EVENT = 1"

lemmas signal_constants = RULE_ID_PREFIX_def RULE_ID_DIGITS_def SIGNAL_RULE_TYPE_EVENT_def
  SIGNAL_RULE_TYPE_THRESHOLD_def SIGNAL_RULE_TYPE_CORRELATION_def SIGNAL_INPUT_NORMALIZED_EVENT_def

section \<open>The validator\<close>

definition require_text :: "string \<Rightarrow> string \<Rightarrow> checked" where
  "require_text field value =
    (if trim value = '''' then Inl (violation field ''is required'') else Inr ())"

definition validate_detection_rule_id :: "string \<Rightarrow> checked" where
  "validate_detection_rule_id value =
    (case strip_prefix RULE_ID_PREFIX value of
       None \<Rightarrow> Inl (violation ''rule_id'' ''must match CER-DET-XXXXXX with exactly six ASCII digits'')
     | Some suffix \<Rightarrow>
         if length suffix \<noteq> RULE_ID_DIGITS \<or> \<not> list_all is_ascii_digit suffix
         then Inl (violation ''rule_id'' ''must match CER-DET-XXXXXX with exactly six ASCII digits'')
         else Inr ())"

definition validate_signal_input :: "string \<Rightarrow> signal_input \<Rightarrow> nat \<Rightarrow> checked" where
  "validate_signal_input signal_id input expected_ordinal =
    (if si_signal_id input \<noteq> signal_id
     then Inl (violation ''inputs.signal_id'' ''must equal the containing Signal.signal_id'')
     else if \<not> (1 \<le> si_input_type input \<and> si_input_type input \<le> 3)
     then Inl (violation ''inputs.input_type'' ''must be NORMALIZED_EVENT, SIGNAL, or ENTITY'')
     else and_then (validate_uuid_v7 ''inputs.input_id'' (si_input_id input)) (\<lambda>_.
     and_then (require_text ''inputs.relation'' (si_relation input)) (\<lambda>_.
     and_then (ok_or (violation ''inputs.ordinal'' ''input list exceeds uint32 ordinal capacity'')
                 (u32_try_from expected_ordinal)) (\<lambda>expected.
     if si_ordinal input \<noteq> expected
     then Inl (violation ''inputs.ordinal''
                 (''must equal zero-based input position '' @ show_nat (unat expected)))
     else Inr ()))))"

definition validate_signal_identity :: "signal \<Rightarrow> checked" where
  "validate_signal_identity s =
    and_then (validate_uuid_v7 ''signal_id'' (sg_signal_id s)) (\<lambda>_.
    and_then (validate_uuid_v7 ''tenant_id'' (sg_tenant_id s)) (\<lambda>_.
    and_then (validate_detection_rule_id (sg_rule_id s)) (\<lambda>_.
    and_then (require_text ''rule_version'' (sg_rule_version s)) (\<lambda>_.
    if sg_rule_type s \<notin> {SIGNAL_RULE_TYPE_EVENT, SIGNAL_RULE_TYPE_THRESHOLD, SIGNAL_RULE_TYPE_CORRELATION}
    then Inl (violation ''rule_type'' ''must be EVENT, THRESHOLD, or CORRELATION'')
    else and_then (require_text ''severity'' (sg_severity s)) (\<lambda>_.
    and_then (case sg_confidence s of None \<Rightarrow> Inr ()
              | Some confidence \<Rightarrow> require_text ''confidence'' confidence) (\<lambda>_.
    if \<not> (1 \<le> sg_status s \<and> sg_status s \<le> 4)
    then Inl (violation ''status'' ''must be ACTIVE, SUPPRESSED, PROMOTED, or INVALIDATED'')
    else if \<not> (1 \<le> sg_execution_mode s \<and> sg_execution_mode s \<le> 3)
    then Inl (violation ''execution_mode'' ''must distinguish LIVE, REPLAY, or TEST'')
    else Inr ()))))))"

definition validate_signal_times :: "signal \<Rightarrow> checked" where
  "validate_signal_times s =
    and_then (case (sg_first_observed_at s, sg_last_observed_at s) of
        (None, None) \<Rightarrow> Inr ()
      | (Some first_at, Some last_at) \<Rightarrow>
          and_then (validate_timestamp ''first_observed_at'' first_at) (\<lambda>_.
          and_then (validate_timestamp ''last_observed_at'' last_at) (\<lambda>_.
          if \<not> timestamp_le first_at last_at
          then Inl (violation ''first_observed_at'' ''must be less than or equal to last_observed_at'')
          else Inr ()))
      | _ \<Rightarrow> Inl (violation ''first_observed_at''
          ''first_observed_at and last_observed_at must both be present or both be absent'')) (\<lambda>_.
    and_then (ok_or (violation ''created_at'' ''is required'') (sg_created_at s)) (\<lambda>created_at.
    validate_timestamp ''created_at'' created_at))"

definition validate_signal_provenance :: "signal \<Rightarrow> checked" where
  "validate_signal_provenance s =
    and_then (ok_or (violation ''provenance'' ''is required'') (sg_provenance s)) (\<lambda>provenance.
    and_then (ok_or (violation ''provenance.evaluated_at'' ''is required'')
                (sp_evaluated_at provenance)) (\<lambda>evaluated_at.
    and_then (validate_timestamp ''provenance.evaluated_at'' evaluated_at) (\<lambda>_.
    if \<not> (1 \<le> sp_execution_backend provenance \<and> sp_execution_backend provenance \<le> 2)
    then Inl (violation ''provenance.execution_backend'' ''must be CLICKHOUSE or STREAM'')
    else Inr ())))"

definition validate_signal_counts :: "signal \<Rightarrow> checked" where
  "validate_signal_counts s =
    (if sg_source_count s = 0 then Inl (violation ''source_count'' ''must be greater than zero'')
     else if sg_event_count s = 0 then Inl (violation ''event_count'' ''must be greater than zero'')
     else require_text ''summary'' (sg_summary s))"

fun signal_input_step ::
  "string \<Rightarrow> (int \<times> string) set \<times> 64 word \<Rightarrow> nat \<times> signal_input
     \<Rightarrow> ((int \<times> string) set \<times> 64 word, contract_violation) result" where
  "signal_input_step signal_id (unique_inputs, normalized_event_inputs) (index, input) =
    and_then (validate_signal_input signal_id input index) (\<lambda>_.
    if (si_input_type input, si_input_id input) \<in> unique_inputs
    then Inl (violation ''inputs'' ''must not contain duplicate input_type/input_id pairs'')
    else Inr (insert (si_input_type input, si_input_id input) unique_inputs,
      if si_input_type input = SIGNAL_INPUT_NORMALIZED_EVENT
      then normalized_event_inputs + 1 else normalized_event_inputs))"

definition validate_signal_inputs :: "signal \<Rightarrow> (64 word, contract_violation) result" where
  "validate_signal_inputs s =
    (if sg_inputs s = []
     then Inl (violation ''inputs'' ''must preserve at least one contributing object'')
     else and_then (try_fold (signal_input_step (sg_signal_id s)) ({}, 0) (enumerate 0 (sg_inputs s)))
       (\<lambda>(_, normalized_event_inputs). Inr normalized_event_inputs))"

text \<open>The last match arm of \<open>validate_signal_rule_counts\<close> is \<open>unreachable!\<close>. The panic is the
  value below, told apart from every violation by its field; \<open>rule_counts_no_panic\<close> shows that
  the arm is not reached after \<open>validate_signal_identity\<close>.\<close>

definition unreachable_panic :: "string \<Rightarrow> contract_violation" where
  "unreachable_panic message = violation ''panic'' message"

definition validate_signal_rule_counts :: "signal \<Rightarrow> 64 word \<Rightarrow> checked" where
  "validate_signal_rule_counts s normalized_event_inputs =
    (let source_check =
       (if sg_source_count s > sg_event_count s
        then Inl (violation ''source_count'' ''cannot exceed event_count for EVENT or THRESHOLD Signals'')
        else Inr ())
     in if sg_rule_type s = SIGNAL_RULE_TYPE_EVENT then
          (if normalized_event_inputs \<noteq> 1 \<or> sg_event_count s \<noteq> 1
           then Inl (violation ''event_count''
             ''EVENT Signals require exactly one NORMALIZED_EVENT input and event_count = 1'')
           else source_check)
        else if sg_rule_type s = SIGNAL_RULE_TYPE_THRESHOLD then
          (if normalized_event_inputs = 0 \<or> normalized_event_inputs \<noteq> sg_event_count s
           then Inl (violation ''event_count''
             ''THRESHOLD Signals require one input per contributing NormalizedEvent'')
           else source_check)
        else if sg_rule_type s = SIGNAL_RULE_TYPE_CORRELATION then Inr ()
        else Inl (unreachable_panic ''rule_type was validated above''))"

definition validate_signal :: "signal \<Rightarrow> checked" where
  "validate_signal s =
    and_then (validate_signal_identity s) (\<lambda>_.
    and_then (validate_signal_times s) (\<lambda>_.
    and_then (validate_signal_counts s) (\<lambda>_.
    and_then (validate_signal_provenance s) (\<lambda>_.
    and_then (validate_signal_inputs s) (\<lambda>normalized_event_inputs.
    validate_signal_rule_counts s normalized_event_inputs)))))"

section \<open>Well-formed signals\<close>

definition has_text :: "string \<Rightarrow> bool" where
  "has_text s \<longleftrightarrow> trim s \<noteq> ''''"

definition detection_rule_id :: "string \<Rightarrow> bool" where
  "detection_rule_id r \<longleftrightarrow> (\<exists>d. r = ''CER-DET-'' @ d \<and> length d = 6 \<and> (\<forall>c\<in>set d. is_ascii_digit c))"

definition wf_observed_pair :: "timestamp option \<Rightarrow> timestamp option \<Rightarrow> bool" where
  "wf_observed_pair a b \<longleftrightarrow> (case (a, b) of (None, None) \<Rightarrow> True
     | (Some f, Some l) \<Rightarrow> valid_timestamp f \<and> valid_timestamp l \<and> timestamp_le f l
     | _ \<Rightarrow> False)"

definition wf_signal_input :: "string \<Rightarrow> nat \<Rightarrow> signal_input \<Rightarrow> bool" where
  "wf_signal_input sid i x \<longleftrightarrow> si_signal_id x = sid \<and> si_input_type x \<in> {1..3}
     \<and> uuid_v7 (si_input_id x) \<and> has_text (si_relation x) \<and> unat (si_ordinal x) = i"

definition normalized_inputs :: "signal_input list \<Rightarrow> nat" where
  "normalized_inputs xs = length (filter (\<lambda>x. si_input_type x = 1) xs)"

definition wf_signal_inputs :: "string \<Rightarrow> signal_input list \<Rightarrow> bool" where
  "wf_signal_inputs sid xs \<longleftrightarrow> xs \<noteq> [] \<and> (\<forall>i<length xs. wf_signal_input sid i (xs ! i))
     \<and> distinct (map (\<lambda>x. (si_input_type x, si_input_id x)) xs)"

definition wf_signal_counts :: "signal \<Rightarrow> bool" where
  "wf_signal_counts s \<longleftrightarrow> sg_source_count s \<noteq> 0 \<and> sg_event_count s \<noteq> 0
     \<and> (sg_rule_type s = 1 \<longrightarrow> normalized_inputs (sg_inputs s) = 1 \<and> sg_event_count s = 1)
     \<and> (sg_rule_type s = 2 \<longrightarrow> normalized_inputs (sg_inputs s) = unat (sg_event_count s))
     \<and> (sg_rule_type s \<noteq> 3 \<longrightarrow> sg_source_count s \<le> sg_event_count s)"

definition wf_signal :: "signal \<Rightarrow> bool" where
  "wf_signal s \<longleftrightarrow> uuid_v7 (sg_signal_id s) \<and> uuid_v7 (sg_tenant_id s)
     \<and> detection_rule_id (sg_rule_id s) \<and> has_text (sg_rule_version s)
     \<and> sg_rule_type s \<in> {1..3} \<and> has_text (sg_severity s)
     \<and> (\<forall>c. sg_confidence s = Some c \<longrightarrow> has_text c)
     \<and> sg_status s \<in> {1..4} \<and> sg_execution_mode s \<in> {1..3}
     \<and> wf_observed_pair (sg_first_observed_at s) (sg_last_observed_at s)
     \<and> (\<exists>t. sg_created_at s = Some t \<and> valid_timestamp t)
     \<and> has_text (sg_summary s)
     \<and> (\<exists>p t. sg_provenance s = Some p \<and> sp_evaluated_at p = Some t \<and> valid_timestamp t
            \<and> sp_execution_backend p \<in> {1..2})
     \<and> wf_signal_inputs (sg_signal_id s) (sg_inputs s) \<and> wf_signal_counts s"

section \<open>The validator decides well-formedness\<close>

lemma require_text_ok [result_simps]: "require_text field s = Inr u \<longleftrightarrow> has_text s"
  by (simp add: require_text_def has_text_def)

lemma has_text_solid: "solid c \<Longrightarrow> c \<in> set s \<Longrightarrow> has_text s"
  by (simp add: has_text_def trim_nonempty)

lemma validate_detection_rule_id_ok [result_simps]:
  "validate_detection_rule_id r = Inr u \<longleftrightarrow> detection_rule_id r"
  unfolding validate_detection_rule_id_def detection_rule_id_def RULE_ID_PREFIX_def [symmetric]
  by (auto simp: RULE_ID_DIGITS_def strip_prefix_eq_Some strip_prefix_eq_None list_all_iff
      split: option.splits)

lemma validate_signal_input_ok [result_simps]:
  "validate_signal_input sid x i = Inr u \<longleftrightarrow> wf_signal_input sid i x"
  by (auto simp: validate_signal_input_def wf_signal_input_def result_simps u32_try_from_eq_Some)

lemma signal_input_loop:
  "try_fold (signal_input_step sid) (seen, n) (enumerate k xs) = Inr (seen', n') \<longleftrightarrow>
     (\<forall>i<length xs. wf_signal_input sid (k + i) (xs ! i))
   \<and> distinct (map (\<lambda>x. (si_input_type x, si_input_id x)) xs)
   \<and> seen \<inter> (\<lambda>x. (si_input_type x, si_input_id x)) ` set xs = {}
   \<and> seen' = seen \<union> (\<lambda>x. (si_input_type x, si_input_id x)) ` set xs
   \<and> n' = n + of_nat (normalized_inputs xs)"
proof (induction xs arbitrary: k seen n)
  case Nil
  then show ?case by (auto simp: normalized_inputs_def)
next
  case (Cons x xs)
  show ?case
    by (auto simp: result_simps Cons.IH All_less_Suc2
        normalized_inputs_def signal_constants add.assoc)
qed

lemma wf_signal_inputs_bound:
  assumes "wf_signal_inputs sid xs"
  shows "length xs \<le> 2 ^ 32" and "normalized_inputs xs \<le> 2 ^ 32"
proof -
  have "length xs - 1 < length xs" and "unat (si_ordinal (xs ! (length xs - 1))) = length xs - 1"
    using assms by (auto simp: wf_signal_inputs_def wf_signal_input_def)
  then show "length xs \<le> 2 ^ 32"
    using unat_bound_u32 [of "si_ordinal (xs ! (length xs - 1))"] by linarith
  then show "normalized_inputs xs \<le> 2 ^ 32"
    unfolding normalized_inputs_def by (meson length_filter_le le_trans)
qed

text \<open>The counter does not wrap: a list that passes has at most \<open>2^32\<close> inputs.\<close>

lemma validate_signal_inputs_ok:
  "validate_signal_inputs s = Inr n \<longleftrightarrow>
     wf_signal_inputs (sg_signal_id s) (sg_inputs s) \<and> unat n = normalized_inputs (sg_inputs s)"
proof -
  have "validate_signal_inputs s = Inr n \<longleftrightarrow>
      wf_signal_inputs (sg_signal_id s) (sg_inputs s) \<and> n = of_nat (normalized_inputs (sg_inputs s))"
    by (auto simp: validate_signal_inputs_def wf_signal_inputs_def result_simps signal_input_loop)
  moreover have "unat (of_nat (normalized_inputs (sg_inputs s)) :: 64 word) = normalized_inputs (sg_inputs s)"
    if "wf_signal_inputs (sg_signal_id s) (sg_inputs s)"
    using wf_signal_inputs_bound(2) [OF that] by (simp add: unat_of_nat)
  ultimately show ?thesis by (metis word_unat_eq_iff)
qed

lemma validate_signal_identity_ok [result_simps]:
  "validate_signal_identity s = Inr u \<longleftrightarrow>
     uuid_v7 (sg_signal_id s) \<and> uuid_v7 (sg_tenant_id s)
     \<and> detection_rule_id (sg_rule_id s) \<and> has_text (sg_rule_version s)
     \<and> sg_rule_type s \<in> {1..3} \<and> has_text (sg_severity s)
     \<and> (\<forall>c. sg_confidence s = Some c \<longrightarrow> has_text c)
     \<and> sg_status s \<in> {1..4} \<and> sg_execution_mode s \<in> {1..3}"
proof -
  have rt: "x \<in> {1, 2, 3} \<longleftrightarrow> x \<in> {1..3}" for x :: int by auto
  have "(case sg_confidence s of None \<Rightarrow> Inr () | Some c \<Rightarrow> require_text ''confidence'' c) = Inr v
      \<longleftrightarrow> (\<forall>c. sg_confidence s = Some c \<longrightarrow> has_text c)" for v
    by (simp add: require_text_ok split: option.splits)
  then show ?thesis
    unfolding validate_signal_identity_def signal_constants rt
    by (auto simp: result_simps)
qed

lemma validate_signal_times_ok [result_simps]:
  "validate_signal_times s = Inr u \<longleftrightarrow> wf_observed_pair (sg_first_observed_at s) (sg_last_observed_at s)
     \<and> (\<exists>t. sg_created_at s = Some t \<and> valid_timestamp t)"
  by (auto simp: validate_signal_times_def wf_observed_pair_def result_simps split: option.splits)

lemma validate_signal_provenance_ok [result_simps]:
  "validate_signal_provenance s = Inr u \<longleftrightarrow>
     (\<exists>p t. sg_provenance s = Some p \<and> sp_evaluated_at p = Some t \<and> valid_timestamp t
        \<and> sp_execution_backend p \<in> {1..2})"
  by (auto simp: validate_signal_provenance_def result_simps)

lemma validate_signal_counts_ok [result_simps]:
  "validate_signal_counts s = Inr u \<longleftrightarrow> sg_source_count s \<noteq> 0 \<and> sg_event_count s \<noteq> 0 \<and> has_text (sg_summary s)"
  by (simp add: validate_signal_counts_def result_simps)

lemma validate_signal_rule_counts_ok:
  assumes "sg_rule_type s \<in> {1..3}" "sg_source_count s \<noteq> 0" "sg_event_count s \<noteq> 0"
    and n: "unat n = normalized_inputs (sg_inputs s)"
  shows "validate_signal_rule_counts s n = Inr () \<longleftrightarrow> wf_signal_counts s"
proof -
  have one: "n = 1 \<longleftrightarrow> normalized_inputs (sg_inputs s) = 1"
    and eq: "n = sg_event_count s \<longleftrightarrow> normalized_inputs (sg_inputs s) = unat (sg_event_count s)"
    unfolding n [symmetric] by (simp_all add: word_unat_eq_iff)
  have "sg_rule_type s = 1 \<or> sg_rule_type s = 2 \<or> sg_rule_type s = 3"
    using assms(1) by auto
  then show ?thesis
    using assms(2,3) one eq
    by (auto simp: validate_signal_rule_counts_def wf_signal_counts_def signal_constants Let_def)
qed

lemma rule_counts_no_panic:
  "validate_signal_identity s = Inr () \<Longrightarrow> validate_signal_rule_counts s n \<noteq> Inl (unreachable_panic m)"
  by (auto simp: validate_signal_identity_ok validate_signal_rule_counts_def signal_constants
      unreachable_panic_def violation_def Let_def)

lemma validate_signal_ok [result_simps]: "validate_signal s = Inr u \<longleftrightarrow> wf_signal s"
proof
  assume "validate_signal s = Inr u"
  then show "wf_signal s"
    by (auto simp: validate_signal_def wf_signal_def result_simps validate_signal_inputs_ok
        validate_signal_rule_counts_ok)
next
  assume wf: "wf_signal s"
  then have "validate_signal_inputs s = Inr (of_nat (normalized_inputs (sg_inputs s)))"
    using wf_signal_inputs_bound(2) [of "sg_signal_id s" "sg_inputs s"]
    by (simp add: validate_signal_inputs_ok wf_signal_def unat_of_nat)
  then show "validate_signal s = Inr u" using wf
    by (auto simp: validate_signal_def wf_signal_def result_simps validate_signal_rule_counts_ok
        validate_signal_inputs_ok wf_signal_counts_def)
qed

interpretation signal_contract: contract_validator validate_signal wf_signal
  by unfold_locales (rule validate_signal_ok)

end
