(* ===== verification/Rule_Contract.thy ===== *)
theory Rule_Contract
  imports Signal_Contract
begin

text \<open>
  The rule contract of cerbero-detection-core (\<open>rule_contract.rs\<close>): rule identities, lifecycle
  status and the test coverage that the STABLE status demands.
\<close>

datatype rule_id = RuleId (as_str: string)

datatype rule_contract_error = InvalidRuleId | StableRequiresAutomatedTests

definition rule_id_from_str :: "string \<Rightarrow> (rule_id, rule_contract_error) result" where
  "rule_id_from_str value =
    (case strip_prefix RULE_ID_PREFIX value of
       None \<Rightarrow> Inl InvalidRuleId
     | Some suffix \<Rightarrow>
         if length suffix \<noteq> RULE_ID_DIGITS \<or> \<not> list_all is_ascii_digit suffix
         then Inl InvalidRuleId else Inr (RuleId value))"

definition display_rule_id :: "rule_id \<Rightarrow> string" where
  "display_rule_id r = as_str r"

datatype rule_status = Experimental | Testing | Stable | Deprecated | Disabled

fun rule_status_as_str :: "rule_status \<Rightarrow> string" where
  "rule_status_as_str Experimental = ''EXPERIMENTAL''"
| "rule_status_as_str Testing = ''TESTING''"
| "rule_status_as_str Stable = ''STABLE''"
| "rule_status_as_str Deprecated = ''DEPRECATED''"
| "rule_status_as_str Disabled = ''DISABLED''"

record automated_test_coverage =
  positive :: bool
  negative :: bool
  edge_cases :: bool

definition coverage_new :: "bool \<Rightarrow> bool \<Rightarrow> bool \<Rightarrow> automated_test_coverage" where
  "coverage_new p n e = \<lparr>positive = p, negative = n, edge_cases = e\<rparr>"

definition coverage_complete :: automated_test_coverage where
  "coverage_complete = coverage_new True True True"

definition is_complete :: "automated_test_coverage \<Rightarrow> bool" where
  "is_complete c \<longleftrightarrow> positive c \<and> negative c \<and> edge_cases c"

fun display_rule_contract_error :: "rule_contract_error \<Rightarrow> string" where
  "display_rule_contract_error InvalidRuleId =
     ''detection rule id must match CER-DET-XXXXXX with exactly six ASCII digits''"
| "display_rule_contract_error StableRequiresAutomatedTests =
     ''STABLE detection rules require positive, negative, and edge-case automated tests''"

definition validate_rule_status ::
  "rule_status \<Rightarrow> automated_test_coverage \<Rightarrow> (unit, rule_contract_error) result" where
  "validate_rule_status status coverage =
    (if status = Stable \<and> \<not> is_complete coverage then Inl StableRequiresAutomatedTests else Inr ())"

section \<open>Facts\<close>

lemma rule_id_from_str_eq: "rule_id_from_str s =
    (case validate_detection_rule_id s of Inl _ \<Rightarrow> Inl InvalidRuleId | Inr _ \<Rightarrow> Inr (RuleId s))"
  by (simp add: rule_id_from_str_def validate_detection_rule_id_def split: option.splits)

lemma rule_id_from_str_ok [result_simps]:
  "rule_id_from_str s = Inr r \<longleftrightarrow> detection_rule_id s \<and> r = RuleId s"
  by (auto simp: rule_id_from_str_eq validate_detection_rule_id_ok split: sum.splits
      dest: validate_detection_rule_id_ok [THEN iffD2])

text \<open>A rule identity only comes out of \<open>from_str\<close> (the field of the newtype is private), so every
  one in the program satisfies this.\<close>

definition parsed_rule_id :: "rule_id \<Rightarrow> bool" where
  "parsed_rule_id r \<longleftrightarrow> rule_id_from_str (as_str r) = Inr r"

lemma parsed_rule_id_iff: "parsed_rule_id r \<longleftrightarrow> detection_rule_id (as_str r)"
  by (simp add: parsed_rule_id_def result_simps)

lemma rule_status_as_str_inject: "rule_status_as_str a = rule_status_as_str b \<longleftrightarrow> a = b"
  by (cases a; cases b) simp_all

lemma validate_rule_status_ok [result_simps]:
  "validate_rule_status st c = Inr u \<longleftrightarrow> (st = Stable \<longrightarrow> is_complete c)"
  by (simp add: validate_rule_status_def)

end
