(* ===== verification/Detection_Ast.thy ===== *)
theory Detection_Ast
  imports Rule_Contract
begin

text \<open>
  The detection AST and the first stages of rule compilation (\<open>ast.rs\<close>, \<open>validator.rs\<close>,
  \<open>compiler_contract.rs\<close>, \<open>type_checker.rs\<close>, \<open>event_optimizer.rs\<close> of cerbero-detection-core).
  The AST is generic in the field and value types as in the code; the traits of the schema layer
  (field types, value types, comparison policy) are function parameters. The validator is shown
  to report the first empty AND or OR in pre-order, the type checker to check the leaves from left
  to right.
\<close>

section \<open>The AST\<close>

datatype detection_expression_kind = KBoolean | KComparison | KExists | KSelection | KThreshold
  | KAggregation | KSequence | KJoin | KAbsence

fun kind_as_str :: "detection_expression_kind \<Rightarrow> string" where
  "kind_as_str KBoolean = ''BOOLEAN''"
| "kind_as_str KComparison = ''COMPARISON''"
| "kind_as_str KExists = ''EXISTS''"
| "kind_as_str KSelection = ''SELECTION''"
| "kind_as_str KThreshold = ''THRESHOLD''"
| "kind_as_str KAggregation = ''AGGREGATION''"
| "kind_as_str KSequence = ''SEQUENCE''"
| "kind_as_str KJoin = ''JOIN''"
| "kind_as_str KAbsence = ''ABSENCE''"

datatype boolean_operator = OpAnd | OpOr | OpNot

fun boolean_operator_as_str :: "boolean_operator \<Rightarrow> string" where
  "boolean_operator_as_str OpAnd = ''AND''"
| "boolean_operator_as_str OpOr = ''OR''"
| "boolean_operator_as_str OpNot = ''NOT''"

datatype comparison_operator = CEq | CNe | CGt | CGte | CLt | CLte | CIn | CNotIn
  | CContains | CStartsWith | CEndsWith | CMatches

fun comparison_operator_as_str :: "comparison_operator \<Rightarrow> string" where
  "comparison_operator_as_str CEq = ''EQ''"
| "comparison_operator_as_str CNe = ''NE''"
| "comparison_operator_as_str CGt = ''GT''"
| "comparison_operator_as_str CGte = ''GTE''"
| "comparison_operator_as_str CLt = ''LT''"
| "comparison_operator_as_str CLte = ''LTE''"
| "comparison_operator_as_str CIn = ''IN''"
| "comparison_operator_as_str CNotIn = ''NOT_IN''"
| "comparison_operator_as_str CContains = ''CONTAINS''"
| "comparison_operator_as_str CStartsWith = ''STARTS_WITH''"
| "comparison_operator_as_str CEndsWith = ''ENDS_WITH''"
| "comparison_operator_as_str CMatches = ''MATCHES''"

record ('f, 'v) comparison_expression =
  cx_field :: 'f
  cx_operator :: comparison_operator
  cx_value :: 'v

record 'f exists_expression =
  ex_field :: 'f

datatype ('f, 'v) boolean_expression =
    BAnd "('f, 'v) detection_expression list"
  | BOr "('f, 'v) detection_expression list"
  | BNot "('f, 'v) detection_expression"
and ('f, 'v) detection_expression =
    Boolean "('f, 'v) boolean_expression"
  | Comparison "('f, 'v) comparison_expression"
  | Exists "'f exists_expression"

fun operator_of :: "('f, 'v) boolean_expression \<Rightarrow> boolean_operator" where
  "operator_of (BAnd _) = OpAnd"
| "operator_of (BOr _) = OpOr"
| "operator_of (BNot _) = OpNot"

fun kind_of :: "('f, 'v) detection_expression \<Rightarrow> detection_expression_kind" where
  "kind_of (Boolean _) = KBoolean"
| "kind_of (Comparison _) = KComparison"
| "kind_of (Exists _) = KExists"

section \<open>Structural validation\<close>

datatype ast_validation_error = EmptyBooleanExpression boolean_operator

fun display_ast_validation_error :: "ast_validation_error \<Rightarrow> string" where
  "display_ast_validation_error (EmptyBooleanExpression operator) =
     boolean_operator_as_str operator @ '' detection expression requires at least one child''"

fun validate_expression :: "('f, 'v) detection_expression \<Rightarrow> (unit, ast_validation_error) result"
and validate_boolean_expression :: "('f, 'v) boolean_expression \<Rightarrow> (unit, ast_validation_error) result"
where
  "validate_expression (Boolean boolean) = validate_boolean_expression boolean"
| "validate_expression (Comparison _) = Inr ()"
| "validate_expression (Exists _) = Inr ()"
| "validate_boolean_expression (BAnd children) =
    (if children = [] then Inl (EmptyBooleanExpression (operator_of (BAnd children)))
     else try_each validate_expression children)"
| "validate_boolean_expression (BOr children) =
    (if children = [] then Inl (EmptyBooleanExpression (operator_of (BOr children)))
     else try_each validate_expression children)"
| "validate_boolean_expression (BNot child) = validate_expression child"

section \<open>Compilation errors and type checking\<close>

datatype rule_compilation_error_kind = SyntaxError | UnknownField | TypeError | InvalidOperator
  | InvalidWindow | UnsupportedBackend | InvalidMapping | ResourcePolicyViolation

fun rule_compilation_error_as_str :: "rule_compilation_error_kind \<Rightarrow> string" where
  "rule_compilation_error_as_str SyntaxError = ''SYNTAX_ERROR''"
| "rule_compilation_error_as_str UnknownField = ''UNKNOWN_FIELD''"
| "rule_compilation_error_as_str TypeError = ''TYPE_ERROR''"
| "rule_compilation_error_as_str InvalidOperator = ''INVALID_OPERATOR''"
| "rule_compilation_error_as_str InvalidWindow = ''INVALID_WINDOW''"
| "rule_compilation_error_as_str UnsupportedBackend = ''UNSUPPORTED_BACKEND''"
| "rule_compilation_error_as_str InvalidMapping = ''INVALID_MAPPING''"
| "rule_compilation_error_as_str ResourcePolicyViolation = ''RESOURCE_POLICY_VIOLATION''"

type_synonym 'a compiled = "('a, rule_compilation_error_kind) result"

definition require_field_type :: "(string \<Rightarrow> 't option) \<Rightarrow> string \<Rightarrow> 't compiled" where
  "require_field_type resolve_field_type field = ok_or UnknownField (resolve_field_type field)"

text \<open>The schema layer: \<open>FieldTypeResolver\<close>, \<open>ValueTypeResolver\<close> and \<open>ComparisonTypePolicy\<close>, and the
  \<open>AsRef<str>\<close> view of a field.\<close>

record ('f, 'v, 't, 'w) schema =
  as_ref :: "'f \<Rightarrow> string"
  resolve_field_type :: "string \<Rightarrow> 't option"
  resolve_value_type :: "'v \<Rightarrow> 'w"
  validate_comparison :: "'t \<Rightarrow> comparison_operator \<Rightarrow> 'w \<Rightarrow> unit compiled"

fun type_check_expression ::
  "('f, 'v, 't, 'w) schema \<Rightarrow> ('f, 'v) detection_expression \<Rightarrow> unit compiled"
and type_check_boolean :: "('f, 'v, 't, 'w) schema \<Rightarrow> ('f, 'v) boolean_expression \<Rightarrow> unit compiled"
where
  "type_check_expression sc (Boolean boolean) = type_check_boolean sc boolean"
| "type_check_expression sc (Comparison comparison) =
    and_then (require_field_type (resolve_field_type sc) (as_ref sc (cx_field comparison))) (\<lambda>field_type.
    validate_comparison sc field_type (cx_operator comparison)
      (resolve_value_type sc (cx_value comparison)))"
| "type_check_expression sc (Exists exists) =
    and_then (require_field_type (resolve_field_type sc) (as_ref sc (ex_field exists))) (\<lambda>_. Inr ())"
| "type_check_boolean sc (BAnd children) = try_each (type_check_expression sc) children"
| "type_check_boolean sc (BOr children) = try_each (type_check_expression sc) children"
| "type_check_boolean sc (BNot child) = type_check_expression sc child"

definition identity_optimize_event_ast ::
  "('f, 'v) detection_expression \<Rightarrow> ('f, 'v) detection_expression compiled" where
  "identity_optimize_event_ast expression = Inr expression"

section \<open>What validation and type checking decide\<close>

text \<open>The empty AND and OR nodes of an expression in pre-order, and its leaves from left to right.\<close>

fun empty_nodes :: "('f, 'v) detection_expression \<Rightarrow> boolean_operator list"
and empty_nodes_boolean :: "('f, 'v) boolean_expression \<Rightarrow> boolean_operator list"
where
  "empty_nodes (Boolean b) = empty_nodes_boolean b"
| "empty_nodes (Comparison _) = []"
| "empty_nodes (Exists _) = []"
| "empty_nodes_boolean (BAnd cs) = (if cs = [] then [OpAnd] else concat (map empty_nodes cs))"
| "empty_nodes_boolean (BOr cs) = (if cs = [] then [OpOr] else concat (map empty_nodes cs))"
| "empty_nodes_boolean (BNot c) = empty_nodes c"

datatype ('f, 'v) leaf = CompareLeaf 'f comparison_operator 'v | ExistsLeaf 'f

fun leaves :: "('f, 'v) detection_expression \<Rightarrow> ('f, 'v) leaf list"
and leaves_boolean :: "('f, 'v) boolean_expression \<Rightarrow> ('f, 'v) leaf list"
where
  "leaves (Boolean b) = leaves_boolean b"
| "leaves (Comparison c) = [CompareLeaf (cx_field c) (cx_operator c) (cx_value c)]"
| "leaves (Exists x) = [ExistsLeaf (ex_field x)]"
| "leaves_boolean (BAnd cs) = concat (map leaves cs)"
| "leaves_boolean (BOr cs) = concat (map leaves cs)"
| "leaves_boolean (BNot c) = leaves c"

fun check_leaf :: "('f, 'v, 't, 'w) schema \<Rightarrow> ('f, 'v) leaf \<Rightarrow> unit compiled" where
  "check_leaf sc (CompareLeaf f p v) =
     (case resolve_field_type sc (as_ref sc f) of None \<Rightarrow> Inl UnknownField
      | Some t \<Rightarrow> validate_comparison sc t p (resolve_value_type sc v))"
| "check_leaf sc (ExistsLeaf f) =
     (if resolve_field_type sc (as_ref sc f) = None then Inl UnknownField else Inr ())"

definition first_empty :: "boolean_operator list \<Rightarrow> (unit, ast_validation_error) result" where
  "first_empty ops = (case ops of [] \<Rightarrow> Inr () | p # _ \<Rightarrow> Inl (EmptyBooleanExpression p))"

lemma first_empty_append: "first_empty (xs @ ys) = and_then (first_empty xs) (\<lambda>_. first_empty ys)"
  by (cases xs) (simp_all add: first_empty_def)

lemma try_each_first_empty:
  "(\<And>c. c \<in> set cs \<Longrightarrow> f c = first_empty (g c)) \<Longrightarrow>
     try_each f cs = first_empty (concat (map g cs))"
  by (induction cs) (simp_all add: first_empty_append, simp add: first_empty_def)

lemma validate_expression_first_empty:
  fixes e :: "('f, 'v) detection_expression" and b :: "('f, 'v) boolean_expression"
  shows "validate_expression e = first_empty (empty_nodes e)"
  "validate_boolean_expression b = first_empty (empty_nodes_boolean b)"
  by (induction e and b rule: validate_expression_validate_boolean_expression.induct)
    (auto simp: try_each_first_empty, simp_all add: first_empty_def)

lemma validate_expression_ok [result_simps]: "validate_expression e = Inr u \<longleftrightarrow> empty_nodes e = []"
  by (auto simp: validate_expression_first_empty first_empty_def split: list.splits)

lemma try_each_append: "try_each f (xs @ ys) = and_then (try_each f xs) (\<lambda>_. try_each f ys)"
  by (induction xs) (auto simp: and_then_def split: sum.splits)

lemma try_each_concat:
  "(\<And>c. c \<in> set cs \<Longrightarrow> f c = try_each h (g c)) \<Longrightarrow> try_each f cs = try_each h (concat (map g cs))"
  by (induction cs) (simp_all add: try_each_append)

lemma type_check_expression_leaves:
  "type_check_expression sc e = try_each (check_leaf sc) (leaves e)"
  "type_check_boolean sc b = try_each (check_leaf sc) (leaves_boolean b)"
proof (induction sc e and sc b rule: type_check_expression_type_check_boolean.induct)
  case (2 sc comparison)
  then show ?case
    by (cases "resolve_field_type sc (as_ref sc (cx_field comparison))")
      (simp_all add: require_field_type_def and_then_def split: sum.splits)
next
  case (3 sc exists)
  then show ?case
    by (cases "resolve_field_type sc (as_ref sc (ex_field exists))")
      (simp_all add: require_field_type_def)
qed (simp_all add: try_each_concat)

lemma as_str_injective:
  "kind_as_str k = kind_as_str k' \<longleftrightarrow> k = k'"
  "boolean_operator_as_str b = boolean_operator_as_str b' \<longleftrightarrow> b = b'"
  "comparison_operator_as_str c = comparison_operator_as_str c' \<longleftrightarrow> c = c'"
  "rule_compilation_error_as_str r = rule_compilation_error_as_str r' \<longleftrightarrow> r = r'"
  by ((cases k; cases k'; simp), (cases b; cases b'; simp), (cases c; cases c'; simp),
      (cases r; cases r'; simp))

end
