(* ===== verification/Event_Evaluation.thy ===== *)
theory Event_Evaluation
  imports Detection_Ast
begin

text \<open>
  EVENT rules from the checked AST to the verdict on one event (\<open>execution_plan.rs\<close>,
  \<open>event_evaluator.rs\<close>, \<open>event_compiler.rs\<close> and \<open>normalized_event.rs\<close> of cerbero-detection-core).
  The Boolean semantics \<open>holds\<close> of the AST is the specification: lowering keeps it, and
  short-circuit evaluation returns a verdict only if every completion of the leaf results gives
  that verdict. The locale \<open>event_stages\<close> is the contract of the optimizer and of the plan
  compiler under which a compiled plan decides the semantics of the rule's AST.
\<close>

section \<open>Execution plans\<close>

datatype execution_backend = ClickHouse | Stream

fun execution_backend_as_str :: "execution_backend \<Rightarrow> string" where
  "execution_backend_as_str ClickHouse = ''CLICKHOUSE''"
| "execution_backend_as_str Stream = ''STREAM''"

record execution_backend_capabilities =
  clickhouse :: bool
  stream :: bool

definition capabilities_new :: "bool \<Rightarrow> bool \<Rightarrow> execution_backend_capabilities" where
  "capabilities_new c s = \<lparr>clickhouse = c, stream = s\<rparr>"

fun supports :: "execution_backend_capabilities \<Rightarrow> execution_backend \<Rightarrow> bool" where
  "supports caps ClickHouse = clickhouse caps"
| "supports caps Stream = stream caps"

record ('pid, 'rv, 'rf, 'pr, 'g, 'w, 'rl, 'ph) execution_plan =
  plan_id :: 'pid
  plan_rule_id :: rule_id
  plan_rule_version :: 'rv
  plan_backend :: execution_backend
  required_fields :: 'rf
  predicates :: 'pr
  grouping :: 'g
  plan_window :: 'w
  resource_limits :: 'rl
  plan_hash :: 'ph

section \<open>The evaluator\<close>

datatype 'v event_field_state = Present 'v | Absent | Null | Malformed

datatype ('f, 'v) event_predicate =
    PAnd "('f, 'v) event_predicate list"
  | POr "('f, 'v) event_predicate list"
  | PNot "('f, 'v) event_predicate"
  | PComparison 'f comparison_operator 'v
  | PExists 'f

datatype event_evaluation_result = Match | NoMatch

record ('f, 'v, 'ev, 'err) leaf_policy =
  evaluate_exists :: "'f \<Rightarrow> 'ev event_field_state \<Rightarrow> (bool, 'err) result"
  evaluate_comparison ::
    "'f \<Rightarrow> 'ev event_field_state \<Rightarrow> comparison_operator \<Rightarrow> 'v \<Rightarrow> (bool, 'err) result"

fun evaluate_predicate ::
  "('f \<Rightarrow> 'ev event_field_state) \<Rightarrow> ('f, 'v, 'ev, 'err) leaf_policy \<Rightarrow> ('f, 'v) event_predicate
     \<Rightarrow> (bool, 'err) result"
and evaluate_and_children ::
  "('f \<Rightarrow> 'ev event_field_state) \<Rightarrow> ('f, 'v, 'ev, 'err) leaf_policy \<Rightarrow> ('f, 'v) event_predicate list
     \<Rightarrow> (bool, 'err) result"
and evaluate_or_children ::
  "('f \<Rightarrow> 'ev event_field_state) \<Rightarrow> ('f, 'v, 'ev, 'err) leaf_policy \<Rightarrow> ('f, 'v) event_predicate list
     \<Rightarrow> (bool, 'err) result"
where
  "evaluate_predicate view policy (PAnd children) = evaluate_and_children view policy children"
| "evaluate_predicate view policy (POr children) = evaluate_or_children view policy children"
| "evaluate_predicate view policy (PNot child) =
    and_then (evaluate_predicate view policy child) (\<lambda>b. Inr (\<not> b))"
| "evaluate_predicate view policy (PComparison field operator value) =
    evaluate_comparison policy field (view field) operator value"
| "evaluate_predicate view policy (PExists field) = evaluate_exists policy field (view field)"
| "evaluate_and_children view policy [] = Inr True"
| "evaluate_and_children view policy (child # children) =
    and_then (evaluate_predicate view policy child) (\<lambda>b.
    if \<not> b then Inr False else evaluate_and_children view policy children)"
| "evaluate_or_children view policy [] = Inr False"
| "evaluate_or_children view policy (child # children) =
    and_then (evaluate_predicate view policy child) (\<lambda>b.
    if b then Inr True else evaluate_or_children view policy children)"

definition evaluate_event_execution_plan ::
  "('p \<Rightarrow> ('f, 'v) event_predicate) \<Rightarrow> 'p \<Rightarrow> ('f \<Rightarrow> 'ev event_field_state)
     \<Rightarrow> ('f, 'v, 'ev, 'err) leaf_policy \<Rightarrow> (event_evaluation_result, 'err) result" where
  "evaluate_event_execution_plan event_predicates plan view policy =
    and_then (evaluate_predicate view policy (event_predicates plan)) (\<lambda>b.
    if b then Inr Match else Inr NoMatch)"

section \<open>Fields of a normalized event\<close>

definition classify_value :: "pvalue \<Rightarrow> pvalue event_field_state" where
  "classify_value value =
    (case kind value of
       Some (NullValue n) \<Rightarrow> if n = 0 then Null else Malformed
     | None \<Rightarrow> Malformed
     | Some _ \<Rightarrow> Present value)"

fun resolve_segments :: "(string \<times> pvalue) list \<Rightarrow> string list \<Rightarrow> pvalue event_field_state" where
  "resolve_segments current [] = Malformed"
| "resolve_segments current (segment # segments) =
    (if segment = '''' then Malformed
     else (case map_of current segment of
       None \<Rightarrow> Absent
     | Some value \<Rightarrow>
         if segments = [] then classify_value value
         else (case kind value of
             Some (StructValue next) \<Rightarrow> resolve_segments next segments
           | Some (NullValue n) \<Rightarrow> if n = 0 then Null else Malformed
           | _ \<Rightarrow> Malformed)))"

definition resolve_ocsf_field :: "(string \<times> pvalue) list \<Rightarrow> string \<Rightarrow> pvalue event_field_state" where
  "resolve_ocsf_field ocsf path =
    (if path = '''' then Malformed else resolve_segments ocsf (split_on CHR ''.'' path))"

definition field_state ::
  "('f \<Rightarrow> string) \<Rightarrow> normalized_event \<Rightarrow> 'f \<Rightarrow> pvalue event_field_state" where
  "field_state to_str event field =
    (case ne_ocsf_event event of
       None \<Rightarrow> Malformed
     | Some ocsf \<Rightarrow> resolve_ocsf_field ocsf (to_str field))"

section \<open>The compiler\<close>

record ('rf, 'opt, 'ft) event_field_profile =
  profile_required_fields :: 'rf
  profile_optional_fields :: 'opt
  profile_field_types :: 'ft

record ('plan, 'profile) compiled_event_execution_plan =
  compiled_plan :: 'plan
  compiled_field_profile :: 'profile
  compiled_supported_backends :: execution_backend_capabilities

record ('f, 'v, 'profile, 'plan) event_compilation_stages =
  optimize_event_ast :: "('f, 'v) detection_expression \<Rightarrow> ('f, 'v) detection_expression compiled"
  resolve_event_field_profile :: "('f, 'v) detection_expression \<Rightarrow> 'profile compiled"
  supported_backends ::
    "('f, 'v) event_predicate \<Rightarrow> 'profile \<Rightarrow> execution_backend_capabilities compiled"
  compile_event_plan ::
    "execution_backend \<Rightarrow> ('f, 'v) event_predicate \<Rightarrow> 'profile \<Rightarrow> 'plan compiled"

fun lower_event_predicate :: "('f, 'v) detection_expression \<Rightarrow> ('f, 'v) event_predicate"
and lower_boolean :: "('f, 'v) boolean_expression \<Rightarrow> ('f, 'v) event_predicate"
where
  "lower_event_predicate (Boolean boolean) = lower_boolean boolean"
| "lower_event_predicate (Comparison c) = PComparison (cx_field c) (cx_operator c) (cx_value c)"
| "lower_event_predicate (Exists x) = PExists (ex_field x)"
| "lower_boolean (BAnd children) = PAnd (map lower_event_predicate children)"
| "lower_boolean (BOr children) = POr (map lower_event_predicate children)"
| "lower_boolean (BNot child) = PNot (lower_event_predicate child)"

definition compile_event_execution_plan ::
  "('f, 'v) detection_expression \<Rightarrow> execution_backend \<Rightarrow> ('f, 'v, 't, 'w) schema
     \<Rightarrow> ('f, 'v, 'profile, 'plan) event_compilation_stages
     \<Rightarrow> ('plan, 'profile) compiled_event_execution_plan compiled" where
  "compile_event_execution_plan expression backend sc stages =
    and_then (map_err (\<lambda>_. SyntaxError) (validate_expression expression)) (\<lambda>_.
    and_then (type_check_expression sc expression) (\<lambda>_.
    and_then (optimize_event_ast stages expression) (\<lambda>optimized_expression.
    and_then (map_err (\<lambda>_. SyntaxError) (validate_expression optimized_expression)) (\<lambda>_.
    and_then (type_check_expression sc optimized_expression) (\<lambda>_.
    and_then (resolve_event_field_profile stages optimized_expression) (\<lambda>field_profile.
    let predicate = lower_event_predicate optimized_expression in
    and_then (supported_backends stages predicate field_profile) (\<lambda>capabilities.
    if \<not> supports capabilities backend then Inl UnsupportedBackend
    else and_then (compile_event_plan stages backend predicate field_profile) (\<lambda>plan.
    Inr \<lparr>compiled_plan = plan, compiled_field_profile = field_profile,
         compiled_supported_backends = capabilities\<rparr>))))))))"

section \<open>Boolean semantics\<close>

text \<open>The meaning of an expression under a valuation of its leaves.\<close>

fun holds :: "(('f, 'v) leaf \<Rightarrow> bool) \<Rightarrow> ('f, 'v) detection_expression \<Rightarrow> bool"
and holds_boolean :: "(('f, 'v) leaf \<Rightarrow> bool) \<Rightarrow> ('f, 'v) boolean_expression \<Rightarrow> bool"
where
  "holds val (Boolean b) = holds_boolean val b"
| "holds val (Comparison c) = val (CompareLeaf (cx_field c) (cx_operator c) (cx_value c))"
| "holds val (Exists x) = val (ExistsLeaf (ex_field x))"
| "holds_boolean val (BAnd cs) = list_all (holds val) cs"
| "holds_boolean val (BOr cs) = list_ex (holds val) cs"
| "holds_boolean val (BNot c) = (\<not> holds val c)"

fun holds_predicate :: "(('f, 'v) leaf \<Rightarrow> bool) \<Rightarrow> ('f, 'v) event_predicate \<Rightarrow> bool" where
  "holds_predicate val (PAnd ps) = list_all (holds_predicate val) ps"
| "holds_predicate val (POr ps) = list_ex (holds_predicate val) ps"
| "holds_predicate val (PNot p) = (\<not> holds_predicate val p)"
| "holds_predicate val (PComparison f p v) = val (CompareLeaf f p v)"
| "holds_predicate val (PExists f) = val (ExistsLeaf f)"

text \<open>The result of one leaf on one event, and a valuation that agrees with the leaves the policy
  can evaluate.\<close>

fun leaf_result ::
  "('f \<Rightarrow> 'ev event_field_state) \<Rightarrow> ('f, 'v, 'ev, 'err) leaf_policy \<Rightarrow> ('f, 'v) leaf
     \<Rightarrow> (bool, 'err) result" where
  "leaf_result view policy (CompareLeaf f p v) = evaluate_comparison policy f (view f) p v"
| "leaf_result view policy (ExistsLeaf f) = evaluate_exists policy f (view f)"

definition completes ::
  "(('f, 'v) leaf \<Rightarrow> bool) \<Rightarrow> ('f \<Rightarrow> 'ev event_field_state) \<Rightarrow> ('f, 'v, 'ev, 'err) leaf_policy
     \<Rightarrow> bool" where
  "completes val view policy \<longleftrightarrow> (\<forall>l b. leaf_result view policy l = Inr b \<longrightarrow> val l = b)"

lemma lower_keeps_semantics:
  fixes e :: "('f, 'v) detection_expression" and b :: "('f, 'v) boolean_expression"
  shows "holds_predicate val (lower_event_predicate e) = holds val e"
    and "holds_predicate val (lower_boolean b) = holds_boolean val b"
  by (induction e and b rule: lower_event_predicate_lower_boolean.induct)
    (auto simp: list_all_iff list_ex_iff)

lemma evaluate_predicate_sound:
  "completes val view policy \<Longrightarrow> evaluate_predicate view policy p = Inr b \<Longrightarrow> holds_predicate val p = b"
  "completes val view policy \<Longrightarrow> evaluate_and_children view policy ps = Inr b \<Longrightarrow> list_all (holds_predicate val) ps = b"
  "completes val view policy \<Longrightarrow> evaluate_or_children view policy qs = Inr b \<Longrightarrow> list_ex (holds_predicate val) qs = b"
  for view :: "'f \<Rightarrow> 'ev event_field_state" and policy :: "('f, 'v, 'ev, 'err) leaf_policy"
proof (induction view policy p and view policy ps and view policy qs arbitrary: b and b and b
    rule: evaluate_predicate_evaluate_and_children_evaluate_or_children.induct)
  case (4 view policy f p v)
  then show ?case by (metis completes_def leaf_result.simps(1) holds_predicate.simps(4) evaluate_predicate.simps(4))
next
  case (5 view policy field)
  then show ?case by (metis completes_def leaf_result.simps(2) holds_predicate.simps(5) evaluate_predicate.simps(5))
next
  case (7 view policy child children)
  then show ?case by (cases "evaluate_predicate view policy child") (auto split: if_splits)
next
  case (9 view policy child children)
  then show ?case by (cases "evaluate_predicate view policy child") (auto split: if_splits)
qed (auto simp: result_simps)

lemma evaluate_predicate_total:
  "(\<And>l. \<exists>b. leaf_result view policy l = Inr b) \<Longrightarrow> \<exists>b. evaluate_predicate view policy p = Inr b"
  "(\<And>l. \<exists>b. leaf_result view policy l = Inr b) \<Longrightarrow> \<exists>b. evaluate_and_children view policy ps = Inr b"
  "(\<And>l. \<exists>b. leaf_result view policy l = Inr b) \<Longrightarrow> \<exists>b. evaluate_or_children view policy qs = Inr b"
  for view :: "'f \<Rightarrow> 'ev event_field_state" and policy :: "('f, 'v, 'ev, 'err) leaf_policy"
proof (induction view policy p and view policy ps and view policy qs
    rule: evaluate_predicate_evaluate_and_children_evaluate_or_children.induct)
  case (4 view policy f p v)
  then show ?case using "4.prems" [of "CompareLeaf f p v"] by simp
next
  case (5 view policy field)
  then show ?case using "5.prems" [of "ExistsLeaf field"] by simp
qed (fastforce simp: and_then_def)+

lemma evaluate_plan_sound:
  assumes "completes val view policy" "evaluate_event_execution_plan preds plan view policy = Inr r"
  shows "r = Match \<longleftrightarrow> holds_predicate val (preds plan)"
  using assms evaluate_predicate_sound(1) [OF assms(1)]
  by (auto simp: evaluate_event_execution_plan_def result_simps split: if_splits)

section \<open>Paths\<close>

text \<open>Walking a path of segments down nested objects.\<close>

fun walk :: "(string \<times> pvalue) list \<Rightarrow> string list \<Rightarrow> pvalue option" where
  "walk fs [] = None"
| "walk fs [s] = map_of fs s"
| "walk fs (s # t # ts) =
    (case map_of fs s of Some (Value (Some (StructValue next))) \<Rightarrow> walk next (t # ts) | _ \<Rightarrow> None)"

definition is_null_kind :: "pvalue \<Rightarrow> bool" where
  "is_null_kind v \<longleftrightarrow> (case kind v of Some (NullValue _) \<Rightarrow> True | None \<Rightarrow> True | _ \<Rightarrow> False)"

lemma classify_value_Present: "classify_value v = Present w \<longleftrightarrow> w = v \<and> \<not> is_null_kind v"
  by (auto simp: classify_value_def is_null_kind_def split: option.splits pkind.splits)

lemma resolve_segments_Present:
  "resolve_segments fs path = Present v \<longleftrightarrow>
     ([] \<notin> set path \<and> walk fs path = Some v \<and> \<not> is_null_kind v)"
proof (induction fs path rule: walk.induct)
  case (3 fs s t ts)
  show ?case
  proof (cases "map_of fs s")
    case (Some w)
    then show ?thesis using 3
      by (cases w) (auto split: option.splits pkind.splits)
  qed auto
qed (auto simp: classify_value_Present split: option.splits)

section \<open>What compilation guarantees\<close>

lemma compile_event_execution_plan_ok:
  "compile_event_execution_plan e backend sc stages = Inr c \<longleftrightarrow>
     empty_nodes e = [] \<and> (\<forall>l\<in>set (leaves e). check_leaf sc l = Inr ())
   \<and> (\<exists>e'. optimize_event_ast stages e = Inr e' \<and> empty_nodes e' = []
        \<and> (\<forall>l\<in>set (leaves e'). check_leaf sc l = Inr ())
        \<and> resolve_event_field_profile stages e' = Inr (compiled_field_profile c)
        \<and> supported_backends stages (lower_event_predicate e') (compiled_field_profile c)
            = Inr (compiled_supported_backends c)
        \<and> supports (compiled_supported_backends c) backend
        \<and> compile_event_plan stages backend (lower_event_predicate e') (compiled_field_profile c)
            = Inr (compiled_plan c))"
  by (cases c) (auto simp: compile_event_execution_plan_def result_simps
      type_check_expression_leaves Let_def)

locale event_stages =
  fixes stages :: "('f, 'v, 'profile, 'plan) event_compilation_stages"
    and event_predicates :: "'plan \<Rightarrow> ('f, 'v) event_predicate"
  assumes optimizer_sound: "optimize_event_ast stages e = Inr e' \<Longrightarrow> holds val e' = holds val e"
    and compiler_keeps_predicate:
      "compile_event_plan stages backend p profile = Inr plan \<Longrightarrow> event_predicates plan = p"
begin

lemma compiled_plan_semantics:
  assumes "compile_event_execution_plan e backend sc stages = Inr c"
  shows "holds_predicate val (event_predicates (compiled_plan c)) = holds val e"
proof -
  obtain e' where e': "optimize_event_ast stages e = Inr e'"
    and plan: "compile_event_plan stages backend (lower_event_predicate e') (compiled_field_profile c)
      = Inr (compiled_plan c)"
    using assms by (auto simp: compile_event_execution_plan_ok)
  show ?thesis
    using compiler_keeps_predicate [OF plan] optimizer_sound [OF e'] by (simp add: lower_keeps_semantics)
qed

lemma compiled_plan_decides:
  assumes "compile_event_execution_plan e backend sc stages = Inr c"
    and "completes val view policy"
    and "evaluate_event_execution_plan event_predicates (compiled_plan c) view policy = Inr r"
  shows "r = Match \<longleftrightarrow> holds val e"
  using evaluate_plan_sound [OF assms(2,3)] compiled_plan_semantics [OF assms(1)] by simp

lemma compiled_plan_total:
  assumes "\<And>l. \<exists>b. leaf_result view policy l = Inr b"
  shows "\<exists>r. evaluate_event_execution_plan event_predicates plan view policy = Inr r"
  using evaluate_predicate_total(1) [of view policy "event_predicates plan"] assms
  by (auto simp: evaluate_event_execution_plan_def)

end

end
