(* ===== verification/Event_Signal.thy ===== *)
theory Event_Signal
  imports Event_Evaluation
begin

text \<open>
  From an EVENT match to a canonical Signal (\<open>event_signal.rs\<close> and \<open>event_signal_materializer.rs\<close>
  of cerbero-detection-core). Evaluation fails closed on an invalid identity, timestamp or mode;
  the materializer returns only Signals that the contract validator accepts. The \<open>Display\<close> of the
  rule version is the parameter \<open>show_version\<close>.
\<close>

section \<open>Execution modes and backends on the wire\<close>

datatype execution_mode = ModeUnspecified | Live | Replay | Test

fun execution_mode_i32 :: "execution_mode \<Rightarrow> int" where
  "execution_mode_i32 ModeUnspecified = 0"
| "execution_mode_i32 Live = 1"
| "execution_mode_i32 Replay = 2"
| "execution_mode_i32 Test = 3"

fun contract_backend :: "execution_backend \<Rightarrow> int" where
  "contract_backend ClickHouse = 1"
| "contract_backend Stream = 2"

type_synonym ('pid, 'rv, 'f, 'v, 'rf, 'g, 'w, 'rl, 'ph) event_plan =
  "('pid, 'rv, 'rf, ('f, 'v) event_predicate, 'g, 'w, 'rl, 'ph) execution_plan"

section \<open>Evaluation at the Signal boundary\<close>

record 'rv event_signal_provenance =
  esp_rule_id :: rule_id
  esp_rule_version :: 'rv
  esp_normalized_event_id :: string
  esp_evaluated_at :: timestamp
  esp_execution_backend :: execution_backend
  esp_execution_mode :: execution_mode

datatype 'rv event_signal_evaluation_result = SignalNoMatch | SignalMatch "'rv event_signal_provenance"

datatype 'err event_signal_evaluation_error =
    EventPolicy 'err
  | EventInvalidProvenance contract_violation
  | EventUnspecifiedExecutionMode

fun display_event_signal_error :: "('err \<Rightarrow> string) \<Rightarrow> 'err event_signal_evaluation_error \<Rightarrow> string" where
  "display_event_signal_error show_err (EventPolicy e) = ''EVENT evaluation failed: '' @ show_err e"
| "display_event_signal_error show_err (EventInvalidProvenance v) =
     ''invalid Signal provenance: '' @ display_violation v"
| "display_event_signal_error show_err EventUnspecifiedExecutionMode =
     ''Signal provenance requires LIVE, REPLAY, or TEST execution mode''"

definition evaluate_normalized_event_for_signal ::
  "('f \<Rightarrow> string) \<Rightarrow> ('pid, 'rv, 'f, 'v, 'rf, 'g, 'w, 'rl, 'ph) event_plan \<Rightarrow> normalized_event
     \<Rightarrow> execution_mode \<Rightarrow> timestamp \<Rightarrow> ('f, 'v, pvalue, 'err) leaf_policy
     \<Rightarrow> ('rv event_signal_evaluation_result, 'err event_signal_evaluation_error) result" where
  "evaluate_normalized_event_for_signal to_str plan event mode evaluated_at policy =
    and_then (map_err EventInvalidProvenance
      (validate_uuid_v7 ''normalized_event_id'' (ne_normalized_event_id event))) (\<lambda>_.
    and_then (map_err EventInvalidProvenance
      (validate_timestamp ''evaluated_at'' evaluated_at)) (\<lambda>_.
    if mode = ModeUnspecified then Inl EventUnspecifiedExecutionMode
    else and_then (map_err EventPolicy
      (evaluate_event_execution_plan predicates plan (field_state to_str event) policy)) (\<lambda>evaluation.
    if evaluation = NoMatch then Inr SignalNoMatch
    else Inr (SignalMatch \<lparr>esp_rule_id = plan_rule_id plan, esp_rule_version = plan_rule_version plan,
           esp_normalized_event_id = ne_normalized_event_id event, esp_evaluated_at = evaluated_at,
           esp_execution_backend = plan_backend plan, esp_execution_mode = mode\<rparr>))))"

section \<open>Materialization\<close>

record event_signal_context =
  esc_signal_id :: string
  esc_severity :: string
  esc_confidence :: "string option"
  esc_summary :: string
  esc_input_relation :: string
  esc_created_at :: timestamp
  esc_source_event_time :: "timestamp option"

definition event_signal_of ::
  "('rv \<Rightarrow> string) \<Rightarrow> 'rv event_signal_provenance \<Rightarrow> normalized_event \<Rightarrow> event_signal_context \<Rightarrow> signal" where
  "event_signal_of show_version p event c =
    \<lparr>sg_signal_id = esc_signal_id c,
     sg_tenant_id = ne_tenant_id event,
     sg_rule_id = as_str (esp_rule_id p),
     sg_rule_version = show_version (esp_rule_version p),
     sg_rule_type = 1,
     sg_severity = esc_severity c,
     sg_confidence = esc_confidence c,
     sg_status = 1,
     sg_first_observed_at = esc_source_event_time c,
     sg_last_observed_at = esc_source_event_time c,
     sg_created_at = Some (esc_created_at c),
     sg_execution_mode = execution_mode_i32 (esp_execution_mode p),
     sg_source_count = 1,
     sg_event_count = 1,
     sg_summary = esc_summary c,
     sg_provenance = Some \<lparr>sp_evaluated_at = Some (esp_evaluated_at p),
       sp_execution_backend = contract_backend (esp_execution_backend p)\<rparr>,
     sg_inputs = [\<lparr>si_signal_id = esc_signal_id c, si_input_type = 1,
       si_input_id = ne_normalized_event_id event, si_relation = esc_input_relation c,
       si_ordinal = 0\<rparr>]\<rparr>"

definition materialize_event_signal ::
  "('rv \<Rightarrow> string) \<Rightarrow> 'rv event_signal_provenance \<Rightarrow> normalized_event \<Rightarrow> event_signal_context
     \<Rightarrow> (signal, contract_violation) result" where
  "materialize_event_signal show_version p event c =
    (if esp_normalized_event_id p \<noteq> ne_normalized_event_id event
     then Inl (violation ''normalized_event_id'' ''must match EventSignalProvenance.normalized_event_id'')
     else validated validate_signal (event_signal_of show_version p event c))"

section \<open>Facts\<close>

lemma execution_mode_i32_range: "m \<noteq> ModeUnspecified \<Longrightarrow> execution_mode_i32 m \<in> {1..3}"
  by (cases m) simp_all

lemma execution_mode_i32_inject: "execution_mode_i32 a = execution_mode_i32 b \<longleftrightarrow> a = b"
  by (cases a; cases b) simp_all

lemma contract_backend_range: "contract_backend b \<in> {1..2}"
  by (cases b) simp_all

lemma timestamp_le_refl: "timestamp_le t t"
  by (simp add: timestamp_le_def)

lemma wf_observed_pair_same: "wf_observed_pair t t \<longleftrightarrow> (\<forall>x. t = Some x \<longrightarrow> valid_timestamp x)"
  by (auto simp: wf_observed_pair_def timestamp_le_refl split: option.splits)

text \<open>What a producer must supply for the Signal to be well-formed.\<close>

definition wf_event_signal_context :: "event_signal_context \<Rightarrow> bool" where
  "wf_event_signal_context c \<longleftrightarrow> uuid_v7 (esc_signal_id c) \<and> has_text (esc_severity c)
     \<and> (\<forall>x. esc_confidence c = Some x \<longrightarrow> has_text x) \<and> has_text (esc_summary c)
     \<and> has_text (esc_input_relation c) \<and> valid_timestamp (esc_created_at c)
     \<and> (\<forall>t. esc_source_event_time c = Some t \<longrightarrow> valid_timestamp t)"

lemma event_signal_of_wf:
  "wf_signal (event_signal_of show_version p event c) \<longleftrightarrow>
     wf_event_signal_context c \<and> uuid_v7 (ne_tenant_id event) \<and> uuid_v7 (ne_normalized_event_id event)
     \<and> detection_rule_id (as_str (esp_rule_id p)) \<and> has_text (show_version (esp_rule_version p))
     \<and> esp_execution_mode p \<noteq> ModeUnspecified \<and> valid_timestamp (esp_evaluated_at p)"
  using contract_backend_range [of "esp_execution_backend p"]
  by (cases "esp_execution_mode p")
    (auto simp: wf_signal_def event_signal_of_def wf_event_signal_context_def wf_signal_inputs_def
      wf_signal_input_def wf_signal_counts_def normalized_inputs_def wf_observed_pair_same)

lemma evaluate_for_signal_match:
  "evaluate_normalized_event_for_signal to_str plan event mode evaluated_at policy = Inr (SignalMatch p) \<longleftrightarrow>
     uuid_v7 (ne_normalized_event_id event) \<and> valid_timestamp evaluated_at \<and> mode \<noteq> ModeUnspecified
     \<and> evaluate_event_execution_plan predicates plan (field_state to_str event) policy = Inr Match
     \<and> p = \<lparr>esp_rule_id = plan_rule_id plan, esp_rule_version = plan_rule_version plan,
           esp_normalized_event_id = ne_normalized_event_id event, esp_evaluated_at = evaluated_at,
           esp_execution_backend = plan_backend plan, esp_execution_mode = mode\<rparr>"
  by (auto simp: evaluate_normalized_event_for_signal_def result_simps split: if_splits)
    (metis event_evaluation_result.exhaust)

end
