(* ===== verification/Event_Bus.thy ===== *)
theory Event_Bus
  imports Retry_State Event_Signal Rust_Text
begin

text \<open>
  The message side of the normalizer (\<open>eventbus.rs\<close>, without the JetStream client itself): consumer
  routes, execution mode headers, the decoding of a handoff message and the retry delays. Parameters:
  the protobuf decoders with the text of their errors and SHA-256. A \<open>Duration\<close> is its number of
  nanoseconds; a message is its subject, payload, headers by name and delivery information.
\<close>

section \<open>Constants\<close>

definition RAW_STREAM_NAME :: string where "RAW_STREAM_NAME = ''CERBERO_RAW''"
definition ANALYTICS_STREAM_NAME :: string where "ANALYTICS_STREAM_NAME = ''CERBERO_ANALYTICS''"
definition DLQ_STREAM_NAME :: string where "DLQ_STREAM_NAME = ''CERBERO_DLQ''"
definition RAW_PERSISTED_SUBJECT :: string where "RAW_PERSISTED_SUBJECT = ''cerbero.v1.raw.persisted''"
definition RAW_REPLAY_SUBJECT :: string where "RAW_REPLAY_SUBJECT = ''cerbero.v1.raw.replay''"
definition NORMALIZED_CREATED_SUBJECT :: string where "NORMALIZED_CREATED_SUBJECT = ''cerbero.v1.normalized.created''"
definition NORMALIZATION_DLQ_SUBJECT :: string where "NORMALIZATION_DLQ_SUBJECT = ''cerbero.v1.dlq.normalization''"
definition NORMALIZER_CONSUMER_NAME :: string where "NORMALIZER_CONSUMER_NAME = ''normalizer''"
definition NORMALIZER_REPLAY_CONSUMER_NAME :: string where "NORMALIZER_REPLAY_CONSUMER_NAME = ''normalizer-replay''"
definition NORMALIZER_SELECTIVE_REPLAY_CONSUMER_NAME :: string where
  "NORMALIZER_SELECTIVE_REPLAY_CONSUMER_NAME = ''normalizer-replay-selective''"
definition NORMALIZER_TEST_CONSUMER_NAME :: string where "NORMALIZER_TEST_CONSUMER_NAME = ''normalizer-test''"
definition REQUEST_ID_HEADER :: string where "REQUEST_ID_HEADER = ''Cerbero-Request-Id''"
definition REPLAY_ROOT_DLQ_RECORD_ID_HEADER :: string where
  "REPLAY_ROOT_DLQ_RECORD_ID_HEADER = ''Cerbero-Replay-Root-DLQ-Record-Id''"
definition REPLAY_ATTEMPT_HEADER :: string where "REPLAY_ATTEMPT_HEADER = ''Cerbero-Replay-Attempt''"
definition REPLAY_SOURCE_STREAM_SEQUENCE_HEADER :: string where
  "REPLAY_SOURCE_STREAM_SEQUENCE_HEADER = ''Cerbero-Replay-Source-Stream-Sequence''"

lemmas bus_constants = RAW_STREAM_NAME_def ANALYTICS_STREAM_NAME_def DLQ_STREAM_NAME_def RAW_PERSISTED_SUBJECT_def
  RAW_REPLAY_SUBJECT_def NORMALIZED_CREATED_SUBJECT_def NORMALIZATION_DLQ_SUBJECT_def NORMALIZER_CONSUMER_NAME_def
  NORMALIZER_REPLAY_CONSUMER_NAME_def NORMALIZER_SELECTIVE_REPLAY_CONSUMER_NAME_def NORMALIZER_TEST_CONSUMER_NAME_def
  REQUEST_ID_HEADER_def REPLAY_ROOT_DLQ_RECORD_ID_HEADER_def REPLAY_ATTEMPT_HEADER_def
  REPLAY_SOURCE_STREAM_SEQUENCE_HEADER_def

definition fatal :: "string \<Rightarrow> string \<Rightarrow> normalizer_error" where
  "fatal code message = \<lparr>ne_code = code, ne_message = message, ne_retryable = False\<rparr>"

definition transient :: "string \<Rightarrow> string \<Rightarrow> normalizer_error" where
  "transient code message = \<lparr>ne_code = code, ne_message = message, ne_retryable = True\<rparr>"

section \<open>Routes\<close>

datatype replay_input = Historical | Selective

datatype deliver_policy = DeliverAll | DeliverNew

definition execution_mode_header_value :: "execution_mode \<Rightarrow> (string, normalizer_error) result" where
  "execution_mode_header_value mode = (case mode of
      Live \<Rightarrow> Inr ''LIVE'' | Replay \<Rightarrow> Inr ''REPLAY'' | Test \<Rightarrow> Inr ''TEST''
    | ModeUnspecified \<Rightarrow> Inl (fatal ''CER-NORM-EXECUTION-MODE'' ''execution mode must be LIVE, REPLAY, or TEST''))"

definition normalizer_consumer_route ::
  "execution_mode \<Rightarrow> replay_input \<Rightarrow> (string \<times> string, normalizer_error) result" where
  "normalizer_consumer_route mode input = (case mode of
      Live \<Rightarrow> Inr (NORMALIZER_CONSUMER_NAME, RAW_PERSISTED_SUBJECT)
    | Replay \<Rightarrow> (case input of
        Historical \<Rightarrow> Inr (NORMALIZER_REPLAY_CONSUMER_NAME, RAW_PERSISTED_SUBJECT)
      | Selective \<Rightarrow> Inr (NORMALIZER_SELECTIVE_REPLAY_CONSUMER_NAME, RAW_REPLAY_SUBJECT))
    | Test \<Rightarrow> Inr (NORMALIZER_TEST_CONSUMER_NAME, RAW_PERSISTED_SUBJECT)
    | ModeUnspecified \<Rightarrow> Inl (fatal ''CER-NORM-EXECUTION-MODE'' ''execution mode must be LIVE, REPLAY, or TEST''))"

definition normalizer_consumer_name :: "execution_mode \<Rightarrow> replay_input \<Rightarrow> (string, normalizer_error) result" where
  "normalizer_consumer_name mode input = and_then (normalizer_consumer_route mode input) (\<lambda>(name, _). Inr name)"

definition normalizer_deliver_policy :: "execution_mode \<Rightarrow> replay_input \<Rightarrow> deliver_policy" where
  "normalizer_deliver_policy mode input =
    (if mode = Replay \<and> input = Selective then DeliverNew else DeliverAll)"

section \<open>Handoff messages\<close>

record message_info =
  mi_delivered :: int
  mi_stream_sequence :: "64 word"
  mi_consumer_sequence :: "64 word"

record bus_message =
  bm_subject :: string
  bm_payload :: string
  bm_header :: "string \<Rightarrow> string option"
  bm_info :: "message_info option"

record incoming_raw_persisted =
  ic_envelope :: envelope
  ic_persisted :: raw_event_persisted
  ic_request_id :: "string option"

definition validate_type_url :: "any_payload \<Rightarrow> (unit, normalizer_error) result" where
  "validate_type_url payload =
    (if ends_with ''cerbero.contracts.v1.RawEventPersisted'' (any_type_url payload) then Inr ()
     else Inl (fatal ''CER-NORM-PAYLOAD-TYPE'' (''unexpected Any type_url '' @ any_type_url payload)))"

definition decode_raw_persisted ::
  "(string \<Rightarrow> (envelope, string) result) \<Rightarrow> (string \<Rightarrow> (raw_event_persisted, string) result) \<Rightarrow> bus_message
     \<Rightarrow> (incoming_raw_persisted, normalizer_error) result" where
  "decode_raw_persisted decode_envelope decode_persisted msg =
    and_then (map_err (fatal ''CER-NORM-ENVELOPE-DECODE'') (decode_envelope (bm_payload msg))) (\<lambda>envelope.
    and_then (map_err (\<lambda>e. fatal ''CER-NORM-ENVELOPE-CONTRACT'' (display_violation e)) (validate_envelope envelope)) (\<lambda>_.
    if en_message_type envelope \<noteq> ''RawEventPersisted'' \<or> en_payload_schema envelope \<noteq> ''cerbero.raw_event_persisted.v1''
    then Inl (fatal ''CER-NORM-UNSUPPORTED-CONTRACT'' (''unsupported raw handoff type='' @ en_message_type envelope
      @ '' schema='' @ en_payload_schema envelope))
    else
    and_then (ok_or (fatal ''CER-NORM-ENVELOPE-CONTRACT'' ''raw.persisted envelope payload is required'')
      (en_payload envelope)) (\<lambda>payload.
    and_then (validate_type_url payload) (\<lambda>_.
    and_then (map_err (fatal ''CER-NORM-PAYLOAD-DECODE'') (decode_persisted (any_value payload))) (\<lambda>persisted.
    and_then (map_err (\<lambda>e. fatal ''CER-NORM-PAYLOAD-CONTRACT'' (display_violation e))
      (validate_raw_event_persisted persisted)) (\<lambda>_.
    if rp_tenant_id persisted \<noteq> en_tenant_id envelope
    then Inl (fatal ''CER-NORM-TENANT-MISMATCH'' ''envelope tenant_id differs from RawEventPersisted tenant_id'')
    else Inr \<lparr>ic_envelope = envelope, ic_persisted = persisted, ic_request_id = bm_header msg REQUEST_ID_HEADER\<rparr>))))))"

section \<open>Retry delays\<close>

definition DURATION_MAX :: nat where
  "DURATION_MAX = 2 ^ 64 * 10 ^ 9 - 1"

definition retry_delay :: "int \<Rightarrow> nat \<Rightarrow> nat \<Rightarrow> nat" where
  "retry_delay deliveries lo hi =
    (let exponent = nat (min 20 (max 0 (max (- (2 ^ 63)) (deliveries - 1)))) in
     min (min (lo * 2 ^ exponent) DURATION_MAX) hi)"

fun hex_value :: "nat \<Rightarrow> string \<Rightarrow> nat" where
  "hex_value acc [] = acc"
| "hex_value acc (c # cs) = hex_value (16 * acc + (if byte c < 58 then byte c - 48 else byte c - 87)) cs"

definition retry_delay_with_jitter :: "(string \<Rightarrow> string) \<Rightarrow> int \<Rightarrow> nat \<Rightarrow> nat \<Rightarrow> string \<Rightarrow> nat" where
  "retry_delay_with_jitter digest deliveries lo hi seed =
    (let base = retry_delay deliveries lo hi;
         sample = hex_value 0 (take 16 (sha256_lower_hex digest (seed @ '':'' @ show_int deliveries)));
         percentage = 80 + sample mod 41;
         nanos = min (base * percentage) (2 ^ 128 - 1) div 100
     in min (max (min nanos (2 ^ 64 - 1)) lo) hi)"

definition doublings :: "int \<Rightarrow> nat" where
  "doublings deliveries = nat (min 20 (max 0 (deliveries - 1)))"

lemma retry_delay_eq: "hi \<le> 2 ^ 63 \<Longrightarrow> retry_delay deliveries lo hi = min (lo * 2 ^ doublings deliveries) hi"
  by (simp add: retry_delay_def doublings_def Let_def DURATION_MAX_def min_def max_def)

lemma doublings_mono: "a \<le> b \<Longrightarrow> doublings a \<le> doublings b"
  by (simp add: doublings_def)

lemma retry_delay_mono:
  assumes "hi \<le> 2 ^ 63" "a \<le> b"
  shows "retry_delay a lo hi \<le> retry_delay b lo hi"
proof -
  have "(2 :: nat) ^ doublings a \<le> 2 ^ doublings b" using doublings_mono [OF assms(2)] by simp
  then have "lo * 2 ^ doublings a \<le> lo * 2 ^ doublings b" by (rule mult_le_mono2)
  then show ?thesis unfolding retry_delay_eq [OF assms(1)] by linarith
qed

lemma jitter_eq:
  assumes "lo \<le> hi" "hi \<le> 2 ^ 63"
  obtains p where "80 \<le> p" "p \<le> 120"
    "retry_delay_with_jitter digest deliveries lo hi seed = min (max (retry_delay deliveries lo hi * p div 100) lo) hi"
proof -
  let ?b = "retry_delay deliveries lo hi"
  define p where "p = 80 + hex_value 0 (take 16 (sha256_lower_hex digest (seed @ '':'' @ show_int deliveries))) mod 41"
  have "hex_value 0 (take 16 (sha256_lower_hex digest (seed @ '':'' @ show_int deliveries))) mod 41 < 41" by simp
  then have p: "80 \<le> p" "p \<le> 120" unfolding p_def by linarith+
  have "?b \<le> hi" by (simp add: retry_delay_eq [OF assms(2)])
  then have "?b * p \<le> 2 ^ 63 * 120" using p assms(2) by (intro mult_le_mono) auto
  then have "min (?b * p) (2 ^ 128 - 1) = ?b * p" by simp
  moreover have "?b * p div 100 \<le> 2 ^ 64 - 1"
    using div_le_mono [OF \<open>?b * p \<le> 2 ^ 63 * 120\<close>, of 100] by simp
  ultimately have "retry_delay_with_jitter digest deliveries lo hi seed = min (max (?b * p div 100) lo) hi"
    unfolding retry_delay_with_jitter_def Let_def p_def [symmetric] by simp
  with p show thesis by (rule that)
qed

lemma clamp_bounds:
  fixes x :: nat
  assumes "a \<le> x" "x \<le> c" "a \<le> b" "b \<le> hi" "lo \<le> hi"
  shows "lo \<le> min (max x lo) hi \<and> min (max x lo) hi \<le> hi \<and> a \<le> min (max x lo) hi \<and> min (max x lo) hi \<le> max lo c"
  using assms by linarith

text \<open>C24: without jitter the delay doubles with every delivery from the minimum up to the maximum and
  never decreases; the jittered delay stays between the minimum and the maximum and within a fifth of
  the delay without jitter (for limits up to \<open>2^63\<close> nanoseconds, 292 years).\<close>

theorem retry_delay_bounds:
  assumes "lo \<le> hi" "hi \<le> 2 ^ 63"
  shows "lo \<le> retry_delay_with_jitter digest deliveries lo hi seed
    \<and> retry_delay_with_jitter digest deliveries lo hi seed \<le> hi
    \<and> retry_delay deliveries lo hi * 80 div 100 \<le> retry_delay_with_jitter digest deliveries lo hi seed
    \<and> retry_delay_with_jitter digest deliveries lo hi seed \<le> max lo (retry_delay deliveries lo hi * 120 div 100)
    \<and> (1 \<le> deliveries \<and> deliveries \<le> 21 \<longrightarrow> retry_delay deliveries lo hi = min (lo * 2 ^ nat (deliveries - 1)) hi)
    \<and> (deliveries \<le> later_delivery \<longrightarrow> retry_delay deliveries lo hi \<le> retry_delay later_delivery lo hi)"
proof -
  let ?b = "retry_delay deliveries lo hi"
  obtain p where p: "80 \<le> p" "p \<le> 120"
    and j: "retry_delay_with_jitter digest deliveries lo hi seed = min (max (?b * p div 100) lo) hi"
    using assms by (rule jitter_eq)
  have hi: "?b \<le> hi" by (simp add: retry_delay_eq [OF assms(2)])
  have "?b * 80 div 100 \<le> ?b * p div 100" "?b * p div 100 \<le> ?b * 120 div 100"
    by (rule div_le_mono [OF mult_le_mono2 [OF p(1)]], rule div_le_mono [OF mult_le_mono2 [OF p(2)]])
  moreover have "?b * 80 div 100 \<le> ?b" by simp
  moreover have "1 \<le> deliveries \<and> deliveries \<le> 21 \<longrightarrow> ?b = min (lo * 2 ^ nat (deliveries - 1)) hi"
    by (simp add: retry_delay_eq [OF assms(2)] doublings_def)
  ultimately show ?thesis
    using clamp_bounds [OF _ _ _ hi assms(1)] retry_delay_mono [OF assms(2)] unfolding j by blast
qed

theorem retry_delay_bounds_witness:
  "1000 \<le> retry_delay_with_jitter (\<lambda>_. replicate 32 (CHR ''a'')) 3 1000 30000 ''stream:7''
   \<and> retry_delay_with_jitter (\<lambda>_. replicate 32 (CHR ''a'')) 3 1000 30000 ''stream:7'' \<le> 4800"
proof -
  have "retry_delay 3 1000 30000 = 4000" by (simp add: retry_delay_eq doublings_def)
  note base = this
  show ?thesis
    using retry_delay_bounds [of 1000 30000 "\<lambda>_. replicate 32 (CHR ''a'')" 3 "''stream:7''" 3]
    unfolding base by simp
qed

end
