(* ===== verification/Runtime_Config.thy ===== *)
theory Runtime_Config
  imports Source_Time Event_Bus
begin

text \<open>
  The configuration of the normalizer (\<open>runtime_config.rs\<close>), read from the environment and validated.
  The parameter \<open>env\<close> gives the value of a variable that is set to Unicode text; a \<open>Duration\<close> is its
  number of nanoseconds and a path its text.
\<close>

record 'o runtime_config =
  cf_nats_url :: string
  cf_nats_user :: string
  cf_nats_password :: string
  cf_component_version :: string
  cf_instance_id :: string
  cf_pipeline_version :: string
  cf_execution_mode :: execution_mode
  cf_replay_input :: replay_input
  cf_linux_sshd_parser_version :: string
  cf_source_time_policies :: "'o source_time_policies"
  cf_raw_store_path :: string
  cf_clickhouse_url :: string
  cf_clickhouse_database :: string
  cf_clickhouse_user :: string
  cf_clickhouse_password :: string
  cf_postgres_host :: string
  cf_postgres_port :: "16 word"
  cf_postgres_database :: string
  cf_postgres_user :: string
  cf_postgres_password :: string
  cf_retry_min_delay :: nat
  cf_retry_max_delay :: nat
  cf_retry_budget :: "32 word"

definition config_error :: "string \<Rightarrow> normalizer_error" where
  "config_error message = fatal ''CER-NORM-CONFIG'' message"

section \<open>Variables\<close>

definition required :: "(string \<Rightarrow> string option) \<Rightarrow> string \<Rightarrow> (string, normalizer_error) result" where
  "required env name = (case env name of
      Some v \<Rightarrow> if trim v = '''' then Inl (config_error (name @ '' is required'')) else Inr v
    | None \<Rightarrow> Inl (config_error (name @ '' is required'')))"

definition config_u16 :: "(string \<Rightarrow> string option) \<Rightarrow> string \<Rightarrow> (16 word, normalizer_error) result" where
  "config_u16 env name =
    and_then (required env name) (\<lambda>v.
    ok_or (config_error (name @ '' must contain an integer between 0 and 65535'')) (parse_u16 v))"

definition parse_u32 :: "string \<Rightarrow> 32 word option" where
  "parse_u32 s = map_option of_nat (parse_unsigned 32 s)"

definition config_u32 :: "(string \<Rightarrow> string option) \<Rightarrow> string \<Rightarrow> (32 word, normalizer_error) result" where
  "config_u32 env name =
    and_then (required env name) (\<lambda>v.
    ok_or (config_error (name @ '' must contain a non-negative integer'')) (parse_u32 v))"

definition parse_duration_seconds :: "(string \<Rightarrow> string option) \<Rightarrow> string \<Rightarrow> (nat, normalizer_error) result" where
  "parse_duration_seconds env name =
    and_then (required env name) (\<lambda>v.
    and_then (ok_or (config_error (name @ '' must contain an integer number of seconds'')) (parse_u64 v)) (\<lambda>seconds.
    Inr (unat seconds * 10 ^ 9)))"

text \<open>A byte of a multi-byte character is neither an underscore nor ASCII alphanumeric, so reading bytes
  instead of characters decides the same.\<close>

definition simple_identifier :: "string \<Rightarrow> bool" where
  "simple_identifier s = (case s of
      [] \<Rightarrow> False
    | first # rest \<Rightarrow> (is_ascii_lowercase first \<or> is_ascii_uppercase first \<or> first = CHR ''_'')
        \<and> list_all (\<lambda>c. is_ascii_lowercase c \<or> is_ascii_uppercase c \<or> is_ascii_digit c \<or> c = CHR ''_'') rest)"

section \<open>Validation\<close>

definition required_settings :: "'o runtime_config \<Rightarrow> (string \<times> string) list" where
  "required_settings config =
    [(''CERBERO_NATS_URL'', cf_nats_url config), (''NATS_NORMALIZER_USER'', cf_nats_user config),
     (''NATS_NORMALIZER_PASSWORD'', cf_nats_password config),
     (''CERBERO_NORMALIZER_COMPONENT_VERSION'', cf_component_version config),
     (''CERBERO_NORMALIZER_INSTANCE_ID'', cf_instance_id config),
     (''CERBERO_NORMALIZER_PIPELINE_VERSION'', cf_pipeline_version config),
     (''CLICKHOUSE_URL'', cf_clickhouse_url config), (''CLICKHOUSE_DB'', cf_clickhouse_database config),
     (''CLICKHOUSE_NORMALIZER_USER'', cf_clickhouse_user config),
     (''CLICKHOUSE_NORMALIZER_PASSWORD'', cf_clickhouse_password config),
     (''POSTGRES_HOST'', cf_postgres_host config), (''POSTGRES_DB'', cf_postgres_database config),
     (''POSTGRES_NORMALIZER_USER'', cf_postgres_user config),
     (''POSTGRES_NORMALIZER_PASSWORD'', cf_postgres_password config)]"

definition validate_config :: "'o runtime_config \<Rightarrow> ('o runtime_config, normalizer_error) result" where
  "validate_config config =
    and_then (try_each (\<lambda>(name, v). if trim v = '''' then Inl (config_error (name @ '' is required'')) else Inr ())
      (required_settings config)) (\<lambda>_.
    if cf_execution_mode config = ModeUnspecified
    then Inl (config_error ''normalizer execution mode must not be unspecified'')
    else if cf_execution_mode config \<noteq> Replay \<and> cf_replay_input config = Selective
    then Inl (config_error ''selective replay input requires REPLAY execution mode'')
    else if cf_linux_sshd_parser_version config \<notin> {''1'', ''2''}
    then Inl (config_error ''CERBERO_NORMALIZER_LINUX_SSHD_PARSER_VERSION must be 1 or 2'')
    else if \<not> simple_identifier (cf_clickhouse_database config)
    then Inl (config_error ''CLICKHOUSE_DB must be a simple ClickHouse identifier'')
    else if cf_retry_min_delay config = 0
    then Inl (config_error ''normalizer retry minimum must be greater than zero'')
    else if cf_retry_max_delay config < cf_retry_min_delay config
    then Inl (config_error ''normalizer retry maximum must be greater than or equal to retry minimum'')
    else if cf_postgres_port config = 0 then Inl (config_error ''POSTGRES_PORT must be greater than zero'')
    else if cf_retry_budget config = 0
    then Inl (config_error ''CERBERO_NORMALIZER_RETRY_BUDGET must be greater than zero'')
    else if cf_raw_store_path config = '''' then Inl (config_error ''CERBERO_RAW_STORE_PATH is required'')
    else Inr config)"

section \<open>The environment\<close>

definition config_execution_mode :: "string \<Rightarrow> (execution_mode, normalizer_error) result" where
  "config_execution_mode v =
    (if v = ''LIVE'' then Inr Live else if v = ''REPLAY'' then Inr Replay else if v = ''TEST'' then Inr Test
     else Inl (config_error (''CERBERO_NORMALIZER_EXECUTION_MODE must be LIVE, REPLAY, or TEST; got '' @ v)))"

definition config_replay_input :: "string option \<Rightarrow> (replay_input, normalizer_error) result" where
  "config_replay_input v =
    (let v = trim (case v of None \<Rightarrow> ''HISTORICAL'' | Some s \<Rightarrow> s) in
     if v = ''HISTORICAL'' then Inr Historical else if v = ''SELECTIVE'' then Inr Selective
     else Inl (config_error (''CERBERO_NORMALIZER_REPLAY_INPUT must be HISTORICAL or SELECTIVE; got '' @ v)))"

definition development_profile :: "(string \<Rightarrow> string option) \<Rightarrow> (unit, normalizer_error) result" where
  "development_profile env =
    and_then (required env ''CERBERO_DEV_MODE'') (\<lambda>mode.
    and_then (if mode \<noteq> ''1'' then Inr False
      else and_then (required env ''CERBERO_SECURITY_PROFILE'') (\<lambda>profile. Inr (profile = ''DEVELOPMENT''))) (\<lambda>development.
    if development then Inr ()
    else Inl (config_error ''cerbero-normalizer runtime is enabled only for the explicit DEVELOPMENT profile'')))"

definition from_env :: "('o, 't) time_lib \<Rightarrow> (string \<Rightarrow> string option) \<Rightarrow> ('o runtime_config, normalizer_error) result" where
  "from_env lib env =
    and_then (development_profile env) (\<lambda>_.
    and_then (and_then (required env ''CERBERO_NORMALIZER_EXECUTION_MODE'') config_execution_mode) (\<lambda>mode.
    and_then (config_replay_input (env ''CERBERO_NORMALIZER_REPLAY_INPUT'')) (\<lambda>replay.
    if mode \<noteq> Replay \<and> replay = Selective
    then Inl (config_error ''CERBERO_NORMALIZER_REPLAY_INPUT=SELECTIVE requires CERBERO_NORMALIZER_EXECUTION_MODE=REPLAY'')
    else
    and_then (required env ''CLICKHOUSE_HOST'') (\<lambda>host.
    and_then (required env ''CLICKHOUSE_HTTP_PORT'') (\<lambda>port.
    and_then (required env ''CERBERO_NATS_URL'') (\<lambda>nats_url.
    and_then (required env ''NATS_NORMALIZER_USER'') (\<lambda>nats_user.
    and_then (required env ''NATS_NORMALIZER_PASSWORD'') (\<lambda>nats_password.
    and_then (required env ''CERBERO_NORMALIZER_COMPONENT_VERSION'') (\<lambda>component_version.
    and_then (required env ''CERBERO_NORMALIZER_INSTANCE_ID'') (\<lambda>instance_id.
    and_then (required env ''CERBERO_NORMALIZER_PIPELINE_VERSION'') (\<lambda>pipeline_version.
    and_then (required env ''CERBERO_NORMALIZER_LINUX_SSHD_PARSER_VERSION'') (\<lambda>sshd_version.
    and_then (map_err config_error (parse_spec lib
      (case env ''CERBERO_NORMALIZER_SOURCE_TIME_OFFSETS'' of None \<Rightarrow> '''' | Some s \<Rightarrow> s))) (\<lambda>policies.
    and_then (required env ''CERBERO_RAW_STORE_PATH'') (\<lambda>raw_store_path.
    and_then (required env ''CLICKHOUSE_DB'') (\<lambda>clickhouse_database.
    and_then (required env ''CLICKHOUSE_NORMALIZER_USER'') (\<lambda>clickhouse_user.
    and_then (required env ''CLICKHOUSE_NORMALIZER_PASSWORD'') (\<lambda>clickhouse_password.
    and_then (required env ''POSTGRES_HOST'') (\<lambda>postgres_host.
    and_then (config_u16 env ''POSTGRES_PORT'') (\<lambda>postgres_port.
    and_then (required env ''POSTGRES_DB'') (\<lambda>postgres_database.
    and_then (required env ''POSTGRES_NORMALIZER_USER'') (\<lambda>postgres_user.
    and_then (required env ''POSTGRES_NORMALIZER_PASSWORD'') (\<lambda>postgres_password.
    and_then (parse_duration_seconds env ''CERBERO_NORMALIZER_RETRY_MIN_SECONDS'') (\<lambda>retry_min.
    and_then (parse_duration_seconds env ''CERBERO_NORMALIZER_RETRY_MAX_SECONDS'') (\<lambda>retry_max.
    and_then (config_u32 env ''CERBERO_NORMALIZER_RETRY_BUDGET'') (\<lambda>budget.
    validate_config
      \<lparr>cf_nats_url = nats_url, cf_nats_user = nats_user, cf_nats_password = nats_password,
       cf_component_version = component_version, cf_instance_id = instance_id, cf_pipeline_version = pipeline_version,
       cf_execution_mode = mode, cf_replay_input = replay, cf_linux_sshd_parser_version = sshd_version,
       cf_source_time_policies = policies, cf_raw_store_path = raw_store_path,
       cf_clickhouse_url = ''http://'' @ host @ '':'' @ port, cf_clickhouse_database = clickhouse_database,
       cf_clickhouse_user = clickhouse_user, cf_clickhouse_password = clickhouse_password, cf_postgres_host = postgres_host,
       cf_postgres_port = postgres_port, cf_postgres_database = postgres_database, cf_postgres_user = postgres_user,
       cf_postgres_password = postgres_password, cf_retry_min_delay = retry_min, cf_retry_max_delay = retry_max,
       cf_retry_budget = budget\<rparr>)))))))))))))))))))))))))"

end
