(* ===== verification/Ocsf_Mapping.thy ===== *)
theory Ocsf_Mapping
  imports Source_Time
begin

text \<open>
  The OCSF mapping of the normalizer (\<open>mapping.rs\<close>): the registry of mappings by parser and the mapping
  of sshd events to the OCSF class Authentication. The trait \<open>OcsfMapping\<close> is a record of its methods.
  A JSON number is its text.
\<close>

section \<open>Mappings\<close>

definition OCSF_VERSION :: string where "OCSF_VERSION = ''1.9.0''"
definition LINUX_SSH_AUTH_MAPPING_ID :: string where "LINUX_SSH_AUTH_MAPPING_ID = ''linux.ssh.authentication''"
definition LINUX_SSH_AUTH_MAPPING_VERSION :: string where "LINUX_SSH_AUTH_MAPPING_VERSION = ''1''"

datatype normalization_status = NormUnspecified | NormSuccess | NormPartial | NormFailed

fun normalization_status_i32 :: "normalization_status \<Rightarrow> int" where
  "normalization_status_i32 NormUnspecified = 0"
| "normalization_status_i32 NormSuccess = 1"
| "normalization_status_i32 NormPartial = 2"
| "normalization_status_i32 NormFailed = 3"

record mapping_output =
  mo_mapping_id :: string
  mo_mapping_version :: string
  mo_class_uid :: "32 word"
  mo_category_uid :: "32 word"
  mo_activity_id :: "32 word option"
  mo_severity :: "32 word option"
  mo_status :: normalization_status
  mo_ocsf_event :: "string json"

record mapping_error =
  me_code :: string
  me_message :: string
  me_retryable :: bool

definition mapping_failure :: "string \<Rightarrow> string \<Rightarrow> mapping_error" where
  "mapping_failure code message = \<lparr>me_code = code, me_message = message, me_retryable = False\<rparr>"

record ocsf_mapping =
  mp_id :: string
  mp_version :: string
  mp_parser_id :: string
  mp_map :: "parsed_event \<Rightarrow> raw_event_persisted \<Rightarrow> event_time_context \<Rightarrow> int \<Rightarrow> (mapping_output, mapping_error) result"

type_synonym mapping_registry = "(string, ocsf_mapping) btree"

definition register_mapping :: "ocsf_mapping \<Rightarrow> mapping_registry \<Rightarrow> mapping_registry" where
  "register_mapping mapping registry = btree_insert (mp_parser_id mapping) mapping registry"

definition for_parser :: "mapping_registry \<Rightarrow> string \<Rightarrow> (ocsf_mapping, mapping_error) result" where
  "for_parser registry parser_id =
    ok_or (mapping_failure ''CER-NORM-MAPPING-UNSUPPORTED''
      (''no OCSF mapping is registered for parser '' @ parser_id)) (btree_get registry parser_id)"

section \<open>Required fields\<close>

definition required_string :: "parsed_event \<Rightarrow> string \<Rightarrow> (string, mapping_error) result" where
  "required_string parsed field =
    ok_or (mapping_failure ''CER-NORM-MISSING-REQUIRED-FIELD'' (''required parsed field '' @ field @ '' must be a string''))
      (string_field parsed field)"

definition required_bool :: "parsed_event \<Rightarrow> string \<Rightarrow> (bool, mapping_error) result" where
  "required_bool parsed field =
    ok_or (mapping_failure ''CER-NORM-MISSING-REQUIRED-FIELD'' (''required parsed field '' @ field @ '' must be a bool''))
      (bool_field parsed field)"

definition required_u16 :: "parsed_event \<Rightarrow> string \<Rightarrow> (16 word, mapping_error) result" where
  "required_u16 parsed field =
    and_then (ok_or (mapping_failure ''CER-NORM-MISSING-REQUIRED-FIELD''
        (''required parsed field '' @ field @ '' must be an unsigned integer'')) (u64_field parsed field)) (\<lambda>v.
    if unat v < 2 ^ 16 then Inr (of_nat (unat v))
    else Inl (mapping_failure ''CER-NORM-MISSING-REQUIRED-FIELD''
      (''required parsed field '' @ field @ '' is outside uint16 range'')))"

text \<open>Integer division truncates towards zero.\<close>

definition truncating_div :: "int \<Rightarrow> int \<Rightarrow> int" where
  "truncating_div a b = (if a < 0 then - ((- a) div b) else a div b)"

definition mapping_unix_millis :: "timestamp \<Rightarrow> (int, mapping_error) result" where
  "mapping_unix_millis ts =
    and_then (ok_or (mapping_failure ''CER-NORM-TIMESTAMP-RANGE'' ''timestamp seconds overflow milliseconds'')
      (checked_mul_i64 (seconds ts) 1000)) (\<lambda>millis.
    ok_or (mapping_failure ''CER-NORM-TIMESTAMP-RANGE'' ''timestamp overflows milliseconds'')
      (checked_add_i64 millis (truncating_div (nanos ts) 1000000)))"

section \<open>The sshd mapping\<close>

text \<open>\<open>json!\<close> of an object, whose members are a \<open>BTreeMap\<close>.\<close>

definition json_object :: "(string \<times> string json) list \<Rightarrow> string json" where
  "json_object members = JObject (fold (\<lambda>(k, v). btree_insert k v) members [])"

definition json_number :: "int \<Rightarrow> string json" where
  "json_number n = JNumber (show_int n)"

definition missing_ingest_time :: mapping_error where
  "missing_ingest_time = mapping_failure ''CER-NORM-MISSING-INGEST-TIME'' ''RawEventPersisted.ingest_time is required''"

definition ssh_event_time ::
  "raw_event_persisted \<Rightarrow> event_time_context \<Rightarrow> (int \<times> normalization_status \<times> string, mapping_error) result" where
  "ssh_event_time persisted event_time = (case et_event_time event_time of
      Some resolved \<Rightarrow> and_then (mapping_unix_millis resolved) (\<lambda>t. Inr (t, NormSuccess, et_source event_time))
    | None \<Rightarrow>
        and_then (ok_or missing_ingest_time (rp_ingest_time persisted)) (\<lambda>ingest_time.
        and_then (mapping_unix_millis ingest_time) (\<lambda>t. Inr (t, NormPartial, ''ingest_time_fallback''))))"

definition ssh_metadata :: "int \<Rightarrow> int \<Rightarrow> string \<Rightarrow> string option \<Rightarrow> string json" where
  "ssh_metadata ingest_time_millis normalized_at_millis time_source assumption = json_object
    ([(''logged_time'', json_number ingest_time_millis), (''processed_time'', json_number normalized_at_millis),
      (''product'', json_object [(''name'', JString ''Cerbero Normalizer''), (''vendor_name'', JString ''Cerbero'')]),
      (''version'', JString OCSF_VERSION), (''cerbero_time_source'', JString time_source)]
     @ (case assumption of None \<Rightarrow> [] | Some a \<Rightarrow> [(''cerbero_time_assumption'', JString a)]))"

definition ssh_ocsf_event ::
  "string \<Rightarrow> string \<Rightarrow> 16 word \<Rightarrow> bool \<Rightarrow> string \<Rightarrow> string json \<Rightarrow> int \<Rightarrow> string json" where
  "ssh_ocsf_event username source_ip source_port invalid_user message metadata event_time_millis = json_object
    [(''activity_id'', json_number 1), (''activity_name'', JString ''Logon''), (''auth_protocol'', JString ''SSH''),
     (''auth_protocol_id'', json_number 99), (''category_name'', JString ''Identity & Access Management''),
     (''category_uid'', json_number 3), (''class_name'', JString ''Authentication''), (''class_uid'', json_number 3002),
     (''is_remote'', JBool True), (''message'', JString message), (''metadata'', metadata),
     (''service'', json_object [(''name'', JString ''sshd'')]), (''severity'', JString ''Low''), (''severity_id'', json_number 2),
     (''src_endpoint'', json_object [(''ip'', JString source_ip), (''port'', json_number (uint source_port))]),
     (''status'', JString ''Failure''),
     (''status_detail'', JString (if invalid_user then ''Invalid user'' else ''Authentication failed'')),
     (''status_id'', json_number 2), (''time'', json_number event_time_millis),
     (''type_name'', JString ''Authentication: Logon''), (''type_uid'', json_number 300201),
     (''user'', json_object [(''name'', JString username)])]"

definition map_ssh_authentication ::
  "parsed_event \<Rightarrow> raw_event_persisted \<Rightarrow> event_time_context \<Rightarrow> int \<Rightarrow> (mapping_output, mapping_error) result" where
  "map_ssh_authentication parsed persisted event_time normalized_at_unix_millis =
    (if pe_parser_id parsed \<noteq> LINUX_SSHD_PARSER_ID \<or> pe_source_event_type parsed \<noteq> ''linux.ssh.authentication''
     then Inl (mapping_failure ''CER-NORM-MAPPING-PARSER-MISMATCH''
       (''mapping does not accept parser '' @ pe_parser_id parsed @ '' source_event_type '' @ pe_source_event_type parsed))
     else
    and_then (required_string parsed ''username'') (\<lambda>username.
    and_then (required_string parsed ''source_ip'') (\<lambda>source_ip.
    and_then (required_u16 parsed ''source_port'') (\<lambda>source_port.
    and_then (required_bool parsed ''invalid_user'') (\<lambda>invalid_user.
    and_then (required_string parsed ''message'') (\<lambda>message.
    and_then (ssh_event_time persisted event_time) (\<lambda>(event_time_millis, status, time_source).
    and_then (ok_or missing_ingest_time (rp_ingest_time persisted)) (\<lambda>ingest_time.
    and_then (mapping_unix_millis ingest_time) (\<lambda>ingest_time_millis.
    Inr \<lparr>mo_mapping_id = LINUX_SSH_AUTH_MAPPING_ID, mo_mapping_version = LINUX_SSH_AUTH_MAPPING_VERSION,
      mo_class_uid = 3002, mo_category_uid = 3, mo_activity_id = Some 1, mo_severity = Some 2, mo_status = status,
      mo_ocsf_event = ssh_ocsf_event username source_ip source_port invalid_user message
        (ssh_metadata ingest_time_millis normalized_at_unix_millis time_source (et_assumption event_time))
        event_time_millis\<rparr>)))))))))"

definition ssh_authentication_mapping :: ocsf_mapping where
  "ssh_authentication_mapping =
    \<lparr>mp_id = LINUX_SSH_AUTH_MAPPING_ID, mp_version = LINUX_SSH_AUTH_MAPPING_VERSION, mp_parser_id = LINUX_SSHD_PARSER_ID,
     mp_map = map_ssh_authentication\<rparr>"

definition default_mappings :: mapping_registry where
  "default_mappings = register_mapping ssh_authentication_mapping []"

lemma for_parser_default:
  "for_parser default_mappings parser_id = Inr mapping \<longleftrightarrow> parser_id = LINUX_SSHD_PARSER_ID \<and> mapping = ssh_authentication_mapping"
  by (auto simp: for_parser_def default_mappings_def register_mapping_def btree_get_def ssh_authentication_mapping_def ok_or_def)

end
