(* ===== verification/Normalizer_Core.thy ===== *)
theory Normalizer_Core
  imports Ocsf_Mapping Event_Bus
begin

text \<open>
  The core of the normalizer (\<open>core.rs\<close>): from a persisted raw event and its bytes to the normalized
  event, its transformation record and the logical key of the derivation. Parameters, in the record
  \<open>core_env\<close>: SHA-256, the \<open>time\<close> crate, \<open>serde_json::to_vec\<close> and the value of a JSON number as a double.
  The traits \<open>Clock\<close> and \<open>IdGenerator\<close> are the answer of the clock and a function on the generator's
  state. A result is \<open>None\<close> when the call panics (only the \<open>time\<close> crate can). The calls that record
  metrics do not influence the results and are left out.
\<close>

record ('o, 't) core_env =
  ce_digest :: "string \<Rightarrow> string"
  ce_time :: "('o, 't) time_lib"
  ce_to_vec :: "string json \<Rightarrow> string"
  ce_as_f64 :: "string \<Rightarrow> f64 option"

section \<open>Clocks and identities\<close>

text \<open>The system clock reads nanoseconds since the epoch; before the epoch the call fails with a text
  of the standard library.\<close>

definition system_clock :: "string \<Rightarrow> int \<Rightarrow> (timestamp, normalizer_error) result" where
  "system_clock before_epoch nanoseconds =
    (if nanoseconds < 0 then Inl (transient ''CER-NORM-CLOCK'' before_epoch)
     else if fits_i64 (nanoseconds div 10 ^ 9)
     then Inr \<lparr>seconds = nanoseconds div 10 ^ 9, nanos = nanoseconds mod 10 ^ 9\<rparr>
     else Inl (fatal ''CER-NORM-CLOCK'' ''system time seconds exceed i64''))"

definition fixed_next_id :: "string list \<Rightarrow> string list \<times> (string, normalizer_error) result" where
  "fixed_next_id ids = (case ids of
      [] \<Rightarrow> ([], Inl (fatal ''CER-NORM-ID-EXHAUSTED'' ''test ID generator is exhausted''))
    | i # rest \<Rightarrow> (rest, Inr i))"

section \<open>Errors\<close>

definition core_invalid :: "string \<Rightarrow> normalizer_error" where
  "core_invalid message = fatal ''CER-NORM-INVALID'' message"

definition from_parse :: "parse_error \<Rightarrow> normalizer_error" where
  "from_parse e = \<lparr>ne_code = px_code e, ne_message = px_message e, ne_retryable = px_retryable e\<rparr>"

definition from_mapping :: "mapping_error \<Rightarrow> normalizer_error" where
  "from_mapping e = \<lparr>ne_code = me_code e, ne_message = me_message e, ne_retryable = me_retryable e\<rparr>"

definition from_source_time :: "string \<Rightarrow> normalizer_error" where
  "from_source_time message = fatal ''CER-NORM-SOURCE-TIME-POLICY'' message"

section \<open>The core and its identities\<close>

record ('o, 'i) normalizer_core =
  nc_pipeline_version :: string
  nc_execution_mode :: execution_mode
  nc_parsers :: "parser list"
  nc_mappings :: mapping_registry
  nc_policies :: "'o source_time_policies"
  nc_clock :: "(timestamp, normalizer_error) result"
  nc_next_id :: "'i \<Rightarrow> 'i \<times> (string, normalizer_error) result"
  nc_ids :: 'i

definition new_core ::
  "format_libs \<Rightarrow> string \<Rightarrow> execution_mode \<Rightarrow> string \<Rightarrow> (timestamp, normalizer_error) result
     \<Rightarrow> ('i \<Rightarrow> 'i \<times> (string, normalizer_error) result) \<Rightarrow> 'i \<Rightarrow> (('o, 'i) normalizer_core, normalizer_error) result" where
  "new_core libs pipeline_version mode sshd_version clock next_id ids =
    (if pipeline_version = '''' then Inl (core_invalid ''pipeline_version is required'')
     else if mode = ModeUnspecified then Inl (core_invalid ''execution_mode must be LIVE, REPLAY, or TEST'')
     else and_then (map_err from_parse (with_linux_sshd_version libs sshd_version)) (\<lambda>parsers.
       Inr \<lparr>nc_pipeline_version = pipeline_version, nc_execution_mode = mode, nc_parsers = parsers,
            nc_mappings = default_mappings, nc_policies = [], nc_clock = clock, nc_next_id = next_id, nc_ids = ids\<rparr>))"

definition set_source_time_policies :: "'o source_time_policies \<Rightarrow> ('o, 'i) normalizer_core \<Rightarrow> ('o, 'i) normalizer_core" where
  "set_source_time_policies policies core = core\<lparr>nc_policies := policies\<rparr>"

definition execution_mode_as_str_name :: "execution_mode \<Rightarrow> string" where
  "execution_mode_as_str_name mode = (case mode of
      ModeUnspecified \<Rightarrow> ''EXECUTION_MODE_UNSPECIFIED'' | Live \<Rightarrow> ''EXECUTION_MODE_LIVE''
    | Replay \<Rightarrow> ''EXECUTION_MODE_REPLAY'' | Test \<Rightarrow> ''EXECUTION_MODE_TEST'')"

abbreviation newline :: string where "newline \<equiv> [CHR 0x0A]"

definition configuration_text :: "string \<Rightarrow> execution_mode \<Rightarrow> string \<Rightarrow> string \<Rightarrow> string \<Rightarrow> string \<Rightarrow> string" where
  "configuration_text pipeline_version mode parser_id parser_version mapping_id mapping_version =
     ''parser='' @ parser_id @ ''@'' @ parser_version @ newline @ ''mapping='' @ mapping_id @ ''@'' @ mapping_version @ newline
       @ ''ocsf='' @ OCSF_VERSION @ newline @ ''pipeline='' @ pipeline_version @ newline
       @ ''mode='' @ execution_mode_as_str_name mode @ newline"

definition default_configuration_hash :: "('o, 't) core_env \<Rightarrow> string \<Rightarrow> execution_mode \<Rightarrow> string" where
  "default_configuration_hash env pipeline_version mode = sha256_lower_hex (ce_digest env) (configuration_text pipeline_version mode
     LINUX_SSHD_PARSER_ID LINUX_SSHD_PARSER_VERSION LINUX_SSH_AUTH_MAPPING_ID LINUX_SSH_AUTH_MAPPING_VERSION)"

definition configuration_hash_for ::
  "('o, 't) core_env \<Rightarrow> ('o, 'i) normalizer_core \<Rightarrow> raw_event_persisted \<Rightarrow> string \<Rightarrow> string \<Rightarrow> string \<Rightarrow> string \<Rightarrow> string" where
  "configuration_hash_for env core persisted parser_id parser_version mapping_id mapping_version =
    (let base = sha256_lower_hex (ce_digest env) (configuration_text (nc_pipeline_version core) (nc_execution_mode core)
           parser_id parser_version mapping_id mapping_version) in
     if rp_event_time persisted \<noteq> None then base
     else case policy_canonical (nc_policies core) (rp_source_id persisted) of
       None \<Rightarrow> base
     | Some policy \<Rightarrow> sha256_lower_hex (ce_digest env)
         (''base_configuration='' @ base @ newline @ ''source_time_policy='' @ policy @ newline))"

definition logical_key_text ::
  "string \<Rightarrow> string \<Rightarrow> execution_mode \<Rightarrow> string \<Rightarrow> string \<Rightarrow> string \<Rightarrow> string \<Rightarrow> string \<Rightarrow> string" where
  "logical_key_text event_id pipeline_version mode parser_id parser_version mapping_id mapping_version configuration_hash =
     ''raw_event_id='' @ event_id @ newline @ ''parser='' @ parser_id @ ''@'' @ parser_version @ newline
       @ ''mapping='' @ mapping_id @ ''@'' @ mapping_version @ newline @ ''ocsf='' @ OCSF_VERSION @ newline
       @ ''pipeline='' @ pipeline_version @ newline @ ''configuration='' @ configuration_hash @ newline
       @ ''execution_mode='' @ execution_mode_as_str_name mode @ newline"

definition logical_key_for ::
  "('o, 't) core_env \<Rightarrow> ('o, 'i) normalizer_core \<Rightarrow> raw_event_persisted \<Rightarrow> string \<Rightarrow> string \<Rightarrow> string \<Rightarrow> string \<Rightarrow> string" where
  "logical_key_for env core persisted parser_id parser_version mapping_id mapping_version =
    sha256_lower_hex (ce_digest env) (logical_key_text (rp_event_id persisted) (nc_pipeline_version core)
      (nc_execution_mode core) parser_id parser_version mapping_id mapping_version
      (configuration_hash_for env core persisted parser_id parser_version mapping_id mapping_version))"

definition default_logical_key :: "('o, 't) core_env \<Rightarrow> ('o, 'i) normalizer_core \<Rightarrow> raw_event_persisted \<Rightarrow> string" where
  "default_logical_key env core persisted = logical_key_for env core persisted LINUX_SSHD_PARSER_ID LINUX_SSHD_PARSER_VERSION
     LINUX_SSH_AUTH_MAPPING_ID LINUX_SSH_AUTH_MAPPING_VERSION"

record derivation_identity =
  di_logical_key :: string
  di_parser_id :: string
  di_parser_version :: string
  di_mapping_id :: string
  di_mapping_version :: string
  di_ocsf_version :: string
  di_pipeline_version :: string
  di_configuration_hash :: string
  di_execution_mode :: execution_mode

section \<open>Checks on the handoff\<close>

definition validate_raw_bytes :: "('o, 't) core_env \<Rightarrow> raw_event_persisted \<Rightarrow> string \<Rightarrow> (unit, normalizer_error) result" where
  "validate_raw_bytes env persisted raw =
    and_then (ok_or (core_invalid ''raw byte length exceeds uint64'') (u64_try_from (length raw))) (\<lambda>size.
    if size \<noteq> rp_raw_size persisted
    then Inl (fatal ''CER-NORM-RAW-LENGTH'' ''Raw Store byte length does not match RawEventPersisted.raw_size'')
    else if sha256_lower_hex (ce_digest env) raw \<noteq> rp_raw_hash persisted
    then Inl (fatal ''CER-NORM-RAW-HASH'' ''Raw Store SHA-256 does not match RawEventPersisted.raw_hash'')
    else Inr ())"

definition validate_handoff :: "envelope \<Rightarrow> raw_event_persisted \<Rightarrow> (unit, normalizer_error) result" where
  "validate_handoff incoming persisted =
    (if en_message_type incoming \<noteq> ''RawEventPersisted''
     then Inl (core_invalid ''incoming message_type must be RawEventPersisted'')
     else if en_payload_schema incoming \<noteq> ''cerbero.raw_event_persisted.v1''
     then Inl (core_invalid ''incoming payload_schema must be cerbero.raw_event_persisted.v1'')
     else if en_tenant_id incoming \<noteq> rp_tenant_id persisted
     then Inl (core_invalid ''envelope tenant_id differs from RawEventPersisted tenant_id'')
     else if rp_raw_hash_algorithm persisted \<noteq> ''sha256''
     then Inl (core_invalid ''RawEventPersisted.raw_hash_algorithm must be sha256'')
     else Inr ())"

definition core_input :: "raw_event_persisted \<Rightarrow> string \<Rightarrow> parser_input" where
  "core_input persisted raw = \<lparr>pi_raw = raw, pi_persisted = persisted, pi_configured_parser_id = None\<rparr>"

definition parser_identity ::
  "('o, 'i) normalizer_core \<Rightarrow> raw_event_persisted \<Rightarrow> string \<Rightarrow> (string \<times> string, normalizer_error) result" where
  "parser_identity core persisted raw =
    and_then (map_err from_parse (select (nc_parsers core) (core_input persisted raw))) (\<lambda>(p, _).
    Inr (pa_id p, pa_version p))"

definition derive_identity ::
  "('o, 't) core_env \<Rightarrow> ('o, 'i) normalizer_core \<Rightarrow> raw_event_persisted \<Rightarrow> string \<Rightarrow> (derivation_identity, normalizer_error) result" where
  "derive_identity env core persisted raw =
    and_then (validate_raw_bytes env persisted raw) (\<lambda>_.
    and_then (map_err from_parse (select (nc_parsers core) (core_input persisted raw))) (\<lambda>(p, _).
    and_then (map_err from_mapping (for_parser (nc_mappings core) (pa_id p))) (\<lambda>mapping.
    Inr \<lparr>di_logical_key = logical_key_for env core persisted (pa_id p) (pa_version p) (mp_id mapping) (mp_version mapping),
      di_parser_id = pa_id p, di_parser_version = pa_version p, di_mapping_id = mp_id mapping,
      di_mapping_version = mp_version mapping, di_ocsf_version = OCSF_VERSION, di_pipeline_version = nc_pipeline_version core,
      di_configuration_hash = configuration_hash_for env core persisted (pa_id p) (pa_version p) (mp_id mapping) (mp_version mapping),
      di_execution_mode = nc_execution_mode core\<rparr>)))"

section \<open>From JSON to protobuf\<close>

fun json_to_struct_value :: "'e \<Rightarrow> (string \<Rightarrow> f64 option) \<Rightarrow> string json \<Rightarrow> (pvalue, 'e) result" where
  "json_to_struct_value e as_f64 JNull = Inr (Value (Some (NullValue 0)))"
| "json_to_struct_value e as_f64 (JBool b) = Inr (Value (Some (BoolValue b)))"
| "json_to_struct_value e as_f64 (JNumber n) = and_then (ok_or e (as_f64 n)) (\<lambda>x. Inr (Value (Some (NumberValue x))))"
| "json_to_struct_value e as_f64 (JString s) = Inr (Value (Some (StringValue s)))"
| "json_to_struct_value e as_f64 (JArray vs) =
    and_then (try_map (json_to_struct_value e as_f64) vs) (\<lambda>ps. Inr (Value (Some (ListValue ps))))"
| "json_to_struct_value e as_f64 (JObject members) =
    and_then (try_map (\<lambda>m. and_then (json_to_struct_value e as_f64 (snd m)) (\<lambda>v. Inr (fst m, v))) members)
      (\<lambda>ps. Inr (Value (Some (StructValue (fold (\<lambda>(k, v). btree_insert k v) ps [])))))"

definition json_to_struct ::
  "'e \<Rightarrow> 'e \<Rightarrow> (string \<Rightarrow> f64 option) \<Rightarrow> string json \<Rightarrow> ((string \<times> pvalue) list, 'e) result" where
  "json_to_struct root_error number_error as_f64 node = (case node of
      JObject members \<Rightarrow>
        and_then (try_map (\<lambda>m. and_then (json_to_struct_value number_error as_f64 (snd m)) (\<lambda>v. Inr (fst m, v))) members)
          (\<lambda>ps. Inr (fold (\<lambda>(k, v). btree_insert k v) ps []))
    | _ \<Rightarrow> Inl root_error)"

section \<open>Normalization\<close>

record normalization_plan =
  np_logical_key :: string
  np_resolved_event_time :: "timestamp option"
  np_mapping_id :: string
  np_mapping_version :: string
  np_canonical_ocsf_json :: string
  np_normalized_event :: normalized_event
  np_transformation :: transformation

definition core_unix_millis :: "timestamp \<Rightarrow> (int, normalizer_error) result" where
  "core_unix_millis ts = ok_or (core_invalid ''timestamp overflows milliseconds'')
    (Option.bind (checked_mul_i64 (seconds ts) 1000) (\<lambda>v. checked_add_i64 v (truncating_div (nanos ts) 1000000)))"

definition canonical_json_bytes :: "('o, 't) core_env \<Rightarrow> string json \<Rightarrow> string" where
  "canonical_json_bytes env node = ce_to_vec env (canonicalize node)"

definition canonical_json_hash :: "('o, 't) core_env \<Rightarrow> string json \<Rightarrow> string" where
  "canonical_json_hash env node = sha256_lower_hex (ce_digest env) (canonical_json_bytes env node)"

definition normalized_event_of ::
  "('o, 't) core_env \<Rightarrow> ('o, 'i) normalizer_core \<Rightarrow> raw_event_persisted \<Rightarrow> parsed_event \<Rightarrow> timestamp \<Rightarrow> mapping_output
     \<Rightarrow> string \<Rightarrow> (normalized_event, normalizer_error) result" where
  "normalized_event_of env core persisted parsed normalized_at mapped normalized_event_id =
    and_then (json_to_struct (core_invalid ''OCSF event root must be a JSON object'')
      (core_invalid ''OCSF JSON number cannot be represented as protobuf Struct number'') (ce_as_f64 env)
      (mo_ocsf_event mapped)) (\<lambda>ocsf_event.
    Inr \<lparr>ne_normalized_event_id = normalized_event_id, ne_raw_event_id = rp_event_id persisted,
      ne_tenant_id = rp_tenant_id persisted, ne_normalized_at = Some normalized_at, ne_ocsf_version = OCSF_VERSION,
      ne_class_uid = mo_class_uid mapped, ne_category_uid = mo_category_uid mapped, ne_severity = mo_severity mapped,
      ne_activity_id = mo_activity_id mapped, ne_ocsf_event = Some ocsf_event, ne_parser_id = pe_parser_id parsed,
      ne_parser_version = pe_parser_version parsed,
      ne_normalization_status = normalization_status_i32 (mo_status mapped), ne_normalized_hash_algorithm = ''sha256'',
      ne_normalized_hash = canonical_json_hash env (mo_ocsf_event mapped), ne_pipeline_version = nc_pipeline_version core\<rparr>)"

definition transformation_of ::
  "('o, 't) core_env \<Rightarrow> ('o, 'i) normalizer_core \<Rightarrow> raw_event_persisted \<Rightarrow> parsed_event \<Rightarrow> timestamp \<Rightarrow> mapping_output
     \<Rightarrow> string \<Rightarrow> string \<Rightarrow> transformation" where
  "transformation_of env core persisted parsed normalized_at mapped normalized_event_id transformation_id =
    \<lparr>tf_transformation_id = transformation_id, tf_input_object_id = rp_event_id persisted, tf_input_object_type = ''RawEvent'',
     tf_output_object_id = normalized_event_id, tf_output_object_type = ''NormalizedEvent'',
     tf_component = ''cerbero-normalizer:'' @ mo_mapping_id mapped, tf_component_version = mo_mapping_version mapped,
     tf_configuration_hash = configuration_hash_for env core persisted (pe_parser_id parsed) (pe_parser_version parsed)
       (mo_mapping_id mapped) (mo_mapping_version mapped),
     tf_started_at = Some normalized_at, tf_completed_at = Some normalized_at, tf_status = 1, tf_error = None,
     tf_execution_mode = execution_mode_i32 (nc_execution_mode core)\<rparr>"

definition plan_of ::
  "('o, 't) core_env \<Rightarrow> ('o, 'i) normalizer_core \<Rightarrow> raw_event_persisted \<Rightarrow> parsed_event \<Rightarrow> event_time_context \<Rightarrow> timestamp
     \<Rightarrow> mapping_output \<Rightarrow> string \<Rightarrow> string \<Rightarrow> (normalization_plan, normalizer_error) result" where
  "plan_of env core persisted parsed event_time normalized_at mapped normalized_event_id transformation_id =
    and_then (normalized_event_of env core persisted parsed normalized_at mapped normalized_event_id) (\<lambda>normalized.
    and_then (map_err (\<lambda>e. fatal ''CER-NORM-CONTRACT'' (display_violation e)) (validate_normalized_event normalized)) (\<lambda>_.
    let transformation = transformation_of env core persisted parsed normalized_at mapped normalized_event_id transformation_id in
    and_then (map_err (\<lambda>e. fatal ''CER-NORM-TRANSFORMATION-CONTRACT'' (display_violation e))
      (validate_transformation transformation)) (\<lambda>_.
    Inr \<lparr>np_logical_key = logical_key_for env core persisted (pe_parser_id parsed) (pe_parser_version parsed)
          (mo_mapping_id mapped) (mo_mapping_version mapped),
      np_resolved_event_time = et_event_time event_time, np_mapping_id = mo_mapping_id mapped,
      np_mapping_version = mo_mapping_version mapped, np_canonical_ocsf_json = canonical_json_bytes env (mo_ocsf_event mapped),
      np_normalized_event = normalized, np_transformation = transformation\<rparr>)))"

text \<open>Everything before the identities are drawn.\<close>

definition mapped_event ::
  "('o, 'i) normalizer_core \<Rightarrow> ocsf_mapping \<Rightarrow> raw_event_persisted \<Rightarrow> parsed_event \<Rightarrow> event_time_context
     \<Rightarrow> (timestamp \<times> mapping_output, normalizer_error) result" where
  "mapped_event core mapping persisted parsed event_time =
    and_then (nc_clock core) (\<lambda>normalized_at.
    and_then (core_unix_millis normalized_at) (\<lambda>normalized_at_millis.
    and_then (map_err from_mapping (mp_map mapping parsed persisted event_time normalized_at_millis)) (\<lambda>mapped.
    Inr (normalized_at, mapped))))"

text \<open>The identities of the event and of its transformation, drawn one after the other.\<close>

definition draw_ids :: "('o, 'i) normalizer_core \<Rightarrow> 'i \<times> (string \<times> string, normalizer_error) result" where
  "draw_ids core = (case nc_next_id core (nc_ids core) of
      (ids, Inl e) \<Rightarrow> (ids, Inl e)
    | (ids, Inr normalized_event_id) \<Rightarrow> (case nc_next_id core ids of
        (ids, Inl e) \<Rightarrow> (ids, Inl e)
      | (ids, Inr transformation_id) \<Rightarrow> (ids, Inr (normalized_event_id, transformation_id))))"

definition build_normalization_plan ::
  "('o, 't) core_env \<Rightarrow> ('o, 'i) normalizer_core \<Rightarrow> raw_event_persisted \<Rightarrow> parsed_event
     \<Rightarrow> ('i \<times> (normalization_plan, normalizer_error) result) option" where
  "build_normalization_plan env core persisted parsed =
    (case map_err from_mapping (for_parser (nc_mappings core) (pe_parser_id parsed)) of
       Inl e \<Rightarrow> Some (nc_ids core, Inl e)
     | Inr mapping \<Rightarrow>
    (case resolve (ce_time env) (nc_policies core) persisted parsed of
       None \<Rightarrow> None
     | Some (Inl e) \<Rightarrow> Some (nc_ids core, Inl (from_source_time e))
     | Some (Inr event_time) \<Rightarrow>
    (case mapped_event core mapping persisted parsed event_time of
       Inl e \<Rightarrow> Some (nc_ids core, Inl e)
     | Inr (normalized_at, mapped) \<Rightarrow>
    (case draw_ids core of
       (ids, Inl e) \<Rightarrow> Some (ids, Inl e)
     | (ids, Inr (normalized_event_id, transformation_id)) \<Rightarrow>
         Some (ids, plan_of env core persisted parsed event_time normalized_at mapped normalized_event_id transformation_id)))))"

definition normalize ::
  "('o, 't) core_env \<Rightarrow> ('o, 'i) normalizer_core \<Rightarrow> envelope \<Rightarrow> raw_event_persisted \<Rightarrow> string
     \<Rightarrow> ('i \<times> (normalization_plan, normalizer_error) result) option" where
  "normalize env core incoming persisted raw =
    (case and_then (validate_handoff incoming persisted) (\<lambda>_.
          and_then (validate_raw_bytes env persisted raw) (\<lambda>_.
          map_err from_parse (parse (nc_parsers core) (core_input persisted raw)))) of
       Inl e \<Rightarrow> Some (nc_ids core, Inl e)
     | Inr parsed \<Rightarrow> build_normalization_plan env core persisted parsed)"

end
