(* ===== verification/Threshold.thy ===== *)
theory Threshold
  imports Event_Signal Ordered_Map
begin

text \<open>
  THRESHOLD rules (\<open>threshold.rs\<close> of cerbero-detection-core): compilation, the deterministic batch
  evaluation with its sliding window, and the Signal materializer. The loops are modelled as they
  are written: deduplication by event id, grouping in a \<open>BTreeMap\<close>, a stable sort by time and id, a
  left index that only advances. The specification of the window is \<open>window_closes\<close>: the scan
  returns the first right end at which the last \<open>threshold\<close> events lie within the window. The
  target has 64-bit \<open>usize\<close>.
\<close>

section \<open>Rules and plans\<close>

datatype threshold_aggregation = Count

datatype threshold_time_basis = EventTime | IngestTime

datatype threshold_late_event_policy = Accept | AcceptWithLimit "64 word" | IgnoreForStream

record 'f threshold_window =
  tw_duration_millis :: "64 word"
  tw_time_basis :: threshold_time_basis
  tw_time_field :: 'f
  tw_late_event_policy :: threshold_late_event_policy

record ('f, 'v) threshold_rule =
  tr_filter :: "('f, 'v) detection_expression"
  tr_group_by :: "'f list"
  tr_aggregation :: threshold_aggregation
  tr_threshold :: "64 word"
  tr_window :: "'f threshold_window"

record ('plan, 'profile, 'f) compiled_threshold_plan =
  ctp_filter :: "('plan, 'profile) compiled_event_execution_plan"
  ctp_group_by :: "'f list"
  ctp_aggregation :: threshold_aggregation
  ctp_threshold :: "64 word"
  ctp_window :: "'f threshold_window"
  ctp_supported_backends :: execution_backend_capabilities

definition check_group_field ::
  "('f, 'v, 't, 'w) schema \<Rightarrow> 'f list \<Rightarrow> nat \<times> 'f \<Rightarrow> unit compiled" where
  "check_group_field sc group_by item =
    (case item of (index, field) \<Rightarrow>
      if list_ex (\<lambda>previous. as_ref sc previous = as_ref sc field) (take index group_by)
      then Inl InvalidMapping
      else and_then (require_field_type (resolve_field_type sc) (as_ref sc field)) (\<lambda>_. Inr ()))"

definition compile_threshold_execution_plan ::
  "('f, 'v) threshold_rule \<Rightarrow> execution_backend \<Rightarrow> ('f, 'v, 't, 'w) schema
     \<Rightarrow> ('f, 'v, 'profile, 'plan) event_compilation_stages
     \<Rightarrow> ('plan, 'profile, 'f) compiled_threshold_plan compiled" where
  "compile_threshold_execution_plan rule backend sc stages =
    (if backend \<noteq> ClickHouse then Inl UnsupportedBackend
     else if tr_group_by rule = [] \<or> tr_threshold rule = 0 then Inl InvalidMapping
     else if tw_duration_millis (tr_window rule) = 0
       \<or> i64_try_from (tw_duration_millis (tr_window rule)) = None then Inl InvalidWindow
     else if tw_late_event_policy (tr_window rule) \<noteq> Accept then Inl UnsupportedBackend
     else
     and_then (try_each (check_group_field sc (tr_group_by rule)) (enumerate 0 (tr_group_by rule))) (\<lambda>_.
     and_then (require_field_type (resolve_field_type sc)
       (as_ref sc (tw_time_field (tr_window rule)))) (\<lambda>_.
     and_then (compile_event_execution_plan (tr_filter rule) backend sc stages) (\<lambda>filter.
     Inr \<lparr>ctp_filter = filter, ctp_group_by = tr_group_by rule, ctp_aggregation = tr_aggregation rule,
          ctp_threshold = tr_threshold rule, ctp_window = tr_window rule,
          ctp_supported_backends = capabilities_new True False\<rparr>))))"

section \<open>Evaluation\<close>

record ('f, 'v, 'k, 'err) threshold_policy =
  tp_leaf :: "('f, 'v, pvalue, 'err) leaf_policy"
  threshold_group_key :: "'f list \<Rightarrow> normalized_event \<Rightarrow> ('k option, 'err) result"
  threshold_event_time_millis ::
    "threshold_time_basis \<Rightarrow> 'f \<Rightarrow> normalized_event \<Rightarrow> (int option, 'err) result"

record 'rv threshold_signal_provenance =
  tsp_rule_id :: rule_id
  tsp_rule_version :: 'rv
  tsp_tenant_id :: string
  tsp_normalized_event_ids :: "string list"
  tsp_first_observed_at :: timestamp
  tsp_last_observed_at :: timestamp
  tsp_evaluated_at :: timestamp
  tsp_execution_backend :: execution_backend
  tsp_execution_mode :: execution_mode

datatype 'err threshold_evaluation_error =
    ThresholdPolicy 'err
  | ThresholdInvalidProvenance contract_violation
  | ThresholdUnspecifiedExecutionMode

fun display_threshold_error :: "('err \<Rightarrow> string) \<Rightarrow> 'err threshold_evaluation_error \<Rightarrow> string" where
  "display_threshold_error show_err (ThresholdPolicy e) = ''THRESHOLD evaluation failed: '' @ show_err e"
| "display_threshold_error show_err (ThresholdInvalidProvenance v) =
     ''invalid THRESHOLD provenance: '' @ display_violation v"
| "display_threshold_error show_err ThresholdUnspecifiedExecutionMode =
     ''THRESHOLD provenance requires LIVE, REPLAY, or TEST execution mode''"

record candidate =
  cd_normalized_event_id :: string
  cd_event_time_millis :: int

text \<open>\<open>div_euclid\<close> and \<open>rem_euclid\<close> by 1000 are HOL's \<open>div\<close> and \<open>mod\<close>. The \<open>expect\<close> on the conversion
  to \<open>i32\<close> never fails (\<open>millis_nanos_fit\<close>).\<close>

definition timestamp_from_millis :: "int \<Rightarrow> timestamp" where
  "timestamp_from_millis value = \<lparr>seconds = value div 1000, nanos = value mod 1000 * 1000000\<rparr>"

type_synonym ('pid, 'rv, 'f, 'v, 'rf, 'g, 'w, 'rl, 'ph, 'profile) threshold_plan =
  "(('pid, 'rv, 'f, 'v, 'rf, 'g, 'w, 'rl, 'ph) event_plan, 'profile, 'f) compiled_threshold_plan"

text \<open>The body of the loop over the events after deduplication: the group key and the candidate, or
  nothing when the event does not take part.\<close>

definition threshold_candidate ::
  "('f \<Rightarrow> string) \<Rightarrow> ('pid, 'rv, 'f, 'v, 'rf, 'g, 'w, 'rl, 'ph, 'profile) threshold_plan
     \<Rightarrow> ('f, 'v, 'k, 'err) threshold_policy \<Rightarrow> normalized_event
     \<Rightarrow> (((string \<times> 'k) \<times> candidate) option, 'err threshold_evaluation_error) result" where
  "threshold_candidate to_str plan policy event =
    and_then (map_err ThresholdPolicy (evaluate_event_execution_plan predicates
      (compiled_plan (ctp_filter plan)) (field_state to_str event) (tp_leaf policy))) (\<lambda>evaluation.
    if evaluation = NoMatch then Inr None
    else and_then (map_err ThresholdPolicy (threshold_group_key policy (ctp_group_by plan) event)) (\<lambda>group_key.
    case group_key of None \<Rightarrow> Inr None
    | Some key \<Rightarrow>
      and_then (map_err ThresholdPolicy (threshold_event_time_millis policy
        (tw_time_basis (ctp_window plan)) (tw_time_field (ctp_window plan)) event)) (\<lambda>event_time.
      case event_time of None \<Rightarrow> Inr None
      | Some millis \<Rightarrow> Inr (Some ((ne_tenant_id event, key),
          \<lparr>cd_normalized_event_id = ne_normalized_event_id event, cd_event_time_millis = millis\<rparr>)))))"

fun threshold_collect_step ::
  "('f \<Rightarrow> string) \<Rightarrow> ('pid, 'rv, 'f, 'v, 'rf, 'g, 'w, 'rl, 'ph, 'profile) threshold_plan
     \<Rightarrow> ('f, 'v, 'k :: linorder, 'err) threshold_policy
     \<Rightarrow> string set \<times> (string \<times> 'k, candidate list) btree \<Rightarrow> normalized_event
     \<Rightarrow> (string set \<times> (string \<times> 'k, candidate list) btree, 'err threshold_evaluation_error) result" where
  "threshold_collect_step to_str plan policy (seen_event_ids, groups) event =
    and_then (map_err ThresholdInvalidProvenance
      (validate_uuid_v7 ''normalized_event_id'' (ne_normalized_event_id event))) (\<lambda>_.
    and_then (map_err ThresholdInvalidProvenance
      (validate_uuid_v7 ''tenant_id'' (ne_tenant_id event))) (\<lambda>_.
    if ne_normalized_event_id event \<in> seen_event_ids then Inr (seen_event_ids, groups)
    else and_then (threshold_candidate to_str plan policy event) (\<lambda>found.
      case found of
        None \<Rightarrow> Inr (insert (ne_normalized_event_id event) seen_event_ids, groups)
      | Some (key, c) \<Rightarrow>
          Inr (insert (ne_normalized_event_id event) seen_event_ids, btree_push key c groups))))"

text \<open>The inner \<open>while\<close> loop and the loop over the right end of the window.\<close>

function advance_left :: "candidate list \<Rightarrow> int \<Rightarrow> nat \<Rightarrow> nat \<Rightarrow> nat" where
  "advance_left candidates window_millis right left =
    (if left \<le> right \<and> cd_event_time_millis (candidates ! right)
          - cd_event_time_millis (candidates ! left) > window_millis
     then advance_left candidates window_millis right (left + 1) else left)"
  by pat_completeness auto
termination by (relation "measure (\<lambda>(_, _, right, left). right + 1 - left)") auto

declare advance_left.simps [simp del]

fun scan_windows :: "candidate list \<Rightarrow> int \<Rightarrow> nat \<Rightarrow> nat \<Rightarrow> nat list \<Rightarrow> (nat \<times> nat) option" where
  "scan_windows candidates window_millis threshold left [] = None"
| "scan_windows candidates window_millis threshold left (right # rights) =
    (let left' = advance_left candidates window_millis right left in
     if right + 1 - left' < threshold
     then scan_windows candidates window_millis threshold left' rights
     else Some (left', right))"

definition candidate_order :: "candidate \<Rightarrow> int \<times> string" where
  "candidate_order c = (cd_event_time_millis c, cd_normalized_event_id c)"

text \<open>One group: the scan over its sorted candidates and the match it emits.\<close>

definition threshold_sorted_match ::
  "('pid, 'rv, 'f, 'v, 'rf, 'g, 'w, 'rl, 'ph, 'profile) threshold_plan \<Rightarrow> nat \<Rightarrow> int
     \<Rightarrow> execution_mode \<Rightarrow> timestamp \<Rightarrow> string \<Rightarrow> candidate list
     \<Rightarrow> ('rv threshold_signal_provenance option, 'err threshold_evaluation_error) result" where
  "threshold_sorted_match plan threshold window_millis mode evaluated_at tenant_id candidates =
    (case scan_windows candidates window_millis threshold 0 [0..<length candidates] of
       None \<Rightarrow> Inr None
     | Some (left, right) \<Rightarrow>
         let contributors = drop left (take (right + 1) candidates);
             first_observed_at = timestamp_from_millis (cd_event_time_millis (contributors ! 0));
             last_observed_at = timestamp_from_millis
               (cd_event_time_millis (contributors ! (length contributors - 1)))
         in and_then (map_err ThresholdInvalidProvenance
              (validate_timestamp ''first_observed_at'' first_observed_at)) (\<lambda>_.
            and_then (map_err ThresholdInvalidProvenance
              (validate_timestamp ''last_observed_at'' last_observed_at)) (\<lambda>_.
            Inr (Some \<lparr>tsp_rule_id = plan_rule_id (compiled_plan (ctp_filter plan)),
              tsp_rule_version = plan_rule_version (compiled_plan (ctp_filter plan)),
              tsp_tenant_id = tenant_id,
              tsp_normalized_event_ids = map cd_normalized_event_id contributors,
              tsp_first_observed_at = first_observed_at,
              tsp_last_observed_at = last_observed_at,
              tsp_evaluated_at = evaluated_at,
              tsp_execution_backend = plan_backend (compiled_plan (ctp_filter plan)),
              tsp_execution_mode = mode\<rparr>))))"

fun threshold_group_match ::
  "('pid, 'rv, 'f, 'v, 'rf, 'g, 'w, 'rl, 'ph, 'profile) threshold_plan \<Rightarrow> nat \<Rightarrow> int
     \<Rightarrow> execution_mode \<Rightarrow> timestamp \<Rightarrow> (string \<times> 'k) \<times> candidate list
     \<Rightarrow> ('rv threshold_signal_provenance option, 'err threshold_evaluation_error) result" where
  "threshold_group_match plan threshold window_millis mode evaluated_at ((tenant_id, group_key), candidates) =
    threshold_sorted_match plan threshold window_millis mode evaluated_at tenant_id
      (sort_key candidate_order candidates)"

definition evaluate_threshold_normalized_events ::
  "('f \<Rightarrow> string) \<Rightarrow> ('pid, 'rv, 'f, 'v, 'rf, 'g, 'w, 'rl, 'ph, 'profile) threshold_plan
     \<Rightarrow> normalized_event list \<Rightarrow> execution_mode \<Rightarrow> timestamp
     \<Rightarrow> ('f, 'v, 'k :: linorder, 'err) threshold_policy
     \<Rightarrow> ('rv threshold_signal_provenance list, 'err threshold_evaluation_error) result" where
  "evaluate_threshold_normalized_events to_str plan events mode evaluated_at policy =
    and_then (map_err ThresholdInvalidProvenance
      (validate_timestamp ''evaluated_at'' evaluated_at)) (\<lambda>_.
    if mode = ModeUnspecified then Inl ThresholdUnspecifiedExecutionMode
    else
    and_then (ok_or (ThresholdInvalidProvenance
        (violation ''threshold'' ''exceeds platform collection capacity''))
      (usize_try_from (ctp_threshold plan))) (\<lambda>threshold.
    and_then (ok_or (ThresholdInvalidProvenance
        (violation ''window.duration_millis'' ''exceeds supported deterministic batch range''))
      (i64_try_from (tw_duration_millis (ctp_window plan)))) (\<lambda>window_millis.
    and_then (try_fold (threshold_collect_step to_str plan policy) ({}, []) events) (\<lambda>(_, groups).
    and_then (try_map (threshold_group_match plan threshold window_millis mode evaluated_at) groups) (\<lambda>found.
    Inr (List.map_filter (\<lambda>m. m) found))))))"

section \<open>Materialization\<close>

record threshold_signal_context =
  tsc_signal_id :: string
  tsc_severity :: string
  tsc_confidence :: "string option"
  tsc_summary :: string
  tsc_input_relation :: string
  tsc_created_at :: timestamp
  tsc_source_count :: "64 word"

definition threshold_signal_input ::
  "threshold_signal_context \<Rightarrow> nat \<times> string \<Rightarrow> (signal_input, contract_violation) result" where
  "threshold_signal_input c item =
    (case item of (index, input_id) \<Rightarrow>
      and_then (ok_or (violation ''inputs.ordinal'' ''input list exceeds uint32 ordinal capacity'')
        (u32_try_from index)) (\<lambda>ordinal.
      Inr \<lparr>si_signal_id = tsc_signal_id c, si_input_type = 1, si_input_id = input_id,
           si_relation = tsc_input_relation c, si_ordinal = ordinal\<rparr>))"

definition threshold_signal_of ::
  "('rv \<Rightarrow> string) \<Rightarrow> 'rv threshold_signal_provenance \<Rightarrow> threshold_signal_context \<Rightarrow> 64 word
     \<Rightarrow> signal_input list \<Rightarrow> signal" where
  "threshold_signal_of show_version p c event_count inputs =
    \<lparr>sg_signal_id = tsc_signal_id c,
     sg_tenant_id = tsp_tenant_id p,
     sg_rule_id = as_str (tsp_rule_id p),
     sg_rule_version = show_version (tsp_rule_version p),
     sg_rule_type = 2,
     sg_severity = tsc_severity c,
     sg_confidence = tsc_confidence c,
     sg_status = 1,
     sg_first_observed_at = Some (tsp_first_observed_at p),
     sg_last_observed_at = Some (tsp_last_observed_at p),
     sg_created_at = Some (tsc_created_at c),
     sg_execution_mode = execution_mode_i32 (tsp_execution_mode p),
     sg_source_count = tsc_source_count c,
     sg_event_count = event_count,
     sg_summary = tsc_summary c,
     sg_provenance = Some \<lparr>sp_evaluated_at = Some (tsp_evaluated_at p),
       sp_execution_backend = contract_backend (tsp_execution_backend p)\<rparr>,
     sg_inputs = inputs\<rparr>"

definition materialize_threshold_signal ::
  "('rv \<Rightarrow> string) \<Rightarrow> 'rv threshold_signal_provenance \<Rightarrow> threshold_signal_context
     \<Rightarrow> (signal, contract_violation) result" where
  "materialize_threshold_signal show_version p c =
    (if tsp_normalized_event_ids p = []
     then Inl (violation ''normalized_event_ids'' ''THRESHOLD provenance requires contributing events'')
     else and_then (ok_or (violation ''event_count'' ''contributing event list exceeds uint64 capacity'')
       (u64_try_from (length (tsp_normalized_event_ids p)))) (\<lambda>event_count.
     and_then (try_map (threshold_signal_input c) (enumerate 0 (tsp_normalized_event_ids p))) (\<lambda>inputs.
     validated validate_signal (threshold_signal_of show_version p c event_count inputs))))"

end
