(* ===== verification/Sigma.thy ===== *)
theory Sigma
  imports Threshold
begin

text \<open>
  The Sigma importer (\<open>sigma.rs\<close> of cerbero-detection-core). Decoding the YAML text into documents
  is serde_yaml's work and the parameter \<open>parse_documents\<close>; \<open>debug_str\<close> is Rust's \<open>Debug\<close> of a
  string, used in error texts only. A panic is the outer \<open>None\<close>.
\<close>

section \<open>Documents\<close>

record sigma_log_source =
  ls_product :: "string option"
  ls_service :: "string option"

record sigma_detection =
  sd_condition :: string
  sd_selections :: "(string, (string, string) btree) btree"

record sigma_correlation =
  sc_kind :: string
  sc_rules :: "string list"
  sc_group_by :: "string list"
  sc_timespan :: string
  sc_gte :: "64 word"

record sigma_document =
  doc_title :: string
  doc_id :: "string option"
  doc_name :: "string option"
  doc_taxonomy :: "string option"
  doc_status :: "string option"
  doc_logsource :: "sigma_log_source option"
  doc_detection :: "sigma_detection option"
  doc_correlation :: "sigma_correlation option"
  doc_level :: "string option"
  doc_cerbero_rule_id :: "string option"
  doc_cerbero_rule_version :: "string option"
  doc_cerbero_time_basis :: "string option"
  doc_cerbero_time_field :: "string option"
  doc_cerbero_late_event_policy :: "string option"

record imported_sigma_threshold_rule =
  im_rule_id :: rule_id
  im_rule_version :: string
  im_status :: rule_status
  im_title :: string
  im_severity :: string
  im_content_hash :: string
  im_threshold_rule :: "(string, string) threshold_rule"

datatype sigma_import_error = SigmaImportError string

type_synonym 'a imported = "('a, sigma_import_error) result"

section \<open>Helpers\<close>

definition debug_option :: "(string \<Rightarrow> string) \<Rightarrow> string option \<Rightarrow> string" where
  "debug_option debug_str x = (case x of None \<Rightarrow> ''None'' | Some s \<Rightarrow> ''Some('' @ debug_str s @ '')'')"

definition require_value ::
  "(string \<Rightarrow> string) \<Rightarrow> string option \<Rightarrow> string \<Rightarrow> string \<Rightarrow> unit imported" where
  "require_value debug_str actual expected field =
    (if actual = Some expected then Inr ()
     else Inl (SigmaImportError (field @ '' must be '' @ debug_str expected @ '', observed ''
       @ debug_option debug_str actual)))"

definition timespan_multiplier :: "string \<Rightarrow> 64 word imported" where
  "timespan_multiplier unit_text =
    (if unit_text = ''s'' then Inr 1000
     else if unit_text = ''m'' then Inr 60000
     else if unit_text = ''h'' then Inr 3600000
     else if unit_text = ''d'' then Inr 86400000
     else Inl (SigmaImportError ''unsupported Sigma timespan unit''))"

definition parse_timespan_millis :: "string \<Rightarrow> 64 word imported option" where
  "parse_timespan_millis value =
    (if length value < 2 then Some (Inl (SigmaImportError ''invalid Sigma timespan''))
     else case split_at value (length value - 1) of
       None \<Rightarrow> None
     | Some (number, unit_text) \<Rightarrow> Some (
         and_then (ok_or (SigmaImportError ''invalid Sigma timespan amount'')
           (case parse_u64 number of Some amount \<Rightarrow> if amount > 0 then Some amount else None | None \<Rightarrow> None)) (\<lambda>amount.
         and_then (timespan_multiplier unit_text) (\<lambda>multiplier.
         ok_or (SigmaImportError ''Sigma timespan overflows u64 milliseconds'')
           (checked_mul_u64 amount multiplier)))))"

section \<open>The importer\<close>

text \<open>The correlation document and its correlation, with the checks on them.\<close>

definition select_correlation ::
  "(string \<Rightarrow> string) \<Rightarrow> sigma_document list \<Rightarrow> (sigma_document \<times> sigma_correlation) imported" where
  "select_correlation debug_str documents =
    (if length documents < 2
     then Inl (SigmaImportError ''Sigma threshold pack requires a base detection and correlation document'')
     else case filter (\<lambda>d. doc_correlation d \<noteq> None) documents of
       [d] \<Rightarrow>
         and_then (ok_or (SigmaImportError ''internal Sigma import selection lost correlation document'')
           (doc_correlation d)) (\<lambda>correlation.
         and_then (require_value debug_str (doc_taxonomy d) ''ocsf'' ''correlation taxonomy'') (\<lambda>_.
         and_then (require_value debug_str (doc_status d) ''stable'' ''correlation status'') (\<lambda>_.
         if sc_kind correlation \<noteq> ''event_count''
         then Inl (SigmaImportError ''first Sigma threshold slice supports event_count only'')
         else if length (sc_rules correlation) \<noteq> 1
         then Inl (SigmaImportError ''first Sigma threshold slice requires exactly one referenced base rule'')
         else if sc_group_by correlation = []
         then Inl (SigmaImportError ''Sigma event_count correlation requires non-empty group-by'')
         else if sc_gte correlation = 0
         then Inl (SigmaImportError ''Sigma event_count gte threshold must be greater than zero'')
         else Inr (d, correlation))))
     | _ \<Rightarrow> Inl (SigmaImportError ''Sigma threshold pack requires exactly one correlation document''))"

text \<open>The base detection that the correlation refers to, as a filter expression.\<close>

definition selection_filter :: "(string, string) btree \<Rightarrow> (string, string) detection_expression" where
  "selection_filter selection =
    (let comparisons = map (\<lambda>(field, value).
       Comparison \<lparr>cx_field = field, cx_operator = CEq, cx_value = value\<rparr>) selection
     in case comparisons of [c] \<Rightarrow> c | _ \<Rightarrow> Boolean (BAnd comparisons))"

definition base_filter ::
  "(string \<Rightarrow> string) \<Rightarrow> sigma_document list \<Rightarrow> sigma_correlation
     \<Rightarrow> (string, string) detection_expression imported" where
  "base_filter debug_str documents correlation =
    and_then (ok_or (SigmaImportError ''first Sigma threshold slice requires one referenced base rule'')
      (case sc_rules correlation of [] \<Rightarrow> None | r # _ \<Rightarrow> Some r)) (\<lambda>referenced.
    and_then (ok_or (SigmaImportError (''Sigma correlation references unresolved base rule '' @ referenced))
      (find (\<lambda>d. doc_detection d \<noteq> None \<and> (doc_name d = Some referenced \<or> doc_id d = Some referenced))
        documents)) (\<lambda>base.
    and_then (require_value debug_str (doc_taxonomy base) ''ocsf'' ''base taxonomy'') (\<lambda>_.
    and_then (ok_or (SigmaImportError ''Sigma base detection requires logsource'') (doc_logsource base)) (\<lambda>logsource.
    and_then (require_value debug_str (ls_product logsource) ''linux'' ''logsource.product'') (\<lambda>_.
    and_then (require_value debug_str (ls_service logsource) ''sshd'' ''logsource.service'') (\<lambda>_.
    and_then (ok_or (SigmaImportError ''Sigma base detection requires detection'') (doc_detection base)) (\<lambda>detection.
    and_then (ok_or (SigmaImportError ''first Sigma slice requires condition to name one selection'')
      (btree_get (sd_selections detection) (sd_condition detection))) (\<lambda>selection.
    if selection = [] then Inl (SigmaImportError ''Sigma selection must contain at least one field'')
    else if list_ex (\<lambda>(field, _). CHR ''|'' \<in> set field) selection
    then Inl (SigmaImportError ''Sigma field modifiers are not supported by the first governed slice'')
    else Inr (selection_filter selection)))))))))"

definition positive_version :: "string \<Rightarrow> bool" where
  "positive_version v \<longleftrightarrow> (case parse_u64 v of None \<Rightarrow> False | Some n \<Rightarrow> n \<noteq> 0)"

definition parse_time_basis :: "string option \<Rightarrow> threshold_time_basis imported" where
  "parse_time_basis basis =
    (case basis of None \<Rightarrow> Inl (SigmaImportError ''missing cerbero_time_basis'')
     | Some b \<Rightarrow> if b = ''EVENT_TIME'' then Inr EventTime
                else Inl (SigmaImportError ''first Sigma threshold slice supports EVENT_TIME only''))"

definition parse_late_event_policy :: "string option \<Rightarrow> threshold_late_event_policy imported" where
  "parse_late_event_policy policy =
    (case policy of None \<Rightarrow> Inl (SigmaImportError ''missing cerbero_late_event_policy'')
     | Some p \<Rightarrow> if p = ''ACCEPT'' then Inr Accept
                else Inl (SigmaImportError
                  ''first Sigma threshold slice supports ACCEPT late-event policy only''))"

definition parse_sigma_threshold_rule ::
  "(string \<Rightarrow> string) \<Rightarrow> (string \<Rightarrow> sigma_document list imported) \<Rightarrow> (string \<Rightarrow> string) \<Rightarrow> string
     \<Rightarrow> imported_sigma_threshold_rule imported option" where
  "parse_sigma_threshold_rule debug_str parse_documents digest source =
    (case
      and_then (parse_documents source) (\<lambda>documents.
      and_then (select_correlation debug_str documents) (\<lambda>(d, correlation).
      and_then (base_filter debug_str documents correlation) (\<lambda>filter.
      and_then (ok_or (SigmaImportError ''missing cerbero_rule_id'') (doc_cerbero_rule_id d)) (\<lambda>rule_id_text.
      and_then (map_err (\<lambda>e. SigmaImportError (''invalid cerbero_rule_id: '' @ display_rule_contract_error e))
        (rule_id_from_str rule_id_text)) (\<lambda>rule_id.
      and_then (ok_or (SigmaImportError ''missing cerbero_rule_version'') (doc_cerbero_rule_version d)) (\<lambda>rule_version.
      if \<not> positive_version rule_version
      then Inl (SigmaImportError ''cerbero_rule_version must be a positive integer string'')
      else and_then (parse_time_basis (doc_cerbero_time_basis d)) (\<lambda>time_basis.
      and_then (ok_or (SigmaImportError ''missing cerbero_time_field'')
        (case doc_cerbero_time_field d of Some f \<Rightarrow> if f = '''' then None else Some f | None \<Rightarrow> None)) (\<lambda>time_field.
      and_then (parse_late_event_policy (doc_cerbero_late_event_policy d)) (\<lambda>late_event_policy.
      and_then (ok_or (SigmaImportError ''missing Sigma level'') (doc_level d)) (\<lambda>level.
      Inr (sc_timespan correlation, \<lambda>duration_millis.
       \<lparr>im_rule_id = rule_id, im_rule_version = rule_version, im_status = Stable, im_title = doc_title d,
        im_severity = map to_ascii_uppercase level,
        im_content_hash = sha256_lower_hex digest source,
        im_threshold_rule =
         \<lparr>tr_filter = filter, tr_group_by = sc_group_by correlation, tr_aggregation = Count,
          tr_threshold = sc_gte correlation,
          tr_window = \<lparr>tw_duration_millis = duration_millis, tw_time_basis = time_basis,
            tw_time_field = time_field, tw_late_event_policy = late_event_policy\<rparr>\<rparr>\<rparr>)))))))))))
     of Inl e \<Rightarrow> Some (Inl e)
      | Inr (timespan, build) \<Rightarrow>
          (case parse_timespan_millis timespan of
             None \<Rightarrow> None
           | Some r \<Rightarrow> Some (and_then r (\<lambda>duration. Inr (build duration)))))"

section \<open>Facts\<close>

lemma timespan_multiplier_ok: "timespan_multiplier u = Inr k \<Longrightarrow> 1000 \<le> unat k \<and> unat k \<le> 86400000"
  by (auto simp: timespan_multiplier_def split: if_splits)

lemma parse_timespan_ok:
  assumes "parse_timespan_millis s = Some (Inr w)"
  shows "\<exists>n k. parse_u64 (butlast s) = Some n \<and> n \<noteq> 0 \<and> timespan_multiplier [last s] = Inr k
    \<and> unat w = unat n * unat k" and "w \<noteq> 0"
proof -
  have len: "2 \<le> length s" using assms by (auto simp: parse_timespan_millis_def split: if_splits)
  then have split: "take (length s - 1) s = butlast s" "drop (length s - 1) s = [last s]"
    by (cases s rule: rev_cases; simp)+
  show ex: "\<exists>n k. parse_u64 (butlast s) = Some n \<and> n \<noteq> 0 \<and> timespan_multiplier [last s] = Inr k
    \<and> unat w = unat n * unat k"
    using assms len split by (auto simp: parse_timespan_millis_def split_at_def result_simps
        checked_mul_u64_eq_Some split: option.splits if_splits)
  then obtain n :: "64 word" and k where "n \<noteq> 0" "timespan_multiplier [last s] = Inr k" "unat w = unat n * unat k" by blast
  then have "unat w \<noteq> 0" using timespan_multiplier_ok [of "[last s]" k] by (auto simp: unat_gt_0)
  then show "w \<noteq> 0" by auto
qed

lemma base_filter_structure:
  assumes "base_filter debug_str docs corr = Inr e"
  shows "empty_nodes e = []" and "\<forall>l\<in>set (leaves e). \<exists>f v. l = CompareLeaf f CEq v \<and> CHR ''|'' \<notin> set f"
proof -
  obtain sel where "sel \<noteq> []" "\<forall>x\<in>set sel. CHR ''|'' \<notin> set (fst x)" "e = selection_filter sel"
    using assms by (fastforce simp: base_filter_def result_simps list_ex_iff)

  then show "empty_nodes e = []"
    and "\<forall>l\<in>set (leaves e). \<exists>f v. l = CompareLeaf f CEq v \<and> CHR ''|'' \<notin> set f"
    by (cases sel rule: remdups_adj.cases; force simp: selection_filter_def case_prod_beta)+
qed

definition unit_millis :: "char \<Rightarrow> nat option" where
  "unit_millis c =
    (if c = CHR ''s'' then Some 1000 else if c = CHR ''m'' then Some 60000
     else if c = CHR ''h'' then Some 3600000 else if c = CHR ''d'' then Some 86400000 else None)"

lemma timespan_multiplier_unit:
  "unit_millis c = Some k \<Longrightarrow> timespan_multiplier [c] = Inr (of_nat k) \<and> k < 2 ^ 64 \<and> byte c < 128"
  by (auto simp: unit_millis_def timespan_multiplier_def byte_def split: if_splits)

lemma split_at_snoc: "byte c < 128 \<Longrightarrow> s \<noteq> [] \<Longrightarrow> split_at (s @ [c]) (length s) = Some (s, [c])"
  by (simp add: split_at_def is_char_boundary_def nth_append)

text \<open>Parse_timespan_millis decides every decimal amount with a unit s, m, h or d: zero is refused,
  a product that does not fit u64 is refused as an overflow, and otherwise the window is the exact
  product.\<close>

theorem parse_timespan_decimal:
  assumes "unit_millis c = Some k" and "n < 2 ^ 64"
  shows "parse_timespan_millis (show_nat n @ [c]) = Some
    (if n = 0 then Inl (SigmaImportError ''invalid Sigma timespan amount'')
     else if n * k < 2 ^ 64 then Inr (of_nat (n * k))
     else Inl (SigmaImportError ''Sigma timespan overflows u64 milliseconds''))"
proof -
  note unit = timespan_multiplier_unit [OF assms(1)]
  have split: "split_at (show_nat n @ [c]) (length (show_nat n @ [c]) - 1) = Some (show_nat n, [c])"
    using split_at_snoc [of c "show_nat n"] unit by (simp add: show_nat_nonempty)
  have len: "\<not> length (show_nat n @ [c]) < 2" using show_nat_nonempty [of n] by (cases "show_nat n") auto
  have small: "unat (of_nat n :: 64 word) = n" "unat (of_nat k :: 64 word) = k"
    using assms(2) unit by (simp_all add: unat_of_nat take_bit_nat_eq_self)
  have pos: "(0 :: 64 word) < of_nat n \<longleftrightarrow> n \<noteq> 0" using small(1) by (simp add: word_less_nat_alt)
  show ?thesis
    using unit len unfolding parse_timespan_millis_def split
    by (simp add: parse_u64_show_nat [OF assms(2)] pos small checked_mul_u64_def result_simps)
qed

theorem parse_timespan_decimal_witness:
  "parse_timespan_millis (show_nat 5 @ ''m'') = Some (Inr 300000)"
  using parse_timespan_decimal [of "CHR ''m''" 60000 5] by (simp add: unit_millis_def)

text \<open>C30: the importer splits a timespan one byte before its end, so a timespan that ends in a character
  of more than one byte panics instead of being reported as an import error.\<close>

theorem parse_timespan_multibyte_panics:
  assumes "2 \<le> length s" and "128 \<le> byte (last s)" and "byte (last s) < 192"
  shows "parse_timespan_millis s = None"
proof -
  have "s \<noteq> []" using assms(1) by auto
  then have "s ! (length s - 1) = last s" by (simp add: last_conv_nth)
  then show ?thesis
    using assms by (auto simp: parse_timespan_millis_def split_at_def is_char_boundary_def)
qed

theorem parse_timespan_multibyte_panics_witness:
  "parse_timespan_millis (''5'' @ [CHR 0xC3, CHR 0xA9]) = None"
  using parse_timespan_multibyte_panics [of "''5'' @ [CHR 0xC3, CHR 0xA9]"] by (simp add: byte_def)

section \<open>What an imported rule satisfies\<close>

lemma parse_time_basis_ok [result_simps]: "parse_time_basis b = Inr t \<longleftrightarrow> b = Some ''EVENT_TIME'' \<and> t = EventTime"
  by (auto simp: parse_time_basis_def split: option.splits)

lemma parse_late_event_policy_ok [result_simps]:
  "parse_late_event_policy p = Inr t \<longleftrightarrow> p = Some ''ACCEPT'' \<and> t = Accept"
  by (auto simp: parse_late_event_policy_def split: option.splits)

lemma select_correlation_ok:
  "select_correlation debug_str documents = Inr (d, c) \<Longrightarrow>
     sc_group_by c \<noteq> [] \<and> sc_gte c \<noteq> 0 \<and> d \<in> set documents \<and> doc_correlation d = Some c"
proof -
  assume *: "select_correlation debug_str documents = Inr (d, c)"
  then have "filter (\<lambda>d. doc_correlation d \<noteq> None) documents = [d]"
    by (auto simp: select_correlation_def result_simps split: list.splits if_splits)
  then have "d \<in> set documents" by (metis filter_is_subset in_mono list.set_intros(1))
  with * show ?thesis
    by (auto simp: select_correlation_def result_simps split: list.splits if_splits)
qed

lemma parse_sigma_ok:
  assumes "parse_sigma_threshold_rule debug_str parse_documents digest source = Some (Inr r)"
  obtains documents d correlation filter duration time_field where
    "parse_documents source = Inr documents"
    "select_correlation debug_str documents = Inr (d, correlation)"
    "base_filter debug_str documents correlation = Inr filter"
    "detection_rule_id (as_str (im_rule_id r))" "positive_version (im_rule_version r)"
    "parse_timespan_millis (sc_timespan correlation) = Some (Inr duration)"
    "time_field \<noteq> ''''" "im_status r = Stable" "im_content_hash r = sha256_lower_hex digest source"
    "im_threshold_rule r = \<lparr>tr_filter = filter, tr_group_by = sc_group_by correlation,
       tr_aggregation = Count, tr_threshold = sc_gte correlation,
       tr_window = \<lparr>tw_duration_millis = duration, tw_time_basis = EventTime,
         tw_time_field = time_field, tw_late_event_policy = Accept\<rparr>\<rparr>"
  using assms unfolding parse_sigma_threshold_rule_def
  by (auto simp: result_simps split: sum.splits option.splits if_splits prod.splits)

text \<open>A rule that the Sigma importer accepts is governed: its identity has the form of a detection
  rule id, its version is a positive number, it is STABLE, its content hash is the SHA-256 of the
  imported text, and its threshold rule passes the guards of the threshold compiler (grouping,
  threshold and window are not empty, late events are accepted) over a filter whose leaves are
  equalities on fields without modifiers.\<close>

theorem imported_rule_governed:
  assumes "parse_sigma_threshold_rule debug_str parse_documents digest source = Some (Inr r)"
  defines "rule \<equiv> im_threshold_rule r"
  shows "detection_rule_id (as_str (im_rule_id r)) \<and> positive_version (im_rule_version r)
    \<and> im_status r = Stable \<and> im_content_hash r = sha256_lower_hex digest source
    \<and> tr_group_by rule \<noteq> [] \<and> tr_threshold rule \<noteq> 0 \<and> tw_duration_millis (tr_window rule) \<noteq> 0
    \<and> tw_time_basis (tr_window rule) = EventTime \<and> tw_late_event_policy (tr_window rule) = Accept
    \<and> empty_nodes (tr_filter rule) = []
    \<and> (\<forall>l\<in>set (leaves (tr_filter rule)). \<exists>f v. l = CompareLeaf f CEq v \<and> CHR ''|'' \<notin> set f)"
  using assms(1)
proof (rule parse_sigma_ok)
  fix documents d c f w t
  assume s: "select_correlation debug_str documents = Inr (d, c)" "base_filter debug_str documents c = Inr f"
    "parse_timespan_millis (sc_timespan c) = Some (Inr w)"
    "im_threshold_rule r = \<lparr>tr_filter = f, tr_group_by = sc_group_by c,
       tr_aggregation = Count, tr_threshold = sc_gte c,
       tr_window = \<lparr>tw_duration_millis = w, tw_time_basis = EventTime,
         tw_time_field = t, tw_late_event_policy = Accept\<rparr>\<rparr>"
    and "detection_rule_id (as_str (im_rule_id r))" "positive_version (im_rule_version r)"
      "im_status r = Stable" "im_content_hash r = sha256_lower_hex digest source"
  then show ?thesis
    using select_correlation_ok [OF s(1)] base_filter_structure [OF s(2)] parse_timespan_ok(2) [OF s(3)]
    by (simp add: rule_def)
qed

text \<open>The rule pack \<open>rules/sigma/linux_sshd_failed_login_burst.yml\<close> as documents.\<close>

definition sample_base_document :: sigma_document where
  "sample_base_document =
    \<lparr>doc_title = ''CERBERO Linux SSH Failed Login'', doc_id = Some ''3f954d8c-9af7-4dcc-bacd-6bdfd2ad6b4b'',
     doc_name = Some ''cerbero_linux_sshd_failed_login'', doc_taxonomy = Some ''ocsf'', doc_status = None,
     doc_logsource = Some \<lparr>ls_product = Some ''linux'', ls_service = Some ''sshd''\<rparr>,
     doc_detection = Some \<lparr>sd_condition = ''selection'',
       sd_selections = [(''selection'', [(''activity_name'', ''Logon''), (''status'', ''Failure'')])]\<rparr>,
     doc_correlation = None, doc_level = None, doc_cerbero_rule_id = None, doc_cerbero_rule_version = None,
     doc_cerbero_time_basis = None, doc_cerbero_time_field = None, doc_cerbero_late_event_policy = None\<rparr>"

definition sample_correlation_document :: sigma_document where
  "sample_correlation_document =
    \<lparr>doc_title = ''CERBERO Linux SSH Authentication Burst'',
     doc_id = Some ''b6354e60-2047-4e3a-9bb3-a6531265a2fb'', doc_name = None, doc_taxonomy = Some ''ocsf'',
     doc_status = Some ''stable'', doc_logsource = None, doc_detection = None,
     doc_correlation = Some \<lparr>sc_kind = ''event_count'', sc_rules = [''cerbero_linux_sshd_failed_login''],
       sc_group_by = [''user.name'', ''src_endpoint.ip''], sc_timespan = ''5m'', sc_gte = 10\<rparr>,
     doc_level = Some ''high'', doc_cerbero_rule_id = Some ''CER-DET-000001'',
     doc_cerbero_rule_version = Some ''1'', doc_cerbero_time_basis = Some ''EVENT_TIME'',
     doc_cerbero_time_field = Some ''time'', doc_cerbero_late_event_policy = Some ''ACCEPT''\<rparr>"

definition sample_pack :: "string \<Rightarrow> sigma_document list imported" where
  "sample_pack source = Inr [sample_base_document, sample_correlation_document]"

definition sample_imported :: "(string \<Rightarrow> string) \<Rightarrow> string \<Rightarrow> imported_sigma_threshold_rule" where
  "sample_imported digest source =
    \<lparr>im_rule_id = RuleId ''CER-DET-000001'', im_rule_version = ''1'', im_status = Stable,
     im_title = ''CERBERO Linux SSH Authentication Burst'', im_severity = ''HIGH'',
     im_content_hash = sha256_lower_hex digest source,
     im_threshold_rule =
      \<lparr>tr_filter = Boolean (BAnd
         [Comparison \<lparr>cx_field = ''activity_name'', cx_operator = CEq, cx_value = ''Logon''\<rparr>,
          Comparison \<lparr>cx_field = ''status'', cx_operator = CEq, cx_value = ''Failure''\<rparr>]),
       tr_group_by = [''user.name'', ''src_endpoint.ip''], tr_aggregation = Count, tr_threshold = 10,
       tr_window = \<lparr>tw_duration_millis = 300000, tw_time_basis = EventTime, tw_time_field = ''time'',
         tw_late_event_policy = Accept\<rparr>\<rparr>\<rparr>"

lemma sample_pack_imported:
  "parse_sigma_threshold_rule debug_str sample_pack digest source = Some (Inr (sample_imported digest source))"
proof -
  have sel: "select_correlation debug_str [sample_base_document, sample_correlation_document] = Inr
      (sample_correlation_document, the (doc_correlation sample_correlation_document))"
    by (simp add: select_correlation_def sample_base_document_def sample_correlation_document_def
        require_value_def)
  have base: "base_filter debug_str [sample_base_document, sample_correlation_document]
      (the (doc_correlation sample_correlation_document))
      = Inr (tr_filter (im_threshold_rule (sample_imported digest source)))"
    by (simp add: base_filter_def sample_base_document_def sample_correlation_document_def
        require_value_def sample_imported_def selection_filter_def Let_def btree_get_def)
  have "parse_timespan_millis ''5m'' = Some (Inr 300000)"
    by (simp add: parse_timespan_millis_def split_at_def is_char_boundary_def byte_class_defs
        parse_u64_def timespan_multiplier_def checked_mul_u64_def result_simps)
  moreover have "positive_version ''1''"
    by (simp add: positive_version_def parse_u64_def byte_class_defs)
  moreover have "rule_id_from_str ''CER-DET-000001'' = Inr (RuleId ''CER-DET-000001'')"
    by (simp add: rule_id_from_str_def RULE_ID_PREFIX_def RULE_ID_DIGITS_def byte_class_defs)
  moreover have "map to_ascii_uppercase ''high'' = ''HIGH''"
    by (simp add: to_ascii_uppercase_def byte_class_defs) code_simp
  moreover note sel base
  ultimately show ?thesis

    unfolding parse_sigma_threshold_rule_def
    by (simp add: sample_pack_def sample_correlation_document_def parse_time_basis_def
        parse_late_event_policy_def sample_imported_def)
qed

theorem imported_rule_governed_witness:
  "positive_version (im_rule_version (sample_imported (\<lambda>_. replicate 32 (CHR 0x00)) ''pack''))"
  using imported_rule_governed [OF sample_pack_imported] by blast

end
