(* ===== verification/Finding_Contract.thy ===== *)
theory Finding_Contract
  imports Signal_Contract
begin

text \<open>
  The canonical Finding v1 and its validator
  (\<open>cerbero-common/src/contracts/finding_validation.rs\<close>): the predicate \<open>wf_finding\<close> and the proof
  that \<open>validate_finding\<close> decides it. The helpers \<open>require_text\<close> and \<open>timestamp_le\<close> are the same
  code as in the Signal validator and are taken from there.
\<close>

section \<open>Data\<close>

record finding_input =
  fi_finding_id :: string
  fi_input_type :: string
  fi_input_id :: string
  fi_relation :: string

record finding_correlation_provenance =
  cp_correlation_rule_id :: string
  cp_correlation_rule_version :: string
  cp_window_start :: "timestamp option"
  cp_window_end :: "timestamp option"
  cp_input_ids :: "string list"
  cp_output_finding_id :: string
  cp_execution_backend :: int
  cp_execution_mode :: int
  cp_configuration_hash :: string

record finding =
  fd_finding_id :: string
  fd_tenant_id :: string
  fd_finding_type :: int
  fd_status :: int
  fd_severity :: string
  fd_confidence :: "string option"
  fd_title :: string
  fd_description :: string
  fd_first_seen :: "timestamp option"
  fd_last_seen :: "timestamp option"
  fd_created_at :: "timestamp option"
  fd_updated_at :: "timestamp option"
  fd_primary_rule_id :: "string option"
  fd_primary_rule_version :: "string option"
  fd_correlation_rule_id :: "string option"
  fd_correlation_rule_version :: "string option"
  fd_disposition :: int
  fd_metadata :: "(string \<times> pvalue) list option"
  fd_execution_mode :: int
  fd_inputs :: "finding_input list"
  fd_correlation_provenance :: "finding_correlation_provenance option"

definition FINDING_TYPE_DETECTION :: int where "FINDING_TYPE_DETECTION = 1"
definition FINDING_TYPE_THRESHOLD :: int where "FINDING_TYPE_THRESHOLD = 2"
definition FINDING_TYPE_CORRELATION :: int where "FINDING_TYPE_CORRELATION = 3"
definition FINDING_TYPE_ANALYTICAL :: int where "FINDING_TYPE_ANALYTICAL = 4"

lemmas finding_constants = FINDING_TYPE_DETECTION_def FINDING_TYPE_THRESHOLD_def
  FINDING_TYPE_CORRELATION_def FINDING_TYPE_ANALYTICAL_def

section \<open>The validator\<close>

definition validate_optional_pair ::
  "string \<Rightarrow> string option \<Rightarrow> string \<Rightarrow> string option \<Rightarrow> checked" where
  "validate_optional_pair first_field fst_value second_field snd_value =
    (case (fst_value, snd_value) of
       (None, None) \<Rightarrow> Inr ()
     | (Some a, Some b) \<Rightarrow> and_then (require_text first_field a) (\<lambda>_. require_text second_field b)
     | _ \<Rightarrow> Inl (violation first_field
         (first_field @ '' and '' @ second_field @ '' must both be present or both be absent'')))"

definition validate_seen_pair :: "finding \<Rightarrow> checked" where
  "validate_seen_pair f =
    (case (fd_first_seen f, fd_last_seen f) of
       (None, None) \<Rightarrow> Inr ()
     | (Some a, Some b) \<Rightarrow>
         and_then (validate_timestamp ''first_seen'' a) (\<lambda>_.
         and_then (validate_timestamp ''last_seen'' b) (\<lambda>_.
         if \<not> timestamp_le a b
         then Inl (violation ''first_seen'' ''must be less than or equal to last_seen'')
         else Inr ()))
     | _ \<Rightarrow> Inl (violation ''first_seen''
         ''first_seen and last_seen must both be present or both be absent''))"

definition validate_required_times :: "finding \<Rightarrow> checked" where
  "validate_required_times f =
    and_then (ok_or (violation ''created_at'' ''is required'') (fd_created_at f)) (\<lambda>created_at.
    and_then (validate_timestamp ''created_at'' created_at) (\<lambda>_.
    and_then (ok_or (violation ''updated_at'' ''is required'') (fd_updated_at f)) (\<lambda>updated_at.
    validate_timestamp ''updated_at'' updated_at)))"

definition validate_finding_input :: "string \<Rightarrow> finding_input \<Rightarrow> checked" where
  "validate_finding_input finding_id input =
    (if fi_finding_id input \<noteq> finding_id
     then Inl (violation ''inputs.finding_id'' ''must equal the containing Finding.finding_id'')
     else and_then (require_text ''inputs.input_type'' (fi_input_type input)) (\<lambda>_.
     and_then (validate_uuid_v7 ''inputs.input_id'' (fi_input_id input)) (\<lambda>_.
     require_text ''inputs.relation'' (fi_relation input))))"

definition relation_key :: "finding_input \<Rightarrow> string \<times> string \<times> string" where
  "relation_key x = (fi_input_type x, fi_input_id x, fi_relation x)"

fun finding_input_step ::
  "string \<Rightarrow> (string \<times> string \<times> string) set \<times> string set \<Rightarrow> finding_input
     \<Rightarrow> ((string \<times> string \<times> string) set \<times> string set, contract_violation) result" where
  "finding_input_step finding_id (exact_relations, input_ids) input =
    and_then (validate_finding_input finding_id input) (\<lambda>_.
    if relation_key input \<in> exact_relations
    then Inl (violation ''inputs'' ''must not contain duplicate input_type/input_id/relation entries'')
    else Inr (insert (relation_key input) exact_relations, insert (fi_input_id input) input_ids))"

definition validate_inputs :: "finding \<Rightarrow> (string set, contract_violation) result" where
  "validate_inputs f =
    (if fd_inputs f = []
     then Inl (violation ''inputs'' ''must preserve at least one contributing object'')
     else and_then (try_fold (finding_input_step (fd_finding_id f)) ({}, {}) (fd_inputs f))
       (\<lambda>(_, input_ids). Inr input_ids))"

definition provenance_id_step ::
  "string set \<Rightarrow> string set \<Rightarrow> string \<Rightarrow> (string set, contract_violation) result" where
  "provenance_id_step finding_input_ids provenance_ids input_id =
    and_then (validate_uuid_v7 ''correlation_provenance.input_ids'' input_id) (\<lambda>_.
    if input_id \<in> provenance_ids
    then Inl (violation ''correlation_provenance.input_ids''
           ''must not contain duplicate object identities'')
    else if input_id \<notin> finding_input_ids
    then Inl (violation ''correlation_provenance.input_ids''
           ''every correlation input_id must be backed by Finding.inputs'')
    else Inr (insert input_id provenance_ids))"

definition validate_correlation_provenance ::
  "finding \<Rightarrow> finding_correlation_provenance \<Rightarrow> string set \<Rightarrow> checked" where
  "validate_correlation_provenance f p finding_input_ids =
    and_then (ok_or (violation ''correlation_rule_id'' ''is required for CORRELATION Findings'')
      (fd_correlation_rule_id f)) (\<lambda>correlation_rule_id.
    and_then (ok_or (violation ''correlation_rule_version'' ''is required for CORRELATION Findings'')
      (fd_correlation_rule_version f)) (\<lambda>correlation_rule_version.
    if cp_correlation_rule_id p \<noteq> correlation_rule_id
    then Inl (violation ''correlation_provenance.correlation_rule_id''
           ''must equal Finding.correlation_rule_id'')
    else if cp_correlation_rule_version p \<noteq> correlation_rule_version
    then Inl (violation ''correlation_provenance.correlation_rule_version''
           ''must equal Finding.correlation_rule_version'')
    else
    and_then (ok_or (violation ''correlation_provenance.window_start'' ''is required'')
      (cp_window_start p)) (\<lambda>window_start.
    and_then (ok_or (violation ''correlation_provenance.window_end'' ''is required'')
      (cp_window_end p)) (\<lambda>window_end.
    and_then (validate_timestamp ''correlation_provenance.window_start'' window_start) (\<lambda>_.
    and_then (validate_timestamp ''correlation_provenance.window_end'' window_end) (\<lambda>_.
    if \<not> timestamp_le window_start window_end
    then Inl (violation ''correlation_provenance.window_start''
           ''must be less than or equal to window_end'')
    else if cp_input_ids p = []
    then Inl (violation ''correlation_provenance.input_ids''
           ''must preserve at least one contributing object identity'')
    else
    and_then (try_fold (provenance_id_step finding_input_ids) {} (cp_input_ids p)) (\<lambda>_.
    if cp_output_finding_id p \<noteq> fd_finding_id f
    then Inl (violation ''correlation_provenance.output_finding_id'' ''must equal Finding.finding_id'')
    else if \<not> (1 \<le> cp_execution_backend p \<and> cp_execution_backend p \<le> 2)
    then Inl (violation ''correlation_provenance.execution_backend'' ''must be CLICKHOUSE or STREAM'')
    else if cp_execution_mode p \<noteq> fd_execution_mode f
    then Inl (violation ''correlation_provenance.execution_mode'' ''must equal Finding.execution_mode'')
    else require_text ''correlation_provenance.configuration_hash'' (cp_configuration_hash p))))))))"

definition validate_type_specific_provenance :: "finding \<Rightarrow> string set \<Rightarrow> checked" where
  "validate_type_specific_provenance f finding_input_ids =
    (if fd_finding_type f = FINDING_TYPE_DETECTION \<or> fd_finding_type f = FINDING_TYPE_THRESHOLD then
       (if fd_primary_rule_id f = None \<or> fd_primary_rule_version f = None
        then Inl (violation ''primary_rule_id''
               ''DETECTION and THRESHOLD Findings require primary rule identity/version'')
        else if fd_correlation_provenance f \<noteq> None
        then Inl (violation ''correlation_provenance'' ''is only valid for CORRELATION Findings'')
        else Inr ())
     else if fd_finding_type f = FINDING_TYPE_CORRELATION then
       and_then (ok_or (violation ''correlation_provenance'' ''is required for CORRELATION Findings'')
         (fd_correlation_provenance f)) (\<lambda>provenance.
       validate_correlation_provenance f provenance finding_input_ids)
     else if fd_finding_type f = FINDING_TYPE_ANALYTICAL then
       (if fd_correlation_provenance f \<noteq> None
        then Inl (violation ''correlation_provenance'' ''is only valid for CORRELATION Findings'')
        else Inr ())
     else Inl (unreachable_panic ''finding_type was validated above''))"

definition validate_finding :: "finding \<Rightarrow> checked" where
  "validate_finding f =
    and_then (validate_uuid_v7 ''finding_id'' (fd_finding_id f)) (\<lambda>_.
    and_then (validate_uuid_v7 ''tenant_id'' (fd_tenant_id f)) (\<lambda>_.
    if \<not> (1 \<le> fd_finding_type f \<and> fd_finding_type f \<le> 4)
    then Inl (violation ''finding_type'' ''must be DETECTION, THRESHOLD, CORRELATION, or ANALYTICAL'')
    else if \<not> (1 \<le> fd_status f \<and> fd_status f \<le> 5)
    then Inl (violation ''status'' ''must be OPEN, ACKNOWLEDGED, SUPPRESSED, RESOLVED, or INVALIDATED'')
    else
    and_then (require_text ''severity'' (fd_severity f)) (\<lambda>_.
    and_then (case fd_confidence f of None \<Rightarrow> Inr ()
              | Some confidence \<Rightarrow> require_text ''confidence'' confidence) (\<lambda>_.
    and_then (require_text ''title'' (fd_title f)) (\<lambda>_.
    and_then (require_text ''description'' (fd_description f)) (\<lambda>_.
    and_then (validate_seen_pair f) (\<lambda>_.
    and_then (validate_required_times f) (\<lambda>_.
    and_then (validate_optional_pair ''primary_rule_id'' (fd_primary_rule_id f)
                ''primary_rule_version'' (fd_primary_rule_version f)) (\<lambda>_.
    and_then (validate_optional_pair ''correlation_rule_id'' (fd_correlation_rule_id f)
                ''correlation_rule_version'' (fd_correlation_rule_version f)) (\<lambda>_.
    if \<not> (1 \<le> fd_disposition f \<and> fd_disposition f \<le> 6)
    then Inl (violation ''disposition''
      ''must be UNDETERMINED, TRUE_POSITIVE, BENIGN_TRUE_POSITIVE, FALSE_POSITIVE, DUPLICATE, or TEST_ACTIVITY'')
    else if \<not> (1 \<le> fd_execution_mode f \<and> fd_execution_mode f \<le> 3)
    then Inl (violation ''execution_mode'' ''must distinguish LIVE, REPLAY, or TEST'')
    else
    and_then (validate_inputs f) (\<lambda>finding_input_ids.
    validate_type_specific_provenance f finding_input_ids)))))))))))"

section \<open>Well-formed findings\<close>

definition wf_text_pair :: "string option \<Rightarrow> string option \<Rightarrow> bool" where
  "wf_text_pair a b \<longleftrightarrow> (case (a, b) of (None, None) \<Rightarrow> True
     | (Some x, Some y) \<Rightarrow> has_text x \<and> has_text y | _ \<Rightarrow> False)"

definition wf_finding_inputs :: "string \<Rightarrow> finding_input list \<Rightarrow> bool" where
  "wf_finding_inputs fid xs \<longleftrightarrow> xs \<noteq> [] \<and> distinct (map relation_key xs)
     \<and> (\<forall>x\<in>set xs. fi_finding_id x = fid \<and> has_text (fi_input_type x) \<and> uuid_v7 (fi_input_id x)
          \<and> has_text (fi_relation x))"

definition wf_correlation_provenance :: "finding \<Rightarrow> finding_correlation_provenance \<Rightarrow> bool" where
  "wf_correlation_provenance f p \<longleftrightarrow>
     fd_correlation_rule_id f = Some (cp_correlation_rule_id p)
     \<and> fd_correlation_rule_version f = Some (cp_correlation_rule_version p)
     \<and> (\<exists>a b. cp_window_start p = Some a \<and> cp_window_end p = Some b
          \<and> valid_timestamp a \<and> valid_timestamp b \<and> timestamp_le a b)
     \<and> cp_input_ids p \<noteq> [] \<and> distinct (cp_input_ids p)
     \<and> (\<forall>i\<in>set (cp_input_ids p). uuid_v7 i)
     \<and> set (cp_input_ids p) \<subseteq> fi_input_id ` set (fd_inputs f)
     \<and> cp_output_finding_id p = fd_finding_id f
     \<and> cp_execution_backend p \<in> {1..2} \<and> cp_execution_mode p = fd_execution_mode f
     \<and> has_text (cp_configuration_hash p)"

definition wf_type_provenance :: "finding \<Rightarrow> bool" where
  "wf_type_provenance f \<longleftrightarrow>
     (if fd_finding_type f = 3
      then (\<exists>p. fd_correlation_provenance f = Some p \<and> wf_correlation_provenance f p)
      else fd_correlation_provenance f = None)
     \<and> (fd_finding_type f \<in> {1, 2} \<longrightarrow> fd_primary_rule_id f \<noteq> None \<and> fd_primary_rule_version f \<noteq> None)"

definition wf_finding :: "finding \<Rightarrow> bool" where
  "wf_finding f \<longleftrightarrow> uuid_v7 (fd_finding_id f) \<and> uuid_v7 (fd_tenant_id f)
     \<and> fd_finding_type f \<in> {1..4} \<and> fd_status f \<in> {1..5} \<and> has_text (fd_severity f)
     \<and> (\<forall>c. fd_confidence f = Some c \<longrightarrow> has_text c) \<and> has_text (fd_title f) \<and> has_text (fd_description f)
     \<and> wf_observed_pair (fd_first_seen f) (fd_last_seen f)
     \<and> (\<exists>t. fd_created_at f = Some t \<and> valid_timestamp t)
     \<and> (\<exists>t. fd_updated_at f = Some t \<and> valid_timestamp t)
     \<and> wf_text_pair (fd_primary_rule_id f) (fd_primary_rule_version f)
     \<and> wf_text_pair (fd_correlation_rule_id f) (fd_correlation_rule_version f)
     \<and> fd_disposition f \<in> {1..6} \<and> fd_execution_mode f \<in> {1..3}
     \<and> wf_finding_inputs (fd_finding_id f) (fd_inputs f) \<and> wf_type_provenance f"

section \<open>The validator decides well-formedness\<close>

lemma validate_optional_pair_ok [result_simps]:
  "validate_optional_pair ff a sf b = Inr u \<longleftrightarrow> wf_text_pair a b"
  by (auto simp: validate_optional_pair_def wf_text_pair_def result_simps split: option.splits)

lemma validate_seen_pair_ok [result_simps]:
  "validate_seen_pair f = Inr u \<longleftrightarrow> wf_observed_pair (fd_first_seen f) (fd_last_seen f)"
  by (auto simp: validate_seen_pair_def wf_observed_pair_def result_simps split: option.splits)

lemma validate_required_times_ok [result_simps]:
  "validate_required_times f = Inr u \<longleftrightarrow> (\<exists>t. fd_created_at f = Some t \<and> valid_timestamp t)
     \<and> (\<exists>t. fd_updated_at f = Some t \<and> valid_timestamp t)"
  by (auto simp: validate_required_times_def result_simps)

lemma validate_finding_input_ok [result_simps]:
  "validate_finding_input fid x = Inr u \<longleftrightarrow> fi_finding_id x = fid \<and> has_text (fi_input_type x)
     \<and> uuid_v7 (fi_input_id x) \<and> has_text (fi_relation x)"
  by (auto simp: validate_finding_input_def result_simps)

lemma finding_input_loop:
  "try_fold (finding_input_step fid) (seen, ids) xs = Inr (seen', ids') \<longleftrightarrow>
     (\<forall>x\<in>set xs. fi_finding_id x = fid \<and> has_text (fi_input_type x) \<and> uuid_v7 (fi_input_id x)
          \<and> has_text (fi_relation x))
   \<and> distinct (map relation_key xs) \<and> seen \<inter> relation_key ` set xs = {}
   \<and> seen' = seen \<union> relation_key ` set xs \<and> ids' = ids \<union> fi_input_id ` set xs"
  by (induction xs arbitrary: seen ids) (auto simp: result_simps)

lemma validate_inputs_ok [result_simps]:
  "validate_inputs f = Inr ids \<longleftrightarrow>
     wf_finding_inputs (fd_finding_id f) (fd_inputs f) \<and> ids = fi_input_id ` set (fd_inputs f)"
  by (auto simp: validate_inputs_def wf_finding_inputs_def result_simps finding_input_loop)

lemma provenance_id_loop:
  "try_fold (provenance_id_step known) seen xs = Inr seen' \<longleftrightarrow>
     (\<forall>x\<in>set xs. uuid_v7 x) \<and> set xs \<subseteq> known \<and> distinct xs \<and> seen \<inter> set xs = {}
     \<and> seen' = seen \<union> set xs"
  by (induction xs arbitrary: seen) (auto simp: result_simps provenance_id_step_def)

lemma validate_correlation_provenance_ok:
  "validate_correlation_provenance f p (fi_input_id ` set (fd_inputs f)) = Inr u \<longleftrightarrow>
     wf_correlation_provenance f p"
  by (auto simp: validate_correlation_provenance_def wf_correlation_provenance_def result_simps
      provenance_id_loop)

lemma validate_type_specific_provenance_ok:
  assumes "fd_finding_type f \<in> {1..4}"
  shows "validate_type_specific_provenance f (fi_input_id ` set (fd_inputs f)) = Inr u \<longleftrightarrow>
    wf_type_provenance f"
proof -
  have "fd_finding_type f = 1 \<or> fd_finding_type f = 2 \<or> fd_finding_type f = 3 \<or> fd_finding_type f = 4"
    using assms by auto
  then show ?thesis
    by (auto simp: validate_type_specific_provenance_def wf_type_provenance_def finding_constants
        result_simps validate_correlation_provenance_ok)
qed

lemma type_provenance_no_panic:
  assumes "fd_finding_type f \<in> {1..4}" "fd_finding_type f \<noteq> 3"
  shows "validate_type_specific_provenance f ids \<noteq> Inl (unreachable_panic m)"
  using assms
  by (auto simp: validate_type_specific_provenance_def finding_constants unreachable_panic_def
      violation_def)

lemma validate_finding_ok [result_simps]: "validate_finding f = Inr u \<longleftrightarrow> wf_finding f"
proof -
  have conf: "(case fd_confidence f of None \<Rightarrow> Inr () | Some c \<Rightarrow> require_text ''confidence'' c) = Inr v
      \<longleftrightarrow> (\<forall>c. fd_confidence f = Some c \<longrightarrow> has_text c)" for v
    by (simp add: require_text_ok split: option.splits)
  show ?thesis
    unfolding validate_finding_def wf_finding_def
    by (simp add: result_simps conf validate_type_specific_provenance_ok cong: conj_cong)
qed

interpretation finding_contract: contract_validator validate_finding wf_finding
  by unfold_locales (rule validate_finding_ok)

end
