(* ===== verification/Correlation.thy ===== *)
theory Correlation
  imports Threshold Finding_Contract
begin

text \<open>
  SEQUENCE correlation (\<open>correlation.rs\<close> and \<open>correlation_finding_materializer.rs\<close> of
  cerbero-detection-core): compilation, the collapse of duplicate Signals, candidate collection,
  the greedy selection of one sequence per group, and the Finding materializer. \<open>has_text\<close> is the
  predicate of the Signal contract, \<open>timestamp_from_millis\<close> and \<open>contract_backend\<close> are the same code
  as in the THRESHOLD component.
\<close>

section \<open>Rules and plans\<close>

record ('st, 'jk, 'od) sequence_correlation_rule =
  sr_correlation_rule_id :: string
  sr_correlation_rule_version :: string
  sr_stages :: "'st list"
  sr_join_keys :: "'jk list"
  sr_max_window_millis :: "64 word"
  sr_ordering :: 'od
  sr_configuration_hash :: string

record ('st, 'jk, 'od) compiled_sequence_plan =
  csp_correlation_rule_id :: string
  csp_correlation_rule_version :: string
  csp_stages :: "'st list"
  csp_join_keys :: "'jk list"
  csp_max_window_millis :: "64 word"
  csp_ordering :: 'od
  csp_backend :: execution_backend
  csp_supported_backends :: execution_backend_capabilities
  csp_configuration_hash :: string

definition check_join_key :: "'jk list \<Rightarrow> nat \<times> 'jk \<Rightarrow> unit compiled" where
  "check_join_key join_keys item =
    (case item of (index, join_key) \<Rightarrow>
      if list_ex (\<lambda>previous. previous = join_key) (take index join_keys)
      then Inl InvalidMapping else Inr ())"

definition compile_sequence_correlation_plan ::
  "('st, 'jk, 'od) sequence_correlation_rule \<Rightarrow> execution_backend
     \<Rightarrow> ('st, 'jk, 'od) compiled_sequence_plan compiled" where
  "compile_sequence_correlation_plan rule backend =
    (if backend \<noteq> ClickHouse then Inl UnsupportedBackend
     else if \<not> has_text (sr_correlation_rule_id rule) \<or> \<not> has_text (sr_correlation_rule_version rule)
       \<or> \<not> has_text (sr_configuration_hash rule) \<or> sr_stages rule = [] \<or> sr_join_keys rule = []
     then Inl InvalidMapping
     else if sr_max_window_millis rule = 0 \<or> i64_try_from (sr_max_window_millis rule) = None
     then Inl InvalidWindow
     else and_then (try_each (check_join_key (sr_join_keys rule)) (enumerate 0 (sr_join_keys rule))) (\<lambda>_.
     Inr \<lparr>csp_correlation_rule_id = sr_correlation_rule_id rule,
          csp_correlation_rule_version = sr_correlation_rule_version rule,
          csp_stages = sr_stages rule,
          csp_join_keys = sr_join_keys rule,
          csp_max_window_millis = sr_max_window_millis rule,
          csp_ordering = sr_ordering rule,
          csp_backend = backend,
          csp_supported_backends = capabilities_new True False,
          csp_configuration_hash = sr_configuration_hash rule\<rparr>))"

record ('st, 'jk, 'od, 'k, 'o, 'err) sequence_policy =
  stage_matches :: "'st \<Rightarrow> signal \<Rightarrow> (bool, 'err) result"
  sequence_group_key :: "'jk list \<Rightarrow> signal \<Rightarrow> ('k option, 'err) result"
  sequence_time_millis :: "signal \<Rightarrow> (int option, 'err) result"
  sequence_order_key :: "'od \<Rightarrow> signal \<Rightarrow> ('o option, 'err) result"

record sequence_correlation_match =
  scm_correlation_rule_id :: string
  scm_correlation_rule_version :: string
  scm_tenant_id :: string
  scm_window_start :: timestamp
  scm_window_end :: timestamp
  scm_input_signal_ids :: "string list"
  scm_execution_backend :: execution_backend
  scm_execution_mode :: execution_mode
  scm_configuration_hash :: string

datatype 'err sequence_evaluation_error =
    SequencePolicy 'err
  | SequenceInvalidInput contract_violation
  | SequenceUnspecifiedExecutionMode

fun display_sequence_error :: "('err \<Rightarrow> string) \<Rightarrow> 'err sequence_evaluation_error \<Rightarrow> string" where
  "display_sequence_error show_err (SequencePolicy e) =
     ''SEQUENCE correlation evaluation failed: '' @ show_err e"
| "display_sequence_error show_err (SequenceInvalidInput v) =
     ''invalid SEQUENCE correlation input: '' @ display_violation v"
| "display_sequence_error show_err SequenceUnspecifiedExecutionMode =
     ''SEQUENCE correlation requires LIVE, REPLAY, or TEST execution mode''"

section \<open>Candidates\<close>

record 'o sequence_candidate =
  sc_signal_id :: string
  sc_stage_indices :: "nat list"
  sc_time_millis :: int
  sc_order_key :: 'o

definition validate_execution_mode :: "signal \<Rightarrow> execution_mode \<Rightarrow> checked" where
  "validate_execution_mode s mode =
    (if sg_execution_mode s \<noteq> execution_mode_i32 mode
     then Inl (violation ''signals.execution_mode'' ''must equal the bounded correlation evaluation mode'')
     else Inr ())"

definition unique_signal_step ::
  "execution_mode \<Rightarrow> (string, signal) btree \<Rightarrow> signal
     \<Rightarrow> ((string, signal) btree, contract_violation) result" where
  "unique_signal_step mode unique_signals s =
    and_then (validate_signal s) (\<lambda>_.
    and_then (validate_execution_mode s mode) (\<lambda>_.
    case btree_get unique_signals (sg_signal_id s) of
      Some existing \<Rightarrow>
        if existing \<noteq> s
        then Inl (violation ''signals.signal_id''
               ''duplicate identity carries conflicting canonical Signal content'')
        else Inr unique_signals
    | None \<Rightarrow> Inr (btree_insert (sg_signal_id s) s unique_signals)))"

definition validate_unique_signals ::
  "signal list \<Rightarrow> execution_mode \<Rightarrow> ((string, signal) btree, contract_violation) result" where
  "validate_unique_signals signals mode = try_fold (unique_signal_step mode) [] signals"

fun stage_index_step ::
  "('st, 'jk, 'od, 'k, 'o, 'err) sequence_policy \<Rightarrow> signal \<Rightarrow> nat list \<Rightarrow> nat \<times> 'st
     \<Rightarrow> (nat list, 'err sequence_evaluation_error) result" where
  "stage_index_step policy s stage_indices (stage_index, stage) =
    and_then (map_err SequencePolicy (stage_matches policy stage s)) (\<lambda>matches.
    Inr (if matches then stage_indices @ [stage_index] else stage_indices))"

text \<open>The body of the loop over the unique Signals: the group key and the candidate, or nothing.\<close>

definition sequence_candidate_of ::
  "('st, 'jk, 'od) compiled_sequence_plan \<Rightarrow> ('st, 'jk, 'od, 'k, 'o, 'err) sequence_policy \<Rightarrow> signal
     \<Rightarrow> (((string \<times> 'k) \<times> 'o sequence_candidate) option, 'err sequence_evaluation_error) result" where
  "sequence_candidate_of plan policy s =
    and_then (try_fold (stage_index_step policy s) [] (enumerate 0 (csp_stages plan))) (\<lambda>stage_indices.
    if stage_indices = [] then Inr None
    else and_then (map_err SequencePolicy (sequence_group_key policy (csp_join_keys plan) s)) (\<lambda>group_key.
    case group_key of None \<Rightarrow> Inr None
    | Some key \<Rightarrow>
      and_then (map_err SequencePolicy (sequence_time_millis policy s)) (\<lambda>time.
      case time of None \<Rightarrow> Inr None
      | Some millis \<Rightarrow>
        and_then (map_err SequencePolicy (sequence_order_key policy (csp_ordering plan) s)) (\<lambda>order_key.
        case order_key of None \<Rightarrow> Inr None
        | Some ord \<Rightarrow> Inr (Some ((sg_tenant_id s, key),
            \<lparr>sc_signal_id = sg_signal_id s, sc_stage_indices = stage_indices,
             sc_time_millis = millis, sc_order_key = ord\<rparr>))))))"

definition sequence_collect_step ::
  "('st, 'jk, 'od) compiled_sequence_plan \<Rightarrow> ('st, 'jk, 'od, 'k :: linorder, 'o, 'err) sequence_policy
     \<Rightarrow> (string \<times> 'k, 'o sequence_candidate list) btree \<Rightarrow> signal
     \<Rightarrow> ((string \<times> 'k, 'o sequence_candidate list) btree, 'err sequence_evaluation_error) result" where
  "sequence_collect_step plan policy groups s =
    and_then (sequence_candidate_of plan policy s) (\<lambda>found.
    case found of None \<Rightarrow> Inr groups | Some (key, c) \<Rightarrow> Inr (btree_push key c groups))"

definition collect_sequence_candidates ::
  "('st, 'jk, 'od) compiled_sequence_plan \<Rightarrow> (string, signal) btree
     \<Rightarrow> ('st, 'jk, 'od, 'k :: linorder, 'o, 'err) sequence_policy
     \<Rightarrow> ((string \<times> 'k, 'o sequence_candidate list) btree, 'err sequence_evaluation_error) result" where
  "collect_sequence_candidates plan signals policy =
    try_fold (sequence_collect_step plan policy) [] (map snd signals)"

section \<open>Selection\<close>

text \<open>The search for the next stage: the first candidate after the last one that matches the stage,
  has a greater order key and keeps the span within the window.\<close>

fun find_next ::
  "nat \<Rightarrow> 'o :: linorder \<Rightarrow> int \<Rightarrow> int \<Rightarrow> int \<Rightarrow> (nat \<times> 'o sequence_candidate) list
     \<Rightarrow> (nat \<times> int \<times> int) option" where
  "find_next stage_index last_order_key min_time max_time max_window_millis [] = None"
| "find_next stage_index last_order_key min_time max_time max_window_millis ((candidate_index, c) # rest) =
    (if stage_index \<notin> set (sc_stage_indices c) \<or> sc_order_key c \<le> last_order_key
     then find_next stage_index last_order_key min_time max_time max_window_millis rest
     else if max max_time (sc_time_millis c) - min min_time (sc_time_millis c) > max_window_millis
     then find_next stage_index last_order_key min_time max_time max_window_millis rest
     else Some (candidate_index, min min_time (sc_time_millis c), max max_time (sc_time_millis c)))"

fun select_stages ::
  "'o :: linorder sequence_candidate list \<Rightarrow> int \<Rightarrow> nat list
     \<Rightarrow> nat list \<times> nat \<times> 'o \<times> int \<times> int \<Rightarrow> (nat list \<times> int \<times> int) option" where
  "select_stages candidates max_window_millis [] (selected, last_index, last_order_key, min_time, max_time) =
    Some (selected, min_time, max_time)"
| "select_stages candidates max_window_millis (stage_index # stages)
     (selected, last_index, last_order_key, min_time, max_time) =
    (case find_next stage_index last_order_key min_time max_time max_window_millis
        (drop (last_index + 1) (enumerate 0 candidates)) of
       None \<Rightarrow> None
     | Some (candidate_index, candidate_min_time, candidate_max_time) \<Rightarrow>
         select_stages candidates max_window_millis stages
           (selected @ [candidate_index], candidate_index, sc_order_key (candidates ! candidate_index),
            candidate_min_time, candidate_max_time))"

fun select_from ::
  "'o :: linorder sequence_candidate list \<Rightarrow> nat \<Rightarrow> int \<Rightarrow> (nat \<times> 'o sequence_candidate) list
     \<Rightarrow> (nat list \<times> int \<times> int) option" where
  "select_from candidates stage_count max_window_millis [] = None"
| "select_from candidates stage_count max_window_millis ((start_index, start) # rest) =
    (if 0 \<notin> set (sc_stage_indices start)
     then select_from candidates stage_count max_window_millis rest
     else (case select_stages candidates max_window_millis [1..<stage_count]
         ([start_index], start_index, sc_order_key start, sc_time_millis start, sc_time_millis start) of
       Some found \<Rightarrow> Some found
     | None \<Rightarrow> select_from candidates stage_count max_window_millis rest))"

definition select_sequence ::
  "'o :: linorder sequence_candidate list \<Rightarrow> nat \<Rightarrow> int \<Rightarrow> (nat list \<times> int \<times> int) option" where
  "select_sequence candidates stage_count max_window_millis =
    select_from candidates stage_count max_window_millis (enumerate 0 candidates)"

section \<open>Evaluation\<close>

definition sequence_order :: "'o sequence_candidate \<Rightarrow> 'o \<times> string" where
  "sequence_order c = (sc_order_key c, sc_signal_id c)"

definition sequence_sorted_match ::
  "('st, 'jk, 'od) compiled_sequence_plan \<Rightarrow> int \<Rightarrow> execution_mode \<Rightarrow> string
     \<Rightarrow> 'o :: linorder sequence_candidate list
     \<Rightarrow> (sequence_correlation_match option, 'err sequence_evaluation_error) result" where
  "sequence_sorted_match plan max_window_millis mode tenant_id candidates =
    (case select_sequence candidates (length (csp_stages plan)) max_window_millis of
       None \<Rightarrow> Inr None
     | Some (selected_indices, min_time, max_time) \<Rightarrow>
         and_then (map_err SequenceInvalidInput
           (validate_timestamp ''window_start'' (timestamp_from_millis min_time))) (\<lambda>_.
         and_then (map_err SequenceInvalidInput
           (validate_timestamp ''window_end'' (timestamp_from_millis max_time))) (\<lambda>_.
         Inr (Some \<lparr>scm_correlation_rule_id = csp_correlation_rule_id plan,
           scm_correlation_rule_version = csp_correlation_rule_version plan,
           scm_tenant_id = tenant_id,
           scm_window_start = timestamp_from_millis min_time,
           scm_window_end = timestamp_from_millis max_time,
           scm_input_signal_ids = map (\<lambda>index. sc_signal_id (candidates ! index)) selected_indices,
           scm_execution_backend = csp_backend plan,
           scm_execution_mode = mode,
           scm_configuration_hash = csp_configuration_hash plan\<rparr>))))"

fun sequence_group_match ::
  "('st, 'jk, 'od) compiled_sequence_plan \<Rightarrow> int \<Rightarrow> execution_mode
     \<Rightarrow> (string \<times> 'k) \<times> 'o :: linorder sequence_candidate list
     \<Rightarrow> (sequence_correlation_match option, 'err sequence_evaluation_error) result" where
  "sequence_group_match plan max_window_millis mode ((tenant_id, group_key), candidates) =
    sequence_sorted_match plan max_window_millis mode tenant_id (sort_key sequence_order candidates)"

definition evaluate_sequence_signals ::
  "('st, 'jk, 'od) compiled_sequence_plan \<Rightarrow> signal list \<Rightarrow> execution_mode
     \<Rightarrow> ('st, 'jk, 'od, 'k :: linorder, 'o :: linorder, 'err) sequence_policy
     \<Rightarrow> (sequence_correlation_match list, 'err sequence_evaluation_error) result" where
  "evaluate_sequence_signals plan signals mode policy =
    (if mode = ModeUnspecified then Inl SequenceUnspecifiedExecutionMode
     else
     and_then (ok_or (SequenceInvalidInput
         (violation ''max_window_millis'' ''exceeds supported deterministic batch range''))
       (i64_try_from (csp_max_window_millis plan))) (\<lambda>max_window_millis.
     and_then (map_err SequenceInvalidInput (validate_unique_signals signals mode)) (\<lambda>unique_signals.
     and_then (collect_sequence_candidates plan unique_signals policy) (\<lambda>groups.
     and_then (try_map (sequence_group_match plan max_window_millis mode) groups) (\<lambda>found.
     Inr (List.map_filter (\<lambda>m. m) found))))))"

section \<open>The Finding materializer\<close>

definition SIGNAL_INPUT_TYPE :: string where "SIGNAL_INPUT_TYPE = ''SIGNAL''"

record correlation_finding_context =
  cfc_finding_id :: string
  cfc_severity :: string
  cfc_confidence :: "string option"
  cfc_title :: string
  cfc_description :: string
  cfc_input_relation :: string
  cfc_created_at :: timestamp

definition correlation_finding_of ::
  "sequence_correlation_match \<Rightarrow> correlation_finding_context \<Rightarrow> finding" where
  "correlation_finding_of m c =
    \<lparr>fd_finding_id = cfc_finding_id c,
     fd_tenant_id = scm_tenant_id m,
     fd_finding_type = 3,
     fd_status = 1,
     fd_severity = cfc_severity c,
     fd_confidence = cfc_confidence c,
     fd_title = cfc_title c,
     fd_description = cfc_description c,
     fd_first_seen = Some (scm_window_start m),
     fd_last_seen = Some (scm_window_end m),
     fd_created_at = Some (cfc_created_at c),
     fd_updated_at = Some (cfc_created_at c),
     fd_primary_rule_id = None,
     fd_primary_rule_version = None,
     fd_correlation_rule_id = Some (scm_correlation_rule_id m),
     fd_correlation_rule_version = Some (scm_correlation_rule_version m),
     fd_disposition = 1,
     fd_metadata = None,
     fd_execution_mode = execution_mode_i32 (scm_execution_mode m),
     fd_inputs = map (\<lambda>signal_id. \<lparr>fi_finding_id = cfc_finding_id c, fi_input_type = SIGNAL_INPUT_TYPE,
       fi_input_id = signal_id, fi_relation = cfc_input_relation c\<rparr>) (scm_input_signal_ids m),
     fd_correlation_provenance = Some
       \<lparr>cp_correlation_rule_id = scm_correlation_rule_id m,
        cp_correlation_rule_version = scm_correlation_rule_version m,
        cp_window_start = Some (scm_window_start m),
        cp_window_end = Some (scm_window_end m),
        cp_input_ids = scm_input_signal_ids m,
        cp_output_finding_id = cfc_finding_id c,
        cp_execution_backend = contract_backend (scm_execution_backend m),
        cp_execution_mode = execution_mode_i32 (scm_execution_mode m),
        cp_configuration_hash = scm_configuration_hash m\<rparr>\<rparr>"

definition materialize_sequence_correlation_finding ::
  "sequence_correlation_match \<Rightarrow> correlation_finding_context \<Rightarrow> (finding, contract_violation) result" where
  "materialize_sequence_correlation_finding m c =
    validated validate_finding (correlation_finding_of m c)"

end
