(* ===== verification/Mvp_Rules.thy ===== *)
theory Mvp_Rules
  imports Sigma Correlation
begin

text \<open>
  The frozen rule pack of the batch runtime and its policies (\<open>mvp_batch.rs\<close> of
  cerbero-detection-runtime, from the schema resolvers to \<open>timestamp_millis\<close>): the schema of the
  detection compiler, the plan compiler, the three EVENT rules, the Sigma THRESHOLD rule, the
  account-compromise SEQUENCE and the policies that read fields, times and join keys. SHA-256 is
  the parameter \<open>digest\<close>; the YAML decoder is a parameter as in the importer.
\<close>

section \<open>Constants and errors\<close>

definition FAILED_LOGIN_RULE_ID :: string where "FAILED_LOGIN_RULE_ID = ''CER-DET-000101''"
definition SUCCESSFUL_LOGIN_RULE_ID :: string where "SUCCESSFUL_LOGIN_RULE_ID = ''CER-DET-000102''"
definition PRIVILEGE_ESCALATION_RULE_ID :: string where "PRIVILEGE_ESCALATION_RULE_ID = ''CER-DET-000103''"
definition THRESHOLD_FAILED_LOGIN_RULE_ID :: string where
  "THRESHOLD_FAILED_LOGIN_RULE_ID = ''CER-DET-000001''"
definition ACCOUNT_COMPROMISE_RULE_ID :: string where "ACCOUNT_COMPROMISE_RULE_ID = ''CER-COR-0003''"
definition RULE_VERSION :: string where "RULE_VERSION = ''1''"
definition CORRELATION_RULE_VERSION :: string where "CORRELATION_RULE_VERSION = ''2''"
definition MAX_BATCH_EVENTS :: "64 word" where "MAX_BATCH_EVENTS = 10000"

lemmas mvp_constants = FAILED_LOGIN_RULE_ID_def SUCCESSFUL_LOGIN_RULE_ID_def
  PRIVILEGE_ESCALATION_RULE_ID_def THRESHOLD_FAILED_LOGIN_RULE_ID_def ACCOUNT_COMPROMISE_RULE_ID_def
  RULE_VERSION_def CORRELATION_RULE_VERSION_def MAX_BATCH_EVENTS_def

datatype runtime_error = RuntimeError string

datatype mvp_policy_error = MvpPolicyError (display_mvp_policy_error: string)

section \<open>Schema\<close>

datatype mvp_field_type = MvpText | MvpNumber

type_synonym mvp_expression = "(string, string) detection_expression"
type_synonym mvp_profile =
  "(string list, string list, (string, mvp_field_type) btree) event_field_profile"
type_synonym mvp_execution_plan =
  "(string, string, string, string, string list, unit, unit, unit, string) event_plan"
type_synonym mvp_compiled_event_plan = "(mvp_execution_plan, mvp_profile) compiled_event_execution_plan"
type_synonym mvp_compiled_threshold_plan =
  "(mvp_execution_plan, mvp_profile, string) compiled_threshold_plan"

definition mvp_resolve_field_type :: "string \<Rightarrow> mvp_field_type option" where
  "mvp_resolve_field_type field =
    (if field \<in> {''activity_name'', ''status'', ''user.name'', ''src_endpoint.ip''} then Some MvpText
     else if field = ''time'' then Some MvpNumber else None)"

definition mvp_resolve_value_type :: "string \<Rightarrow> mvp_field_type" where
  "mvp_resolve_value_type value = MvpText"

definition mvp_validate_comparison ::
  "mvp_field_type \<Rightarrow> comparison_operator \<Rightarrow> mvp_field_type \<Rightarrow> unit compiled" where
  "mvp_validate_comparison field_type operator value_type =
    (if field_type \<noteq> value_type then Inl TypeError
     else if operator \<noteq> CEq then Inl InvalidOperator
     else Inr ())"

definition mvp_schema :: "(string, string, mvp_field_type, mvp_field_type) schema" where
  "mvp_schema = \<lparr>as_ref = (\<lambda>f. f), resolve_field_type = mvp_resolve_field_type,
     resolve_value_type = mvp_resolve_value_type, validate_comparison = mvp_validate_comparison\<rparr>"

section \<open>Compilation stages\<close>

text \<open>A \<open>BTreeSet\<close> of fields is the ascending list of its elements.\<close>

fun collect_expression_fields :: "mvp_expression \<Rightarrow> string list \<Rightarrow> string list" where
  "collect_expression_fields (Boolean (BAnd children)) acc = fold collect_expression_fields children acc"
| "collect_expression_fields (Boolean (BOr children)) acc = fold collect_expression_fields children acc"
| "collect_expression_fields (Boolean (BNot child)) acc = collect_expression_fields child acc"
| "collect_expression_fields (Comparison comparison) acc = insort_insert (cx_field comparison) acc"
| "collect_expression_fields (Exists exists) acc = insort_insert (ex_field exists) acc"

definition mvp_resolve_event_field_profile :: "mvp_expression \<Rightarrow> mvp_profile compiled" where
  "mvp_resolve_event_field_profile expression =
    (let required_fields = collect_expression_fields expression [] in
     and_then (try_fold (\<lambda>field_types field.
         and_then (ok_or UnknownField (mvp_resolve_field_type field)) (\<lambda>field_type.
         Inr (btree_insert field field_type field_types))) [] required_fields) (\<lambda>field_types.
     Inr \<lparr>profile_required_fields = required_fields, profile_optional_fields = [],
          profile_field_types = field_types\<rparr>))"

record mvp_plan_compiler =
  mpc_plan_id :: string
  mpc_rule_id :: string
  mpc_rule_version :: string
  mpc_plan_hash :: string

definition mvp_supported_backends ::
  "(string, string) event_predicate \<Rightarrow> mvp_profile \<Rightarrow> execution_backend_capabilities compiled" where
  "mvp_supported_backends predicate field_profile = Inr (capabilities_new True False)"

definition mvp_compile_event_plan ::
  "mvp_plan_compiler \<Rightarrow> execution_backend \<Rightarrow> (string, string) event_predicate \<Rightarrow> mvp_profile
     \<Rightarrow> mvp_execution_plan compiled" where
  "mvp_compile_event_plan compiler backend predicate field_profile =
    and_then (map_err (\<lambda>_. InvalidMapping) (rule_id_from_str (mpc_rule_id compiler))) (\<lambda>rule_id.
    Inr \<lparr>plan_id = mpc_plan_id compiler, plan_rule_id = rule_id,
         plan_rule_version = mpc_rule_version compiler, plan_backend = backend,
         required_fields = profile_required_fields field_profile, predicates = predicate,
         grouping = (), plan_window = (), resource_limits = (), plan_hash = mpc_plan_hash compiler\<rparr>)"

definition mvp_stages ::
  "mvp_plan_compiler \<Rightarrow> (string, string, mvp_profile, mvp_execution_plan) event_compilation_stages" where
  "mvp_stages compiler = \<lparr>optimize_event_ast = identity_optimize_event_ast,
     resolve_event_field_profile = mvp_resolve_event_field_profile,
     supported_backends = mvp_supported_backends,
     compile_event_plan = mvp_compile_event_plan compiler\<rparr>"

section \<open>The rule pack\<close>

definition compile_event_rule ::
  "(string \<Rightarrow> string) \<Rightarrow> string \<Rightarrow> string \<Rightarrow> mvp_expression \<Rightarrow> (mvp_compiled_event_plan, runtime_error) result" where
  "compile_event_rule digest rule_id plan_name expression =
    map_err (\<lambda>error. RuntimeError (''EVENT rule '' @ rule_id @ '' compilation failed: ''
        @ rule_compilation_error_as_str error))
      (compile_event_execution_plan expression ClickHouse mvp_schema
        (mvp_stages \<lparr>mpc_plan_id = plan_name, mpc_rule_id = rule_id, mpc_rule_version = RULE_VERSION,
           mpc_plan_hash = sha256_lower_hex digest plan_name\<rparr>))"

definition threshold_plan_compiler ::
  "(string \<Rightarrow> string) \<Rightarrow> imported_sigma_threshold_rule \<Rightarrow> mvp_plan_compiler" where
  "threshold_plan_compiler digest imported =
    \<lparr>mpc_plan_id = ''sigma-linux-sshd-failed-login-burst-v1'',
     mpc_rule_id = display_rule_id (im_rule_id imported), mpc_rule_version = im_rule_version imported,
     mpc_plan_hash = sha256_lower_hex digest
       (''sigma-threshold-clickhouse-v1:'' @ im_content_hash imported)\<rparr>"

fun display_sigma_import_error :: "sigma_import_error \<Rightarrow> string" where
  "display_sigma_import_error (SigmaImportError message) = message"

definition compile_threshold_rule ::
  "(string \<Rightarrow> string) \<Rightarrow> (string \<Rightarrow> sigma_document list imported) \<Rightarrow> (string \<Rightarrow> string) \<Rightarrow> string
     \<Rightarrow> (mvp_compiled_threshold_plan, runtime_error) result option" where
  "compile_threshold_rule debug_str parse_documents digest sigma_source =
    map_option (\<lambda>parsed.
      and_then (map_err (\<lambda>error. RuntimeError (''Sigma THRESHOLD import failed: ''
          @ display_sigma_import_error error)) parsed) (\<lambda>imported.
      if as_str (im_rule_id imported) \<noteq> THRESHOLD_FAILED_LOGIN_RULE_ID
      then Inl (RuntimeError (''Sigma THRESHOLD identity drift: expected ''
        @ THRESHOLD_FAILED_LOGIN_RULE_ID @ '', observed '' @ display_rule_id (im_rule_id imported)))
      else and_then (map_err (\<lambda>error. RuntimeError (''Sigma STABLE rule contract failed: ''
          @ display_rule_contract_error error)) (validate_rule_status (im_status imported) coverage_complete)) (\<lambda>_.
      map_err (\<lambda>error. RuntimeError (''THRESHOLD rule compilation failed: ''
          @ rule_compilation_error_as_str error))
        (compile_threshold_execution_plan (im_threshold_rule imported) ClickHouse mvp_schema
          (mvp_stages (threshold_plan_compiler digest imported))))))
      (parse_sigma_threshold_rule debug_str parse_documents digest sigma_source)"

datatype mvp_sequence_ordering = Observed

definition compile_sequence_rule ::
  "(string \<Rightarrow> string) \<Rightarrow> ((string, string, mvp_sequence_ordering) compiled_sequence_plan, runtime_error) result" where
  "compile_sequence_rule digest =
    map_err (\<lambda>error. RuntimeError (''SEQUENCE rule compilation failed: '' @ rule_compilation_error_as_str error))
      (compile_sequence_correlation_plan
        \<lparr>sr_correlation_rule_id = ACCOUNT_COMPROMISE_RULE_ID,
         sr_correlation_rule_version = CORRELATION_RULE_VERSION,
         sr_stages = [FAILED_LOGIN_RULE_ID, SUCCESSFUL_LOGIN_RULE_ID, PRIVILEGE_ESCALATION_RULE_ID],
         sr_join_keys = [''user.name''], sr_max_window_millis = 600000, sr_ordering = Observed,
         sr_configuration_hash = sha256_lower_hex digest ''mvp-account-compromise-sequence-v1''\<rparr>
        ClickHouse)"

definition mvp_and :: "mvp_expression list \<Rightarrow> mvp_expression" where
  "mvp_and children = Boolean (BAnd children)"

definition mvp_eq :: "string \<Rightarrow> string \<Rightarrow> mvp_expression" where
  "mvp_eq field value = Comparison \<lparr>cx_field = field, cx_operator = CEq, cx_value = value\<rparr>"

definition failed_login_expression :: mvp_expression where
  "failed_login_expression = mvp_and [mvp_eq ''activity_name'' ''Logon'', mvp_eq ''status'' ''Failure'']"

definition successful_login_expression :: mvp_expression where
  "successful_login_expression = mvp_and [mvp_eq ''activity_name'' ''Logon'', mvp_eq ''status'' ''Success'']"

definition privilege_escalation_expression :: mvp_expression where
  "privilege_escalation_expression = mvp_eq ''activity_name'' ''Privilege Escalation''"

section \<open>Reading fields and times\<close>

definition event_string_field ::
  "normalized_event \<Rightarrow> string \<Rightarrow> (string option, mvp_policy_error) result" where
  "event_string_field event field =
    (case field_state (\<lambda>f. f) event field of
       Present v \<Rightarrow> (case kind v of
           Some (StringValue s) \<Rightarrow> Inr (Some s)
         | _ \<Rightarrow> Inl (MvpPolicyError (''field '' @ field @ '' is not a string'')))
     | Absent \<Rightarrow> Inr None
     | Null \<Rightarrow> Inr None
     | Malformed \<Rightarrow> Inl (MvpPolicyError (''field '' @ field @ '' is malformed'')))"

text \<open>\<open>f64\<close> on the finite numbers: \<open>as i64\<close> and \<open>fract\<close> go towards zero; \<open>f64::EPSILON\<close> is
  \<open>2^-52\<close>.\<close>

definition rat_trunc :: "rat \<Rightarrow> int" where
  "rat_trunc x = (if x < 0 then \<lceil>x\<rceil> else \<lfloor>x\<rfloor>)"

definition rat_fract :: "rat \<Rightarrow> rat" where
  "rat_fract x = x - of_int (rat_trunc x)"

definition f64_epsilon :: rat where
  "f64_epsilon = 1 / 2 ^ 52"

definition integral_number :: "f64 \<Rightarrow> int option" where
  "integral_number number =
    (case number of
       Finite x \<Rightarrow> if \<bar>rat_fract x\<bar> > f64_epsilon \<or> \<bar>x\<bar> > 9007199254740991 then None
                    else Some (rat_trunc x)
     | _ \<Rightarrow> None)"

definition event_integer_field ::
  "normalized_event \<Rightarrow> string \<Rightarrow> (int option, mvp_policy_error) result" where
  "event_integer_field event field =
    (case field_state (\<lambda>f. f) event field of
       Present v \<Rightarrow> (case kind v of
           Some (NumberValue number) \<Rightarrow>
             (case integral_number number of
                Some i \<Rightarrow> Inr (Some i)
              | None \<Rightarrow> Inl (MvpPolicyError (''field '' @ field @ '' is not an integral i64-compatible number'')))
         | _ \<Rightarrow> Inl (MvpPolicyError (''field '' @ field @ '' is not numeric'')))
     | Absent \<Rightarrow> Inr None
     | Null \<Rightarrow> Inr None
     | Malformed \<Rightarrow> Inl (MvpPolicyError (''field '' @ field @ '' is malformed'')))"

text \<open>The division of the nanoseconds truncates, as Rust's \<open>/\<close> on \<open>i32\<close>.\<close>

definition timestamp_to_millis_checked :: "timestamp \<Rightarrow> (int, mvp_policy_error) result" where
  "timestamp_to_millis_checked ts =
    ok_or (MvpPolicyError ''timestamp milliseconds overflow i64'')
      (case checked_mul_i64 (seconds ts) 1000 of
         None \<Rightarrow> None
       | Some millis \<Rightarrow> checked_add_i64 millis (sgn (nanos ts) * (\<bar>nanos ts\<bar> div 1000000)))"

definition timestamp_millis :: "timestamp option \<Rightarrow> int" where
  "timestamp_millis t =
    (case t of None \<Rightarrow> - (2 ^ 63)
     | Some ts \<Rightarrow> (case timestamp_to_millis_checked ts of Inr millis \<Rightarrow> millis | Inl _ \<Rightarrow> - (2 ^ 63)))"

section \<open>Policies\<close>

definition mvp_evaluate_exists ::
  "string \<Rightarrow> pvalue event_field_state \<Rightarrow> (bool, mvp_policy_error) result" where
  "mvp_evaluate_exists field state = Inr (case state of Present _ \<Rightarrow> True | _ \<Rightarrow> False)"

definition mvp_evaluate_comparison ::
  "string \<Rightarrow> pvalue event_field_state \<Rightarrow> comparison_operator \<Rightarrow> string \<Rightarrow> (bool, mvp_policy_error) result" where
  "mvp_evaluate_comparison field state operator rule_value =
    (case state of
       Present actual \<Rightarrow> (case kind actual of
           Some (StringValue s) \<Rightarrow>
             if operator = CEq then Inr (s = rule_value)
             else Inl (MvpPolicyError (''operator '' @ comparison_operator_as_str operator
               @ '' is unsupported by the MVP leaf policy''))
         | _ \<Rightarrow> Inl (MvpPolicyError (''field '' @ field @ '' is not a string for MVP comparison'')))
     | _ \<Rightarrow> Inr False)"

definition mvp_leaf_policy :: "(string, string, pvalue, mvp_policy_error) leaf_policy" where
  "mvp_leaf_policy = \<lparr>evaluate_exists = mvp_evaluate_exists, evaluate_comparison = mvp_evaluate_comparison\<rparr>"

fun mvp_threshold_group_key ::
  "string list \<Rightarrow> normalized_event \<Rightarrow> (string list option, mvp_policy_error) result" where
  "mvp_threshold_group_key [] event = Inr (Some [])"
| "mvp_threshold_group_key (field # group_by) event =
    and_then (event_string_field event field) (\<lambda>found.
    case found of None \<Rightarrow> Inr None
    | Some s \<Rightarrow> and_then (mvp_threshold_group_key group_by event) (\<lambda>key.
        Inr (map_option (Cons s) key)))"

definition mvp_threshold_event_time_millis ::
  "threshold_time_basis \<Rightarrow> string \<Rightarrow> normalized_event \<Rightarrow> (int option, mvp_policy_error) result" where
  "mvp_threshold_event_time_millis time_basis time_field event =
    (if time_basis \<noteq> EventTime then Inl (MvpPolicyError ''MVP batch threshold supports EVENT_TIME only'')
     else event_integer_field event time_field)"

definition mvp_policy :: "(string, string, string list, mvp_policy_error) threshold_policy" where
  "mvp_policy = \<lparr>tp_leaf = mvp_leaf_policy, threshold_group_key = mvp_threshold_group_key,
     threshold_event_time_millis = mvp_threshold_event_time_millis\<rparr>"

record batch_event =
  be_event :: normalized_event
  be_source_event_time :: "timestamp option"

text \<open>\<open>MvpSequencePolicy\<close>: the user of every event that has one, by event identity.\<close>

definition sequence_user_step ::
  "(string \<rightharpoonup> string) \<Rightarrow> batch_event \<Rightarrow> (string \<rightharpoonup> string, runtime_error) result" where
  "sequence_user_step users b =
    and_then (map_err (\<lambda>error. RuntimeError (''user extraction failed: '' @ display_mvp_policy_error error))
      (event_string_field (be_event b) ''user.name'')) (\<lambda>user.
    case user of None \<Rightarrow> Inr users
    | Some u \<Rightarrow> Inr (users(ne_normalized_event_id (be_event b) \<mapsto> u)))"

definition mvp_sequence_policy_new :: "batch_event list \<Rightarrow> (string \<rightharpoonup> string, runtime_error) result" where
  "mvp_sequence_policy_new events = try_fold sequence_user_step Map.empty events"

definition mvp_sequence_group_key ::
  "(string \<rightharpoonup> string) \<Rightarrow> string list \<Rightarrow> signal \<Rightarrow> (string option, mvp_policy_error) result" where
  "mvp_sequence_group_key user_by_event_id join_keys s =
    (if length join_keys \<noteq> 1 \<or> join_keys ! 0 \<noteq> ''user.name''
     then Inl (MvpPolicyError ''MVP sequence requires join key user.name'')
     else (case find (\<lambda>x. si_input_type x = SIGNAL_INPUT_NORMALIZED_EVENT) (sg_inputs s) of
         None \<Rightarrow> Inr None
       | Some x \<Rightarrow> Inr (user_by_event_id (si_input_id x))))"

definition mvp_sequence_time_millis :: "signal \<Rightarrow> (int option, mvp_policy_error) result" where
  "mvp_sequence_time_millis s =
    Inr (case sg_first_observed_at s of None \<Rightarrow> None
      | Some t \<Rightarrow> (case timestamp_to_millis_checked t of Inr millis \<Rightarrow> Some millis | Inl _ \<Rightarrow> None))"

definition mvp_sequence_order_key ::
  "mvp_sequence_ordering \<Rightarrow> signal \<Rightarrow> ((int \<times> string) option, mvp_policy_error) result" where
  "mvp_sequence_order_key ord s =
    (if ord \<noteq> Observed then Inl (MvpPolicyError ''unsupported MVP sequence ordering'')
     else and_then (mvp_sequence_time_millis s) (\<lambda>time.
       Inr (map_option (\<lambda>millis. (millis, sg_signal_id s)) time)))"

definition mvp_sequence_policy ::
  "(string \<rightharpoonup> string)
     \<Rightarrow> (string, string, mvp_sequence_ordering, string, int \<times> string, mvp_policy_error) sequence_policy" where
  "mvp_sequence_policy user_by_event_id = \<lparr>
     stage_matches = (\<lambda>stage s. Inr (sg_rule_id s = stage)),
     sequence_group_key = mvp_sequence_group_key user_by_event_id,
     sequence_time_millis = mvp_sequence_time_millis,
     sequence_order_key = mvp_sequence_order_key\<rparr>"

section \<open>The stages keep the meaning of a rule\<close>

interpretation mvp: event_stages "mvp_stages compiler" predicates for compiler
  by unfold_locales (auto simp: mvp_stages_def identity_optimize_event_ast_def mvp_compile_event_plan_def
      result_simps)

fun leaf_field :: "(string, string) leaf \<Rightarrow> string" where
  "leaf_field (CompareLeaf f p v) = f"
| "leaf_field (ExistsLeaf f) = f"

lemma set_fold_fields:
  "(\<And>c ac. c \<in> set cs \<Longrightarrow> set (f c ac) = g c \<union> set ac) \<Longrightarrow> set (fold f cs acc) = (\<Union>c\<in>set cs. g c) \<union> set acc"
  by (induction cs arbitrary: acc) auto

lemma set_collect_expression_fields:
  "set (collect_expression_fields e acc) = leaf_field ` set (leaves e) \<union> set acc"
proof (induction e acc rule: collect_expression_fields.induct)
  case (1 children acc)
  then show ?case
    using set_fold_fields [of children collect_expression_fields "\<lambda>c. leaf_field ` set (leaves c)"] by auto
next
  case (2 children acc)
  then show ?case
    using set_fold_fields [of children collect_expression_fields "\<lambda>c. leaf_field ` set (leaves c)"] by auto
qed (auto simp: set_insort_insert)

lemma is_ok_and_then_pure: "is_ok (and_then r (\<lambda>x. Inr (h x))) \<longleftrightarrow> is_ok r"
  by (cases r) simp_all

lemma mvp_profile_ok:
  "is_ok (mvp_resolve_event_field_profile e) \<longleftrightarrow>
     (\<forall>l\<in>set (leaves e). mvp_resolve_field_type (leaf_field l) \<noteq> None)"
proof -
  have "is_ok (try_fold (\<lambda>m f. and_then (ok_or UnknownField (mvp_resolve_field_type f)) (\<lambda>t.
      Inr (btree_insert f t m))) m fs) \<longleftrightarrow> (\<forall>f\<in>set fs. mvp_resolve_field_type f \<noteq> None)" for m fs
  proof (induction fs arbitrary: m)
    case (Cons f fs)
    then show ?case by (cases "mvp_resolve_field_type f") simp_all
  qed simp
  then show ?thesis
    by (simp add: mvp_resolve_event_field_profile_def Let_def is_ok_and_then_pure
        set_collect_expression_fields)

qed

fun mvp_leaf_ok :: "(string, string) leaf \<Rightarrow> bool" where
  "mvp_leaf_ok (CompareLeaf f p v) \<longleftrightarrow> mvp_resolve_field_type f = Some MvpText \<and> p = CEq"
| "mvp_leaf_ok (ExistsLeaf f) \<longleftrightarrow> mvp_resolve_field_type f \<noteq> None"

lemma mvp_check_leaf: "check_leaf mvp_schema l = Inr () \<longleftrightarrow> mvp_leaf_ok l"
proof (cases l)
  case (CompareLeaf f p v)
  then show ?thesis
    by (cases "mvp_resolve_field_type f")
      (auto simp: mvp_schema_def mvp_validate_comparison_def mvp_resolve_value_type_def)
qed (auto simp: mvp_schema_def)

lemma mvp_compile_ok:
  "compile_event_execution_plan e ClickHouse mvp_schema (mvp_stages compiler) = Inr c \<longleftrightarrow>
     empty_nodes e = [] \<and> (\<forall>l\<in>set (leaves e). mvp_leaf_ok l) \<and> detection_rule_id (mpc_rule_id compiler)
     \<and> mvp_resolve_event_field_profile e = Inr (compiled_field_profile c)
     \<and> compiled_supported_backends c = capabilities_new True False
     \<and> mvp_compile_event_plan compiler ClickHouse (lower_event_predicate e) (compiled_field_profile c)
         = Inr (compiled_plan c)"
  by (auto simp: compile_event_execution_plan_ok mvp_check_leaf mvp_stages_def identity_optimize_event_ast_def
      mvp_supported_backends_def capabilities_new_def mvp_compile_event_plan_def result_simps)

lemma mvp_compile_exists:
  assumes "empty_nodes e = []" "\<forall>l\<in>set (leaves e). mvp_leaf_ok l" "detection_rule_id (mpc_rule_id compiler)"
  obtains c where "compile_event_execution_plan e ClickHouse mvp_schema (mvp_stages compiler) = Inr c"
    "predicates (compiled_plan c) = lower_event_predicate e"
    "plan_rule_id (compiled_plan c) = RuleId (mpc_rule_id compiler)"
    "plan_rule_version (compiled_plan c) = mpc_rule_version compiler"
    "plan_backend (compiled_plan c) = ClickHouse"
proof -
  have "mvp_resolve_field_type (leaf_field l) \<noteq> None" if "mvp_leaf_ok l" for l
    using that by (cases l) auto
  then obtain profile where p: "mvp_resolve_event_field_profile e = Inr profile"
    using assms(2) mvp_profile_ok [of e] by (cases "mvp_resolve_event_field_profile e") auto
  define plan where "plan = \<lparr>plan_id = mpc_plan_id compiler, plan_rule_id = RuleId (mpc_rule_id compiler),
         plan_rule_version = mpc_rule_version compiler, plan_backend = ClickHouse,
         required_fields = profile_required_fields profile, predicates = lower_event_predicate e,
         grouping = (), plan_window = (), resource_limits = (), plan_hash = mpc_plan_hash compiler\<rparr>"
  let ?c = "\<lparr>compiled_plan = plan, compiled_field_profile = profile,
    compiled_supported_backends = capabilities_new True False\<rparr>"
  have "compile_event_execution_plan e ClickHouse mvp_schema (mvp_stages compiler) = Inr ?c"
    using assms p by (simp add: mvp_compile_ok mvp_compile_event_plan_def result_simps plan_def)
  then show thesis by (rule that) (simp_all add: plan_def)
qed

lemma mvp_compile_unique:
  assumes "compile_event_execution_plan e ClickHouse mvp_schema (mvp_stages compiler) = Inr c"
  shows "predicates (compiled_plan c) = lower_event_predicate e"
    "plan_rule_id (compiled_plan c) = RuleId (mpc_rule_id compiler)"
    "plan_rule_version (compiled_plan c) = mpc_rule_version compiler"
    "plan_backend (compiled_plan c) = ClickHouse" "detection_rule_id (mpc_rule_id compiler)"
proof -
  show "detection_rule_id (mpc_rule_id compiler)" using assms by (simp add: mvp_compile_ok)
  have "mvp_compile_event_plan compiler ClickHouse (lower_event_predicate e) (compiled_field_profile c)
      = Inr (compiled_plan c)" using assms by (simp add: mvp_compile_ok)
  then have "\<exists>r. rule_id_from_str (mpc_rule_id compiler) = Inr r \<and> compiled_plan c =
      \<lparr>plan_id = mpc_plan_id compiler, plan_rule_id = r, plan_rule_version = mpc_rule_version compiler,
       plan_backend = ClickHouse, required_fields = profile_required_fields (compiled_field_profile c),
       predicates = lower_event_predicate e, grouping = (), plan_window = (), resource_limits = (),
       plan_hash = mpc_plan_hash compiler\<rparr>"
    unfolding mvp_compile_event_plan_def and_then_eq_Inr map_err_eq_Inr by auto
  then show "predicates (compiled_plan c) = lower_event_predicate e"
    "plan_rule_id (compiled_plan c) = RuleId (mpc_rule_id compiler)"
    "plan_rule_version (compiled_plan c) = mpc_rule_version compiler"
    "plan_backend (compiled_plan c) = ClickHouse"
    by (auto simp: rule_id_from_str_ok)
qed

end
