(* ===== verification/Mvp_Source.thy ===== *)
theory Mvp_Source
  imports Mvp_Rules Json
begin

text \<open>
  The bounded event source of the batch runtime (\<open>mvp_batch.rs\<close> of cerbero-detection-runtime):
  the request and its validation, the source configuration, the stored rows and what \<open>load\<close> makes
  of the response of ClickHouse. The HTTP exchange is the parameter \<open>fetch\<close>, which yields the status
  and the body or a transport error; \<open>serde_json\<close> is the parameters \<open>decode_row\<close> and \<open>parse_json\<close>,
  with \<open>as_f64\<close> its view of a JSON number.
\<close>

section \<open>Requests\<close>

record mvp_clickhouse_config =
  cc_endpoint :: string
  cc_database :: string
  cc_user :: string
  cc_password :: string

record mvp_batch_request =
  br_tenant_id :: string
  br_execution_mode :: execution_mode
  br_start_millis :: int
  br_end_millis :: int
  br_max_events :: "64 word"
  br_evaluated_at :: timestamp
  br_created_at :: timestamp

definition validate_request :: "mvp_batch_request \<Rightarrow> (unit, runtime_error) result" where
  "validate_request request =
    and_then (map_err (\<lambda>e. RuntimeError (''invalid tenant_id: '' @ display_violation e))
      (validate_uuid_v7 ''tenant_id'' (br_tenant_id request))) (\<lambda>_.
    and_then (map_err (\<lambda>e. RuntimeError (''invalid evaluated_at: '' @ display_violation e))
      (validate_timestamp ''evaluated_at'' (br_evaluated_at request))) (\<lambda>_.
    and_then (map_err (\<lambda>e. RuntimeError (''invalid created_at: '' @ display_violation e))
      (validate_timestamp ''created_at'' (br_created_at request))) (\<lambda>_.
    if br_execution_mode request = ModeUnspecified
    then Inl (RuntimeError ''execution_mode must be LIVE, REPLAY, or TEST'')
    else if br_start_millis request > br_end_millis request
    then Inl (RuntimeError ''batch start_millis must be <= end_millis'')
    else if br_max_events request = 0 \<or> br_max_events request > MAX_BATCH_EVENTS
    then Inl (RuntimeError (''max_events must be between 1 and '' @ show_nat (unat MAX_BATCH_EVENTS)))
    else Inr ())))"

text \<open>A byte of a multi-byte character is neither an underscore nor ASCII alphanumeric, so reading
  bytes instead of characters decides the same.\<close>

definition is_ascii_alphabetic :: "char \<Rightarrow> bool" where
  "is_ascii_alphabetic c \<longleftrightarrow> is_ascii_lowercase c \<or> is_ascii_uppercase c"

definition valid_identifier :: "string \<Rightarrow> bool" where
  "valid_identifier value =
    (case value of [] \<Rightarrow> False
     | first # rest \<Rightarrow> (first = CHR ''_'' \<or> is_ascii_alphabetic first)
         \<and> list_all (\<lambda>c. c = CHR ''_'' \<or> is_ascii_alphabetic c \<or> is_ascii_digit c) rest)"

definition clickhouse_source_new :: "mvp_clickhouse_config \<Rightarrow> (mvp_clickhouse_config, runtime_error) result" where
  "clickhouse_source_new config =
    (if \<not> valid_identifier (cc_database config)
     then Inl (RuntimeError ''ClickHouse database must be a simple identifier'')
     else if trim (cc_endpoint config) = '''' \<or> trim (cc_user config) = '''' \<or> cc_password config = ''''
     then Inl (RuntimeError ''ClickHouse endpoint, user, and password are required'')
     else Inr config)"

section \<open>Stored JSON\<close>

fun json_to_prost_value :: "('n \<Rightarrow> f64 option) \<Rightarrow> 'n json \<Rightarrow> (pvalue, runtime_error) result" where
  "json_to_prost_value as_f64 JNull = Inr (Value (Some (NullValue 0)))"
| "json_to_prost_value as_f64 (JBool b) = Inr (Value (Some (BoolValue b)))"
| "json_to_prost_value as_f64 (JNumber n) =
    and_then (ok_or (RuntimeError ''stored OCSF number is outside protobuf Struct range'') (as_f64 n)) (\<lambda>x.
    Inr (Value (Some (NumberValue x))))"
| "json_to_prost_value as_f64 (JString s) = Inr (Value (Some (StringValue s)))"
| "json_to_prost_value as_f64 (JArray values) =
    and_then (try_map (json_to_prost_value as_f64) values) (\<lambda>vs. Inr (Value (Some (ListValue vs))))"
| "json_to_prost_value as_f64 (JObject members) =
    and_then (try_map (\<lambda>member. and_then (json_to_prost_value as_f64 (snd member)) (\<lambda>v. Inr (fst member, v))) members)
      (\<lambda>vs. Inr (Value (Some (StructValue (fold (\<lambda>(k, v). btree_insert k v) vs [])))))"

definition json_to_prost_struct ::
  "('n \<Rightarrow> f64 option) \<Rightarrow> 'n json \<Rightarrow> ((string \<times> pvalue) list, runtime_error) result" where
  "json_to_prost_struct as_f64 value =
    (case value of
       JObject members \<Rightarrow>
         and_then (try_map (\<lambda>member. and_then (json_to_prost_value as_f64 (snd member)) (\<lambda>v. Inr (fst member, v)))
           members) (\<lambda>vs. Inr (fold (\<lambda>(k, v). btree_insert k v) vs []))
     | _ \<Rightarrow> Inl (RuntimeError ''stored OCSF event root must be an object''))"

section \<open>Rows\<close>

record stored_normalized_row =
  sr_tenant_id :: string
  sr_normalized_event_id :: string
  sr_raw_event_id :: string
  sr_event_time_present :: "8 word"
  sr_event_time_seconds :: int
  sr_event_time_nanos :: int
  sr_normalized_at_seconds :: int
  sr_normalized_at_nanos :: int
  sr_ocsf_version :: string
  sr_class_uid :: "32 word"
  sr_category_uid :: "32 word"
  sr_activity_id :: "32 word option"
  sr_severity :: "32 word option"
  sr_parser_id :: string
  sr_parser_version :: string
  sr_normalization_status :: int
  sr_normalized_hash_algorithm :: string
  sr_normalized_hash :: string
  sr_pipeline_version :: string
  sr_ocsf_event_json :: string

definition row_event_time :: "stored_normalized_row \<Rightarrow> (timestamp option, runtime_error) result" where
  "row_event_time row =
    (if sr_event_time_present row = 0 then Inr None
     else if sr_event_time_present row = 1
     then Inr (Some \<lparr>seconds = sr_event_time_seconds row, nanos = sr_event_time_nanos row\<rparr>)
     else Inl (RuntimeError (''event_time_present must be 0 or 1, observed ''
       @ show_nat (unat (sr_event_time_present row)))))"

definition into_batch_event ::
  "(string \<Rightarrow> ('n json, string) result) \<Rightarrow> ('n \<Rightarrow> f64 option) \<Rightarrow> stored_normalized_row
     \<Rightarrow> (batch_event, runtime_error) result" where
  "into_batch_event parse_json as_f64 row =
    and_then (map_err (\<lambda>e. RuntimeError (''stored OCSF JSON decode failed: '' @ e))
      (parse_json (sr_ocsf_event_json row))) (\<lambda>ocsf.
    and_then (row_event_time row) (\<lambda>source_event_time.
    and_then (map_err (\<lambda>e. RuntimeError (''invalid stored event_time: '' @ display_violation e))
      (validate_optional_timestamp ''event_time'' source_event_time)) (\<lambda>_.
    and_then (json_to_prost_struct as_f64 ocsf) (\<lambda>ocsf_event.
    Inr \<lparr>be_event =
          \<lparr>ne_normalized_event_id = sr_normalized_event_id row, ne_raw_event_id = sr_raw_event_id row,
           ne_tenant_id = sr_tenant_id row,
           ne_normalized_at = Some \<lparr>seconds = sr_normalized_at_seconds row, nanos = sr_normalized_at_nanos row\<rparr>,
           ne_ocsf_version = sr_ocsf_version row, ne_class_uid = sr_class_uid row,
           ne_category_uid = sr_category_uid row, ne_severity = sr_severity row,
           ne_activity_id = sr_activity_id row, ne_ocsf_event = Some ocsf_event,
           ne_parser_id = sr_parser_id row, ne_parser_version = sr_parser_version row,
           ne_normalization_status = sr_normalization_status row,
           ne_normalized_hash_algorithm = sr_normalized_hash_algorithm row,
           ne_normalized_hash = sr_normalized_hash row, ne_pipeline_version = sr_pipeline_version row\<rparr>,
         be_source_event_time = source_event_time\<rparr>))))"

section \<open>Loading\<close>

datatype http_outcome =
    TransportFailed string
  | ReadFailed string
  | Response nat string

text \<open>\<open>str::lines\<close>: a line ends with a line feed, or a carriage return and a line feed; the text after
  the last line feed is a line if it is not empty.\<close>

definition strip_cr :: "string \<Rightarrow> string" where
  "strip_cr s = (if s \<noteq> [] \<and> last s = CHR 0x0D then butlast s else s)"

definition str_lines :: "string \<Rightarrow> string list" where
  "str_lines body = (let parts = split_on CHR 0x0A body in
     map strip_cr (butlast parts) @ (if last parts = [] then [] else [last parts]))"

definition source_query :: "string \<Rightarrow> string" where
  "source_query database =
    ''SELECT tenant_id, toString(normalized_event_id) AS normalized_event_id, ''
    @ ''toString(raw_event_id) AS raw_event_id, event_time_present, event_time_seconds, ''
    @ ''event_time_nanos, normalized_at_seconds, normalized_at_nanos, ocsf_version, ''
    @ ''class_uid, category_uid, activity_id, severity, parser_id, parser_version, ''
    @ ''toInt32(normalization_status) AS normalization_status, normalized_hash_algorithm, ''
    @ ''normalized_hash, pipeline_version, ocsf_event_json ''
    @ ''FROM '' @ database @ ''.normalized_events ''
    @ ''WHERE tenant_id = {tenant:String} ''
    @ ''AND execution_mode = {mode:UInt8} ''
    @ ''AND event_time_present = 1 ''
    @ ''AND (event_time_seconds * 1000 + intDiv(event_time_nanos, 1000000)) >= {start:Int64} ''
    @ ''AND (event_time_seconds * 1000 + intDiv(event_time_nanos, 1000000)) <= {end:Int64} ''
    @ ''ORDER BY event_time_seconds, event_time_nanos, normalized_event_id ''
    @ ''LIMIT {limit:UInt64} FORMAT JSONEachRow''"

definition source_parameters :: "string \<Rightarrow> mvp_batch_request \<Rightarrow> (string \<times> string) list" where
  "source_parameters database request =
    [(''query'', source_query database),
     (''param_tenant'', br_tenant_id request),
     (''param_mode'', show_int (execution_mode_i32 (br_execution_mode request))),
     (''param_start'', show_int (br_start_millis request)),
     (''param_end'', show_int (br_end_millis request)),
     (''param_limit'', show_nat (unat (br_max_events request)))]"

definition load_step ::
  "(string \<Rightarrow> (stored_normalized_row, string) result) \<Rightarrow> (string \<Rightarrow> ('n json, string) result) \<Rightarrow> ('n \<Rightarrow> f64 option)
     \<Rightarrow> (string, batch_event) btree \<Rightarrow> string \<Rightarrow> ((string, batch_event) btree, runtime_error) result" where
  "load_step decode_row parse_json as_f64 unique line =
    and_then (map_err (\<lambda>e. RuntimeError (''ClickHouse row decode failed: '' @ e)) (decode_row line)) (\<lambda>row.
    and_then (into_batch_event parse_json as_f64 row) (\<lambda>b.
    let event_id = ne_normalized_event_id (be_event b) in
    case btree_get unique event_id of
      Some existing \<Rightarrow>
        if existing \<noteq> b
        then Inl (RuntimeError (''conflicting duplicate NormalizedEvent identity '' @ event_id))
        else Inr unique
    | None \<Rightarrow> Inr (btree_insert event_id b unique)))"

definition batch_order :: "batch_event \<Rightarrow> int \<times> string" where
  "batch_order b = (timestamp_millis (be_source_event_time b), ne_normalized_event_id (be_event b))"

definition load_body ::
  "(string \<Rightarrow> (stored_normalized_row, string) result) \<Rightarrow> (string \<Rightarrow> ('n json, string) result) \<Rightarrow> ('n \<Rightarrow> f64 option)
     \<Rightarrow> string list \<Rightarrow> (batch_event list, runtime_error) result" where
  "load_body decode_row parse_json as_f64 lines =
    and_then (try_fold (load_step decode_row parse_json as_f64) [] (filter (\<lambda>line. trim line \<noteq> '''') lines))
      (\<lambda>unique. Inr (sort_key batch_order (map snd unique)))"

definition load ::
  "(mvp_clickhouse_config \<Rightarrow> (string \<times> string) list \<Rightarrow> http_outcome)
     \<Rightarrow> (string \<Rightarrow> (stored_normalized_row, string) result) \<Rightarrow> (string \<Rightarrow> ('n json, string) result)
     \<Rightarrow> ('n \<Rightarrow> f64 option) \<Rightarrow> mvp_clickhouse_config \<Rightarrow> mvp_batch_request
     \<Rightarrow> (batch_event list, runtime_error) result" where
  "load fetch decode_row parse_json as_f64 config request =
    (case fetch config (source_parameters (cc_database config) request) of
       TransportFailed e \<Rightarrow> Inl (RuntimeError (''ClickHouse transport failed: '' @ e))
     | ReadFailed e \<Rightarrow> Inl (RuntimeError (''ClickHouse response read failed: '' @ e))
     | Response status body \<Rightarrow>
         if \<not> (200 \<le> status \<and> status < 300)
         then Inl (RuntimeError (''ClickHouse query failed with HTTP '' @ show_nat status @ '': '' @ trim body))
         else load_body decode_row parse_json as_f64 (str_lines body))"

section \<open>What loading returns\<close>

definition decode_line ::
  "(string \<Rightarrow> (stored_normalized_row, string) result) \<Rightarrow> (string \<Rightarrow> ('n json, string) result) \<Rightarrow> ('n \<Rightarrow> f64 option)
     \<Rightarrow> string \<Rightarrow> (batch_event, runtime_error) result" where
  "decode_line decode_row parse_json as_f64 line =
    and_then (map_err (\<lambda>e. RuntimeError (''ClickHouse row decode failed: '' @ e)) (decode_row line))
      (into_batch_event parse_json as_f64)"

definition batch_id :: "batch_event \<Rightarrow> string" where
  "batch_id b = ne_normalized_event_id (be_event b)"

interpretation loaded_rows: unique_collector "decode_line decode_row parse_json as_f64" batch_id
  "\<lambda>b. RuntimeError (''conflicting duplicate NormalizedEvent identity '' @ batch_id b)"
  "load_step decode_row parse_json as_f64" for decode_row parse_json as_f64
proof unfold_locales
  fix decode_row parse_json and as_f64 :: "'n \<Rightarrow> f64 option" and m line
  show "load_step decode_row parse_json as_f64 m line =
    and_then (decode_line decode_row parse_json as_f64 line) (\<lambda>a. case btree_get m (batch_id a) of
      Some existing \<Rightarrow> if existing \<noteq> a
        then Inl (RuntimeError (''conflicting duplicate NormalizedEvent identity '' @ batch_id a)) else Inr m
    | None \<Rightarrow> Inr (btree_insert (batch_id a) a m))"
    by (cases "decode_row line"; cases "into_batch_event parse_json as_f64 (projr (decode_row line))")
      (simp_all add: load_step_def decode_line_def batch_id_def Let_def split: option.split)
qed

lemma load_body_ok:
  "load_body decode_row parse_json as_f64 lines = Inr events \<longleftrightarrow>
    (\<exists>items m. try_map (decode_line decode_row parse_json as_f64) (filter (\<lambda>line. trim line \<noteq> '''') lines) = Inr items
       \<and> inj_on batch_id (set items) \<and> btree_invar m \<and> set m = loaded_rows.keyed (set items)
       \<and> events = sort_key batch_order (map snd m))"
  by (auto simp: load_body_def and_then_eq_Inr loaded_rows.collect_ok)

lemma batch_order_inj: "inj_on batch_id A \<Longrightarrow> inj_on batch_order A"
  by (auto simp: inj_on_def batch_order_def batch_id_def)

lemma load_body_events:
  assumes "load_body decode_row parse_json as_f64 lines = Inr events"
  obtains items where
    "try_map (decode_line decode_row parse_json as_f64) (filter (\<lambda>line. trim line \<noteq> '''') lines) = Inr items"
    "inj_on batch_id (set items)" "set events = set items" "distinct events" "sorted (map batch_order events)"
proof -
  obtain items m where i:
    "try_map (decode_line decode_row parse_json as_f64) (filter (\<lambda>line. trim line \<noteq> '''') lines) = Inr items"
    and inj: "inj_on batch_id (set items)" and m: "btree_invar m" "set m = loaded_rows.keyed (set items)"
    and e: "events = sort_key batch_order (map snd m)"
    using assms by (auto simp: load_body_ok)
  have "set (map snd m) = set items" using m(2) by (auto simp: loaded_rows.keyed_def image_iff)
  moreover have "distinct m" using m(1) by (auto simp: btree_invar_def strict_sorted_iff distinct_map)
  then have "distinct (map snd m)"
    using m(2) inj by (auto simp: distinct_map loaded_rows.keyed_def inj_on_def)
  ultimately show thesis using that [OF i inj] by (simp add: e)
qed

text \<open>The result is determined by the set of the decoded rows.\<close>

lemma sorted_batch_unique:
  assumes "set xs = set ys" "distinct xs" "distinct ys" "sorted (map batch_order xs)" "sorted (map batch_order ys)"
    "inj_on batch_id (set xs)"
  shows "xs = ys"
  using assms batch_order_inj [OF assms(6)]
  by (intro map_sorted_distinct_set_unique [where f = batch_order]) (auto simp: distinct_map)

end
