(* ===== verification/Normalized_Store.thy ===== *)
theory Normalized_Store
  imports Normalizer_Core Mvp_Source
begin

text \<open>
  The store of normalized events (\<open>clickhouse.rs\<close>). A stored row carries the event, its transformation
  and the identity of its publication. Parameters: the coding of a row as JSON, \<open>serde_json::from_str\<close>,
  the doubles of JSON numbers, and the answers of ClickHouse to a query and to an insertion.
\<close>

record stored_normalization =
  sn_logical_key :: string
  sn_tenant_id :: string
  sn_normalized_event_id :: string
  sn_raw_event_id :: string
  sn_event_time_present :: "8 word"
  sn_event_time_seconds :: int
  sn_event_time_nanos :: int
  sn_ingest_time_seconds :: int
  sn_ingest_time_nanos :: int
  sn_normalized_at_seconds :: int
  sn_normalized_at_nanos :: int
  sn_ocsf_version :: string
  sn_class_uid :: "32 word"
  sn_category_uid :: "32 word"
  sn_activity_id :: "32 word option"
  sn_severity :: "32 word option"
  sn_parser_id :: string
  sn_parser_version :: string
  sn_mapping_id :: string
  sn_mapping_version :: string
  sn_normalization_status :: int
  sn_normalized_hash_algorithm :: string
  sn_normalized_hash :: string
  sn_pipeline_version :: string
  sn_ocsf_event_json :: string
  sn_transformation_id :: string
  sn_configuration_hash :: string
  sn_execution_mode :: int
  sn_publication_message_id :: string
  sn_causation_message_id :: string
  sn_trace_id :: string
  sn_correlation_id :: string
  sn_producer_component_version :: string
  sn_producer_instance_id :: string

definition stored_invalid :: "string \<Rightarrow> normalizer_error" where
  "stored_invalid message = fatal ''CER-NORM-STORED-ROW'' message"

definition validate_hash_key :: "string \<Rightarrow> (unit, normalizer_error) result" where
  "validate_hash_key key =
    (if length key = 64 \<and> list_all (\<lambda>c. is_ascii_hexdigit c \<and> \<not> is_ascii_uppercase c) key then Inr ()
     else Inl (stored_invalid ''logical normalization key must be lowercase SHA-256 hex''))"

definition clickhouse_transport :: "string \<Rightarrow> normalizer_error" where
  "clickhouse_transport e = transient ''CER-NORM-CLICKHOUSE-UNAVAILABLE'' e"

definition clickhouse_server :: "nat \<Rightarrow> string \<Rightarrow> normalizer_error" where
  "clickhouse_server status body =
    \<lparr>ne_code = ''CER-NORM-CLICKHOUSE-ERROR'', ne_message = ''ClickHouse HTTP '' @ show_nat status @ '': '' @ body,
     ne_retryable = (status \<ge> 500 \<or> status = 429)\<rparr>"

text \<open>The body of a successful answer.\<close>

definition clickhouse_body :: "http_outcome \<Rightarrow> (string, normalizer_error) result" where
  "clickhouse_body outcome = (case outcome of
      TransportFailed e \<Rightarrow> Inl (clickhouse_transport e)
    | ReadFailed e \<Rightarrow> Inl (clickhouse_transport e)
    | Response status body \<Rightarrow>
        if 200 \<le> status \<and> status < 300 then Inr body else Inl (clickhouse_server status body))"

section \<open>Queries\<close>

definition find_query :: "string \<Rightarrow> string \<Rightarrow> string" where
  "find_query database logical_key = ''SELECT * FROM '' @ database @ ''.normalized_events WHERE logical_key = '' @ [CHR 0x27]
     @ logical_key @ [CHR 0x27] @ '' LIMIT 1 FORMAT JSONEachRow''"

definition found_row ::
  "(string \<Rightarrow> (stored_normalization, string) result) \<Rightarrow> http_outcome \<Rightarrow> (stored_normalization option, normalizer_error) result" where
  "found_row decode_row outcome =
    and_then (clickhouse_body outcome) (\<lambda>body.
    if trim body = '''' then Inr None
    else and_then (map_err (\<lambda>e. fatal ''CER-NORM-CLICKHOUSE-DECODE'' (''decode ClickHouse normalization row: '' @ e))
      (decode_row (trim body))) (\<lambda>row. Inr (Some row)))"

definition insert_parameters :: "string \<Rightarrow> stored_normalization \<Rightarrow> (string \<times> string) list" where
  "insert_parameters database row =
    [(''query'', ''INSERT INTO '' @ database @ ''.normalized_events FORMAT JSONEachRow''), (''async_insert'', ''0''),
     (''insert_deduplication_token'', sn_logical_key row)]"

definition insert_body ::
  "(stored_normalization \<Rightarrow> (string, string) result) \<Rightarrow> stored_normalization \<Rightarrow> (string, normalizer_error) result" where
  "insert_body encode_row row =
    and_then (map_err (\<lambda>e. fatal ''CER-NORM-CLICKHOUSE-ENCODE'' (''encode ClickHouse normalization row: '' @ e)) (encode_row row))
      (\<lambda>body. Inr (body @ [CHR 0x0A]))"

definition not_readable :: normalizer_error where
  "not_readable = transient ''CER-NORM-CLICKHOUSE-READBACK'' ''ClickHouse acknowledged insert but logical row was not readable''"

section \<open>Rows and events\<close>

definition from_plan ::
  "normalization_plan \<Rightarrow> timestamp option \<Rightarrow> timestamp \<Rightarrow> envelope \<Rightarrow> string \<Rightarrow> string \<Rightarrow> string
     \<Rightarrow> (stored_normalization, normalizer_error) result" where
  "from_plan plan event_time ingest_time incoming publication_message_id component_version instance_id =
    (let ev = np_normalized_event plan; tf = np_transformation plan in
     and_then (ok_or (stored_invalid ''NormalizedEvent.normalized_at is required'') (ne_normalized_at ev)) (\<lambda>normalized_at.
     and_then (map_err (fatal ''CER-NORM-OCSF-UTF8'') (from_utf8 (np_canonical_ocsf_json plan))) (\<lambda>json_text.
     Inr \<lparr>sn_logical_key = np_logical_key plan, sn_tenant_id = ne_tenant_id ev,
       sn_normalized_event_id = ne_normalized_event_id ev, sn_raw_event_id = ne_raw_event_id ev,
       sn_event_time_present = (if event_time = None then 0 else 1),
       sn_event_time_seconds = (case event_time of None \<Rightarrow> 0 | Some t \<Rightarrow> seconds t),
       sn_event_time_nanos = (case event_time of None \<Rightarrow> 0 | Some t \<Rightarrow> nanos t),
       sn_ingest_time_seconds = seconds ingest_time, sn_ingest_time_nanos = nanos ingest_time,
       sn_normalized_at_seconds = seconds normalized_at, sn_normalized_at_nanos = nanos normalized_at,
       sn_ocsf_version = ne_ocsf_version ev, sn_class_uid = ne_class_uid ev, sn_category_uid = ne_category_uid ev,
       sn_activity_id = ne_activity_id ev, sn_severity = ne_severity ev, sn_parser_id = ne_parser_id ev,
       sn_parser_version = ne_parser_version ev, sn_mapping_id = np_mapping_id plan,
       sn_mapping_version = np_mapping_version plan, sn_normalization_status = ne_normalization_status ev,
       sn_normalized_hash_algorithm = ne_normalized_hash_algorithm ev, sn_normalized_hash = ne_normalized_hash ev,
       sn_pipeline_version = ne_pipeline_version ev, sn_ocsf_event_json = json_text,
       sn_transformation_id = tf_transformation_id tf, sn_configuration_hash = tf_configuration_hash tf,
       sn_execution_mode = tf_execution_mode tf, sn_publication_message_id = publication_message_id,
       sn_causation_message_id = en_message_id incoming, sn_trace_id = en_trace_id incoming,
       sn_correlation_id = en_correlation_id incoming, sn_producer_component_version = component_version,
       sn_producer_instance_id = instance_id\<rparr>)))"

definition stored_normalized_at :: "stored_normalization \<Rightarrow> timestamp" where
  "stored_normalized_at row = \<lparr>seconds = sn_normalized_at_seconds row, nanos = sn_normalized_at_nanos row\<rparr>"

definition stored_normalized_event ::
  "(string \<Rightarrow> (string json, string) result) \<Rightarrow> (string \<Rightarrow> f64 option) \<Rightarrow> stored_normalization
     \<Rightarrow> (normalized_event, normalizer_error) result" where
  "stored_normalized_event parse_json as_f64 row =
    and_then (map_err (\<lambda>e. fatal ''CER-NORM-OCSF-DECODE'' (''decode stored canonical OCSF JSON: '' @ e))
      (parse_json (sn_ocsf_event_json row))) (\<lambda>node.
    and_then (json_to_struct (stored_invalid ''stored OCSF event root must be an object'')
      (stored_invalid ''stored OCSF number cannot be represented by protobuf Struct'') as_f64 node) (\<lambda>ocsf_event.
    Inr \<lparr>ne_normalized_event_id = sn_normalized_event_id row, ne_raw_event_id = sn_raw_event_id row,
      ne_tenant_id = sn_tenant_id row, ne_normalized_at = Some (stored_normalized_at row),
      ne_ocsf_version = sn_ocsf_version row, ne_class_uid = sn_class_uid row, ne_category_uid = sn_category_uid row,
      ne_severity = sn_severity row, ne_activity_id = sn_activity_id row, ne_ocsf_event = Some ocsf_event,
      ne_parser_id = sn_parser_id row, ne_parser_version = sn_parser_version row,
      ne_normalization_status = sn_normalization_status row,
      ne_normalized_hash_algorithm = sn_normalized_hash_algorithm row, ne_normalized_hash = sn_normalized_hash row,
      ne_pipeline_version = sn_pipeline_version row\<rparr>))"

definition stored_transformation :: "stored_normalization \<Rightarrow> transformation" where
  "stored_transformation row =
    \<lparr>tf_transformation_id = sn_transformation_id row, tf_input_object_id = sn_raw_event_id row,
     tf_input_object_type = ''RawEvent'', tf_output_object_id = sn_normalized_event_id row,
     tf_output_object_type = ''NormalizedEvent'', tf_component = ''cerbero-normalizer:'' @ sn_mapping_id row,
     tf_component_version = sn_mapping_version row, tf_configuration_hash = sn_configuration_hash row,
     tf_started_at = Some (stored_normalized_at row), tf_completed_at = Some (stored_normalized_at row),
     tf_status = 1, tf_error = None, tf_execution_mode = sn_execution_mode row\<rparr>"

definition execution_mode_try_from :: "int \<Rightarrow> execution_mode option" where
  "execution_mode_try_from i = find (\<lambda>m. execution_mode_i32 m = i) [ModeUnspecified, Live, Replay, Test]"

definition normalization_status_try_from :: "int \<Rightarrow> normalization_status option" where
  "normalization_status_try_from i =
    find (\<lambda>s. normalization_status_i32 s = i) [NormUnspecified, NormSuccess, NormPartial, NormFailed]"

definition stored_execution_mode :: "stored_normalization \<Rightarrow> execution_mode option" where
  "stored_execution_mode row = execution_mode_try_from (sn_execution_mode row)"

definition stored_normalization_status :: "stored_normalization \<Rightarrow> normalization_status option" where
  "stored_normalization_status row = normalization_status_try_from (sn_normalization_status row)"

lemma execution_mode_try_from_i32 [simp]: "execution_mode_try_from (execution_mode_i32 m) = Some m"
  by (cases m) (simp_all add: execution_mode_try_from_def)

end
