(* ===== verification/Dead_Letter.thy ===== *)
theory Dead_Letter
  imports Runtime_Config Normalized_Store
begin

text \<open>
  Dead letters (\<open>dead_letter.rs\<close>) and the messages the normalizer publishes (\<open>eventbus.rs\<close>:
  \<open>publish_normalized\<close>, \<open>publish_normalization_dlq\<close>). A publication is its subject, headers in insertion
  order and payload; the JetStream client answers with a failure or with the stream and sequence of the
  acknowledgement. Parameters: the protobuf and JSON encoders and SHA-256. An instant is a number of
  nanoseconds since the epoch.
\<close>

section \<open>Dead letters\<close>

definition NORMALIZATION_DLQ_SCHEMA :: string where "NORMALIZATION_DLQ_SCHEMA = ''cerbero.normalization_dlq.v1''"

record dead_letter_failure =
  df_error_code :: string
  df_error_message :: string
  df_retryable :: bool
  df_attempt_count :: "64 word"
  df_first_failure_at :: int
  df_last_failure_at :: int

record dead_letter =
  dl_schema_version :: string
  dl_dlq_record_id :: string
  dl_original_message_id :: "string option"
  dl_original_subject :: string
  dl_original_payload_sha256 :: string
  dl_consumer :: string
  dl_attempt_count :: "64 word"
  dl_stream_sequence :: "64 word option"
  dl_consumer_sequence :: "64 word option"
  dl_error_code :: string
  dl_error_category :: string
  dl_failure_stage :: string
  dl_error_message :: string
  dl_retryable :: bool
  dl_first_failure_unix_ms :: int
  dl_last_failure_unix_ms :: int
  dl_tenant_id :: "string option"
  dl_raw_event_id :: "string option"
  dl_parser_id :: "string option"
  dl_parser_version :: "string option"
  dl_request_id :: "string option"
  dl_trace_id :: "string option"
  dl_correlation_id :: "string option"
  dl_replay_root_dlq_record_id :: "string option"
  dl_replay_attempt :: "32 word option"

definition starts_with :: "string \<Rightarrow> string \<Rightarrow> bool" where
  "starts_with p s \<longleftrightarrow> strip_prefix p s \<noteq> None"

definition error_category :: "string \<Rightarrow> string" where
  "error_category code =
    (if starts_with ''CER-PARSE-'' code then ''PARSING''
     else if starts_with ''CER-NORM-RAW-HASH'' code \<or> starts_with ''CER-NORM-RAW-LENGTH'' code
       \<or> starts_with ''CER-NORM-RAW-INTEGRITY'' code then ''INTEGRITY''
     else if starts_with ''CER-NORM-CLICKHOUSE'' code \<or> starts_with ''CER-NORM-RAW-STORE'' code then ''STORAGE''
     else if starts_with ''CER-NORM-NATS'' code \<or> starts_with ''CER-NORM-PUBLISH'' code then ''TRANSPORT''
     else if starts_with ''CER-NORM-MAPPING'' code \<or> starts_with ''CER-NORM-CONTRACT'' code
       \<or> starts_with ''CER-NORM-TRANSFORMATION'' code \<or> starts_with ''CER-NORM-SOURCE-TIME'' code then ''NORMALIZATION''
     else ''INTERNAL'')"

definition failure_stage :: "string \<Rightarrow> string" where
  "failure_stage code =
    (if starts_with ''CER-PARSE-'' code then ''parsing''
     else if starts_with ''CER-NORM-MAPPING'' code then ''mapping''
     else if starts_with ''CER-NORM-CLICKHOUSE'' code then ''normalized_storage''
     else if starts_with ''CER-NORM-RAW'' code then ''raw_read_or_integrity''
     else if starts_with ''CER-NORM-ENVELOPE'' code \<or> starts_with ''CER-NORM-PAYLOAD'' code
       \<or> starts_with ''CER-NORM-TENANT'' code \<or> starts_with ''CER-NORM-UNSUPPORTED-CONTRACT'' code then ''handoff_validation''
     else if starts_with ''CER-NORM-PUBLISH'' code \<or> starts_with ''CER-NORM-NATS'' code then ''event_bus''
     else ''normalization'')"

definition system_time_millis :: "int \<Rightarrow> int" where
  "system_time_millis t = (if t < 0 then 0 else if fits_i64 (t div 10 ^ 6) then t div 10 ^ 6 else i64_max)"

definition non_empty :: "string \<Rightarrow> string option" where
  "non_empty s = (if s = '''' then None else Some s)"

definition dlq_source_identity ::
  "string \<Rightarrow> 64 word option \<Rightarrow> string option \<Rightarrow> 32 word option \<Rightarrow> 64 word option \<Rightarrow> string \<times> 64 word option" where
  "dlq_source_identity subject sequence replay_root replay_attempt replay_sequence =
    (if subject = RAW_REPLAY_SUBJECT \<and> replay_root \<noteq> None \<and> replay_attempt \<noteq> None \<and> replay_sequence \<noteq> None
     then (RAW_PERSISTED_SUBJECT, replay_sequence)
     else (subject, sequence))"

definition positive_header :: "(string \<Rightarrow> 'l :: len word option) \<Rightarrow> string option \<Rightarrow> 'l word option" where
  "positive_header parse_number v =
    Option.bind (Option.bind v parse_number) (\<lambda>n. if n > 0 then Some n else None)"

definition from_message ::
  "(string \<Rightarrow> string) \<Rightarrow> (string \<Rightarrow> (envelope, string) result) \<Rightarrow> (string \<Rightarrow> (raw_event_persisted, string) result)
     \<Rightarrow> string \<Rightarrow> bus_message \<Rightarrow> string \<Rightarrow> dead_letter_failure \<Rightarrow> (string \<times> string) option \<Rightarrow> dead_letter" where
  "from_message digest decode_envelope decode_persisted record_id msg consumer failure identity =
    (let envelope = (case decode_envelope (bm_payload msg) of Inl _ \<Rightarrow> None | Inr e \<Rightarrow> Some e);
         persisted = Option.bind (Option.bind envelope en_payload) (\<lambda>payload.
           case decode_persisted (any_value payload) of Inl _ \<Rightarrow> None | Inr p \<Rightarrow> Some p);
         replay_root = Option.bind (bm_header msg REPLAY_ROOT_DLQ_RECORD_ID_HEADER) non_empty;
         replay_attempt = positive_header parse_u32 (bm_header msg REPLAY_ATTEMPT_HEADER);
         replay_sequence = positive_header parse_u64 (bm_header msg REPLAY_SOURCE_STREAM_SEQUENCE_HEADER);
         (subject, sequence) = dlq_source_identity (bm_subject msg) (map_option mi_stream_sequence (bm_info msg))
           replay_root replay_attempt replay_sequence
     in \<lparr>dl_schema_version = NORMALIZATION_DLQ_SCHEMA, dl_dlq_record_id = record_id,
         dl_original_message_id = Option.bind envelope (\<lambda>e. non_empty (en_message_id e)),
         dl_original_subject = subject, dl_original_payload_sha256 = sha256_lower_hex digest (bm_payload msg),
         dl_consumer = consumer, dl_attempt_count = df_attempt_count failure, dl_stream_sequence = sequence,
         dl_consumer_sequence = map_option mi_consumer_sequence (bm_info msg), dl_error_code = df_error_code failure,
         dl_error_category = error_category (df_error_code failure), dl_failure_stage = failure_stage (df_error_code failure),
         dl_error_message = df_error_message failure, dl_retryable = df_retryable failure,
         dl_first_failure_unix_ms = system_time_millis (df_first_failure_at failure),
         dl_last_failure_unix_ms = system_time_millis (df_last_failure_at failure),
         dl_tenant_id = Option.bind envelope (\<lambda>e. non_empty (en_tenant_id e)),
         dl_raw_event_id = Option.bind persisted (\<lambda>p. non_empty (rp_event_id p)),
         dl_parser_id = map_option fst identity, dl_parser_version = map_option snd identity,
         dl_request_id = Option.bind (bm_header msg REQUEST_ID_HEADER) non_empty,
         dl_trace_id = Option.bind envelope (\<lambda>e. non_empty (en_trace_id e)),
         dl_correlation_id = Option.bind envelope (\<lambda>e. non_empty (en_correlation_id e)),
         dl_replay_root_dlq_record_id = replay_root, dl_replay_attempt = replay_attempt\<rparr>)"

definition nats_message_id :: "dead_letter \<Rightarrow> string" where
  "nats_message_id letter =
    (case (dl_replay_root_dlq_record_id letter, dl_replay_attempt letter) of
       (Some replay_root, Some replay_attempt) \<Rightarrow> ''normalization-dlq:v1:replay:'' @ replay_root @ '':''
         @ show_nat (unat replay_attempt) @ '':'' @ dl_original_payload_sha256 letter
     | _ \<Rightarrow> (case dl_original_message_id letter of
         Some message_id \<Rightarrow> ''normalization-dlq:v1:'' @ message_id @ '':'' @ dl_original_payload_sha256 letter
       | None \<Rightarrow> (case dl_stream_sequence letter of
           Some sequence \<Rightarrow> ''normalization-dlq:v1:stream:'' @ show_nat (unat sequence)
         | None \<Rightarrow> ''normalization-dlq:v1:payload:'' @ dl_original_payload_sha256 letter)))"

section \<open>Publications\<close>

definition NATS_MESSAGE_ID_HEADER :: string where "NATS_MESSAGE_ID_HEADER = ''Nats-Msg-Id''"
definition EXECUTION_MODE_HEADER :: string where "EXECUTION_MODE_HEADER = ''Cerbero-Execution-Mode''"
definition DLQ_SCHEMA_HEADER :: string where "DLQ_SCHEMA_HEADER = ''Cerbero-DLQ-Schema''"

record publication =
  pb_subject :: string
  pb_headers :: "(string \<times> string) list"
  pb_payload :: string

datatype publish_outcome = PublishFailed string | PubAck string "64 word"

definition transport_error :: "string \<Rightarrow> normalizer_error" where
  "transport_error e = transient ''CER-NORM-NATS-UNAVAILABLE'' e"

definition publish_contract :: "string \<Rightarrow> normalizer_error" where
  "publish_contract m = fatal ''CER-NORM-PUBLISH-CONTRACT'' m"

text \<open>What an answer means: accepted by the expected stream, or an error to retry.\<close>

definition accepted :: "string \<Rightarrow> (string \<Rightarrow> 64 word \<Rightarrow> normalizer_error) \<Rightarrow> publish_outcome \<Rightarrow> (unit, normalizer_error) result" where
  "accepted stream_name unexpected outcome = (case outcome of
      PublishFailed e \<Rightarrow> Inl (transport_error e)
    | PubAck s n \<Rightarrow> if s \<noteq> stream_name \<or> n = 0 then Inl (unexpected s n) else Inr ())"

definition normalized_accepted :: "publish_outcome \<Rightarrow> (unit, normalizer_error) result" where
  "normalized_accepted = accepted ANALYTICS_STREAM_NAME (\<lambda>s n. transient ''CER-NORM-PUBLISH-ACK''
     (''unexpected JetStream PubAck stream='' @ s @ '' sequence='' @ show_nat (unat n)))"

definition dlq_accepted :: "publish_outcome \<Rightarrow> (unit, normalizer_error) result" where
  "dlq_accepted = accepted DLQ_STREAM_NAME (\<lambda>s n. transient ''CER-NORM-DLQ-PUBLISH-ACK''
     (''unexpected normalization DLQ PubAck stream='' @ s @ '' sequence='' @ show_nat (unat n)))"

definition normalized_envelope :: "string \<Rightarrow> timestamp \<Rightarrow> stored_normalization \<Rightarrow> envelope" where
  "normalized_envelope payload emitted_at row =
    \<lparr>en_contract_version = ''1'', en_message_id = sn_publication_message_id row,
     en_message_type = ''NormalizedEventCreated'', en_tenant_id = sn_tenant_id row,
     en_producer = Some \<lparr>pr_component = ''cerbero-normalizer'', pr_component_version = sn_producer_component_version row,
       pr_instance_id = sn_producer_instance_id row\<rparr>,
     en_emitted_at = Some emitted_at, en_trace_id = sn_trace_id row, en_causation_id = sn_causation_message_id row,
     en_correlation_id = sn_correlation_id row, en_payload_schema = ''cerbero.normalized_event.v1'',
     en_payload = Some \<lparr>any_type_url = ''type.googleapis.com/cerbero.contracts.v1.NormalizedEvent'', any_value = payload\<rparr>\<rparr>"

definition normalized_publication ::
  "(string \<Rightarrow> (string json, string) result) \<Rightarrow> (string \<Rightarrow> f64 option) \<Rightarrow> (normalized_event \<Rightarrow> string) \<Rightarrow> (envelope \<Rightarrow> string)
     \<Rightarrow> stored_normalization \<Rightarrow> string option \<Rightarrow> (publication, normalizer_error) result" where
  "normalized_publication parse_json as_f64 encode_normalized encode_envelope row request_id =
    and_then (stored_normalized_event parse_json as_f64 row) (\<lambda>normalized.
    and_then (ok_or (publish_contract ''stored NormalizedEvent.normalized_at is required'') (ne_normalized_at normalized)) (\<lambda>emitted_at.
    let envelope = normalized_envelope (encode_normalized normalized) emitted_at row in
    and_then (map_err (\<lambda>e. publish_contract (display_violation e)) (validate_envelope envelope)) (\<lambda>_.
    and_then (ok_or (publish_contract ''stored normalization execution_mode is invalid'') (stored_execution_mode row)) (\<lambda>mode.
    and_then (execution_mode_header_value mode) (\<lambda>mode_text.
    Inr \<lparr>pb_subject = NORMALIZED_CREATED_SUBJECT,
      pb_headers = [(NATS_MESSAGE_ID_HEADER, sn_publication_message_id row), (EXECUTION_MODE_HEADER, mode_text)]
        @ (case request_id of None \<Rightarrow> [] | Some r \<Rightarrow> if r = '''' then [] else [(REQUEST_ID_HEADER, r)]),
      pb_payload = encode_envelope envelope\<rparr>)))))"

definition dlq_publication :: "(dead_letter \<Rightarrow> (string, string) result) \<Rightarrow> dead_letter \<Rightarrow> (publication, normalizer_error) result" where
  "dlq_publication encode_dlq letter =
    and_then (map_err (fatal ''CER-NORM-DLQ-ENCODE'') (encode_dlq letter)) (\<lambda>bytes.
    Inr \<lparr>pb_subject = NORMALIZATION_DLQ_SUBJECT,
      pb_headers = [(NATS_MESSAGE_ID_HEADER, nats_message_id letter), (DLQ_SCHEMA_HEADER, dl_schema_version letter)]
        @ (case dl_request_id letter of None \<Rightarrow> [] | Some r \<Rightarrow> [(REQUEST_ID_HEADER, r)]),
      pb_payload = bytes\<rparr>)"

end
