(* ===== verification/Raw_Store.thy ===== *)
theory Raw_Store
  imports Event_Bus "HOL-Library.Sublist"
begin

text \<open>
  The reader of the raw store (\<open>raw_store.rs\<close>). The file system is a parameter: path resolution with
  the text of its errors, the kind of a path, opening, seeking and reading exactly a number of bytes.
  Paths follow \<open>std::path\<close> on Unix. A read is \<open>None\<close> when it panics: allocating the buffer does so when
  the declared length exceeds \<open>isize::MAX\<close>.
\<close>

section \<open>Paths\<close>

datatype path_component = RootDir | CurDir | ParentDir | NormalComponent string

text \<open>Empty components and inner dots are skipped; a dot is a component only at the start of a relative
  path.\<close>

definition body_component :: "string \<Rightarrow> path_component list" where
  "body_component s =
    (if s = '''' \<or> s = ''.'' then [] else if s = ''..'' then [ParentDir] else [NormalComponent s])"

definition path_components :: "string \<Rightarrow> path_component list" where
  "path_components path =
    (let segments = split_on CHR ''/'' path in
     (if path \<noteq> [] \<and> hd path = CHR ''/'' then [RootDir] else if hd segments = ''.'' then [CurDir] else [])
       @ concat (map body_component segments))"

definition path_starts_with :: "string \<Rightarrow> string \<Rightarrow> bool" where
  "path_starts_with base path \<longleftrightarrow> prefix (path_components base) (path_components path)"

text \<open>\<open>Path::join\<close>: an absolute path replaces the base.\<close>

definition path_join :: "string \<Rightarrow> string \<Rightarrow> string" where
  "path_join base path =
    (if path \<noteq> [] \<and> hd path = CHR ''/'' then path
     else if base = [] \<or> last base = CHR ''/'' then base @ path else base @ ''/'' @ path)"

fun is_normal :: "path_component \<Rightarrow> bool" where
  "is_normal (NormalComponent s) = True"
| "is_normal _ = False"

section \<open>Reading\<close>

record raw_fs =
  fs_canonicalize :: "string \<Rightarrow> (string, string) result"
  fs_is_dir :: "string \<Rightarrow> bool"
  fs_open :: "string \<Rightarrow> (unit, string) result"
  fs_seek :: "string \<Rightarrow> 64 word \<Rightarrow> (unit, string) result"
  fs_read_exact :: "string \<Rightarrow> 64 word \<Rightarrow> nat \<Rightarrow> (string, string) result"

definition new_raw_reader :: "raw_fs \<Rightarrow> string \<Rightarrow> (string, normalizer_error) result" where
  "new_raw_reader fs path =
    and_then (map_err (\<lambda>e. fatal ''CER-NORM-RAW-ROOT'' (''canonicalize Raw Store root: '' @ e)) (fs_canonicalize fs path)) (\<lambda>root_path.
    if fs_is_dir fs root_path then Inr root_path
    else Inl (fatal ''CER-NORM-RAW-ROOT'' ''Raw Store root is not a directory''))"

text \<open>The file the locator names: a canonical path below the root.\<close>

definition raw_path :: "raw_fs \<Rightarrow> string \<Rightarrow> string \<Rightarrow> (string, normalizer_error) result" where
  "raw_path fs root_path storage_uri =
    and_then (ok_or (fatal ''CER-NORM-RAW-URI'' ''storage_uri must use raw:/// for the DEVELOPMENT filesystem Raw Store'')
      (strip_prefix ''raw:///'' storage_uri)) (\<lambda>relative.
    if \<not> list_all is_normal (path_components relative)
    then Inl (fatal ''CER-NORM-RAW-URI'' ''storage_uri contains a non-normal path component'')
    else
    and_then (map_err (\<lambda>e. transient ''CER-NORM-RAW-READ'' (''resolve durable Raw Store object: '' @ e))
      (fs_canonicalize fs (path_join root_path relative))) (\<lambda>canonical.
    if \<not> path_starts_with root_path canonical
    then Inl (fatal ''CER-NORM-RAW-URI'' ''storage_uri resolves outside the configured Raw Store root'')
    else Inr canonical))"

definition ISIZE_MAX :: nat where "ISIZE_MAX = 2 ^ 63 - 1"

definition raw_read :: "raw_fs \<Rightarrow> string \<Rightarrow> raw_event_persisted \<Rightarrow> (string, normalizer_error) result option" where
  "raw_read fs root_path persisted =
    (case and_then (raw_path fs root_path (rp_storage_uri persisted)) (\<lambda>canonical.
          and_then (map_err (\<lambda>e. transient ''CER-NORM-RAW-READ'' (''open durable Raw Store object: '' @ e))
            (fs_open fs canonical)) (\<lambda>_.
          and_then (map_err (\<lambda>e. transient ''CER-NORM-RAW-READ'' (''seek durable Raw Store object: '' @ e))
            (fs_seek fs canonical (rp_offset persisted))) (\<lambda>_.
          Inr canonical))) of
       Inl e \<Rightarrow> Some (Inl e)
     | Inr canonical \<Rightarrow>
         if unat (rp_length persisted) > ISIZE_MAX then None
         else Some (map_err (\<lambda>e. transient ''CER-NORM-RAW-READ'' (''read exact durable Raw Store bytes: '' @ e))
           (fs_read_exact fs canonical (rp_offset persisted) (unat (rp_length persisted)))))"

section \<open>Containment\<close>

text \<open>Bytes are only read from below the root. Whatever the locator says and however the file system
  resolves links, the file that is read has a canonical path below the root of the store, and the
  locator itself never climbs.\<close>

theorem raw_read_contained:
  assumes "raw_read fs root_path persisted = Some (Inr bytes)"
  shows "\<exists>relative path. rp_storage_uri persisted = ''raw:///'' @ relative \<and> list_all is_normal (path_components relative)
    \<and> fs_canonicalize fs (path_join root_path relative) = Inr path \<and> path_starts_with root_path path
    \<and> fs_read_exact fs path (rp_offset persisted) (unat (rp_length persisted)) = Inr bytes"
  using assms
  by (auto simp: raw_read_def raw_path_def result_simps strip_prefix_eq_Some split: sum.splits if_splits)

end
