(* ===== verification/Normalizer_Runtime.thy ===== *)
theory Normalizer_Runtime
  imports Dead_Letter Raw_Store
begin

text \<open>
  The handling of one delivery by the normalizer (\<open>runtime.rs\<close>). The state is the identity source, the
  table of retry states and the log of what the handler did outside: queries, insertions, publications
  and acknowledgements with their answers. Every service answers as a function of the log so far, so it
  may behave arbitrarily and change its mind; a computation that ends in \<open>None\<close> panicked. The loop around
  the handler is in \<open>Runtime_Loop\<close>, the metrics in \<open>Metrics\<close>; the log lines on standard error are left out.
\<close>

section \<open>Effects\<close>

datatype ack_kind = DoubleAck | Term | Nak nat

datatype effect =
    Queried string http_outcome
  | Inserted "(string \<times> string) list" string http_outcome
  | Sent publication publish_outcome
  | AckSent ack_kind "(unit, string) result"
  | RetryStatement

record 'i world =
  w_ids :: 'i
  w_table :: retry_table
  w_log :: "effect list"

type_synonym ('i, 'a) io = "'i world \<Rightarrow> ('i world \<times> ('a, normalizer_error) result) option"

definition io_lift :: "('a, normalizer_error) result \<Rightarrow> ('i, 'a) io" where
  "io_lift r w = Some (w, r)"

text \<open>The result of a computation, error or not, handed on; and the operator \<open>?\<close>, which stops at an error.\<close>

definition io_match :: "('i, 'a) io \<Rightarrow> (('a, normalizer_error) result \<Rightarrow> ('i, 'b) io) \<Rightarrow> ('i, 'b) io" where
  "io_match c f w = (case c w of None \<Rightarrow> None | Some (w', r) \<Rightarrow> f r w')"

definition io_bind :: "('i, 'a) io \<Rightarrow> ('a \<Rightarrow> ('i, 'b) io) \<Rightarrow> ('i, 'b) io" where
  "io_bind c f = io_match c (\<lambda>r. case r of Inl e \<Rightarrow> io_lift (Inl e) | Inr x \<Rightarrow> f x)"

definition io_effect :: "effect \<Rightarrow> 'i world \<Rightarrow> 'i world" where
  "io_effect e w = w\<lparr>w_log := w_log w @ [e]\<rparr>"

record services =
  sv_get :: "effect list \<Rightarrow> string \<Rightarrow> http_outcome"
  sv_post :: "effect list \<Rightarrow> (string \<times> string) list \<Rightarrow> string \<Rightarrow> http_outcome"
  sv_publish :: "effect list \<Rightarrow> publication \<Rightarrow> publish_outcome"
  sv_ack :: "effect list \<Rightarrow> ack_kind \<Rightarrow> (unit, string) result"
  sv_fates :: "effect list \<Rightarrow> query_fate \<times> query_fate"
  sv_now :: "effect list \<Rightarrow> int"
  sv_fs :: "effect list \<Rightarrow> raw_fs"

text \<open>The libraries: decoders, encoders, the core's environment, UUID parsing, the source of version 7 UUIDs,
  the text of a clock before the epoch, and the conversions of the database client.\<close>

record ('o, 't, 'i) runtime_libs =
  rl_core :: "('o, 't) core_env"
  rl_decode_envelope :: "string \<Rightarrow> (envelope, string) result"
  rl_decode_persisted :: "string \<Rightarrow> (raw_event_persisted, string) result"
  rl_encode_envelope :: "envelope \<Rightarrow> string"
  rl_encode_normalized :: "normalized_event \<Rightarrow> string"
  rl_encode_row :: "stored_normalization \<Rightarrow> (string, string) result"
  rl_decode_row :: "string \<Rightarrow> (stored_normalization, string) result"
  rl_parse_json :: "string \<Rightarrow> (string json, string) result"
  rl_encode_dlq :: "dead_letter \<Rightarrow> (string, string) result"
  rl_parse_uuid :: "string \<Rightarrow> (128 word, string) result"
  rl_now_v7 :: "'i \<Rightarrow> 'i \<times> string"
  rl_before_epoch :: string
  rl_show_pg :: "pg_error \<Rightarrow> string"
  rl_to_pg :: "int \<Rightarrow> int"

text \<open>The processor: its configuration, the canonical root of the raw store and the core. The core's clock
  and identities are those of the world when it runs.\<close>

record ('o, 't, 'i) processor =
  pc_config :: "'o runtime_config"
  pc_raw_root :: string
  pc_core :: "('o, 'i) normalizer_core"
  pc_libs :: "('o, 't, 'i) runtime_libs"

section \<open>Building the core\<close>

definition system_next_id :: "('i \<Rightarrow> 'i \<times> string) \<Rightarrow> 'i \<Rightarrow> 'i \<times> (string, normalizer_error) result" where
  "system_next_id now_v7 ids = (case now_v7 ids of (ids, text) \<Rightarrow> (ids, Inr text))"

definition build_core ::
  "format_libs \<Rightarrow> 'o runtime_config \<Rightarrow> (timestamp, normalizer_error) result \<Rightarrow> ('i \<Rightarrow> 'i \<times> string) \<Rightarrow> 'i
     \<Rightarrow> (('o, 'i) normalizer_core, normalizer_error) result" where
  "build_core libs config clock now_v7 ids =
    and_then (new_core libs (cf_pipeline_version config) (cf_execution_mode config) (cf_linux_sshd_parser_version config)
      clock (system_next_id now_v7) ids) (\<lambda>core.
    Inr (set_source_time_policies (cf_source_time_policies config) core))"

section \<open>Access to the services\<close>

definition io_normalize ::
  "services \<Rightarrow> ('o, 't, 'i) processor \<Rightarrow> envelope \<Rightarrow> raw_event_persisted \<Rightarrow> string \<Rightarrow> ('i, normalization_plan) io" where
  "io_normalize sv pc incoming persisted raw w =
    (case normalize (rl_core (pc_libs pc))
       ((pc_core pc)\<lparr>nc_clock := system_clock (rl_before_epoch (pc_libs pc)) (sv_now sv (w_log w)), nc_ids := w_ids w\<rparr>)
       incoming persisted raw of
       None \<Rightarrow> None | Some (ids, r) \<Rightarrow> Some (w\<lparr>w_ids := ids\<rparr>, r))"

definition io_new_uuid :: "('o, 't, 'i) runtime_libs \<Rightarrow> ('i, string) io" where
  "io_new_uuid libs w = (case rl_now_v7 libs (w_ids w) of (ids, text) \<Rightarrow> Some (w\<lparr>w_ids := ids\<rparr>, Inr text))"

definition io_read :: "services \<Rightarrow> string \<Rightarrow> raw_event_persisted \<Rightarrow> ('i, string) io" where
  "io_read sv root_path persisted w =
    (case raw_read (sv_fs sv (w_log w)) root_path persisted of None \<Rightarrow> None | Some r \<Rightarrow> Some (w, r))"

definition find_by_logical_key ::
  "services \<Rightarrow> (string \<Rightarrow> (stored_normalization, string) result) \<Rightarrow> string \<Rightarrow> string \<Rightarrow> ('i, stored_normalization option) io" where
  "find_by_logical_key sv decode_row database logical_key =
    io_bind (io_lift (validate_hash_key logical_key)) (\<lambda>_ w.
    let query = find_query database logical_key; outcome = sv_get sv (w_log w) query in
    Some (io_effect (Queried query outcome) w, found_row decode_row outcome))"

definition io_insert :: "services \<Rightarrow> (string \<times> string) list \<Rightarrow> string \<Rightarrow> ('i, string) io" where
  "io_insert sv params body w =
    (let outcome = sv_post sv (w_log w) params body in
     Some (io_effect (Inserted params body outcome) w, clickhouse_body outcome))"

definition insert_and_read_back ::
  "services \<Rightarrow> (stored_normalization \<Rightarrow> (string, string) result) \<Rightarrow> (string \<Rightarrow> (stored_normalization, string) result)
     \<Rightarrow> string \<Rightarrow> stored_normalization \<Rightarrow> ('i, stored_normalization) io" where
  "insert_and_read_back sv encode_row decode_row database row =
    io_bind (io_lift (validate_hash_key (sn_logical_key row))) (\<lambda>_.
    io_bind (io_lift (insert_body encode_row row)) (\<lambda>body.
    io_bind (io_insert sv (insert_parameters database row) body) (\<lambda>_.
    io_bind (find_by_logical_key sv decode_row database (sn_logical_key row)) (\<lambda>found.
    io_lift (ok_or not_readable found)))))"

definition io_publish ::
  "services \<Rightarrow> (publish_outcome \<Rightarrow> (unit, normalizer_error) result) \<Rightarrow> publication \<Rightarrow> ('i, unit) io" where
  "io_publish sv meaning publication w =
    (let outcome = sv_publish sv (w_log w) publication in
     Some (io_effect (Sent publication outcome) w, meaning outcome))"

definition publish_normalized ::
  "services \<Rightarrow> ('o, 't, 'i) runtime_libs \<Rightarrow> stored_normalization \<Rightarrow> string option \<Rightarrow> ('i, unit) io" where
  "publish_normalized sv libs row request_id =
    io_bind (io_lift (normalized_publication (rl_parse_json libs) (ce_as_f64 (rl_core libs)) (rl_encode_normalized libs)
      (rl_encode_envelope libs) row request_id)) (io_publish sv normalized_accepted)"

definition publish_normalization_dlq ::
  "services \<Rightarrow> ('o, 't, 'i) runtime_libs \<Rightarrow> dead_letter \<Rightarrow> ('i, unit) io" where
  "publish_normalization_dlq sv libs letter =
    io_bind (io_lift (dlq_publication (rl_encode_dlq libs) letter)) (io_publish sv dlq_accepted)"

definition io_ack :: "services \<Rightarrow> string \<Rightarrow> ack_kind \<Rightarrow> ('i, unit) io" where
  "io_ack sv code ack w =
    (let outcome = sv_ack sv (w_log w) ack in
     Some (io_effect (AckSent ack outcome) w, map_err (transient code) outcome))"

definition nak_with_delay :: "services \<Rightarrow> nat \<Rightarrow> ('i, unit) io" where
  "nak_with_delay sv delay = io_ack sv ''CER-NORM-NATS-NAK'' (Nak delay)"

section \<open>The retry store\<close>

definition io_load :: "services \<Rightarrow> ('o, 't, 'i) runtime_libs \<Rightarrow> string \<Rightarrow> string \<Rightarrow> ('i, retry_state option) io" where
  "io_load sv libs consumer_name message_key w =
    Some (io_effect RetryStatement w,
      retry_load (rl_show_pg libs) (fst (sv_fates sv (w_log w))) consumer_name message_key (w_table w))"

definition io_record_failure :: "services \<Rightarrow> ('o, 't, 'i) runtime_libs \<Rightarrow> retry_failure \<Rightarrow> ('i, retry_state) io" where
  "io_record_failure sv libs f w =
    (case record_failure (rl_show_pg libs) (rl_to_pg libs) (sv_fates sv (w_log w)) f (w_table w) of
       (table, r) \<Rightarrow> Some (io_effect RetryStatement (w\<lparr>w_table := table\<rparr>), r))"

definition io_clear :: "services \<Rightarrow> ('o, 't, 'i) runtime_libs \<Rightarrow> string \<Rightarrow> string \<Rightarrow> ('i, unit) io" where
  "io_clear sv libs consumer_name message_key w =
    (case retry_clear (rl_show_pg libs) (fst (sv_fates sv (w_log w))) consumer_name message_key (w_table w) of
       (table, r) \<Rightarrow> Some (io_effect RetryStatement (w\<lparr>w_table := table\<rparr>), r))"

section \<open>Identity checks\<close>

definition validate_existing_identity ::
  "stored_normalization \<Rightarrow> string \<Rightarrow> derivation_identity \<Rightarrow> (unit, normalizer_error) result" where
  "validate_existing_identity row raw_event_id identity =
    (if sn_logical_key row = di_logical_key identity \<and> sn_raw_event_id row = raw_event_id
        \<and> sn_ocsf_version row = di_ocsf_version identity \<and> sn_pipeline_version row = di_pipeline_version identity
        \<and> sn_parser_id row = di_parser_id identity \<and> sn_parser_version row = di_parser_version identity
        \<and> sn_mapping_id row = di_mapping_id identity \<and> sn_mapping_version row = di_mapping_version identity
        \<and> sn_configuration_hash row = di_configuration_hash identity
        \<and> sn_execution_mode row = execution_mode_i32 (di_execution_mode identity)
     then Inr ()
     else Inl (fatal ''CER-NORM-IDEMPOTENCY-CONFLICT''
       ''stored logical normalization metadata conflicts with derivation identity''))"

definition plan_identity :: "normalization_plan \<Rightarrow> execution_mode \<Rightarrow> derivation_identity" where
  "plan_identity plan mode = (let ev = np_normalized_event plan in
    \<lparr>di_logical_key = np_logical_key plan, di_parser_id = ne_parser_id ev, di_parser_version = ne_parser_version ev,
     di_mapping_id = np_mapping_id plan, di_mapping_version = np_mapping_version plan, di_ocsf_version = ne_ocsf_version ev,
     di_pipeline_version = ne_pipeline_version ev, di_configuration_hash = tf_configuration_hash (np_transformation plan),
     di_execution_mode = mode\<rparr>)"

definition validate_existing_plan :: "stored_normalization \<Rightarrow> normalization_plan \<Rightarrow> (unit, normalizer_error) result" where
  "validate_existing_plan row plan =
    and_then (ok_or (fatal ''CER-NORM-IDEMPOTENCY-CONFLICT'' ''normalization plan execution_mode is invalid'')
      (execution_mode_try_from (tf_execution_mode (np_transformation plan)))) (\<lambda>mode.
    and_then (validate_existing_identity row (ne_raw_event_id (np_normalized_event plan)) (plan_identity plan mode)) (\<lambda>_.
    if sn_normalized_hash_algorithm row = ne_normalized_hash_algorithm (np_normalized_event plan)
       \<and> sn_normalized_hash row = ne_normalized_hash (np_normalized_event plan)
    then Inr ()
    else Inl (fatal ''CER-NORM-IDEMPOTENCY-CONFLICT''
      ''stored normalization payload metadata conflicts with normalization plan'')))"

section \<open>Processing\<close>

definition identity_mismatch :: "string \<Rightarrow> normalizer_error" where
  "identity_mismatch m = fatal ''CER-NORM-DERIVATION-IDENTITY'' m"

definition display_normalizer_error :: "normalizer_error \<Rightarrow> string" where
  "display_normalizer_error e = ne_code e @ '': '' @ ne_message e"

text \<open>A new row: normalize, insert, read back and compare.\<close>

definition normalize_and_store ::
  "services \<Rightarrow> ('o, 't, 'i) processor \<Rightarrow> incoming_raw_persisted \<Rightarrow> string \<Rightarrow> derivation_identity \<Rightarrow> ('i, stored_normalization) io" where
  "normalize_and_store sv pc incoming raw identity =
    io_bind (io_normalize sv pc (ic_envelope incoming) (ic_persisted incoming) raw) (\<lambda>plan.
    if np_logical_key plan \<noteq> di_logical_key identity
    then io_lift (Inl (identity_mismatch ''normalization plan identity differs from deterministic preflight''))
    else
    io_bind (io_lift (ok_or (fatal ''CER-NORM-MISSING-INGEST-TIME'' ''RawEventPersisted.ingest_time is required'')
      (rp_ingest_time (ic_persisted incoming)))) (\<lambda>ingest_time.
    io_bind (io_new_uuid (pc_libs pc)) (\<lambda>message_id.
    io_bind (io_lift (from_plan plan (np_resolved_event_time plan) ingest_time (ic_envelope incoming) message_id
      (cf_component_version (pc_config pc)) (cf_instance_id (pc_config pc)))) (\<lambda>candidate_row.
    io_bind (insert_and_read_back sv (rl_encode_row (pc_libs pc)) (rl_decode_row (pc_libs pc))
      (cf_clickhouse_database (pc_config pc)) candidate_row) (\<lambda>stored.
    io_bind (io_lift (validate_existing_plan stored plan)) (\<lambda>_.
    io_lift (Inr stored)))))))"

definition process_message :: "services \<Rightarrow> ('o, 't, 'i) processor \<Rightarrow> incoming_raw_persisted \<Rightarrow> ('i, unit) io" where
  "process_message sv pc incoming =
    io_bind (io_read sv (pc_raw_root pc) (ic_persisted incoming)) (\<lambda>raw.
    case derive_identity (rl_core (pc_libs pc)) (pc_core pc) (ic_persisted incoming) raw of
      Inl preflight_error \<Rightarrow>
        io_bind (io_normalize sv pc (ic_envelope incoming) (ic_persisted incoming) raw) (\<lambda>_.
        io_lift (Inl (identity_mismatch (''derivation preflight failed but normalization succeeded: ''
          @ display_normalizer_error preflight_error))))
    | Inr identity \<Rightarrow>
        io_bind (find_by_logical_key sv (rl_decode_row (pc_libs pc)) (cf_clickhouse_database (pc_config pc))
          (di_logical_key identity)) (\<lambda>found.
        case found of
          Some existing \<Rightarrow>
            io_bind (io_lift (validate_existing_identity existing (rp_event_id (ic_persisted incoming)) identity)) (\<lambda>_.
            publish_normalized sv (pc_libs pc) existing (ic_request_id incoming))
        | None \<Rightarrow>
            io_bind (normalize_and_store sv pc incoming raw identity) (\<lambda>stored.
            publish_normalized sv (pc_libs pc) stored (ic_request_id incoming))))"

section \<open>Isolation\<close>

definition io_ok :: "('i, 'a) io \<Rightarrow> ('i, 'a option) io" where
  "io_ok c = io_match c (\<lambda>r. io_lift (Inr (case r of Inl _ \<Rightarrow> None | Inr x \<Rightarrow> Some x)))"

definition best_effort_parser_identity ::
  "services \<Rightarrow> ('o, 't, 'i) processor \<Rightarrow> bus_message \<Rightarrow> ('i, (string \<times> string) option) io" where
  "best_effort_parser_identity sv pc msg = io_ok
    (io_bind (io_lift (decode_raw_persisted (rl_decode_envelope (pc_libs pc)) (rl_decode_persisted (pc_libs pc)) msg)) (\<lambda>incoming.
     io_bind (io_read sv (pc_raw_root pc) (ic_persisted incoming)) (\<lambda>raw.
     io_lift (parser_identity (pc_core pc) (ic_persisted incoming) raw))))"

definition dead_letter_failure_of :: "int \<Rightarrow> retry_state \<Rightarrow> dead_letter_failure" where
  "dead_letter_failure_of deliveries state =
    \<lparr>df_error_code = rs_last_error_code state, df_error_message = rs_last_error_message state,
     df_retryable = rs_last_error_retryable state, df_attempt_count = of_int (max deliveries 1),
     df_first_failure_at = rs_first_failure_at state, df_last_failure_at = rs_last_failure_at state\<rparr>"

definition delay_of :: "('o, 't, 'i) processor \<Rightarrow> int \<Rightarrow> string \<Rightarrow> nat" where
  "delay_of pc deliveries key = retry_delay_with_jitter (ce_digest (rl_core (pc_libs pc))) deliveries
     (cf_retry_min_delay (pc_config pc)) (cf_retry_max_delay (pc_config pc)) key"

definition handle_isolation ::
  "services \<Rightarrow> ('o, 't, 'i) processor \<Rightarrow> bus_message \<Rightarrow> int \<Rightarrow> string \<Rightarrow> retry_state \<Rightarrow> ('i, unit) io" where
  "handle_isolation sv pc msg deliveries failure_key state =
    io_bind (best_effort_parser_identity sv pc msg) (\<lambda>identity.
    io_bind (io_new_uuid (pc_libs pc)) (\<lambda>record_id.
    let letter = from_message (ce_digest (rl_core (pc_libs pc))) (rl_decode_envelope (pc_libs pc)) (rl_decode_persisted (pc_libs pc))
          record_id msg (rs_consumer_name state) (dead_letter_failure_of deliveries state) identity in
    io_match (publish_normalization_dlq sv (pc_libs pc) letter) (\<lambda>r. case r of
      Inr _ \<Rightarrow>
        io_bind (io_ack sv ''CER-NORM-NATS-TERM'' Term) (\<lambda>_.
        io_clear sv (pc_libs pc) (rs_consumer_name state) (rs_message_key state))
    | Inl _ \<Rightarrow> nak_with_delay sv (delay_of pc deliveries failure_key))))"

section \<open>Handling a delivery\<close>

text \<open>\<open>SystemTime::checked_add\<close>: the seconds of an instant are an \<open>i64\<close>.\<close>

definition system_time_add :: "int \<Rightarrow> nat \<Rightarrow> int option" where
  "system_time_add t delay = (if fits_i64 ((t + int delay) div 10 ^ 9) then Some (t + int delay) else None)"

definition retry_failure_of ::
  "('o, 't, 'i) processor \<Rightarrow> string \<Rightarrow> string \<Rightarrow> 128 word option \<Rightarrow> int \<Rightarrow> int \<Rightarrow> int \<Rightarrow> normalizer_error \<Rightarrow> retry_failure" where
  "retry_failure_of pc consumer_name message_key message_id deliveries occurred_at next_retry_at e =
    \<lparr>rf_consumer_name = consumer_name, rf_message_key = message_key, rf_message_id = message_id,
     rf_occurred_at = occurred_at, rf_retry_budget = cf_retry_budget (pc_config pc), rf_delivery_attempt = deliveries,
     rf_error_code = ne_code e, rf_error_message = ne_message e, rf_error_retryable = ne_retryable e,
     rf_next_retry_at = next_retry_at\<rparr>"

definition handle_processing_failure ::
  "services \<Rightarrow> ('o, 't, 'i) processor \<Rightarrow> bus_message \<Rightarrow> int \<Rightarrow> string \<Rightarrow> string \<Rightarrow> 128 word option \<Rightarrow> normalizer_error
     \<Rightarrow> ('i, unit) io" where
  "handle_processing_failure sv pc msg deliveries message_key consumer_name message_id e w =
    (let delay = delay_of pc deliveries message_key; occurred_at = sv_now sv (w_log w) in
     io_bind (io_lift (ok_or (fatal ''CER-NORM-RETRY-STATE-TIME'' ''normalizer retry time overflow'')
       (system_time_add occurred_at delay))) (\<lambda>next_retry_at.
     io_bind (io_record_failure sv (pc_libs pc)
       (retry_failure_of pc consumer_name message_key message_id deliveries occurred_at next_retry_at e)) (\<lambda>state.
     if \<not> isolation_required state then nak_with_delay sv delay
     else handle_isolation sv pc msg deliveries message_key state)) w)"

definition delivery_identity :: "(string \<Rightarrow> string) \<Rightarrow> bus_message \<Rightarrow> string" where
  "delivery_identity digest msg = (case bm_info msg of
      None \<Rightarrow> ''payload:'' @ sha256_lower_hex digest (bm_payload msg)
    | Some info \<Rightarrow> ''stream:'' @ show_nat (unat (mi_stream_sequence info)))"

definition deliveries_of :: "bus_message \<Rightarrow> int" where
  "deliveries_of msg = (case bm_info msg of None \<Rightarrow> 1 | Some info \<Rightarrow> max (mi_delivered info) 1)"

definition parse_message_id :: "('o, 't, 'i) runtime_libs \<Rightarrow> string \<Rightarrow> (128 word, normalizer_error) result" where
  "parse_message_id libs text = map_err (\<lambda>e. fatal ''CER-NORM-RETRY-STATE-IDENTITY''
     (''validated message_id could not be parsed as UUID: '' @ e)) (rl_parse_uuid libs text)"

text \<open>Decoding, processing and acknowledging a delivery that is not isolated.\<close>

definition handle_active :: "services \<Rightarrow> ('o, 't, 'i) processor \<Rightarrow> bus_message \<Rightarrow> string \<Rightarrow> string \<Rightarrow> ('i, unit) io" where
  "handle_active sv pc msg message_key consumer_name =
    (case decode_raw_persisted (rl_decode_envelope (pc_libs pc)) (rl_decode_persisted (pc_libs pc)) msg of
       Inl e \<Rightarrow> handle_processing_failure sv pc msg (deliveries_of msg) message_key consumer_name None e
     | Inr incoming \<Rightarrow>
         io_bind (io_lift (parse_message_id (pc_libs pc) (en_message_id (ic_envelope incoming)))) (\<lambda>message_id.
         io_match (process_message sv pc incoming) (\<lambda>outcome. case outcome of
           Inr _ \<Rightarrow>
             io_bind (io_clear sv (pc_libs pc) consumer_name message_key) (\<lambda>_.
             io_ack sv ''CER-NORM-NATS-ACK'' DoubleAck)
         | Inl e \<Rightarrow>
             handle_processing_failure sv pc msg (deliveries_of msg) message_key consumer_name (Some message_id) e)))"

definition handle_message :: "services \<Rightarrow> ('o, 't, 'i) processor \<Rightarrow> bus_message \<Rightarrow> ('i, unit) io" where
  "handle_message sv pc msg =
    (let message_key = delivery_identity (ce_digest (rl_core (pc_libs pc))) msg in
     io_bind (io_lift (normalizer_consumer_name (cf_execution_mode (pc_config pc)) (cf_replay_input (pc_config pc)))) (\<lambda>consumer_name.
     io_bind (io_load sv (pc_libs pc) consumer_name message_key) (\<lambda>state. case state of
       Some s \<Rightarrow>
         if isolation_required s then handle_isolation sv pc msg (deliveries_of msg) message_key s
         else handle_active sv pc msg message_key consumer_name
     | None \<Rightarrow> handle_active sv pc msg message_key consumer_name)))"

end
