(* ===== verification/Sample_Data.thy ===== *)
theory Sample_Data
  imports Threshold
begin

text \<open>
  Concrete identities, times, events, plans and policies on which the properties of the later
  theories are instantiated.
\<close>

definition sample_uuid :: "char \<Rightarrow> string" where
  "sample_uuid c = ''018f0000-0000-7000-8000-00000000000'' @ [c]"

definition sample_tenant :: string where
  "sample_tenant = sample_uuid CHR ''f''"

definition sample_time :: timestamp where
  "sample_time = \<lparr>seconds = 1700000000, nanos = 0\<rparr>"

lemma sample_uuid_hex: "is_ascii_hexdigit c \<Longrightarrow> uuid_v7 (sample_uuid c)"
  by (subst validate_uuid_v7_ok [of "''''" _ "()", symmetric])
    (simp add: validate_uuid_v7_def sample_uuid_def hyphen_positions_def byte_class_defs)

lemma sample_uuid_ok: "uuid_v7 (sample_uuid CHR ''1'')" "uuid_v7 (sample_uuid CHR ''2'')"
  "uuid_v7 (sample_uuid CHR ''3'')" "uuid_v7 (sample_uuid CHR ''4'')" "uuid_v7 (sample_uuid CHR ''5'')"
  "uuid_v7 (sample_uuid CHR ''6'')" "uuid_v7 (sample_uuid CHR ''7'')" "uuid_v7 sample_tenant"
  unfolding sample_tenant_def by (rule sample_uuid_hex, simp add: byte_class_defs)+

lemma sample_time_ok: "valid_timestamp sample_time"
  by (simp add: valid_timestamp_def sample_time_def)

lemma sample_time_fields [simp]: "seconds sample_time = 1700000000" "nanos sample_time = 0"
  by (simp_all add: sample_time_def)

lemma sample_uuid_eq [simp]: "sample_uuid a = sample_uuid b \<longleftrightarrow> a = b"
  by (simp add: sample_uuid_def)

lemma sample_validators [simp]:
  "validate_uuid_v7 field (sample_uuid CHR ''1'') = Inr ()"
  "validate_uuid_v7 field (sample_uuid CHR ''2'') = Inr ()"
  "validate_uuid_v7 field (sample_uuid CHR ''3'') = Inr ()"
  "validate_uuid_v7 field (sample_uuid CHR ''4'') = Inr ()"
  "validate_uuid_v7 field sample_tenant = Inr ()"
  "validate_timestamp field sample_time = Inr ()"
  by (simp_all add: result_simps sample_uuid_ok sample_time_ok)

definition sample_event :: "char \<Rightarrow> nat \<Rightarrow> normalized_event" where
  "sample_event c t = \<lparr>ne_normalized_event_id = sample_uuid c, ne_raw_event_id = sample_uuid c,
     ne_tenant_id = sample_tenant, ne_normalized_at = Some sample_time, ne_ocsf_version = ''1.3.0'',
     ne_class_uid = of_nat t, ne_category_uid = 3, ne_severity = None, ne_activity_id = None,
     ne_ocsf_event = Some [(''user'', Value (Some (StringValue ''root'')))],
     ne_parser_id = ''p'', ne_parser_version = ''1'', ne_normalization_status = 1,
     ne_normalized_hash_algorithm = ''sha256'', ne_normalized_hash = '''', ne_pipeline_version = ''1''\<rparr>"

text \<open>A plan over string fields that accepts every event in which \<open>user\<close> is present, groups by a
  constant key and takes the class uid as the time in milliseconds.\<close>

definition sample_leaf_policy :: "(string, string, pvalue, string) leaf_policy" where
  "sample_leaf_policy = \<lparr>
     evaluate_exists = (\<lambda>_ state. case state of Present _ \<Rightarrow> Inr True | _ \<Rightarrow> Inr False),
     evaluate_comparison = (\<lambda>_ state p v. case state of
        Present w \<Rightarrow> Inr (p = CEq \<and> (case kind w of Some (StringValue s) \<Rightarrow> s = v | _ \<Rightarrow> False))
      | _ \<Rightarrow> Inl ''not present'')\<rparr>"

definition sample_policy :: "(string, string, nat, string) threshold_policy" where
  "sample_policy = \<lparr>tp_leaf = sample_leaf_policy,
     threshold_group_key = (\<lambda>_ _. Inr (Some 0)),
     threshold_event_time_millis = (\<lambda>_ _ e. Inr (Some (uint (ne_class_uid e))))\<rparr>"

definition sample_event_plan ::
  "(unit, string, string, string, unit, unit, unit, unit, unit) event_plan" where
  "sample_event_plan = \<lparr>plan_id = (), plan_rule_id = RuleId ''CER-DET-000001'',
     plan_rule_version = ''1'', plan_backend = ClickHouse, required_fields = (),
     predicates = PExists ''user'', grouping = (), plan_window = (), resource_limits = (), plan_hash = ()\<rparr>"

definition sample_plan ::
  "(unit, string, string, string, unit, unit, unit, unit, unit, unit) threshold_plan" where
  "sample_plan = \<lparr>ctp_filter = \<lparr>compiled_plan = sample_event_plan, compiled_field_profile = (),
       compiled_supported_backends = capabilities_new True False\<rparr>,
     ctp_group_by = [''user''], ctp_aggregation = Count, ctp_threshold = 2,
     ctp_window = \<lparr>tw_duration_millis = 10, tw_time_basis = EventTime, tw_time_field = ''time'',
       tw_late_event_policy = Accept\<rparr>,
     ctp_supported_backends = capabilities_new True False\<rparr>"

lemmas sample_eval_defs = evaluate_threshold_normalized_events_def sample_event_def sample_plan_def
  sample_policy_def sample_leaf_policy_def sample_event_plan_def threshold_candidate_def
  evaluate_event_execution_plan_def field_state_def resolve_ocsf_field_def classify_value_def
  btree_push_def btree_get_def threshold_sorted_match_def candidate_order_def advance_left.simps
  i64_try_from_def fits_i64_def checked_i64_def validate_timestamp_def proto_timestamp_defs
  timestamp_from_millis_def List.map_filter_simps Let_def

definition sample_batch :: "normalized_event list" where
  "sample_batch = [sample_event CHR ''1'' 5, sample_event CHR ''2'' 30, sample_event CHR ''3'' 12]"

definition sample_match :: "string threshold_signal_provenance" where
  "sample_match = \<lparr>tsp_rule_id = RuleId ''CER-DET-000001'', tsp_rule_version = ''1'',
     tsp_tenant_id = sample_tenant,
     tsp_normalized_event_ids = [sample_uuid CHR ''1'', sample_uuid CHR ''3''],
     tsp_first_observed_at = timestamp_from_millis 5, tsp_last_observed_at = timestamp_from_millis 12,
     tsp_evaluated_at = sample_time, tsp_execution_backend = ClickHouse, tsp_execution_mode = Test\<rparr>"

lemma sample_eval:
  "evaluate_threshold_normalized_events (\<lambda>f. f) sample_plan sample_batch Test sample_time sample_policy
   = Inr [sample_match]"
  by (simp add: sample_batch_def sample_match_def sample_eval_defs)

lemma sample_threshold [simp]: "ctp_threshold sample_plan = 2"
  by (simp add: sample_plan_def)

end
