(* ===== verification/Sample_Signals.thy ===== *)
theory Sample_Signals
  imports Sample_Data Correlation
begin

text \<open>
  Concrete Signals, a two-stage sequence plan and a policy on which the SEQUENCE properties are
  instantiated: the stage is read from the severity, the time from the observation time and the
  order key is the time.
\<close>

definition sample_signal :: "char \<Rightarrow> string \<Rightarrow> int \<Rightarrow> signal" where
  "sample_signal c sev t = event_signal_of (\<lambda>v. v)
     \<lparr>esp_rule_id = RuleId ''CER-DET-000101'', esp_rule_version = ''1'',
      esp_normalized_event_id = sample_uuid CHR ''1'', esp_evaluated_at = sample_time,
      esp_execution_backend = ClickHouse, esp_execution_mode = Test\<rparr>
     (sample_event CHR ''1'' 5)
     \<lparr>esc_signal_id = sample_uuid c, esc_severity = sev, esc_confidence = None, esc_summary = ''match'',
      esc_input_relation = ''EVENT_MATCH'', esc_created_at = sample_time,
      esc_source_event_time = Some \<lparr>seconds = t, nanos = 0\<rparr>\<rparr>"

lemma sample_texts: "has_text ''LOW''" "has_text ''HIGH''" "has_text ''match''" "has_text ''EVENT_MATCH''"
  "has_text ''1''" "has_text ''CER-COR-0003''" "has_text ''hash''" "has_text ''title''"
  by (rule has_text_solid [of "CHR ''L''"] has_text_solid [of "CHR ''H''"] has_text_solid [of "CHR ''m''"]
      has_text_solid [of "CHR ''1''"] has_text_solid [of "CHR ''C''"] has_text_solid [of "CHR ''h''"]
      has_text_solid [of "CHR ''t''"]; simp add: solid_def byte_def; fail)+

lemma sample_signal_wf:
  assumes "is_ascii_hexdigit c" "has_text sev" "t \<in> {0..1000}"
  shows "wf_signal (sample_signal c sev t)"
proof -
  have "detection_rule_id ''CER-DET-000101''"
    unfolding detection_rule_id_def by (rule exI [of _ "''000101''"]) (simp add: byte_class_defs)
  then show ?thesis
    using assms sample_uuid_hex [OF assms(1)]
    by (simp add: sample_signal_def event_signal_of_wf wf_event_signal_context_def sample_texts sample_time_ok
        sample_uuid_ok sample_event_def valid_timestamp_def)
qed

definition sample_sequence_plan :: "(string, string, unit) compiled_sequence_plan" where
  "sample_sequence_plan = \<lparr>csp_correlation_rule_id = ''CER-COR-0003'', csp_correlation_rule_version = ''1'',
     csp_stages = [''LOW'', ''HIGH''], csp_join_keys = [''user''], csp_max_window_millis = 100,
     csp_ordering = (), csp_backend = ClickHouse, csp_supported_backends = capabilities_new True False,
     csp_configuration_hash = ''hash''\<rparr>"

definition sample_sequence_policy :: "(string, string, unit, nat, int, string) sequence_policy" where
  "sample_sequence_policy = \<lparr>
     stage_matches = (\<lambda>stage s. Inr (sg_severity s = stage)),
     sequence_group_key = (\<lambda>_ _. Inr (Some 0)),
     sequence_time_millis = (\<lambda>s. Inr (map_option seconds (sg_first_observed_at s))),
     sequence_order_key = (\<lambda>_ s. Inr (map_option seconds (sg_first_observed_at s)))\<rparr>"

definition sample_signals :: "signal list" where
  "sample_signals = [sample_signal CHR ''2'' ''HIGH'' 90, sample_signal CHR ''1'' ''LOW'' 10]"

definition sample_sequence_match :: sequence_correlation_match where
  "sample_sequence_match = \<lparr>scm_correlation_rule_id = ''CER-COR-0003'', scm_correlation_rule_version = ''1'',
     scm_tenant_id = sample_tenant, scm_window_start = timestamp_from_millis 10,
     scm_window_end = timestamp_from_millis 90,
     scm_input_signal_ids = [sample_uuid CHR ''1'', sample_uuid CHR ''2''],
     scm_execution_backend = ClickHouse, scm_execution_mode = Test, scm_configuration_hash = ''hash''\<rparr>"

lemma sample_signal_fields [simp]:
  "sg_signal_id (sample_signal c sev t) = sample_uuid c" "sg_severity (sample_signal c sev t) = sev"
  "sg_first_observed_at (sample_signal c sev t) = Some \<lparr>seconds = t, nanos = 0\<rparr>"
  "sg_tenant_id (sample_signal c sev t) = sample_tenant" "sg_execution_mode (sample_signal c sev t) = 3"
  by (simp_all add: sample_signal_def event_signal_of_def sample_event_def)

lemma sample_signals_valid:
  "validate_signal (sample_signal CHR ''1'' ''LOW'' 10) = Inr ()"
  "validate_signal (sample_signal CHR ''2'' ''HIGH'' 90) = Inr ()"
  by (simp_all add: validate_signal_ok, rule sample_signal_wf; simp add: sample_texts byte_class_defs)+

lemma sample_uuid_less [simp]: "sample_uuid a < sample_uuid b \<longleftrightarrow> a < b"
  by (simp add: sample_uuid_def)

lemma sample_sequence_eval:
  "evaluate_sequence_signals sample_sequence_plan sample_signals Test sample_sequence_policy
   = Inr [sample_sequence_match]"
  by (simp add: sample_sequence_plan_def sample_signals_def sample_sequence_policy_def sample_sequence_match_def
      evaluate_sequence_signals_def validate_unique_signals_def unique_signal_step_def sample_signals_valid
      validate_execution_mode_def btree_get_def collect_sequence_candidates_def sequence_collect_step_def
      sequence_candidate_of_def btree_push_def sequence_sorted_match_def select_sequence_def sequence_order_def
      i64_try_from_def checked_i64_def fits_i64_def validate_timestamp_def proto_timestamp_defs
      timestamp_from_millis_def List.map_filter_simps upt_rec)

end
