(* ===== verification/Contract_Properties.thy ===== *)
theory Contract_Properties
  imports Sample_Signals Finding_Contract
begin

text \<open>
  The properties of the contract layer: what the validators of cerbero-common decide, what the raw
  event contract guarantees about the payload, and that an EVENT match becomes a Signal which the
  contract accepts.
\<close>

section \<open>Identifiers\<close>

definition hex_group :: "nat \<Rightarrow> string \<Rightarrow> bool" where
  "hex_group n g \<longleftrightarrow> length g = n \<and> list_all is_ascii_hexdigit g"

lemma nth_split_at: "i < length s \<Longrightarrow> s ! i = c \<Longrightarrow> s = take i s @ c # drop (Suc i) s"
  using id_take_nth_drop by blast

lemma hex_group_slice:
  assumes "\<forall>i. k \<le> i \<and> i < k + n \<longrightarrow> is_ascii_hexdigit (s ! i)" "k + n \<le> length s"
  shows "hex_group n (take n (drop k s))"
  using assms by (auto simp: hex_group_def list_all_length)

lemma uuid_v7_groups:
  assumes "uuid_v7 s"
  obtains a b c d e where "s = a @ CHR ''-'' # b @ CHR ''-'' # c @ CHR ''-'' # d @ CHR ''-'' # e"
    "hex_group 8 a" "hex_group 4 b" "hex_group 4 c" "hex_group 4 d" "hex_group 12 e"
proof -
  have len: "length s = 36" using assms by (simp add: uuid_v7_def)
  have at: "s ! 8 = CHR ''-''" "s ! 13 = CHR ''-''" "s ! 18 = CHR ''-''" "s ! 23 = CHR ''-''"
    and hex: "\<forall>i<36. i \<notin> {8, 13, 18, 23} \<longrightarrow> is_ascii_hexdigit (s ! i)"
    using assms unfolding uuid_v7_def uuid_positions by simp_all
  have "s = take 8 s @ CHR ''-'' # drop 9 s" using nth_split_at [of 8 s] len at by simp
  moreover have "drop 9 s = take 4 (drop 9 s) @ CHR ''-'' # drop 14 s"
    using nth_split_at [of 4 "drop 9 s"] len at by simp
  moreover have "drop 14 s = take 4 (drop 14 s) @ CHR ''-'' # drop 19 s"
    using nth_split_at [of 4 "drop 14 s"] len at by simp
  moreover have "drop 19 s = take 4 (drop 19 s) @ CHR ''-'' # drop 24 s"
    using nth_split_at [of 4 "drop 19 s"] len at by simp
  ultimately have "s = take 8 s @ CHR ''-'' # take 4 (drop 9 s) @ CHR ''-'' # take 4 (drop 14 s)
      @ CHR ''-'' # take 4 (drop 19 s) @ CHR ''-'' # drop 24 s"
    by metis
  moreover have "hex_group 8 (take 8 s)" "hex_group 4 (take 4 (drop 9 s))" "hex_group 4 (take 4 (drop 14 s))"
    "hex_group 4 (take 4 (drop 19 s))" "hex_group 12 (drop 24 s)"
    using hex_group_slice [of 0 8 s] hex_group_slice [of 9 4 s] hex_group_slice [of 14 4 s]
      hex_group_slice [of 19 4 s] hex_group_slice [of 24 12 s] hex len by simp_all
  ultimately show thesis using that by blast
qed

lemma groups_uuid_v7:
  assumes "s = a @ CHR ''-'' # b @ CHR ''-'' # c @ CHR ''-'' # d @ CHR ''-'' # e"
    and "hex_group 8 a" "hex_group 4 b" "hex_group 4 c" "hex_group 4 d" "hex_group 12 e"
  shows "length s = 36" and "s ! 14 = hd c" and "s ! 19 = hd d"
    and "\<forall>i<36. if i \<in> {8, 13, 18, 23} then s ! i = CHR ''-'' else is_ascii_hexdigit (s ! i)"
proof -
  have len: "length a = 8" "length b = 4" "length c = 4" "length d = 4" "length e = 12"
    using assms(2-6) by (simp_all add: hex_group_def)
  then have "c \<noteq> []" "d \<noteq> []" by auto
  then show "length s = 36" "s ! 14 = hd c" "s ! 19 = hd d"
    using len by (simp_all add: assms(1) nth_append hd_conv_nth)
  have "is_ascii_hexdigit (s ! i)" if "i < 36" "i \<noteq> 8" "i \<noteq> 13" "i \<noteq> 18" "i \<noteq> 23" for i
  proof -
    consider "i < 8" | "8 < i" "i < 13" | "13 < i" "i < 18" | "18 < i" "i < 23" | "23 < i"
      using \<open>i \<noteq> 8\<close> \<open>i \<noteq> 13\<close> \<open>i \<noteq> 18\<close> \<open>i \<noteq> 23\<close> by linarith
    then show ?thesis
      by cases (use that len assms(2-6) in \<open>auto simp: assms(1) nth_append nth_Cons' hex_group_def list_all_length\<close>)
  qed
  then show "\<forall>i<36. if i \<in> {8, 13, 18, 23} then s ! i = CHR ''-'' else is_ascii_hexdigit (s ! i)"
    unfolding uuid_positions using len by (simp add: assms(1) nth_append)
qed

text \<open>Validate_uuid_v7 accepts exactly the canonical texts of UUIDs of version 7 and the RFC variant:
  five groups of 8, 4, 4, 4 and 12 hexadecimal digits joined by hyphens, the third starting with 7
  and the fourth with 8, 9, a or b in either case.\<close>

theorem validate_uuid_v7_canonical:
  "validate_uuid_v7 field s = Inr () \<longleftrightarrow>
    (\<exists>a b c d e. s = a @ CHR ''-'' # b @ CHR ''-'' # c @ CHR ''-'' # d @ CHR ''-'' # e
       \<and> hex_group 8 a \<and> hex_group 4 b \<and> hex_group 4 c \<and> hex_group 4 d \<and> hex_group 12 e
       \<and> hd c = CHR ''7'' \<and> to_ascii_lowercase (hd d) \<in> set ''89ab'')"
    (is "_ \<longleftrightarrow> ?groups")
proof -
  have "uuid_v7 s \<longleftrightarrow> ?groups"
  proof
    assume u: "uuid_v7 s"
    then show ?groups
      by (rule uuid_v7_groups) (use u groups_uuid_v7 in \<open>fastforce simp: uuid_v7_def\<close>)
  next
    assume ?groups
    then show "uuid_v7 s" using groups_uuid_v7 unfolding uuid_v7_def by auto
  qed
  then show ?thesis by (simp add: result_simps)
qed

text \<open>The rule identities that the detection core parses are the ones that the Signal contract
  accepts, and a parsed identity is displayed as the text it was parsed from.\<close>

theorem rule_id_contracts_agree:
  "rule_id_from_str s = Inr r \<longleftrightarrow> validate_detection_rule_id s = Inr () \<and> display_rule_id r = s"
  by (cases r) (auto simp: result_simps display_rule_id_def)

section \<open>Messages\<close>

text \<open>Validate_signal returns Ok exactly for well-formed Signals: identities, rule, times,
  provenance, the ordinals and distinctness of the inputs, and the counts that the rule type
  demands.\<close>

theorem validate_signal_decides: "validate_signal s = Inr () \<longleftrightarrow> wf_signal s"
  by (rule signal_contract.validate_ok_iff)

text \<open>C28: validate_finding returns Ok exactly for well-formed Findings, with the provenance that the
  finding type demands and none otherwise.\<close>

theorem validate_finding_decides: "validate_finding f = Inr () \<longleftrightarrow> wf_finding f"
  by (rule finding_contract.validate_ok_iff)

text \<open>An accepted raw event cannot have its payload exchanged unnoticed: with the same metadata the
  contract accepts another payload exactly when it has the same length and the same digest.\<close>

theorem raw_event_payload_bound:
  assumes "validate_raw_event digest ev = Inr ()"
  shows "validate_raw_event digest (ev\<lparr>re_raw_payload := payload\<rparr>) = Inr () \<longleftrightarrow>
    length payload = length (re_raw_payload ev) \<and> digest payload = digest (re_raw_payload ev)"
  using assms by (auto simp: result_simps wf_raw_event_def sha256_lower_hex_def hex_text_inject)

definition sample_digest :: "string \<Rightarrow> string" where
  "sample_digest p = (case p of [] \<Rightarrow> replicate 32 (CHR 0x00) | c # _ \<Rightarrow> replicate 32 c)"

definition sample_raw_event :: raw_event where
  "sample_raw_event = \<lparr>re_event_id = sample_uuid CHR ''1'', re_tenant_id = sample_tenant, re_source_id = ''s'',
     re_sensor_id = '''', re_event_time = None, re_ingest_time = Some sample_time,
     re_content_type = ''text/plain'', re_encoding = ''utf-8'', re_raw_payload = ''abc'', re_raw_size = 3,
     re_raw_hash_algorithm = ''sha256'', re_raw_hash = sha256_lower_hex sample_digest ''abc'',
     re_transport = ''syslog'', re_remote_identity = '''', re_sequence_number = None,
     re_integrity_status = 1, re_pipeline_version = ''1''\<rparr>"

lemma sample_raw_event_ok: "validate_raw_event sample_digest sample_raw_event = Inr ()"
proof -
  have "valid_sha256_text (sha256_lower_hex sample_digest ''abc'')"
    by (rule valid_sha256_text_lower_hex) (simp add: sample_digest_def)
  then show ?thesis
    by (simp add: result_simps wf_raw_event_def sample_raw_event_def sample_uuid_ok sample_time_ok)
qed

theorem raw_event_payload_bound_witness:
  "validate_raw_event sample_digest (sample_raw_event\<lparr>re_raw_payload := ''xbc''\<rparr>) \<noteq> Inr ()
   \<and> validate_raw_event sample_digest (sample_raw_event\<lparr>re_raw_payload := ''axy''\<rparr>) = Inr ()"
  using raw_event_payload_bound [OF sample_raw_event_ok, of "''xbc''"]
    raw_event_payload_bound [OF sample_raw_event_ok, of "''axy''"]
  by (simp add: sample_raw_event_def sample_digest_def)

section \<open>Rules and events\<close>

text \<open>Structural validation reports the first empty AND or OR of the rule's AST in pre-order, and
  accepts exactly the expressions without one.\<close>

theorem validate_expression_reports_first_empty:
  "validate_expression e =
    (case empty_nodes e of [] \<Rightarrow> Inr () | operator # _ \<Rightarrow> Inl (EmptyBooleanExpression operator))"
  by (simp add: validate_expression_first_empty first_empty_def)

text \<open>Type checking checks the leaves of the AST from left to right and stops with the error of the
  first one that fails.\<close>

theorem type_check_checks_leaves: "type_check_expression sc e = try_each (check_leaf sc) (leaves e)"
  by (rule type_check_expression_leaves)

text \<open>A field path resolves to a value exactly when none of its segments is empty and the walk
  down the nested objects of the OCSF event ends at a value that is set and not null.\<close>

theorem resolve_ocsf_field_present:
  "resolve_ocsf_field ocsf path = Present v \<longleftrightarrow>
    [] \<notin> set (split_on CHR ''.'' path) \<and> walk ocsf (split_on CHR ''.'' path) = Some v \<and> \<not> is_null_kind v"
  by (auto simp: resolve_ocsf_field_def resolve_segments_Present)

text \<open>An EVENT match yields a Signal: whenever evaluation at the Signal boundary reports a match, a
  plan with a parsed rule id and a producer context with the required fields give a Signal that
  passes the contract, whose only input is the event that matched.\<close>

theorem event_match_materializes:
  assumes "evaluate_normalized_event_for_signal to_str plan event mode evaluated_at policy = Inr (SignalMatch p)"
    and "parsed_rule_id (plan_rule_id plan)" "has_text (show_version (plan_rule_version plan))"
    and "uuid_v7 (ne_tenant_id event)" "wf_event_signal_context c"
  shows "\<exists>s. materialize_event_signal show_version p event c = Inr s \<and> validate_signal s = Inr ()
    \<and> map si_input_id (sg_inputs s) = [ne_normalized_event_id event]
    \<and> sg_rule_id s = as_str (plan_rule_id plan) \<and> sg_execution_mode s = execution_mode_i32 mode"
proof -
  have "wf_signal (event_signal_of show_version p event c)"
    using assms by (simp add: evaluate_for_signal_match event_signal_of_wf parsed_rule_id_iff)
  then show ?thesis
    using assms(1) by (simp add: materialize_event_signal_def evaluate_for_signal_match result_simps
        event_signal_of_def)
qed

definition sample_event_context :: event_signal_context where
  "sample_event_context = \<lparr>esc_signal_id = sample_uuid CHR ''7'', esc_severity = ''LOW'', esc_confidence = None,
     esc_summary = ''match'', esc_input_relation = ''EVENT_MATCH'', esc_created_at = sample_time,
     esc_source_event_time = None\<rparr>"

definition sample_event_provenance :: "string event_signal_provenance" where
  "sample_event_provenance = \<lparr>esp_rule_id = RuleId ''CER-DET-000001'', esp_rule_version = ''1'',
     esp_normalized_event_id = sample_uuid CHR ''1'', esp_evaluated_at = sample_time,
     esp_execution_backend = ClickHouse, esp_execution_mode = Test\<rparr>"

theorem event_match_materializes_witness:
  "\<exists>s. materialize_event_signal (\<lambda>v. v) sample_event_provenance (sample_event CHR ''1'' 5) sample_event_context
      = Inr s \<and> validate_signal s = Inr ()
    \<and> map si_input_id (sg_inputs s) = [ne_normalized_event_id (sample_event CHR ''1'' 5)]
    \<and> sg_rule_id s = as_str (plan_rule_id sample_event_plan) \<and> sg_execution_mode s = execution_mode_i32 Test"
proof (rule event_match_materializes)
  show "evaluate_normalized_event_for_signal (\<lambda>f. f) sample_event_plan (sample_event CHR ''1'' 5) Test
      sample_time sample_leaf_policy = Inr (SignalMatch sample_event_provenance)"
    by (simp add: evaluate_for_signal_match sample_uuid_ok sample_time_ok sample_event_provenance_def
        sample_eval_defs)
  show "parsed_rule_id (plan_rule_id sample_event_plan)"
    by (simp add: parsed_rule_id_def sample_event_plan_def rule_id_from_str_def signal_constants byte_class_defs)
qed (simp_all add: sample_event_plan_def sample_texts sample_event_def sample_uuid_ok sample_time_ok
    wf_event_signal_context_def sample_event_context_def)

end
