(* ===== verification/Threshold_Correctness.thy ===== *)
theory Threshold_Correctness
  imports Sample_Data
begin

text \<open>
  What THRESHOLD evaluation and materialization guarantee: the sliding window returns the first
  right end that closes a window, the evaluation of a bounded dataset has a closed form over its
  deduplicated candidates, and every match becomes a valid Signal.
\<close>

section \<open>The sliding window\<close>

definition times_sorted :: "candidate list \<Rightarrow> bool" where
  "times_sorted cs \<longleftrightarrow> sorted (map cd_event_time_millis cs)"

text \<open>The last \<open>threshold\<close> candidates up to \<open>right\<close> lie within the window.\<close>

definition window_closes :: "candidate list \<Rightarrow> int \<Rightarrow> nat \<Rightarrow> nat \<Rightarrow> bool" where
  "window_closes cs w n right \<longleftrightarrow> n \<le> right + 1
     \<and> cd_event_time_millis (cs ! right) - cd_event_time_millis (cs ! (right + 1 - n)) \<le> w"

lemma times_sorted_nth:
  "times_sorted cs \<Longrightarrow> i \<le> j \<Longrightarrow> j < length cs \<Longrightarrow>
     cd_event_time_millis (cs ! i) \<le> cd_event_time_millis (cs ! j)"
  using sorted_nth_mono [of "map cd_event_time_millis cs" i j] by (simp add: times_sorted_def)

text \<open>The inner loop stops at the first index inside the window; it never passes \<open>right\<close>, so
  \<open>right + 1 - left\<close> does not underflow and the contributors are not empty.\<close>

definition before_window :: "candidate list \<Rightarrow> int \<Rightarrow> nat \<Rightarrow> nat \<Rightarrow> bool" where
  "before_window cs w right i \<longleftrightarrow>
     cd_event_time_millis (cs ! right) - cd_event_time_millis (cs ! i) > w"

lemma advance_left_step:
  "advance_left cs w right left =
    (if left \<le> right \<and> before_window cs w right left then advance_left cs w right (left + 1) else left)"
  by (subst advance_left.simps) (simp add: before_window_def)

lemma advance_left_first:
  assumes "0 \<le> w" "left \<le> right" "\<forall>i<left. before_window cs w right i"
  shows "left \<le> advance_left cs w right left \<and> advance_left cs w right left \<le> right
    \<and> \<not> before_window cs w right (advance_left cs w right left)
    \<and> (\<forall>i < advance_left cs w right left. before_window cs w right i)"
  using assms
proof (induction "right - left" arbitrary: left)
  case 0
  then have "\<not> before_window cs w right left" by (simp add: before_window_def)
  then have "advance_left cs w right left = left" by (subst advance_left_step) simp
  then show ?case using 0 \<open>\<not> before_window cs w right left\<close> by simp
next
  case (Suc k)
  show ?case
  proof (cases "before_window cs w right left")
    case True
    then have "\<forall>i<left + 1. before_window cs w right i" using Suc.prems(3) by (simp add: less_Suc_eq)
    moreover have "k = right - (left + 1)" "left + 1 \<le> right" using Suc.hyps(2) by auto
    moreover have "advance_left cs w right left = advance_left cs w right (left + 1)"
      using True Suc.prems(2) by (subst advance_left_step) simp
    ultimately show ?thesis using Suc.hyps(1) [of "left + 1"] \<open>0 \<le> w\<close> by fastforce
  next
    case False
    then show ?thesis using Suc.prems by (simp add: advance_left_step [of cs w right left])
  qed
qed

lemma advance_left_closes:
  assumes sorted: "times_sorted cs" and w: "0 \<le> w" and r: "right < length cs" and n: "0 < n"
    and l: "left \<le> right" and before: "\<forall>i<left. before_window cs w right i"
  shows "n \<le> right + 1 - advance_left cs w right left \<longleftrightarrow> window_closes cs w n right"
proof
  let ?l = "advance_left cs w right left"
  note adv = advance_left_first [OF w l before]
  { assume *: "n \<le> right + 1 - ?l"
    then have "?l \<le> right + 1 - n" "n \<le> right + 1" using adv by auto
    moreover have "cd_event_time_millis (cs ! ?l) \<le> cd_event_time_millis (cs ! (right + 1 - n))"
      using calculation r n by (intro times_sorted_nth [OF sorted]) auto
    ultimately show "window_closes cs w n right"
      using adv by (auto simp: window_closes_def before_window_def) }
  assume *: "window_closes cs w n right"
  then have "\<not> right + 1 - n < ?l"
    using adv by (auto simp: window_closes_def before_window_def)
  then show "n \<le> right + 1 - ?l" using * adv by (auto simp: window_closes_def)
qed

text \<open>The invariant of the outer loop, and its result: the first right end that closes a window, with
  exactly \<open>threshold\<close> contributors.\<close>

lemma scan_windows_from:
  assumes sorted: "times_sorted cs" and w: "0 \<le> w" and n: "0 < n"
    and "start \<le> length cs" "left \<le> start"
    and "\<forall>j. start \<le> j \<longrightarrow> j < length cs \<longrightarrow> (\<forall>i<left. before_window cs w j i)"
    and "start < left + n"
  shows "scan_windows cs w n left [start..<length cs] =
    map_option (\<lambda>r. (r + 1 - n, r)) (find (window_closes cs w n) [start..<length cs])"
  using assms(4-)
proof (induction "length cs - start" arbitrary: start left)
  case 0
  then show ?case by simp
next
  case (Suc k)
  then have start: "start < length cs" and upt: "[start..<length cs] = start # [Suc start..<length cs]"
    by (auto simp: upt_conv_Cons)
  let ?l = "advance_left cs w start left"
  have before: "\<forall>i<left. before_window cs w start i"
    using Suc.prems(3) start by simp
  note adv = advance_left_first [OF w Suc.prems(2) before]
  have closes: "n \<le> start + 1 - ?l \<longleftrightarrow> window_closes cs w n start"
    by (rule advance_left_closes [OF sorted w start n Suc.prems(2) before])
  show ?case
  proof (cases "window_closes cs w n start")
    case True
    then have "?l = start + 1 - n" using closes adv Suc.prems(4) by linarith
    then show ?thesis using True closes by (auto simp: upt Let_def)
  next
    case False
    have "before_window cs w j i" if "i < ?l" "Suc start \<le> j" "j < length cs" for i j
      using adv times_sorted_nth [OF sorted, of start j] that by (force simp: before_window_def)
    moreover have "k = length cs - Suc start" using Suc.hyps(2) by simp
    ultimately have "scan_windows cs w n ?l [Suc start..<length cs] =
        map_option (\<lambda>r. (r + 1 - n, r)) (find (window_closes cs w n) [Suc start..<length cs])"
      using Suc.hyps(1) [of "Suc start" ?l] adv start False closes by auto
    then show ?thesis using False closes by (simp add: upt Let_def)
  qed
qed

lemma scan_windows_first:
  assumes "times_sorted cs" "0 \<le> w" "0 < n"
  shows "scan_windows cs w n 0 [0..<length cs] =
    map_option (\<lambda>r. (r + 1 - n, r)) (find (window_closes cs w n) [0..<length cs])"
  using scan_windows_from [OF assms, of 0 0] assms(3) by simp

section \<open>The evaluation in closed form\<close>

text \<open>The events that survive deduplication: the first of each identity.\<close>

fun first_occurrences :: "string set \<Rightarrow> normalized_event list \<Rightarrow> normalized_event list" where
  "first_occurrences seen [] = []"
| "first_occurrences seen (e # es) =
    (if ne_normalized_event_id e \<in> seen then first_occurrences seen es
     else e # first_occurrences (insert (ne_normalized_event_id e) seen) es)"

lemma set_first_occurrences: "set (first_occurrences seen es) \<subseteq> set es"
  by (induction es arbitrary: seen) auto

lemma ids_first_occurrences:
  "ne_normalized_event_id ` set (first_occurrences seen es) = ne_normalized_event_id ` set es - seen"
  by (induction es arbitrary: seen) auto

lemma distinct_first_occurrences: "distinct (map ne_normalized_event_id (first_occurrences seen es))"
proof (induction es arbitrary: seen)
  case (Cons e es)
  then show ?case
    using ids_first_occurrences [of "insert (ne_normalized_event_id e) seen" es] by auto
qed simp

text \<open>A batch is consistent when equal identities carry equal events; the batch source rejects any
  other (\<open>ClickHouseNormalizedEventSource::load\<close>).\<close>

definition consistent :: "normalized_event list \<Rightarrow> bool" where
  "consistent es \<longleftrightarrow> inj_on ne_normalized_event_id (set es)"

lemma first_occurrences_consistent:
  assumes "consistent es"
  shows "set (first_occurrences {} es) = set es"
proof
  show "set es \<subseteq> set (first_occurrences {} es)"
  proof
    fix e assume e: "e \<in> set es"
    then have "ne_normalized_event_id e \<in> ne_normalized_event_id ` set (first_occurrences {} es)"
      by (simp add: ids_first_occurrences)
    then obtain e' where "e' \<in> set (first_occurrences {} es)"
      "ne_normalized_event_id e' = ne_normalized_event_id e" by auto
    then show "e \<in> set (first_occurrences {} es)"
      using assms e set_first_occurrences [of "{}" es] by (metis consistent_def inj_on_def subsetD)
  qed
qed (rule set_first_occurrences)

text \<open>An event takes part with a group key and a time when it matches the filter and the policy can
  extract both.\<close>

definition takes_part ::
  "('f \<Rightarrow> string) \<Rightarrow> ('pid, 'rv, 'f, 'v, 'rf, 'g, 'w, 'rl, 'ph, 'profile) threshold_plan
     \<Rightarrow> ('f, 'v, 'k, 'err) threshold_policy \<Rightarrow> normalized_event \<Rightarrow> 'k \<Rightarrow> int \<Rightarrow> bool" where
  "takes_part to_str plan policy e key t \<longleftrightarrow>
     evaluate_event_execution_plan predicates (compiled_plan (ctp_filter plan))
       (field_state to_str e) (tp_leaf policy) = Inr Match
     \<and> threshold_group_key policy (ctp_group_by plan) e = Inr (Some key)
     \<and> threshold_event_time_millis policy (tw_time_basis (ctp_window plan))
         (tw_time_field (ctp_window plan)) e = Inr (Some t)"

lemma threshold_candidate_Some:
  "threshold_candidate to_str plan policy e = Inr (Some ((tenant, key), c)) \<longleftrightarrow>
     tenant = ne_tenant_id e \<and> cd_normalized_event_id c = ne_normalized_event_id e
     \<and> takes_part to_str plan policy e key (cd_event_time_millis c)"
proof -
  have "r = Match \<longleftrightarrow> r \<noteq> NoMatch" for r by (cases r) simp_all
  then show ?thesis
    by (cases c) (auto simp: threshold_candidate_def takes_part_def result_simps split: option.splits)
qed

definition found_candidate ::
  "('f \<Rightarrow> string) \<Rightarrow> ('pid, 'rv, 'f, 'v, 'rf, 'g, 'w, 'rl, 'ph, 'profile) threshold_plan
     \<Rightarrow> ('f, 'v, 'k, 'err) threshold_policy \<Rightarrow> normalized_event \<Rightarrow> ((string \<times> 'k) \<times> candidate) option" where
  "found_candidate to_str plan policy e =
    (case threshold_candidate to_str plan policy e of Inl _ \<Rightarrow> None | Inr found \<Rightarrow> found)"

lemma found_candidate_Some:
  "found_candidate to_str plan policy e = Some ((tenant, key), c) \<longleftrightarrow>
     tenant = ne_tenant_id e \<and> cd_normalized_event_id c = ne_normalized_event_id e
     \<and> takes_part to_str plan policy e key (cd_event_time_millis c)"
  by (auto simp: found_candidate_def threshold_candidate_Some [symmetric] split: sum.splits)

lemma threshold_collect:
  "try_fold (threshold_collect_step to_str plan policy) (seen, btree_group fst snd items) es = Inr (seen', groups) \<longleftrightarrow>
     (\<forall>e\<in>set es. uuid_v7 (ne_normalized_event_id e) \<and> uuid_v7 (ne_tenant_id e))
   \<and> (\<forall>e\<in>set (first_occurrences seen es). is_ok (threshold_candidate to_str plan policy e))
   \<and> seen' = seen \<union> ne_normalized_event_id ` set es
   \<and> groups = btree_group fst snd
       (items @ List.map_filter (found_candidate to_str plan policy) (first_occurrences seen es))"
proof (induction es arbitrary: seen items)
  case Nil
  then show ?case by (auto simp: List.map_filter_simps)
next
  case (Cons e es)
  show ?case
  proof (cases "threshold_candidate to_str plan policy e")
    case (Inl err)
    then show ?thesis by (auto simp: result_simps Cons.IH split: if_splits)
  next
    case (Inr found)
    then have f: "found_candidate to_str plan policy e = found" by (simp add: found_candidate_def)
    show ?thesis
    proof (cases found)
      case None
      then show ?thesis using Inr f
        by (auto simp: result_simps Cons.IH List.map_filter_simps split: if_splits)
    next
      case (Some x)
      obtain key c where x: "x = (key, c)" by (cases x)
      have push: "btree_push key c (btree_group fst snd items) = btree_group fst snd (items @ [(key, c)])"
        by (simp add: btree_group_snoc)
      show ?thesis using Inr f Some x
        by (auto simp: result_simps Cons.IH push List.map_filter_simps split: if_splits)
    qed
  qed
qed

text \<open>The candidates of one group, in input order.\<close>

definition group_candidates ::
  "('f \<Rightarrow> string) \<Rightarrow> ('pid, 'rv, 'f, 'v, 'rf, 'g, 'w, 'rl, 'ph, 'profile) threshold_plan
     \<Rightarrow> ('f, 'v, 'k, 'err) threshold_policy \<Rightarrow> normalized_event list \<Rightarrow> string \<times> 'k \<Rightarrow> candidate list" where
  "group_candidates to_str plan policy es k =
    map snd (filter (\<lambda>x. fst x = k)
      (List.map_filter (found_candidate to_str plan policy) (first_occurrences {} es)))"

definition group_keys ::
  "('f \<Rightarrow> string) \<Rightarrow> ('pid, 'rv, 'f, 'v, 'rf, 'g, 'w, 'rl, 'ph, 'profile) threshold_plan
     \<Rightarrow> ('f, 'v, 'k :: linorder, 'err) threshold_policy \<Rightarrow> normalized_event list \<Rightarrow> (string \<times> 'k) list" where
  "group_keys to_str plan policy es =
    sorted_list_of_set (fst ` set (List.map_filter (found_candidate to_str plan policy) (first_occurrences {} es)))"

lemma evaluate_threshold_ok:
  fixes policy :: "('f, 'v, 'k :: linorder, 'err) threshold_policy"
  shows "evaluate_threshold_normalized_events to_str plan events mode evaluated_at policy = Inr ms \<longleftrightarrow>
     valid_timestamp evaluated_at \<and> mode \<noteq> ModeUnspecified
   \<and> uint (tw_duration_millis (ctp_window plan)) < 2 ^ 63
   \<and> (\<forall>e\<in>set events. uuid_v7 (ne_normalized_event_id e) \<and> uuid_v7 (ne_tenant_id e))
   \<and> (\<forall>e\<in>set (first_occurrences {} events). is_ok (threshold_candidate to_str plan policy e))
   \<and> (\<exists>found. list_all2 (\<lambda>k m. threshold_group_match plan (unat (ctp_threshold plan))
             (uint (tw_duration_millis (ctp_window plan))) mode evaluated_at
             (k, group_candidates to_str plan policy events k)
           = (Inr m :: (_, 'err threshold_evaluation_error) result))
           (group_keys to_str plan policy events) found
         \<and> ms = List.map_filter (\<lambda>m. m) found)"
proof -
  have collect: "try_fold (threshold_collect_step to_str plan policy) ({}, []) events = Inr (seen', groups) \<longleftrightarrow>
      (\<forall>e\<in>set events. uuid_v7 (ne_normalized_event_id e) \<and> uuid_v7 (ne_tenant_id e))
      \<and> (\<forall>e\<in>set (first_occurrences {} events). is_ok (threshold_candidate to_str plan policy e))
      \<and> seen' = ne_normalized_event_id ` set events
      \<and> groups = map (\<lambda>k. (k, group_candidates to_str plan policy events k)) (group_keys to_str plan policy events)"
    for seen' groups
    using threshold_collect [of to_str plan policy "{}" "[]" events seen' groups]
    by (simp add: btree_group_entries group_candidates_def group_keys_def)
  show ?thesis
    by (auto simp: evaluate_threshold_normalized_events_def result_simps collect i64_try_from_eq_Some
        list_all2_map1 split: prod.splits)
qed

lemma in_group_candidates:
  "c \<in> set (group_candidates to_str plan policy es (tenant, key)) \<longleftrightarrow>
     (\<exists>e\<in>set (first_occurrences {} es). ne_tenant_id e = tenant
        \<and> ne_normalized_event_id e = cd_normalized_event_id c
        \<and> takes_part to_str plan policy e key (cd_event_time_millis c))"
proof -
  have "c \<in> set (group_candidates to_str plan policy es (tenant, key)) \<longleftrightarrow>
      (\<exists>e\<in>set (first_occurrences {} es). found_candidate to_str plan policy e = Some ((tenant, key), c))"
    by (force simp: group_candidates_def set_map_filter)
  then show ?thesis by (auto simp: found_candidate_Some)
qed

lemma in_group_keys:
  "k \<in> set (group_keys to_str plan policy es) \<longleftrightarrow> group_candidates to_str plan policy es k \<noteq> []"
  by (auto simp: group_keys_def group_candidates_def filter_empty_conv)

lemma distinct_group_candidates:
  "distinct (map cd_normalized_event_id (group_candidates to_str plan policy es k))"
proof -
  have "distinct (map (cd_normalized_event_id \<circ> snd) (filter (\<lambda>x. fst x = k)
      (List.map_filter (found_candidate to_str plan policy) (first_occurrences {} es))))"
    by (rule distinct_map_map_filter [OF distinct_first_occurrences])
      (auto simp: found_candidate_Some)
  then show ?thesis by (simp add: group_candidates_def)
qed

section \<open>One group\<close>

lemma times_sorted_sort_key: "times_sorted (sort_key candidate_order cs)"
proof -
  have "sorted (map candidate_order (sort_key candidate_order cs))" by simp
  then have "sorted_wrt (\<lambda>a b. candidate_order a \<le> candidate_order b) (sort_key candidate_order cs)"
    by (simp only: sorted_map)
  then have "sorted_wrt (\<lambda>a b. cd_event_time_millis a \<le> cd_event_time_millis b) (sort_key candidate_order cs)"
    by (rule sorted_wrt_mono_rel [rotated]) (auto simp: candidate_order_def less_eq_prod_def)
  then show ?thesis by (simp only: times_sorted_def sorted_map)
qed

lemma inj_candidate_order: "inj candidate_order"
  by (rule injI) (auto simp: candidate_order_def intro: candidate.equality)

lemma distinct_cd_imp_distinct: "distinct (map cd_normalized_event_id cs) \<Longrightarrow> distinct cs"
  by (simp add: distinct_map)

text \<open>The sorted candidates depend on the set of candidates only.\<close>

lemma sort_candidates_cong:
  assumes "set cs = set ds" "distinct cs" "distinct ds"
  shows "sort_key candidate_order cs = sort_key candidate_order ds"
  by (rule map_sorted_distinct_set_unique [where f = candidate_order])
    (use assms inj_candidate_order in \<open>auto simp: distinct_map intro: inj_on_subset\<close>)

definition window_of :: "candidate list \<Rightarrow> nat \<Rightarrow> nat \<Rightarrow> candidate list" where
  "window_of cs n right = drop (right + 1 - n) (take (right + 1) cs)"

lemma window_of_facts:
  assumes "window_closes cs w n right" "right < length cs" "0 < n"
  shows "length (window_of cs n right) = n" "hd (window_of cs n right) = cs ! (right + 1 - n)"
    "last (window_of cs n right) = cs ! right" "set (window_of cs n right) \<subseteq> set cs"
    "window_of cs n right \<noteq> []"
proof -
  show len: "length (window_of cs n right) = n"
    using assms by (auto simp: window_of_def window_closes_def)
  then show ne: "window_of cs n right \<noteq> []" using assms(3) by auto
  show "hd (window_of cs n right) = cs ! (right + 1 - n)"
    using assms by (auto simp: window_of_def hd_drop_conv_nth window_closes_def)
  show "last (window_of cs n right) = cs ! right"
    using ne len assms by (auto simp: last_conv_nth window_of_def window_closes_def)
  show "set (window_of cs n right) \<subseteq> set cs"
    unfolding window_of_def by (meson order_trans set_drop_subset set_take_subset)
qed

lemma find_upt_Some:
  "find P [0..<n] = Some r \<Longrightarrow> r < n \<and> P r \<and> (\<forall>i<r. \<not> P i)"
  by (auto simp: find_Some_iff)

definition threshold_match_of ::
  "('pid, 'rv, 'f, 'v, 'rf, 'g, 'w, 'rl, 'ph, 'profile) threshold_plan \<Rightarrow> execution_mode \<Rightarrow> timestamp
     \<Rightarrow> string \<Rightarrow> candidate list \<Rightarrow> 'rv threshold_signal_provenance" where
  "threshold_match_of plan mode evaluated_at tenant con =
    \<lparr>tsp_rule_id = plan_rule_id (compiled_plan (ctp_filter plan)),
     tsp_rule_version = plan_rule_version (compiled_plan (ctp_filter plan)),
     tsp_tenant_id = tenant,
     tsp_normalized_event_ids = map cd_normalized_event_id con,
     tsp_first_observed_at = timestamp_from_millis (cd_event_time_millis (hd con)),
     tsp_last_observed_at = timestamp_from_millis (cd_event_time_millis (last con)),
     tsp_evaluated_at = evaluated_at,
     tsp_execution_backend = plan_backend (compiled_plan (ctp_filter plan)),
     tsp_execution_mode = mode\<rparr>"

lemma threshold_sorted_match_ok:
  assumes "0 \<le> w" "0 < n" "times_sorted cs"
  shows "threshold_sorted_match plan n w mode evaluated_at tenant cs = Inr m \<longleftrightarrow>
    (case find (window_closes cs w n) [0..<length cs] of
       None \<Rightarrow> m = None
     | Some right \<Rightarrow>
         valid_timestamp (timestamp_from_millis (cd_event_time_millis (hd (window_of cs n right))))
         \<and> valid_timestamp (timestamp_from_millis (cd_event_time_millis (last (window_of cs n right))))
         \<and> m = Some (threshold_match_of plan mode evaluated_at tenant (window_of cs n right)))"
proof (cases "find (window_closes cs w n) [0..<length cs]")
  case None
  then show ?thesis
    using scan_windows_first [OF assms(3,1,2)] by (auto simp: threshold_sorted_match_def)
next
  case (Some r)
  then have ne: "drop (r + 1 - n) (take (r + 1) cs) \<noteq> []"
    using find_upt_Some [OF Some] window_of_facts(5) [of cs w n r] assms(2) by (simp add: window_of_def)
  then show ?thesis
    using scan_windows_first [OF assms(3,1,2)] Some
    by (auto simp: threshold_sorted_match_def result_simps window_of_def threshold_match_of_def
        hd_conv_nth last_conv_nth Let_def)
qed

lemma threshold_group_match_cong:
  "sort_key candidate_order cs = sort_key candidate_order ds \<Longrightarrow>
     threshold_group_match plan n w mode evaluated_at (k, cs) = threshold_group_match plan n w mode evaluated_at (k, ds)"
  by (cases k) simp

section \<open>Matches\<close>

lemma threshold_match_origin:
  fixes policy :: "('f, 'v, 'k :: linorder, 'err) threshold_policy"
  assumes "evaluate_threshold_normalized_events to_str plan events mode evaluated_at policy = Inr ms"
    and "m \<in> set ms"
  obtains tenant key where "(tenant, key) \<in> set (group_keys to_str plan policy events)"
    and "threshold_group_match plan (unat (ctp_threshold plan)) (uint (tw_duration_millis (ctp_window plan)))
      mode evaluated_at ((tenant, key), group_candidates to_str plan policy events (tenant, key))
      = (Inr (Some m) :: (_, 'err threshold_evaluation_error) result)"
proof -
  obtain found where found: "list_all2 (\<lambda>k m. threshold_group_match plan (unat (ctp_threshold plan))
      (uint (tw_duration_millis (ctp_window plan))) mode evaluated_at
      (k, group_candidates to_str plan policy events k)
      = (Inr m :: (_, 'err threshold_evaluation_error) result)) (group_keys to_str plan policy events) found"
    and ms: "ms = List.map_filter (\<lambda>m. m) found"
    using assms(1) by (auto simp: evaluate_threshold_ok)
  have "Some m \<in> set found" using assms(2) by (auto simp: ms set_map_filter)
  then obtain i where i: "i < length found" "found ! i = Some m" by (auto simp: in_set_conv_nth)
  define k where "k = group_keys to_str plan policy events ! i"
  have "k \<in> set (group_keys to_str plan policy events)"
    and "threshold_group_match plan (unat (ctp_threshold plan)) (uint (tw_duration_millis (ctp_window plan)))
      mode evaluated_at (k, group_candidates to_str plan policy events k)
      = (Inr (Some m) :: (_, 'err threshold_evaluation_error) result)"
    using found i by (auto simp: list_all2_conv_all_nth k_def)
  then show thesis using that [of "fst k" "snd k"] by simp
qed

lemma threshold_match_window:
  fixes policy :: "('f, 'v, 'k :: linorder, 'err) threshold_policy"
  assumes "evaluate_threshold_normalized_events to_str plan events mode evaluated_at policy = Inr ms"
    and "m \<in> set ms" and pos: "0 < ctp_threshold plan"
  obtains tenant key cs right where
    "cs = sort_key candidate_order (group_candidates to_str plan policy events (tenant, key))"
    "right < length cs" "window_closes cs (uint (tw_duration_millis (ctp_window plan))) (unat (ctp_threshold plan)) right"
    "valid_timestamp (tsp_first_observed_at m)" "valid_timestamp (tsp_last_observed_at m)"
    "m = threshold_match_of plan mode evaluated_at tenant (window_of cs (unat (ctp_threshold plan)) right)"
proof -
  let ?n = "unat (ctp_threshold plan)" and ?w = "uint (tw_duration_millis (ctp_window plan))"
  from assms(1,2) obtain tenant key where
    match: "threshold_group_match plan ?n ?w mode evaluated_at
      ((tenant, key), group_candidates to_str plan policy events (tenant, key))
      = (Inr (Some m) :: (_, 'err threshold_evaluation_error) result)"
    by (rule threshold_match_origin)
  define cs where "cs = sort_key candidate_order (group_candidates to_str plan policy events (tenant, key))"
  have n: "0 < ?n" using pos by (simp add: unat_gt_0 word_neq_0_conv)
  obtain right where right: "find (window_closes cs ?w ?n) [0..<length cs] = Some right"
    and m: "valid_timestamp (timestamp_from_millis (cd_event_time_millis (hd (window_of cs ?n right))))"
      "valid_timestamp (timestamp_from_millis (cd_event_time_millis (last (window_of cs ?n right))))"
      "m = threshold_match_of plan mode evaluated_at tenant (window_of cs ?n right)"
    using match threshold_sorted_match_ok [OF _ n times_sorted_sort_key, of ?w plan mode evaluated_at tenant
        "group_candidates to_str plan policy events (tenant, key)" "Some m"]
    by (auto simp: cs_def [symmetric] simp del: length_sort split: option.splits)
  show thesis
    by (rule that [OF cs_def]) (use find_upt_Some [OF right] m in \<open>auto simp: threshold_match_of_def\<close>)
qed

lemma completes_window:
  assumes sorted: "times_sorted cs" and idx: "finite I" "\<And>i. i \<in> I \<Longrightarrow> i < length cs"
    and big: "n \<le> card I" "0 < n"
    and close: "\<And>i j. i \<in> I \<Longrightarrow> j \<in> I \<Longrightarrow>
      cd_event_time_millis (cs ! j) - cd_event_time_millis (cs ! i) \<le> w"
  shows "\<exists>r<length cs. window_closes cs w n r"
proof -
  have ne: "I \<noteq> {}" using big by auto
  define lo hi where "lo = Min I" and "hi = Max I"
  have mem: "lo \<in> I" "hi \<in> I" using idx(1) ne by (auto simp: lo_def hi_def)
  have "I \<subseteq> {lo..hi}" using idx(1) by (auto simp: lo_def hi_def)
  then have "card I \<le> hi + 1 - lo" using card_mono [of "{lo..hi}" I] by simp
  then have span: "n \<le> hi + 1 - lo" using big by simp
  then have "cd_event_time_millis (cs ! lo) \<le> cd_event_time_millis (cs ! (hi + 1 - n))"
    using idx(2) [OF mem(2)] big(2) by (intro times_sorted_nth [OF sorted]) auto
  then have "window_closes cs w n hi"
    using close [OF mem] span by (auto simp: window_closes_def)
  then show ?thesis using idx(2) [OF mem(2)] by auto
qed

text \<open>Enough events of one group within the window close a window of the sorted group.\<close>

lemma group_window_closes:
  assumes "consistent events" "0 < n" and E: "E \<subseteq> set events" "n \<le> card E"
    and part: "\<forall>e\<in>E. ne_tenant_id e = tenant \<and> takes_part to_str plan policy e key (time e)"
    and close: "\<And>e e'. e \<in> E \<Longrightarrow> e' \<in> E \<Longrightarrow> time e - time e' \<le> w"
  defines "cs \<equiv> sort_key candidate_order (group_candidates to_str plan policy events (tenant, key))"
  shows "\<exists>r<length cs. window_closes cs w n r"
proof -
  define cand where "cand e = \<lparr>cd_normalized_event_id = ne_normalized_event_id e, cd_event_time_millis = time e\<rparr>" for e
  define I where "I = {i. i < length cs \<and> cs ! i \<in> cand ` E}"
  have "cand ` E \<subseteq> set cs"
    using part E(1) first_occurrences_consistent [OF assms(1)]
    by (force simp: cs_def cand_def in_group_candidates)
  then have "cand ` E \<subseteq> (\<lambda>i. cs ! i) ` I"
    by (auto simp: I_def in_set_conv_nth subset_iff image_iff) metis
  moreover have fin: "finite I" by (simp add: I_def)
  ultimately have "card (cand ` E) \<le> card I" by (meson card_image_le card_mono finite_imageI le_trans)
  moreover have "inj_on cand E"
    using assms(1) E(1) by (auto simp: inj_on_def cand_def consistent_def subset_iff)
  ultimately have "n \<le> card I" using E(2) by (simp add: card_image)
  moreover have "cd_event_time_millis (cs ! j) - cd_event_time_millis (cs ! i) \<le> w"
    if "i \<in> I" "j \<in> I" for i j
    using that close by (auto simp: I_def cand_def)
  moreover have "times_sorted cs" by (simp add: cs_def times_sorted_sort_key)
  ultimately show ?thesis
    by (intro completes_window [OF _ fin]) (use assms(2) in \<open>auto simp: I_def\<close>)
qed

lemma threshold_group_result:
  fixes policy :: "('f, 'v, 'k :: linorder, 'err) threshold_policy"
  assumes "evaluate_threshold_normalized_events to_str plan events mode evaluated_at policy = Inr ms"
    and "k \<in> set (group_keys to_str plan policy events)"
  obtains m where "threshold_group_match plan (unat (ctp_threshold plan)) (uint (tw_duration_millis (ctp_window plan)))
      mode evaluated_at (k, group_candidates to_str plan policy events k)
      = (Inr m :: (_, 'err threshold_evaluation_error) result)"
    and "\<And>x. m = Some x \<Longrightarrow> x \<in> set ms"
proof -
  obtain found where found: "list_all2 (\<lambda>k m. threshold_group_match plan (unat (ctp_threshold plan))
      (uint (tw_duration_millis (ctp_window plan))) mode evaluated_at
      (k, group_candidates to_str plan policy events k)
      = (Inr m :: (_, 'err threshold_evaluation_error) result)) (group_keys to_str plan policy events) found"
    and ms: "ms = List.map_filter (\<lambda>m. m) found"
    using assms(1) by (auto simp: evaluate_threshold_ok)
  obtain i where i: "i < length (group_keys to_str plan policy events)" "group_keys to_str plan policy events ! i = k"
    using assms(2) by (auto simp: in_set_conv_nth)
  then have "found ! i \<in> set found" using found by (auto simp: list_all2_conv_all_nth)
  then show thesis
    by (intro that [of "found ! i"]) (use found i ms in \<open>auto simp: list_all2_conv_all_nth set_map_filter\<close>)
qed

section \<open>Properties\<close>

text \<open>C1: Every THRESHOLD match is justified: its events come from the batch, belong to one tenant and
  one group, match the filter, are pairwise different, are exactly as many as the threshold says
  and lie within the window; the observed times are those of the first and the last one.\<close>

theorem threshold_match_sound:
  assumes "evaluate_threshold_normalized_events to_str plan events mode evaluated_at policy = Inr ms"
    and "m \<in> set ms" and "0 < ctp_threshold plan"
  shows "\<exists>key cs.
     (\<forall>c\<in>set cs. \<exists>e\<in>set events. ne_tenant_id e = tsp_tenant_id m
        \<and> ne_normalized_event_id e = cd_normalized_event_id c
        \<and> takes_part to_str plan policy e key (cd_event_time_millis c))
   \<and> tsp_normalized_event_ids m = map cd_normalized_event_id cs \<and> distinct (tsp_normalized_event_ids m)
   \<and> length cs = unat (ctp_threshold plan) \<and> sorted (map candidate_order cs)
   \<and> cd_event_time_millis (last cs) - cd_event_time_millis (hd cs) \<le> uint (tw_duration_millis (ctp_window plan))
   \<and> tsp_first_observed_at m = timestamp_from_millis (cd_event_time_millis (hd cs))
   \<and> tsp_last_observed_at m = timestamp_from_millis (cd_event_time_millis (last cs))"
proof -
  let ?n = "unat (ctp_threshold plan)" and ?w = "uint (tw_duration_millis (ctp_window plan))"
  obtain tenant key cs r where cs: "cs = sort_key candidate_order (group_candidates to_str plan policy events (tenant, key))"
    and r: "r < length cs" "window_closes cs ?w ?n r"
    and m: "m = threshold_match_of plan mode evaluated_at tenant (window_of cs ?n r)"
    using assms by (rule threshold_match_window) blast
  have n: "0 < ?n" using assms(3) by (simp add: unat_gt_0 word_neq_0_conv)
  note facts = window_of_facts [OF r(2,1) n]
  have part: "\<forall>c\<in>set (window_of cs ?n r). \<exists>e\<in>set events. ne_tenant_id e = tenant
      \<and> ne_normalized_event_id e = cd_normalized_event_id c
      \<and> takes_part to_str plan policy e key (cd_event_time_millis c)"
    using facts(4) set_first_occurrences [of "{}" events] by (force simp: cs in_group_candidates)
  have "distinct (map cd_normalized_event_id cs)"
    unfolding cs by (metis distinct_group_candidates distinct_map distinct_sort set_sort)
  then have dist: "distinct (map cd_normalized_event_id (window_of cs ?n r))"
    by (simp add: window_of_def drop_map [symmetric] take_map [symmetric])
  have sort: "sorted (map candidate_order (window_of cs ?n r))"
    unfolding window_of_def drop_map [symmetric] take_map [symmetric] by (simp add: cs)
  show ?thesis
    by (rule exI [of _ key], rule exI [of _ "window_of cs ?n r"])
      (use part dist sort facts r in \<open>simp add: m threshold_match_of_def window_closes_def\<close>)
qed

theorem threshold_match_sound_witness:
  "sample_match \<in> set [sample_match] \<and> 0 < ctp_threshold sample_plan
   \<and> length (tsp_normalized_event_ids sample_match) = 2 \<and> distinct (tsp_normalized_event_ids sample_match)"
  using threshold_match_sound [OF sample_eval, of sample_match] by (auto dest: arg_cong [where f = length])

text \<open>C2: No qualifying group is missed: in a batch where equal identities carry equal events, if at
  least as many events as the threshold take part with the same tenant and group key and lie
  pairwise within the window, then a match for that tenant is emitted whose events all take part
  with that group key.\<close>

theorem threshold_match_complete:
  fixes policy :: "('f, 'v, 'k :: linorder, 'err) threshold_policy"
  assumes eval: "evaluate_threshold_normalized_events to_str plan events mode evaluated_at policy = Inr ms"
    and "consistent events" and pos: "0 < ctp_threshold plan"
    and E: "E \<subseteq> set events" "unat (ctp_threshold plan) \<le> card E"
    and part: "\<forall>e\<in>E. ne_tenant_id e = tenant \<and> takes_part to_str plan policy e key (time e)"
    and close: "\<forall>e\<in>E. \<forall>e'\<in>E. time e - time e' \<le> uint (tw_duration_millis (ctp_window plan))"
  shows "\<exists>m\<in>set ms. tsp_tenant_id m = tenant
    \<and> (\<forall>i\<in>set (tsp_normalized_event_ids m). \<exists>e\<in>set events. \<exists>t. ne_normalized_event_id e = i
         \<and> takes_part to_str plan policy e key t)"
proof -
  let ?n = "unat (ctp_threshold plan)" and ?w = "uint (tw_duration_millis (ctp_window plan))"
  let ?G = "group_candidates to_str plan policy events (tenant, key)"
  have n: "0 < ?n" using pos by (simp add: unat_gt_0 word_neq_0_conv)
  define cs where "cs = sort_key candidate_order ?G"
  have "\<exists>r<length cs. window_closes cs ?w ?n r"
    unfolding cs_def
    by (rule group_window_closes [OF assms(2) n E part]) (use close in auto)
  then obtain r where r: "find (window_closes cs ?w ?n) [0..<length cs] = Some r"
    by (cases "find (window_closes cs ?w ?n) [0..<length cs]") (auto simp: find_None_iff)
  have len: "length cs = length ?G" by (simp add: cs_def)
  have "(tenant, key) \<in> set (group_keys to_str plan policy events)"
    using find_upt_Some [OF r] by (auto simp: in_group_keys len)
  then obtain m where m: "threshold_group_match plan ?n ?w mode evaluated_at ((tenant, key), ?G)
      = (Inr m :: (_, 'err threshold_evaluation_error) result)" and ms: "\<And>x. m = Some x \<Longrightarrow> x \<in> set ms"
    by (rule threshold_group_result [OF eval]) blast
  have "m = Some (threshold_match_of plan mode evaluated_at tenant (window_of cs ?n r))"
    using r iffD1 [OF threshold_sorted_match_ok [OF _ n times_sorted_sort_key] m [unfolded threshold_group_match.simps]]
    by (simp add: cs_def [symmetric] del: length_sort)
  note mem = ms [OF this]
  have "set (window_of cs ?n r) \<subseteq> set ?G"
    using window_of_facts(4) [of cs ?w ?n r] find_upt_Some [OF r] n by (simp add: cs_def)
  then have "\<forall>i\<in>set (map cd_normalized_event_id (window_of cs ?n r)). \<exists>e\<in>set events. \<exists>t.
      ne_normalized_event_id e = i \<and> takes_part to_str plan policy e key t"
    using set_first_occurrences [of "{}" events] by (fastforce simp: in_group_candidates subset_iff)
  then show ?thesis by (intro bexI [OF _ mem]) (simp add: threshold_match_of_def)
qed

theorem threshold_match_complete_witness:
  "\<exists>m\<in>set [sample_match]. tsp_tenant_id m = sample_tenant"
proof -
  let ?E = "{sample_event CHR ''1'' 5, sample_event CHR ''3'' 12}"
  have card: "card ?E = 2" by (simp add: sample_event_def)
  have "consistent sample_batch"
    by (simp add: consistent_def sample_batch_def inj_on_def sample_event_def)
  moreover have "?E \<subseteq> set sample_batch" by (simp add: sample_batch_def)
  moreover have "\<forall>e\<in>?E. ne_tenant_id e = sample_tenant
      \<and> takes_part (\<lambda>f. f) sample_plan sample_policy e 0 (uint (ne_class_uid e))"
    by (simp add: takes_part_def sample_eval_defs)
  ultimately show ?thesis
    using threshold_match_complete [OF sample_eval, of ?E sample_tenant 0 "\<lambda>e. uint (ne_class_uid e)"] card
    by (auto simp: sample_event_def sample_plan_def)
qed

text \<open>C3: The input order does not matter, nor do repeated events: two batches with the same set of
  events, in which equal identities carry equal events, give the same matches in the same order.\<close>

theorem threshold_order_irrelevant:
  assumes "evaluate_threshold_normalized_events to_str plan events mode evaluated_at policy = Inr ms"
    and "consistent events" and "set events' = set events"
  shows "evaluate_threshold_normalized_events to_str plan events' mode evaluated_at policy = Inr ms"
proof -
  have c': "consistent events'" using assms(2,3) by (simp add: consistent_def)
  have firsts: "set (first_occurrences {} events') = set (first_occurrences {} events)"
    using first_occurrences_consistent [OF assms(2)] first_occurrences_consistent [OF c'] assms(3) by simp
  then have found: "set (List.map_filter (found_candidate to_str plan policy) (first_occurrences {} events'))
      = set (List.map_filter (found_candidate to_str plan policy) (first_occurrences {} events))"
    by (simp add: set_map_filter)
  have keys: "group_keys to_str plan policy events' = group_keys to_str plan policy events"
    by (simp add: group_keys_def found)
  have "set (group_candidates to_str plan policy events' k) = set (group_candidates to_str plan policy events k)" for k
    by (simp add: group_candidates_def found)
  then have "sort_key candidate_order (group_candidates to_str plan policy events' k)
      = sort_key candidate_order (group_candidates to_str plan policy events k)" for k
    by (intro sort_candidates_cong) (auto intro: distinct_cd_imp_distinct distinct_group_candidates)
  then show ?thesis
    using assms(1,3) firsts unfolding evaluate_threshold_ok keys
    by (simp cong: threshold_group_match_cong)
qed

theorem threshold_order_irrelevant_witness:
  "evaluate_threshold_normalized_events (\<lambda>f. f) sample_plan (rev sample_batch @ sample_batch) Test
     sample_time sample_policy = Inr [sample_match]"
  by (rule threshold_order_irrelevant [OF sample_eval])
    (auto simp: consistent_def sample_batch_def inj_on_def sample_event_def)

text \<open>C31: The order does matter when two events share an identity and differ: the first one wins, so
  the same three events, in two orders, give one match and none.\<close>

theorem threshold_conflicting_duplicates:
  "\<exists>events events'. set events' = set events
     \<and> is_ok (evaluate_threshold_normalized_events (\<lambda>f. f) sample_plan events Test sample_time sample_policy)
     \<and> evaluate_threshold_normalized_events (\<lambda>f. f) sample_plan events Test sample_time sample_policy
       \<noteq> evaluate_threshold_normalized_events (\<lambda>f. f) sample_plan events' Test sample_time sample_policy"
proof (intro exI conjI)
  let ?a = "sample_event CHR ''1'' 5" and ?b = "sample_event CHR ''1'' 500" and ?c = "sample_event CHR ''3'' 12"
  show "set [?b, ?a, ?c] = set [?a, ?b, ?c]" by auto
  have 1: "evaluate_threshold_normalized_events (\<lambda>f. f) sample_plan [?a, ?b, ?c] Test sample_time sample_policy
      = Inr [sample_match]"
    by (simp add: sample_match_def sample_eval_defs)
  have 2: "evaluate_threshold_normalized_events (\<lambda>f. f) sample_plan [?b, ?a, ?c] Test sample_time sample_policy
      = Inr []"
    by (simp add: sample_eval_defs)
  show "is_ok (evaluate_threshold_normalized_events (\<lambda>f. f) sample_plan [?a, ?b, ?c] Test sample_time sample_policy)"
    by (simp add: 1)
  show "evaluate_threshold_normalized_events (\<lambda>f. f) sample_plan [?a, ?b, ?c] Test sample_time sample_policy
      \<noteq> evaluate_threshold_normalized_events (\<lambda>f. f) sample_plan [?b, ?a, ?c] Test sample_time sample_policy"
    by (simp add: 1 2)
qed

section \<open>Materialized Signals\<close>

lemma millis_nanos_fit: "fits_i32 (nanos (timestamp_from_millis t))"
  using pos_mod_bound [of 1000 t] pos_mod_sign [of 1000 t]
  by (simp add: timestamp_from_millis_def fits_i32_def) linarith

lemma timestamp_from_millis_mono:
  assumes "a \<le> b"
  shows "timestamp_le (timestamp_from_millis a) (timestamp_from_millis b)"
proof -
  have "a div 1000 \<le> b div 1000" by (rule zdiv_mono1 [OF assms]) simp
  moreover have "a mod 1000 \<le> b mod 1000" if "a div 1000 = b div 1000"
    using assms div_mult_mod_eq [of a 1000] div_mult_mod_eq [of b 1000] that by linarith
  ultimately show ?thesis
    by (cases "a div 1000 = b div 1000") (auto simp: timestamp_le_def timestamp_from_millis_def)
qed

definition wf_threshold_signal_context :: "threshold_signal_context \<Rightarrow> bool" where
  "wf_threshold_signal_context c \<longleftrightarrow> uuid_v7 (tsc_signal_id c) \<and> has_text (tsc_severity c)
     \<and> (\<forall>x. tsc_confidence c = Some x \<longrightarrow> has_text x) \<and> has_text (tsc_summary c)
     \<and> has_text (tsc_input_relation c) \<and> valid_timestamp (tsc_created_at c) \<and> tsc_source_count c \<noteq> 0"

definition wf_threshold_provenance :: "('rv \<Rightarrow> string) \<Rightarrow> 'rv threshold_signal_provenance \<Rightarrow> bool" where
  "wf_threshold_provenance show_version p \<longleftrightarrow>
     uuid_v7 (tsp_tenant_id p) \<and> detection_rule_id (as_str (tsp_rule_id p))
     \<and> has_text (show_version (tsp_rule_version p))
     \<and> tsp_normalized_event_ids p \<noteq> [] \<and> length (tsp_normalized_event_ids p) \<le> 2 ^ 32
     \<and> distinct (tsp_normalized_event_ids p) \<and> (\<forall>i\<in>set (tsp_normalized_event_ids p). uuid_v7 i)
     \<and> valid_timestamp (tsp_first_observed_at p) \<and> valid_timestamp (tsp_last_observed_at p)
     \<and> timestamp_le (tsp_first_observed_at p) (tsp_last_observed_at p)
     \<and> valid_timestamp (tsp_evaluated_at p) \<and> tsp_execution_mode p \<noteq> ModeUnspecified"

definition threshold_inputs :: "threshold_signal_context \<Rightarrow> string list \<Rightarrow> signal_input list" where
  "threshold_inputs c ids = map (\<lambda>(i, input_id). \<lparr>si_signal_id = tsc_signal_id c, si_input_type = 1,
     si_input_id = input_id, si_relation = tsc_input_relation c, si_ordinal = of_nat i\<rparr>) (enumerate 0 ids)"

lemma threshold_inputs_built:
  assumes "length ids \<le> 2 ^ 32"
  shows "try_map (threshold_signal_input c) (enumerate 0 ids) = Inr (threshold_inputs c ids)"
  unfolding threshold_inputs_def
proof (rule try_map_total)
  fix x assume "x \<in> set (enumerate 0 ids)"
  then have "fst x < 2 ^ 32" using assms by (auto simp: in_set_enumerate_eq)
  then show "threshold_signal_input c x = Inr (case x of (i, input_id) \<Rightarrow>
      \<lparr>si_signal_id = tsc_signal_id c, si_input_type = 1, si_input_id = input_id,
       si_relation = tsc_input_relation c, si_ordinal = of_nat i\<rparr>)"
    by (cases x) (simp add: threshold_signal_input_def u32_try_from_def)
qed

lemma threshold_inputs_wf:
  assumes "length ids \<le> 2 ^ 32" "ids \<noteq> []" "distinct ids" "\<forall>i\<in>set ids. uuid_v7 i"
    and "has_text (tsc_input_relation c)"
  shows "wf_signal_inputs (tsc_signal_id c) (threshold_inputs c ids)"
    and "normalized_inputs (threshold_inputs c ids) = length ids"
    and "map si_input_id (threshold_inputs c ids) = ids"
proof -
  have nth: "threshold_inputs c ids ! i = \<lparr>si_signal_id = tsc_signal_id c, si_input_type = 1,
      si_input_id = ids ! i, si_relation = tsc_input_relation c, si_ordinal = of_nat i\<rparr>"
    if "i < length ids" for i
    using that by (simp add: threshold_inputs_def nth_enumerate_eq)
  have len: "length (threshold_inputs c ids) = length ids" by (simp add: threshold_inputs_def)
  show ids: "map si_input_id (threshold_inputs c ids) = ids"
    by (rule nth_equalityI) (simp_all add: len nth)
  have types: "\<forall>x\<in>set (threshold_inputs c ids). si_input_type x = 1"
    by (auto simp: threshold_inputs_def)
  then show "normalized_inputs (threshold_inputs c ids) = length ids"
    by (simp add: normalized_inputs_def len)
  have "distinct (map (\<lambda>x. (si_input_type x, si_input_id x)) (threshold_inputs c ids))"
  proof -
    have "map (\<lambda>x. (si_input_type x, si_input_id x)) (threshold_inputs c ids) = map (Pair 1) ids"
      by (rule nth_equalityI) (simp_all add: len nth)
    then show ?thesis using assms(3) by (simp add: distinct_map inj_on_def)
  qed
  moreover have "threshold_inputs c ids \<noteq> []" using len assms(2) by auto
  moreover have "unat (of_nat i :: 32 word) = i" if "i < length ids" for i
    using that assms(1) by (simp add: unat_of_nat)
  ultimately show "wf_signal_inputs (tsc_signal_id c) (threshold_inputs c ids)"
    using assms by (simp add: wf_signal_inputs_def wf_signal_input_def len nth)
qed

lemma materialize_threshold_ok:
  assumes "wf_threshold_provenance show_version p" "wf_threshold_signal_context c"
    and "unat (tsc_source_count c) \<le> length (tsp_normalized_event_ids p)"
  shows "\<exists>s. materialize_threshold_signal show_version p c = Inr s \<and> wf_signal s
    \<and> map si_input_id (sg_inputs s) = tsp_normalized_event_ids p"
proof -
  let ?ids = "tsp_normalized_event_ids p"
  have len: "length ?ids \<le> 2 ^ 32" "?ids \<noteq> []" and rel: "has_text (tsc_input_relation c)"
    using assms by (auto simp: wf_threshold_provenance_def wf_threshold_signal_context_def)
  have ids: "distinct ?ids" "\<forall>i\<in>set ?ids. uuid_v7 i"
    using assms(1) by (auto simp: wf_threshold_provenance_def)
  note inputs = threshold_inputs_wf [OF len ids rel]
  define count where "count = (of_nat (length ?ids) :: 64 word)"
  have count: "unat count = length ?ids" using len(1) by (simp add: count_def unat_of_nat)
  then have u64: "u64_try_from (length ?ids) = Some count" by (simp add: u64_try_from_eq_Some)
  define s where "s = threshold_signal_of show_version p c count (threshold_inputs c ?ids)"
  have "count \<noteq> 0" using count len(2) by auto
  moreover have "tsc_source_count c \<le> count" using assms(3) count by (simp add: word_le_nat_alt)
  ultimately have "wf_signal_counts s"
    using assms(2) inputs(2) count
    by (auto simp: wf_signal_counts_def s_def threshold_signal_of_def wf_threshold_signal_context_def)
  then have wf: "wf_signal s"
    using assms(1,2) inputs(1) execution_mode_i32_range [of "tsp_execution_mode p"]
      contract_backend_range [of "tsp_execution_backend p"]
    by (auto simp: wf_signal_def s_def threshold_signal_of_def wf_threshold_signal_context_def
        wf_threshold_provenance_def wf_observed_pair_def)
  have "materialize_threshold_signal show_version p c = validated validate_signal s"
    using len(2) u64 threshold_inputs_built [OF len(1)] by (simp add: materialize_threshold_signal_def s_def)
  also have "\<dots> = Inr s" using wf by (simp add: signal_contract.gate_ok_iff)
  finally show ?thesis using wf inputs(3) by (auto simp: s_def threshold_signal_of_def)
qed

text \<open>Every match of an evaluation becomes a Signal that passes the Signal contract and lists the
  contributing events in order, provided the plan carries a parsed rule id, the version prints as
  text, the producer's values are well-formed and at most \<open>2^32\<close> events contribute.\<close>

theorem threshold_match_materializes:
  assumes eval: "evaluate_threshold_normalized_events to_str plan events mode evaluated_at policy = Inr ms"
    and m: "m \<in> set ms" and n: "0 < ctp_threshold plan" "unat (ctp_threshold plan) \<le> 2 ^ 32"
    and rule: "parsed_rule_id (plan_rule_id (compiled_plan (ctp_filter plan)))"
      "has_text (show_version (plan_rule_version (compiled_plan (ctp_filter plan))))"
    and ctx: "wf_threshold_signal_context c" "tsc_source_count c \<le> ctp_threshold plan"
  shows "\<exists>s. materialize_threshold_signal show_version m c = Inr s \<and> wf_signal s
    \<and> map si_input_id (sg_inputs s) = tsp_normalized_event_ids m"
proof -
  let ?n = "unat (ctp_threshold plan)" and ?w = "uint (tw_duration_millis (ctp_window plan))"
  obtain tenant key cs r where cs: "cs = sort_key candidate_order (group_candidates to_str plan policy events (tenant, key))"
    and r: "r < length cs" "window_closes cs ?w ?n r"
    and valid: "valid_timestamp (tsp_first_observed_at m)" "valid_timestamp (tsp_last_observed_at m)"
    and m_eq: "m = threshold_match_of plan mode evaluated_at tenant (window_of cs ?n r)"
    using eval m n(1) by (rule threshold_match_window)
  have pos: "0 < ?n" using n(1) by (simp add: unat_gt_0 word_neq_0_conv)
  note facts = window_of_facts [OF r(2,1) pos]
  have ok: "\<forall>e\<in>set events. uuid_v7 (ne_normalized_event_id e) \<and> uuid_v7 (ne_tenant_id e)"
    "valid_timestamp evaluated_at" "mode \<noteq> ModeUnspecified"
    using eval by (auto simp: evaluate_threshold_ok)
  have "distinct (map cd_normalized_event_id cs)"
    unfolding cs by (metis distinct_group_candidates distinct_map distinct_sort set_sort)
  then have dist: "distinct (map cd_normalized_event_id (window_of cs ?n r))"
    by (simp add: window_of_def drop_map [symmetric] take_map [symmetric])
  have orig: "\<exists>e\<in>set events. ne_tenant_id e = tenant \<and> ne_normalized_event_id e = cd_normalized_event_id x"
    if "x \<in> set (window_of cs ?n r)" for x
    using that facts(4) set_first_occurrences [of "{}" events] by (force simp: cs in_group_candidates)
  then have ids: "\<forall>i\<in>set (tsp_normalized_event_ids m). uuid_v7 i"
    using ok(1) by (fastforce simp: m_eq threshold_match_of_def)
  have "uuid_v7 tenant" using orig [OF hd_in_set [OF facts(5)]] ok(1) by auto
  have "cd_event_time_millis (cs ! (r + 1 - ?n)) \<le> cd_event_time_millis (cs ! r)"
    using r pos by (intro times_sorted_nth) (auto simp: cs times_sorted_sort_key)
  then have "timestamp_le (tsp_first_observed_at m) (tsp_last_observed_at m)"
    by (simp add: m_eq threshold_match_of_def facts(2,3) timestamp_from_millis_mono)
  then have "wf_threshold_provenance show_version m"
    using rule ids valid dist \<open>uuid_v7 tenant\<close> ok facts(1,5) n(2)
    by (simp add: wf_threshold_provenance_def m_eq threshold_match_of_def parsed_rule_id_iff)
  moreover have "unat (tsc_source_count c) \<le> length (tsp_normalized_event_ids m)"
    using ctx(2) facts(1) by (simp add: m_eq threshold_match_of_def word_le_nat_alt)
  ultimately show ?thesis by (rule materialize_threshold_ok [OF _ ctx(1)])
qed

definition sample_threshold_context :: threshold_signal_context where
  "sample_threshold_context = \<lparr>tsc_signal_id = sample_uuid CHR ''7'', tsc_severity = ''HIGH'',
     tsc_confidence = None, tsc_summary = ''burst'', tsc_input_relation = ''THRESHOLD_INPUT'',
     tsc_created_at = sample_time, tsc_source_count = 1\<rparr>"

theorem threshold_match_materializes_witness:
  "\<exists>s. materialize_threshold_signal (\<lambda>v. v) sample_match sample_threshold_context = Inr s
    \<and> wf_signal s \<and> map si_input_id (sg_inputs s) = tsp_normalized_event_ids sample_match"
proof (rule threshold_match_materializes [OF sample_eval])
  show "parsed_rule_id (plan_rule_id (compiled_plan (ctp_filter sample_plan)))"
    by (simp add: parsed_rule_id_def sample_plan_def sample_event_plan_def rule_id_from_str_def
        signal_constants byte_class_defs)
  show "has_text (plan_rule_version (compiled_plan (ctp_filter sample_plan)))"
    by (rule has_text_solid [of "CHR ''1''"])
      (simp_all add: sample_plan_def sample_event_plan_def solid_def byte_def)
  have "has_text ''HIGH''" "has_text ''burst''" "has_text ''THRESHOLD_INPUT''"
    by (rule has_text_solid [of "CHR ''H''"] has_text_solid [of "CHR ''b''"]; simp add: solid_def byte_def)+
  then show "wf_threshold_signal_context sample_threshold_context"
    by (simp add: wf_threshold_signal_context_def sample_threshold_context_def sample_uuid_ok sample_time_ok)
qed (simp_all add: sample_threshold_context_def)

end
