(* ===== verification/Correlation_Correctness.thy ===== *)
theory Correlation_Correctness
  imports Threshold_Correctness Sample_Signals
begin

text \<open>
  What SEQUENCE evaluation and materialization guarantee: the greedy selection returns only valid
  sequences, finds one whenever times follow the order, and misses some otherwise; the evaluation
  depends on the set of Signals only; every match becomes a valid Finding.
\<close>

section \<open>Valid sequences\<close>

definition valid_sequence :: "'o :: linorder sequence_candidate list \<Rightarrow> nat \<Rightarrow> int \<Rightarrow> nat list \<Rightarrow> bool" where
  "valid_sequence cs n w sel \<longleftrightarrow> length sel = n \<and> (\<forall>i\<in>set sel. i < length cs) \<and> sorted_wrt (<) sel
     \<and> (\<forall>k<n. k \<in> set (sc_stage_indices (cs ! (sel ! k))))
     \<and> sorted_wrt (\<lambda>i j. sc_order_key (cs ! i) < sc_order_key (cs ! j)) sel
     \<and> (\<forall>i\<in>set sel. \<forall>j\<in>set sel. sc_time_millis (cs ! j) - sc_time_millis (cs ! i) \<le> w)"

text \<open>The state of the selection: a valid prefix with its bounds.\<close>

definition selection_state ::
  "'o :: linorder sequence_candidate list \<Rightarrow> int \<Rightarrow> nat list \<times> nat \<times> 'o \<times> int \<times> int \<Rightarrow> bool" where
  "selection_state cs w st \<longleftrightarrow> (case st of (sel, li, lk, mn, mx) \<Rightarrow>
     sel \<noteq> [] \<and> valid_sequence cs (length sel) w sel \<and> li = last sel \<and> lk = sc_order_key (cs ! li)
     \<and> mn = Min ((\<lambda>i. sc_time_millis (cs ! i)) ` set sel)
     \<and> mx = Max ((\<lambda>i. sc_time_millis (cs ! i)) ` set sel))"

lemma find_next_Some:
  "find_next s lk mn mx w xs = Some (i, mn', mx') \<Longrightarrow>
     \<exists>c. (i, c) \<in> set xs \<and> s \<in> set (sc_stage_indices c) \<and> lk < sc_order_key c
       \<and> mn' = min mn (sc_time_millis c) \<and> mx' = max mx (sc_time_millis c) \<and> mx' - mn' \<le> w"
  by (induction s lk mn mx w xs rule: find_next.induct) (auto split: if_splits)

lemma find_next_eligible:
  assumes "(i, c) \<in> set xs" "s \<in> set (sc_stage_indices c)" "lk < sc_order_key c"
    and "max mx (sc_time_millis c) - min mn (sc_time_millis c) \<le> w"
  shows "find_next s lk mn mx w xs \<noteq> None"
  using assms by (induction s lk mn mx w xs rule: find_next.induct) auto

text \<open>On an index-sorted list, the candidate found comes no later than any eligible one.\<close>

lemma find_next_least:
  assumes "find_next s lk mn mx w xs = Some (i', mn', mx')" "sorted_wrt (<) (map fst xs)"
    and "(i, c) \<in> set xs" "s \<in> set (sc_stage_indices c)" "lk < sc_order_key c"
    and "max mx (sc_time_millis c) - min mn (sc_time_millis c) \<le> w"
  shows "i' \<le> i"
  using assms
proof (induction s lk mn mx w xs rule: find_next.induct)
  case (2 s lk mn mx w j d rest)
  then show ?case by (cases "(i, c) = (j, d)") (force split: if_splits)+
qed simp

lemma drop_enumerate_mem:
  "(i, c) \<in> set (drop k (enumerate 0 cs)) \<longleftrightarrow> k \<le> i \<and> i < length cs \<and> c = cs ! i"
proof -
  have "drop k (enumerate 0 cs) = enumerate k (drop k cs)"
    by (rule nth_equalityI) (auto simp: nth_enumerate_eq)
  then show ?thesis by (auto simp: in_set_enumerate_eq)
qed

lemma sorted_drop_enumerate: "sorted_wrt (<) (map fst (drop k (enumerate 0 cs)))"
  by (simp add: drop_map [symmetric] enumerate_eq_zip sorted_wrt_drop)

lemma valid_sequence_snoc:
  assumes "valid_sequence cs n w sel" "sel \<noteq> []" "last sel < i" "i < length cs"
    and "n \<in> set (sc_stage_indices (cs ! i))" "sc_order_key (cs ! last sel) < sc_order_key (cs ! i)"
    and "\<forall>j\<in>set sel. sc_time_millis (cs ! j) - sc_time_millis (cs ! i) \<le> w
       \<and> sc_time_millis (cs ! i) - sc_time_millis (cs ! j) \<le> w" "0 \<le> w"
  shows "valid_sequence cs (Suc n) w (sel @ [i])"
proof -
  have le: "\<forall>j\<in>set sel. j \<le> last sel"
    and key: "\<forall>j\<in>set sel. sc_order_key (cs ! j) \<le> sc_order_key (cs ! last sel)"
    using assms(1) sorted_wrt_last [of "(<)" sel]
      sorted_wrt_last [of "\<lambda>i j. sc_order_key (cs ! i) < sc_order_key (cs ! j)" sel]
    by (auto simp: valid_sequence_def intro: less_imp_le)
  show ?thesis
    using assms le key by (auto simp: valid_sequence_def sorted_wrt_append nth_append less_Suc_eq)
qed

lemma selection_step:
  assumes st: "selection_state cs w (sel, li, lk, mn, mx)" and w: "0 \<le> w"
    and found: "find_next (length sel) lk mn mx w (drop (li + 1) (enumerate 0 cs)) = Some (i, mn', mx')"
  shows "selection_state cs w (sel @ [i], i, sc_order_key (cs ! i), mn', mx')"
proof -
  let ?t = "\<lambda>i. sc_time_millis (cs ! i)"
  from find_next_Some [OF found] have i: "li < i" "i < length cs" "length sel \<in> set (sc_stage_indices (cs ! i))"
    "lk < sc_order_key (cs ! i)" and mn': "mn' = min mn (?t i)" and mx': "mx' = max mx (?t i)" and span: "mx' - mn' \<le> w"
    by (auto simp: drop_enumerate_mem)
  have sel: "sel \<noteq> []" "valid_sequence cs (length sel) w sel" "li = last sel" "lk = sc_order_key (cs ! li)"
    and mn: "mn = Min (?t ` set sel)" and mx: "mx = Max (?t ` set sel)"
    using st by (auto simp: selection_state_def)
  have "mn \<le> ?t j" "?t j \<le> mx" if "j \<in> set sel" for j using that by (auto simp: mn mx)
  then have "\<forall>j\<in>set sel. ?t j - ?t i \<le> w \<and> ?t i - ?t j \<le> w"
    using span by (force simp: mn' mx')
  then have "valid_sequence cs (Suc (length sel)) w (sel @ [i])"
    using valid_sequence_snoc [OF sel(2,1) _ i(2,3) _ _ w] i sel by simp
  moreover have "mn' = Min (?t ` set (sel @ [i]))" "mx' = Max (?t ` set (sel @ [i]))"
    using sel(1) by (simp_all add: mn' mx' mn mx min.commute max.commute)
  ultimately show ?thesis by (simp add: selection_state_def)
qed

lemma select_stages_sound:
  assumes "select_stages cs w [k..<n] (sel, li, lk, mn, mx) = Some (sel', mn', mx')"
    and "selection_state cs w (sel, li, lk, mn, mx)" "0 \<le> w" "k = length sel" "k \<le> n"
  shows "\<exists>li' lk'. selection_state cs w (sel', li', lk', mn', mx') \<and> length sel' = n
    \<and> take (length sel) sel' = sel"
  using assms
proof (induction "n - k" arbitrary: k sel li lk mn mx)
  case 0
  then show ?case by auto
next
  case (Suc d)
  then have upt: "[k..<n] = k # [Suc k..<n]" by (simp add: upt_conv_Cons)
  obtain i mn1 mx1 where found: "find_next k lk mn mx w (drop (li + 1) (enumerate 0 cs)) = Some (i, mn1, mx1)"
    and rest: "select_stages cs w [Suc k..<n] (sel @ [i], i, sc_order_key (cs ! i), mn1, mx1) = Some (sel', mn', mx')"
    using Suc.prems(1) by (auto simp: upt split: option.splits)
  have "selection_state cs w (sel @ [i], i, sc_order_key (cs ! i), mn1, mx1)"
    using selection_step [OF Suc.prems(2,3)] found Suc.prems(4) by simp
  moreover have "d = n - Suc k" "Suc k \<le> n" "Suc k = length (sel @ [i])"
    using Suc.hyps(2) Suc.prems(4) by auto
  ultimately obtain li' lk' where "selection_state cs w (sel', li', lk', mn', mx')" "length sel' = n"
    "take (Suc (length sel)) sel' = sel @ [i]"
    using Suc.hyps(1) [OF _ rest] Suc.prems(3) by auto
  note res = this
  have "take (length sel) sel' = take (length sel) (take (Suc (length sel)) sel')" by simp
  also have "\<dots> = sel" by (simp only: res(3)) simp
  finally show ?case using res(1,2) by blast
qed

lemma selection_state_start:
  assumes "i < length cs" "0 \<in> set (sc_stage_indices (cs ! i))" "0 \<le> w"
  shows "selection_state cs w ([i], i, sc_order_key (cs ! i), sc_time_millis (cs ! i), sc_time_millis (cs ! i))"
  using assms by (simp add: selection_state_def valid_sequence_def)

lemma select_sequence_sound:
  assumes "select_sequence cs n w = Some (sel, mn, mx)" "0 < n" "0 \<le> w"
  shows "valid_sequence cs n w sel" "mn = Min ((\<lambda>i. sc_time_millis (cs ! i)) ` set sel)"
    "mx = Max ((\<lambda>i. sc_time_millis (cs ! i)) ` set sel)"
proof -
  have "\<exists>li lk. selection_state cs w (sel, li, lk, mn, mx) \<and> length sel = n"
    if "select_from cs n w xs = Some (sel, mn, mx)" "set xs \<subseteq> set (enumerate 0 cs)" for xs
    using that
  proof (induction xs)
    case (Cons x xs)
    obtain i c where x: "x = (i, c)" by (cases x)
    then have ic: "i < length cs" "c = cs ! i"
      using Cons.prems(2) drop_enumerate_mem [of i c 0 cs] by auto
    show ?case
    proof (cases "0 \<in> set (sc_stage_indices c) \<and> select_stages cs w [1..<n]
        ([i], i, sc_order_key c, sc_time_millis c, sc_time_millis c) \<noteq> None")
      case True
      then have "select_stages cs w [1..<n] ([i], i, sc_order_key c, sc_time_millis c, sc_time_millis c)
          = Some (sel, mn, mx)" using Cons.prems(1) x by (auto split: option.splits)
      then show ?thesis
        using select_stages_sound [of cs w 1 n "[i]"] selection_state_start [of i cs w] True ic assms(2,3) by force
    next
      case False
      then show ?thesis using Cons x by (auto split: option.splits if_splits)
    qed
  qed simp
  from this [of "enumerate 0 cs"] assms(1) show "valid_sequence cs n w sel"
    "mn = Min ((\<lambda>i. sc_time_millis (cs ! i)) ` set sel)" "mx = Max ((\<lambda>i. sc_time_millis (cs ! i)) ` set sel)"
    by (auto simp: select_sequence_def selection_state_def)
qed

section \<open>When the selection is complete\<close>

definition in_order :: "'o :: linorder sequence_candidate list \<Rightarrow> bool" where
  "in_order cs \<longleftrightarrow> sorted (map sc_order_key cs)"

definition times_follow :: "'o sequence_candidate list \<Rightarrow> bool" where
  "times_follow cs \<longleftrightarrow> sorted (map sc_time_millis cs)"

lemma in_order_nth: "in_order cs \<Longrightarrow> i \<le> j \<Longrightarrow> j < length cs \<Longrightarrow> sc_order_key (cs ! i) \<le> sc_order_key (cs ! j)"
  using sorted_nth_mono [of "map sc_order_key cs" i j] by (simp add: in_order_def)

lemma times_follow_nth:
  "times_follow cs \<Longrightarrow> i \<le> j \<Longrightarrow> j < length cs \<Longrightarrow> sc_time_millis (cs ! i) \<le> sc_time_millis (cs ! j)"
  using sorted_nth_mono [of "map sc_time_millis cs" i j] by (simp add: times_follow_def)

lemma valid_sequence_nth:
  assumes "valid_sequence cs n w sel" "k < n"
  shows "sel ! k < length cs" "k \<in> set (sc_stage_indices (cs ! (sel ! k)))"
    and "\<And>j. j < k \<Longrightarrow> sel ! j < sel ! k \<and> sc_order_key (cs ! (sel ! j)) < sc_order_key (cs ! (sel ! k))"
    and "\<And>j. j < n \<Longrightarrow> sc_time_millis (cs ! (sel ! k)) - sc_time_millis (cs ! (sel ! j)) \<le> w"
  using assms by (auto simp: valid_sequence_def sorted_wrt_iff_nth_less)

lemma select_stages_complete:
  assumes cs: "in_order cs" "times_follow cs" and valid: "valid_sequence cs n w sel0"
    and "0 < k" "k \<le> n" "sel0 ! 0 \<le> li" "li \<le> sel0 ! (k - 1)"
  shows "select_stages cs w [k..<n]
    (sel, li, sc_order_key (cs ! li), sc_time_millis (cs ! (sel0 ! 0)), sc_time_millis (cs ! li)) \<noteq> None"
  using assms(4-)
proof (induction "n - k" arbitrary: k sel li)
  case 0
  then show ?case by simp
next
  case (Suc d)
  let ?t = "\<lambda>i. sc_time_millis (cs ! i)" and ?j = "sel0 ! k" and ?s = "sel0 ! 0"
  have k: "k < n" "k - 1 < k" using Suc by auto
  note j = valid_sequence_nth [OF valid k(1)]
  have lij: "li < ?j" using j(3) [OF k(2)] Suc.prems(4) by simp
  have "sc_order_key (cs ! li) \<le> sc_order_key (cs ! (sel0 ! (k - 1)))"
    using valid_sequence_nth(1) [OF valid, of "k - 1"] k Suc.prems(4) by (intro in_order_nth [OF cs(1)]) auto
  then have ok: "sc_order_key (cs ! li) < sc_order_key (cs ! ?j)" using j(3) [OF k(2)] by auto
  have "?t ?s \<le> ?t ?j" "?t li \<le> ?t ?j"
    using j(1) lij Suc.prems(3) by (auto intro!: times_follow_nth [OF cs(2)])
  moreover have "?t ?j - ?t ?s \<le> w" using j(4) [of 0] k by simp
  ultimately have span: "max (?t li) (?t ?j) - min (?t ?s) (?t ?j) \<le> w" by simp
  let ?xs = "drop (li + 1) (enumerate 0 cs)"
  have mem: "(?j, cs ! ?j) \<in> set ?xs" using lij j(1) by (simp add: drop_enumerate_mem)
  obtain i mn' mx' where found: "find_next k (sc_order_key (cs ! li)) (?t ?s) (?t li) w ?xs = Some (i, mn', mx')"
    using find_next_eligible [OF mem j(2) ok span] by auto
  have "i \<le> ?j" by (rule find_next_least [OF found sorted_drop_enumerate mem j(2) ok span])
  from find_next_Some [OF found] have i: "li < i" "i < length cs" "mn' = min (?t ?s) (?t i)" "mx' = max (?t li) (?t i)"
    by (auto simp: drop_enumerate_mem)
  then have "mn' = ?t ?s" "mx' = ?t i"
    using times_follow_nth [OF cs(2), of ?s i] times_follow_nth [OF cs(2), of li i] Suc.prems(3) by auto
  then show ?case
    using Suc.hyps(1) [of "Suc k" i "sel @ [i]"] Suc.hyps(2) Suc.prems(3) k i \<open>i \<le> ?j\<close> found
    by (simp add: upt_conv_Cons)
qed

lemma select_from_complete:
  assumes "(i, c) \<in> set xs" "0 \<in> set (sc_stage_indices c)"
    and "select_stages cs w [1..<n] ([i], i, sc_order_key c, sc_time_millis c, sc_time_millis c) \<noteq> None"
  shows "select_from cs n w xs \<noteq> None"
  using assms by (induction xs) (auto split: option.splits)

lemma select_sequence_complete:
  assumes "in_order cs" "times_follow cs" "valid_sequence cs n w sel" "0 < n"
  shows "select_sequence cs n w \<noteq> None"
proof -
  let ?s = "sel ! 0"
  have s: "?s < length cs" "0 \<in> set (sc_stage_indices (cs ! ?s))"
    using valid_sequence_nth [OF assms(3), of 0] assms(4) by auto
  have "(?s, cs ! ?s) \<in> set (enumerate 0 cs)" using s by (simp add: in_set_enumerate_eq)
  then show ?thesis
    unfolding select_sequence_def
    using select_from_complete [of ?s "cs ! ?s"] s select_stages_complete [OF assms(1-3), of 1 ?s "[?s]"] assms(4)
    by auto
qed

section \<open>The evaluation in closed form\<close>

lemma validate_execution_mode_ok [result_simps]:
  "validate_execution_mode s mode = Inr u \<longleftrightarrow> sg_execution_mode s = execution_mode_i32 mode"
  by (simp add: validate_execution_mode_def)

definition by_signal_id :: "signal set \<Rightarrow> (string \<times> signal) set" where
  "by_signal_id M = (\<lambda>s. (sg_signal_id s, s)) ` M"

definition accept_signal :: "execution_mode \<Rightarrow> signal \<Rightarrow> (signal, contract_violation) result" where
  "accept_signal mode s =
    and_then (validate_signal s) (\<lambda>_. and_then (validate_execution_mode s mode) (\<lambda>_. Inr s))"

interpretation unique_signals: unique_collector "accept_signal mode" sg_signal_id
  "\<lambda>_. violation ''signals.signal_id'' ''duplicate identity carries conflicting canonical Signal content''"
  "unique_signal_step mode" for mode
proof unfold_locales
  fix mode m s
  show "unique_signal_step mode m s = and_then (accept_signal mode s) (\<lambda>a. case btree_get m (sg_signal_id a) of
      Some existing \<Rightarrow> if existing \<noteq> a
        then Inl (violation ''signals.signal_id'' ''duplicate identity carries conflicting canonical Signal content'')
        else Inr m
    | None \<Rightarrow> Inr (btree_insert (sg_signal_id a) a m))"
    by (cases "validate_signal s"; cases "validate_execution_mode s mode")
      (simp_all add: unique_signal_step_def accept_signal_def)
qed

lemma accept_signals_ok:
  "try_map (accept_signal mode) xs = Inr ys \<longleftrightarrow>
     ys = xs \<and> (\<forall>s\<in>set xs. wf_signal s \<and> sg_execution_mode s = execution_mode_i32 mode)"
  by (induction xs arbitrary: ys)
    (auto simp: accept_signal_def result_simps validate_execution_mode_def list_all2_Cons1)

lemma validate_unique_signals_ok:
  "validate_unique_signals signals mode = Inr m \<longleftrightarrow>
     (\<forall>s\<in>set signals. wf_signal s \<and> sg_execution_mode s = execution_mode_i32 mode)
   \<and> inj_on sg_signal_id (set signals) \<and> btree_invar m \<and> set m = by_signal_id (set signals)"
  unfolding validate_unique_signals_def unique_signals.collect_ok accept_signals_ok
  by (auto simp: unique_signals.keyed_def by_signal_id_def)

lemma stage_index_fold:
  "try_fold (stage_index_step policy s) acc (enumerate k stages) = Inr is \<longleftrightarrow>
     (\<forall>st\<in>set stages. is_ok (stage_matches policy st s))
   \<and> is = acc @ map fst (filter (\<lambda>(i, st). stage_matches policy st s = Inr True) (enumerate k stages))"
proof (induction stages arbitrary: acc k)
  case (Cons st stages)
  show ?case
  proof (cases "stage_matches policy st s")
    case (Inr b)
    then show ?thesis by (cases b) (simp_all add: Cons.IH)
  qed simp
qed auto

text \<open>A Signal takes part in a group with a time and an order key.\<close>

definition joins ::
  "('st, 'jk, 'od) compiled_sequence_plan \<Rightarrow> ('st, 'jk, 'od, 'k, 'o, 'err) sequence_policy \<Rightarrow> signal
     \<Rightarrow> 'k \<Rightarrow> int \<Rightarrow> 'o \<Rightarrow> bool" where
  "joins plan policy s key t ord \<longleftrightarrow>
     sequence_group_key policy (csp_join_keys plan) s = Inr (Some key)
     \<and> sequence_time_millis policy s = Inr (Some t)
     \<and> sequence_order_key policy (csp_ordering plan) s = Inr (Some ord)"

definition matched_stages ::
  "('st, 'jk, 'od) compiled_sequence_plan \<Rightarrow> ('st, 'jk, 'od, 'k, 'o, 'err) sequence_policy \<Rightarrow> signal \<Rightarrow> nat list" where
  "matched_stages plan policy s =
    map fst (filter (\<lambda>(i, st). stage_matches policy st s = Inr True) (enumerate 0 (csp_stages plan)))"

lemma in_matched_stages:
  "k \<in> set (matched_stages plan policy s) \<longleftrightarrow>
     k < length (csp_stages plan) \<and> stage_matches policy (csp_stages plan ! k) s = Inr True"
  by (force simp: matched_stages_def in_set_enumerate_eq)

lemma sequence_candidate_of_Some:
  "sequence_candidate_of plan policy s = Inr (Some ((tenant, key), c)) \<longleftrightarrow>
     (\<forall>st\<in>set (csp_stages plan). is_ok (stage_matches policy st s))
     \<and> tenant = sg_tenant_id s \<and> sc_signal_id c = sg_signal_id s
     \<and> sc_stage_indices c = matched_stages plan policy s \<and> matched_stages plan policy s \<noteq> []
     \<and> joins plan policy s key (sc_time_millis c) (sc_order_key c)"
  by (cases c) (auto simp: sequence_candidate_of_def stage_index_fold matched_stages_def joins_def
      result_simps split: option.splits)

definition found_signal ::
  "('st, 'jk, 'od) compiled_sequence_plan \<Rightarrow> ('st, 'jk, 'od, 'k, 'o, 'err) sequence_policy \<Rightarrow> signal
     \<Rightarrow> ((string \<times> 'k) \<times> 'o sequence_candidate) option" where
  "found_signal plan policy s =
    (case sequence_candidate_of plan policy s of Inl _ \<Rightarrow> None | Inr found \<Rightarrow> found)"

lemma sequence_collect:
  "try_fold (sequence_collect_step plan policy) (btree_group fst snd items) ss = Inr groups \<longleftrightarrow>
     (\<forall>s\<in>set ss. is_ok (sequence_candidate_of plan policy s))
   \<and> groups = btree_group fst snd (items @ List.map_filter (found_signal plan policy) ss)"
proof (induction ss arbitrary: items)
  case Nil
  then show ?case by (auto simp: List.map_filter_simps)
next
  case (Cons s ss)
  show ?case
  proof (cases "sequence_candidate_of plan policy s")
    case (Inl e)
    then have "sequence_collect_step plan policy (btree_group fst snd items) s = Inl e"
      unfolding sequence_collect_step_def by simp
    then show ?thesis using Inl by simp
  next
    case (Inr found)
    then have f: "found_signal plan policy s = found" by (simp add: found_signal_def)
    show ?thesis
    proof (cases found)
      case None
      then have "sequence_collect_step plan policy (btree_group fst snd items) s = Inr (btree_group fst snd items)"
        using Inr unfolding sequence_collect_step_def by simp
      then show ?thesis using Inr None f by (simp add: Cons.IH List.map_filter_simps)
    next
      case (Some x)
      have "btree_push (fst x) (snd x) (btree_group fst snd items) = btree_group fst snd (items @ [x])"
        by (simp add: btree_group_snoc)
      then have "sequence_collect_step plan policy (btree_group fst snd items) s = Inr (btree_group fst snd (items @ [x]))"
        using Inr Some unfolding sequence_collect_step_def by (cases x) simp
      then show ?thesis using Inr Some f by (simp add: Cons.IH List.map_filter_simps)
    qed
  qed
qed

definition sequence_group ::
  "('st, 'jk, 'od) compiled_sequence_plan \<Rightarrow> ('st, 'jk, 'od, 'k, 'o, 'err) sequence_policy \<Rightarrow> signal list
     \<Rightarrow> string \<times> 'k \<Rightarrow> 'o sequence_candidate list" where
  "sequence_group plan policy ss k =
    map snd (filter (\<lambda>x. fst x = k) (List.map_filter (found_signal plan policy) ss))"

lemma in_sequence_group:
  "c \<in> set (sequence_group plan policy ss (tenant, key)) \<longleftrightarrow>
     (\<exists>s\<in>set ss. sequence_candidate_of plan policy s = Inr (Some ((tenant, key), c)))"
proof -
  have "found_signal plan policy s = Some x \<longleftrightarrow> sequence_candidate_of plan policy s = Inr (Some x)" for s x
    by (simp add: found_signal_def split: sum.splits)
  then show ?thesis
    unfolding sequence_group_def set_map set_filter set_map_filter by force
qed

lemma evaluate_sequence_ok:
  fixes policy :: "('st, 'jk, 'od, 'k :: linorder, 'o :: linorder, 'err) sequence_policy"
  shows "evaluate_sequence_signals plan signals mode policy = Inr ms \<longleftrightarrow>
     mode \<noteq> ModeUnspecified \<and> uint (csp_max_window_millis plan) < 2 ^ 63
   \<and> (\<exists>unique. validate_unique_signals signals mode = Inr unique
       \<and> (\<forall>s\<in>set (map snd unique). is_ok (sequence_candidate_of plan policy s))
       \<and> (\<exists>found. list_all2 (\<lambda>k m. sequence_group_match plan (uint (csp_max_window_millis plan)) mode
               (k, sequence_group plan policy (map snd unique) k)
               = (Inr m :: (_, 'err sequence_evaluation_error) result))
             (sorted_list_of_set (fst ` set (List.map_filter (found_signal plan policy) (map snd unique)))) found
           \<and> ms = List.map_filter (\<lambda>m. m) found))"
proof -
  have collect: "collect_sequence_candidates plan unique policy = Inr groups \<longleftrightarrow>
      (\<forall>s\<in>set (map snd unique). is_ok (sequence_candidate_of plan policy s))
      \<and> groups = map (\<lambda>k. (k, sequence_group plan policy (map snd unique) k))
          (sorted_list_of_set (fst ` set (List.map_filter (found_signal plan policy) (map snd unique))))"
    for unique groups
    using sequence_collect [of plan policy "[]" "map snd unique" groups]
    by (simp add: collect_sequence_candidates_def btree_group_entries sequence_group_def btree_group_def)
  show ?thesis
    by (auto simp: evaluate_sequence_signals_def result_simps collect i64_try_from_eq_Some list_all2_map1)
qed

lemma distinct_unique_signals:
  assumes "validate_unique_signals signals mode = Inr unique"
  shows "distinct (map sg_signal_id (map snd unique))" "set (map snd unique) = set signals"
proof -
  have u: "btree_invar unique" "set unique = by_signal_id (set signals)"
    using assms by (auto simp: validate_unique_signals_ok)
  then have "map sg_signal_id (map snd unique) = map fst unique" by (auto simp: by_signal_id_def)
  then show "distinct (map sg_signal_id (map snd unique))"
    using u(1) by (simp only: btree_invar_def strict_sorted_iff)
  show "set (map snd unique) = set signals" by (simp add: u(2) by_signal_id_def image_image)
qed

lemma distinct_sequence_group:
  assumes "distinct (map sg_signal_id ss)"
  shows "distinct (map sc_signal_id (sequence_group plan policy ss k))"
proof -
  have "distinct (map (sc_signal_id \<circ> snd) (filter (\<lambda>x. fst x = k) (List.map_filter (found_signal plan policy) ss)))"
  proof (rule distinct_map_map_filter [OF assms])
    fix s x assume "found_signal plan policy s = Some x"
    then have "sequence_candidate_of plan policy s = Inr (Some ((fst (fst x), snd (fst x)), snd x))"
      by (simp add: found_signal_def split: sum.splits)
    then show "(sc_signal_id \<circ> snd) x = sg_signal_id s" by (simp only: sequence_candidate_of_Some comp_def)
  qed
  then show ?thesis by (simp add: sequence_group_def)
qed

lemma in_order_sort_key: "in_order (sort_key sequence_order cs)"
proof -
  have "sorted_wrt (\<lambda>a b. sequence_order a \<le> sequence_order b) (sort_key sequence_order cs)"
    using sorted_sort_key [of sequence_order cs] by (simp only: sorted_map)
  then have "sorted_wrt (\<lambda>a b. sc_order_key a \<le> sc_order_key b) (sort_key sequence_order cs)"
    by (rule sorted_wrt_mono_rel [rotated]) (auto simp: sequence_order_def less_eq_prod_def)
  then show ?thesis by (simp only: in_order_def sorted_map)
qed

section \<open>Matches\<close>

lemma sequence_match_selected:
  fixes policy :: "('st, 'jk, 'od, 'k :: linorder, 'o :: linorder, 'err) sequence_policy"
  assumes "evaluate_sequence_signals plan signals mode policy = Inr ms" and "m \<in> set ms"
  obtains unique tenant key cs sel mn mx where
    "validate_unique_signals signals mode = Inr unique"
    "cs = sort_key sequence_order (sequence_group plan policy (map snd unique) (tenant, key))"
    "select_sequence cs (length (csp_stages plan)) (uint (csp_max_window_millis plan)) = Some (sel, mn, mx)"
    "valid_timestamp (scm_window_start m)" "valid_timestamp (scm_window_end m)"
    "m = \<lparr>scm_correlation_rule_id = csp_correlation_rule_id plan,
       scm_correlation_rule_version = csp_correlation_rule_version plan, scm_tenant_id = tenant,
       scm_window_start = timestamp_from_millis mn, scm_window_end = timestamp_from_millis mx,
       scm_input_signal_ids = map (\<lambda>i. sc_signal_id (cs ! i)) sel, scm_execution_backend = csp_backend plan,
       scm_execution_mode = mode, scm_configuration_hash = csp_configuration_hash plan\<rparr>"
proof -
  obtain unique found ks where u: "validate_unique_signals signals mode = Inr unique"
    and found: "list_all2 (\<lambda>k m. sequence_group_match plan (uint (csp_max_window_millis plan)) mode
        (k, sequence_group plan policy (map snd unique) k)
        = (Inr m :: (_, 'err sequence_evaluation_error) result)) ks found"
    and ms: "ms = List.map_filter (\<lambda>m. m) found"
    using assms(1) by (auto simp: evaluate_sequence_ok)
  have "Some m \<in> set found" using assms(2) by (auto simp: ms set_map_filter)
  then obtain i where "i < length found" "found ! i = Some m" by (auto simp: in_set_conv_nth)
  then obtain k where k: "sequence_group_match plan (uint (csp_max_window_millis plan)) mode
      (k, sequence_group plan policy (map snd unique) k)
      = (Inr (Some m) :: (_, 'err sequence_evaluation_error) result)"
    using list_all2_nthD2 [OF found, of i] by auto
  obtain tenant key where tk: "k = (tenant, key)" by (cases k)
  define cs where "cs = sort_key sequence_order (sequence_group plan policy (map snd unique) (tenant, key))"
  have "sequence_sorted_match plan (uint (csp_max_window_millis plan)) mode tenant cs
      = (Inr (Some m) :: (_, 'err sequence_evaluation_error) result)"
    using k by (simp add: tk cs_def)
  moreover from this obtain sel mn mx where
    sel: "select_sequence cs (length (csp_stages plan)) (uint (csp_max_window_millis plan)) = Some (sel, mn, mx)"
    by (auto simp: sequence_sorted_match_def split: option.splits)
  ultimately show thesis
    by (intro that [OF u cs_def sel]) (auto simp: sequence_sorted_match_def result_simps)
qed

lemma valid_sequence_distinct:
  assumes "valid_sequence cs n w sel" "distinct (map f cs)"
  shows "distinct (map (\<lambda>i. f (cs ! i)) sel)"
proof -
  have "inj_on (\<lambda>i. f (cs ! i)) {..<length cs}"
    using assms(2) by (auto simp: inj_on_def distinct_conv_nth)
  then have "inj_on (\<lambda>i. f (cs ! i)) (set sel)"
    by (rule inj_on_subset) (use assms(1) in \<open>auto simp: valid_sequence_def\<close>)
  then show ?thesis using assms(1) by (simp add: distinct_map valid_sequence_def strict_sorted_iff)
qed

lemma valid_sequence_span:
  assumes "valid_sequence cs n w sel" "0 < n"
  shows "Max ((\<lambda>i. sc_time_millis (cs ! i)) ` set sel) - Min ((\<lambda>i. sc_time_millis (cs ! i)) ` set sel) \<le> w"
proof -
  let ?T = "(\<lambda>i. sc_time_millis (cs ! i)) ` set sel"
  have "set sel \<noteq> {}" using assms by (auto simp: valid_sequence_def)
  then have "Max ?T \<in> ?T" "Min ?T \<in> ?T" by (auto intro!: Max_in Min_in)
  then show ?thesis using assms(1) by (fastforce simp: valid_sequence_def)
qed

section \<open>Properties\<close>

lemma sequence_match_evidence:
  assumes eval: "evaluate_sequence_signals plan signals mode policy = Inr ms" and m: "m \<in> set ms"
    and stages: "csp_stages plan \<noteq> []"
  shows "\<exists>key ss ts ords. map sg_signal_id ss = scm_input_signal_ids m \<and> distinct (scm_input_signal_ids m)
     \<and> length ss = length (csp_stages plan) \<and> length ts = length ss \<and> length ords = length ss
     \<and> (\<forall>k<length ss. ss ! k \<in> set signals \<and> wf_signal (ss ! k)
          \<and> sg_execution_mode (ss ! k) = execution_mode_i32 mode
          \<and> sg_tenant_id (ss ! k) = scm_tenant_id m
          \<and> stage_matches policy (csp_stages plan ! k) (ss ! k) = Inr True
          \<and> joins plan policy (ss ! k) key (ts ! k) (ords ! k))
     \<and> sorted_wrt (<) ords \<and> Max (set ts) - Min (set ts) \<le> uint (csp_max_window_millis plan)
     \<and> scm_window_start m = timestamp_from_millis (Min (set ts))
     \<and> scm_window_end m = timestamp_from_millis (Max (set ts))"
proof -
  let ?n = "length (csp_stages plan)" and ?w = "uint (csp_max_window_millis plan)"
  obtain unique tenant key cs sel mn mx where u: "validate_unique_signals signals mode = Inr unique"
    and cs: "cs = sort_key sequence_order (sequence_group plan policy (map snd unique) (tenant, key))"
    and sel: "select_sequence cs ?n ?w = Some (sel, mn, mx)"
    and m_eq: "m = \<lparr>scm_correlation_rule_id = csp_correlation_rule_id plan,
       scm_correlation_rule_version = csp_correlation_rule_version plan, scm_tenant_id = tenant,
       scm_window_start = timestamp_from_millis mn, scm_window_end = timestamp_from_millis mx,
       scm_input_signal_ids = map (\<lambda>i. sc_signal_id (cs ! i)) sel, scm_execution_backend = csp_backend plan,
       scm_execution_mode = mode, scm_configuration_hash = csp_configuration_hash plan\<rparr>"
    using eval m by (rule sequence_match_selected)
  have n: "0 < ?n" using stages by simp
  note valid = select_sequence_sound [OF sel n] and nth = valid_sequence_nth [OF select_sequence_sound(1) [OF sel n]]
  have len: "length sel = ?n" using valid(1) by (simp add: valid_sequence_def)
  have "\<exists>s. s \<in> set signals \<and> sequence_candidate_of plan policy s = Inr (Some ((tenant, key), cs ! i))"
    if "i \<in> set sel" for i
  proof -
    have "cs ! i \<in> set cs" using that valid(1) by (simp add: valid_sequence_def)
    then show ?thesis using distinct_unique_signals(2) [OF u] by (auto simp: cs in_sequence_group)
  qed
  then obtain ss where ss: "list_all2 (\<lambda>i s. s \<in> set signals
      \<and> sequence_candidate_of plan policy s = Inr (Some ((tenant, key), cs ! i))) sel ss"
    using list_all2_choice [of sel "\<lambda>i s. s \<in> set signals
      \<and> sequence_candidate_of plan policy s = Inr (Some ((tenant, key), cs ! i))"] by auto
  have lss: "length sel = length ss" using ss by (rule list_all2_lengthD)
  have cand: "ss ! k \<in> set signals" "sequence_candidate_of plan policy (ss ! k) = Inr (Some ((tenant, key), cs ! (sel ! k)))"
    if "k < length ss" for k using list_all2_nthD2 [OF ss that] by auto
  have ids: "sg_signal_id (ss ! k) = sc_signal_id (cs ! (sel ! k))" if "k < length ss" for k
    using cand(2) [OF that] unfolding sequence_candidate_of_Some by simp
  show ?thesis
  proof (intro exI conjI allI impI)
    show "map sg_signal_id ss = scm_input_signal_ids m"
      by (rule nth_equalityI) (simp_all add: m_eq lss ids)
    show "length ss = ?n" using lss len by simp
    then show "length (map (\<lambda>i. sc_time_millis (cs ! i)) sel) = length ss"
      "length (map (\<lambda>i. sc_order_key (cs ! i)) sel) = length ss" by (simp_all add: len)
    show "sorted_wrt (<) (map (\<lambda>i. sc_order_key (cs ! i)) sel)"
      using valid(1) by (simp add: valid_sequence_def sorted_wrt_map)
    show "scm_window_start m = timestamp_from_millis (Min (set (map (\<lambda>i. sc_time_millis (cs ! i)) sel)))"
      "scm_window_end m = timestamp_from_millis (Max (set (map (\<lambda>i. sc_time_millis (cs ! i)) sel)))"
      using valid(2,3) by (simp_all add: m_eq)
    show "Max (set (map (\<lambda>i. sc_time_millis (cs ! i)) sel)) - Min (set (map (\<lambda>i. sc_time_millis (cs ! i)) sel)) \<le> ?w"
      using valid_sequence_span [OF valid(1)] n by simp
    have "distinct (map sc_signal_id (sequence_group plan policy (map snd unique) (tenant, key)))"
      by (rule distinct_sequence_group [OF distinct_unique_signals(1) [OF u]])
    then have "distinct (map sc_signal_id cs)" by (simp add: cs distinct_map)
    then show "distinct (scm_input_signal_ids m)" by (simp add: m_eq valid_sequence_distinct [OF valid(1)])
    fix k assume k: "k < length ss"
    note * = cand [OF k, unfolded sequence_candidate_of_Some]
    show "ss ! k \<in> set signals" by (rule *)
    then show "wf_signal (ss ! k)" "sg_execution_mode (ss ! k) = execution_mode_i32 mode"
      using u by (auto simp: validate_unique_signals_ok)
    have k': "k < ?n" "k < length sel" using k lss len by auto
    show "sg_tenant_id (ss ! k) = scm_tenant_id m" using * by (simp add: m_eq)
    show "stage_matches policy (csp_stages plan ! k) (ss ! k) = Inr True"
      using nth(2) [OF _ k'(1)] * by (simp add: in_matched_stages)
    show "joins plan policy (ss ! k) key (map (\<lambda>i. sc_time_millis (cs ! i)) sel ! k)
        (map (\<lambda>i. sc_order_key (cs ! i)) sel ! k)"
      using * k' by simp
  qed
qed

text \<open>C4: Every SEQUENCE match is justified: one well-formed Signal of the batch per stage, in the
  mode of the evaluation, all of one tenant and one join key, each matching its stage, with
  strictly increasing order keys and all times within the window, whose bounds are the earliest
  and the latest of these times.\<close>

theorem sequence_match_sound:
  assumes eval: "evaluate_sequence_signals plan signals mode policy = Inr ms" and m: "m \<in> set ms"
    and stages: "csp_stages plan \<noteq> []"
  shows "\<exists>key ss ts ords. map sg_signal_id ss = scm_input_signal_ids m \<and> distinct (scm_input_signal_ids m)
     \<and> length ss = length (csp_stages plan) \<and> length ts = length ss \<and> length ords = length ss
     \<and> (\<forall>k<length ss. ss ! k \<in> set signals \<and> wf_signal (ss ! k)
          \<and> sg_execution_mode (ss ! k) = execution_mode_i32 mode
          \<and> sg_tenant_id (ss ! k) = scm_tenant_id m
          \<and> stage_matches policy (csp_stages plan ! k) (ss ! k) = Inr True
          \<and> joins plan policy (ss ! k) key (ts ! k) (ords ! k))
     \<and> sorted_wrt (<) ords \<and> Max (set ts) - Min (set ts) \<le> uint (csp_max_window_millis plan)
     \<and> scm_window_start m = timestamp_from_millis (Min (set ts))
     \<and> scm_window_end m = timestamp_from_millis (Max (set ts))"
  using assms by (rule sequence_match_evidence)

theorem sequence_match_sound_witness:
  "sample_sequence_match \<in> set [sample_sequence_match] \<and> csp_stages sample_sequence_plan \<noteq> []
   \<and> distinct (scm_input_signal_ids sample_sequence_match)"
  using sequence_match_sound [OF sample_sequence_eval, of sample_sequence_match]
  by (auto simp: sample_sequence_plan_def)

text \<open>C6: The result depends on the set of Signals only: neither their order nor repeated deliveries
  matter, because conflicting duplicates are rejected.\<close>

theorem sequence_order_irrelevant:
  assumes "evaluate_sequence_signals plan signals mode policy = Inr ms" "set signals' = set signals"
  shows "evaluate_sequence_signals plan signals' mode policy = Inr ms"
proof -
  have "validate_unique_signals signals' mode = Inr u \<longleftrightarrow> validate_unique_signals signals mode = Inr u" for u
    by (simp add: validate_unique_signals_ok assms(2))
  then show ?thesis using assms(1) by (simp add: evaluate_sequence_ok)
qed

theorem sequence_order_irrelevant_witness:
  "evaluate_sequence_signals sample_sequence_plan (rev sample_signals @ sample_signals) Test
     sample_sequence_policy = Inr [sample_sequence_match]"
  by (rule sequence_order_irrelevant [OF sample_sequence_eval]) auto

lemma sequence_group_result:
  fixes policy :: "('st, 'jk, 'od, 'k :: linorder, 'o :: linorder, 'err) sequence_policy"
  assumes "evaluate_sequence_signals plan signals mode policy = Inr ms"
    and u: "validate_unique_signals signals mode = Inr unique"
    and ne: "sequence_group plan policy (map snd unique) k \<noteq> []"
  obtains m where "sequence_group_match plan (uint (csp_max_window_millis plan)) mode
      (k, sequence_group plan policy (map snd unique) k)
      = (Inr m :: (_, 'err sequence_evaluation_error) result)"
    and "\<And>x. m = Some x \<Longrightarrow> x \<in> set ms"
proof -
  let ?ks = "sorted_list_of_set (fst ` set (List.map_filter (found_signal plan policy) (map snd unique)))"
  obtain found where found: "list_all2 (\<lambda>k m. sequence_group_match plan (uint (csp_max_window_millis plan)) mode
        (k, sequence_group plan policy (map snd unique) k)
        = (Inr m :: (_, 'err sequence_evaluation_error) result)) ?ks found"
    and ms: "ms = List.map_filter (\<lambda>m. m) found"
    using assms(1) u by (auto simp: evaluate_sequence_ok)
  have "k \<in> set ?ks" using ne by (auto simp: sequence_group_def filter_empty_conv)
  then obtain i where i: "i < length ?ks" "?ks ! i = k" by (auto simp: in_set_conv_nth simp del: set_sorted_list_of_set)
  have mem: "found ! i \<in> set found" using i(1) list_all2_lengthD [OF found] by simp
  show thesis
    by (rule that [OF list_all2_nthD [OF found i(1), unfolded i(2)]]) (use mem in \<open>auto simp: ms set_map_filter\<close>)
qed

lemma valid_sequence_of_candidates:
  assumes "in_order cs" "length cands = n" "\<forall>k<n. cands ! k \<in> set cs"
    and "\<forall>k<n. k \<in> set (sc_stage_indices (cands ! k))"
    and "sorted_wrt (<) (map sc_order_key cands)"
    and "\<forall>a\<in>set cands. \<forall>b\<in>set cands. sc_time_millis b - sc_time_millis a \<le> w"
  shows "\<exists>sel. valid_sequence cs n w sel"
proof -
  have "\<forall>c\<in>set cands. \<exists>i. i < length cs \<and> cs ! i = c"
    using assms(2,3) by (auto simp: in_set_conv_nth)
  then obtain sel where sel: "list_all2 (\<lambda>c i. i < length cs \<and> cs ! i = c) cands sel"
    using list_all2_choice [of cands "\<lambda>c i. i < length cs \<and> cs ! i = c"] by auto
  have len: "length sel = n" using list_all2_lengthD [OF sel] assms(2) by simp
  have at: "sel ! k < length cs" "cs ! (sel ! k) = cands ! k" if "k < n" for k
    using list_all2_nthD [OF sel, of k] that assms(2) by auto
  have key: "sc_order_key (cs ! (sel ! j)) < sc_order_key (cs ! (sel ! k))" if "j < k" "k < n" for j k
    using assms(2,5) that at by (auto simp: sorted_wrt_iff_nth_less)
  have "sel ! j < sel ! k" if "j < k" "k < n" for j k
    using key [OF that] in_order_nth [OF assms(1), of "sel ! k" "sel ! j"] at(1) that by (meson leD leI less_trans)
  moreover have "\<forall>i\<in>set sel. i < length cs \<and> cs ! i \<in> set cands"
    using at assms(2) len by (metis in_set_conv_nth nth_mem)
  ultimately have "valid_sequence cs n w sel"
    using assms(4,6) at key by (auto simp: valid_sequence_def len sorted_wrt_iff_nth_less)
  then show ?thesis ..
qed

lemma sequence_candidate_of_stages:
  assumes "is_ok (sequence_candidate_of plan policy s)"
  shows "\<forall>st\<in>set (csp_stages plan). is_ok (stage_matches policy st s)"
proof (rule ccontr)
  assume "\<not> ?thesis"
  then have "try_fold (stage_index_step policy s) [] (enumerate 0 (csp_stages plan)) \<noteq> Inr is" for "is"
    by (simp add: stage_index_fold)
  then obtain e where "try_fold (stage_index_step policy s) [] (enumerate 0 (csp_stages plan)) = Inl e"
    by (metis sum.exhaust_sel)
  then show False using assms by (simp add: sequence_candidate_of_def)
qed

lemma times_follow_sort:
  assumes "\<And>a b. a \<in> set cs \<Longrightarrow> b \<in> set cs \<Longrightarrow> sc_order_key a \<le> sc_order_key b \<Longrightarrow> sc_time_millis a \<le> sc_time_millis b"
  shows "times_follow (sort_key sequence_order cs)"
proof -
  let ?cs = "sort_key sequence_order cs"
  have "sc_time_millis (?cs ! i) \<le> sc_time_millis (?cs ! j)" if "i \<le> j" "j < length ?cs" for i j
    using in_order_nth [OF in_order_sort_key that] that nth_mem [of j ?cs] nth_mem [of i ?cs]
    by (intro assms) auto
  then show ?thesis by (simp add: times_follow_def sorted_iff_nth_mono)
qed

lemma sequence_group_complete:
  fixes policy :: "('st, 'jk, 'od, 'k :: linorder, 'o :: linorder, 'err) sequence_policy"
  assumes eval: "evaluate_sequence_signals plan signals mode policy = Inr ms"
    and stages: "csp_stages plan \<noteq> []"
    and mono: "\<forall>s\<in>set signals. \<forall>s'\<in>set signals. \<forall>t t' ord ord'. joins plan policy s key t ord \<longrightarrow>
       joins plan policy s' key t' ord' \<longrightarrow> ord \<le> ord' \<longrightarrow> t \<le> t'"
    and len: "length ss = length (csp_stages plan)"
    and part: "\<forall>k<length ss. ss ! k \<in> set signals \<and> sg_tenant_id (ss ! k) = tenant
       \<and> stage_matches policy (csp_stages plan ! k) (ss ! k) = Inr True
       \<and> joins plan policy (ss ! k) key (time (ss ! k)) (ord (ss ! k))"
    and ordered: "sorted_wrt (<) (map ord ss)"
    and close: "\<forall>s\<in>set ss. \<forall>s'\<in>set ss. time s' - time s \<le> uint (csp_max_window_millis plan)"
  shows "\<exists>m\<in>set ms. scm_tenant_id m = tenant \<and> (\<forall>i\<in>set (scm_input_signal_ids m).
    \<exists>s\<in>set signals. sg_signal_id s = i \<and> (\<exists>t o'. joins plan policy s key t o'))"
proof -
  let ?n = "length (csp_stages plan)" and ?w = "uint (csp_max_window_millis plan)"
  obtain unique where u: "validate_unique_signals signals mode = Inr unique"
    and ok: "\<forall>s\<in>set (map snd unique). is_ok (sequence_candidate_of plan policy s)"
    using eval by (auto simp: evaluate_sequence_ok)
  have us: "set (map snd unique) = set signals" by (rule distinct_unique_signals(2) [OF u])
  define G where "G = sequence_group plan policy (map snd unique) (tenant, key)"
  define cs where "cs = sort_key sequence_order G"
  define cand where "cand s = \<lparr>sc_signal_id = sg_signal_id s, sc_stage_indices = matched_stages plan policy s,
    sc_time_millis = time s, sc_order_key = ord s\<rparr>" for s
  have inG: "cand (ss ! k) \<in> set G \<and> k \<in> set (matched_stages plan policy (ss ! k))" if "k < ?n" for k
  proof -
    have s: "ss ! k \<in> set signals" "sg_tenant_id (ss ! k) = tenant" and k: "k \<in> set (matched_stages plan policy (ss ! k))"
      and j: "joins plan policy (ss ! k) key (time (ss ! k)) (ord (ss ! k))"
      using part that len by (auto simp: in_matched_stages)
    have "is_ok (sequence_candidate_of plan policy (ss ! k))" using ok s(1) unfolding us by blast
    then have "\<forall>st\<in>set (csp_stages plan). is_ok (stage_matches policy st (ss ! k))"
      by (rule sequence_candidate_of_stages)
    then have "sequence_candidate_of plan policy (ss ! k) = Inr (Some ((tenant, key), cand (ss ! k)))"
      using s k j by (auto simp: sequence_candidate_of_Some cand_def)
    then show ?thesis using k us s(1) by (auto simp: G_def in_sequence_group)
  qed
  have follow: "times_follow cs"
    using mono us unfolding cs_def G_def
    by (intro times_follow_sort) (force simp: in_sequence_group sequence_candidate_of_Some)
  have "\<exists>sel. valid_sequence cs ?n ?w sel"
  proof (rule valid_sequence_of_candidates)
    show "in_order cs" by (simp add: cs_def in_order_sort_key)
    show "length (map cand ss) = ?n" by (simp add: len)
    show "sorted_wrt (<) (map sc_order_key (map cand ss))" using ordered by (simp add: cand_def comp_def)
    show "\<forall>a\<in>set (map cand ss). \<forall>b\<in>set (map cand ss). sc_time_millis b - sc_time_millis a \<le> ?w"
      using close by (auto simp: cand_def)
    show "\<forall>k<?n. map cand ss ! k \<in> set cs" using inG len by (auto simp: cs_def)
    show "\<forall>k<?n. k \<in> set (sc_stage_indices (map cand ss ! k))" using inG len by (auto simp: cand_def)
  qed
  then obtain sel0 where "valid_sequence cs ?n ?w sel0" ..
  then have "select_sequence cs ?n ?w \<noteq> None"
    using select_sequence_complete [of cs ?n ?w sel0] follow stages by (simp add: cs_def in_order_sort_key)
  then obtain sel mn mx where sel: "select_sequence cs ?n ?w = Some (sel, mn, mx)" by auto
  have "G \<noteq> []" using inG [of 0] stages by auto
  then obtain m where m: "sequence_group_match plan ?w mode ((tenant, key), G)
      = (Inr m :: (_, 'err sequence_evaluation_error) result)" and ms: "\<And>x. m = Some x \<Longrightarrow> x \<in> set ms"
    unfolding G_def by (rule sequence_group_result [OF eval u]) blast
  have "sequence_sorted_match plan ?w mode tenant cs = (Inr m :: (_, 'err sequence_evaluation_error) result)"
    using m by (simp add: cs_def)
  then obtain x where x: "m = Some x" "scm_tenant_id x = tenant"
      "scm_input_signal_ids x = map (\<lambda>i. sc_signal_id (cs ! i)) sel"
    using sel by (auto simp: sequence_sorted_match_def result_simps)
  have "valid_sequence cs ?n ?w sel" by (rule select_sequence_sound(1) [OF sel]) (use stages in auto)
  then have "\<forall>i\<in>set sel. cs ! i \<in> set cs" by (simp add: valid_sequence_def)
  then have inG_sel: "\<forall>i\<in>set sel. cs ! i \<in> set G" by (simp add: cs_def)
  have "\<exists>s\<in>set signals. sg_signal_id s = i \<and> (\<exists>t o'. joins plan policy s key t o')"
    if id: "i \<in> set (scm_input_signal_ids x)" for i
  proof -
    obtain j where j: "i = sc_signal_id (cs ! j)" "cs ! j \<in> set G"
      using id inG_sel by (auto simp: x(3))
    then obtain s where "s \<in> set signals" "sequence_candidate_of plan policy s = Inr (Some ((tenant, key), cs ! j))"
      unfolding G_def in_sequence_group us by blast
    then show ?thesis using j(1) unfolding sequence_candidate_of_Some by auto
  qed
  then show ?thesis using ms x by blast
qed

text \<open>C5: No qualifying sequence is missed when time follows the order key within a join group: if
  Signals of the batch, one per stage, share tenant and join key, match their stages, have strictly
  increasing order keys and lie within the window, then a match for that tenant is emitted whose Signals share that join key.\<close>

theorem sequence_match_complete:
  fixes policy :: "('st, 'jk, 'od, 'k :: linorder, 'o :: linorder, 'err) sequence_policy"
  assumes "evaluate_sequence_signals plan signals mode policy = Inr ms"
    and "csp_stages plan \<noteq> []"
    and "\<forall>s\<in>set signals. \<forall>s'\<in>set signals. \<forall>t t' ord ord'. joins plan policy s key t ord \<longrightarrow>
       joins plan policy s' key t' ord' \<longrightarrow> ord \<le> ord' \<longrightarrow> t \<le> t'"
    and "length ss = length (csp_stages plan)"
    and "\<forall>k<length ss. ss ! k \<in> set signals \<and> sg_tenant_id (ss ! k) = tenant
       \<and> stage_matches policy (csp_stages plan ! k) (ss ! k) = Inr True
       \<and> joins plan policy (ss ! k) key (time (ss ! k)) (ord (ss ! k))"
    and "sorted_wrt (<) (map ord ss)"
    and "\<forall>s\<in>set ss. \<forall>s'\<in>set ss. time s' - time s \<le> uint (csp_max_window_millis plan)"
  shows "\<exists>m\<in>set ms. scm_tenant_id m = tenant \<and> (\<forall>i\<in>set (scm_input_signal_ids m).
    \<exists>s\<in>set signals. sg_signal_id s = i \<and> (\<exists>t o'. joins plan policy s key t o'))"
  using assms by (rule sequence_group_complete)

theorem sequence_match_complete_witness:
  "\<exists>m\<in>set [sample_sequence_match]. scm_tenant_id m = sample_tenant \<and> (\<forall>i\<in>set (scm_input_signal_ids m).
    \<exists>s\<in>set sample_signals. sg_signal_id s = i
      \<and> (\<exists>t o'. joins sample_sequence_plan sample_sequence_policy s 0 t o'))"
proof (rule sequence_match_complete [OF sample_sequence_eval])
  let ?ss = "[sample_signal CHR ''1'' ''LOW'' 10, sample_signal CHR ''2'' ''HIGH'' 90]"
  let ?time = "\<lambda>s. seconds (the (sg_first_observed_at s))"
  show "csp_stages sample_sequence_plan \<noteq> []" "length ?ss = length (csp_stages sample_sequence_plan)"
    by (simp_all add: sample_sequence_plan_def)
  show "\<forall>s\<in>set sample_signals. \<forall>s'\<in>set sample_signals. \<forall>t t' ord ord'.
      joins sample_sequence_plan sample_sequence_policy s 0 t ord \<longrightarrow>
      joins sample_sequence_plan sample_sequence_policy s' 0 t' ord' \<longrightarrow> ord \<le> ord' \<longrightarrow> t \<le> t'"
    by (auto simp: joins_def sample_sequence_policy_def)
  show "\<forall>k<length ?ss. ?ss ! k \<in> set sample_signals \<and> sg_tenant_id (?ss ! k) = sample_tenant
      \<and> stage_matches sample_sequence_policy (csp_stages sample_sequence_plan ! k) (?ss ! k) = Inr True
      \<and> joins sample_sequence_plan sample_sequence_policy (?ss ! k) 0 (?time (?ss ! k)) (?time (?ss ! k))"
    by (simp add: joins_def sample_sequence_policy_def sample_sequence_plan_def sample_signals_def less_Suc_eq
        all_conj_distrib imp_disjL)
  show "sorted_wrt (<) (map ?time ?ss)" by simp
  show "\<forall>s\<in>set ?ss. \<forall>s'\<in>set ?ss. ?time s' - ?time s \<le> uint (csp_max_window_millis sample_sequence_plan)"
    by (simp add: sample_sequence_plan_def)
qed

text \<open>C32: Without that condition the selection is incomplete: it keeps the first eligible candidate of
  a stage and never reconsiders it, so a group with a qualifying sequence can yield none.\<close>

theorem greedy_selection_misses_sequence:
  "\<exists>(cs :: nat sequence_candidate list) n w sel.
     in_order cs \<and> valid_sequence cs n w sel \<and> select_sequence cs n w = None"
proof (intro exI conjI)
  let ?c = "\<lambda>i st t. \<lparr>sc_signal_id = sample_uuid CHR ''1'', sc_stage_indices = [st], sc_time_millis = t, sc_order_key = i\<rparr>"
  let ?cs = "[?c 0 0 100, ?c 1 1 0, ?c 2 1 100, ?c 3 2 150] :: nat sequence_candidate list"
  show "in_order ?cs" by (simp add: in_order_def)
  show "valid_sequence ?cs 3 100 [0, 2, 3]"
    by (simp add: valid_sequence_def numeral_3_eq_3 less_Suc_eq all_conj_distrib imp_disjL)
  show "select_sequence ?cs 3 100 = None" by (simp add: select_sequence_def upt_rec)
qed

section \<open>Materialized Findings\<close>

definition wf_correlation_context :: "correlation_finding_context \<Rightarrow> bool" where
  "wf_correlation_context c \<longleftrightarrow> uuid_v7 (cfc_finding_id c) \<and> has_text (cfc_severity c)
     \<and> (\<forall>x. cfc_confidence c = Some x \<longrightarrow> has_text x) \<and> has_text (cfc_title c)
     \<and> has_text (cfc_description c) \<and> has_text (cfc_input_relation c) \<and> valid_timestamp (cfc_created_at c)"

definition wf_sequence_match :: "sequence_correlation_match \<Rightarrow> bool" where
  "wf_sequence_match m \<longleftrightarrow> uuid_v7 (scm_tenant_id m) \<and> has_text (scm_correlation_rule_id m)
     \<and> has_text (scm_correlation_rule_version m) \<and> has_text (scm_configuration_hash m)
     \<and> scm_input_signal_ids m \<noteq> [] \<and> distinct (scm_input_signal_ids m)
     \<and> (\<forall>i\<in>set (scm_input_signal_ids m). uuid_v7 i)
     \<and> valid_timestamp (scm_window_start m) \<and> valid_timestamp (scm_window_end m)
     \<and> timestamp_le (scm_window_start m) (scm_window_end m) \<and> scm_execution_mode m \<noteq> ModeUnspecified"

lemma correlation_finding_of_wf:
  assumes "wf_sequence_match m" "wf_correlation_context c"
  shows "wf_finding (correlation_finding_of m c)"
proof -
  have "has_text SIGNAL_INPUT_TYPE"
    by (rule has_text_solid [of "CHR ''S''"]) (simp_all add: SIGNAL_INPUT_TYPE_def solid_def byte_def)
  then have "wf_finding_inputs (cfc_finding_id c) (fd_inputs (correlation_finding_of m c))"
    using assms by (auto simp: wf_finding_inputs_def correlation_finding_of_def wf_sequence_match_def
        wf_correlation_context_def relation_key_def distinct_map comp_def inj_on_def)
  moreover have "wf_type_provenance (correlation_finding_of m c)"
    using assms contract_backend_range [of "scm_execution_backend m"]
    by (auto simp: wf_type_provenance_def wf_correlation_provenance_def correlation_finding_of_def
        wf_sequence_match_def image_image)
  ultimately show ?thesis
    using assms execution_mode_i32_range [of "scm_execution_mode m"]
    by (auto simp: wf_finding_def correlation_finding_of_def wf_sequence_match_def wf_correlation_context_def
        wf_observed_pair_def wf_text_pair_def)
qed

lemma sequence_match_wf:
  assumes eval: "evaluate_sequence_signals plan signals mode policy = Inr ms" and m: "m \<in> set ms"
    and plan: "csp_stages plan \<noteq> []" "has_text (csp_correlation_rule_id plan)"
      "has_text (csp_correlation_rule_version plan)" "has_text (csp_configuration_hash plan)"
  shows "wf_sequence_match m"
proof -
  obtain key ss ts ords where ids: "map sg_signal_id ss = scm_input_signal_ids m" "distinct (scm_input_signal_ids m)"
    and len: "length ss = length (csp_stages plan)" "length ts = length ss"
    and each: "\<forall>k<length ss. ss ! k \<in> set signals \<and> wf_signal (ss ! k) \<and> sg_tenant_id (ss ! k) = scm_tenant_id m"
    and win: "scm_window_start m = timestamp_from_millis (Min (set ts))"
      "scm_window_end m = timestamp_from_millis (Max (set ts))"
    using sequence_match_evidence [OF eval m plan(1)] by blast
  have "0 < length ss" using len(1) plan(1) by simp
  then have "uuid_v7 (scm_tenant_id m)" and ne: "ts \<noteq> []" "ss \<noteq> []"
    using each len(2) by (auto simp: wf_signal_def)
  moreover have "\<forall>i\<in>set (scm_input_signal_ids m). uuid_v7 i"
    using each by (auto simp: ids(1) [symmetric] in_set_conv_nth wf_signal_def)
  moreover have "timestamp_le (scm_window_start m) (scm_window_end m)"
    unfolding win by (rule timestamp_from_millis_mono) (use ne in \<open>simp add: Min_le_iff\<close>)
  moreover have "valid_timestamp (scm_window_start m)" "valid_timestamp (scm_window_end m)"
    and "scm_correlation_rule_id m = csp_correlation_rule_id plan" "scm_execution_mode m = mode"
    "scm_correlation_rule_version m = csp_correlation_rule_version plan"
    "scm_configuration_hash m = csp_configuration_hash plan"
    using eval m by (rule sequence_match_selected, simp)+
  moreover have "mode \<noteq> ModeUnspecified" using eval by (simp add: evaluate_sequence_ok)
  moreover have "scm_input_signal_ids m \<noteq> []" using ne ids(1) by auto
  ultimately show ?thesis using ids(2) plan by (simp add: wf_sequence_match_def)
qed

text \<open>Every SEQUENCE match of a compiled plan becomes a Finding that passes the Finding contract
  and keeps the Signals in sequence order in its inputs and in its provenance.\<close>

theorem sequence_match_materializes:
  assumes "compile_sequence_correlation_plan rule backend = Inr plan"
    and "evaluate_sequence_signals plan signals mode policy = Inr ms" and "m \<in> set ms"
    and "wf_correlation_context c"
  shows "\<exists>f. materialize_sequence_correlation_finding m c = Inr f \<and> wf_finding f
    \<and> map fi_input_id (fd_inputs f) = scm_input_signal_ids m
    \<and> map_option cp_input_ids (fd_correlation_provenance f) = Some (scm_input_signal_ids m)"
proof -
  have "csp_stages plan \<noteq> []" "has_text (csp_correlation_rule_id plan)"
    "has_text (csp_correlation_rule_version plan)" "has_text (csp_configuration_hash plan)"
    using assms(1) by (auto simp: compile_sequence_correlation_plan_def result_simps)
  then have "wf_finding (correlation_finding_of m c)"
    using sequence_match_wf [OF assms(2,3)] correlation_finding_of_wf assms(4) by blast
  then have "materialize_sequence_correlation_finding m c = Inr (correlation_finding_of m c)"
    by (simp add: materialize_sequence_correlation_finding_def finding_contract.gate_ok_iff)
  then show ?thesis
    using \<open>wf_finding (correlation_finding_of m c)\<close> by (simp add: correlation_finding_of_def comp_def)
qed

definition sample_sequence_rule :: "(string, string, unit) sequence_correlation_rule" where
  "sample_sequence_rule = \<lparr>sr_correlation_rule_id = ''CER-COR-0003'', sr_correlation_rule_version = ''1'',
     sr_stages = [''LOW'', ''HIGH''], sr_join_keys = [''user''], sr_max_window_millis = 100, sr_ordering = (),
     sr_configuration_hash = ''hash''\<rparr>"

definition sample_correlation_context :: correlation_finding_context where
  "sample_correlation_context = \<lparr>cfc_finding_id = sample_uuid CHR ''5'', cfc_severity = ''HIGH'',
     cfc_confidence = None, cfc_title = ''title'', cfc_description = ''title'', cfc_input_relation = ''match'',
     cfc_created_at = sample_time\<rparr>"

theorem sequence_match_materializes_witness:
  "\<exists>f. materialize_sequence_correlation_finding sample_sequence_match sample_correlation_context = Inr f
    \<and> wf_finding f \<and> map fi_input_id (fd_inputs f) = scm_input_signal_ids sample_sequence_match
    \<and> map_option cp_input_ids (fd_correlation_provenance f) = Some (scm_input_signal_ids sample_sequence_match)"
proof (rule sequence_match_materializes [OF _ sample_sequence_eval])
  show "compile_sequence_correlation_plan sample_sequence_rule ClickHouse = Inr sample_sequence_plan"
    by (simp add: compile_sequence_correlation_plan_def sample_sequence_rule_def sample_sequence_plan_def
        sample_texts check_join_key_def i64_try_from_def checked_i64_def fits_i64_def)
  show "wf_correlation_context sample_correlation_context"
    by (simp add: wf_correlation_context_def sample_correlation_context_def sample_texts sample_uuid_ok sample_time_ok)
qed simp

end
