(* ===== verification/Mvp_Correctness.thy ===== *)
theory Mvp_Correctness
  imports Mvp_Source Contract_Properties Threshold_Correctness Correlation_Correctness
begin

text \<open>
  The properties of the batch runtime's rule pack and event source: the frozen rules compile, a
  compiled EVENT rule decides the meaning of its expression on an event, times are read without
  loss, loading is deterministic, and the account-compromise SEQUENCE reports exactly the users
  with the three stages in order within ten minutes.
\<close>

section \<open>Loading\<close>

lemma try_map_Inr_iff:
  "try_map f xs = Inr ys \<longleftrightarrow> (\<forall>x\<in>set xs. is_ok (f x)) \<and> ys = map (\<lambda>x. projr (f x)) xs"
proof (induction xs arbitrary: ys)
  case (Cons x xs)
  then show ?case by (cases "f x"; cases "try_map f xs") auto
qed auto

text \<open>Loading is deterministic: the events are returned once each, by time and then identity, and a
  response with the same rows in another order or repeated yields the same batch.\<close>

theorem load_deterministic:
  assumes "load_body decode_row parse_json as_f64 lines = Inr events" and "set lines' = set lines"
  shows "load_body decode_row parse_json as_f64 lines' = Inr events
    \<and> distinct (map batch_id events) \<and> sorted (map batch_order events)"
proof -
  let ?decode = "decode_line decode_row parse_json as_f64" and ?keep = "filter (\<lambda>line. trim line \<noteq> '''')"
  obtain items m where i: "try_map ?decode (?keep lines) = Inr items" "inj_on batch_id (set items)"
      "btree_invar m" "set m = loaded_rows.keyed (set items)"
    and e: "events = sort_key batch_order (map snd m)"
    using assms(1) by (auto simp: load_body_ok)
  have "try_map ?decode (?keep lines') = Inr (map (\<lambda>line. projr (?decode line)) (?keep lines'))"
    using i(1) assms(2) by (simp add: try_map_Inr_iff)
  moreover have "set (map (\<lambda>line. projr (?decode line)) (?keep lines')) = set items"
    using i(1) assms(2) by (simp add: try_map_Inr_iff)

  ultimately have "load_body decode_row parse_json as_f64 lines' = Inr events"
    using i e unfolding load_body_ok by metis
  moreover have "distinct (map batch_id events) \<and> sorted (map batch_order events)"
    using assms(1) by (rule load_body_events) (simp add: distinct_map)
  ultimately show ?thesis by blast
qed

definition sample_row :: "string \<Rightarrow> stored_normalized_row" where
  "sample_row line =
    \<lparr>sr_tenant_id = sample_tenant, sr_normalized_event_id = line, sr_raw_event_id = line,
     sr_event_time_present = 1, sr_event_time_seconds = int (length line), sr_event_time_nanos = 0,
     sr_normalized_at_seconds = 0, sr_normalized_at_nanos = 0, sr_ocsf_version = ''1.3.0'', sr_class_uid = 3002,
     sr_category_uid = 3, sr_activity_id = None, sr_severity = None, sr_parser_id = ''p'', sr_parser_version = ''1'',
     sr_normalization_status = 1, sr_normalized_hash_algorithm = ''sha256'', sr_normalized_hash = '''',
     sr_pipeline_version = ''1'', sr_ocsf_event_json = ''{}''\<rparr>"

definition sample_batch_event :: "string \<Rightarrow> batch_event" where
  "sample_batch_event line = projr (into_batch_event (\<lambda>_. Inr (JObject [] :: unit json)) (\<lambda>_. None) (sample_row line))"

lemma sample_load:
  "load_body (\<lambda>line. Inr (sample_row line)) (\<lambda>_. Inr (JObject [] :: unit json)) (\<lambda>_. None) [''bb'', ''a'', ''bb'']
   = Inr [sample_batch_event ''a'', sample_batch_event ''bb'']"
proof -
  have trims: "trim ''a'' \<noteq> []" "trim ''bb'' \<noteq> []"
    by (rule trim_nonempty [of "CHR ''a''"] trim_nonempty [of "CHR ''b''"]; simp add: solid_def byte_def)+
  show ?thesis
    by (simp add: load_body_def trims load_step_def into_batch_event_def sample_row_def row_event_time_def
        validate_optional_timestamp_def validate_timestamp_def proto_timestamp_defs json_to_prost_struct_def
        Let_def btree_get_def sample_batch_event_def batch_order_def timestamp_millis_def timestamp_to_millis_checked_def
        checked_mul_i64_def checked_add_i64_def checked_i64_def fits_i64_def)
qed

theorem load_deterministic_witness:
  "load_body (\<lambda>line. Inr (sample_row line)) (\<lambda>_. Inr (JObject [] :: unit json)) (\<lambda>_. None) [''a'', ''bb'']
   = Inr [sample_batch_event ''a'', sample_batch_event ''bb'']"
  using load_deterministic [OF sample_load, of "[''a'', ''bb'']"] by auto

section \<open>Times\<close>

text \<open>The milliseconds of a valid timestamp are computed without overflow, and reading back a
  timestamp that was made from milliseconds gives them back.\<close>

theorem timestamp_millis_roundtrip:
  assumes "valid_timestamp (timestamp_from_millis millis)"
  shows "timestamp_to_millis_checked (timestamp_from_millis millis) = Inr millis"
proof -
  define q r where "q = millis div 1000" and "r = millis mod 1000"
  have m: "q * 1000 + r = millis" and r: "0 \<le> r" "r < 1000" by (simp_all add: q_def r_def)
  define n where "n = r * 1000000"
  have "timestamp_from_millis millis = \<lparr>seconds = q, nanos = n\<rparr>"
    by (simp add: timestamp_from_millis_def q_def r_def n_def)
  moreover have "sgn n * (\<bar>n\<bar> div 1000000) = r" using r by (cases "r = 0") (simp_all add: n_def)
  ultimately show ?thesis
    using assms r m by (simp add: timestamp_to_millis_checked_def valid_timestamp_def
        checked_mul_i64_def checked_add_i64_def checked_i64_def fits_i64_def)

qed

theorem timestamp_millis_roundtrip_witness:
  "timestamp_to_millis_checked (timestamp_from_millis (-1)) = Inr (-1)"
  by (rule timestamp_millis_roundtrip) (simp add: timestamp_from_millis_def valid_timestamp_def)



text \<open>The time of an event is an integer that a double represents exactly, and it is the stored
  number up to the machine epsilon.\<close>

theorem event_integer_field_exact:
  assumes "event_integer_field event field = Inr (Some i)"
  shows "\<bar>i\<bar> \<le> 2 ^ 53 - 1 \<and> (\<exists>x. field_state (\<lambda>f. f) event field = Present (Value (Some (NumberValue (Finite x))))
    \<and> \<bar>x - of_int i\<bar> \<le> 1 / 2 ^ 52)"
proof -
  obtain v x where v: "field_state (\<lambda>f. f) event field = Present v" "kind v = Some (NumberValue (Finite x))"
    and x: "\<bar>rat_fract x\<bar> \<le> f64_epsilon" "\<bar>x\<bar> \<le> 9007199254740991" "i = rat_trunc x"
    using assms by (auto simp: event_integer_field_def integral_number_def not_less
        split: event_field_state.splits option.splits pkind.splits f64.splits if_splits)
  have "\<bar>rat_trunc x\<bar> \<le> 9007199254740991"
    using x(2) unfolding rat_trunc_def by (auto simp: abs_le_iff floor_le_iff le_floor_iff ceiling_le_iff le_ceiling_iff) linarith+
  moreover have "v = Value (Some (NumberValue (Finite x)))" using v(2) by (cases v) simp
  ultimately show ?thesis using v x by (auto simp: rat_fract_def f64_epsilon_def)
qed

section \<open>EVENT rules\<close>

text \<open>What a leaf of an MVP rule says of an event: the field holds exactly the given text, or any
  value.\<close>

fun mvp_leaf_holds :: "normalized_event \<Rightarrow> (string, string) leaf \<Rightarrow> bool" where
  "mvp_leaf_holds event (CompareLeaf f p v) \<longleftrightarrow>
     field_state (\<lambda>f. f) event f = Present (Value (Some (StringValue v)))"
| "mvp_leaf_holds event (ExistsLeaf f) \<longleftrightarrow> (\<exists>w. field_state (\<lambda>f. f) event f = Present w)"

lemma kind_eq: "kind v = k \<longleftrightarrow> v = Value k"
  by (cases v) auto

lemma mvp_leaf_completes: "completes (mvp_leaf_holds event) (field_state (\<lambda>f. f) event) mvp_leaf_policy"
  unfolding completes_def
proof (intro allI impI)
  fix l b
  assume "leaf_result (field_state (\<lambda>f. f) event) mvp_leaf_policy l = Inr b"
  then show "mvp_leaf_holds event l = b"
  proof (cases l)
    case (CompareLeaf f p v)
    with \<open>leaf_result _ _ l = Inr b\<close> show ?thesis
      by (cases "field_state (\<lambda>f. f) event f" rule: event_field_state.exhaust)
        (auto simp: mvp_leaf_policy_def mvp_evaluate_comparison_def kind_eq
          split: option.splits pkind.splits if_splits)
  next
    case (ExistsLeaf f)
    with \<open>leaf_result _ _ l = Inr b\<close> show ?thesis
      by (cases "field_state (\<lambda>f. f) event f") (auto simp: mvp_leaf_policy_def mvp_evaluate_exists_def)
  qed
qed

text \<open>C27: a compiled EVENT rule decides the meaning of its expression: when evaluating it on an event
  returns a verdict, the verdict is Match exactly if the expression holds of the event, where an
  equality holds if the field is a string with that text.\<close>

theorem mvp_event_rule_decides:
  assumes "compile_event_rule digest rule_id plan_name e = Inr c"
    and "evaluate_event_execution_plan predicates (compiled_plan c) (field_state (\<lambda>f. f) event) mvp_leaf_policy = Inr r"
  shows "r = Match \<longleftrightarrow> holds (mvp_leaf_holds event) e"
  using assms(1) unfolding compile_event_rule_def map_err_eq_Inr
  by (rule mvp.compiled_plan_decides [OF _ mvp_leaf_completes assms(2)])

lemma mvp_expression_shapes:
  "empty_nodes failed_login_expression = []" "empty_nodes successful_login_expression = []"
  "empty_nodes privilege_escalation_expression = []"
  "\<forall>l\<in>set (leaves failed_login_expression). mvp_leaf_ok l"
  "\<forall>l\<in>set (leaves successful_login_expression). mvp_leaf_ok l"
  "\<forall>l\<in>set (leaves privilege_escalation_expression). mvp_leaf_ok l"
  by (simp_all add: failed_login_expression_def successful_login_expression_def
      privilege_escalation_expression_def mvp_and_def mvp_eq_def mvp_resolve_field_type_def)

lemma mvp_rule_ids:
  "detection_rule_id FAILED_LOGIN_RULE_ID" "detection_rule_id SUCCESSFUL_LOGIN_RULE_ID"
  "detection_rule_id PRIVILEGE_ESCALATION_RULE_ID" "detection_rule_id THRESHOLD_FAILED_LOGIN_RULE_ID"
  unfolding mvp_constants detection_rule_id_def by (simp_all add: byte_class_defs)

lemma compile_event_rule_exists:
  assumes "empty_nodes e = []" "\<forall>l\<in>set (leaves e). mvp_leaf_ok l" "detection_rule_id rid"
  obtains c where "compile_event_rule digest rid name e = Inr c"
    "predicates (compiled_plan c) = lower_event_predicate e" "plan_rule_id (compiled_plan c) = RuleId rid"
    "plan_rule_version (compiled_plan c) = RULE_VERSION" "plan_backend (compiled_plan c) = ClickHouse"
proof -
  let ?compiler = "\<lparr>mpc_plan_id = name, mpc_rule_id = rid, mpc_rule_version = RULE_VERSION,
    mpc_plan_hash = sha256_lower_hex digest name\<rparr>"
  from assms(3) have "detection_rule_id (mpc_rule_id ?compiler)" by simp
  with assms(1,2) show thesis
    by (rule mvp_compile_exists) (rule that, simp_all add: compile_event_rule_def)
qed

definition sample_login_event :: normalized_event where
  "sample_login_event = (sample_event CHR ''1'' 5)\<lparr>ne_ocsf_event := Some
     [(''activity_name'', Value (Some (StringValue ''Logon''))), (''status'', Value (Some (StringValue ''Failure''))),
      (''time'', Value (Some (NumberValue (Finite 1700000000123))))]\<rparr>"

lemma sample_login_fields:
  "field_state (\<lambda>f. f) sample_login_event ''activity_name'' = Present (Value (Some (StringValue ''Logon'')))"
  "field_state (\<lambda>f. f) sample_login_event ''status'' = Present (Value (Some (StringValue ''Failure'')))"
  "field_state (\<lambda>f. f) sample_login_event ''time'' = Present (Value (Some (NumberValue (Finite 1700000000123))))"
  by (simp_all add: field_state_def sample_login_event_def resolve_ocsf_field_def classify_value_def)

theorem mvp_event_rule_decides_witness:
  "\<exists>c. compile_event_rule sample_digest FAILED_LOGIN_RULE_ID ''mvp-failed-login-v1'' failed_login_expression = Inr c
    \<and> evaluate_event_execution_plan predicates (compiled_plan c) (field_state (\<lambda>f. f) sample_login_event)
        mvp_leaf_policy = Inr Match
    \<and> holds (mvp_leaf_holds sample_login_event) failed_login_expression"
proof -
  obtain c where c: "compile_event_rule sample_digest FAILED_LOGIN_RULE_ID ''mvp-failed-login-v1''
      failed_login_expression = Inr c" and p: "predicates (compiled_plan c) = lower_event_predicate failed_login_expression"
    using compile_event_rule_exists [OF mvp_expression_shapes(1,4) mvp_rule_ids(1)] by metis
  have eval: "evaluate_event_execution_plan predicates (compiled_plan c) (field_state (\<lambda>f. f) sample_login_event)
      mvp_leaf_policy = Inr Match"
    by (simp add: evaluate_event_execution_plan_def p failed_login_expression_def mvp_and_def mvp_eq_def
        mvp_leaf_policy_def mvp_evaluate_comparison_def sample_login_fields)
  show ?thesis using mvp_event_rule_decides [OF c eval] c eval by blast
qed

theorem event_integer_field_exact_witness:
  "event_integer_field sample_login_event ''time'' = Inr (Some 1700000000123) \<and> \<bar>1700000000123 :: int\<bar> \<le> 2 ^ 53 - 1"
proof -
  have "event_integer_field sample_login_event ''time'' = Inr (Some 1700000000123)"
    by (simp add: event_integer_field_def sample_login_fields integral_number_def rat_fract_def rat_trunc_def
        f64_epsilon_def)
  then show ?thesis using event_integer_field_exact by blast
qed

section \<open>The rule pack\<close>

lemma compile_sequence_rule_ok:
  assumes "length (digest ''mvp-account-compromise-sequence-v1'') = 32"
  shows "compile_sequence_rule digest = Inr
    \<lparr>csp_correlation_rule_id = ACCOUNT_COMPROMISE_RULE_ID, csp_correlation_rule_version = CORRELATION_RULE_VERSION,
     csp_stages = [FAILED_LOGIN_RULE_ID, SUCCESSFUL_LOGIN_RULE_ID, PRIVILEGE_ESCALATION_RULE_ID],
     csp_join_keys = [''user.name''], csp_max_window_millis = 600000, csp_ordering = Observed,
     csp_backend = ClickHouse, csp_supported_backends = capabilities_new True False,
     csp_configuration_hash = sha256_lower_hex digest ''mvp-account-compromise-sequence-v1''\<rparr>"
proof -
  let ?h = "sha256_lower_hex digest ''mvp-account-compromise-sequence-v1''"
  have "valid_sha256_text ?h" by (rule valid_sha256_text_lower_hex) (rule assms)
  then have "hd ?h \<in> set ?h" "is_lower_hexdigit (hd ?h)"
    by (cases ?h; auto simp: valid_sha256_text_def)+
  then have "has_text ?h"
    by (intro has_text_solid [of "hd ?h"]) (auto simp: solid_def byte_class_defs is_lower_hexdigit_def)
  moreover have "has_text ''2''" "has_text ''CER-COR-0003''"
    by (rule has_text_solid [of "CHR ''2''"] has_text_solid [of "CHR ''C''"]; simp add: solid_def byte_def)+
  ultimately show ?thesis
    by (simp add: compile_sequence_rule_def compile_sequence_correlation_plan_def mvp_constants(5,7)
        check_join_key_def i64_try_from_def checked_i64_def fits_i64_def)
qed

lemma compile_threshold_rule_ok:
  "\<exists>t. compile_threshold_rule debug_str sample_pack digest source = Some (Inr t)
     \<and> ctp_threshold t = 10 \<and> ctp_group_by t = [''user.name'', ''src_endpoint.ip'']
     \<and> tw_duration_millis (ctp_window t) = 300000 \<and> tw_time_basis (ctp_window t) = EventTime
     \<and> tw_time_field (ctp_window t) = ''time''
     \<and> predicates (compiled_plan (ctp_filter t)) = lower_event_predicate failed_login_expression"
proof -
  let ?im = "sample_imported digest source" and ?st = "mvp_stages (threshold_plan_compiler digest (sample_imported digest source))"
  have filter: "tr_filter (im_threshold_rule ?im) = failed_login_expression"
    by (simp add: sample_imported_def failed_login_expression_def mvp_and_def mvp_eq_def)
  have "detection_rule_id (mpc_rule_id (threshold_plan_compiler digest ?im))"
    using mvp_rule_ids(4) by (simp add: threshold_plan_compiler_def sample_imported_def display_rule_id_def mvp_constants)
  with mvp_expression_shapes(1,4) obtain c
    where "compile_event_execution_plan failed_login_expression ClickHouse mvp_schema ?st = Inr c"
      "predicates (compiled_plan c) = lower_event_predicate failed_login_expression"
    by (rule mvp_compile_exists)
  then show ?thesis
    by (simp add: compile_threshold_rule_def sample_pack_imported filter compile_threshold_execution_plan_def
        result_simps)
      (simp add: sample_imported_def mvp_constants validate_rule_status_def coverage_complete_def coverage_new_def
        is_complete_def i64_try_from_def checked_i64_def fits_i64_def check_group_field_def mvp_schema_def
        require_field_type_def mvp_resolve_field_type_def)
qed

text \<open>The frozen rule pack compiles: with a digest of 32 bytes the three EVENT rules, the Sigma
  THRESHOLD rule of the repository (ten failed logins per user and address in five minutes) and the
  account-compromise SEQUENCE all yield plans.\<close>

theorem mvp_rule_pack_compiles:
  assumes "\<And>bytes. length (digest bytes) = 32"
  shows "is_ok (compile_event_rule digest FAILED_LOGIN_RULE_ID ''mvp-failed-login-v1'' failed_login_expression)
    \<and> is_ok (compile_event_rule digest SUCCESSFUL_LOGIN_RULE_ID ''mvp-successful-login-v1'' successful_login_expression)
    \<and> is_ok (compile_event_rule digest PRIVILEGE_ESCALATION_RULE_ID ''mvp-privilege-escalation-v1''
        privilege_escalation_expression)
    \<and> (\<exists>t. compile_threshold_rule debug_str sample_pack digest source = Some (Inr t)
        \<and> ctp_threshold t = 10 \<and> ctp_group_by t = [''user.name'', ''src_endpoint.ip'']
        \<and> tw_duration_millis (ctp_window t) = 300000)
    \<and> is_ok (compile_sequence_rule digest)"
proof -
  have "is_ok (compile_event_rule digest rid name e)"
    if "empty_nodes e = []" "\<forall>l\<in>set (leaves e). mvp_leaf_ok l" "detection_rule_id rid" for rid name e
    using that by (rule compile_event_rule_exists [of e rid digest name]) simp
  then show ?thesis
    using mvp_expression_shapes mvp_rule_ids compile_threshold_rule_ok [of debug_str digest source]
      compile_sequence_rule_ok [OF assms] by auto
qed

theorem mvp_rule_pack_compiles_witness:
  "is_ok (compile_sequence_rule sample_digest)"
proof -
  have "length (sample_digest bytes) = 32" for bytes by (cases bytes) (simp_all add: sample_digest_def)
  then show ?thesis using mvp_rule_pack_compiles [of sample_digest] by blast
qed

section \<open>The account-compromise SEQUENCE\<close>

text \<open>The user and the time of a Signal as the batch runtime reads them.\<close>

definition signal_user :: "(string \<rightharpoonup> string) \<Rightarrow> signal \<Rightarrow> string option" where
  "signal_user users s = (case find (\<lambda>x. si_input_type x = 1) (sg_inputs s) of
     None \<Rightarrow> None | Some x \<Rightarrow> users (si_input_id x))"

definition signal_millis :: "signal \<Rightarrow> int option" where
  "signal_millis s = (case sg_first_observed_at s of None \<Rightarrow> None
     | Some t \<Rightarrow> (case timestamp_to_millis_checked t of Inr m \<Rightarrow> Some m | Inl _ \<Rightarrow> None))"

definition account_compromise_plan ::
  "(string \<Rightarrow> string) \<Rightarrow> (string, string, mvp_sequence_ordering) compiled_sequence_plan" where
  "account_compromise_plan digest =
    \<lparr>csp_correlation_rule_id = ACCOUNT_COMPROMISE_RULE_ID, csp_correlation_rule_version = CORRELATION_RULE_VERSION,
     csp_stages = [FAILED_LOGIN_RULE_ID, SUCCESSFUL_LOGIN_RULE_ID, PRIVILEGE_ESCALATION_RULE_ID],
     csp_join_keys = [''user.name''], csp_max_window_millis = 600000, csp_ordering = Observed,
     csp_backend = ClickHouse, csp_supported_backends = capabilities_new True False,
     csp_configuration_hash = sha256_lower_hex digest ''mvp-account-compromise-sequence-v1''\<rparr>"

lemma compiled_sequence_rule: "compile_sequence_rule digest = Inr plan \<Longrightarrow> plan = account_compromise_plan digest"
  by (auto simp: compile_sequence_rule_def compile_sequence_correlation_plan_def result_simps
      account_compromise_plan_def split: if_splits)

lemma mvp_joins:
  "joins (account_compromise_plan digest) (mvp_sequence_policy users) s user t ord \<longleftrightarrow>
     signal_user users s = Some user \<and> signal_millis s = Some t \<and> ord = (t, sg_signal_id s)"
  by (auto simp: joins_def mvp_sequence_policy_def account_compromise_plan_def mvp_sequence_group_key_def
      mvp_sequence_time_millis_def mvp_sequence_order_key_def signal_user_def signal_millis_def signal_constants
      split: option.splits sum.splits)

lemma mvp_stage_matches: "stage_matches (mvp_sequence_policy users) stage s = Inr True \<longleftrightarrow> sg_rule_id s = stage"
  by (simp add: mvp_sequence_policy_def)

text \<open>Three Signals of one tenant and user that fail, succeed and escalate in this order within ten
  minutes, ties in time being ordered by Signal identity.\<close>

definition compromise_chain ::
  "(string \<rightharpoonup> string) \<Rightarrow> signal list \<Rightarrow> string \<Rightarrow> string \<Rightarrow> signal \<Rightarrow> signal \<Rightarrow> signal \<Rightarrow> bool" where
  "compromise_chain users signals tenant user a b c \<longleftrightarrow>
     {a, b, c} \<subseteq> set signals
     \<and> sg_rule_id a = FAILED_LOGIN_RULE_ID \<and> sg_rule_id b = SUCCESSFUL_LOGIN_RULE_ID
     \<and> sg_rule_id c = PRIVILEGE_ESCALATION_RULE_ID
     \<and> (\<forall>s\<in>{a, b, c}. sg_tenant_id s = tenant \<and> signal_user users s = Some user)
     \<and> (\<exists>t u v. signal_millis a = Some t \<and> signal_millis b = Some u \<and> signal_millis c = Some v
          \<and> (t, sg_signal_id a) < (u, sg_signal_id b) \<and> (u, sg_signal_id b) < (v, sg_signal_id c)
          \<and> v - t \<le> 600000)"

lemma compromise_match_chain:
  assumes "compile_sequence_rule digest = Inr plan"
    and "evaluate_sequence_signals plan signals mode (mvp_sequence_policy users) = Inr ms" and "m \<in> set ms"
  shows "\<exists>user a b c. compromise_chain users signals (scm_tenant_id m) user a b c
    \<and> scm_input_signal_ids m = [sg_signal_id a, sg_signal_id b, sg_signal_id c]"
proof -
  let ?plan = "account_compromise_plan digest" and ?policy = "mvp_sequence_policy users"
  have plan: "plan = ?plan" by (rule compiled_sequence_rule [OF assms(1)])
  have eval: "evaluate_sequence_signals ?plan signals mode ?policy = Inr ms" using assms(2) by (simp add: plan)
  have stages: "csp_stages ?plan \<noteq> []" "length (csp_stages ?plan) = 3" by (simp_all add: account_compromise_plan_def)
  obtain user ss ts ords where ids: "map sg_signal_id ss = scm_input_signal_ids m"
    and lens: "length ss = length (csp_stages ?plan)" "length ts = length ss" "length ords = length ss"
    and part: "\<forall>k<length ss. ss ! k \<in> set signals \<and> wf_signal (ss ! k)
        \<and> sg_execution_mode (ss ! k) = execution_mode_i32 mode \<and> sg_tenant_id (ss ! k) = scm_tenant_id m
        \<and> stage_matches ?policy (csp_stages ?plan ! k) (ss ! k) = Inr True
        \<and> joins ?plan ?policy (ss ! k) user (ts ! k) (ords ! k)"
    and ord: "sorted_wrt (<) ords" and span: "Max (set ts) - Min (set ts) \<le> uint (csp_max_window_millis ?plan)"
    using sequence_match_evidence [OF eval assms(3) stages(1)] by (elim exE conjE) (rule that)
  have "length ss = 3" "length ts = 3" "length ords = 3" using lens stages(2) by simp_all
  then obtain a b c t u v x y z where abc: "ss = [a, b, c]" "ts = [t, u, v]" "ords = [x, y, z]"
    by (auto simp: numeral_3_eq_3 length_Suc_conv)
  note facts = part [rule_format, of 0] part [rule_format, of 1] part [rule_format, of 2]
  have "compromise_chain users signals (scm_tenant_id m) user a b c"
    using facts ord span unfolding mvp_joins mvp_stage_matches
    by (simp add: abc compromise_chain_def account_compromise_plan_def)
  moreover have "scm_input_signal_ids m = [sg_signal_id a, sg_signal_id b, sg_signal_id c]"
    using ids by (simp add: abc)
  ultimately show ?thesis by blast
qed

text \<open>C7: every account-compromise match is justified by a chain: a failed login, a successful login and
  a privilege escalation of one user of the tenant, in this order and within ten minutes, and the
  match lists exactly these three Signals.\<close>

theorem account_compromise_sound:
  assumes "compile_sequence_rule digest = Inr plan"
    and "evaluate_sequence_signals plan signals mode (mvp_sequence_policy users) = Inr ms" and "m \<in> set ms"
  shows "\<exists>user a b c. compromise_chain users signals (scm_tenant_id m) user a b c
    \<and> scm_input_signal_ids m = [sg_signal_id a, sg_signal_id b, sg_signal_id c]"
  using assms by (rule compromise_match_chain)

lemma compromise_chain_matched:
  assumes "compile_sequence_rule digest = Inr plan"
    and "evaluate_sequence_signals plan signals mode (mvp_sequence_policy users) = Inr ms"
    and "compromise_chain users signals tenant user a b c"
  shows "\<exists>m\<in>set ms. scm_tenant_id m = tenant \<and> (\<forall>i\<in>set (scm_input_signal_ids m).
    \<exists>s\<in>set signals. sg_signal_id s = i \<and> signal_user users s = Some user)"
proof -
  let ?plan = "account_compromise_plan digest" and ?policy = "mvp_sequence_policy users"
  have eval: "evaluate_sequence_signals ?plan signals mode ?policy = Inr ms"
    using assms(2) compiled_sequence_rule [OF assms(1)] by simp
  obtain t u v where chain: "{a, b, c} \<subseteq> set signals" "sg_rule_id a = FAILED_LOGIN_RULE_ID"
      "sg_rule_id b = SUCCESSFUL_LOGIN_RULE_ID" "sg_rule_id c = PRIVILEGE_ESCALATION_RULE_ID"
      "\<forall>s\<in>{a, b, c}. sg_tenant_id s = tenant \<and> signal_user users s = Some user"
    and time: "signal_millis a = Some t" "signal_millis b = Some u" "signal_millis c = Some v"
    and lt: "(t, sg_signal_id a) < (u, sg_signal_id b)" "(u, sg_signal_id b) < (v, sg_signal_id c)" "v - t \<le> 600000"
    using assms(3) unfolding compromise_chain_def by blast
  let ?time = "\<lambda>s. the (signal_millis s)" and ?ord = "\<lambda>s. (the (signal_millis s), sg_signal_id s)"
  have "\<exists>m\<in>set ms. scm_tenant_id m = tenant \<and> (\<forall>i\<in>set (scm_input_signal_ids m).
      \<exists>s\<in>set signals. sg_signal_id s = i \<and> (\<exists>t o'. joins ?plan ?policy s user t o'))"
  proof (rule sequence_group_complete [OF eval, where ss = "[a, b, c]" and time = ?time and ord = ?ord])
    show "\<forall>k<length [a, b, c]. [a, b, c] ! k \<in> set signals \<and> sg_tenant_id ([a, b, c] ! k) = tenant
        \<and> stage_matches ?policy (csp_stages ?plan ! k) ([a, b, c] ! k) = Inr True
        \<and> joins ?plan ?policy ([a, b, c] ! k) user (?time ([a, b, c] ! k)) (?ord ([a, b, c] ! k))"
      using chain time unfolding mvp_joins mvp_stage_matches
      by (simp add: account_compromise_plan_def less_Suc_eq all_conj_distrib imp_disjL)
    show "sorted_wrt (<) (map ?ord [a, b, c])" using lt time by auto
    show "\<forall>s\<in>set [a, b, c]. \<forall>s'\<in>set [a, b, c]. ?time s' - ?time s \<le> uint (csp_max_window_millis ?plan)"
      using lt time by (auto simp: account_compromise_plan_def)
    show "\<forall>s\<in>set signals. \<forall>s'\<in>set signals. \<forall>t t' ord ord'. joins ?plan ?policy s user t ord \<longrightarrow>
        joins ?plan ?policy s' user t' ord' \<longrightarrow> ord \<le> ord' \<longrightarrow> t \<le> t'"
      unfolding mvp_joins by auto
  qed (simp_all add: account_compromise_plan_def)
  then show ?thesis by (simp only: mvp_joins) blast
qed

text \<open>C8: no chain is missed: if the batch holds a failed login, a successful login and a privilege
  escalation of one user in order within ten minutes, the runtime reports a match for the tenant all
  of whose Signals belong to that user.\<close>

theorem account_compromise_complete:
  assumes "compile_sequence_rule digest = Inr plan"
    and "evaluate_sequence_signals plan signals mode (mvp_sequence_policy users) = Inr ms"
    and "compromise_chain users signals tenant user a b c"
  shows "\<exists>m\<in>set ms. scm_tenant_id m = tenant \<and> (\<forall>i\<in>set (scm_input_signal_ids m).
    \<exists>s\<in>set signals. sg_signal_id s = i \<and> signal_user users s = Some user)"
  using assms by (rule compromise_chain_matched)

definition chain_signal :: "char \<Rightarrow> string \<Rightarrow> int \<Rightarrow> signal" where
  "chain_signal c rule t = (sample_signal c ''LOW'' t)\<lparr>sg_rule_id := rule\<rparr>"

definition chain_signals :: "signal list" where
  "chain_signals = [chain_signal CHR ''3'' PRIVILEGE_ESCALATION_RULE_ID 90,
     chain_signal CHR ''1'' FAILED_LOGIN_RULE_ID 10, chain_signal CHR ''2'' SUCCESSFUL_LOGIN_RULE_ID 50]"

definition chain_users :: "string \<rightharpoonup> string" where
  "chain_users = [sample_uuid CHR ''1'' \<mapsto> ''root'']"

definition chain_match :: sequence_correlation_match where
  "chain_match = \<lparr>scm_correlation_rule_id = ACCOUNT_COMPROMISE_RULE_ID,
     scm_correlation_rule_version = CORRELATION_RULE_VERSION,
     scm_tenant_id = sample_tenant, scm_window_start = timestamp_from_millis 10000,
     scm_window_end = timestamp_from_millis 90000,
     scm_input_signal_ids = [sample_uuid CHR ''1'', sample_uuid CHR ''2'', sample_uuid CHR ''3''],
     scm_execution_backend = ClickHouse, scm_execution_mode = Test,
     scm_configuration_hash = sha256_lower_hex sample_digest ''mvp-account-compromise-sequence-v1''\<rparr>"

lemma chain_signal_fields [simp]:
  "sg_signal_id (chain_signal c r t) = sample_uuid c" "sg_rule_id (chain_signal c r t) = r"
  "sg_first_observed_at (chain_signal c r t) = Some \<lparr>seconds = t, nanos = 0\<rparr>"
  "sg_tenant_id (chain_signal c r t) = sample_tenant" "sg_execution_mode (chain_signal c r t) = 3"
  "signal_user chain_users (chain_signal c r t) = Some ''root''"
  by (simp_all add: chain_signal_def signal_user_def chain_users_def)
    (simp add: sample_signal_def event_signal_of_def sample_event_def)

lemma chain_signal_valid:
  assumes "is_ascii_hexdigit c" "t \<in> {0..1000}" "detection_rule_id r"
  shows "validate_signal (chain_signal c r t) = Inr ()"
proof -
  have "wf_signal (sample_signal c ''LOW'' t)" using assms(1,2) by (intro sample_signal_wf) (simp_all add: sample_texts)
  then show ?thesis using assms(3) by (simp add: validate_signal_ok chain_signal_def wf_signal_def wf_signal_counts_def)
qed

lemma chain_millis: "t \<in> {0..1000} \<Longrightarrow> signal_millis (chain_signal c r t) = Some (t * 1000)"
  by (simp add: signal_millis_def timestamp_to_millis_checked_def checked_mul_i64_def checked_add_i64_def
      checked_i64_def fits_i64_def)

lemma chain_policy:
  assumes "t \<in> {0..1000}"
  shows "sequence_group_key (mvp_sequence_policy chain_users) [''user.name''] (chain_signal c r t) = Inr (Some ''root'')"
    "sequence_time_millis (mvp_sequence_policy chain_users) (chain_signal c r t) = Inr (Some (t * 1000))"
    "sequence_order_key (mvp_sequence_policy chain_users) Observed (chain_signal c r t)
       = Inr (Some (t * 1000, sample_uuid c))"
  using mvp_joins [of sample_digest chain_users "chain_signal c r t" "''root''" "t * 1000" "(t * 1000, sample_uuid c)"]
    chain_millis [OF assms, of c r]
  by (simp_all add: joins_def account_compromise_plan_def)

lemma chain_eval:
  "evaluate_sequence_signals (account_compromise_plan sample_digest) chain_signals Test
     (mvp_sequence_policy chain_users) = Inr [chain_match]"
proof -
  have valid: "validate_signal (chain_signal CHR ''1'' FAILED_LOGIN_RULE_ID 10) = Inr ()"
    "validate_signal (chain_signal CHR ''2'' SUCCESSFUL_LOGIN_RULE_ID 50) = Inr ()"
    "validate_signal (chain_signal CHR ''3'' PRIVILEGE_ESCALATION_RULE_ID 90) = Inr ()"
    using mvp_rule_ids by (intro chain_signal_valid; simp add: byte_class_defs)+
  have stage: "stage_matches (mvp_sequence_policy chain_users) st s = Inr (sg_rule_id s = st)" for st s
    by (simp add: mvp_sequence_policy_def)
  have rules: "FAILED_LOGIN_RULE_ID \<noteq> SUCCESSFUL_LOGIN_RULE_ID" "FAILED_LOGIN_RULE_ID \<noteq> PRIVILEGE_ESCALATION_RULE_ID"
    "SUCCESSFUL_LOGIN_RULE_ID \<noteq> PRIVILEGE_ESCALATION_RULE_ID"
    by (simp_all add: mvp_constants)
  note rules' = rules rules [symmetric]
  show ?thesis
    by (simp add: account_compromise_plan_def chain_signals_def chain_match_def rules' stage valid chain_policy
      evaluate_sequence_signals_def validate_unique_signals_def unique_signal_step_def
      validate_execution_mode_def btree_get_def collect_sequence_candidates_def sequence_collect_step_def
      sequence_candidate_of_def btree_push_def sequence_sorted_match_def select_sequence_def sequence_order_def
      i64_try_from_def checked_i64_def fits_i64_def validate_timestamp_def proto_timestamp_defs
      timestamp_from_millis_def List.map_filter_simps upt_rec)
qed

lemma chain_compiled: "compile_sequence_rule sample_digest = Inr (account_compromise_plan sample_digest)"
  unfolding account_compromise_plan_def by (rule compile_sequence_rule_ok) (simp add: sample_digest_def)

theorem account_compromise_sound_witness:
  "\<exists>user a b c. compromise_chain chain_users chain_signals sample_tenant user a b c
    \<and> scm_input_signal_ids chain_match = [sg_signal_id a, sg_signal_id b, sg_signal_id c]"
  using account_compromise_sound [OF chain_compiled chain_eval, of chain_match] by (simp add: chain_match_def)

theorem account_compromise_complete_witness:
  "\<exists>m\<in>set [chain_match]. scm_tenant_id m = sample_tenant"
proof -
  have "compromise_chain chain_users chain_signals sample_tenant ''root'' (chain_signal CHR ''1'' FAILED_LOGIN_RULE_ID 10)
      (chain_signal CHR ''2'' SUCCESSFUL_LOGIN_RULE_ID 50) (chain_signal CHR ''3'' PRIVILEGE_ESCALATION_RULE_ID 90)"
    by (simp add: compromise_chain_def chain_signals_def chain_millis)
  from account_compromise_complete [OF chain_compiled chain_eval this] show ?thesis by blast
qed

end
