(* ===== verification/Parser_Correctness.thy ===== *)
theory Parser_Correctness
  imports Parser
begin

text \<open>
  Parser selection chooses the one parser with the highest tier and confidence whatever the order of
  registration, and the sshd parser reads back the lines the daemon writes, unless the login name
  itself looks like the rest of such a line.
\<close>

section \<open>Selection\<close>

definition candidate_key :: "parser_candidate \<Rightarrow> parser_tier \<times> 8 word" where
  "candidate_key c = (ca_tier c, ca_confidence c)"

definition tied_at :: "parser_candidate list \<Rightarrow> parser_tier \<times> 8 word \<Rightarrow> nat list" where
  "tied_at cs k = filter (\<lambda>j. ca_confidence (cs ! j) \<noteq> 0 \<and> candidate_key (cs ! j) = k) [0..<length cs]"

text \<open>What the scan has found after the candidates \<open>cs\<close>.\<close>

definition scan_inv :: "parser_candidate list \<Rightarrow> best_so_far \<Rightarrow> bool" where
  "scan_inv cs state = (case state of
      (None, tied) \<Rightarrow> tied = [] \<and> (\<forall>c\<in>set cs. ca_confidence c = 0)
    | (Some (i, k), tied) \<Rightarrow> tied \<noteq> [] \<and> hd tied = i \<and> tied = tied_at cs k
        \<and> (\<forall>c\<in>set cs. ca_confidence c \<noteq> 0 \<longrightarrow> candidate_key c \<le> k))"

lemma tied_at_snoc:
  "tied_at (cs @ [c]) k =
     tied_at cs k @ (if ca_confidence c \<noteq> 0 \<and> candidate_key c = k then [length cs] else [])"
proof -
  have "filter (\<lambda>j. ca_confidence ((cs @ [c]) ! j) \<noteq> 0 \<and> candidate_key ((cs @ [c]) ! j) = k) [0..<length cs] = tied_at cs k"
    unfolding tied_at_def by (rule filter_cong) (simp_all add: nth_append)
  then show ?thesis unfolding tied_at_def by simp
qed

lemma tied_at_Nil: "\<forall>c\<in>set cs. ca_confidence c \<noteq> 0 \<longrightarrow> candidate_key c \<noteq> k \<Longrightarrow> tied_at cs k = []"
  by (auto simp: tied_at_def filter_empty_conv)

lemma scan_step:
  assumes "scan_inv cs state"
  shows "scan_inv (cs @ [c]) (scan_candidate state (length cs, c))"
proof (cases "ca_confidence c = 0")
  case True
  with assms show ?thesis
    by (auto simp: scan_inv_def scan_candidate_def tied_at_snoc split: prod.splits option.splits)
next
  case False
  obtain best tied where state: "state = (best, tied)" by (cases state)
  show ?thesis
  proof (cases best)
    case None
    with assms have zero: "\<forall>c\<in>set cs. ca_confidence c = 0" unfolding state by (simp add: scan_inv_def)
    then have "tied_at cs (ca_tier c, ca_confidence c) = []" by (intro tied_at_Nil) simp
    with False None zero show ?thesis
      by (auto simp: state scan_inv_def scan_candidate_def tied_at_snoc candidate_key_def)
  next
    case (Some b)
    then obtain i k where b: "best = Some (i, k)" by (cases b) auto
    note inv = assms [unfolded state b scan_inv_def, simplified]
    consider "candidate_key c > k" | "candidate_key c = k" | "candidate_key c < k" by (rule linorder_cases)
    then show ?thesis
    proof cases
      case 1
      then have "tied_at cs (candidate_key c) = []" using inv by (intro tied_at_Nil) auto
      with 1 False inv show ?thesis
        by (cases k) (auto simp: state b scan_inv_def scan_candidate_def tied_at_snoc candidate_key_def)
    next
      case 2
      with False inv show ?thesis
        by (cases k) (auto simp: state b scan_inv_def scan_candidate_def tied_at_snoc candidate_key_def)
    next
      case 3
      with False inv show ?thesis
        by (cases k) (auto simp: state b scan_inv_def scan_candidate_def tied_at_snoc candidate_key_def)
    qed
  qed
qed

lemma scan_all: "scan_inv cs (foldl scan_candidate (None, []) (enumerate 0 cs))"
proof (induction cs rule: rev_induct)
  case Nil
  then show ?case by (simp add: scan_inv_def)
next
  case (snoc c cs)
  then show ?case using scan_step by (simp add: enumerate_append_eq)
qed

text \<open>The parser that selection should find, without an order on the registered ones.\<close>

definition confidence_in :: "parser_input \<Rightarrow> parser \<Rightarrow> 8 word" where
  "confidence_in input p = (case pa_probe p input of None \<Rightarrow> 0 | Some c \<Rightarrow> c)"

definition rank_in :: "parser_input \<Rightarrow> parser \<Rightarrow> parser_tier \<times> 8 word" where
  "rank_in input p = (pa_tier p, confidence_in input p)"

definition unique_best :: "parser multiset \<Rightarrow> parser_input \<Rightarrow> parser \<Rightarrow> bool" where
  "unique_best P input p \<longleftrightarrow> p \<in># P \<and> (\<forall>q\<in>#P. pa_probe q input \<noteq> None) \<and> confidence_in input p \<noteq> 0
     \<and> (\<forall>q\<in>#P - {#p#}. confidence_in input q \<noteq> 0 \<longrightarrow> rank_in input q < rank_in input p)"

lemma ball_mset_minus_nth:
  assumes "i < length xs"
  shows "(\<forall>q\<in>#mset xs - {#xs ! i#}. P q) \<longleftrightarrow> (\<forall>j<length xs. j \<noteq> i \<longrightarrow> P (xs ! j))"
proof -
  have "mset xs = add_mset (xs ! i) (mset (take i xs @ drop (Suc i) xs))"
    using id_take_nth_drop [OF assms] by (metis mset.simps(2) mset_append union_mset_add_mset_right)
  then have "set_mset (mset xs - {#xs ! i#}) = set (take i xs @ drop (Suc i) xs)" by simp
  moreover have "set (take i xs @ drop (Suc i) xs) = (!) xs ` ({..<length xs} - {i})"
  proof -
    have "xs ! j \<in> set (drop (Suc i) xs)" if "j < length xs" "i < j" for j
      using that nth_mem [of "j - Suc i" "drop (Suc i) xs"] by simp
    moreover have "xs ! j \<in> set (take i xs)" if "j < i" for j
      using that assms nth_mem [of j "take i xs"] by simp
    moreover have "\<exists>j<length xs. j \<noteq> i \<and> x = xs ! j" if "x \<in> set (take i xs)" for x
    proof -
      obtain n where "n < length (take i xs)" "x = take i xs ! n" using \<open>x \<in> set (take i xs)\<close> by (metis in_set_conv_nth)
      then show ?thesis by (intro exI [of _ n]) simp
    qed
    moreover have "\<exists>j<length xs. j \<noteq> i \<and> x = xs ! j" if "x \<in> set (drop (Suc i) xs)" for x
    proof -
      obtain n where "n < length (drop (Suc i) xs)" "x = drop (Suc i) xs ! n"
        using \<open>x \<in> set (drop (Suc i) xs)\<close> by (metis in_set_conv_nth)
      then show ?thesis by (intro exI [of _ "Suc i + n"]) simp
    qed
    note parts = this calculation
    show ?thesis
    proof (rule set_eqI)
      fix x
      have "x \<in> set (take i xs @ drop (Suc i) xs) \<longleftrightarrow> (\<exists>j<length xs. j \<noteq> i \<and> x = xs ! j)"
        unfolding set_append Un_iff using parts by (metis linorder_neqE_nat)
      then show "x \<in> set (take i xs @ drop (Suc i) xs) \<longleftrightarrow> x \<in> (!) xs ` ({..<length xs} - {i})" by blast
    qed
  qed
  then have "(\<forall>q\<in>set (take i xs @ drop (Suc i) xs). P q) \<longleftrightarrow> (\<forall>j<length xs. j \<noteq> i \<longrightarrow> P (xs ! j))"
    by (simp only: ball_simps) blast
  ultimately show ?thesis by simp
qed

definition candidates_of :: "parser_input \<Rightarrow> parser list \<Rightarrow> parser_candidate list" where
  "candidates_of input parsers = map (\<lambda>p. candidate_of p (confidence_in input p)) parsers"

lemma probe_all:
  "try_map (\<lambda>p. and_then (probe_parser p input) (\<lambda>c. Inr (candidate_of p c))) parsers = Inr cs \<longleftrightarrow>
     (\<forall>p\<in>set parsers. pa_probe p input \<noteq> None) \<and> cs = candidates_of input parsers"
  by (induction parsers arbitrary: cs)
    (auto simp: result_simps probe_parser_def candidates_of_def confidence_in_def split: option.splits)

text \<open>A single tied index is the only candidate with the best key.\<close>

lemma tied_at_single:
  "tied_at cs k = [i] \<longleftrightarrow> i < length cs \<and> ca_confidence (cs ! i) \<noteq> 0 \<and> candidate_key (cs ! i) = k
     \<and> (\<forall>j<length cs. j \<noteq> i \<longrightarrow> \<not> (ca_confidence (cs ! j) \<noteq> 0 \<and> candidate_key (cs ! j) = k))"
  (is "?L \<longleftrightarrow> ?R")
proof
  assume L: ?L
  have *: "j = i" if "j < length cs" "ca_confidence (cs ! j) \<noteq> 0" "candidate_key (cs ! j) = k" for j
  proof -
    have "j \<in> set (tied_at cs k)" using that by (simp add: tied_at_def)
    then show ?thesis using L by simp
  qed
  have "i \<in> set (tied_at cs k)" using L by simp
  then show ?R using * by (auto simp: tied_at_def)
next
  assume R: ?R
  then have "set (tied_at cs k) = {i}" by (auto simp: tied_at_def)
  moreover have "sorted_wrt (<) (tied_at cs k)" by (simp add: tied_at_def sorted_wrt_filter)
  ultimately show ?L by (simp add: strict_sorted_iff) (metis distinct_card finite.emptyI
      card_1_singleton_iff length_Suc_conv length_0_conv list.simps(15) empty_set One_nat_def insert_eq_iff singletonI singletonD)
qed

lemma candidates_nth:
  "j < length parsers \<Longrightarrow> ca_confidence (candidates_of input parsers ! j) = confidence_in input (parsers ! j)"
  "j < length parsers \<Longrightarrow> candidate_key (candidates_of input parsers ! j) = rank_in input (parsers ! j)"
  "length (candidates_of input parsers) = length parsers"
  by (simp_all add: candidates_of_def candidate_of_def candidate_key_def rank_in_def)

lemma select_auto_index:
  "(\<exists>trace. select_auto parsers input = Inr (p, trace)) \<longleftrightarrow> (\<forall>q\<in>set parsers. pa_probe q input \<noteq> None)
     \<and> (\<exists>i<length parsers. p = parsers ! i \<and> confidence_in input p \<noteq> 0
         \<and> (\<forall>j<length parsers. j \<noteq> i \<longrightarrow> confidence_in input (parsers ! j) \<noteq> 0 \<longrightarrow> rank_in input (parsers ! j) < rank_in input p))"
  (is "?L \<longleftrightarrow> ?probes \<and> ?R")
proof -
  define cs where "cs = candidates_of input parsers"
  obtain best tied where scan: "foldl scan_candidate (None, []) (enumerate 0 cs) = (best, tied)" by fastforce
  have inv: "scan_inv cs (best, tied)" using scan_all [of cs] by (simp add: scan)
  note nth = candidates_nth(1,2) [of _ parsers input, folded cs_def] candidates_nth(3) [of input parsers, folded cs_def]
  have auto: "?L \<longleftrightarrow> ?probes \<and> (\<exists>i k. best = Some (i, k) \<and> length tied = 1 \<and> p = parsers ! i)"
  proof -
    have "length tied \<noteq> 0" if "best \<noteq> None" using inv that by (auto simp: scan_inv_def)
    then have "(\<exists>trace. (case (best, tied) of (None, _) \<Rightarrow> Inl no_match
        | (Some (i, _), tied) \<Rightarrow> if length tied > 1 then Inl (ambiguous cs tied)
            else Inr (parsers ! i, select_trace ''auto:tier-then-confidence'' cs (parsers ! i))) = Inr (p, trace))
      \<longleftrightarrow> (\<exists>i k. best = Some (i, k) \<and> length tied = 1 \<and> p = parsers ! i)"
      by (cases best; cases tied; cases "tl tied") (auto split: if_splits)
    then show ?thesis
      unfolding select_auto_def by (simp add: and_then_eq_Inr probe_all cs_def [symmetric] scan)
  qed
  have "(\<exists>i k. best = Some (i, k) \<and> length tied = 1 \<and> p = parsers ! i) \<longleftrightarrow> ?R"
  proof
    assume "\<exists>i k. best = Some (i, k) \<and> length tied = 1 \<and> p = parsers ! i"
    then obtain i k where b: "best = Some (i, k)" and "length tied = 1" and p: "p = parsers ! i" by blast
    then have "tied_at cs k = [i]" using inv by (cases tied) (auto simp: scan_inv_def)
    note one = this [unfolded tied_at_single]
    have "\<forall>c\<in>set cs. ca_confidence c \<noteq> 0 \<longrightarrow> candidate_key c \<le> k" using inv b by (simp add: scan_inv_def)
    then have le: "rank_in input (parsers ! j) \<le> k" if "j < length parsers" "confidence_in input (parsers ! j) \<noteq> 0" for j
      using that nth by (metis nth_mem)
    have "rank_in input (parsers ! j) < rank_in input p"
      if "j < length parsers" "j \<noteq> i" "confidence_in input (parsers ! j) \<noteq> 0" for j
      using le [OF that(1,3)] one that by (auto simp: p nth)
    then show ?R using one by (auto simp: p nth)
  next
    assume ?R
    then obtain i where i: "i < length parsers" "p = parsers ! i" "confidence_in input p \<noteq> 0"
      and top: "\<And>j. j < length parsers \<Longrightarrow> j \<noteq> i \<Longrightarrow> confidence_in input (parsers ! j) \<noteq> 0
        \<Longrightarrow> rank_in input (parsers ! j) < rank_in input p" by blast
    have "cs ! i \<in> set cs" "ca_confidence (cs ! i) \<noteq> 0" using i nth by simp_all
    then obtain j k where b: "best = Some (j, k)" using inv by (cases best) (auto simp: scan_inv_def)
    then have "candidate_key (cs ! i) \<le> k"
      using inv \<open>cs ! i \<in> set cs\<close> \<open>ca_confidence (cs ! i) \<noteq> 0\<close> by (simp add: scan_inv_def)
    then have le: "rank_in input p \<le> k" using i nth by simp
    have "tied_at cs k \<noteq> []" "hd (tied_at cs k) = j" "tied = tied_at cs k" using inv b by (auto simp: scan_inv_def)
    then have "j \<in> set (tied_at cs k)" by (metis list.set_sel(1))
    then have j: "j < length parsers" "confidence_in input (parsers ! j) \<noteq> 0" "rank_in input (parsers ! j) = k"
      by (auto simp: tied_at_def nth)
    then have "j = i" using top [of j] le by force
    have "rank_in input (parsers ! n) \<noteq> k" if "n < length parsers" "n \<noteq> i" "confidence_in input (parsers ! n) \<noteq> 0" for n
      using top [OF that] j i \<open>j = i\<close> by auto
    then have "tied_at cs k = [i]"
      unfolding tied_at_single using i j nth by (auto simp: \<open>j = i\<close>)
    then show "\<exists>i k. best = Some (i, k) \<and> length tied = 1 \<and> p = parsers ! i"
      using b \<open>tied = tied_at cs k\<close> i \<open>j = i\<close> by auto
  qed
  then show ?thesis unfolding auto by simp
qed

text \<open>C25: without a configured parser the registry selects a parser exactly when no probe panics and one
  registered parser, counted as often as it is registered, has a positive confidence and ranks above
  every other one that supports the input, first by tier and then by confidence. The order of
  registration plays no role: only the multiset of the registered parsers does.\<close>

theorem select_unique_best:
  assumes "pi_configured_parser_id input = None"
  shows "(\<exists>trace. select parsers input = Inr (p, trace)) \<longleftrightarrow> unique_best (mset parsers) input p"
proof -
  let ?below = "\<lambda>q. confidence_in input q \<noteq> 0 \<longrightarrow> rank_in input q < rank_in input p"
  have "(\<exists>i<length parsers. p = parsers ! i \<and> (\<forall>j<length parsers. j \<noteq> i \<longrightarrow> ?below (parsers ! j)))
    \<longleftrightarrow> p \<in> set parsers \<and> (\<forall>q\<in>#mset parsers - {#p#}. ?below q)"
  proof (intro iffI; elim exE conjE)
    fix i assume i: "i < length parsers" "p = parsers ! i" "\<forall>j<length parsers. j \<noteq> i \<longrightarrow> ?below (parsers ! j)"
    then show "p \<in> set parsers \<and> (\<forall>q\<in>#mset parsers - {#p#}. ?below q)"
      using ball_mset_minus_nth [OF i(1), of ?below] nth_mem [OF i(1)] by blast
  next
    assume p: "p \<in> set parsers" "\<forall>q\<in>#mset parsers - {#p#}. ?below q"
    then obtain i where i: "i < length parsers" "p = parsers ! i" by (metis in_set_conv_nth)
    then show "\<exists>i<length parsers. p = parsers ! i \<and> (\<forall>j<length parsers. j \<noteq> i \<longrightarrow> ?below (parsers ! j))"
      using p(2) ball_mset_minus_nth [OF i(1), of ?below] by blast
  qed
  then show ?thesis
    unfolding select_def assms option.case select_auto_index unique_best_def set_mset_mset by blast
qed

section \<open>The sshd line\<close>

definition sshd_identity :: "bool \<Rightarrow> string \<Rightarrow> string" where
  "sshd_identity invalid_user username = (if invalid_user then ''invalid user '' @ username else username)"

text \<open>The line sshd writes for a failed login, after a prefix such as a syslog header.\<close>

definition sshd_line :: "string \<Rightarrow> bool \<Rightarrow> string \<Rightarrow> string \<Rightarrow> string \<Rightarrow> string \<Rightarrow> string" where
  "sshd_line header invalid_user username source_ip port_text trailer =
     header @ ''Failed password for '' @ sshd_identity invalid_user username @ '' from '' @ source_ip
       @ '' port '' @ port_text @ '' '' @ trailer"

text \<open>Names and addresses that cannot be confused with the words of the line.\<close>

definition plain_login :: "bool \<Rightarrow> string \<Rightarrow> string \<Rightarrow> bool" where
  "plain_login invalid_user username source_ip \<longleftrightarrow> username \<noteq> [] \<and> source_ip \<noteq> []
     \<and> \<not> contains '' from '' (sshd_identity invalid_user username @ '' from'')
     \<and> \<not> contains '' port '' (source_ip @ '' port'')
     \<and> (invalid_user \<or> strip_prefix ''invalid user '' username = None)"

lemma parse_failed_password_line:
  assumes "\<not> contains ''Failed password for '' (header @ ''Failed password for'')"
    and login: "plain_login invalid_user username source_ip"
  shows "parse_failed_password (sshd_line header invalid_user username source_ip (show_nat (unat port)) trailer) version policy
    = Inr (sshd_event version username source_ip port invalid_user (sshd_message policy invalid_user username source_ip))"
proof -
  have split: "split_once pat (a @ pat @ b) = Some (a, b)" if "\<not> contains pat (a @ butlast pat)" "pat \<noteq> []" for a b pat
    using that by (simp add: contains_iff split_once_append)
  have "split_once ''Failed password for ''
      (sshd_line header invalid_user username source_ip (show_nat (unat port)) trailer)
    = Some (header, sshd_identity invalid_user username @ '' from '' @ (source_ip @ '' port '' @ (show_nat (unat port) @ '' '' @ trailer)))"
    unfolding sshd_line_def by (rule split) (use assms(1) in simp_all)
  moreover have "split_once '' from ''
      (sshd_identity invalid_user username @ '' from '' @ (source_ip @ '' port '' @ (show_nat (unat port) @ '' '' @ trailer)))
    = Some (sshd_identity invalid_user username, source_ip @ '' port '' @ (show_nat (unat port) @ '' '' @ trailer))"
    by (rule split) (use login in \<open>simp_all add: plain_login_def\<close>)
  moreover have "split_once '' port '' (source_ip @ '' port '' @ (show_nat (unat port) @ '' '' @ trailer))
    = Some (source_ip, show_nat (unat port) @ '' '' @ trailer)"
    by (rule split) (use login in \<open>simp_all add: plain_login_def\<close>)
  moreover have "first_word (show_nat (unat port) @ '' '' @ trailer) = Some (show_nat (unat port))"
    using first_word_space [OF show_nat_nonempty show_nat_solid] by simp
  moreover have "(case strip_prefix ''invalid user '' (sshd_identity invalid_user username) of
      None \<Rightarrow> (False, sshd_identity invalid_user username) | Some user \<Rightarrow> (True, user)) = (invalid_user, username)"
    using login by (auto simp: sshd_identity_def plain_login_def strip_prefix_eq_Some split: option.splits)
  ultimately show ?thesis
    using login unfolding parse_failed_password_def by (simp add: parse_u16_show_nat plain_login_def)
qed

text \<open>A line the parser accepts as text: ASCII without surrounding white space and within the limit.\<close>

definition plain_line :: "string \<Rightarrow> bool" where
  "plain_line raw \<longleftrightarrow> ascii raw \<and> solid (hd raw) \<and> solid (last raw) \<and> length raw \<le> 65536
     \<and> raw \<noteq> []"

lemma parse_linux_sshd_line:
  fixes port :: "16 word"
  assumes "pi_raw input = sshd_line header invalid_user username source_ip (show_nat (unat port)) trailer"
    and "\<not> contains ''Failed password for '' (header @ ''Failed password for'')"
    and "plain_login invalid_user username source_ip" and "plain_line (pi_raw input)"
  shows "parse_linux_sshd input version policy
    = Inr (sshd_event version username source_ip port invalid_user (sshd_message policy invalid_user username source_ip))"
proof -
  have "trim (pi_raw input) = pi_raw input" using assms(4) by (simp add: plain_line_def trim_solid)
  then have "parse_linux_sshd input version policy = parse_failed_password (pi_raw input) version policy"
    using assms(4) by (simp add: parse_linux_sshd_def LINUX_SSHD_LIMITS_def plain_line_def from_utf8_ascii)
  then show ?thesis unfolding assms(1) by (simp add: parse_failed_password_line [OF assms(2,3)])
qed

lemma sshd_event_fields:
  "string_field (sshd_event v username source_ip port invalid_user message) ''username'' = Some username"
  "string_field (sshd_event v username source_ip port invalid_user message) ''source_ip'' = Some source_ip"
  "string_field (sshd_event v username source_ip port invalid_user message) ''message'' = Some message"
  "bool_field (sshd_event v username source_ip port invalid_user message) ''invalid_user'' = Some invalid_user"
  "u64_field (sshd_event v username source_ip port invalid_user message) ''source_port'' = Some (of_nat (unat port))"
proof -
  have "unat port < 2 ^ 64" using unat_bound [of port] by (rule order_less_le_trans) simp
  note port = parse_u64_show_nat [OF this]
  show "string_field (sshd_event v username source_ip port invalid_user message) ''username'' = Some username"
    "string_field (sshd_event v username source_ip port invalid_user message) ''source_ip'' = Some source_ip"
    "string_field (sshd_event v username source_ip port invalid_user message) ''message'' = Some message"
    "bool_field (sshd_event v username source_ip port invalid_user message) ''invalid_user'' = Some invalid_user"
    "u64_field (sshd_event v username source_ip port invalid_user message) ''source_port'' = Some (of_nat (unat port))"
    using port
    by (simp_all add: sshd_event_def string_field_def bool_field_def u64_field_def parsed_field_def parsed_object_def
        parsed_get_def btree_get_def parsed_str_def parsed_bool_def parsed_u64_def parsed_number_str_def less_list_code)
qed

text \<open>On a line that sshd writes for a failed login the parser returns the name, address and port of
  the login, whatever precedes and follows, provided the line is plain ASCII text within the limit and
  the name and the address cannot be confused with the line's own words.\<close>

theorem sshd_parses_its_lines:
  fixes port :: "16 word"
  assumes "pi_raw input = sshd_line header invalid_user username source_ip (show_nat (unat port)) trailer"
    and "\<not> contains ''Failed password for '' (header @ ''Failed password for'')"
    and "plain_login invalid_user username source_ip" and "plain_line (pi_raw input)"
  shows "\<exists>e. parse_linux_sshd input version policy = Inr e \<and> string_field e ''username'' = Some username
    \<and> string_field e ''source_ip'' = Some source_ip \<and> u64_field e ''source_port'' = Some (of_nat (unat port))
    \<and> bool_field e ''invalid_user'' = Some invalid_user"
  unfolding parse_linux_sshd_line [OF assms] by (simp add: sshd_event_fields)

definition sample_persisted :: raw_event_persisted where
  "sample_persisted =
    \<lparr>rp_event_id = ''e'', rp_tenant_id = ''t'', rp_source_id = ''s'', rp_sensor_id = '''', rp_event_time = None,
     rp_ingest_time = None, rp_content_type = ''text/plain'', rp_encoding = '''', rp_raw_size = 0,
     rp_raw_hash_algorithm = ''sha256'', rp_raw_hash = '''', rp_transport = '''', rp_remote_identity = '''',
     rp_sequence_number = None, rp_integrity_status = 1, rp_pipeline_version = ''1'', rp_storage_uri = '''',
     rp_segment_id = '''', rp_offset = 0, rp_length = 0, rp_persisted_at = None\<rparr>"

definition raw_input :: "string \<Rightarrow> parser_input" where
  "raw_input raw = \<lparr>pi_raw = raw, pi_persisted = sample_persisted, pi_configured_parser_id = None\<rparr>"

lemmas line_checks = sshd_line_def sshd_identity_def plain_login_def plain_line_def contains_def split_once_simps
  ascii_def solid_def byte_def

lemma sample_ports: "show_nat 50341 = ''50341''" "show_nat 22 = ''22''"
  by (simp_all add: show_nat.simps digit_char_def) code_simp+

theorem sshd_parses_its_lines_witness:
  "\<exists>e. parse_linux_sshd (raw_input ''Failed password for invalid user admin from 10.0.0.8 port 50341 ssh2'') ''1'' LegacyUserLabel
     = Inr e \<and> string_field e ''username'' = Some ''admin'' \<and> string_field e ''source_ip'' = Some ''10.0.0.8''
     \<and> u64_field e ''source_port'' = Some 50341 \<and> bool_field e ''invalid_user'' = Some True"
proof -
  let ?in = "raw_input ''Failed password for invalid user admin from 10.0.0.8 port 50341 ssh2''"
  have line: "pi_raw ?in = sshd_line [] True ''admin'' ''10.0.0.8'' (show_nat (unat (50341 :: 16 word))) ''ssh2''"
    by (simp add: raw_input_def line_checks sample_ports)
  have "\<not> contains ''Failed password for '' ([] @ ''Failed password for'')" "plain_login True ''admin'' ''10.0.0.8''"
    "plain_line (pi_raw ?in)"
    by (simp_all add: raw_input_def line_checks)
  from sshd_parses_its_lines [OF line this] show ?thesis by simp
qed

text \<open>C36: the login name is chosen by whoever connects, and the parser takes the first words that look like
  the source of the login. A name that contains such words therefore decides the address, the port and
  the name that are recorded for the failed login; the real address does not appear in them.\<close>

theorem sshd_login_name_spoofs_source:
  fixes claimed_port real_port :: "16 word"
  assumes "name = username @ '' from '' @ claimed_ip @ '' port '' @ show_nat (unat claimed_port)"
    and "pi_raw input = sshd_line header True name real_ip (show_nat (unat real_port)) trailer"
    and "\<not> contains ''Failed password for '' (header @ ''Failed password for'')"
    and "plain_login True username claimed_ip" and "plain_line (pi_raw input)"
  shows "\<exists>e. parse_linux_sshd input version policy = Inr e \<and> string_field e ''username'' = Some username
    \<and> string_field e ''source_ip'' = Some claimed_ip \<and> u64_field e ''source_port'' = Some (of_nat (unat claimed_port))"
proof -
  have "pi_raw input = sshd_line header True username claimed_ip (show_nat (unat claimed_port))
      (''from '' @ real_ip @ '' port '' @ show_nat (unat real_port) @ '' '' @ trailer)"
    unfolding assms(1,2) by (simp add: sshd_line_def sshd_identity_def)
  from parse_linux_sshd_line [OF this assms(3-5)] show ?thesis by (simp add: sshd_event_fields)
qed

theorem sshd_login_name_spoofs_source_witness:
  "\<exists>e. parse_linux_sshd (raw_input ''Failed password for invalid user bob from 192.0.2.7 port 22 from 10.0.0.8 port 50341 ssh2'')
      ''2'' PreserveInvalidUserLabel = Inr e
     \<and> string_field e ''username'' = Some ''bob'' \<and> string_field e ''source_ip'' = Some ''192.0.2.7''
     \<and> u64_field e ''source_port'' = Some 22"
proof -
  let ?in = "raw_input ''Failed password for invalid user bob from 192.0.2.7 port 22 from 10.0.0.8 port 50341 ssh2''"
  have "''bob from 192.0.2.7 port 22'' = ''bob'' @ '' from '' @ ''192.0.2.7'' @ '' port '' @ show_nat (unat (22 :: 16 word))"
    by (simp add: line_checks sample_ports)
  note spoof = sshd_login_name_spoofs_source [OF this]
  have line: "pi_raw ?in = sshd_line [] True ''bob from 192.0.2.7 port 22'' ''10.0.0.8'' (show_nat (unat (50341 :: 16 word))) ''ssh2''"
    by (simp add: raw_input_def line_checks sample_ports)
  have "\<not> contains ''Failed password for '' ([] @ ''Failed password for'')" "plain_login True ''bob'' ''192.0.2.7''"
    "plain_line (pi_raw ?in)"
    by (simp_all add: raw_input_def line_checks)
  from spoof [OF line this] show ?thesis by simp
qed

theorem select_unique_best_witness:
  "(\<exists>trace. select [linux_sshd_parser] (raw_input ''Failed password for bob from 10.0.0.8 port 22 ssh2'') = Inr (linux_sshd_parser, trace))
     \<longleftrightarrow> unique_best {#linux_sshd_parser#} (raw_input ''Failed password for bob from 10.0.0.8 port 22 ssh2'') linux_sshd_parser"
  using select_unique_best [of "raw_input ''Failed password for bob from 10.0.0.8 port 22 ssh2''" "[linux_sshd_parser]"]
  by (simp add: raw_input_def)

end
