(* ===== verification/Format_Correctness.thy ===== *)
theory Format_Correctness
  imports Parser_Formats Parser_Correctness
begin

text \<open>
  The format parsers: the size limits on JSON trees are decided exactly, a syslog line written by the
  grammar of RFC 5424 is read back field by field, and a journald record that carries an sshd line is
  refused as ambiguous.
\<close>

section \<open>Limits on JSON trees\<close>

fun json_fields :: "string json \<Rightarrow> nat" where
  "json_fields (JArray vs) = (\<Sum>v\<leftarrow>vs. json_fields v)"
| "json_fields (JObject ms) = length ms + (\<Sum>m\<leftarrow>ms. json_fields (snd m))"
| "json_fields _ = 0"

fun json_depth :: "string json \<Rightarrow> nat" where
  "json_depth (JArray vs) = fold max (map (\<lambda>v. Suc (json_depth v)) vs) 0"
| "json_depth (JObject ms) = fold max (map (\<lambda>m. Suc (json_depth (snd m))) ms) 0"
| "json_depth _ = 0"

fun json_sizes_ok :: "parser_limits \<Rightarrow> string json \<Rightarrow> bool" where
  "json_sizes_ok limits JNull \<longleftrightarrow> True"
| "json_sizes_ok limits (JBool _) \<longleftrightarrow> True"
| "json_sizes_ok limits (JNumber n) \<longleftrightarrow> length n \<le> pl_max_string_bytes limits"
| "json_sizes_ok limits (JString s) \<longleftrightarrow> length s \<le> pl_max_string_bytes limits"
| "json_sizes_ok limits (JArray vs) \<longleftrightarrow> length vs \<le> pl_max_collection_length limits \<and> (\<forall>v\<in>set vs. json_sizes_ok limits v)"
| "json_sizes_ok limits (JObject ms) \<longleftrightarrow> length ms \<le> pl_max_collection_length limits
     \<and> (\<forall>m\<in>set ms. length (fst m) \<le> pl_max_string_bytes limits \<and> json_sizes_ok limits (snd m))"

lemma fold_max_le: "fold max xs a \<le> n \<longleftrightarrow> a \<le> n \<and> (\<forall>x\<in>set xs. x \<le> (n :: nat))"
  by (induction xs arbitrary: a) auto

lemma depth_fold: "d + fold max xs 0 \<le> n \<longleftrightarrow> d \<le> n \<and> (\<forall>x\<in>set xs. d + x \<le> (n :: nat))"
proof -
  have "d + fold max xs 0 \<le> n \<longleftrightarrow> d \<le> n \<and> fold max xs 0 \<le> n - d" by linarith
  then show ?thesis unfolding fold_max_le by (auto simp: le_diff_conv2 add.commute)
qed

lemma depth_below:
  "d + json_depth (JArray vs) \<le> n \<longleftrightarrow> d \<le> n \<and> (\<forall>v\<in>set vs. d + 1 + json_depth v \<le> n)"
  "d + json_depth (JObject ms) \<le> n \<longleftrightarrow> d \<le> n \<and> (\<forall>m\<in>set ms. d + 1 + json_depth (snd m) \<le> n)"
  by (simp_all add: depth_fold)

text \<open>A visit succeeds within the limits and counts the members of all objects; the counter cannot reach
  the point where it saturates.\<close>

lemma visit_eq:
  "pl_max_fields limits < 2 ^ 64 - 1 \<Longrightarrow> c \<le> pl_max_fields limits \<Longrightarrow> visit limits d v c = Inr c' \<longleftrightarrow>
      d + json_depth v \<le> pl_max_depth limits
      \<and> json_sizes_ok limits v \<and> c + json_fields v \<le> pl_max_fields limits \<and> c' = c + json_fields v"
  "pl_max_fields limits < 2 ^ 64 - 1 \<Longrightarrow> c \<le> pl_max_fields limits \<Longrightarrow> visit_values limits d vs c = Inr c' \<longleftrightarrow>
      (\<forall>v\<in>set vs. d + json_depth v \<le> pl_max_depth limits \<and> json_sizes_ok limits v)
      \<and> c + (\<Sum>v\<leftarrow>vs. json_fields v) \<le> pl_max_fields limits \<and> c' = c + (\<Sum>v\<leftarrow>vs. json_fields v)"
  "pl_max_fields limits < 2 ^ 64 - 1 \<Longrightarrow> c \<le> pl_max_fields limits \<Longrightarrow> visit_members limits d ms c = Inr c' \<longleftrightarrow>
      (\<forall>m\<in>set ms. length (fst m) \<le> pl_max_string_bytes limits \<and> d + json_depth (snd m) \<le> pl_max_depth limits
        \<and> json_sizes_ok limits (snd m))
      \<and> c + (\<Sum>m\<leftarrow>ms. json_fields (snd m)) \<le> pl_max_fields limits \<and> c' = c + (\<Sum>m\<leftarrow>ms. json_fields (snd m))"
proof (induction limits d v c and limits d vs c and limits d ms c arbitrary: c' and c' and c'
    rule: visit_visit_values_visit_members.induct)
  case (1 limits depth node c)
  show ?case
  proof (cases "depth > pl_max_depth limits")
    case True
    then show ?thesis by (simp add: visit.simps)
  next
    case False
    show ?thesis
    proof (cases node)
      case (JArray vs)
      have "visit limits depth node c = Inr c' \<longleftrightarrow> length vs \<le> pl_max_collection_length limits \<and> visit_values limits (depth + 1) vs c = Inr c'"
        using False by (simp add: visit.simps JArray if_error_eq_Inr not_less)
      moreover note 1(1) [OF False JArray _ 1(3,4), of c']
      ultimately show ?thesis unfolding JArray depth_below using False by (auto simp: not_less)
    next
      case (JObject ms)
      let ?c = "min (c + length ms) (2 ^ 64 - 1)"
      have c: "\<not> ?c > pl_max_fields limits \<longleftrightarrow> c + length ms \<le> pl_max_fields limits" using 1(3) by linarith
      have c': "?c = c + length ms" if "c + length ms \<le> pl_max_fields limits" using that 1(3) by simp
      have "visit limits depth node c = Inr c' \<longleftrightarrow> length ms \<le> pl_max_collection_length limits
          \<and> c + length ms \<le> pl_max_fields limits \<and> visit_members limits (depth + 1) ms (c + length ms) = Inr c'"
        using False c c' by (auto simp: visit.simps JObject Let_def if_error_eq_Inr not_less)
      moreover have "visit_members limits (depth + 1) ms (c + length ms) = Inr c' \<longleftrightarrow>
          (\<forall>m\<in>set ms. length (fst m) \<le> pl_max_string_bytes limits \<and> depth + 1 + json_depth (snd m) \<le> pl_max_depth limits
            \<and> json_sizes_ok limits (snd m))
          \<and> c + length ms + (\<Sum>m\<leftarrow>ms. json_fields (snd m)) \<le> pl_max_fields limits
          \<and> c' = c + length ms + (\<Sum>m\<leftarrow>ms. json_fields (snd m))"
        if "length ms \<le> pl_max_collection_length limits" "c + length ms \<le> pl_max_fields limits"
      proof -
        show ?thesis using c' [OF that(2)] 1(2) [OF False JObject _ refl _ 1(3), of c'] that by simp
      qed
      ultimately show ?thesis unfolding JObject depth_below using False by (auto simp: not_less)
    qed (use False 1(4) in \<open>auto simp: visit.simps if_error_eq_Inr not_less\<close>)
  qed
next
  case (3 limits depth v vs c)
  note v = 3(1) [OF 3(3,4)]
  show ?case
  proof (cases "visit limits depth v c")
    case (Inl e)
    then show ?thesis using v [of "c + json_fields v"] by auto
  next
    case (Inr x)
    then show ?thesis using v [of x] 3(2) [OF Inr 3(3)] by (auto simp: add.assoc)
  qed
next
  case (5 limits depth k v ms c)
  show ?case
  proof (cases "length k \<le> pl_max_string_bytes limits")
    case True
    then have k: "\<not> length k > pl_max_string_bytes limits" by simp
    note v = 5(1) [OF k 5(3,4)]
    show ?thesis
    proof (cases "visit limits depth v c")
      case (Inl e)
      then show ?thesis using v [of "c + json_fields v"] True by auto
    next
      case (Inr x)
      then show ?thesis using v [of x] 5(2) [OF k Inr 5(3)] True by (auto simp: add.assoc)
    qed
  qed simp
qed auto

text \<open>A JSON tree is accepted exactly when it is no deeper than the limit, all its strings, numbers,
  keys, arrays and objects are within theirs, and all its objects together have no more members than the
  limit (which is below the point where the counter saturates).\<close>

theorem validate_json_tree_decides:
  assumes "pl_max_fields limits < 2 ^ 64 - 1"
  shows "validate_json_tree node limits = Inr () \<longleftrightarrow> json_depth node \<le> pl_max_depth limits
    \<and> json_sizes_ok limits node \<and> json_fields node \<le> pl_max_fields limits"
  using visit_eq(1) [OF assms, of 0 0 node] by (auto simp: validate_json_tree_def and_then_eq_Inr)

theorem validate_json_tree_decides_witness:
  "validate_json_tree (JObject [(''a'', JArray [JNull, JString ''x''])]) JSON_LIMITS = Inr () \<longleftrightarrow>
     json_depth (JObject [(''a'', JArray [JNull, JString ''x''])]) \<le> 64
     \<and> json_sizes_ok JSON_LIMITS (JObject [(''a'', JArray [JNull, JString ''x''])])
     \<and> json_fields (JObject [(''a'', JArray [JNull, JString ''x''])]) \<le> 8192"
  using validate_json_tree_decides [of JSON_LIMITS "JObject [(''a'', JArray [JNull, JString ''x''])]"]
  by (simp add: JSON_LIMITS_def)

section \<open>Journald records of sshd\<close>

text \<open>The canonical record of one journal entry whose message is the given text.\<close>

definition quoted :: "string \<Rightarrow> string" where
  "quoted s = [CHR 0x22] @ s @ [CHR 0x22]"

definition journald_record :: "string \<Rightarrow> string" where
  "journald_record message =
     ''{'' @ quoted ''cerbero_journald_version'' @ '':1,'' @ quoted ''cursor'' @ '':null,'' @ quoted ''fields'' @ '':[{''
       @ quoted ''name'' @ '':'' @ quoted ''MESSAGE'' @ '','' @ quoted ''encoding'' @ '':'' @ quoted ''utf8'' @ '',''
       @ quoted ''value'' @ '':'' @ [CHR 0x22] @ message @ [CHR 0x22] @ ''}]}''"

lemma containsI: "s = a @ pat @ b \<Longrightarrow> contains pat s"
  by (auto simp: contains_iff occurs_def)

lemma contains_inside: "contains pat s \<Longrightarrow> contains pat (a @ s @ b)"
  by (auto simp: contains_iff occurs_def) (metis append.assoc)

lemma contains_sshd_line:
  "contains ''Failed password for '' (sshd_line header invalid_user username source_ip port_text trailer)"
  "contains '' from '' (sshd_line header invalid_user username source_ip port_text trailer)"
  "contains '' port '' (sshd_line header invalid_user username source_ip port_text trailer)"
  by (rule containsI [of _ header], simp add: sshd_line_def)
    (rule containsI [of _ "header @ ''Failed password for '' @ sshd_identity invalid_user username"], simp add: sshd_line_def,
     rule containsI [of _ "header @ ''Failed password for '' @ sshd_identity invalid_user username @ '' from '' @ source_ip"],
     simp add: sshd_line_def)

definition record_head :: string where
  "record_head =
     quoted ''cerbero_journald_version'' @ '':1,'' @ quoted ''cursor'' @ '':null,'' @ quoted ''fields'' @ '':[{''
       @ quoted ''name'' @ '':'' @ quoted ''MESSAGE'' @ '','' @ quoted ''encoding'' @ '':'' @ quoted ''utf8'' @ '',''
       @ quoted ''value'' @ '':'' @ [CHR 0x22]"

lemma journald_record_parts: "journald_record m = ''{'' @ record_head @ m @ [CHR 0x22] @ ''}]}''"
  by (simp add: journald_record_def record_head_def)

lemma trim_record: "trim (journald_record m) = journald_record m"
  unfolding journald_record_parts by (rule trim_solid) (simp_all add: solid_def byte_def)

lemma trim_ascii_record: "trim_ascii_whitespace (journald_record m) = journald_record m"
  unfolding journald_record_parts by (simp add: trim_ascii_whitespace_def is_ascii_whitespace_def byte_def)

lemma probe_journald_record: "probe_journald (journald_record m) = 100"
proof -
  have "contains (quoted ''cerbero_journald_version'') (journald_record m)"
    by (rule containsI [of _ "''{''"]) (simp add: journald_record_def)
  moreover have "contains (quoted ''fields'') (journald_record m)"
    by (rule containsI [of _ "''{'' @ quoted ''cerbero_journald_version'' @ '':1,'' @ quoted ''cursor'' @ '':null,''"])
      (simp add: journald_record_def)
  moreover have "hd (journald_record m) = CHR ''{''" "journald_record m \<noteq> []" by (simp_all add: journald_record_def)
  ultimately show ?thesis by (simp add: probe_journald_def trim_ascii_record quoted_def)
qed

lemma probe_sshd_record:
  assumes "ascii line" "contains ''Failed password for '' line" "contains '' from '' line" "contains '' port '' line"
  shows "probe_failed_password (journald_record line) = 100"
proof -
  have "ascii (journald_record line)"
    using assms(1) by (simp add: journald_record_def quoted_def ascii_def byte_def)
  moreover have "contains pat (journald_record line)" if "contains pat line" for pat
    using contains_inside [OF that, of "''{'' @ record_head" "[CHR 0x22] @ ''}]}''"] by (simp add: journald_record_parts)
  ultimately show ?thesis using assms by (simp add: probe_failed_password_def from_utf8_ascii trim_record Let_def)
qed

lemma tier_order [simp]: "\<not> SourceSpecific < t" "t < SourceSpecific \<longleftrightarrow> t \<noteq> SourceSpecific" "SourceSpecific \<le> t \<longleftrightarrow> t = SourceSpecific"
  by (cases t; simp add: less_parser_tier_def less_eq_parser_tier_def tier_rank_def)+

text \<open>C37: the journal entry of a failed ssh login, in the canonical representation the normalizer requires,
  is never parsed by either version of the registry: the sshd parser and the journald parser both claim
  it at the highest tier and confidence, so the selection is refused as ambiguous.\<close>

theorem journald_sshd_entry_ambiguous:
  assumes "with_linux_sshd_version libs version = Inr parsers"
    and "line = sshd_line header invalid_user username source_ip port_text trailer" and "ascii line"
    and "pi_raw input = journald_record line" and "pi_configured_parser_id input = None"
  shows "select parsers input = Inl (parse_failure ''CER-PARSE-NO-MATCH''
    (''parser selection is ambiguous at the highest tier/confidence: '' @ ''linux/sshd, cerbero.parser.journald.canonical''))"
proof -
  obtain sshd where parsers: "parsers = [sshd, journald_canonical_parser libs, syslog_rfc5424_parser libs,
      syslog_rfc3164_parser, generic_json_parser libs]"
    and sshd: "sshd = linux_sshd_parser \<or> sshd = linux_sshd_parser_v2"
    using assms(1) by (auto simp: with_linux_sshd_version_def result_simps split: if_splits)
  have "probe_failed_password (pi_raw input) = 100"
    unfolding assms(4) by (rule probe_sshd_record [OF assms(3)]) (simp_all add: assms(2) contains_sshd_line)
  moreover have "probe_journald (pi_raw input) = 100" unfolding assms(4) by (rule probe_journald_record)
  ultimately show ?thesis
    unfolding select_def assms(5) option.case select_auto_def parsers using sshd
    by (auto simp: probe_parser_def linux_sshd_parser_def linux_sshd_parser_v2_def journald_canonical_parser_def
        syslog_rfc5424_parser_def syslog_rfc3164_parser_def generic_json_parser_def candidate_of_def scan_candidate_def
        ambiguous_def LINUX_SSHD_PARSER_ID_def JOURNALD_CANONICAL_PARSER_ID_def enumerate_eq_zip upt_rec less_prod_def)
qed

definition sample_libs :: format_libs where
  "sample_libs = \<lparr>fl_from_slice = (\<lambda>_. Inr JNull), fl_rfc3339 = (\<lambda>_. Inr ()), fl_base64 = (\<lambda>s. Inr s), fl_debug = (\<lambda>s. s)\<rparr>"

theorem journald_sshd_entry_ambiguous_witness:
  "\<exists>parsers. with_linux_sshd_version sample_libs ''1'' = Inr parsers
     \<and> select parsers (raw_input (journald_record (sshd_line [] True ''admin'' ''10.0.0.8'' ''50341'' ''ssh2'')))
       = Inl (parse_failure ''CER-PARSE-NO-MATCH''
         (''parser selection is ambiguous at the highest tier/confidence: '' @ ''linux/sshd, cerbero.parser.journald.canonical''))"
proof -
  obtain parsers where parsers: "with_linux_sshd_version sample_libs ''1'' = Inr parsers"
    by (simp add: with_linux_sshd_version_def sshd_constants)
  have "ascii (sshd_line [] True ''admin'' ''10.0.0.8'' ''50341'' ''ssh2'')"
    by (simp add: sshd_line_def sshd_identity_def ascii_def byte_def)
  from journald_sshd_entry_ambiguous [OF parsers refl this] parsers show ?thesis by (simp add: raw_input_def)
qed

section \<open>The grammar of RFC 5424\<close>

text \<open>A printer for the grammar: parameter values escape the quote, the backslash and the closing bracket;
  an element is its identifier and its parameters in brackets.\<close>

definition sd_escape :: "string \<Rightarrow> string" where
  "sd_escape v = concat (map (\<lambda>c. if c \<in> {CHR 0x22, CHR 0x5C, CHR '']''} then [CHR 0x5C, c] else [c]) v)"

definition sd_param :: "string \<times> string \<Rightarrow> string" where
  "sd_param p = '' '' @ fst p @ ''='' @ [CHR 0x22] @ sd_escape (snd p) @ [CHR 0x22]"

definition sd_element :: "string \<times> (string \<times> string) list \<Rightarrow> string" where
  "sd_element e = ''['' @ fst e @ concat (map sd_param (snd e)) @ '']''"

definition sd_name :: "string \<Rightarrow> bool" where
  "sd_name s \<longleftrightarrow> CHR 0x22 \<notin> set s \<and> CHR '']'' \<notin> set s"

definition sd_wf :: "(string \<times> (string \<times> string) list) list \<Rightarrow> bool" where
  "sd_wf elements \<longleftrightarrow> (\<forall>e\<in>set elements. sd_name (fst e) \<and> (\<forall>p\<in>set (snd e). sd_name (fst p)))"

definition show_structured_data :: "(string \<times> (string \<times> string) list) list \<Rightarrow> string" where
  "show_structured_data elements = (if elements = [] then ''-'' else concat (map sd_element elements))"

definition rfc5424_line ::
  "8 word \<Rightarrow> string \<Rightarrow> string \<Rightarrow> string \<Rightarrow> string \<Rightarrow> string \<Rightarrow> (string \<times> (string \<times> string) list) list \<Rightarrow> string \<Rightarrow> string" where
  "rfc5424_line pri timestamp hostname app_name procid msgid elements message =
     ''<'' @ show_nat (unat pri) @ ''>1 '' @ timestamp @ '' '' @ hostname @ '' '' @ app_name @ '' '' @ procid @ '' '' @ msgid
       @ '' '' @ show_structured_data elements @ '' '' @ message"

definition token :: "string \<Rightarrow> bool" where
  "token s \<longleftrightarrow> s \<noteq> [] \<and> CHR '' '' \<notin> set s"

lemma split_once_char: "c \<notin> set a \<Longrightarrow> split_once [c] (a @ c # b) = Some (a, b)"
proof -
  assume "c \<notin> set a"
  then have "\<not> occurs [c] (a @ butlast [c])" by (auto simp: occurs_def)
  from split_once_append [OF this] show ?thesis by simp
qed

lemma take_token_eq: "token t \<Longrightarrow> take_token (t @ '' '' @ rest) name = Inr (t, rest)"
  by (simp add: take_token_def token_def split_once_char)

lemma show_nat_short: "n \<le> 191 \<Longrightarrow> length (show_nat n) \<le> 3"
  by (subst show_nat.simps, subst show_nat.simps, subst show_nat.simps) auto

lemma digit_not: "c \<in> set (show_nat n) \<Longrightarrow> c \<noteq> CHR ''>''"
  using show_nat_digits [of n] by (auto simp: is_ascii_digit_def byte_def)

lemma parse_pri_prefix_show:
  assumes "pri \<le> 191"
  shows "parse_pri_prefix (''<'' @ show_nat (unat pri) @ ''>'' @ rest) = Inr (pri, rest)"
proof -
  define n where "n = unat pri"
  define w where "w = (word_of_nat n :: 16 word)"
  have n: "n \<le> 191" using assms by (simp add: n_def word_le_nat_alt)
  then have "unat w = n" by (simp add: w_def unat_of_nat)
  then have "\<not> w > 191" using n by (simp add: word_less_nat_alt)
  moreover have "(ucast w :: 8 word) = word_of_nat (unat w)" by simp
  then have "ucast w = pri" unfolding \<open>unat w = n\<close> n_def by simp
  moreover have "parse_u16 (show_nat n) = Some w" using n by (simp add: parse_u16_def parse_unsigned_show_nat w_def)
  moreover have "split_once ''>'' (show_nat n @ ''>'' @ rest) = Some (show_nat n, rest)"
    using split_once_char [of "CHR ''>''" "show_nat n" rest] digit_not by auto
  ultimately show ?thesis
    using show_nat_short [OF n] show_nat_digits [of n] show_nat_nonempty [of n]
    unfolding n_def [symmetric] by (simp add: parse_pri_prefix_def list_all_iff)
qed

lemma scan_name: "sd_name a \<Longrightarrow> scan_element False e (a @ s) = scan_element False e s"
  by (induction a) (auto simp: sd_name_def)

lemma scan_quoted: "scan_element True False (sd_escape v @ CHR 0x22 # s) = scan_element False False s"
  by (induction v) (auto simp: sd_escape_def)

lemma scan_params:
  "\<forall>p\<in>set ps. sd_name (fst p) \<Longrightarrow> scan_element False False (concat (map sd_param ps) @ CHR '']'' # s) = (False, False, True, s)"
proof (induction ps)
  case (Cons p ps)
  have "sd_name ('' '' @ fst p @ ''='')" using Cons.prems by (simp add: sd_name_def)
  from scan_name [OF this, of False "CHR 0x22 # sd_escape (snd p) @ CHR 0x22 # concat (map sd_param ps) @ CHR '']'' # s"]
  show ?case using Cons by (simp add: sd_param_def [of p] scan_quoted)
qed simp

lemma scan_elements_show:
  "sd_wf es \<Longrightarrow> rest = [] \<or> hd rest \<noteq> CHR ''['' \<Longrightarrow> scan_elements (concat (map sd_element es) @ rest) = Inr rest"
proof (induction es)
  case Nil
  then show ?case by (subst scan_elements.simps) auto
next
  case (Cons e es)
  have wf: "sd_name (fst e)" "\<forall>p\<in>set (snd e). sd_name (fst p)" "sd_wf es" using Cons.prems(1) by (simp_all add: sd_wf_def)
  have "scan_element False False (tl (concat (map sd_element (e # es)) @ rest))
      = (False, False, True, concat (map sd_element es) @ rest)"
    using wf by (simp add: sd_element_def [of e] scan_name scan_params)
  then show ?case using Cons.IH [OF wf(3) Cons.prems(2)] by (subst scan_elements.simps) (simp add: sd_element_def [of e])
qed

lemma split_structured_data_show:
  assumes "sd_wf elements"
  shows "split_structured_data (show_structured_data elements @ '' '' @ message) = Inr (show_structured_data elements, message)"
proof (cases elements)
  case Nil
  then show ?thesis by (simp add: show_structured_data_def split_structured_data_def)
next
  case (Cons e es)
  then have "show_structured_data elements = CHR ''['' # tl (concat (map sd_element elements))"
    by (simp add: show_structured_data_def sd_element_def)
  moreover have "scan_elements (show_structured_data elements @ '' '' @ message) = Inr ('' '' @ message)"
    using scan_elements_show [OF assms, of "'' '' @ message"] Cons by (simp add: show_structured_data_def)
  ultimately show ?thesis by (simp add: split_structured_data_def)
qed

text \<open>C26: a syslog line written by the grammar of RFC 5424 (a priority up to 191, header tokens without
  spaces, structured data with escaped parameter values, any message) is parsed into exactly its fields,
  whatever characters the parameter values and the message contain.\<close>

theorem rfc5424_roundtrip:
  assumes "pri \<le> 191" and "token timestamp" "token hostname" "token app_name" "token procid" "token msgid"
    and "sd_wf elements" and "timestamp = ''-'' \<or> fl_rfc3339 libs timestamp = Inr ()"
  shows "\<exists>e. parse_rfc5424 libs (rfc5424_line pri timestamp hostname app_name procid msgid elements message) = Inr e
    \<and> pe_fields e = syslog_fields
        \<lparr>sf_pri = pri, sf_version = Some 1, sf_timestamp = token_value timestamp, sf_hostname = token_value hostname,
         sf_app_name = token_value app_name, sf_procid = token_value procid, sf_msgid = token_value msgid,
         sf_structured_data = token_value (show_structured_data elements), sf_message = message\<rparr>"
proof -
  have "parse_pri_prefix (rfc5424_line pri timestamp hostname app_name procid msgid elements message)
      = Inr (pri, ''1'' @ '' '' @ (timestamp @ '' '' @ (hostname @ '' '' @ (app_name @ '' '' @ (procid @ '' '' @ (msgid
          @ '' '' @ (show_structured_data elements @ '' '' @ message)))))))"
    using parse_pri_prefix_show [OF assms(1)] by (simp add: rfc5424_line_def)
  moreover have "take_token (''1'' @ '' '' @ rest) name = Inr (''1'', rest)" for rest name
    by (rule take_token_eq) (simp add: token_def)
  moreover have "parse_u16 ''1'' = Some 1"
    by (simp add: parse_u16_def parse_unsigned_def byte_class_defs)
  moreover have "is_ok (rfc5424_time libs timestamp)" using assms(8) by (auto simp: rfc5424_time_def)
  then obtain t where "rfc5424_time libs timestamp = Inr t" by (auto simp: is_ok_def split: sum.splits)
  ultimately show ?thesis
    unfolding parse_rfc5424_def
    by (simp add: take_token_eq [simplified] assms(2-6) split_structured_data_show [OF assms(7), simplified]
        token_value_def [symmetric] split: prod.splits)
qed

theorem rfc5424_roundtrip_witness:
  "\<exists>e. parse_rfc5424 sample_libs (rfc5424_line 165 ''2026-10-11T22:14:15Z'' ''host'' ''app'' ''-'' ''ID47''
        [(''id@1'', [(''k'', ''a]b'')])] ''hello [x]'') = Inr e
    \<and> pe_fields e = syslog_fields
        \<lparr>sf_pri = 165, sf_version = Some 1, sf_timestamp = PString ''2026-10-11T22:14:15Z'', sf_hostname = PString ''host'',
         sf_app_name = PString ''app'', sf_procid = PNull, sf_msgid = PString ''ID47'',
         sf_structured_data = token_value (show_structured_data [(''id@1'', [(''k'', ''a]b'')])]), sf_message = ''hello [x]''\<rparr>"
  using rfc5424_roundtrip [of 165 "''2026-10-11T22:14:15Z''" "''host''" "''app''" "''-''" "''ID47''"
      "[(''id@1'', [(''k'', ''a]b'')])]" sample_libs "''hello [x]''"]
  by (simp add: token_def sd_wf_def sd_name_def sample_libs_def token_value_def)

end
