(* ===== verification/Core_Correctness.thy ===== *)
theory Core_Correctness
  imports Normalizer_Core Mvp_Correctness Format_Correctness
begin

text \<open>
  What the core of the normalizer promises with its default mappings: the identity computed before
  normalization is the identity of the result, the result passes the contracts and is bound to the raw
  event, no event time is invented, and a failed ssh login that was normalized is what the detection
  rule for failed logins matches.
\<close>

section \<open>What a plan is made of\<close>

lemma resolve_sshd:
  "pe_parser_id parsed = LINUX_SSHD_PARSER_ID \<Longrightarrow> resolve lib policies persisted parsed = Some (Inr (from_persisted persisted))"
  by (simp add: resolve_def from_persisted_def LINUX_SSHD_PARSER_ID_def SYSLOG_RFC3164_PARSER_ID_def split: option.split)

lemma parse_selected:
  assumes "parse parsers input = Inr parsed"
  obtains p trace where "select parsers input = Inr (p, trace)" "pe_parser_id parsed = pa_id p" "pe_parser_version parsed = pa_version p"
  using assms by (auto simp: parse_def result_simps split: prod.splits)

definition default_core :: "('o, 'i) normalizer_core \<Rightarrow> bool" where
  "default_core core \<longleftrightarrow> nc_mappings core = default_mappings \<and> nc_execution_mode core \<noteq> ModeUnspecified"

lemma new_core_default: "new_core libs pipeline mode version clock next_id ids = Inr core \<Longrightarrow> default_core core"
  by (auto simp: new_core_def default_core_def result_simps)

lemma normalize_parts:
  assumes "default_core core" and "normalize env core incoming persisted raw = Some (ids, Inr plan)"
  obtains p trace parsed normalized_at normalized_at_millis mapped normalized_event_id transformation_id where
    "validate_raw_bytes env persisted raw = Inr ()"
    "select (nc_parsers core) (core_input persisted raw) = Inr (p, trace)"
    "parse (nc_parsers core) (core_input persisted raw) = Inr parsed"
    "pe_parser_id parsed = LINUX_SSHD_PARSER_ID" "pa_id p = LINUX_SSHD_PARSER_ID" "pe_parser_version parsed = pa_version p"
    "map_ssh_authentication parsed persisted (from_persisted persisted) normalized_at_millis = Inr mapped"
    "plan_of env core persisted parsed (from_persisted persisted) normalized_at mapped normalized_event_id transformation_id = Inr plan"
proof -
  have map: "nc_mappings core = default_mappings" using assms(1) by (simp add: default_core_def)
  obtain parsed where raw: "validate_raw_bytes env persisted raw = Inr ()"
    and parsed: "parse (nc_parsers core) (core_input persisted raw) = Inr parsed"
    and build: "build_normalization_plan env core persisted parsed = Some (ids, Inr plan)"
    using assms(2) by (auto simp: normalize_def result_simps split: sum.splits)
  from parsed obtain p trace where p: "select (nc_parsers core) (core_input persisted raw) = Inr (p, trace)"
    "pe_parser_id parsed = pa_id p" "pe_parser_version parsed = pa_version p" by (rule parse_selected)
  have id: "pe_parser_id parsed = LINUX_SSHD_PARSER_ID"
    and "for_parser (nc_mappings core) (pe_parser_id parsed) = Inr ssh_authentication_mapping"
    using build by (auto simp: build_normalization_plan_def map for_parser_default map_err_def split: sum.splits)
  then obtain stamp mapped nid tid where
    "mapped_event core ssh_authentication_mapping persisted parsed (from_persisted persisted) = Inr (stamp, mapped)"
    and plan: "plan_of env core persisted parsed (from_persisted persisted) stamp mapped nid tid = Inr plan"
    using build
    by (auto simp: build_normalization_plan_def resolve_sshd split: sum.splits prod.splits)
  then obtain m where "map_ssh_authentication parsed persisted (from_persisted persisted) m = Inr mapped"
    by (auto simp: mapped_event_def result_simps ssh_authentication_mapping_def)
  with raw p parsed id plan that show thesis by simp
qed

lemma map_ssh_parts:
  assumes "map_ssh_authentication parsed persisted (from_persisted persisted) now = Inr mapped"
  obtains username source_ip source_port invalid_user message metadata t where
    "string_field parsed ''username'' = Some username" "string_field parsed ''source_ip'' = Some source_ip"
    "mo_mapping_id mapped = LINUX_SSH_AUTH_MAPPING_ID" "mo_mapping_version mapped = LINUX_SSH_AUTH_MAPPING_VERSION"
    "mo_status mapped = (if rp_event_time persisted = None then NormPartial else NormSuccess)"
    "mo_ocsf_event mapped = ssh_ocsf_event username source_ip source_port invalid_user message metadata t"
  using assms
  by (auto simp: map_ssh_authentication_def result_simps required_string_def ssh_event_time_def from_persisted_def unresolved_def
      split: option.splits prod.splits)

section \<open>Identity, contracts and event time\<close>

text \<open>When normalization succeeds, the identity computed before it also succeeds and is the identity of
  the result: its logical key, parser, mapping and configuration are those of the plan. The check that
  compares the two in the runtime therefore never fails for a plan.\<close>

theorem normalize_has_preflight_identity:
  assumes "default_core core" "normalize env core incoming persisted raw = Some (ids, Inr plan)"
  shows "\<exists>identity. derive_identity env core persisted raw = Inr identity \<and> di_logical_key identity = np_logical_key plan
    \<and> di_parser_id identity = ne_parser_id (np_normalized_event plan)
    \<and> di_parser_version identity = ne_parser_version (np_normalized_event plan)
    \<and> di_mapping_id identity = np_mapping_id plan \<and> di_mapping_version identity = np_mapping_version plan
    \<and> di_configuration_hash identity = tf_configuration_hash (np_transformation plan)"
proof -
  obtain p trace parsed stamp m mapped nid tid where parts: "validate_raw_bytes env persisted raw = Inr ()"
    "select (nc_parsers core) (core_input persisted raw) = Inr (p, trace)" "pe_parser_id parsed = LINUX_SSHD_PARSER_ID"
    "pa_id p = LINUX_SSHD_PARSER_ID" "pe_parser_version parsed = pa_version p"
    "map_ssh_authentication parsed persisted (from_persisted persisted) m = Inr mapped"
    "plan_of env core persisted parsed (from_persisted persisted) stamp mapped nid tid = Inr plan"
    using assms by (rule normalize_parts)
  have "mo_mapping_id mapped = LINUX_SSH_AUTH_MAPPING_ID" "mo_mapping_version mapped = LINUX_SSH_AUTH_MAPPING_VERSION"
    by (rule map_ssh_parts [OF parts(6)], simp)+
  with parts assms(1) show ?thesis
    by (auto simp: derive_identity_def default_core_def for_parser_default [THEN iffD2] plan_of_def normalized_event_of_def
        transformation_of_def ssh_authentication_mapping_def result_simps Let_def)
qed

text \<open>C20: normalization invents no event time: the event time of a plan is the one the raw event carries, and
  without one the event is marked PARTIAL instead of SUCCESS, whatever source-time policies are
  configured.\<close>

theorem normalize_keeps_event_time:
  assumes "default_core core" "normalize env core incoming persisted raw = Some (ids, Inr plan)"
  shows "np_resolved_event_time plan = rp_event_time persisted
    \<and> ne_normalization_status (np_normalized_event plan) = (if rp_event_time persisted = None then 2 else 1)"
proof -
  obtain p trace parsed stamp m mapped nid tid where
    mapped: "map_ssh_authentication parsed persisted (from_persisted persisted) m = Inr mapped"
    and plan: "plan_of env core persisted parsed (from_persisted persisted) stamp mapped nid tid = Inr plan"
    using assms by (rule normalize_parts)
  have "mo_status mapped = (if rp_event_time persisted = None then NormPartial else NormSuccess)"
    by (rule map_ssh_parts [OF mapped])
  with plan show ?thesis
    by (auto simp: plan_of_def normalized_event_of_def result_simps Let_def from_persisted_def unresolved_def split: option.splits)
qed

text \<open>C19: a plan is bound to its raw event and passes the contracts: the bytes have the size and the digest
  the handoff declares, the normalized event and the transformation record are valid and name the raw
  event and each other, and the hash is the digest of the canonical JSON.\<close>

theorem normalize_plan_contract:
  assumes "default_core core" "normalize env core incoming persisted raw = Some (ids, Inr plan)"
  shows "sha256_lower_hex (ce_digest env) raw = rp_raw_hash persisted \<and> length raw = unat (rp_raw_size persisted)
    \<and> validate_normalized_event (np_normalized_event plan) = Inr () \<and> validate_transformation (np_transformation plan) = Inr ()
    \<and> ne_raw_event_id (np_normalized_event plan) = rp_event_id persisted
    \<and> ne_tenant_id (np_normalized_event plan) = rp_tenant_id persisted
    \<and> tf_input_object_id (np_transformation plan) = rp_event_id persisted
    \<and> tf_output_object_id (np_transformation plan) = ne_normalized_event_id (np_normalized_event plan)
    \<and> ne_normalized_hash (np_normalized_event plan) = sha256_lower_hex (ce_digest env) (np_canonical_ocsf_json plan)"
proof -
  obtain p trace parsed stamp m mapped nid tid where raw: "validate_raw_bytes env persisted raw = Inr ()"
    and plan: "plan_of env core persisted parsed (from_persisted persisted) stamp mapped nid tid = Inr plan"
    using assms by (rule normalize_parts)
  have "length raw = unat (rp_raw_size persisted)" "sha256_lower_hex (ce_digest env) raw = rp_raw_hash persisted"
    using raw by (auto simp: validate_raw_bytes_def result_simps u64_try_from_eq_Some)
  with plan show ?thesis
    by (auto simp: plan_of_def normalized_event_of_def transformation_of_def result_simps Let_def canonical_json_hash_def)
qed

section \<open>From the log line to the detection\<close>

lemma btree_get_fold:
  "btree_invar m \<Longrightarrow> btree_get (fold (\<lambda>(k, v). btree_insert k v) ps m) k =
     (case map_of (rev ps) k of None \<Rightarrow> btree_get m k | Some v \<Rightarrow> Some v)"
proof (induction ps arbitrary: m)
  case (Cons p ps)
  then show ?case
    using Cons.IH [OF btree_invar_insert [OF Cons.prems]]
    by (cases p) (auto simp: btree_get_insert [OF Cons.prems] map_add_def split: option.splits)
qed simp

lemma btree_invar_fold: "btree_invar m \<Longrightarrow> btree_invar (fold (\<lambda>(k, v). btree_insert k v) ps m)"
  by (induction ps arbitrary: m) (auto simp: btree_invar_insert)

lemma json_object_eq:
  obtains ms where "json_object members = JObject ms" "distinct (map fst ms)" "\<And>k. map_of ms k = map_of (rev members) k"
proof
  let ?ms = "fold (\<lambda>(k, v). btree_insert k v) members []"
  show "json_object members = JObject ?ms" by (simp add: json_object_def)
  have "btree_invar ?ms" by (rule btree_invar_fold) (simp add: btree_invar_def)
  then show "distinct (map fst ?ms)" by (simp add: btree_invar_def strict_sorted_iff)
  show "map_of ?ms k = map_of (rev members) k" for k
    using btree_get_fold [of "[]" members k] by (simp add: btree_invar_def btree_get_def split: option.splits)
qed

text \<open>Converting an object converts each member.\<close>

lemma convert_members:
  assumes "try_map (\<lambda>m. and_then (f (snd m)) (\<lambda>v. Inr (fst m, v))) ms = Inr ps" "distinct (map fst ms)" "map_of ms k = Some j"
  shows "\<exists>v. f j = Inr v \<and> map_of (fold (\<lambda>(k, v). btree_insert k v) ps []) k = Some v"
proof -
  have conv: "map fst ps = map fst ms \<and> (map_of ms k = Some j \<longrightarrow> (\<exists>v. f j = Inr v \<and> map_of ps k = Some v))"
    using assms(1)
  proof (induction ms arbitrary: ps)
    case (Cons m ms)
    then obtain v qs where "f (snd m) = Inr v" "ps = (fst m, v) # qs"
      "try_map (\<lambda>m. and_then (f (snd m)) (\<lambda>v. Inr (fst m, v))) ms = Inr qs" by (auto simp: result_simps)
    with Cons.IH [of qs] show ?case by (cases m) auto
  qed simp
  then obtain v where v: "f j = Inr v" "map_of ps k = Some v" using assms(3) by blast
  have "distinct (map fst ps)" using conv assms(2) by simp
  then have "map_of (rev ps) = map_of ps" by (intro map_of_inject_set [THEN iffD2]) (simp_all add: rev_map [symmetric])
  then have "btree_get (fold (\<lambda>(k, v). btree_insert k v) ps []) k = Some v"
    using btree_get_fold [of "[]" ps k] v(2) by (simp add: btree_invar_def)
  with v show ?thesis by (auto simp: btree_get_def)
qed

lemma json_to_struct_member:
  assumes "json_to_struct e e' as_f64 (json_object members) = Inr ps" "map_of (rev members) k = Some j"
  shows "\<exists>v. json_to_struct_value e' as_f64 j = Inr v \<and> map_of ps k = Some v"
proof -
  obtain ms where ms: "json_object members = JObject ms" "distinct (map fst ms)" "\<And>k. map_of ms k = map_of (rev members) k"
    using json_object_eq [of members] by blast
  obtain qs where qs: "try_map (\<lambda>m. and_then (json_to_struct_value e' as_f64 (snd m)) (\<lambda>v. Inr (fst m, v))) ms = Inr qs"
    and ps: "ps = fold (\<lambda>(k, v). btree_insert k v) qs []"
    using assms(1) by (auto simp: json_to_struct_def ms(1) result_simps)
  have "map_of ms k = Some j" using assms(2) ms(3) by simp
  from convert_members [OF qs ms(2) this] show ?thesis unfolding ps .
qed

lemma json_object_member:
  assumes "json_to_struct_value e as_f64 (json_object members) = Inr v" "map_of (rev members) k = Some j"
  shows "\<exists>ps w. v = Value (Some (StructValue ps)) \<and> json_to_struct_value e as_f64 j = Inr w \<and> map_of ps k = Some w"
proof -
  obtain ms where ms: "json_object members = JObject ms" "distinct (map fst ms)" "\<And>k. map_of ms k = map_of (rev members) k"
    using json_object_eq [of members] by blast
  obtain qs where qs: "try_map (\<lambda>m. and_then (json_to_struct_value e as_f64 (snd m)) (\<lambda>v. Inr (fst m, v))) ms = Inr qs"
    and v: "v = Value (Some (StructValue (fold (\<lambda>(k, v). btree_insert k v) qs [])))"
    using assms(1) by (auto simp: ms(1) result_simps)
  have "map_of ms k = Some j" using assms(2) ms(3) by simp
  from convert_members [OF qs ms(2) this] show ?thesis by (auto simp: v)
qed

lemma ssh_ocsf_fields:
  assumes "json_to_struct e e' as_f64 (ssh_ocsf_event username source_ip port invalid_user message metadata t) = Inr ps"
    and "ne_ocsf_event event = Some ps"
  shows "field_state (\<lambda>f. f) event ''activity_name'' = Present (Value (Some (StringValue ''Logon'')))"
    and "field_state (\<lambda>f. f) event ''status'' = Present (Value (Some (StringValue ''Failure'')))"
    and "field_state (\<lambda>f. f) event ''user.name'' = Present (Value (Some (StringValue username)))"
    and "field_state (\<lambda>f. f) event ''src_endpoint.ip'' = Present (Value (Some (StringValue source_ip)))"
proof -
  note member = json_to_struct_member [OF assms(1) [unfolded ssh_ocsf_event_def]]
  have "map_of ps ''activity_name'' = Some (Value (Some (StringValue ''Logon'')))"
    "map_of ps ''status'' = Some (Value (Some (StringValue ''Failure'')))"
    using member [of "''activity_name''" "JString ''Logon''"] member [of "''status''" "JString ''Failure''"] by simp_all
  then show "field_state (\<lambda>f. f) event ''activity_name'' = Present (Value (Some (StringValue ''Logon'')))"
    "field_state (\<lambda>f. f) event ''status'' = Present (Value (Some (StringValue ''Failure'')))"
    by (simp_all add: field_state_def assms(2) resolve_ocsf_field_def classify_value_def)
  obtain u where u: "json_to_struct_value e' as_f64 (json_object [(''name'', JString username)]) = Inr u" "map_of ps ''user'' = Some u"
    using member [of "''user''" "json_object [(''name'', JString username)]"] by auto
  with json_object_member [OF u(1), of "''name''"]
  show "field_state (\<lambda>f. f) event ''user.name'' = Present (Value (Some (StringValue username)))"
    by (auto simp: field_state_def assms(2) resolve_ocsf_field_def classify_value_def)
  obtain s where s: "json_to_struct_value e' as_f64 (json_object [(''ip'', JString source_ip), (''port'', json_number (uint port))]) = Inr s"
    "map_of ps ''src_endpoint'' = Some s"
    using member [of "''src_endpoint''" "json_object [(''ip'', JString source_ip), (''port'', json_number (uint port))]"] by auto
  with json_object_member [OF s(1), of "''ip''"]
  show "field_state (\<lambda>f. f) event ''src_endpoint.ip'' = Present (Value (Some (StringValue source_ip)))"
    by (auto simp: field_state_def assms(2) resolve_ocsf_field_def classify_value_def)
qed

text \<open>From the log line to the detection. An event that the normalizer produces carries the user and the
  source address the parser read, and the compiled detection rule for failed logins matches it.\<close>

theorem normalized_ssh_failure_detected:
  assumes "default_core core" "normalize env core incoming persisted raw = Some (ids, Inr plan)"
  shows "\<exists>parsed username source_ip c. parse (nc_parsers core) (core_input persisted raw) = Inr parsed
    \<and> string_field parsed ''username'' = Some username \<and> string_field parsed ''source_ip'' = Some source_ip
    \<and> field_state (\<lambda>f. f) (np_normalized_event plan) ''user.name'' = Present (Value (Some (StringValue username)))
    \<and> field_state (\<lambda>f. f) (np_normalized_event plan) ''src_endpoint.ip'' = Present (Value (Some (StringValue source_ip)))
    \<and> compile_event_rule digest FAILED_LOGIN_RULE_ID ''mvp-failed-login-v1'' failed_login_expression = Inr c
    \<and> evaluate_event_execution_plan predicates (compiled_plan c) (field_state (\<lambda>f. f) (np_normalized_event plan))
        mvp_leaf_policy = Inr Match"
proof -
  let ?event = "np_normalized_event plan"
  obtain p trace parsed stamp m mapped nid tid where parsed: "parse (nc_parsers core) (core_input persisted raw) = Inr parsed"
    and mapped: "map_ssh_authentication parsed persisted (from_persisted persisted) m = Inr mapped"
    and plan: "plan_of env core persisted parsed (from_persisted persisted) stamp mapped nid tid = Inr plan"
    using assms by (rule normalize_parts)
  obtain username source_ip port invalid_user message metadata t where
    names: "string_field parsed ''username'' = Some username" "string_field parsed ''source_ip'' = Some source_ip"
    and ocsf: "mo_ocsf_event mapped = ssh_ocsf_event username source_ip port invalid_user message metadata t"
    by (rule map_ssh_parts [OF mapped])
  obtain ps where "json_to_struct (core_invalid ''OCSF event root must be a JSON object'')
      (core_invalid ''OCSF JSON number cannot be represented as protobuf Struct number'') (ce_as_f64 env)
      (ssh_ocsf_event username source_ip port invalid_user message metadata t) = Inr ps" "ne_ocsf_event ?event = Some ps"
    using plan by (auto simp: plan_of_def normalized_event_of_def result_simps Let_def ocsf)
  note ssh = ssh_ocsf_fields [OF this]
  obtain c where c: "compile_event_rule digest FAILED_LOGIN_RULE_ID ''mvp-failed-login-v1'' failed_login_expression = Inr c"
    and p: "predicates (compiled_plan c) = lower_event_predicate failed_login_expression"
    using compile_event_rule_exists [OF mvp_expression_shapes(1,4) mvp_rule_ids(1)] by metis
  have "evaluate_event_execution_plan predicates (compiled_plan c) (field_state (\<lambda>f. f) ?event) mvp_leaf_policy = Inr Match"
    by (simp add: evaluate_event_execution_plan_def p failed_login_expression_def mvp_and_def mvp_eq_def
        mvp_leaf_policy_def mvp_evaluate_comparison_def ssh)
  with parsed names ssh c show ?thesis by blast
qed

section \<open>Failed logins are normalized\<close>

lemma try_map_exists: "(\<And>x. x \<in> set xs \<Longrightarrow> \<exists>y. f x = Inr y) \<Longrightarrow> \<exists>ys. try_map f xs = Inr ys"
proof (induction xs)
  case (Cons x xs)
  then obtain y ys where "f x = Inr y" "try_map f xs = Inr ys" by (meson list.set_intros)
  then show ?case by simp
qed simp

text \<open>When every number has a double, every JSON tree has a protobuf value.\<close>

lemma json_to_struct_value_total:
  assumes "\<And>n. as_f64 n \<noteq> None"
  shows "\<exists>v. json_to_struct_value e as_f64 node = Inr v"
proof (induction node)
  case (JNumber n)
  obtain x where "as_f64 n = Some x" using assms [of n] by blast
  then show ?case by simp
next
  case (JArray vs)
  have "\<exists>ps. try_map (json_to_struct_value e as_f64) vs = Inr ps" by (rule try_map_exists) (rule JArray.IH)
  then show ?case by auto
next
  case (JObject members)
  have "\<exists>y. and_then (json_to_struct_value e as_f64 (snd m)) (\<lambda>v. Inr (fst m, v)) = Inr y" if "m \<in> set members" for m
    using JObject.IH [OF that, of "snd m"] by (cases m) fastforce
  then have "\<exists>ps. try_map (\<lambda>m. and_then (json_to_struct_value e as_f64 (snd m)) (\<lambda>v. Inr (fst m, v))) members = Inr ps"
    by (rule try_map_exists)
  then show ?case by auto
qed auto

lemma json_to_struct_total:
  assumes "\<And>n. as_f64 n \<noteq> None"
  shows "\<exists>ps. json_to_struct e e' as_f64 (json_object members) = Inr ps"
proof -
  obtain ms where ms: "json_object members = JObject ms" by (simp add: json_object_def)
  have "\<exists>y. and_then (json_to_struct_value e' as_f64 (snd m)) (\<lambda>v. Inr (fst m, v)) = Inr y" if "m \<in> set ms" for m
    using json_to_struct_value_total [of as_f64 e' "snd m"] assms by fastforce
  then have "\<exists>ps. try_map (\<lambda>m. and_then (json_to_struct_value e' as_f64 (snd m)) (\<lambda>v. Inr (fst m, v))) ms = Inr ps"
    by (rule try_map_exists)
  then show ?thesis by (auto simp: json_to_struct_def ms)
qed

text \<open>A valid timestamp is far from the bounds of its milliseconds.\<close>

lemma valid_timestamp_millis:
  assumes "valid_timestamp t"
  shows "\<exists>m. core_unix_millis t = Inr m" "\<exists>m. mapping_unix_millis t = Inr m"
proof -
  have "0 \<le> nanos t div 1000000" "nanos t div 1000000 \<le> 999"
    using assms by (auto simp: valid_timestamp_def)
  then have "checked_mul_i64 (seconds t) 1000 = Some (seconds t * 1000)"
    "checked_add_i64 (seconds t * 1000) (truncating_div (nanos t) 1000000) = Some (seconds t * 1000 + nanos t div 1000000)"
    using assms by (auto simp: valid_timestamp_def truncating_div_def checked_mul_i64_def checked_add_i64_def fits_i64_def)
  then show "\<exists>m. core_unix_millis t = Inr m" "\<exists>m. mapping_unix_millis t = Inr m"
    by (simp_all add: core_unix_millis_def mapping_unix_millis_def)
qed

lemma select_sshd:
  assumes "with_linux_sshd_version libs version = Inr parsers" "pi_configured_parser_id input = None"
    "probe_failed_password (pi_raw input) = 100" "probe_journald (pi_raw input) = 0"
  obtains sshd policy trace where "select parsers input = Inr (sshd, trace)"
    "pa_id sshd = LINUX_SSHD_PARSER_ID" "pa_parse sshd = (\<lambda>input. Some (parse_linux_sshd input (pa_version sshd) policy))"
proof -
  obtain sshd where parsers: "parsers = [sshd, journald_canonical_parser libs, syslog_rfc5424_parser libs,
      syslog_rfc3164_parser, generic_json_parser libs]"
    and sshd: "sshd = linux_sshd_parser \<or> sshd = linux_sshd_parser_v2"
    using assms(1) by (auto simp: with_linux_sshd_version_def result_simps split: if_splits)
  have "\<exists>trace. select parsers input = Inr (sshd, trace)"
    unfolding select_def assms(2) option.case select_auto_def parsers using sshd assms(3,4)
    by (auto simp: probe_parser_def linux_sshd_parser_def linux_sshd_parser_v2_def journald_canonical_parser_def
        syslog_rfc5424_parser_def syslog_rfc3164_parser_def generic_json_parser_def candidate_of_def scan_candidate_def
        enumerate_eq_zip upt_rec less_prod_def)
  with sshd that show thesis by (auto simp: linux_sshd_parser_def linux_sshd_parser_v2_def)
qed

text \<open>A handoff the core accepts: the envelope announces this persisted event, the event carries valid
  identities and times, and its size and digest are those of the bytes.\<close>

definition sound_handoff :: "('o, 't) core_env \<Rightarrow> envelope \<Rightarrow> raw_event_persisted \<Rightarrow> string \<Rightarrow> bool" where
  "sound_handoff env incoming persisted raw \<longleftrightarrow> validate_handoff incoming persisted = Inr ()
     \<and> uuid_v7 (rp_event_id persisted) \<and> (\<forall>t. rp_event_time persisted = Some t \<longrightarrow> valid_timestamp t)
     \<and> (\<exists>t. rp_ingest_time persisted = Some t \<and> valid_timestamp t)
     \<and> unat (rp_raw_size persisted) = length raw \<and> rp_raw_hash persisted = sha256_lower_hex (ce_digest env) raw"

lemma map_ssh_line:
  fixes port :: "16 word"
  assumes "sound_handoff env incoming persisted raw"
  shows "\<exists>mapped message metadata t. map_ssh_authentication
      ((sshd_event version username source_ip port invalid_user text)\<lparr>pe_selection := trace\<rparr>) persisted (from_persisted persisted) now
      = Inr mapped \<and> mo_ocsf_event mapped = ssh_ocsf_event username source_ip port invalid_user message metadata t"
proof -
  let ?e = "(sshd_event version username source_ip port invalid_user text)\<lparr>pe_selection := trace\<rparr>"
  have fields: "string_field ?e f = string_field (sshd_event version username source_ip port invalid_user text) f"
    "bool_field ?e f = bool_field (sshd_event version username source_ip port invalid_user text) f"
    "u64_field ?e f = u64_field (sshd_event version username source_ip port invalid_user text) f" for f
    by (simp_all add: string_field_def bool_field_def u64_field_def parsed_field_def)
  obtain ingest where "rp_ingest_time persisted = Some ingest" "valid_timestamp ingest"
    using assms by (auto simp: sound_handoff_def)
  with valid_timestamp_millis(2) obtain millis where "rp_ingest_time persisted = Some ingest" "mapping_unix_millis ingest = Inr millis" by blast
  moreover from this obtain t status source where "ssh_event_time persisted (from_persisted persisted) = Inr (t, status, source)"
    using assms valid_timestamp_millis(2)
    by (fastforce simp: ssh_event_time_def from_persisted_def unresolved_def sound_handoff_def split: option.splits)
  moreover have port: "unat port < 65536" using unat_bound [of port] by simp
  moreover have "unat (ucast port :: 64 word) = unat port"
    using port by (simp add: unsigned_ucast_eq take_bit_nat_eq_self)
  ultimately show ?thesis
    by (simp add: map_ssh_authentication_def fields sshd_event_fields required_string_def required_bool_def required_u16_def)
      (simp add: sshd_event_def, blast)
qed

text \<open>A line that does not begin with a brace is nothing for the journald parser.\<close>

lemma plain_line_not_journald:
  assumes "plain_line raw" "hd raw \<noteq> CHR ''{''"
  shows "probe_journald raw = 0"
proof -
  have "\<not> is_ascii_whitespace (hd raw)" "\<not> is_ascii_whitespace (last raw)" "raw \<noteq> []"
    using assms(1) by (auto simp: plain_line_def solid_def is_ascii_whitespace_def)
  then have "dropWhile is_ascii_whitespace raw = raw" "dropWhile is_ascii_whitespace (rev raw) = rev raw"
    by (simp_all add: dropWhile_eq_self_iff hd_rev)
  then show ?thesis using assms(2) by (simp add: probe_journald_def trim_ascii_whitespace_def)
qed

text \<open>The event that a failed login becomes.\<close>

definition login_normalized :: "string \<Rightarrow> timestamp \<Rightarrow> raw_event_persisted \<Rightarrow> string \<Rightarrow> string \<Rightarrow> normalized_event \<Rightarrow> bool" where
  "login_normalized nid now persisted username source_ip event \<longleftrightarrow>
     ne_normalized_event_id event = nid \<and> ne_raw_event_id event = rp_event_id persisted \<and> ne_tenant_id event = rp_tenant_id persisted
     \<and> ne_normalized_at event = Some now \<and> ne_parser_id event = LINUX_SSHD_PARSER_ID
     \<and> field_state (\<lambda>f. f) event ''activity_name'' = Present (Value (Some (StringValue ''Logon'')))
     \<and> field_state (\<lambda>f. f) event ''status'' = Present (Value (Some (StringValue ''Failure'')))
     \<and> field_state (\<lambda>f. f) event ''user.name'' = Present (Value (Some (StringValue username)))
     \<and> field_state (\<lambda>f. f) event ''src_endpoint.ip'' = Present (Value (Some (StringValue source_ip)))"

lemma normalize_sshd_line:
  fixes port :: "16 word"
  assumes "new_core libs pipeline mode version (Inr now) next_id ids = Inr core" "valid_timestamp now"
    and "next_id ids = (ids', Inr nid)" "next_id ids' = (ids'', Inr tid)" "uuid_v7 nid" "uuid_v7 tid"
    and "\<And>n. ce_as_f64 env n \<noteq> None" and "sound_handoff env incoming persisted raw"
    and "raw = sshd_line header invalid_user username source_ip (show_nat (unat port)) trailer"
    and "\<not> contains ''Failed password for '' (header @ ''Failed password for'')"
    and "plain_login invalid_user username source_ip" "plain_line raw" "hd raw \<noteq> CHR ''{''"
  shows "\<exists>plan. normalize env core incoming persisted raw = Some (ids'', Inr plan)
    \<and> login_normalized nid now persisted username source_ip (np_normalized_event plan)"
proof -
  let ?in = "core_input persisted raw"
  have raw: "pi_raw ?in = raw" "pi_configured_parser_id ?in = None" by (simp_all add: core_input_def)
  have core: "with_linux_sshd_version libs version = Inr (nc_parsers core)" "nc_mappings core = default_mappings"
    "nc_clock core = Inr now" "nc_next_id core = next_id" "nc_ids core = ids" "nc_execution_mode core \<noteq> ModeUnspecified"
    using assms(1) by (auto simp: new_core_def result_simps map_err_def split: if_splits sum.splits)
  have "trim raw = raw" "ascii raw" using assms(12) by (simp_all add: plain_line_def trim_solid)
  then have "probe_failed_password (pi_raw ?in) = 100"
    by (simp add: raw probe_failed_password_def from_utf8_ascii Let_def) (simp add: assms(9) contains_sshd_line)
  then obtain sshd policy trace where sshd: "select (nc_parsers core) ?in = Inr (sshd, trace)"
    "pa_id sshd = LINUX_SSHD_PARSER_ID" "pa_parse sshd = (\<lambda>input. Some (parse_linux_sshd input (pa_version sshd) policy))"
    using select_sshd [OF core(1) raw(2)] plain_line_not_journald [OF assms(12,13)] raw(1) by metis
  let ?event = "sshd_event (pa_version sshd) username source_ip port invalid_user (sshd_message policy invalid_user username source_ip)"
  have "parse_linux_sshd ?in (pa_version sshd) policy = Inr ?event"
    using parse_linux_sshd_line [of ?in] assms(9-12) raw(1) by simp
  then have parsed: "parse (nc_parsers core) ?in = Inr (?event\<lparr>pe_selection := Some trace\<rparr>)"
    by (simp add: parse_def sshd) (simp add: sshd_event_def)
  have pid: "pe_parser_id ?event = LINUX_SSHD_PARSER_ID" by (simp add: sshd_event_def)
  obtain millis where millis: "core_unix_millis now = Inr millis" using valid_timestamp_millis(1) [OF assms(2)] by blast
  obtain mapped message metadata t where mapped: "map_ssh_authentication (?event\<lparr>pe_selection := Some trace\<rparr>) persisted
      (from_persisted persisted) millis = Inr mapped"
    "mo_ocsf_event mapped = ssh_ocsf_event username source_ip port invalid_user message metadata t"
    using map_ssh_line [OF assms(8)] by blast
  obtain ps where ps: "json_to_struct (core_invalid ''OCSF event root must be a JSON object'')
      (core_invalid ''OCSF JSON number cannot be represented as protobuf Struct number'') (ce_as_f64 env) (mo_ocsf_event mapped) = Inr ps"
    unfolding mapped(2) ssh_ocsf_event_def using json_to_struct_total assms(7) by metis
  then obtain plan where plan: "plan_of env core persisted (?event\<lparr>pe_selection := Some trace\<rparr>) (from_persisted persisted) now mapped nid tid = Inr plan"
    using assms(2,5,6,8) core(6)
    by (cases "nc_execution_mode core") (auto simp: plan_of_def normalized_event_of_def transformation_of_def result_simps Let_def wf_normalized_event_def
        wf_transformation_def sound_handoff_def)
  have "validate_raw_bytes env persisted raw = Inr ()" using assms(8,12)
    by (auto simp: validate_raw_bytes_def sound_handoff_def u64_try_from_eq_Some result_simps plain_line_def)
  with assms(8) parsed have "normalize env core incoming persisted raw
      = build_normalization_plan env core persisted (?event\<lparr>pe_selection := Some trace\<rparr>)"
    by (simp add: normalize_def sound_handoff_def)
  also have "\<dots> = Some (ids'', Inr plan)"
    using assms(3,4) plan mapped(1) millis pid
    by (simp add: build_normalization_plan_def core for_parser_default [THEN iffD2] resolve_sshd mapped_event_def draw_ids_def
        ssh_authentication_mapping_def)
  finally have "normalize env core incoming persisted raw = Some (ids'', Inr plan)" .
  moreover have "ne_ocsf_event (np_normalized_event plan) = Some ps"
    and "ne_normalized_event_id (np_normalized_event plan) = nid" "ne_raw_event_id (np_normalized_event plan) = rp_event_id persisted"
      "ne_tenant_id (np_normalized_event plan) = rp_tenant_id persisted" "ne_normalized_at (np_normalized_event plan) = Some now"
      "ne_parser_id (np_normalized_event plan) = LINUX_SSHD_PARSER_ID"
    using plan ps pid by (auto simp: plan_of_def normalized_event_of_def result_simps Let_def)
  ultimately show ?thesis using ssh_ocsf_fields [OF ps [unfolded mapped(2)]] by (auto simp: login_normalized_def)
qed

text \<open>C17: a plain failed-login line of sshd is normalized to the failed login it reports. The line is ASCII, at
  most 64 KiB long, without white space around it, does not begin with a brace, and names a user and
  an address that are not empty and cannot be read as other words of the line. Then a core built with
  either sshd parser version selects the sshd parser, although four other parsers are registered, and
  turns a sound handoff of the line into a plan: no contract rejects it, and its event has the drawn
  identity, is bound to the raw event and the tenant, and is a failed logon of exactly that user from
  exactly that address. (The clock and the identity source answer and the numbers fit a double.)\<close>

theorem sshd_line_normalized:
  fixes port :: "16 word"
  assumes "new_core libs pipeline mode version (Inr now) next_id ids = Inr core" "valid_timestamp now"
    and "next_id ids = (ids', Inr nid)" "next_id ids' = (ids'', Inr tid)" "uuid_v7 nid" "uuid_v7 tid"
    and "\<And>n. ce_as_f64 env n \<noteq> None" and "sound_handoff env incoming persisted raw"
    and "raw = sshd_line header invalid_user username source_ip (show_nat (unat port)) trailer"
    and "\<not> contains ''Failed password for '' (header @ ''Failed password for'')"
    and "plain_login invalid_user username source_ip" "plain_line raw" "hd raw \<noteq> CHR ''{''"
  shows "\<exists>plan. normalize env core incoming persisted raw = Some (ids'', Inr plan)
    \<and> login_normalized nid now persisted username source_ip (np_normalized_event plan)"
  using assms by (rule normalize_sshd_line)

section \<open>A concrete line\<close>

definition sample_env :: "(int, int) core_env" where
  "sample_env = \<lparr>ce_digest = sample_digest, ce_time = plain_calendar, ce_to_vec = (\<lambda>_. ''{}''), ce_as_f64 = (\<lambda>_. Some (Finite 0))\<rparr>"

definition sample_core_result :: "((int, string list) normalizer_core, normalizer_error) result" where
  "sample_core_result = new_core sample_libs ''1'' Test ''1'' (Inr sample_time) fixed_next_id
     [sample_uuid CHR ''1'', sample_uuid CHR ''2'']"

definition sample_core :: "(int, string list) normalizer_core" where
  "sample_core = projr sample_core_result"

definition sample_log_line :: string where
  "sample_log_line = ''Failed password for invalid user admin from 10.0.0.8 port 50341 ssh2''"

definition sample_handoff :: raw_event_persisted where
  "sample_handoff = sample_persisted\<lparr>rp_event_id := sample_uuid CHR ''3'', rp_tenant_id := sample_tenant,
     rp_ingest_time := Some sample_time, rp_raw_size := 68, rp_raw_hash := sha256_lower_hex sample_digest sample_log_line\<rparr>"

definition sample_incoming :: envelope where
  "sample_incoming = \<lparr>en_contract_version = ''1.0.0'', en_message_id = sample_uuid CHR ''4'', en_message_type = ''RawEventPersisted'',
     en_tenant_id = sample_tenant, en_producer = None, en_emitted_at = None, en_trace_id = '''', en_causation_id = '''',
     en_correlation_id = '''', en_payload_schema = ''cerbero.raw_event_persisted.v1'', en_payload = None\<rparr>"

lemma sample_core_ok: "sample_core_result = Inr sample_core" "default_core sample_core"
  by (simp_all add: sample_core_def sample_core_result_def new_core_def with_linux_sshd_version_def sshd_constants default_core_def)

lemma sample_handoff_sound: "sound_handoff sample_env sample_incoming sample_handoff sample_log_line"
  by (simp add: sound_handoff_def validate_handoff_def sample_incoming_def sample_handoff_def sample_persisted_def sample_env_def
      sample_log_line_def sample_uuid_ok sample_time_ok)

lemma sample_line_checks:
  "sample_log_line = sshd_line [] True ''admin'' ''10.0.0.8'' (show_nat (unat (50341 :: 16 word))) ''ssh2''"
  "\<not> contains ''Failed password for '' ([] @ ''Failed password for'')" "plain_login True ''admin'' ''10.0.0.8''"
  "plain_line sample_log_line"
  by (simp_all add: sample_log_line_def line_checks sample_ports)

lemma sample_line_probe: "hd sample_log_line \<noteq> CHR ''{''" by (simp add: sample_log_line_def)

lemma sample_core_new:
  "new_core sample_libs ''1'' Test ''1'' (Inr sample_time) fixed_next_id [sample_uuid CHR ''1'', sample_uuid CHR ''2''] = Inr sample_core"
  using sample_core_ok(1) by (simp add: sample_core_result_def)

lemma sample_ids:
  "fixed_next_id [sample_uuid CHR ''1'', sample_uuid CHR ''2''] = ([sample_uuid CHR ''2''], Inr (sample_uuid CHR ''1''))"
  "fixed_next_id [sample_uuid CHR ''2''] = ([], Inr (sample_uuid CHR ''2''))"
  by (simp_all add: fixed_next_id_def)

lemma sample_numbers: "ce_as_f64 sample_env n \<noteq> None" by (simp add: sample_env_def)

lemmas sample_line_normal = sample_core_new sample_time_ok sample_ids sample_uuid_ok(1,2) sample_numbers sample_handoff_sound
  sample_line_checks sample_line_probe

lemma sample_normalized:
  obtains plan where "normalize sample_env sample_core sample_incoming sample_handoff sample_log_line = Some ([], Inr plan)"
  using normalize_sshd_line [OF sample_line_normal] by blast

lemma sample_event_time: "rp_event_time sample_handoff = None"
  by (simp add: sample_handoff_def sample_persisted_def)

theorem sshd_line_normalized_witness:
  "\<exists>plan. normalize sample_env sample_core sample_incoming sample_handoff sample_log_line = Some ([], Inr plan)
     \<and> login_normalized (sample_uuid CHR ''1'') sample_time sample_handoff ''admin'' ''10.0.0.8'' (np_normalized_event plan)"
  by (rule sshd_line_normalized [OF sample_line_normal])

theorem normalize_has_preflight_identity_witness:
  "\<exists>plan identity. normalize sample_env sample_core sample_incoming sample_handoff sample_log_line = Some ([], Inr plan)
     \<and> derive_identity sample_env sample_core sample_handoff sample_log_line = Inr identity
     \<and> di_logical_key identity = np_logical_key plan"
proof -
  obtain plan where plan: "normalize sample_env sample_core sample_incoming sample_handoff sample_log_line = Some ([], Inr plan)"
    by (rule sample_normalized)
  from normalize_has_preflight_identity [OF sample_core_ok(2) plan] plan show ?thesis by blast
qed

theorem normalize_keeps_event_time_witness:
  "\<exists>plan. normalize sample_env sample_core sample_incoming sample_handoff sample_log_line = Some ([], Inr plan)
     \<and> np_resolved_event_time plan = None \<and> ne_normalization_status (np_normalized_event plan) = 2"
proof -
  obtain plan where plan: "normalize sample_env sample_core sample_incoming sample_handoff sample_log_line = Some ([], Inr plan)"
    by (rule sample_normalized)
  from normalize_keeps_event_time [OF sample_core_ok(2) plan] plan show ?thesis by (auto simp: sample_event_time)
qed

theorem normalize_plan_contract_witness:
  "\<exists>plan. normalize sample_env sample_core sample_incoming sample_handoff sample_log_line = Some ([], Inr plan)
     \<and> validate_normalized_event (np_normalized_event plan) = Inr ()
     \<and> ne_raw_event_id (np_normalized_event plan) = sample_uuid CHR ''3''"
proof -
  obtain plan where plan: "normalize sample_env sample_core sample_incoming sample_handoff sample_log_line = Some ([], Inr plan)"
    by (rule sample_normalized)
  from normalize_plan_contract [OF sample_core_ok(2) plan] plan show ?thesis by (auto simp: sample_handoff_def)
qed

theorem normalized_ssh_failure_detected_witness:
  "\<exists>plan c. normalize sample_env sample_core sample_incoming sample_handoff sample_log_line = Some ([], Inr plan)
     \<and> compile_event_rule sample_digest FAILED_LOGIN_RULE_ID ''mvp-failed-login-v1'' failed_login_expression = Inr c
     \<and> evaluate_event_execution_plan predicates (compiled_plan c) (field_state (\<lambda>f. f) (np_normalized_event plan))
        mvp_leaf_policy = Inr Match"
proof -
  obtain plan where plan: "normalize sample_env sample_core sample_incoming sample_handoff sample_log_line = Some ([], Inr plan)"
    by (rule sample_normalized)
  from normalized_ssh_failure_detected [OF sample_core_ok(2) plan, of sample_digest] plan show ?thesis by blast
qed

end
