(* ===== verification/Retry_Correctness.thy ===== *)
theory Retry_Correctness
  imports Retry_State
begin

text \<open>
  The PostgreSQL store implements the reference transition, the table keeps its invariant under every
  operation and fate of the connection, and a delivery lifecycle records at most as many failures as
  its budget.
\<close>

section \<open>What the validators accept\<close>

definition wf_key :: "string \<Rightarrow> string \<Rightarrow> bool" where
  "wf_key consumer message_key \<longleftrightarrow> trim consumer \<noteq> '''' \<and> trim message_key \<noteq> '''' \<and> length message_key \<le> 256"

definition wf_failure :: "retry_failure \<Rightarrow> bool" where
  "wf_failure f \<longleftrightarrow> wf_key (rf_consumer_name f) (rf_message_key f) \<and> rf_message_id f \<noteq> Some 0
     \<and> 1 \<le> uint (rf_retry_budget f) \<and> 1 \<le> rf_delivery_attempt f \<and> trim (rf_error_code f) \<noteq> ''''
     \<and> rf_occurred_at f \<le> rf_next_retry_at f"

definition wf_state :: "retry_state \<Rightarrow> bool" where
  "wf_state s \<longleftrightarrow> wf_key (rs_consumer_name s) (rs_message_key s) \<and> rs_message_id s \<noteq> Some 0
     \<and> 1 \<le> uint (rs_failure_count s) \<and> uint (rs_failure_count s) \<le> uint (rs_retry_budget s)
     \<and> 1 \<le> rs_last_delivery_attempt s \<and> trim (rs_last_error_code s) \<noteq> ''''
     \<and> rs_first_failure_at s \<le> rs_last_failure_at s
     \<and> (if isolation_required s then rs_next_retry_at s = None
        else \<exists>t. rs_next_retry_at s = Some t \<and> rs_last_failure_at s \<le> t)"

lemma uint_pos_iff: "1 \<le> uint w \<longleftrightarrow> w \<noteq> 0"
proof -
  have "w \<noteq> 0 \<longleftrightarrow> uint w \<noteq> 0" by (simp add: uint_0_iff)
  then show ?thesis using uint_ge_0 [of w] by linarith
qed

lemma validate_key_ok [result_simps]: "validate_key c k = Inr u \<longleftrightarrow> wf_key c k"
  by (auto simp: validate_key_def wf_key_def)

lemma validate_failure_ok [result_simps]: "validate_failure f = Inr u \<longleftrightarrow> wf_failure f"
  by (auto simp: validate_failure_def wf_failure_def result_simps uint_pos_iff)

lemma validate_state_ok [result_simps]: "validate_state s = Inr u \<longleftrightarrow> wf_state s"
  by (cases "isolation_required s"; cases "rs_next_retry_at s")
    (auto simp: validate_state_def wf_state_def result_simps uint_pos_iff [symmetric] word_less_def not_less)

interpretation retry_contract: contract_validator validate_state wf_state
  by unfold_locales (rule validate_state_ok)

lemma isolation_uint:
  "isolation_required s \<longleftrightarrow> uint (rs_retry_budget s) \<le> uint (rs_failure_count s) \<or> \<not> rs_last_error_retryable s"
  by (simp add: isolation_required_def exhausted_def word_le_def)

lemma first_violation:
  "(case find (\<lambda>(_, ok). \<not> ok) xs of None \<Rightarrow> Inr () | Some (name, _) \<Rightarrow> Inl (g name)) = Inr u \<longleftrightarrow> (\<forall>c\<in>set xs. snd c)"
  by (induction xs) auto

lemma check_row_ok [result_simps]: "check_row r = Inr u \<longleftrightarrow> (\<forall>c\<in>set (retry_checks r). snd c)"
  unfolding check_row_def by (rule first_violation)

section \<open>Rows and states\<close>

definition row_of :: "retry_state \<Rightarrow> retry_row" where
  "row_of s = \<lparr>rw_consumer_name = rs_consumer_name s, rw_message_key = rs_message_key s,
     rw_message_id = rs_message_id s, rw_first_failure_at = rs_first_failure_at s,
     rw_last_failure_at = rs_last_failure_at s, rw_failure_count = uint (rs_failure_count s),
     rw_retry_budget = uint (rs_retry_budget s), rw_last_delivery_attempt = rs_last_delivery_attempt s,
     rw_last_error_code = rs_last_error_code s, rw_last_error_message = rs_last_error_message s,
     rw_last_error_retryable = rs_last_error_retryable s, rw_next_retry_at = rs_next_retry_at s\<rparr>"

lemma u32_from_bigint_uint [simp]: "u32_from_bigint (uint w) field = Inr w"
  using uint_lt2p [of w] by (simp add: u32_from_bigint_def)

lemma row_to_state_row_of [simp]: "wf_state s \<Longrightarrow> row_to_state (row_of s) = Inr s"
  using validate_state_ok [of s "()"] by (cases s) (simp add: row_to_state_def row_of_def validated_def)

lemma row_to_state_ok: "row_to_state r = Inr s \<longleftrightarrow> wf_state s \<and> r = row_of s"
proof
  assume "row_to_state r = Inr s"
  then show "wf_state s \<and> r = row_of s"
    by (cases r) (auto simp: row_to_state_def result_simps u32_from_bigint_def row_of_def uint_word_of_int split: if_splits)
qed auto

lemma row_checks:
  assumes "wf_state s"
  shows "check_row (row_of s) = Inr ()"
  using assms unfolding check_row_ok retry_checks_def
  by (auto simp: row_of_def wf_state_def isolation_uint wf_key_def split: if_splits option.splits)

section \<open>The table\<close>

definition clean :: "string \<Rightarrow> bool" where
  "clean s \<longleftrightarrow> CHR 0x00 \<notin> set s"

definition retry_table_ok :: "retry_table \<Rightarrow> bool" where
  "retry_table_ok table \<longleftrightarrow>
     (\<forall>k r. table k = Some r \<longrightarrow> (\<exists>s. wf_state s \<and> r = row_of s \<and> k = (rs_consumer_name s, rs_message_key s)))"

definition state_of :: "retry_table \<Rightarrow> string \<times> string \<Rightarrow> retry_state option" where
  "state_of table k = map_option (\<lambda>r. projr (row_to_state r)) (table k)"

definition failure_key :: "retry_failure \<Rightarrow> string \<times> string" where
  "failure_key f = (rf_consumer_name f, rf_message_key f)"

definition pg_failure :: "(int \<Rightarrow> int) \<Rightarrow> retry_failure \<Rightarrow> retry_failure" where
  "pg_failure to_pg f = f\<lparr>rf_occurred_at := to_pg (rf_occurred_at f), rf_next_retry_at := to_pg (rf_next_retry_at f)\<rparr>"

definition clean_failure :: "retry_failure \<Rightarrow> bool" where
  "clean_failure f \<longleftrightarrow> clean (rf_consumer_name f) \<and> clean (rf_message_key f) \<and> clean (rf_error_code f) \<and> clean (rf_error_message f)"

lemma state_of_Some:
  "retry_table_ok table \<Longrightarrow> state_of table k = Some s \<longleftrightarrow> table k = Some (row_of s) \<and> wf_state s \<and> k = (rs_consumer_name s, rs_message_key s)"
  by (cases k) (force simp: state_of_def retry_table_ok_def)

lemma state_of_None: "state_of table k = None \<longleftrightarrow> table k = None"
  by (simp add: state_of_def)

lemma wf_pg_failure: "wf_failure f \<Longrightarrow> mono to_pg \<Longrightarrow> wf_failure (pg_failure to_pg f)"
  by (auto simp: wf_failure_def pg_failure_def dest: monoD)

lemma first_state_ok:
  assumes "wf_failure f"
  shows "wf_state (first_retry_state f)"
  using assms by (auto simp: wf_failure_def wf_state_def first_retry_state_def isolation_uint word_less_def)

lemma insert_row_first: "retry_insert_row to_pg f = row_of (first_retry_state (pg_failure to_pg f))"
  by (auto simp: retry_insert_row_def row_of_def first_retry_state_def pg_failure_def word_less_def)

lemma uint_count_Suc:
  assumes "uint (c :: 32 word) < uint (b :: 32 word)"
  shows "saturating_add_u32 c 1 = c + 1" "uint (c + 1) = uint c + 1" "unat (c + 1) = unat c + 1"
proof -
  have less: "unat c < unat b" using assms by (simp add: word_less_def [symmetric] word_less_nat_alt)
  then have bound: "unat c + 1 < 2 ^ 32" using unat_bound_u32 [of b] by linarith
  then show "saturating_add_u32 c 1 = c + 1" by (simp add: saturating_add_u32_def)
  show "unat (c + 1) = unat c + 1" using bound by (simp add: unat_word_ariths)
  then show "uint (c + 1) = uint c + 1" by (metis of_nat_Suc Suc_eq_plus1 uint_nat add.commute)
qed

lemma active_below_budget: "wf_state e \<Longrightarrow> \<not> isolation_required e \<Longrightarrow> uint (rs_failure_count e) < uint (rs_retry_budget e)"
  by (simp add: isolation_uint)

lemma next_state_ok:
  assumes "wf_state e" "\<not> isolation_required e" "wf_failure f"
    and "rs_consumer_name e = rf_consumer_name f" "rs_message_key e = rf_message_key f"
  shows "wf_state (next_retry_state e f (rs_failure_count e + 1))"
  using assms uint_count_Suc(2) [OF active_below_budget [OF assms(1,2)]]
  by (auto simp: wf_state_def wf_failure_def next_retry_state_def Let_def isolation_uint word_le_def later_def option_or_def
      split: option.splits)

lemma update_row_next:
  assumes "wf_state e" "\<not> isolation_required e"
  shows "retry_update_row to_pg f (row_of e) = row_of (next_retry_state e (pg_failure to_pg f) (rs_failure_count e + 1))"
  using uint_count_Suc(2) [OF active_below_budget [OF assms]]
  by (auto simp: retry_update_row_def retry_insert_row_def row_of_def next_retry_state_def Let_def pg_failure_def later_def
      word_le_def max_def)

section \<open>The store implements the reference transition\<close>

lemma upsert_effect:
  assumes ok: "retry_table_ok table" and f: "wf_failure f" "clean_failure f" "mono to_pg"
  shows "retry_upsert to_pg f table = Inr (case state_of table (failure_key f) of
      None \<Rightarrow> (table(failure_key f \<mapsto> row_of (first_retry_state (pg_failure to_pg f))), Some (row_of (first_retry_state (pg_failure to_pg f))))
    | Some e \<Rightarrow> if isolation_required e then (table, None)
        else (let row = row_of (next_retry_state e (pg_failure to_pg f) (rs_failure_count e + 1)) in (table(failure_key f \<mapsto> row), Some row)))"
proof -
  have pre: "check_row (retry_insert_row to_pg f) = Inr ()"
    unfolding insert_row_first by (intro row_checks first_state_ok wf_pg_failure f)
  have texts: "try_each (\<lambda>s. and_then (pg_text s) (\<lambda>_. Inr ()))
      [rf_consumer_name f, rf_message_key f, rf_error_code f, rf_error_message f] = Inr ()"
    using f(2) by (simp add: clean_failure_def clean_def pg_text_def)
  show ?thesis
  proof (cases "state_of table (failure_key f)")
    case None
    then have "table (rf_consumer_name f, rf_message_key f) = None" by (simp add: state_of_None failure_key_def)
    then show ?thesis
      unfolding retry_upsert_def texts and_then_simps pre None option.case
      by (simp add: failure_key_def insert_row_first Let_def)
  next
    case (Some e)
    then have e: "table (rf_consumer_name f, rf_message_key f) = Some (row_of e)" "wf_state e"
      "rs_consumer_name e = rf_consumer_name f" "rs_message_key e = rf_message_key f"
      by (auto simp: state_of_Some [OF ok] failure_key_def)
    have active: "rw_failure_count (row_of e) < rw_retry_budget (row_of e) \<and> rw_last_error_retryable (row_of e)
        \<longleftrightarrow> \<not> isolation_required e"
      by (auto simp: row_of_def isolation_uint)
    have "check_row (retry_update_row to_pg f (row_of e)) = Inr ()" if "\<not> isolation_required e"
      unfolding update_row_next [OF e(2) that]
      by (intro row_checks next_state_ok e that wf_pg_failure f) (simp_all add: e pg_failure_def)
    then show ?thesis
      unfolding retry_upsert_def texts and_then_simps pre Let_def e(1) option.case active Some
      by (simp add: failure_key_def update_row_next [OF e(2)])
  qed
qed

lemma load_effect:
  assumes "retry_table_ok table" "wf_key c k" "clean c" "clean k"
  shows "retry_load show_pg Answered c k table = Inr (state_of table (c, k))"
proof (cases "state_of table (c, k)")
  case None
  then show ?thesis
    using assms validate_key_ok [of c k "()"] state_of_None [of table "(c, k)"]
    by (simp add: retry_load_def clean_def pg_text_def)
next
  case (Some s)
  then have "table (c, k) = Some (row_of s)" "wf_state s" using state_of_Some [OF assms(1)] by blast+
  then show ?thesis
    using assms Some validate_key_ok [of c k "()"] by (simp add: retry_load_def clean_def pg_text_def)
qed

lemma advance_effect:
  assumes "retry_table_ok table" "wf_failure f"
    and "\<And>e. state_of table (failure_key f) = Some e \<Longrightarrow> \<not> ids_conflict (rs_message_id e) (rf_message_id f)"
  shows "advance_retry_state (state_of table (failure_key f)) f = (case state_of table (failure_key f) of
      None \<Rightarrow> Inr (first_retry_state f)
    | Some e \<Rightarrow> if isolation_required e
        then Inl (retry_state_error ''cannot record another processing failure after isolation became required'')
        else Inr (next_retry_state e f (rs_failure_count e + 1)))"
proof (cases "state_of table (failure_key f)")
  case None
  then show ?thesis
    using assms(2) validate_failure_ok [of f "()"] first_state_ok [OF assms(2), THEN validate_state_ok [of _ "()", THEN iffD2]]
    by (simp add: advance_retry_state_def validated_def)
next
  case (Some e)
  then have e: "wf_state e" "rs_consumer_name e = rf_consumer_name f" "rs_message_key e = rf_message_key f"
    using state_of_Some [OF assms(1)] by (auto simp: failure_key_def)
  note valid = validate_state_ok [of _ "()", THEN iffD2]
  have "saturating_add_u32 (rs_failure_count e) 1 = rs_failure_count e + 1
      \<and> \<not> rs_failure_count e + 1 > rs_retry_budget e" if "\<not> isolation_required e"
    using uint_count_Suc [OF active_below_budget [OF e(1) that]] active_below_budget [OF e(1) that]
    by (simp add: word_less_def)
  then show ?thesis
    using assms(2,3) Some e validate_failure_ok [of f "()"] valid [OF e(1)]
      next_state_ok [OF e(1) _ assms(2) e(2,3), THEN valid]
    by (cases "isolation_required e") (simp_all add: advance_retry_state_def validated_def Let_def)
qed

text \<open>The failure as the store takes it: times at the resolution of the database, and the message
  identity that the lifecycle already has.\<close>

definition lifecycle_failure :: "(int \<Rightarrow> int) \<Rightarrow> retry_state option \<Rightarrow> retry_failure \<Rightarrow> retry_failure" where
  "lifecycle_failure to_pg existing f = (pg_failure to_pg f)
     \<lparr>rf_message_id := option_or (Option.bind existing rs_message_id) (rf_message_id f)\<rparr>"

text \<open>What recording a failure amounts to, in terms of the reference transition and the fate of the two
  statements.\<close>

definition record_failure_spec ::
  "(pg_error \<Rightarrow> string) \<Rightarrow> (int \<Rightarrow> int) \<Rightarrow> query_fate \<times> query_fate \<Rightarrow> retry_failure \<Rightarrow> retry_table
     \<Rightarrow> retry_table \<times> (retry_state, normalizer_error) result" where
  "record_failure_spec show_pg to_pg fates f table =
    (let k = failure_key f; existing = state_of table k;
         reference = advance_retry_state existing (lifecycle_failure to_pg existing f);
         table' = (case reference of Inr s \<Rightarrow> if clean_failure f then table(k \<mapsto> row_of s) else table | Inl _ \<Rightarrow> table)
     in case validate_failure f of
       Inl e \<Rightarrow> (table, Inl e)
     | Inr _ \<Rightarrow> (case fst fates of
         Lost lost \<Rightarrow> (table, Inl (postgres_error ''record retry failure'' lost))
       | LostAfter lost \<Rightarrow> (table', Inl (postgres_error ''record retry failure'' lost))
       | Answered \<Rightarrow> (table',
           if \<not> clean_failure f then Inl (postgres_error ''record retry failure'' (show_pg InvalidText))
           else case reference of
             Inr s \<Rightarrow> Inr s
           | Inl e \<Rightarrow> Inl (case snd fates of
               Answered \<Rightarrow> e
             | Lost lost \<Rightarrow> postgres_error ''load retry state'' lost
             | LostAfter lost \<Rightarrow> postgres_error ''load retry state'' lost))))"

lemma lifecycle_advance:
  assumes "retry_table_ok table" "mono to_pg" "wf_failure f"
  defines "existing \<equiv> state_of table (failure_key f)"
  shows "advance_retry_state existing (lifecycle_failure to_pg existing f) = (case existing of
      None \<Rightarrow> Inr (first_retry_state (pg_failure to_pg f))
    | Some e \<Rightarrow> if isolation_required e
        then Inl (retry_state_error ''cannot record another processing failure after isolation became required'')
        else Inr (next_retry_state e (pg_failure to_pg f) (rs_failure_count e + 1)))"
proof -
  let ?g = "lifecycle_failure to_pg existing f"
  have "wf_state e" if "existing = Some e" for e using that state_of_Some [OF assms(1)] unfolding existing_def by blast
  then have g: "wf_failure ?g" "failure_key ?g = failure_key f"
    using wf_pg_failure [OF assms(3,2)]
    by (auto simp: lifecycle_failure_def wf_failure_def wf_state_def option_or_def failure_key_def pg_failure_def split: option.splits)
      (auto simp: bind_eq_Some_conv)
  have "\<not> ids_conflict (rs_message_id e) (rf_message_id ?g)" if "existing = Some e" for e
    using that by (auto simp: lifecycle_failure_def option_or_def ids_conflict_def split: option.splits)
  then have "advance_retry_state existing ?g = (case existing of
      None \<Rightarrow> Inr (first_retry_state ?g)
    | Some e \<Rightarrow> if isolation_required e
        then Inl (retry_state_error ''cannot record another processing failure after isolation became required'')
        else Inr (next_retry_state e ?g (rs_failure_count e + 1)))"
    using advance_effect [OF assms(1) g(1)] unfolding g(2) unfolding existing_def [symmetric] by blast
  moreover have "first_retry_state (lifecycle_failure to_pg None f) = first_retry_state (pg_failure to_pg f)"
    by (simp add: lifecycle_failure_def option_or_def first_retry_state_def pg_failure_def)
  moreover have "next_retry_state e (lifecycle_failure to_pg (Some e) f) n = next_retry_state e (pg_failure to_pg f) n" for e n
    by (simp add: lifecycle_failure_def option_or_def next_retry_state_def pg_failure_def Let_def split: option.split)
  ultimately show ?thesis by (cases existing) simp_all
qed

lemma unclean_refused: "\<not> clean_failure f \<Longrightarrow> retry_upsert to_pg f table = Inl InvalidText"
  by (auto simp: retry_upsert_def clean_failure_def clean_def pg_text_def)

lemma record_failure_implements:
  assumes "retry_table_ok table" "mono to_pg"
  shows "record_failure show_pg to_pg fates f table = record_failure_spec show_pg to_pg fates f table"
proof (cases "wf_failure f")
  case False
  then show ?thesis
    using validate_failure_ok [of f] by (cases "validate_failure f") (simp_all add: record_failure_def record_failure_spec_def Let_def)
next
  case True
  let ?g = "pg_failure to_pg f" and ?k = "failure_key f"
  have valid: "validate_failure f = Inr ()" using True validate_failure_ok [of f] by simp
  show ?thesis
  proof (cases "clean_failure f")
    case False
    then show ?thesis
      by (simp add: record_failure_def record_failure_spec_def valid unclean_refused Let_def split: query_fate.split sum.split)
  next
    case clean: True
    have g: "wf_failure ?g" using wf_pg_failure [OF True assms(2)] .
    have key: "wf_key (rf_consumer_name f) (rf_message_key f)" "clean (rf_consumer_name f)" "clean (rf_message_key f)"
      using True clean by (simp_all add: wf_failure_def clean_failure_def)
    have load: "retry_load show_pg (snd fates) (rf_consumer_name f) (rf_message_key f) table = (case snd fates of
        Answered \<Rightarrow> Inr (state_of table ?k) | Lost lost \<Rightarrow> Inl (postgres_error ''load retry state'' lost)
      | LostAfter lost \<Rightarrow> Inl (postgres_error ''load retry state'' lost))"
      using load_effect [OF assms(1) key] key(1) validate_key_ok [of "rf_consumer_name f" "rf_message_key f" "()"]
      by (cases "snd fates") (simp_all add: retry_load_def failure_key_def)
    have e: "wf_state e \<and> rs_consumer_name e = rf_consumer_name ?g \<and> rs_message_key e = rf_message_key ?g"
      if "state_of table ?k = Some e" for e
      using state_of_Some [OF assms(1)] that by (auto simp: failure_key_def pg_failure_def)
    show ?thesis
      using first_state_ok [OF g] next_state_ok [OF _ _ g] e
      by (auto simp: record_failure_def record_failure_spec_def valid clean upsert_effect [OF assms(1) True clean assms(2)]
          lifecycle_advance [OF assms True] load Let_def split: query_fate.split option.split)
  qed
qed

lemma reference_agrees:
  assumes "retry_table_ok table" "mono to_pg" "wf_failure f"
    and "\<And>e. state_of table (failure_key f) = Some e \<Longrightarrow> \<not> ids_conflict (rs_message_id e) (rf_message_id f)"
  shows "advance_retry_state (state_of table (failure_key f)) (lifecycle_failure to_pg (state_of table (failure_key f)) f)
    = advance_retry_state (state_of table (failure_key f)) (pg_failure to_pg f)"
  using assms(4) advance_effect [OF assms(1) wf_pg_failure [OF assms(3,2)]] lifecycle_advance [OF assms(1-3)]
  by (simp add: failure_key_def pg_failure_def)

lemma reference_refuses:
  "ids_conflict (rs_message_id e) (rf_message_id f) \<Longrightarrow> \<not> is_ok (advance_retry_state (Some e) f)"
  by (cases "advance_retry_state (Some e) f") (auto simp: advance_retry_state_def Let_def and_then_eq_Inr split: if_splits)

text \<open>C21: the PostgreSQL store implements the reference transition, whatever becomes of its two statements.
  On every table that satisfies the invariant, recording a failure has exactly the effect and the
  result of the specification: a failure that does not validate is refused; one whose text PostgreSQL
  cannot hold changes nothing; otherwise the table holds the state that \<open>advance_retry_state\<close> computes
  and that state is returned, or the transition refuses and its error is returned; a lost connection
  is reported, and the table has changed if the statement was executed. The failure enters the
  transition with the message identity of its lifecycle, and this is the one difference: where the
  identities do not conflict the transition is the same as on the failure itself, and where they do
  the reference refuses.\<close>

theorem record_failure_refines_reference:
  assumes "retry_table_ok table" "mono to_pg"
  shows "record_failure show_pg to_pg fates f table = record_failure_spec show_pg to_pg fates f table
    \<and> (wf_failure f \<longrightarrow> (let existing = state_of table (failure_key f) in
        if (case existing of None \<Rightarrow> False | Some e \<Rightarrow> ids_conflict (rs_message_id e) (rf_message_id f))
        then \<not> is_ok (advance_retry_state existing (pg_failure to_pg f))
        else advance_retry_state existing (lifecycle_failure to_pg existing f) = advance_retry_state existing (pg_failure to_pg f)))"
proof -
  have "\<not> is_ok (advance_retry_state (Some e) (pg_failure to_pg f))" if "ids_conflict (rs_message_id e) (rf_message_id f)" for e
    by (rule reference_refuses) (use that in \<open>simp add: pg_failure_def\<close>)
  with reference_agrees [OF assms, of f] record_failure_implements [OF assms] show ?thesis
    by (auto simp: Let_def split: option.split)
qed

section \<open>Histories\<close>

text \<open>The operations of the store, with the fate of each query.\<close>

datatype retry_operation =
    RecordFailure "query_fate \<times> query_fate" retry_failure
  | Clear query_fate string string

fun run_retry :: "(pg_error \<Rightarrow> string) \<Rightarrow> (int \<Rightarrow> int) \<Rightarrow> retry_operation \<Rightarrow> retry_table \<Rightarrow> retry_table" where
  "run_retry show_pg to_pg (RecordFailure fates f) table = fst (record_failure show_pg to_pg fates f table)"
| "run_retry show_pg to_pg (Clear fate c k) table = fst (retry_clear show_pg fate c k table)"

inductive reachable_table :: "(pg_error \<Rightarrow> string) \<Rightarrow> (int \<Rightarrow> int) \<Rightarrow> retry_table \<Rightarrow> bool" for show_pg to_pg where
  no_rows: "reachable_table show_pg to_pg Map.empty"
| operated: "reachable_table show_pg to_pg table \<Longrightarrow> reachable_table show_pg to_pg (run_retry show_pg to_pg op table)"

lemma retry_table_ok_upd:
  "retry_table_ok table \<Longrightarrow> wf_state s \<Longrightarrow> retry_table_ok (table((rs_consumer_name s, rs_message_key s) \<mapsto> row_of s))"
  by (auto simp: retry_table_ok_def)

lemma retry_table_ok_del: "retry_table_ok table \<Longrightarrow> retry_table_ok (table(k := None))"
  by (auto simp: retry_table_ok_def)

lemma upsert_clean: "retry_upsert to_pg f table = Inr x \<Longrightarrow> clean_failure f"
  by (auto simp: retry_upsert_def result_simps clean_failure_def clean_def)

text \<open>An upsert either leaves the table, or stores a state that continues the one before it.\<close>

definition continues :: "retry_state option \<Rightarrow> retry_state \<Rightarrow> bool" where
  "continues old s \<longleftrightarrow> wf_state s \<and> (case old of
      None \<Rightarrow> rs_failure_count s = 1
    | Some e \<Rightarrow> \<not> isolation_required e \<and> rs_failure_count s = rs_failure_count e + 1
        \<and> rs_retry_budget s = rs_retry_budget e \<and> rs_first_failure_at s = rs_first_failure_at e
        \<and> rs_last_failure_at e \<le> rs_last_failure_at s
        \<and> (rs_message_id e \<noteq> None \<longrightarrow> rs_message_id s = rs_message_id e))"

lemma upsert_cases:
  assumes "retry_table_ok table" "mono to_pg" "wf_failure f" "retry_upsert to_pg f table = Inr (table', r)"
  obtains "table' = table" "r = None"
  | s where "continues (state_of table (failure_key f)) s" "failure_key f = (rs_consumer_name s, rs_message_key s)"
      "table' = table(failure_key f \<mapsto> row_of s)" "r = Some (row_of s)"
proof -
  let ?g = "pg_failure to_pg f"
  have g: "wf_failure ?g" by (rule wf_pg_failure [OF assms(3,2)])
  note up = upsert_effect [OF assms(1,3) upsert_clean [OF assms(4)] assms(2), unfolded assms(4)]
  show thesis
  proof (cases "state_of table (failure_key f)")
    case None
    with up show thesis
      by (intro that(2) [of "first_retry_state ?g"])
        (auto simp: continues_def first_state_ok [OF g], simp_all add: first_retry_state_def failure_key_def pg_failure_def)
  next
    case (Some e)
    then have e: "wf_state e" "rs_consumer_name e = rf_consumer_name ?g" "rs_message_key e = rf_message_key ?g"
      using state_of_Some [OF assms(1)] by (auto simp: failure_key_def pg_failure_def)
    show thesis
    proof (cases "isolation_required e")
      case True
      then show thesis using up Some by (intro that(1)) auto
    next
      case False
      then have "wf_state (next_retry_state e ?g (rs_failure_count e + 1))" by (intro next_state_ok e g)
      then show thesis
        using up Some False e
        by (intro that(2) [of "next_retry_state e ?g (rs_failure_count e + 1)"])
          (auto simp: continues_def Let_def, auto simp: next_retry_state_def Let_def failure_key_def pg_failure_def
            later_def option_or_def split: option.splits)
    qed
  qed
qed

lemma record_failure_cases:
  assumes "retry_table_ok table" "mono to_pg" "record_failure show_pg to_pg fates f table = (table', r)"
  obtains "table' = table" "\<not> is_ok r"
  | s where "continues (state_of table (failure_key f)) s" "failure_key f = (rs_consumer_name s, rs_message_key s)"
      "table' = table(failure_key f \<mapsto> row_of s)" "is_ok r \<longrightarrow> r = Inr s"
proof (cases "wf_failure f \<and> (\<exists>x. retry_upsert to_pg f table = Inr x) \<and> (\<forall>e. fst fates \<noteq> Lost e)")
  case True
  then obtain t r' where up: "retry_upsert to_pg f table = Inr (t, r')" and f: "wf_failure f" by auto
  then have valid: "validate_failure f = Inr ()" using validate_failure_ok [of f] by simp
  from assms(1,2) f up show thesis
  proof (cases rule: upsert_cases)
    case 1
    then show thesis
      using that(1) assms(3) True by (auto simp: record_failure_def valid up and_then_def split: query_fate.splits sum.splits option.splits)
  next
    case (2 s)
    then have "wf_state s" by (simp add: continues_def)
    then show thesis
      using that(2) [OF 2(1,2)] assms(3) True by (auto simp: record_failure_def valid up 2(3,4) split: query_fate.splits)
  qed
next
  case False
  then show thesis
    using that(1) assms(3) validate_failure_ok [of f]
    by (auto simp: record_failure_def split: sum.splits query_fate.splits)
qed

lemma reachable_table_ok:
  assumes "reachable_table show_pg to_pg table" "mono to_pg"
  shows "retry_table_ok table"
  using assms(1)
proof induction
  case no_rows
  then show ?case by (simp add: retry_table_ok_def)
next
  case (operated table op)
  show ?case
  proof (cases op)
    case (RecordFailure fates f)
    obtain t r where run: "record_failure show_pg to_pg fates f table = (t, r)" by fastforce
    from operated.IH assms(2) run have "retry_table_ok t"
      by (cases rule: record_failure_cases) (auto simp: operated.IH continues_def retry_table_ok_upd)
    then show ?thesis by (simp add: RecordFailure run)
  next
    case (Clear fate c k)
    then show ?thesis
      using operated.IH by (auto simp: retry_clear_def retry_table_ok_del split: sum.splits query_fate.splits)
  qed
qed

text \<open>C22: every step of the durable retry table follows the lifecycle, whatever happens to the
  connection: in a reachable table a step leaves the state of a delivery as it is, or clears it, or
  records one more failure: the first with count one, a further one only while the message is not to
  be isolated, with the budget, the first failure time and a known message identity unchanged.
  Stored states pass validation.\<close>

theorem retry_step_lifecycle:
  assumes "reachable_table show_pg to_pg table" "mono to_pg"
  shows "retry_table_ok (run_retry show_pg to_pg op table)
    \<and> (state_of (run_retry show_pg to_pg op table) k = state_of table k
       \<or> (state_of (run_retry show_pg to_pg op table) k = None \<and> (\<exists>fate. op = Clear fate (fst k) (snd k)))
       \<or> (\<exists>s fates f. op = RecordFailure fates f \<and> failure_key f = k
            \<and> state_of (run_retry show_pg to_pg op table) k = Some s \<and> continues (state_of table k) s))"
proof (intro conjI)
  show "retry_table_ok (run_retry show_pg to_pg op table)"
    using reachable_table_ok [OF reachable_table.operated [OF assms(1)] assms(2)] .
  have ok: "retry_table_ok table" by (rule reachable_table_ok [OF assms])
  show "state_of (run_retry show_pg to_pg op table) k = state_of table k
       \<or> (state_of (run_retry show_pg to_pg op table) k = None \<and> (\<exists>fate. op = Clear fate (fst k) (snd k)))
       \<or> (\<exists>s fates f. op = RecordFailure fates f \<and> failure_key f = k
            \<and> state_of (run_retry show_pg to_pg op table) k = Some s \<and> continues (state_of table k) s)"
  proof (cases op)
    case (RecordFailure fates f)
    obtain t r where run: "record_failure show_pg to_pg fates f table = (t, r)" by fastforce
    from ok assms(2) run show ?thesis
      by (cases rule: record_failure_cases) (auto simp: RecordFailure run state_of_def continues_def)
  next
    case (Clear fate c m)
    then show ?thesis
      by (auto simp: retry_clear_def state_of_def split: sum.splits query_fate.splits)
  qed
qed

section \<open>The budget\<close>

fun record_all ::
  "(pg_error \<Rightarrow> string) \<Rightarrow> (int \<Rightarrow> int) \<Rightarrow> ((query_fate \<times> query_fate) \<times> retry_failure) list \<Rightarrow> retry_table
     \<Rightarrow> retry_table \<times> (retry_state, normalizer_error) result list" where
  "record_all show_pg to_pg [] table = (table, [])"
| "record_all show_pg to_pg ((fates, f) # xs) table =
    (case record_failure show_pg to_pg fates f table of (table', r) \<Rightarrow>
     case record_all show_pg to_pg xs table' of (table'', rs) \<Rightarrow> (table'', r # rs))"

definition recorded :: "retry_state option \<Rightarrow> nat" where
  "recorded s = (case s of None \<Rightarrow> 0 | Some e \<Rightarrow> unat (rs_failure_count e))"

lemma continues_recorded: "continues old s \<Longrightarrow> (\<And>e. old = Some e \<Longrightarrow> wf_state e) \<Longrightarrow> recorded (Some s) = recorded old + 1"
proof (cases old)
  case (Some e)
  assume "continues old s" and "\<And>e. old = Some e \<Longrightarrow> wf_state e"
  then have "wf_state e" "\<not> isolation_required e" "rs_failure_count s = rs_failure_count e + 1"
    using Some by (simp_all add: continues_def)
  then show ?thesis
    using uint_count_Suc(3) [OF active_below_budget] by (simp add: Some recorded_def)
qed (simp add: continues_def recorded_def)

lemma state_of_upd: "wf_state s \<Longrightarrow> state_of (table(k \<mapsto> row_of s)) k = Some s"
  by (simp add: state_of_def)

lemma record_all_count:
  assumes "retry_table_ok table" "mono to_pg" "\<forall>x\<in>set xs. failure_key (snd x) = k"
    and "record_all show_pg to_pg xs table = (table', rs)"
  shows "retry_table_ok table' \<and> recorded (state_of table k) + length (filter is_ok rs) \<le> recorded (state_of table' k)"
  using assms
proof (induction xs arbitrary: table rs)
  case (Cons x xs)
  obtain fates f where x: "x = (fates, f)" by (cases x)
  obtain t r where run: "record_failure show_pg to_pg fates f table = (t, r)" by fastforce
  obtain rs' where rest: "record_all show_pg to_pg xs t = (table', rs')" and rs: "rs = r # rs'"
    using Cons.prems(4) by (auto simp: x run split: prod.splits)
  have key: "failure_key f = k" using Cons.prems(3) by (simp add: x)
  have "retry_table_ok t \<and> recorded (state_of table k) + (if is_ok r then 1 else 0) \<le> recorded (state_of t k)"
    using Cons.prems(1,2) run
  proof (cases rule: record_failure_cases)
    case 1
    then show ?thesis using Cons.prems(1) by simp
  next
    case (2 s)
    then have "wf_state s" "recorded (Some s) = recorded (state_of table k) + 1"
      using continues_recorded [OF 2(1)] state_of_Some [OF Cons.prems(1)] by (auto simp: continues_def key)
    then show ?thesis
      using 2(2,3) retry_table_ok_upd [OF Cons.prems(1)] by (simp add: key state_of_upd)
  qed
  then show ?case using Cons.IH [OF _ Cons.prems(2) _ rest] Cons.prems(3) by (auto simp: rs split: if_splits)
qed simp

text \<open>C23: the budget bounds the retries: from a table in which a delivery has no state, a sequence of
  failures of that delivery of any length, over any connection, is accepted at most as often as the
  budget captured by the first recorded failure; every later one is refused until the state is
  cleared.\<close>

theorem retry_budget_bounds_failures:
  assumes "reachable_table show_pg to_pg table" "mono to_pg" "table k = None"
    and "\<forall>x\<in>set xs. failure_key (snd x) = k" "record_all show_pg to_pg xs table = (table', rs)"
  shows "case state_of table' k of None \<Rightarrow> \<forall>r\<in>set rs. \<not> is_ok r
    | Some s \<Rightarrow> length (filter is_ok rs) \<le> unat (rs_retry_budget s)"
proof -
  have count: "retry_table_ok table'" "length (filter is_ok rs) \<le> recorded (state_of table' k)"
    using record_all_count [OF reachable_table_ok [OF assms(1,2)] assms(2,4,5)] assms(3)
    by (auto simp: recorded_def state_of_def)
  show ?thesis
  proof (cases "state_of table' k")
    case None
    then show ?thesis using count(2) by (simp add: recorded_def filter_empty_conv)
  next
    case (Some s)
    then have "uint (rs_failure_count s) \<le> uint (rs_retry_budget s)"
      using state_of_Some [OF count(1)] by (auto simp: wf_state_def)
    then show ?thesis using count(2) Some by (simp add: recorded_def word_le_def [symmetric] word_le_nat_alt)
  qed
qed

section \<open>Where the store and the reference differ\<close>

definition sample_failure :: "128 word option \<Rightarrow> int \<Rightarrow> retry_failure" where
  "sample_failure message_id t = \<lparr>rf_consumer_name = ''normalizer'', rf_message_key = ''stream:7'', rf_message_id = message_id,
     rf_occurred_at = t, rf_retry_budget = 3, rf_delivery_attempt = 1, rf_error_code = ''CER-NORM-NATS'',
     rf_error_message = ''timeout'', rf_error_retryable = True, rf_next_retry_at = t + 5\<rparr>"

lemma sample_failure_ok: "wf_failure (sample_failure i t) \<longleftrightarrow> i \<noteq> Some 0" "clean_failure (sample_failure i t)"
proof -
  have "trim ''normalizer'' \<noteq> []" "trim ''stream:7'' \<noteq> []" "trim ''CER-NORM-NATS'' \<noteq> []"
    by (rule trim_nonempty [of "CHR ''n''"] trim_nonempty [of "CHR ''s''"] trim_nonempty [of "CHR ''C''"];
        simp add: solid_def byte_def)+
  then show "wf_failure (sample_failure i t) \<longleftrightarrow> i \<noteq> Some 0" by (auto simp: wf_failure_def sample_failure_def wf_key_def)
  show "clean_failure (sample_failure i t)" by (simp add: clean_failure_def sample_failure_def clean_def)
qed

text \<open>The reference refuses a failure that carries another message identity than the stored
  lifecycle; the store accepts it, keeps the old identity and counts the failure.\<close>

theorem store_accepts_changed_message_id:
  "\<exists>table s. retry_table_ok table
     \<and> advance_retry_state (state_of table (failure_key (sample_failure (Some 2) 9))) (sample_failure (Some 2) 9)
       = Inl (retry_state_error ''retry message_id changed within one delivery lifecycle'')
     \<and> record_failure show_pg (\<lambda>t. t) (Answered, Answered) (sample_failure (Some 2) 9) table
       = (table(failure_key (sample_failure (Some 2) 9) \<mapsto> row_of s), Inr s)
     \<and> rs_failure_count s = 2 \<and> rs_message_id s = Some 1"
proof -
  let ?f = "sample_failure (Some 1) 3" and ?g = "sample_failure (Some 2) 9"
  let ?e = "first_retry_state ?f" and ?k = "failure_key (sample_failure (Some 2) 9)"
  let ?table = "[?k \<mapsto> row_of ?e]"
  have e: "wf_state ?e" by (rule first_state_ok) (simp add: sample_failure_ok)
  have fields: "rs_consumer_name ?e = rf_consumer_name ?g" "rs_message_key ?e = rf_message_key ?g"
    "ids_conflict (rs_message_id ?e) (rf_message_id ?g)" "\<not> isolation_required ?e" "rs_message_id ?e = Some 1"
    "rs_failure_count ?e = 1"
    by (simp_all add: first_retry_state_def sample_failure_def ids_conflict_def isolation_uint)
  have ok: "retry_table_ok ?table"
    using e by (auto simp: retry_table_ok_def failure_key_def fields(1,2) [symmetric])
  have g: "wf_failure ?g" "validate_failure ?g = Inr ()" "validate_state ?e = Inr ()"
    using validate_failure_ok [of ?g "()"] validate_state_ok [of ?e "()"] e by (simp_all add: sample_failure_ok)
  have "pg_failure (\<lambda>t. t) ?g = ?g" by (simp add: pg_failure_def)
  moreover have look: "state_of ?table ?k = Some ?e" using e by (simp add: state_of_upd)
  moreover define s where "s = next_retry_state ?e ?g (rs_failure_count ?e + 1)"
  moreover have s: "wf_state s" unfolding s_def by (intro next_state_ok e fields g)
  ultimately have "retry_upsert (\<lambda>t. t) ?g ?table = Inr (?table(?k \<mapsto> row_of s), Some (row_of s))"
    using upsert_effect [OF ok g(1) sample_failure_ok(2), of "\<lambda>t. t"] fields(4) by (simp add: mono_def Let_def)
  then have "record_failure show_pg (\<lambda>t. t) (Answered, Answered) ?g ?table = (?table(?k \<mapsto> row_of s), Inr s)"
    using s by (simp add: record_failure_def g(2))
  moreover have "advance_retry_state (state_of ?table ?k) ?g
      = Inl (retry_state_error ''retry message_id changed within one delivery lifecycle'')"
    using fields g by (simp only: look advance_retry_state_def and_then_simps option.case) simp
  moreover have "rs_failure_count s = 2" "rs_message_id s = Some 1"
    by (simp_all add: s_def next_retry_state_def Let_def fields option_or_def)
  ultimately show ?thesis using ok by blast
qed

section \<open>Concrete steps\<close>

text \<open>A first failure over a working connection; a failure with a zero byte; a lifecycle of message 1 that
  meets a failure of message 2.\<close>

theorem record_failure_refines_reference_witness:
  "record_failure (\<lambda>_. ''db'') (\<lambda>t. t div 1000 * 1000) (Answered, Answered) (sample_failure None 5003) Map.empty
     = ([failure_key (sample_failure None 5003) \<mapsto> row_of (first_retry_state (sample_failure None 5000)\<lparr>rs_next_retry_at := Some 5000\<rparr>)],
        Inr (first_retry_state (sample_failure None 5000)\<lparr>rs_next_retry_at := Some 5000\<rparr>))
   \<and> record_failure (\<lambda>_. ''db'') (\<lambda>t. t) (LostAfter ''reset'', Answered) ((sample_failure None 3)\<lparr>rf_error_message := [CHR 0x00]\<rparr>) Map.empty
     = (Map.empty, Inl (postgres_error ''record retry failure'' ''reset''))
   \<and> \<not> is_ok (advance_retry_state (Some (first_retry_state (sample_failure (Some 1) 3))) (sample_failure (Some 2) 9))"
proof (intro conjI)
  let ?f = "sample_failure None 5003" and ?to_pg = "\<lambda>t :: int. t div 1000 * 1000"
  have mono: "mono ?to_pg" "mono (\<lambda>t :: int. t)" by (auto simp: mono_def intro: zdiv_mono1)
  have ok: "retry_table_ok Map.empty" by (simp add: retry_table_ok_def)
  have f: "validate_failure ?f = Inr ()" "wf_failure ?f"
    using validate_failure_ok [of ?f "()"] by (simp_all add: sample_failure_ok)
  have adv: "advance_retry_state None (lifecycle_failure ?to_pg None ?f) = Inr (first_retry_state (pg_failure ?to_pg ?f))"
    using lifecycle_advance [OF ok mono(1) f(2)] by (simp add: state_of_def)
  have "first_retry_state (pg_failure ?to_pg ?f) = first_retry_state (sample_failure None 5000)\<lparr>rs_next_retry_at := Some 5000\<rparr>"
    by (simp add: pg_failure_def sample_failure_def first_retry_state_def word_less_def)
  with record_failure_refines_reference [OF ok mono(1), of "\<lambda>_. ''db''" "(Answered, Answered)" ?f]
  show "record_failure (\<lambda>_. ''db'') ?to_pg (Answered, Answered) ?f Map.empty
     = ([failure_key ?f \<mapsto> row_of (first_retry_state (sample_failure None 5000)\<lparr>rs_next_retry_at := Some 5000\<rparr>)],
        Inr (first_retry_state (sample_failure None 5000)\<lparr>rs_next_retry_at := Some 5000\<rparr>))"
    by (simp add: record_failure_spec_def state_of_def adv f(1) sample_failure_ok(2))
  let ?n = "(sample_failure None 3)\<lparr>rf_error_message := [CHR 0x00]\<rparr>"
  have "wf_failure ?n" "\<not> clean_failure ?n"
    using sample_failure_ok(1) [of None 3] by (simp_all add: wf_failure_def clean_failure_def clean_def)
  then have "validate_failure ?n = Inr ()" using validate_failure_ok [of ?n "()"] by simp
  with \<open>\<not> clean_failure ?n\<close> record_failure_refines_reference [OF ok mono(2), of "\<lambda>_. ''db''" "(LostAfter ''reset'', Answered)" ?n]
  show "record_failure (\<lambda>_. ''db'') (\<lambda>t. t) (LostAfter ''reset'', Answered) ?n Map.empty
     = (Map.empty, Inl (postgres_error ''record retry failure'' ''reset''))"
    by (simp add: record_failure_spec_def Let_def split: sum.split)
  let ?e = "first_retry_state (sample_failure (Some 1) 3)" and ?g = "sample_failure (Some 2) 9"
  let ?table = "[failure_key ?g \<mapsto> row_of ?e]"
  have e: "wf_state ?e" by (rule first_state_ok) (simp add: sample_failure_ok)
  have "retry_table_ok ?table" using e by (auto simp: retry_table_ok_def failure_key_def first_retry_state_def sample_failure_def)
  from record_failure_refines_reference [OF this mono(2), of "\<lambda>_. ''db''" "(Answered, Answered)" ?g]
  show "\<not> is_ok (advance_retry_state (Some ?e) ?g)"
    using e by (simp add: sample_failure_ok state_of_upd Let_def)
      (simp add: ids_conflict_def first_retry_state_def sample_failure_def pg_failure_def)
qed

theorem retry_step_lifecycle_witness:
  "retry_table_ok (run_retry (\<lambda>_. ''db'') (\<lambda>t. t) (RecordFailure (LostAfter ''reset'', Answered) (sample_failure None 3)) Map.empty)"
  using retry_step_lifecycle [OF reachable_table.no_rows, of "\<lambda>t. t" "\<lambda>_. ''db''"
      "RecordFailure (LostAfter ''reset'', Answered) (sample_failure None 3)"] by (simp add: mono_def)

theorem retry_budget_bounds_failures_witness:
  "case record_all (\<lambda>_. ''db'') (\<lambda>t. t) (replicate 7 ((Answered, Answered), sample_failure None 3)) Map.empty of (table, rs) \<Rightarrow>
     (case state_of table (failure_key (sample_failure None 3)) of None \<Rightarrow> \<forall>r\<in>set rs. \<not> is_ok r
      | Some s \<Rightarrow> length (filter is_ok rs) \<le> unat (rs_retry_budget s))"
proof -
  obtain table rs where run: "record_all (\<lambda>_. ''db'') (\<lambda>t. t) (replicate 7 ((Answered, Answered), sample_failure None 3)) Map.empty
      = (table, rs)" by fastforce
  have "mono (\<lambda>t :: int. t)" by (simp add: mono_def)
  from retry_budget_bounds_failures [OF reachable_table.no_rows this _ _ run, of "failure_key (sample_failure None 3)"]
  show ?thesis by (simp add: run)
qed

end
