(* ===== verification/Runtime_Correctness.thy ===== *)
theory Runtime_Correctness
  imports Normalizer_Runtime Core_Correctness Retry_Correctness
begin

text \<open>
  What the handling of a delivery guarantees: a message is only acknowledged after its normalized row
  was read back from the store and its publication accepted, and only terminated after a dead letter
  was accepted.
\<close>

section \<open>Reasoning about computations\<close>

named_theorems io_simps

definition io_post :: "('i, 'a) io \<Rightarrow> 'i world \<Rightarrow> ('i world \<Rightarrow> ('a, normalizer_error) result \<Rightarrow> bool) \<Rightarrow> bool" where
  "io_post c w P \<longleftrightarrow> (\<forall>w' r. c w = Some (w', r) \<longrightarrow> P w' r)"

lemma io_postD: "io_post c w P \<Longrightarrow> c w = Some (w', r) \<Longrightarrow> P w' r"
  by (simp add: io_post_def)

lemma io_post_mono: "io_post c w P \<Longrightarrow> (\<And>w' r. P w' r \<Longrightarrow> Q w' r) \<Longrightarrow> io_post c w Q"
  by (simp add: io_post_def)

lemma io_post_conj: "io_post c w P \<Longrightarrow> io_post c w Q \<Longrightarrow> io_post c w (\<lambda>w' r. P w' r \<and> Q w' r)"
  by (simp add: io_post_def)

lemma io_post_lift [io_simps]: "io_post (io_lift r) w P \<longleftrightarrow> P w r"
  by (simp add: io_post_def io_lift_def)

lemma io_post_match [io_simps]: "io_post (io_match c f) w P \<longleftrightarrow> io_post c w (\<lambda>w' r. io_post (f r) w' P)"
  by (auto simp: io_post_def io_match_def split: option.splits)

lemma io_post_bind [io_simps]:
  "io_post (io_bind c f) w P \<longleftrightarrow> io_post c w (\<lambda>w' r. case r of Inl e \<Rightarrow> P w' (Inl e) | Inr x \<Rightarrow> io_post (f x) w' P)"
  unfolding io_bind_def io_post_match by (rule arg_cong [of _ _ "io_post c w"]) (auto simp: fun_eq_iff io_post_lift split: sum.split)

lemma io_post_Some [io_simps]: "io_post (\<lambda>w. Some (f w, g w)) w P \<longleftrightarrow> P (f w) (g w)"
  by (simp add: io_post_def)

lemma io_post_insert [io_simps]:
  "io_post (io_insert sv params body) w P \<longleftrightarrow>
     P (io_effect (Inserted params body (sv_post sv (w_log w) params body)) w) (clickhouse_body (sv_post sv (w_log w) params body))"
  by (simp add: io_post_def io_insert_def Let_def)

lemma io_post_publish [io_simps]:
  "io_post (io_publish sv meaning p) w P \<longleftrightarrow>
     P (io_effect (Sent p (sv_publish sv (w_log w) p)) w) (meaning (sv_publish sv (w_log w) p))"
  by (simp add: io_post_def io_publish_def Let_def)

lemma io_post_ack [io_simps]:
  "io_post (io_ack sv code a) w P \<longleftrightarrow>
     P (io_effect (AckSent a (sv_ack sv (w_log w) a)) w) (map_err (transient code) (sv_ack sv (w_log w) a))"
  by (simp add: io_post_def io_ack_def Let_def)

lemma io_effect_simps [simp]:
  "w_log (io_effect e w) = w_log w @ [e]" "w_table (io_effect e w) = w_table w" "w_ids (io_effect e w) = w_ids w"
  by (simp_all add: io_effect_def)

text \<open>Computations that only add effects of some kind to the log.\<close>

definition adds :: "(effect \<Rightarrow> bool) \<Rightarrow> ('i, 'a) io \<Rightarrow> bool" where
  "adds E c \<longleftrightarrow> (\<forall>w. io_post c w (\<lambda>w' _. \<exists>es. w_log w' = w_log w @ es \<and> list_all E es))"

lemma addsD: "adds E c \<Longrightarrow> c w = Some (w', r) \<Longrightarrow> \<exists>es. w_log w' = w_log w @ es \<and> list_all E es"
  by (simp add: adds_def io_post_def)

lemma adds_match: "adds E c \<Longrightarrow> (\<And>r. adds E (f r)) \<Longrightarrow> adds E (io_match c f)"
  unfolding adds_def io_simps
  by (fastforce simp: io_post_def)

lemma adds_lift: "adds E (io_lift r)"
  by (simp add: adds_def io_simps)

lemma adds_bind: "adds E c \<Longrightarrow> (\<And>x. adds E (f x)) \<Longrightarrow> adds E (io_bind c f)"
  unfolding io_bind_def by (intro adds_match) (auto intro: adds_lift split: sum.splits)

lemma adds_effect:
  "(\<And>w. \<exists>es. list_all E es \<and> (c w = None \<or> (\<exists>w' r. c w = Some (w', r) \<and> w_log w' = w_log w @ es))) \<Longrightarrow> adds E c"
  unfolding adds_def io_post_def by (metis Pair_inject option.distinct(1) option.inject)

section \<open>What is silent towards the broker\<close>

fun is_ack :: "effect \<Rightarrow> bool" where
  "is_ack (AckSent a r) = True"
| "is_ack _ = False"

abbreviation quiet :: "('i, 'a) io \<Rightarrow> bool" where
  "quiet \<equiv> adds (\<lambda>e. \<not> is_ack e)"

lemma quiet_parts:
  "quiet (io_normalize sv pc incoming persisted raw)" "quiet (io_new_uuid libs)" "quiet (io_read sv root_path persisted)"
  "quiet (io_insert sv params body)" "quiet (io_publish sv meaning p)" "quiet (io_load sv libs c k)"
  "quiet (io_record_failure sv libs f)" "quiet (io_clear sv libs c k)" "quiet (find_by_logical_key sv decode_row db key)"
proof -
  show "quiet (find_by_logical_key sv decode_row db key)"
    unfolding find_by_logical_key_def
    by (intro adds_bind adds_lift)
      (auto simp: adds_def io_post_def Let_def)
qed (auto simp: adds_def io_post_def io_normalize_def io_new_uuid_def io_read_def io_insert_def io_publish_def io_load_def
      io_record_failure_def io_clear_def Let_def split: option.splits prod.splits)

lemma quiet_compound:
  "quiet (insert_and_read_back sv encode_row decode_row db row)" "quiet (publish_normalized sv libs row request_id)"
  "quiet (publish_normalization_dlq sv libs letter)"
  unfolding insert_and_read_back_def publish_normalized_def publish_normalization_dlq_def
  by (intro adds_bind adds_lift quiet_parts)+

lemma quiet_store: "quiet (normalize_and_store sv pc incoming raw identity)"
  unfolding normalize_and_store_def
  by (intro adds_bind adds_lift quiet_parts quiet_compound) (auto intro!: adds_bind adds_lift quiet_parts quiet_compound)

lemma quiet_process: "quiet (process_message sv pc incoming)"
  unfolding process_message_def
  by (intro adds_bind quiet_parts)
    (auto intro!: adds_bind adds_lift quiet_parts quiet_compound quiet_store split: sum.split option.split)

lemma quiet_best_effort: "quiet (best_effort_parser_identity sv pc msg)"
  unfolding best_effort_parser_identity_def io_ok_def
  by (intro adds_match adds_bind adds_lift quiet_parts)

section \<open>A processed message is stored and published\<close>

lemma io_post_find [io_simps]:
  "io_post (find_by_logical_key sv decode_row db key) w P \<longleftrightarrow> (case validate_hash_key key of
      Inl e \<Rightarrow> P w (Inl e)
    | Inr _ \<Rightarrow> P (io_effect (Queried (find_query db key) (sv_get sv (w_log w) (find_query db key))) w)
        (found_row decode_row (sv_get sv (w_log w) (find_query db key))))"
  by (simp add: find_by_logical_key_def io_simps Let_def)

text \<open>The row was answered by the store and its publication accepted by the analytics stream.\<close>

definition stored_row :: "('o, 't, 'i) runtime_libs \<Rightarrow> effect list \<Rightarrow> stored_normalization \<Rightarrow> bool" where
  "stored_row libs es row \<longleftrightarrow> (\<exists>query outcome. Queried query outcome \<in> set es \<and> found_row (rl_decode_row libs) outcome = Inr (Some row))"

definition publication_of ::
  "('o, 't, 'i) runtime_libs \<Rightarrow> stored_normalization \<Rightarrow> string option \<Rightarrow> (publication, normalizer_error) result" where
  "publication_of libs = normalized_publication (rl_parse_json libs) (ce_as_f64 (rl_core libs)) (rl_encode_normalized libs)
     (rl_encode_envelope libs)"

definition published_row :: "('o, 't, 'i) runtime_libs \<Rightarrow> string option \<Rightarrow> effect list \<Rightarrow> stored_normalization \<Rightarrow> bool" where
  "published_row libs request_id es row \<longleftrightarrow> (\<exists>p outcome. publication_of libs row request_id = Inr p
     \<and> Sent p outcome \<in> set es \<and> normalized_accepted outcome = Inr ())"

lemma publish_post:
  "io_post (publish_normalized sv libs row request_id) w (\<lambda>w' r. r = Inr () \<longrightarrow>
     (\<exists>es. w_log w' = w_log w @ es \<and> published_row libs request_id es row))"
  by (auto simp: publish_normalized_def io_simps published_row_def publication_of_def split: sum.splits)

lemma found_post:
  "io_post (find_by_logical_key sv (rl_decode_row libs) db key) w (\<lambda>w' r. \<forall>row. r = Inr (Some row) \<longrightarrow>
     (\<exists>es. w_log w' = w_log w @ es \<and> stored_row libs es row))"
  by (auto simp: io_simps stored_row_def split: sum.splits)

lemma normalize_raw_event_id:
  "normalize env core incoming persisted raw = Some (ids, Inr plan) \<Longrightarrow> ne_raw_event_id (np_normalized_event plan) = rp_event_id persisted"
  by (auto simp: normalize_def build_normalization_plan_def plan_of_def normalized_event_of_def result_simps Let_def
      split: sum.splits option.splits prod.splits)

lemma insert_post:
  "io_post (insert_and_read_back sv encode_row (rl_decode_row libs) db row) w (\<lambda>w' r. \<forall>stored. r = Inr stored \<longrightarrow>
     (\<exists>es. w_log w' = w_log w @ es \<and> stored_row libs es stored))"
  by (auto simp: insert_and_read_back_def io_simps stored_row_def ok_or_def split: sum.splits option.splits)

lemma existing_plan_identity:
  "validate_existing_plan stored plan = Inr () \<Longrightarrow> sn_raw_event_id stored = ne_raw_event_id (np_normalized_event plan)
     \<and> sn_logical_key stored = np_logical_key plan"
  by (auto simp: validate_existing_plan_def validate_existing_identity_def plan_identity_def Let_def result_simps split: if_splits)

lemma io_bind_Inr:
  assumes "io_bind c f w = Some (w', Inr x)"
  obtains w1 y where "c w = Some (w1, Inr y)" "f y w1 = Some (w', Inr x)"
  using assms by (auto simp: io_bind_def io_match_def io_lift_def split: option.splits sum.splits)

lemma io_lift_Inr [simp]: "io_lift r w = Some (w', r') \<longleftrightarrow> w' = w \<and> r = r'"
  by (auto simp: io_lift_def)

text \<open>The identity computed before normalization is the one of the plan.\<close>

lemma keys_ignore_clock:
  "configuration_hash_for env (core\<lparr>nc_clock := clock, nc_ids := ids\<rparr>) = configuration_hash_for env core"
  "logical_key_for env (core\<lparr>nc_clock := clock, nc_ids := ids\<rparr>) = logical_key_for env core"
  by (cases core; simp add: fun_eq_iff configuration_hash_for_def logical_key_for_def Let_def)+

lemma derive_plan_identity:
  assumes "default_core core" "normalize env (core\<lparr>nc_clock := clock, nc_ids := ids0\<rparr>) incoming persisted raw = Some (ids, Inr plan)"
  shows "derive_identity env core persisted raw = Inr (plan_identity plan (nc_execution_mode core))
    \<and> tf_execution_mode (np_transformation plan) = execution_mode_i32 (nc_execution_mode core)
    \<and> ne_raw_event_id (np_normalized_event plan) = rp_event_id persisted"
proof -
  let ?core = "core\<lparr>nc_clock := clock, nc_ids := ids0\<rparr>"
  have "default_core ?core" using assms(1) by (simp add: default_core_def)
  from this assms(2) obtain p trace parsed stamp m mapped nid tid where parts: "validate_raw_bytes env persisted raw = Inr ()"
    "select (nc_parsers ?core) (core_input persisted raw) = Inr (p, trace)" "pe_parser_id parsed = LINUX_SSHD_PARSER_ID"
    "pa_id p = LINUX_SSHD_PARSER_ID" "pe_parser_version parsed = pa_version p"
    "map_ssh_authentication parsed persisted (from_persisted persisted) m = Inr mapped"
    "plan_of env ?core persisted parsed (from_persisted persisted) stamp mapped nid tid = Inr plan"
    by (rule normalize_parts)
  have "mo_mapping_id mapped = LINUX_SSH_AUTH_MAPPING_ID" "mo_mapping_version mapped = LINUX_SSH_AUTH_MAPPING_VERSION"
    by (rule map_ssh_parts [OF parts(6)], simp)+
  with parts assms(1) show ?thesis
    by (auto simp: derive_identity_def default_core_def for_parser_default [THEN iffD2] plan_of_def normalized_event_of_def
        transformation_of_def ssh_authentication_mapping_def result_simps Let_def plan_identity_def keys_ignore_clock)
qed

lemma normalize_and_store_Inr:
  assumes "normalize_and_store sv pc incoming raw identity w = Some (w', Inr stored)"
  shows "\<exists>es. w_log w' = w_log w @ es \<and> stored_row (pc_libs pc) es stored
    \<and> sn_raw_event_id stored = rp_event_id (ic_persisted incoming) \<and> sn_logical_key stored = di_logical_key identity
    \<and> (default_core (pc_core pc) \<and> derive_identity (rl_core (pc_libs pc)) (pc_core pc) (ic_persisted incoming) raw = Inr identity
        \<longrightarrow> validate_existing_identity stored (rp_event_id (ic_persisted incoming)) identity = Inr ())"
proof -
  obtain w1 plan where plan: "io_normalize sv pc (ic_envelope incoming) (ic_persisted incoming) raw w = Some (w1, Inr plan)"
    and key: "np_logical_key plan = di_logical_key identity"
    and rest: "io_bind (io_lift (ok_or (fatal ''CER-NORM-MISSING-INGEST-TIME'' ''RawEventPersisted.ingest_time is required'')
      (rp_ingest_time (ic_persisted incoming)))) (\<lambda>ingest_time.
    io_bind (io_new_uuid (pc_libs pc)) (\<lambda>message_id.
    io_bind (io_lift (from_plan plan (np_resolved_event_time plan) ingest_time (ic_envelope incoming) message_id
      (cf_component_version (pc_config pc)) (cf_instance_id (pc_config pc)))) (\<lambda>candidate_row.
    io_bind (insert_and_read_back sv (rl_encode_row (pc_libs pc)) (rl_decode_row (pc_libs pc))
      (cf_clickhouse_database (pc_config pc)) candidate_row) (\<lambda>stored.
    io_bind (io_lift (validate_existing_plan stored plan)) (\<lambda>_.
    io_lift (Inr stored)))))) w1 = Some (w', Inr stored)"
    using assms unfolding normalize_and_store_def by (auto elim!: io_bind_Inr split: if_splits)
  from rest obtain w2 message_id candidate_row where
    w2: "io_new_uuid (pc_libs pc) w1 = Some (w2, Inr message_id)"
    and ins: "insert_and_read_back sv (rl_encode_row (pc_libs pc)) (rl_decode_row (pc_libs pc))
      (cf_clickhouse_database (pc_config pc)) candidate_row w2 = Some (w', Inr stored)"
    and valid: "validate_existing_plan stored plan = Inr ()"
    by (auto elim!: io_bind_Inr)
  have "w_log w1 = w_log w" using plan by (auto simp: io_normalize_def split: option.splits)
  moreover have "w_log w2 = w_log w1" using w2 by (auto simp: io_new_uuid_def split: prod.splits)
  moreover obtain es where "w_log w' = w_log w2 @ es" "stored_row (pc_libs pc) es stored"
    using io_postD [OF insert_post ins] by auto
  moreover have "ne_raw_event_id (np_normalized_event plan) = rp_event_id (ic_persisted incoming)"
    using plan by (auto simp: io_normalize_def split: option.splits dest: normalize_raw_event_id)
  moreover have "validate_existing_identity stored (rp_event_id (ic_persisted incoming)) identity = Inr ()"
    if core: "default_core (pc_core pc)"
      and identity: "derive_identity (rl_core (pc_libs pc)) (pc_core pc) (ic_persisted incoming) raw = Inr identity"
  proof -
    obtain ids where "normalize (rl_core (pc_libs pc)) ((pc_core pc)\<lparr>nc_clock := system_clock (rl_before_epoch (pc_libs pc))
        (sv_now sv (w_log w)), nc_ids := w_ids w\<rparr>) (ic_envelope incoming) (ic_persisted incoming) raw = Some (ids, Inr plan)"
      using plan by (auto simp: io_normalize_def split: option.splits)
    from derive_plan_identity [OF core this] identity valid show ?thesis
      by (auto simp: validate_existing_plan_def result_simps)
  qed
  ultimately show ?thesis using existing_plan_identity [OF valid] key by auto
qed

lemma stored_row_append: "stored_row libs es row \<Longrightarrow> stored_row libs (es @ es') row"
  "stored_row libs es' row \<Longrightarrow> stored_row libs (es @ es') row"
  by (auto simp: stored_row_def)

lemma published_row_append: "published_row libs request_id es' row \<Longrightarrow> published_row libs request_id (es @ es') row"
  by (auto simp: published_row_def)

lemma process_message_Inr:
  assumes "process_message sv pc incoming w = Some (w', Inr ())"
  shows "\<exists>es raw identity row. w_log w' = w_log w @ es \<and> raw_read (sv_fs sv (w_log w)) (pc_raw_root pc) (ic_persisted incoming) = Some (Inr raw)
    \<and> derive_identity (rl_core (pc_libs pc)) (pc_core pc) (ic_persisted incoming) raw = Inr identity
    \<and> sn_logical_key row = di_logical_key identity \<and> sn_raw_event_id row = rp_event_id (ic_persisted incoming)
    \<and> stored_row (pc_libs pc) es row \<and> published_row (pc_libs pc) (ic_request_id incoming) es row
    \<and> validate_hash_key (di_logical_key identity) = Inr ()
    \<and> (default_core (pc_core pc) \<longrightarrow> validate_existing_identity row (rp_event_id (ic_persisted incoming)) identity = Inr ())"
proof -
  obtain raw identity found w1 where raw: "raw_read (sv_fs sv (w_log w)) (pc_raw_root pc) (ic_persisted incoming) = Some (Inr raw)"
    and identity: "derive_identity (rl_core (pc_libs pc)) (pc_core pc) (ic_persisted incoming) raw = Inr identity"
    and find: "find_by_logical_key sv (rl_decode_row (pc_libs pc)) (cf_clickhouse_database (pc_config pc))
      (di_logical_key identity) w = Some (w1, Inr found)"
    and rest: "(case found of
          Some existing \<Rightarrow>
            io_bind (io_lift (validate_existing_identity existing (rp_event_id (ic_persisted incoming)) identity)) (\<lambda>_.
            publish_normalized sv (pc_libs pc) existing (ic_request_id incoming))
        | None \<Rightarrow>
            io_bind (normalize_and_store sv pc incoming raw identity) (\<lambda>stored.
            publish_normalized sv (pc_libs pc) stored (ic_request_id incoming))) w1 = Some (w', Inr ())"
    using assms unfolding process_message_def
    by (auto elim!: io_bind_Inr simp: io_read_def split: option.splits sum.splits)
  obtain es1 where es1: "w_log w1 = w_log w @ es1" "\<And>row. found = Some row \<Longrightarrow> stored_row (pc_libs pc) es1 row"
    using io_postD [OF found_post find] addsD [OF quiet_parts(9) find] by (cases found) auto
  have hash: "validate_hash_key (di_logical_key identity) = Inr ()"
    using find by (cases "validate_hash_key (di_logical_key identity)") (auto simp: find_by_logical_key_def elim!: io_bind_Inr)
  show ?thesis
  proof (cases found)
    case (Some row)
    then have pub: "publish_normalized sv (pc_libs pc) row (ic_request_id incoming) w1 = Some (w', Inr ())"
      and valid: "validate_existing_identity row (rp_event_id (ic_persisted incoming)) identity = Inr ()"
      using rest by (auto elim!: io_bind_Inr)
    obtain es2 where "w_log w' = w_log w1 @ es2" "published_row (pc_libs pc) (ic_request_id incoming) es2 row"
      using io_postD [OF publish_post pub] by auto
    then show ?thesis using raw identity es1 Some valid hash
      by (intro exI [of _ "es1 @ es2"] exI [of _ raw] exI [of _ identity] exI [of _ row])
        (auto simp: validate_existing_identity_def stored_row_append published_row_append split: if_splits)
  next
    case None
    then obtain w2 row where st: "normalize_and_store sv pc incoming raw identity w1 = Some (w2, Inr row)"
      and pub: "publish_normalized sv (pc_libs pc) row (ic_request_id incoming) w2 = Some (w', Inr ())"
      using rest by (auto elim!: io_bind_Inr)
    obtain es2 where es2: "w_log w2 = w_log w1 @ es2" "stored_row (pc_libs pc) es2 row"
      "sn_raw_event_id row = rp_event_id (ic_persisted incoming)" "sn_logical_key row = di_logical_key identity"
      "default_core (pc_core pc) \<Longrightarrow> validate_existing_identity row (rp_event_id (ic_persisted incoming)) identity = Inr ()"
      using normalize_and_store_Inr [OF st] identity by blast
    obtain es3 where "w_log w' = w_log w2 @ es3" "published_row (pc_libs pc) (ic_request_id incoming) es3 row"
      using io_postD [OF publish_post pub] by auto
    then show ?thesis using raw identity es1 es2 hash
      by (intro exI [of _ "es1 @ es2 @ es3"] exI [of _ raw] exI [of _ identity] exI [of _ row])
        (auto simp: stored_row_append published_row_append)
  qed
qed

section \<open>A message is only settled after a durable handover\<close>

definition decode_message :: "('o, 't, 'i) processor \<Rightarrow> bus_message \<Rightarrow> (incoming_raw_persisted, normalizer_error) result" where
  "decode_message pc = decode_raw_persisted (rl_decode_envelope (pc_libs pc)) (rl_decode_persisted (pc_libs pc))"

text \<open>What must have happened before an acknowledgement: for an acknowledgement the row of this raw event was
  answered by the store and published; for a termination a dead letter of this payload was accepted.\<close>

definition justified :: "('o, 't, 'i) processor \<Rightarrow> bus_message \<Rightarrow> effect list \<Rightarrow> ack_kind \<Rightarrow> bool" where
  "justified pc msg es a \<longleftrightarrow> (case a of
      DoubleAck \<Rightarrow> \<exists>incoming row. decode_message pc msg = Inr incoming
        \<and> sn_raw_event_id row = rp_event_id (ic_persisted incoming) \<and> stored_row (pc_libs pc) es row
        \<and> published_row (pc_libs pc) (ic_request_id incoming) es row
    | Term \<Rightarrow> \<exists>letter p outcome. dlq_publication (rl_encode_dlq (pc_libs pc)) letter = Inr p \<and> Sent p outcome \<in> set es
        \<and> dlq_accepted outcome = Inr ()
        \<and> dl_original_payload_sha256 letter = sha256_lower_hex (ce_digest (rl_core (pc_libs pc))) (bm_payload msg)
    | Nak _ \<Rightarrow> True)"

definition delivery_contract :: "('o, 't, 'i) processor \<Rightarrow> bus_message \<Rightarrow> effect list \<Rightarrow> (unit, normalizer_error) result \<Rightarrow> bool" where
  "delivery_contract pc msg es r \<longleftrightarrow>
     (list_all (\<lambda>e. \<not> is_ack e) es \<and> r \<noteq> Inr ())
     \<or> (\<exists>pre a outcome post. es = pre @ AckSent a outcome # post \<and> list_all (\<lambda>e. \<not> is_ack e) (pre @ post)
          \<and> justified pc msg pre a \<and> (r = Inr () \<longrightarrow> outcome = Inr ()))"

definition handles :: "('o, 't, 'i) processor \<Rightarrow> bus_message \<Rightarrow> ('i, unit) io \<Rightarrow> bool" where
  "handles pc msg c \<longleftrightarrow> (\<forall>w. io_post c w (\<lambda>w' r. \<exists>es. w_log w' = w_log w @ es \<and> delivery_contract pc msg es r))"

lemma justified_append: "justified pc msg es a \<Longrightarrow> justified pc msg (es0 @ es) a"
  by (auto simp: justified_def stored_row_def published_row_def split: ack_kind.splits)

lemma contract_append:
  assumes "delivery_contract pc msg es r" "list_all (\<lambda>e. \<not> is_ack e) es0"
  shows "delivery_contract pc msg (es0 @ es) r"
  using assms(1) unfolding delivery_contract_def
proof (elim disjE exE conjE)
  fix pre a outcome post
  assume "es = pre @ AckSent a outcome # post" "list_all (\<lambda>e. \<not> is_ack e) (pre @ post)" "justified pc msg pre a"
    "r = Inr () \<longrightarrow> outcome = Inr ()"
  then show "list_all (\<lambda>e. \<not> is_ack e) (es0 @ es) \<and> r \<noteq> Inr () \<or> (\<exists>pre a outcome post. es0 @ es = pre @ AckSent a outcome # post
      \<and> list_all (\<lambda>e. \<not> is_ack e) (pre @ post) \<and> justified pc msg pre a \<and> (r = Inr () \<longrightarrow> outcome = Inr ()))"
    using assms(2) by (intro disjI2 exI [of _ "es0 @ pre"] exI [of _ a] exI [of _ outcome] exI [of _ post]) (simp add: justified_append)
qed (use assms(2) in simp)

lemma handles_match:
  assumes "quiet c" "\<And>r. handles pc msg (f r)"
  shows "handles pc msg (io_match c f)"
  unfolding handles_def io_simps
proof
  fix w
  show "io_post c w (\<lambda>w' r. io_post (f r) w' (\<lambda>w' r. \<exists>es. w_log w' = w_log w @ es \<and> delivery_contract pc msg es r))"
    using assms contract_append unfolding handles_def adds_def io_post_def by (metis append.assoc)
qed

lemma handles_error: "handles pc msg (io_lift (Inl e))"
  by (simp add: handles_def io_simps delivery_contract_def)

lemma handles_bind: "quiet c \<Longrightarrow> (\<And>x. handles pc msg (f x)) \<Longrightarrow> handles pc msg (io_bind c f)"
  unfolding io_bind_def by (intro handles_match) (auto intro: handles_error split: sum.splits)

lemma handles_nak:
  fixes pc :: "('o, 't, 'i) processor"
  shows "handles pc msg (nak_with_delay sv delay)"
  unfolding handles_def nak_with_delay_def io_simps
proof
  fix w :: "'i world"
  let ?o = "sv_ack sv (w_log w) (Nak delay)"
  have "delivery_contract pc msg [AckSent (Nak delay) ?o] (map_err (transient ''CER-NORM-NATS-NAK'') ?o)"
    unfolding delivery_contract_def
    by (intro disjI2 exI [of _ "[]"] exI [of _ "Nak delay"] exI [of _ ?o]) (auto simp: justified_def result_simps)
  then show "\<exists>es. w_log (io_effect (AckSent (Nak delay) ?o) w) = w_log w @ es
      \<and> delivery_contract pc msg es (map_err (transient ''CER-NORM-NATS-NAK'') ?o)" by auto
qed

text \<open>An acknowledgement that is justified by the log, and what follows it.\<close>

lemma contract_ack:
  assumes "list_all (\<lambda>e. \<not> is_ack e) (pre @ post)" "justified pc msg pre a" "r = Inr () \<Longrightarrow> outcome = Inr ()"
  shows "delivery_contract pc msg (pre @ AckSent a outcome # post) r"
  using assms unfolding delivery_contract_def by blast

lemma handles_dead_letter:
  fixes pc :: "('o, 't, 'i) processor"
  assumes "dl_original_payload_sha256 letter = sha256_lower_hex (ce_digest (rl_core (pc_libs pc))) (bm_payload msg)"
  shows "handles pc msg (io_match (publish_normalization_dlq sv (pc_libs pc) letter) (\<lambda>r. case r of
      Inr _ \<Rightarrow> io_bind (io_ack sv code Term) (\<lambda>_. io_clear sv (pc_libs pc) c k)
    | Inl _ \<Rightarrow> nak_with_delay sv delay))"
  unfolding handles_def io_post_match
proof
  fix w :: "'i world"
  have nak: "handles pc msg (nak_with_delay sv delay)" by (rule handles_nak)
  let ?Q = "\<lambda>w' r. \<exists>es. w_log w' = w_log w @ es \<and> delivery_contract pc msg es r"
  have "io_post (case r of Inr _ \<Rightarrow> io_bind (io_ack sv code Term) (\<lambda>_. io_clear sv (pc_libs pc) c k)
      | Inl _ \<Rightarrow> nak_with_delay sv delay) w1 ?Q"
    if run: "publish_normalization_dlq sv (pc_libs pc) letter w = Some (w1, r)" for w1 r
  proof (cases r)
    case (Inl e)
    obtain es where "w_log w1 = w_log w @ es" "list_all (\<lambda>e. \<not> is_ack e) es" using addsD [OF quiet_compound(3) run] by blast
    then show ?thesis using nak contract_append Inl unfolding handles_def io_post_def by (metis append.assoc old.sum.simps(5))
  next
    case (Inr u)
    obtain p o1 where p: "dlq_publication (rl_encode_dlq (pc_libs pc)) letter = Inr p" "dlq_accepted o1 = Inr ()"
      "w1 = io_effect (Sent p o1) w"
      using run Inr
      by (auto simp: publish_normalization_dlq_def io_publish_def Let_def elim!: io_bind_Inr)
    have j: "justified pc msg [Sent p o1] Term" using p assms by (auto simp: justified_def)
    show ?thesis
    proof (unfold Inr old.sum.simps io_simps, cases "sv_ack sv (w_log w1) Term")
      case (Inl e)
      then show "case map_err (transient code) (sv_ack sv (w_log w1) Term) of
          Inl e \<Rightarrow> ?Q (io_effect (AckSent Term (sv_ack sv (w_log w1) Term)) w1) (Inl e)
        | Inr x \<Rightarrow> io_post (io_clear sv (pc_libs pc) c k) (io_effect (AckSent Term (sv_ack sv (w_log w1) Term)) w1) ?Q"
        using contract_ack [of "[Sent p o1]" "[]", OF _ j] p(3) by (auto simp: map_err_def)
    next
      case (Inr u)
      have "?Q w2 r2" if clear: "io_clear sv (pc_libs pc) c k (io_effect (AckSent Term (Inr ())) w1) = Some (w2, r2)" for w2 r2
      proof -
        obtain es where "w_log w2 = w_log w @ [Sent p o1] @ AckSent Term (Inr ()) # es" "list_all (\<lambda>e. \<not> is_ack e) es"
          using addsD [OF quiet_parts(8) clear] p(3) by auto
        then show ?thesis using contract_ack [of "[Sent p o1]" es, OF _ j] by auto
      qed
      then show "case map_err (transient code) (sv_ack sv (w_log w1) Term) of
          Inl e \<Rightarrow> ?Q (io_effect (AckSent Term (sv_ack sv (w_log w1) Term)) w1) (Inl e)
        | Inr x \<Rightarrow> io_post (io_clear sv (pc_libs pc) c k) (io_effect (AckSent Term (sv_ack sv (w_log w1) Term)) w1) ?Q"
        using Inr by (simp add: map_err_def io_post_def)
    qed
  qed
  then show "io_post (publish_normalization_dlq sv (pc_libs pc) letter) w (\<lambda>w1 r. io_post (case r of
      Inr _ \<Rightarrow> io_bind (io_ack sv code Term) (\<lambda>_. io_clear sv (pc_libs pc) c k) | Inl _ \<Rightarrow> nak_with_delay sv delay) w1 ?Q)"
    by (simp add: io_post_def)
qed

lemma handles_isolation: "handles pc msg (handle_isolation sv pc msg deliveries key state)"
  unfolding handle_isolation_def
  by (intro handles_bind quiet_best_effort quiet_parts)
    (auto simp: Let_def from_message_def split: prod.split intro!: handles_dead_letter)

lemma handles_failure: "handles pc msg (handle_processing_failure sv pc msg deliveries message_key consumer_name message_id e)"
proof -
  let ?c = "\<lambda>t. io_bind (io_lift (ok_or (fatal ''CER-NORM-RETRY-STATE-TIME'' ''normalizer retry time overflow'')
       (system_time_add t (delay_of pc deliveries message_key)))) (\<lambda>next_retry_at.
     io_bind (io_record_failure sv (pc_libs pc)
       (retry_failure_of pc consumer_name message_key message_id deliveries t next_retry_at e)) (\<lambda>state.
     if \<not> isolation_required state then nak_with_delay sv (delay_of pc deliveries message_key)
     else handle_isolation sv pc msg deliveries message_key state))"
  have "handles pc msg (?c t)" for t
    by (intro handles_bind adds_lift quiet_parts) (auto intro: handles_nak handles_isolation)
  then show ?thesis
    unfolding handles_def io_post_def handle_processing_failure_def Let_def by blast
qed

text \<open>A successful processing, followed by clearing the retry state and the acknowledgement.\<close>

lemma handles_success:
  fixes pc :: "('o, 't, 'i) processor"
  assumes "decode_message pc msg = Inr incoming"
  shows "handles pc msg (io_match (process_message sv pc incoming) (\<lambda>outcome. case outcome of
           Inr _ \<Rightarrow> io_bind (io_clear sv (pc_libs pc) consumer_name message_key) (\<lambda>_. io_ack sv code DoubleAck)
         | Inl e \<Rightarrow> handle_processing_failure sv pc msg deliveries message_key consumer_name message_id e))"
  unfolding handles_def io_post_match
proof
  fix w :: "'i world"
  let ?Q = "\<lambda>w' r. \<exists>es. w_log w' = w_log w @ es \<and> delivery_contract pc msg es r"
  have "io_post (case r of Inr _ \<Rightarrow> io_bind (io_clear sv (pc_libs pc) consumer_name message_key) (\<lambda>_. io_ack sv code DoubleAck)
      | Inl e \<Rightarrow> handle_processing_failure sv pc msg deliveries message_key consumer_name message_id e) w1 ?Q"
    if run: "process_message sv pc incoming w = Some (w1, r)" for w1 r
  proof (cases r)
    case (Inl e)
    obtain es where "w_log w1 = w_log w @ es" "list_all (\<lambda>e. \<not> is_ack e) es" using addsD [OF quiet_process run] by blast
    moreover have "io_post (handle_processing_failure sv pc msg deliveries message_key consumer_name message_id e) w1
        (\<lambda>w' r. \<exists>es. w_log w' = w_log w1 @ es \<and> delivery_contract pc msg es r)"
      using handles_failure unfolding handles_def by blast
    ultimately show ?thesis using contract_append Inl unfolding io_post_def by (metis append.assoc old.sum.simps(5))
  next
    case (Inr u)
    obtain es row where es: "w_log w1 = w_log w @ es" "sn_raw_event_id row = rp_event_id (ic_persisted incoming)"
      "stored_row (pc_libs pc) es row" "published_row (pc_libs pc) (ic_request_id incoming) es row"
      using process_message_Inr [of sv pc incoming w w1] run Inr by auto
    have q: "list_all (\<lambda>e. \<not> is_ack e) es" using addsD [OF quiet_process run] es(1) by auto
    have j: "justified pc msg (es @ es') DoubleAck" for es'
      using assms es(2-4) stored_row_append(1) unfolding justified_def ack_kind.case published_row_def by (metis UnI1 set_append)
    have "?Q w3 r3" if clear: "io_clear sv (pc_libs pc) consumer_name message_key w1 = Some (w2, r2)"
      and rest: "(case r2 of Inl e \<Rightarrow> io_lift (Inl e) | Inr _ \<Rightarrow> io_ack sv code DoubleAck) w2 = Some (w3, r3)" for w2 r2 w3 r3
    proof -
      obtain es2 where es2: "w_log w2 = w_log w @ es @ es2" "list_all (\<lambda>e. \<not> is_ack e) (es @ es2)"
        using addsD [OF quiet_parts(8) clear] es(1) q by auto
      show ?thesis
      proof (cases r2)
        case (Inl e)
        then show ?thesis using rest es2 by (auto simp: delivery_contract_def)
      next
        case (Inr v)
        then have "w_log w3 = w_log w @ (es @ es2) @ AckSent DoubleAck (sv_ack sv (w_log w2) DoubleAck) # []"
          "r3 = Inr () \<Longrightarrow> sv_ack sv (w_log w2) DoubleAck = Inr ()"
          using rest es2 by (auto simp: io_ack_def Let_def map_err_def split: sum.splits)
        then show ?thesis using contract_ack [of "es @ es2" "[]", OF _ j] es2(2) by auto
      qed
    qed
    then show ?thesis
      by (auto simp: Inr io_bind_def io_match_def io_post_def split: option.splits prod.splits)
  qed
  then show "io_post (process_message sv pc incoming) w (\<lambda>w1 r. io_post (case r of
      Inr _ \<Rightarrow> io_bind (io_clear sv (pc_libs pc) consumer_name message_key) (\<lambda>_. io_ack sv code DoubleAck)
    | Inl e \<Rightarrow> handle_processing_failure sv pc msg deliveries message_key consumer_name message_id e) w1 ?Q)"
    by (simp add: io_post_def)
qed

lemma handles_active: "handles pc msg (handle_active sv pc msg message_key consumer_name)"
proof (cases "decode_message pc msg")
  case (Inl e)
  then show ?thesis by (simp add: handle_active_def decode_message_def handles_failure)
next
  case (Inr incoming)
  then show ?thesis
    unfolding handle_active_def decode_message_def [symmetric] Inr
    by (auto intro!: handles_bind adds_lift handles_success simp: Inr)
qed

lemma handles_message: "handles pc msg (handle_message sv pc msg)"
  unfolding handle_message_def Let_def
  by (intro handles_bind adds_lift quiet_parts) (auto intro: handles_isolation handles_active split: option.split)

end
