(* ===== verification/Runtime_Liveness.thy ===== *)
theory Runtime_Liveness
  imports Runtime_Correctness
begin

text \<open>
  When PostgreSQL and the broker answer, a message that is delivered again and again is settled within
  its retry budget, acknowledged or terminated after a dead letter, unless the handler panics or an
  error text cannot be stored; both exceptions are pinned down. ClickHouse and the raw store may fail
  in any way.
\<close>

section \<open>Computations that return\<close>

definition total :: "('i, 'a) io \<Rightarrow> bool" where
  "total c \<longleftrightarrow> (\<forall>w. c w \<noteq> None)"

lemma totalE: "total c \<Longrightarrow> (\<And>w' r. c w = Some (w', r) \<Longrightarrow> thesis) \<Longrightarrow> thesis"
  by (auto simp: total_def)

lemma io_run:
  "c w = Some (w', r) \<Longrightarrow> io_match c f w = f r w'" "c w = Some (w', Inr x) \<Longrightarrow> io_bind c g w = g x w'"
  "io_bind (io_lift (Inr x)) g w = g x w"
  by (simp_all add: io_bind_def io_match_def io_lift_def)

lemma total_lift: "total (io_lift r)"
  by (simp add: total_def io_lift_def)

lemma total_match: "total c \<Longrightarrow> (\<And>r. total (f r)) \<Longrightarrow> total (io_match c f)"
  by (auto simp: total_def io_match_def split: option.splits)

lemma total_bind: "total c \<Longrightarrow> (\<And>x. total (f x)) \<Longrightarrow> total (io_bind c f)"
  unfolding io_bind_def by (intro total_match) (auto intro: total_lift split: sum.splits)

lemma total_parts:
  "total (io_new_uuid libs)" "total (io_insert sv params body)" "total (io_publish sv meaning p)" "total (io_load sv libs c k)"
  "total (io_record_failure sv libs f)" "total (io_clear sv libs c k)" "total (io_ack sv code a)"
  "total (find_by_logical_key sv decode_row db key)"
proof -
  show "total (find_by_logical_key sv decode_row db key)"
    unfolding find_by_logical_key_def by (intro total_bind total_lift) (simp add: total_def Let_def)
qed (simp_all add: total_def io_new_uuid_def io_insert_def io_publish_def io_load_def io_record_failure_def io_clear_def io_ack_def
      Let_def split: prod.split)

text \<open>No panic: the declared length can be allocated and the \<open>time\<close> crate does not panic.\<close>

definition no_panic :: "('o, 't, 'i) processor \<Rightarrow> raw_event_persisted \<Rightarrow> bool" where
  "no_panic pc persisted \<longleftrightarrow> unat (rp_length persisted) \<le> ISIZE_MAX
     \<and> (\<forall>parsed. resolve (ce_time (rl_core (pc_libs pc))) (nc_policies (pc_core pc)) persisted parsed \<noteq> None)"

lemma total_read: "no_panic pc persisted \<Longrightarrow> total (io_read sv (pc_raw_root pc) persisted)"
  by (auto simp: total_def no_panic_def io_read_def raw_read_def split: option.split sum.split)

lemma build_total:
  "resolve (ce_time env) (nc_policies core) persisted parsed \<noteq> None \<Longrightarrow> build_normalization_plan env core persisted parsed \<noteq> None"
  by (auto simp: build_normalization_plan_def split: sum.split prod.split)

lemma normalize_total:
  assumes "\<And>parsed. resolve (ce_time env) (nc_policies core) persisted parsed \<noteq> None"
  shows "normalize env core incoming persisted raw \<noteq> None"
  using build_total [OF assms] by (simp add: normalize_def split: sum.split)

lemma total_normalize:
  fixes pc :: "('o, 't, 'i) processor"
  assumes "no_panic pc persisted"
  shows "total (io_normalize sv pc incoming persisted raw)"
  unfolding total_def
proof
  fix w :: "'i world"
  let ?core = "(pc_core pc)\<lparr>nc_clock := system_clock (rl_before_epoch (pc_libs pc)) (sv_now sv (w_log w)), nc_ids := w_ids w\<rparr>"
  have "normalize (rl_core (pc_libs pc)) ?core incoming persisted raw \<noteq> None"
    by (rule normalize_total) (use assms in \<open>simp add: no_panic_def\<close>)
  then show "io_normalize sv pc incoming persisted raw w \<noteq> None" by (auto simp: io_normalize_def)
qed

lemma total_process:
  assumes "no_panic pc (ic_persisted incoming)"
  shows "total (process_message sv pc incoming)"
  unfolding process_message_def normalize_and_store_def insert_and_read_back_def publish_normalized_def
  by (intro total_bind total_read [OF assms])
    (auto intro!: total_bind total_lift total_parts total_normalize [OF assms] split: sum.split option.split)

section \<open>Processing does not touch the retry states\<close>

definition keeps_table :: "('i, 'a) io \<Rightarrow> bool" where
  "keeps_table c \<longleftrightarrow> (\<forall>w. io_post c w (\<lambda>w' _. w_table w' = w_table w))"

lemma keeps_lift: "keeps_table (io_lift r)"
  by (simp add: keeps_table_def io_simps)

lemma keeps_match: "keeps_table c \<Longrightarrow> (\<And>r. keeps_table (f r)) \<Longrightarrow> keeps_table (io_match c f)"
  unfolding keeps_table_def io_post_def by (fastforce simp: io_match_def split: option.splits)

lemma keeps_bind: "keeps_table c \<Longrightarrow> (\<And>x. keeps_table (f x)) \<Longrightarrow> keeps_table (io_bind c f)"
  unfolding io_bind_def by (intro keeps_match) (auto intro: keeps_lift split: sum.splits)

lemma keeps_parts:
  "keeps_table (io_normalize sv pc incoming persisted raw)" "keeps_table (io_new_uuid libs)"
  "keeps_table (io_read sv root_path persisted)" "keeps_table (io_insert sv params body)"
  "keeps_table (io_publish sv meaning p)" "keeps_table (find_by_logical_key sv decode_row db key)"
proof -
  show "keeps_table (find_by_logical_key sv decode_row db key)"
    unfolding find_by_logical_key_def by (intro keeps_bind keeps_lift) (simp add: keeps_table_def io_simps Let_def)
qed (auto simp: keeps_table_def io_post_def io_normalize_def io_new_uuid_def io_read_def io_insert_def io_publish_def Let_def
      split: option.splits prod.splits)

lemma keeps_process: "keeps_table (process_message sv pc incoming)"
  unfolding process_message_def normalize_and_store_def insert_and_read_back_def publish_normalized_def
  by (intro keeps_bind keeps_parts)
    (auto intro!: keeps_bind keeps_lift keeps_parts split: sum.split option.split)

lemma keeps_best_effort: "keeps_table (best_effort_parser_identity sv pc msg)"
  unfolding best_effort_parser_identity_def io_ok_def by (intro keeps_match keeps_bind keeps_lift keeps_parts)

section \<open>Recording a failure\<close>

text \<open>How many more deliveries may fail before the message is settled.\<close>

definition deliveries_left :: "32 word \<Rightarrow> retry_state option \<Rightarrow> nat" where
  "deliveries_left budget state = (case state of
      None \<Rightarrow> unat budget
    | Some s \<Rightarrow> if isolation_required s then 1 else unat (rs_retry_budget s) - unat (rs_failure_count s))"

lemma record_failure_healthy:
  assumes "retry_table_ok table" "mono to_pg" "wf_failure f" "clean_failure f"
    and "\<And>e. state_of table (failure_key f) = Some e \<Longrightarrow> \<not> isolation_required e"
  obtains s where "record_failure show_pg to_pg (Answered, Answered) f table = (table(failure_key f \<mapsto> row_of s), Inr s)"
    "wf_state s" "failure_key f = (rs_consumer_name s, rs_message_key s)"
    "\<not> isolation_required s \<Longrightarrow>
       deliveries_left (rf_retry_budget f) (Some s) < deliveries_left (rf_retry_budget f) (state_of table (failure_key f))"
proof -
  let ?g = "pg_failure to_pg f"
  have valid: "validate_failure f = Inr ()" using assms(3) validate_failure_ok [of f] by simp
  have g: "wf_failure ?g" using wf_pg_failure [OF assms(3,2)] .
  note up = upsert_effect [OF assms(1,3,4,2)]
  show thesis
  proof (cases "state_of table (failure_key f)")
    case None
    let ?s = "first_retry_state ?g"
    have "wf_state ?s" by (rule first_state_ok [OF g])
    moreover from this have "record_failure show_pg to_pg (Answered, Answered) f table = (table(failure_key f \<mapsto> row_of ?s), Inr ?s)"
      using up None by (simp add: record_failure_def valid)
    moreover have "unat (rf_retry_budget f) > 0" using assms(3) by (simp add: wf_failure_def uint_pos_iff unat_gt_0)
    ultimately show ?thesis using None
      by (intro that [of ?s]) (auto simp: failure_key_def first_retry_state_def pg_failure_def deliveries_left_def)
  next
    case (Some e)
    then have e: "wf_state e" "rs_consumer_name e = rf_consumer_name ?g" "rs_message_key e = rf_message_key ?g"
      using state_of_Some [OF assms(1)] by (auto simp: failure_key_def pg_failure_def)
    have active: "\<not> isolation_required e" using assms(5) [OF Some] .
    let ?s = "next_retry_state e ?g (rs_failure_count e + 1)"
    have "wf_state ?s" by (rule next_state_ok [OF e(1) active g e(2,3)])
    moreover from this have "record_failure show_pg to_pg (Answered, Answered) f table = (table(failure_key f \<mapsto> row_of ?s), Inr ?s)"
      using up Some active by (simp add: record_failure_def valid Let_def)
    moreover have "unat (rs_failure_count e) < unat (rs_retry_budget e)"
      using active_below_budget [OF e(1) active] by (simp add: word_less_def [symmetric] word_less_nat_alt)
    ultimately show ?thesis using Some active e uint_count_Suc(3) [OF active_below_budget [OF e(1) active]]
      by (intro that [of ?s]) (auto simp: failure_key_def next_retry_state_def pg_failure_def deliveries_left_def Let_def)
  qed
qed

section \<open>One delivery under working services\<close>

definition config_consumer :: "'o runtime_config \<Rightarrow> string" where
  "config_consumer config = projr (normalizer_consumer_name (cf_execution_mode config) (cf_replay_input config))"

definition message_key_of :: "('o, 't, 'i) processor \<Rightarrow> bus_message \<Rightarrow> string" where
  "message_key_of pc msg = delivery_identity (ce_digest (rl_core (pc_libs pc))) msg"

text \<open>PostgreSQL answers, the dead letter stream accepts, the broker takes acknowledgements, and the clock is
  far from the end of time.\<close>

definition healthy :: "services \<Rightarrow> ('o, 't, 'i) processor \<Rightarrow> bool" where
  "healthy sv pc \<longleftrightarrow> (\<forall>log. sv_fates sv log = (Answered, Answered))
     \<and> (\<forall>log p. pb_subject p = NORMALIZATION_DLQ_SUBJECT \<longrightarrow> dlq_accepted (sv_publish sv log p) = Inr ())
     \<and> (\<forall>log a. sv_ack sv log a = Inr ())
     \<and> (\<forall>log. 0 \<le> sv_now sv log \<and> fits_i64 ((sv_now sv log + int (cf_retry_max_delay (pc_config pc))) div 10 ^ 9))"

text \<open>The libraries: dead letters have a JSON text, a version 7 UUID parses to a non-zero identity, digests have
  their length and the database keeps the order of instants.\<close>

definition sound_libs :: "('o, 't, 'i) processor \<Rightarrow> bool" where
  "sound_libs pc \<longleftrightarrow> (\<forall>letter. \<exists>bytes. rl_encode_dlq (pc_libs pc) letter = Inr bytes)
     \<and> (\<forall>text. uuid_v7 text \<longrightarrow> (\<exists>u. rl_parse_uuid (pc_libs pc) text = Inr u \<and> u \<noteq> 0))
     \<and> (\<forall>bytes. length (ce_digest (rl_core (pc_libs pc)) bytes) = 32) \<and> mono (rl_to_pg (pc_libs pc))
     \<and> validate_config (pc_config pc) = Inr (pc_config pc)"

text \<open>The error of a failed attempt fits the columns of the retry table.\<close>

definition storable :: "normalizer_error \<Rightarrow> bool" where
  "storable e \<longleftrightarrow> clean (ne_code e) \<and> clean (ne_message e) \<and> trim (ne_code e) \<noteq> ''''"

text \<open>An error with which an attempt can fail: the payload does not decode, or processing fails.\<close>

definition attempt_error :: "services \<Rightarrow> ('o, 't, 'i) processor \<Rightarrow> bus_message \<Rightarrow> normalizer_error \<Rightarrow> bool" where
  "attempt_error sv pc msg e \<longleftrightarrow> (case decode_message pc msg of
      Inl e' \<Rightarrow> e = e' | Inr incoming \<Rightarrow> (\<exists>w w'. process_message sv pc incoming w = Some (w', Inl e)))"

text \<open>A message on which the process can panic.\<close>

definition may_panic :: "('o, 't, 'i) processor \<Rightarrow> bus_message \<Rightarrow> bool" where
  "may_panic pc msg \<longleftrightarrow> (case decode_message pc msg of Inl _ \<Rightarrow> False | Inr incoming \<Rightarrow> \<not> no_panic pc (ic_persisted incoming))"

text \<open>The error that the handler returns when the error of an attempt is not storable.\<close>

definition record_refusal :: "('o, 't, 'i) processor \<Rightarrow> normalizer_error \<Rightarrow> normalizer_error" where
  "record_refusal pc e = (if trim (ne_code e) = '''' then retry_state_error ''retry error code is required''
     else postgres_error ''record retry failure'' (rl_show_pg (pc_libs pc) InvalidText))"

definition settled :: "effect list \<Rightarrow> bool" where
  "settled es \<longleftrightarrow> AckSent DoubleAck (Inr ()) \<in> set es \<or> AckSent Term (Inr ()) \<in> set es"

definition settled_since :: "'i world \<Rightarrow> 'i world \<Rightarrow> bool" where
  "settled_since w w' \<longleftrightarrow> settled (drop (length (w_log w)) (w_log w'))"

lemma settled_sinceI: "w_log w' = w_log w @ es \<Longrightarrow> settled es \<Longrightarrow> settled_since w w'"
  by (simp add: settled_since_def)

lemma config_facts:
  assumes "sound_libs pc"
  shows "normalizer_consumer_name (cf_execution_mode (pc_config pc)) (cf_replay_input (pc_config pc)) = Inr (config_consumer (pc_config pc))"
    and "trim (config_consumer (pc_config pc)) \<noteq> ''''" "clean (config_consumer (pc_config pc))"
    and "1 \<le> uint (cf_retry_budget (pc_config pc))"
proof -
  have valid: "cf_execution_mode (pc_config pc) \<noteq> ModeUnspecified" "cf_retry_budget (pc_config pc) \<noteq> 0"
    using assms by (auto simp: sound_libs_def validate_config_def result_simps split: if_splits)
  then show "1 \<le> uint (cf_retry_budget (pc_config pc))" by (simp add: uint_pos_iff)
  have "trim ''normalizer'' \<noteq> []" "trim ''normalizer-replay'' \<noteq> []" "trim ''normalizer-replay-selective'' \<noteq> []" "trim ''normalizer-test'' \<noteq> []"
    by (rule trim_nonempty [of "CHR ''n''"]; simp add: solid_def byte_def)+
  with valid(1) show "normalizer_consumer_name (cf_execution_mode (pc_config pc)) (cf_replay_input (pc_config pc)) = Inr (config_consumer (pc_config pc))"
    "trim (config_consumer (pc_config pc)) \<noteq> ''''" "clean (config_consumer (pc_config pc))"
    by (cases "cf_execution_mode (pc_config pc)"; cases "cf_replay_input (pc_config pc)";
        simp add: config_consumer_def normalizer_consumer_name_def normalizer_consumer_route_def bus_constants clean_def)+
qed

lemma length_show_nat: "n < 10 ^ Suc k \<Longrightarrow> length (show_nat n) \<le> Suc k"
proof (induction k arbitrary: n)
  case (Suc k)
  then have "n div 10 < 10 ^ Suc k" by (simp add: less_mult_imp_div_less mult.commute)
  from Suc.IH [OF this] show ?case by (subst show_nat.simps) simp
qed (subst show_nat.simps, simp)

lemma key_facts:
  assumes "sound_libs pc"
  shows "trim (message_key_of pc msg) \<noteq> ''''" "length (message_key_of pc msg) \<le> 256" "clean (message_key_of pc msg)"
proof -
  let ?hash = "sha256_lower_hex (ce_digest (rl_core (pc_libs pc))) (bm_payload msg)"
  have hash: "valid_sha256_text ?hash" using assms by (intro valid_sha256_text_lower_hex) (simp add: sound_libs_def)
  then have hash: "length ?hash = 64" "clean ?hash"
    by (auto simp: valid_sha256_text_def clean_def is_lower_hexdigit_def is_ascii_digit_def byte_def)
  have digits: "clean (show_nat n)" for n
    using show_nat_digits [of n] by (auto simp: clean_def is_ascii_digit_def byte_def)
  have short: "length (show_nat (unat (n :: 64 word))) \<le> 249" for n
    using length_show_nat [of "unat n" 19] unat_bound_u64 [of n] by simp
  show "trim (message_key_of pc msg) \<noteq> ''''"
    by (rule trim_nonempty [of "hd (message_key_of pc msg)"])
      (auto simp: message_key_of_def delivery_identity_def solid_def byte_def split: option.split)
  show "length (message_key_of pc msg) \<le> 256" "clean (message_key_of pc msg)"
    using hash digits short
    by (auto simp: message_key_of_def delivery_identity_def clean_def split: option.split intro: order_trans)
qed

text \<open>The outcome of a delivery under working services: it succeeds and keeps the table in order, and either
  settles the message or leaves fewer deliveries.\<close>

definition progress :: "('o, 't, 'i) processor \<Rightarrow> string \<times> string \<Rightarrow> 'i world \<Rightarrow> 'i world \<Rightarrow> (unit, normalizer_error) result \<Rightarrow> bool" where
  "progress pc k w w' r \<longleftrightarrow> r = Inr () \<and> retry_table_ok (w_table w') \<and> (settled_since w w'
     \<or> deliveries_left (cf_retry_budget (pc_config pc)) (state_of (w_table w') k)
         < deliveries_left (cf_retry_budget (pc_config pc)) (state_of (w_table w) k))"

lemma healthy_facts:
  assumes "healthy sv pc"
  shows "sv_fates sv es = (Answered, Answered)" "sv_ack sv es a = Inr ()"
    "pb_subject p = NORMALIZATION_DLQ_SUBJECT \<Longrightarrow> dlq_accepted (sv_publish sv es p) = Inr ()"
    "delay \<le> cf_retry_max_delay (pc_config pc) \<Longrightarrow> system_time_add (sv_now sv es) delay = Some (sv_now sv es + int delay)"
proof -
  show "sv_fates sv es = (Answered, Answered)" "sv_ack sv es a = Inr ()"
    "pb_subject p = NORMALIZATION_DLQ_SUBJECT \<Longrightarrow> dlq_accepted (sv_publish sv es p) = Inr ()"
    using assms by (simp_all add: healthy_def)
  assume "delay \<le> cf_retry_max_delay (pc_config pc)"
  then have "(sv_now sv es + int delay) div 10 ^ 9 \<le> (sv_now sv es + int (cf_retry_max_delay (pc_config pc))) div 10 ^ 9"
    by (intro zdiv_mono1) auto
  moreover have "0 \<le> (sv_now sv es + int delay) div 10 ^ 9"
    using assms by (auto simp: healthy_def pos_imp_zdiv_nonneg_iff intro: add_nonneg_nonneg)
  moreover have "fits_i64 ((sv_now sv es + int (cf_retry_max_delay (pc_config pc))) div 10 ^ 9)"
    using assms by (simp add: healthy_def)
  ultimately show "system_time_add (sv_now sv es) delay = Some (sv_now sv es + int delay)"
    by (simp add: system_time_add_def fits_i64_def)
qed

lemma delay_bound: "delay_of pc deliveries key \<le> cf_retry_max_delay (pc_config pc)"
  by (simp add: delay_of_def retry_delay_with_jitter_def Let_def)

lemma clear_healthy:
  assumes "healthy sv pc" "wf_key c k" "clean c" "clean k"
  shows "io_clear sv (pc_libs pc) c k w = Some (io_effect RetryStatement (w\<lparr>w_table := (w_table w)((c, k) := None)\<rparr>), Inr ())"
  using assms validate_key_ok [of c k "()"]
  by (simp add: io_clear_def retry_clear_def healthy_facts pg_text_def clean_def)

lemma total_best_effort:
  assumes "\<not> may_panic pc msg"
  shows "total (best_effort_parser_identity sv pc msg)"
proof (cases "decode_message pc msg")
  case (Inl e)
  then show ?thesis
    by (simp add: best_effort_parser_identity_def decode_message_def io_ok_def io_bind_def total_def io_match_def io_lift_def)
next
  case (Inr incoming)
  have "total (io_bind (io_read sv (pc_raw_root pc) (ic_persisted incoming)) (\<lambda>raw.
     io_lift (parser_identity (pc_core pc) (ic_persisted incoming) raw)))"
    by (intro total_bind total_read total_lift) (use assms Inr in \<open>simp add: may_panic_def\<close>)
  then show ?thesis
    using Inr
    by (auto simp: best_effort_parser_identity_def decode_message_def io_ok_def io_bind_def total_def io_match_def io_lift_def
        split: option.split)
qed

lemma total_handle:
  fixes pc :: "('o, 't, 'i) processor"
  assumes "\<not> may_panic pc msg"
  shows "total (handle_message sv pc msg)"
proof -
  have isolation: "total (handle_isolation sv pc msg d k s)" for d k s
    unfolding handle_isolation_def publish_normalization_dlq_def nak_with_delay_def Let_def
    by (intro total_bind total_match total_parts total_lift total_best_effort [OF assms])
      (auto intro!: total_bind total_parts split: sum.split)
  have failure: "total (handle_processing_failure sv pc msg d k c i e)" for d k c i e
    unfolding total_def
  proof
    fix w :: "'i world"
    have "total (io_bind (io_lift (ok_or (fatal ''CER-NORM-RETRY-STATE-TIME'' ''normalizer retry time overflow'')
       (system_time_add (sv_now sv (w_log w)) (delay_of pc d k)))) (\<lambda>next_retry_at.
     io_bind (io_record_failure sv (pc_libs pc)
       (retry_failure_of pc c k i d (sv_now sv (w_log w)) next_retry_at e)) (\<lambda>state.
     if \<not> isolation_required state then nak_with_delay sv (delay_of pc d k)
     else handle_isolation sv pc msg d k state)))"
      unfolding nak_with_delay_def by (intro total_bind total_lift total_parts) (auto intro: total_parts isolation)
    then show "handle_processing_failure sv pc msg d k c i e w \<noteq> None"
      unfolding handle_processing_failure_def Let_def total_def by blast
  qed
  have active: "total (handle_active sv pc msg k c)" for k c
  proof (cases "decode_message pc msg")
    case (Inl e)
    then show ?thesis using failure by (simp add: handle_active_def decode_message_def)
  next
    case (Inr incoming)
    then have "total (process_message sv pc incoming)" using assms by (intro total_process) (simp add: may_panic_def)
    with Inr show ?thesis
      by (auto simp: handle_active_def decode_message_def intro!: total_bind total_lift total_match total_parts failure split: sum.split)
  qed
  show ?thesis
    unfolding handle_message_def Let_def
    by (intro total_bind total_lift total_parts) (auto intro: isolation active split: option.split)
qed

lemma quiet_extends: "quiet c \<Longrightarrow> c w = Some (w', r) \<Longrightarrow> \<exists>es. w_log w' = w_log w @ es"
  using addsD by blast

lemma isolation_settles:
  assumes "healthy sv pc" "sound_libs pc" and returns: "handle_isolation sv pc msg deliveries key state w \<noteq> None"
    and "wf_state state" "clean (rs_consumer_name state)" "clean (rs_message_key state)"
  shows "\<exists>w' es. handle_isolation sv pc msg deliveries key state w = Some (w', Inr ())
    \<and> w_table w' = (w_table w)((rs_consumer_name state, rs_message_key state) := None) \<and> w_log w' = w_log w @ es \<and> settled es"
proof -
  obtain w1 r1 where w1: "best_effort_parser_identity sv pc msg w = Some (w1, r1)"
    using returns by (auto simp: handle_isolation_def io_bind_def io_match_def split: option.splits)
  then obtain identity where r1: "r1 = Inr identity"
    by (auto simp: best_effort_parser_identity_def io_ok_def io_match_def io_lift_def split: option.splits)
  have t1: "w_table w1 = w_table w" using keeps_best_effort [of sv pc msg] w1 unfolding keeps_table_def io_post_def by blast
  obtain es1 where es1: "w_log w1 = w_log w @ es1" using quiet_extends [OF quiet_best_effort w1] by blast
  obtain w2 record_id where w2: "io_new_uuid (pc_libs pc) w1 = Some (w2, Inr record_id)" "w_log w2 = w_log w1" "w_table w2 = w_table w1"
    by (cases "rl_now_v7 (pc_libs pc) (w_ids w1)") (simp add: io_new_uuid_def)
  let ?letter = "from_message (ce_digest (rl_core (pc_libs pc))) (rl_decode_envelope (pc_libs pc)) (rl_decode_persisted (pc_libs pc))
    record_id msg (rs_consumer_name state) (dead_letter_failure_of deliveries state) identity"
  obtain bytes where "rl_encode_dlq (pc_libs pc) ?letter = Inr bytes" using assms(2) unfolding sound_libs_def by blast
  then obtain p where p: "dlq_publication (rl_encode_dlq (pc_libs pc)) ?letter = Inr p" "pb_subject p = NORMALIZATION_DLQ_SUBJECT"
    by (simp add: dlq_publication_def)
  let ?w3 = "io_effect (Sent p (sv_publish sv (w_log w2) p)) w2"
  let ?w4 = "io_effect (AckSent Term (Inr ())) ?w3"
  have pub: "publish_normalization_dlq sv (pc_libs pc) ?letter w2 = Some (?w3, Inr ())"
    using p healthy_facts(3) [OF assms(1)]
    by (simp add: publish_normalization_dlq_def io_bind_def io_match_def io_lift_def io_publish_def Let_def)
  have key: "wf_key (rs_consumer_name state) (rs_message_key state)" using assms(4) by (simp add: wf_state_def)
  have "handle_isolation sv pc msg deliveries key state w
      = Some (io_effect RetryStatement (?w4\<lparr>w_table := (w_table ?w4)((rs_consumer_name state, rs_message_key state) := None)\<rparr>), Inr ())"
    unfolding handle_isolation_def
    by (simp add: io_bind_def io_match_def w1 r1 w2(1) Let_def pub io_ack_def healthy_facts(2) [OF assms(1)]
        clear_healthy [OF assms(1) key assms(5,6)] del: io_lift_Inr)
  then show ?thesis using t1 w2 es1
    by (intro exI [of _ "io_effect RetryStatement (?w4\<lparr>w_table := (w_table ?w4)((rs_consumer_name state, rs_message_key state) := None)\<rparr>)"]
        exI [of _ "es1 @ [Sent p (sv_publish sv (w_log w2) p), AckSent Term (Inr ()), RetryStatement]"]) (simp add: settled_def)
qed

lemma progress_prefix:
  "w_log w1 = w_log w @ es \<Longrightarrow> w_table w1 = w_table w \<Longrightarrow> progress pc k w1 w' r \<Longrightarrow> (\<exists>es'. w_log w' = w_log w1 @ es')
     \<Longrightarrow> progress pc k w w' r"
  by (auto simp: progress_def settled_since_def settled_def)

lemma failure_progress:
  assumes pc: "healthy sv pc" "sound_libs pc"
    and returns: "handle_processing_failure sv pc msg (deliveries_of msg) (message_key_of pc msg) (config_consumer (pc_config pc))
      message_id e w \<noteq> None"
    and e: "storable e" "message_id \<noteq> Some 0" and table: "retry_table_ok (w_table w)"
    and active: "\<And>s. state_of (w_table w) (config_consumer (pc_config pc), message_key_of pc msg) = Some s \<Longrightarrow> \<not> isolation_required s"
  shows "\<exists>w' r es. handle_processing_failure sv pc msg (deliveries_of msg) (message_key_of pc msg) (config_consumer (pc_config pc))
      message_id e w = Some (w', r) \<and> w_log w' = w_log w @ es
      \<and> progress pc (config_consumer (pc_config pc), message_key_of pc msg) w w' r"
proof -
  let ?c = "config_consumer (pc_config pc)" and ?k = "message_key_of pc msg" and ?now = "sv_now sv (w_log w)"
  let ?delay = "delay_of pc (deliveries_of msg) ?k"
  let ?f = "retry_failure_of pc ?c ?k message_id (deliveries_of msg) ?now (?now + int ?delay) e"
  have wf: "wf_failure ?f" "clean_failure ?f" "failure_key ?f = (?c, ?k)" "rf_retry_budget ?f = cf_retry_budget (pc_config pc)"
    using e config_facts [OF pc(2)] key_facts [OF pc(2)]
    by (auto simp: wf_failure_def clean_failure_def retry_failure_of_def wf_key_def storable_def failure_key_def deliveries_of_def
        split: option.splits)
  have mono: "mono (rl_to_pg (pc_libs pc))" using pc(2) by (simp add: sound_libs_def)
  obtain s where s: "record_failure (rl_show_pg (pc_libs pc)) (rl_to_pg (pc_libs pc)) (Answered, Answered) ?f (w_table w)
      = ((w_table w)((?c, ?k) \<mapsto> row_of s), Inr s)" "wf_state s" "(?c, ?k) = (rs_consumer_name s, rs_message_key s)"
    "\<not> isolation_required s \<Longrightarrow> deliveries_left (cf_retry_budget (pc_config pc)) (Some s)
       < deliveries_left (cf_retry_budget (pc_config pc)) (state_of (w_table w) (?c, ?k))"
    using record_failure_healthy [OF table mono wf(1,2)] active unfolding wf(3,4) by metis
  let ?w1 = "io_effect RetryStatement (w\<lparr>w_table := (w_table w)((?c, ?k) \<mapsto> row_of s)\<rparr>)"
  have ok1: "retry_table_ok (w_table ?w1)" using retry_table_ok_upd [OF table s(2)] s(3) by simp
  have run: "handle_processing_failure sv pc msg (deliveries_of msg) ?k ?c message_id e w
      = (if \<not> isolation_required s then nak_with_delay sv ?delay else handle_isolation sv pc msg (deliveries_of msg) ?k s) ?w1"
    by (simp add: handle_processing_failure_def Let_def healthy_facts(1,4) [OF pc(1)] delay_bound io_bind_def io_match_def
        io_lift_def io_record_failure_def s(1) del: io_lift_Inr)
  show ?thesis
  proof (cases "isolation_required s")
    case True
    have "clean (rs_consumer_name s)" "clean (rs_message_key s)" 
      using config_facts(3) [OF pc(2)] key_facts(3) [OF pc(2), of msg] s(3) by simp_all
    moreover have "handle_isolation sv pc msg (deliveries_of msg) ?k s ?w1 \<noteq> None" using returns True by (simp add: run)
    ultimately obtain w' es where w': "handle_isolation sv pc msg (deliveries_of msg) ?k s ?w1 = Some (w', Inr ())"
      "w_table w' = (w_table ?w1)((?c, ?k) := None)" "w_log w' = w_log ?w1 @ es" "settled es"
      using isolation_settles [OF pc _ s(2), of msg "deliveries_of msg" ?k ?w1] s(3) by auto
    then have "progress pc (?c, ?k) w w' (Inr ())"
      using retry_table_ok_del [OF table] by (auto simp: progress_def intro!: settled_sinceI [of w' w "RetryStatement # es"] simp: settled_def)
    with w' True show ?thesis
      by (intro exI [of _ w'] exI [of _ "Inr ()"] exI [of _ "RetryStatement # es"]) (simp add: run)
  next
    case False
    let ?w' = "io_effect (AckSent (Nak ?delay) (Inr ())) ?w1"
    have "progress pc (?c, ?k) w ?w' (Inr ())"
      using ok1 s(4) False state_of_upd [OF s(2)] by (auto simp: progress_def)
    with False show ?thesis
      by (intro exI [of _ ?w'] exI [of _ "Inr ()"] exI [of _ "[RetryStatement, AckSent (Nak ?delay) (Inr ())]"])
        (simp add: run nak_with_delay_def io_ack_def healthy_facts(2) [OF pc(1)])
  qed
qed

lemma failure_refused:
  assumes "healthy sv pc" "sound_libs pc" "\<not> storable e" "message_id \<noteq> Some 0"
  shows "handle_processing_failure sv pc msg (deliveries_of msg) (message_key_of pc msg) (config_consumer (pc_config pc))
      message_id e w = Some (io_effect RetryStatement w, Inl (record_refusal pc e))"
proof -
  let ?c = "config_consumer (pc_config pc)" and ?k = "message_key_of pc msg" and ?now = "sv_now sv (w_log w)"
  let ?f = "retry_failure_of pc ?c ?k message_id (deliveries_of msg) ?now (?now + int (delay_of pc (deliveries_of msg) ?k)) e"
  have key: "validate_key ?c ?k = Inr ()" "clean ?c" "clean ?k"
    using config_facts [OF assms(2)] key_facts [OF assms(2)] validate_key_ok [of ?c ?k "()"] by (simp_all add: wf_key_def)
  have budget: "cf_retry_budget (pc_config pc) \<noteq> 0" "1 \<le> deliveries_of msg"
    using config_facts(4) [OF assms(2)] by (auto simp: deliveries_of_def split: option.split)
  have "record_failure (rl_show_pg (pc_libs pc)) (rl_to_pg (pc_libs pc)) (Answered, Answered) ?f (w_table w)
      = (w_table w, Inl (record_refusal pc e))"
  proof (cases "trim (ne_code e) = ''''")
    case True
    then have "validate_failure ?f = Inl (retry_state_error ''retry error code is required'')"
      using key(1) assms(4) budget by (simp add: validate_failure_def retry_failure_of_def)
    then show ?thesis using True by (simp add: record_failure_def record_refusal_def)
  next
    case False
    then have "validate_failure ?f = Inr ()"
      using key(1) assms(4) budget by (simp add: validate_failure_def retry_failure_of_def)
    moreover have "retry_upsert (rl_to_pg (pc_libs pc)) ?f (w_table w) = Inl InvalidText"
      using key(2,3) assms(3) False by (auto simp: retry_upsert_def retry_failure_of_def pg_text_def clean_def storable_def)
    ultimately show ?thesis using False by (simp add: record_failure_def record_refusal_def)
  qed
  then show ?thesis
    by (simp add: handle_processing_failure_def Let_def healthy_facts(1,4) [OF assms(1)] delay_bound io_bind_def io_match_def
        io_lift_def io_record_failure_def del: io_lift_Inr io_effect_simps)
qed

text \<open>What a handled delivery has done: progress, or a refusal of the retry table.\<close>

definition delivery_done :: "services \<Rightarrow> ('o, 't, 'i) processor \<Rightarrow> bus_message \<Rightarrow> 'i world \<Rightarrow> 'i world \<Rightarrow> (unit, normalizer_error) result \<Rightarrow> bool" where
  "delivery_done sv pc msg w w' r \<longleftrightarrow> progress pc (config_consumer (pc_config pc), message_key_of pc msg) w w' r
     \<or> (\<exists>e. attempt_error sv pc msg e \<and> \<not> storable e \<and> r = Inl (record_refusal pc e))"

lemma failure_done:
  assumes pc: "healthy sv pc" "sound_libs pc" "retry_table_ok (w_table w)"
    and e: "attempt_error sv pc msg e" "message_id \<noteq> Some 0"
    and active: "\<And>s. state_of (w_table w) (config_consumer (pc_config pc), message_key_of pc msg) = Some s \<Longrightarrow> \<not> isolation_required s"
    and run: "handle_processing_failure sv pc msg (deliveries_of msg) (message_key_of pc msg) (config_consumer (pc_config pc))
      message_id e w = Some (w', r)"
  shows "\<exists>es. w_log w' = w_log w @ es \<and> delivery_done sv pc msg w w' r"
proof (cases "storable e")
  case True
  then show ?thesis
    using failure_progress [OF pc(1,2) _ True e(2) pc(3) active] run unfolding delivery_done_def by fastforce
next
  case False
  then show ?thesis
    using failure_refused [OF pc(1,2) False e(2), of msg w] run e(1) by (auto simp: delivery_done_def)
qed

lemma active_done:
  assumes "healthy sv pc" "sound_libs pc" "retry_table_ok (w_table w)"
    and active: "\<And>s. state_of (w_table w) (config_consumer (pc_config pc), message_key_of pc msg) = Some s \<Longrightarrow> \<not> isolation_required s"
    and handled: "handle_active sv pc msg (message_key_of pc msg) (config_consumer (pc_config pc)) w = Some (w', r)"
  shows "\<exists>es. w_log w' = w_log w @ es \<and> delivery_done sv pc msg w w' r"
proof (cases "decode_message pc msg")
  case (Inl e)
  show ?thesis
    by (rule failure_done [OF assms(1-3) _ _ active, of msg e None])
      (use Inl handled in \<open>simp_all add: attempt_error_def handle_active_def decode_message_def\<close>)
next
  case (Inr incoming)
  let ?c = "config_consumer (pc_config pc)" and ?k = "message_key_of pc msg"
  have "uuid_v7 (en_message_id (ic_envelope incoming))"
    using Inr by (auto simp: decode_message_def decode_raw_persisted_def result_simps wf_envelope_def split: if_splits)
  then obtain u where u: "rl_parse_uuid (pc_libs pc) (en_message_id (ic_envelope incoming)) = Inr u" "u \<noteq> 0"
    using assms(2) by (auto simp: sound_libs_def)
  have unfold: "handle_active sv pc msg ?k ?c w = io_match (process_message sv pc incoming) (\<lambda>outcome. case outcome of
      Inr _ \<Rightarrow> io_bind (io_clear sv (pc_libs pc) ?c ?k) (\<lambda>_. io_ack sv ''CER-NORM-NATS-ACK'' DoubleAck)
    | Inl e \<Rightarrow> handle_processing_failure sv pc msg (deliveries_of msg) ?k ?c (Some u) e) w"
    using Inr u(1) by (simp add: handle_active_def decode_message_def parse_message_id_def io_run(3))
  obtain w1 r1 where w1: "process_message sv pc incoming w = Some (w1, r1)"
    using handled unfolding unfold by (auto simp: io_match_def split: option.splits)
  have t1: "w_table w1 = w_table w" using keeps_process [of sv pc incoming] w1 unfolding keeps_table_def io_post_def by blast
  obtain es1 where es1: "w_log w1 = w_log w @ es1" using quiet_extends [OF quiet_process w1] by blast
  show ?thesis
  proof (cases r1)
    case (Inl e)
    have "attempt_error sv pc msg e" unfolding attempt_error_def using Inr w1 Inl by auto
    moreover have "handle_processing_failure sv pc msg (deliveries_of msg) ?k ?c (Some u) e w1 = Some (w', r)"
      using handled w1 Inl by (simp add: unfold io_run)
    ultimately obtain es where "w_log w' = w_log w1 @ es" "delivery_done sv pc msg w1 w' r"
      using failure_done [OF assms(1,2), of w1 msg e "Some u"] assms(3) active t1 u(2) by auto
    then show ?thesis using es1 progress_prefix [OF es1 t1, of pc] by (auto simp: delivery_done_def)
  next
    case (Inr x)
    have key: "wf_key ?c ?k" "clean ?c" "clean ?k"
      using config_facts [OF assms(2)] key_facts [OF assms(2)] by (simp_all add: wf_key_def)
    let ?w2 = "io_effect RetryStatement (w1\<lparr>w_table := (w_table w1)((?c, ?k) := None)\<rparr>)"
    have "w' = io_effect (AckSent DoubleAck (Inr ())) ?w2 \<and> r = Inr ()"
      using handled w1 Inr
      by (simp add: unfold io_match_def io_bind_def clear_healthy [OF assms(1) key] io_ack_def healthy_facts(2) [OF assms(1)])
    then show ?thesis
      using retry_table_ok_del [OF assms(3)] es1 t1
      by (auto simp: delivery_done_def progress_def intro!: settled_sinceI simp: settled_def)
  qed
qed

lemma delivery_outcome:
  assumes "healthy sv pc" "sound_libs pc" "retry_table_ok (w_table w)" "handle_message sv pc msg w = Some (w', r)"
  shows "delivery_done sv pc msg w w' r"
proof -
  let ?c = "config_consumer (pc_config pc)" and ?k = "message_key_of pc msg"
  have key: "wf_key ?c ?k" "clean ?c" "clean ?k"
    using config_facts [OF assms(2)] key_facts [OF assms(2)] by (simp_all add: wf_key_def)
  let ?w1 = "io_effect RetryStatement w"
  have load: "io_load sv (pc_libs pc) ?c ?k w = Some (?w1, Inr (state_of (w_table w) (?c, ?k)))"
    by (simp add: io_load_def healthy_facts(1) [OF assms(1)] load_effect [OF assms(3) key])
  have run: "handle_message sv pc msg w = (case state_of (w_table w) (?c, ?k) of
       Some s \<Rightarrow> if isolation_required s then handle_isolation sv pc msg (deliveries_of msg) ?k s else handle_active sv pc msg ?k ?c
     | None \<Rightarrow> handle_active sv pc msg ?k ?c) ?w1"
    by (simp add: handle_message_def Let_def config_facts(1) [OF assms(2)] message_key_of_def [symmetric] io_run(3) io_run(2) [where c = "io_load sv (pc_libs pc) ?c ?k", OF load])
  show ?thesis
  proof (cases "\<exists>s. state_of (w_table w) (?c, ?k) = Some s \<and> isolation_required s")
    case True
    then obtain s where s: "state_of (w_table w) (?c, ?k) = Some s" "isolation_required s" by blast
    then have wf: "wf_state s" "rs_consumer_name s = ?c" "rs_message_key s = ?k" using state_of_Some [OF assms(3)] by auto
    have handled: "handle_isolation sv pc msg (deliveries_of msg) ?k s ?w1 = Some (w', r)" using assms(4) s by (simp add: run)
    obtain es where "r = Inr ()" "w_table w' = (w_table w)((?c, ?k) := None)" "w_log w' = w_log w @ RetryStatement # es" "settled es"
      using isolation_settles [OF assms(1,2) _ wf(1), of msg "deliveries_of msg" ?k ?w1] handled key wf by auto
    then show ?thesis
      using retry_table_ok_del [OF assms(3)] by (auto simp: delivery_done_def progress_def intro!: settled_sinceI simp: settled_def)
  next
    case False
    then have "handle_active sv pc msg ?k ?c ?w1 = Some (w', r)" using assms(4) by (auto simp: run split: option.splits)
    moreover have "\<not> isolation_required s" if "state_of (w_table ?w1) (?c, ?k) = Some s" for s using False that by auto
    ultimately obtain es where "w_log w' = w_log ?w1 @ es" "delivery_done sv pc msg ?w1 w' r"
      using active_done [OF assms(1,2), of ?w1 msg] assms(3) by auto
    then show ?thesis using progress_prefix [of ?w1 w "[RetryStatement]" pc] by (auto simp: delivery_done_def)
  qed
qed

section \<open>Redelivery\<close>

text \<open>The broker delivers a message until it is acknowledged or terminated; each delivery meets its own
  services. The process ends when the handler returns an error, or panics.\<close>

datatype delivery_end = DeliverySettled | DeliveryPending | HandlerFailed normalizer_error | HandlerPanicked

fun deliver_until_settled :: "('o, 't, 'i) processor \<Rightarrow> (services \<times> bus_message) list \<Rightarrow> 'i world \<Rightarrow> 'i world \<times> delivery_end" where
  "deliver_until_settled pc [] w = (w, DeliveryPending)"
| "deliver_until_settled pc ((sv, msg) # rest) w = (case handle_message sv pc msg w of
      None \<Rightarrow> (w, HandlerPanicked)
    | Some (w', Inl e) \<Rightarrow> (w', HandlerFailed e)
    | Some (w', Inr _) \<Rightarrow> if settled_since w w' then (w', DeliverySettled) else deliver_until_settled pc rest w')"

definition delivery_ends :: "('o, 't, 'i) processor \<Rightarrow> (services \<times> bus_message) list \<Rightarrow> delivery_end \<Rightarrow> bool" where
  "delivery_ends pc ds x = (case x of
      DeliverySettled \<Rightarrow> True
    | DeliveryPending \<Rightarrow> False
    | HandlerFailed e \<Rightarrow> (\<exists>(sv, msg) \<in> set ds. \<exists>cause. attempt_error sv pc msg cause \<and> \<not> storable cause \<and> e = record_refusal pc cause)
    | HandlerPanicked \<Rightarrow> (\<exists>(sv, msg) \<in> set ds. may_panic pc msg))"

lemma settles_within:
  assumes "sound_libs pc" "\<forall>(sv, msg) \<in> set ds. healthy sv pc \<and> message_key_of pc msg = key"
    and "retry_table_ok (w_table w)"
    and "deliveries_left (cf_retry_budget (pc_config pc)) (state_of (w_table w) (config_consumer (pc_config pc), key)) \<le> length ds"
  shows "delivery_ends pc ds (snd (deliver_until_settled pc ds w))"
  using assms(2-4)
proof (induction ds arbitrary: w)
  case Nil
  then show ?case
  proof (cases "state_of (w_table w) (config_consumer (pc_config pc), key)")
    case None
    then show ?thesis using Nil config_facts(4) [OF assms(1)] by (simp add: deliveries_left_def uint_pos_iff unat_eq_0)
  next
    case (Some s)
    then have "wf_state s" using state_of_Some [OF Nil(2)] by blast
    then show ?thesis
      using Nil Some active_below_budget [of s]
      by (auto simp: deliveries_left_def word_less_def [symmetric] word_less_nat_alt split: if_splits)
  qed
next
  case (Cons d ds)
  obtain sv msg where d: "d = (sv, msg)" by (cases d)
  have msg: "healthy sv pc" "message_key_of pc msg = key" using Cons.prems(1) d by auto
  show ?case
  proof (cases "handle_message sv pc msg w")
    case None
    then have "may_panic pc msg" using total_handle [of pc msg sv] unfolding total_def by blast
    with None show ?thesis by (simp add: d delivery_ends_def)
  next
    case (Some y)
    obtain w' r where w': "handle_message sv pc msg w = Some (w', r)" using Some by (cases y) auto
    have done': "delivery_done sv pc msg w w' r" by (rule delivery_outcome [OF msg(1) assms(1) Cons.prems(2) w'])
    show ?thesis
    proof (cases "r = Inr () \<and> \<not> settled_since w w'")
      case True
      then have p: "progress pc (config_consumer (pc_config pc), key) w w' r" using done' msg(2) by (simp add: delivery_done_def)
      have "delivery_ends pc ds (snd (deliver_until_settled pc ds w'))"
        by (rule Cons.IH) (use Cons.prems p True in \<open>auto simp: progress_def\<close>)
      then have "delivery_ends pc (d # ds) (snd (deliver_until_settled pc ds w'))"
        by (auto simp: delivery_ends_def split: delivery_end.splits)
      with True w' show ?thesis by (simp add: d)
    next
      case False
      then show ?thesis using w' done' by (cases r) (auto simp: d delivery_ends_def delivery_done_def progress_def)
    qed
  qed
qed

text \<open>C15: redelivery settles a message within its budget. When PostgreSQL and the broker answer, redelivering
  a message as often as its retry budget leaves settles it, acknowledged or terminated after a dead
  letter, however often ClickHouse or the raw store fail; the message never just stays pending. Two
  things can come first: the handler returns the refusal of the retry table, and then the error of
  an attempt has a zero byte in its text or a blank code; or the process panics, and then the
  message declares more bytes than can be allocated or the \<open>time\<close> crate panics on its time.\<close>

theorem redelivery_settles:
  assumes "sound_libs pc" "reachable_table show_pg (rl_to_pg (pc_libs pc)) (w_table w)"
    and "\<forall>(sv, msg) \<in> set ds. healthy sv pc \<and> message_key_of pc msg = key"
    and "deliveries_left (cf_retry_budget (pc_config pc)) (state_of (w_table w) (config_consumer (pc_config pc), key)) \<le> length ds"
    and "deliver_until_settled pc ds w = (w', outcome)"
  shows "outcome = DeliverySettled
    \<or> (\<exists>(sv, msg) \<in> set ds. \<exists>e. attempt_error sv pc msg e \<and> \<not> storable e \<and> outcome = HandlerFailed (record_refusal pc e))
    \<or> (\<exists>(sv, msg) \<in> set ds. may_panic pc msg \<and> outcome = HandlerPanicked)"
proof -
  have "retry_table_ok (w_table w)" using reachable_table_ok [OF assms(2)] assms(1) by (simp add: sound_libs_def)
  from settles_within [OF assms(1,3) this assms(4)] show ?thesis
    using assms(5) by (cases outcome) (auto simp: delivery_ends_def)
qed

end
