(* ===== verification/Runtime_Loop.thy ===== *)
theory Runtime_Loop
  imports Runtime_Correctness
begin

text \<open>
  The process around the handler (\<open>run_with_metrics\<close> of \<open>runtime.rs\<close>, consumers of \<open>eventbus.rs\<close>, \<open>main.rs\<close>):
  connecting, the consumer, the loop that selects between the shutdown signal and the next message,
  the clean shutdown and the exit code. What the loop's \<open>select\<close> yields is a list of events, each with the
  services its handling meets; a list that ends before the loop returns describes a process that is
  still running. The connections, the watch channel and the JetStream client are parameters.
\<close>

section \<open>Consumers\<close>

datatype ack_policy = AckExplicit

record pull_config =
  cg_durable_name :: "string option"
  cg_deliver_policy :: deliver_policy
  cg_ack_policy :: ack_policy
  cg_filter_subject :: string
  cg_max_ack_pending :: int

record broker =
  br_get_stream :: "string \<Rightarrow> (unit, string) result"
  br_get_or_create :: "string \<Rightarrow> pull_config \<Rightarrow> (unit, string) result"
  br_delete :: "string \<Rightarrow> (unit, string) result"

text \<open>What the process asks the broker about consumers, in order; a call appears once it is made.\<close>

datatype admin_call = GetStream string | CreateConsumer string pull_config | DeleteConsumer string

type_synonym 'a admin = "admin_call list \<times> ('a, normalizer_error) result"

definition admin_call :: "admin_call \<Rightarrow> (unit, string) result \<Rightarrow> unit admin" where
  "admin_call c outcome = ([c], map_err transport_error outcome)"

definition admin_lift :: "('a, normalizer_error) result \<Rightarrow> 'a admin" where
  "admin_lift r = ([], r)"

definition admin_bind :: "'a admin \<Rightarrow> ('a \<Rightarrow> 'b admin) \<Rightarrow> 'b admin" where
  "admin_bind m f = (case m of
      (calls, Inl e) \<Rightarrow> (calls, Inl e)
    | (calls, Inr x) \<Rightarrow> (case f x of (calls', r) \<Rightarrow> (calls @ calls', r)))"

definition consumer_config :: "execution_mode \<Rightarrow> replay_input \<Rightarrow> string \<Rightarrow> string \<Rightarrow> pull_config" where
  "consumer_config mode input consumer_name filter_subject =
    \<lparr>cg_durable_name = Some consumer_name, cg_deliver_policy = normalizer_deliver_policy mode input,
     cg_ack_policy = AckExplicit, cg_filter_subject = filter_subject, cg_max_ack_pending = 1\<rparr>"

definition open_consumer :: "broker \<Rightarrow> execution_mode \<Rightarrow> replay_input \<Rightarrow> unit admin" where
  "open_consumer br mode input =
    admin_bind (admin_lift (normalizer_consumer_route mode input)) (\<lambda>(consumer_name, filter_subject).
    admin_bind (admin_call (GetStream RAW_STREAM_NAME) (br_get_stream br RAW_STREAM_NAME)) (\<lambda>_.
    let config = consumer_config mode input consumer_name filter_subject in
    admin_call (CreateConsumer consumer_name config) (br_get_or_create br consumer_name config)))"

definition delete_execution_consumer :: "broker \<Rightarrow> execution_mode \<Rightarrow> replay_input \<Rightarrow> unit admin" where
  "delete_execution_consumer br mode input =
    (if mode = Live then admin_lift (Inr ())
     else
       admin_bind (admin_lift (normalizer_consumer_route mode input)) (\<lambda>(consumer_name, _).
       admin_bind (admin_call (GetStream RAW_STREAM_NAME) (br_get_stream br RAW_STREAM_NAME)) (\<lambda>_.
       admin_call (DeleteConsumer consumer_name) (br_delete br consumer_name))))"

section \<open>The loop\<close>

datatype loop_event =
    ShutdownChanged bool
  | ShutdownDropped
  | MessagesEnded
  | MessageFailed string
  | MessageReceived bus_message

datatype run_outcome = StillRunning | Stopped "(unit, normalizer_error) result"

definition clean_shutdown :: "broker \<Rightarrow> ('o, 't, 'i) processor \<Rightarrow> unit admin" where
  "clean_shutdown br pc = delete_execution_consumer br (cf_execution_mode (pc_config pc)) (cf_replay_input (pc_config pc))"

definition shut_down ::
  "broker \<Rightarrow> ('o, 't, 'i) processor \<Rightarrow> 'i world \<Rightarrow> ('i world \<times> admin_call list \<times> run_outcome) option" where
  "shut_down br pc w = (case clean_shutdown br pc of (calls, r) \<Rightarrow> Some (w, calls, Stopped r))"

fun processing_loop ::
  "broker \<Rightarrow> ('o, 't, 'i) processor \<Rightarrow> (services \<times> loop_event) list \<Rightarrow> 'i world
     \<Rightarrow> ('i world \<times> admin_call list \<times> run_outcome) option" where
  "processing_loop br pc [] w = Some (w, [], StillRunning)"
| "processing_loop br pc ((sv, ShutdownChanged requested) # rest) w =
    (if requested then shut_down br pc w else processing_loop br pc rest w)"
| "processing_loop br pc ((sv, ShutdownDropped) # rest) w = shut_down br pc w"
| "processing_loop br pc ((sv, MessagesEnded) # rest) w = Some (w, [],
    Stopped (Inl (transient ''CER-NORM-NATS-CLOSED'' ''normalizer JetStream consumer stream ended'')))"
| "processing_loop br pc ((sv, MessageFailed e) # rest) w = Some (w, [], Stopped (Inl (transient ''CER-NORM-NATS-CONSUME'' e)))"
| "processing_loop br pc ((sv, MessageReceived msg) # rest) w = (case handle_message sv pc msg w of
      None \<Rightarrow> None
    | Some (w', Inl e) \<Rightarrow> Some (w', [], Stopped (Inl e))
    | Some (w', Inr _) \<Rightarrow> processing_loop br pc rest w')"

section \<open>The process\<close>

record connections =
  cn_postgres :: "(unit, string) result"
  cn_nats :: "(unit, string) result"
  cn_messages :: "(unit, string) result"

text \<open>Everything before the loop, in the order of the source. The clock and the identities of the core are
  replaced by those of the world whenever it runs.\<close>

definition start_processor ::
  "('o, 't, 'i) runtime_libs \<Rightarrow> format_libs \<Rightarrow> raw_fs \<Rightarrow> connections \<Rightarrow> broker \<Rightarrow> 'o runtime_config
     \<Rightarrow> (timestamp, normalizer_error) result \<Rightarrow> 'i \<Rightarrow> ('o, 't, 'i) processor admin" where
  "start_processor libs formats fs cn br config clock ids =
    admin_bind (admin_lift (new_raw_reader fs (cf_raw_store_path config))) (\<lambda>root_path.
    admin_bind (admin_lift (map_err (transient ''CER-NORM-RETRY-STATE-POSTGRES-CONNECT'') (cn_postgres cn))) (\<lambda>_.
    admin_bind (admin_lift (map_err transport_error (cn_nats cn))) (\<lambda>_.
    admin_bind (open_consumer br (cf_execution_mode config) (cf_replay_input config)) (\<lambda>_.
    admin_bind (admin_lift (map_err (transient ''CER-NORM-NATS-CONSUME'') (cn_messages cn))) (\<lambda>_.
    admin_bind (admin_lift (build_core formats config clock (rl_now_v7 libs) ids)) (\<lambda>core.
    admin_lift (Inr \<lparr>pc_config = config, pc_raw_root = root_path, pc_core = core, pc_libs = libs\<rparr>)))))))"

text \<open>The outer \<open>select\<close>: the end of the database connection stops the process and drops the loop, wherever
  its handler was waiting.\<close>

definition race_postgres :: "(unit, string) result option \<Rightarrow> run_outcome \<Rightarrow> run_outcome" where
  "race_postgres ended outcome = (case ended of
      None \<Rightarrow> outcome
    | Some (Inr _) \<Rightarrow> Stopped (Inl (transient ''CER-NORM-RETRY-STATE-POSTGRES-CLOSED''
        ''normalizer retry-state PostgreSQL connection closed''))
    | Some (Inl e) \<Rightarrow> Stopped (Inl (transient ''CER-NORM-RETRY-STATE-POSTGRES-CONNECTION'' e)))"

definition run_with_metrics ::
  "('o, 't, 'i) runtime_libs \<Rightarrow> format_libs \<Rightarrow> raw_fs \<Rightarrow> connections \<Rightarrow> broker \<Rightarrow> 'o runtime_config
     \<Rightarrow> (timestamp, normalizer_error) result \<Rightarrow> (unit, string) result option \<Rightarrow> (services \<times> loop_event) list \<Rightarrow> 'i world
     \<Rightarrow> ('i world \<times> admin_call list \<times> run_outcome) option" where
  "run_with_metrics libs formats fs cn br config clock pg_ended events w =
    (case start_processor libs formats fs cn br config clock (w_ids w) of
       (calls, Inl e) \<Rightarrow> Some (w, calls, Stopped (Inl e))
     | (calls, Inr pc) \<Rightarrow> (case processing_loop br pc events w of
           None \<Rightarrow> None
         | Some (w', calls', outcome) \<Rightarrow> Some (w', calls @ calls', race_postgres pg_ended outcome)))"

text \<open>The exit code, once the process has one.\<close>

definition normalizer_main ::
  "('o, 't) time_lib \<Rightarrow> (string \<Rightarrow> string option) \<Rightarrow> ('o runtime_config \<Rightarrow> run_outcome) \<Rightarrow> nat option" where
  "normalizer_main lib env run = (case from_env lib env of
      Inl _ \<Rightarrow> Some 2
    | Inr config \<Rightarrow> (case run config of
        StillRunning \<Rightarrow> None | Stopped (Inr _) \<Rightarrow> Some 0 | Stopped (Inl _) \<Rightarrow> Some 1))"

section \<open>Every cut of a run is safe\<close>

text \<open>The effects of a handling that may have been cut: at most one acknowledgement, and what justifies it came
  before.\<close>

definition delivery_safe :: "('o, 't, 'i) processor \<Rightarrow> bus_message \<Rightarrow> effect list \<Rightarrow> bool" where
  "delivery_safe pc msg es \<longleftrightarrow> (\<forall>pre a outcome post. es = pre @ AckSent a outcome # post \<longrightarrow>
     justified pc msg pre a \<and> list_all (\<lambda>e. \<not> is_ack e) (pre @ post))"

fun received :: "(services \<times> loop_event) list \<Rightarrow> bus_message list" where
  "received [] = []"
| "received ((sv, MessageReceived msg) # rest) = msg # received rest"
| "received ((sv, _) # rest) = received rest"

text \<open>The log of a run that was cut anywhere: messages in the order received, each finished before the
  next, the last one possibly cut.\<close>

inductive run_log :: "('o, 't, 'i) processor \<Rightarrow> bus_message list \<Rightarrow> effect list \<Rightarrow> bool" for pc where
  run_log_start: "run_log pc msgs []"
| run_log_cut: "delivery_safe pc msg es \<Longrightarrow> run_log pc (msg # msgs) es"
| run_log_next: "delivery_contract pc msg es (Inr ()) \<Longrightarrow> run_log pc msgs es' \<Longrightarrow> run_log pc (msg # msgs) (es @ es')"

lemma ack_split_unique:
  assumes "pre @ AckSent a outcome # post = pre' @ AckSent a' outcome' # post'" "list_all (\<lambda>e. \<not> is_ack e) (pre @ post)"
  shows "pre = pre' \<and> a = a' \<and> outcome = outcome' \<and> post = post'"
  using assms
proof (induction pre arbitrary: pre')
  case Nil
  then show ?case by (cases pre') auto
next
  case (Cons e pre)
  then show ?case by (cases pre') auto
qed

lemma contract_safe:
  assumes "delivery_contract pc msg es r"
  shows "delivery_safe pc msg es"
  using assms unfolding delivery_contract_def
proof (elim disjE exE conjE)
  assume "list_all (\<lambda>e. \<not> is_ack e) es"
  then show ?thesis by (auto simp: delivery_safe_def)
next
  fix pre a outcome post
  assume "es = pre @ AckSent a outcome # post" "list_all (\<lambda>e. \<not> is_ack e) (pre @ post)" "justified pc msg pre a"
  then show ?thesis using ack_split_unique [of pre a outcome post] unfolding delivery_safe_def by metis
qed

lemma safe_prefix:
  assumes "delivery_safe pc msg es" "prefix kept es"
  shows "delivery_safe pc msg kept"
proof -
  obtain rest where es: "es = kept @ rest" using assms(2) by (auto simp: prefix_def)
  show ?thesis
    using assms(1) unfolding delivery_safe_def es
    by (metis append.assoc append_Cons list_all_append)
qed

text \<open>One handled message: what it added to the log.\<close>

lemma handled_log:
  assumes "handle_message sv pc msg w = Some (w', r)"
  obtains es where "w_log w' = w_log w @ es" "delivery_contract pc msg es r"
  using handles_message assms unfolding handles_def io_post_def by blast

lemma loop_log_grows: "processing_loop br pc events w = Some (w', calls, outcome) \<Longrightarrow> prefix (w_log w) (w_log w')"
proof (induction br pc events w rule: processing_loop.induct)
  case (6 br pc sv msg rest w)
  then obtain w1 r where w1: "handle_message sv pc msg w = Some (w1, r)" by (auto split: option.splits)
  then have "prefix (w_log w) (w_log w1)" by (auto elim!: handled_log)
  with 6 w1 show ?case by (auto split: sum.splits intro: prefix_order.order_trans)
qed (auto simp: shut_down_def split: if_splits prod.splits)

lemma run_log_of_loop:
  assumes "processing_loop br pc events w = Some (w', calls, outcome)" "prefix (w_log w @ kept) (w_log w')"
  shows "run_log pc (received events) kept"
  using assms
proof (induction br pc events w arbitrary: kept rule: processing_loop.induct)
  case (6 br pc sv msg rest w)
  then obtain w1 r where w1: "handle_message sv pc msg w = Some (w1, r)" by (auto split: option.splits)
  then obtain es where es: "w_log w1 = w_log w @ es" "delivery_contract pc msg es r" by (rule handled_log)
  have grows: "prefix (w_log w1) (w_log w')"
    using 6(2) w1 loop_log_grows [of br pc rest w1] by (auto split: sum.splits)
  show ?case
  proof (cases "prefix kept es")
    case True
    then show ?thesis by (simp add: run_log_cut safe_prefix [OF contract_safe [OF es(2)]])
  next
    case False
    then have "prefix es kept"
      using 6(3) grows es(1) by (metis prefix_same_cases same_prefix_prefix)
    then obtain kept' where kept: "kept = es @ kept'" by (auto simp: prefix_def)
    have "kept' \<noteq> []" using False kept by auto
    then have "r = Inr ()" using 6(2,3) w1 es(1) kept by (cases r) auto
    moreover from this have "run_log pc (received rest) kept'"
      using 6(1) [OF w1] 6(2,3) w1 es(1) kept by auto
    ultimately show ?thesis using es(2) by (simp add: kept run_log_next)
  qed
qed (auto simp: shut_down_def intro: run_log_start split: if_splits prod.splits)

section \<open>Starting and stopping\<close>

lemma admin_bind_Inr: "admin_bind m f = (calls, Inr y) \<longleftrightarrow>
    (\<exists>c x c'. m = (c, Inr x) \<and> f x = (c', Inr y) \<and> calls = c @ c')"
  by (auto simp: admin_bind_def split: prod.splits sum.splits)

lemma admin_lift_Inr: "admin_lift r = (calls, Inr y) \<longleftrightarrow> calls = [] \<and> r = Inr y"
  by (auto simp: admin_lift_def)

lemma admin_call_Inr: "admin_call c outcome = (calls, Inr y) \<longleftrightarrow> calls = [c] \<and> outcome = Inr ()"
  by (cases outcome) (auto simp: admin_call_def)

lemmas admin_simps = admin_bind_Inr admin_lift_Inr admin_call_Inr

lemma start_processor_Inr:
  assumes "start_processor libs formats fs cn br config clock ids = (calls, Inr pc)"
  shows "pc_libs pc = libs \<and> pc_config pc = config"
  using assms by (auto simp: start_processor_def admin_simps)

lemma open_consumer_calls:
  assumes "(calls, r) = open_consumer br mode input"
  shows "DeleteConsumer n \<notin> set calls"
  using assms
  by (auto simp: open_consumer_def admin_bind_def admin_lift_def admin_call_def Let_def split: sum.splits prod.splits)

text \<open>A clean shutdown that succeeds deletes the consumer of a replay or a test and leaves the live one.\<close>

lemma clean_shutdown_Inr:
  assumes "clean_shutdown br pc = (calls, Inr ())"
  shows "if cf_execution_mode (pc_config pc) = Live then calls = []
    else \<exists>name. normalizer_consumer_name (cf_execution_mode (pc_config pc)) (cf_replay_input (pc_config pc)) = Inr name
      \<and> calls = [GetStream RAW_STREAM_NAME, DeleteConsumer name] \<and> br_delete br name = Inr ()"
  using assms
  by (auto simp: clean_shutdown_def delete_execution_consumer_def normalizer_consumer_name_def admin_simps)

fun asks_shutdown :: "loop_event \<Rightarrow> bool" where
  "asks_shutdown (ShutdownChanged requested) = requested"
| "asks_shutdown ShutdownDropped = True"
| "asks_shutdown _ = False"

text \<open>The loop returns without an error exactly at a shutdown, and the messages before it were all handled.\<close>

lemma loop_stopped:
  assumes "processing_loop br pc events w = Some (w', calls, Stopped (Inr ()))"
  shows "clean_shutdown br pc = (calls, Inr ()) \<and> (\<exists>served sv ev rest es. events = served @ (sv, ev) # rest \<and> asks_shutdown ev
    \<and> w_log w' = w_log w @ concat es \<and> list_all2 (\<lambda>msg es. delivery_contract pc msg es (Inr ())) (received served) es)"
  using assms
proof (induction br pc events w rule: processing_loop.induct)
  case (2 br pc sv requested rest w)
  show ?case
  proof (cases requested)
    case True
    with 2 show ?thesis
      by (auto simp: shut_down_def split: prod.splits intro!: exI [of _ "[]"])
  next
    case False
    with 2 obtain served sv' ev rest' es where ih: "clean_shutdown br pc = (calls, Inr ())" "rest = served @ (sv', ev) # rest'"
      "asks_shutdown ev" "w_log w' = w_log w @ concat es"
      "list_all2 (\<lambda>msg es. delivery_contract pc msg es (Inr ())) (received served) es" by auto
    then have "(sv, ShutdownChanged requested) # rest = ((sv, ShutdownChanged requested) # served) @ (sv', ev) # rest'"
      and "received ((sv, ShutdownChanged requested) # served) = received served" by simp_all
    with ih show ?thesis by metis
  qed
next
  case (6 br pc sv msg rest w)
  then obtain w1 where w1: "handle_message sv pc msg w = Some (w1, Inr ())" "processing_loop br pc rest w1 = Some (w', calls, Stopped (Inr ()))"
    by (auto split: option.splits sum.splits)
  obtain es where es: "w_log w1 = w_log w @ es" "delivery_contract pc msg es (Inr ())" using w1(1) by (rule handled_log)
  obtain served sv' ev rest' ess where ih: "clean_shutdown br pc = (calls, Inr ())" "rest = served @ (sv', ev) # rest'"
    "asks_shutdown ev" "w_log w' = w_log w1 @ concat ess"
    "list_all2 (\<lambda>msg es. delivery_contract pc msg es (Inr ())) (received served) ess"
    using 6(1) [OF w1(1) _ refl w1(2)] by auto
  have "(sv, MessageReceived msg) # rest = ((sv, MessageReceived msg) # served) @ (sv', ev) # rest'"
    "w_log w' = w_log w @ concat (es # ess)"
    "list_all2 (\<lambda>msg es. delivery_contract pc msg es (Inr ())) (received ((sv, MessageReceived msg) # served)) (es # ess)"
    using ih es by simp_all
  with ih(1,3) show ?case by blast
qed (auto simp: shut_down_def split: prod.splits intro!: exI [of _ "[]"])

text \<open>C14: no message is lost, wherever the process stops. Take the log of a run up to any point, whatever the
  services answered: when the process is killed or the database connection ends there, the messages
  were handled one after the other in the order received; each earlier one sent exactly one
  acknowledgement, taken by the broker; and every acknowledgement in the log, that of the interrupted
  message too, came after what justifies it: the row of this raw event answered by the store and its
  publication accepted, or, for a termination, an accepted dead letter of this payload.\<close>

theorem run_hands_over:
  assumes "run_with_metrics libs formats fs cn br config clock pg_ended events w = Some (w', calls, outcome)"
    and "prefix (w_log w @ kept) (w_log w')"
  shows "\<exists>pc. pc_libs pc = libs \<and> pc_config pc = config \<and> run_log pc (received events) kept"
proof (cases "start_processor libs formats fs cn br config clock (w_ids w)")
  case (Pair start r)
  show ?thesis
  proof (cases r)
    case (Inl e)
    then have "kept = []" using assms Pair by (auto simp: run_with_metrics_def)
    then show ?thesis
      using run_log_start [of "\<lparr>pc_config = config, pc_raw_root = '''', pc_core = undefined, pc_libs = libs\<rparr>" "received events"]
      by (metis processor.select_convs(1,4))
  next
    case (Inr pc)
    then obtain calls' outcome' where "processing_loop br pc events w = Some (w', calls', outcome')"
      using assms(1) Pair by (auto simp: run_with_metrics_def split: option.splits)
    note logged = run_log_of_loop [OF this assms(2)]
    have "pc_libs pc = libs \<and> pc_config pc = config" by (rule start_processor_Inr) (use Pair Inr in simp)
    with logged show ?thesis by blast
  qed
qed

lemma start_keeps_consumers:
  assumes "start_processor libs formats fs cn br config clock ids = (calls, Inr pc)"
  shows "DeleteConsumer name \<notin> set calls"
  using assms by (auto simp: start_processor_def admin_simps dest!: open_consumer_calls [OF sym])

text \<open>A process that ends without an error was asked to shut down. Every message received before was
  settled by an acknowledgement the broker took, and the consumer of a replay or a test is deleted
  last, while the live consumer, which holds the position in the stream, is never deleted.\<close>

theorem run_stops_cleanly:
  assumes "run_with_metrics libs formats fs cn br config clock pg_ended events w = Some (w', calls, Stopped (Inr ()))"
  shows "\<exists>pc served sv ev rest es. pc_libs pc = libs \<and> events = served @ (sv, ev) # rest \<and> asks_shutdown ev
    \<and> w_log w' = w_log w @ concat es \<and> list_all2 (\<lambda>msg es. delivery_contract pc msg es (Inr ())) (received served) es
    \<and> (if cf_execution_mode config = Live then \<forall>name. DeleteConsumer name \<notin> set calls
       else \<exists>name. normalizer_consumer_name (cf_execution_mode config) (cf_replay_input config) = Inr name
         \<and> last calls = DeleteConsumer name)"
proof -
  obtain start pc calls' where run: "start_processor libs formats fs cn br config clock (w_ids w) = (start, Inr pc)"
    "processing_loop br pc events w = Some (w', calls', Stopped (Inr ()))" "calls = start @ calls'"
    using assms by (auto simp: run_with_metrics_def race_postgres_def split: prod.splits sum.splits option.splits)
  note pc = start_processor_Inr [OF run(1)]
  have "if cf_execution_mode config = Live then \<forall>name. DeleteConsumer name \<notin> set calls
       else \<exists>name. normalizer_consumer_name (cf_execution_mode config) (cf_replay_input config) = Inr name
         \<and> last calls = DeleteConsumer name"
    using clean_shutdown_Inr [OF conjunct1 [OF loop_stopped [OF run(2)]]] start_keeps_consumers [OF run(1)] pc run(3)
    by (auto split: if_splits)
  with conjunct2 [OF loop_stopped [OF run(2)]] pc show ?thesis by blast
qed

end
