(* ===== verification/Runtime_Failures.thy ===== *)
theory Runtime_Failures
  imports Runtime_Liveness Runtime_Loop
begin

text \<open>
  Messages the normalizer cannot get rid of: a zero byte in the message type cannot be recorded in the
  retry table, and a declared length beyond the address space panics the reader. Both stop the
  process with the message unsettled and no failure recorded, so the next delivery does the same.
\<close>

section \<open>A zero byte in the error text\<close>

lemma unstorable_decode_refused:
  assumes "sound_libs pc" "healthy sv pc" "retry_table_ok (w_table w)" "state_of (w_table w) (config_consumer (pc_config pc), message_key_of pc msg) = None"
    and "decode_message pc msg = Inl e" "\<not> storable e"
  shows "handle_message sv pc msg w = Some (io_effect RetryStatement (io_effect RetryStatement w), Inl (record_refusal pc e))"
proof -
  let ?c = "config_consumer (pc_config pc)" and ?k = "message_key_of pc msg" and ?w1 = "io_effect RetryStatement w"
  have key: "wf_key ?c ?k" "clean ?c" "clean ?k"
    using config_facts [OF assms(1)] key_facts [OF assms(1)] by (simp_all add: wf_key_def)
  have load: "io_load sv (pc_libs pc) ?c ?k w = Some (?w1, Inr None)"
    using assms(4) by (simp add: io_load_def healthy_facts(1) [OF assms(2)] load_effect [OF assms(3) key])
  have "handle_message sv pc msg w = handle_processing_failure sv pc msg (deliveries_of msg) ?k ?c None e ?w1"
    using assms(5)
    by (simp add: handle_message_def Let_def config_facts(1) [OF assms(1)] message_key_of_def [symmetric] io_run(3)
        io_run(2) [where c = "io_load sv (pc_libs pc) ?c ?k", OF load] handle_active_def decode_message_def)
  then show ?thesis using failure_refused [OF assms(2,1,6), of None] by simp
qed

lemma trim_code: "c = CHR ''C'' \<Longrightarrow> trim (c # s) \<noteq> []"
  by (rule trim_nonempty [of c]) (simp_all add: solid_def byte_def)

text \<open>A process that is started again each time it has stopped: one list of loop events per start, and what
  each start came to.\<close>

fun restarted ::
  "broker \<Rightarrow> ('o, 't, 'i) processor \<Rightarrow> (services \<times> loop_event) list list \<Rightarrow> 'i world \<Rightarrow> ('i world \<times> run_outcome list) option" where
  "restarted br pc [] w = Some (w, [])"
| "restarted br pc (events # starts) w = (case processing_loop br pc events w of
      None \<Rightarrow> None
    | Some (w', _, outcome) \<Rightarrow> map_option (\<lambda>(w'', outcomes). (w'', outcome # outcomes)) (restarted br pc starts w'))"

text \<open>C34: a valid envelope whose message type contains a zero byte stops the normalizer, at every start. The
  refusal of the message quotes the type in its error text, PostgreSQL rejects the text, the handler
  returns that error and the loop ends with it, although PostgreSQL and the broker work. Nothing else
  happens: each start makes its two statements on the retry table, which stays as it is, and sends no
  acknowledgement and no dead letter, so the broker delivers the message to the next start.\<close>

theorem nul_message_type_stops_normalizer:
  assumes "sound_libs pc" "retry_table_ok (w_table w)" "state_of (w_table w) (config_consumer (pc_config pc), message_key_of pc msg) = None"
    and "rl_decode_envelope (pc_libs pc) (bm_payload msg) = Inr envelope" "wf_envelope envelope" "CHR 0x00 \<in> set (en_message_type envelope)"
    and "\<forall>events \<in> set starts. \<exists>sv m rest. events = (sv, MessageReceived m) # rest \<and> healthy sv pc
      \<and> bm_payload m = bm_payload msg \<and> message_key_of pc m = message_key_of pc msg"
  shows "\<exists>w'. restarted br pc starts w = Some (w', replicate (length starts)
        (Stopped (Inl (postgres_error ''record retry failure'' (rl_show_pg (pc_libs pc) InvalidText)))))
      \<and> w_table w' = w_table w \<and> w_log w' = w_log w @ replicate (2 * length starts) RetryStatement"
  using assms(2,3,7)
proof (induction starts arbitrary: w)
  case (Cons events starts)
  obtain sv m rest where events: "events = (sv, MessageReceived m) # rest"
    and m: "healthy sv pc" "bm_payload m = bm_payload msg" "message_key_of pc m = message_key_of pc msg" using Cons.prems(3) by auto
  let ?e = "fatal ''CER-NORM-UNSUPPORTED-CONTRACT'' (''unsupported raw handoff type='' @ en_message_type envelope @ '' schema='' @ en_payload_schema envelope)"
  have "en_message_type envelope \<noteq> ''RawEventPersisted''" using assms(6) by auto
  moreover have "validate_envelope envelope = Inr ()" using assms(5) validate_envelope_ok [of envelope] by simp
  ultimately have e: "decode_message pc m = Inl ?e"
    using assms(4) m(2) by (simp add: decode_message_def decode_raw_persisted_def)
  have bad: "\<not> storable ?e" using assms(6) by (simp add: storable_def fatal_def clean_def)
  have refusal: "record_refusal pc ?e = postgres_error ''record retry failure'' (rl_show_pg (pc_libs pc) InvalidText)"
    by (simp add: record_refusal_def fatal_def trim_code)
  let ?w1 = "io_effect RetryStatement (io_effect RetryStatement w)"
  have "handle_message sv pc m w = Some (?w1, Inl (record_refusal pc ?e))"
    by (rule unstorable_decode_refused [OF assms(1) m(1) Cons.prems(1) _ e bad]) (use Cons.prems(2) m(3) in simp)
  then have "processing_loop br pc events w
      = Some (?w1, [], Stopped (Inl (postgres_error ''record retry failure'' (rl_show_pg (pc_libs pc) InvalidText))))"
    unfolding refusal by (simp add: events)
  moreover obtain w' where "restarted br pc starts ?w1 = Some (w', replicate (length starts)
        (Stopped (Inl (postgres_error ''record retry failure'' (rl_show_pg (pc_libs pc) InvalidText)))))"
      "w_table w' = w_table w" "w_log w' = w_log w @ RetryStatement # RetryStatement # replicate (2 * length starts) RetryStatement"
    using Cons.IH [of ?w1] Cons.prems by auto
  ultimately show ?case by simp
qed simp

section \<open>A declared length beyond the address space\<close>

text \<open>C35: a handoff whose declared length exceeds \<open>isize::MAX\<close> panics the normalizer when its object can be
  opened, although the contracts accept every length: the buffer is allocated before the length is
  compared with anything. No failure is recorded, so the retry budget never isolates the message.\<close>

theorem oversized_length_panics:
  assumes "sound_libs pc" "healthy sv pc" "retry_table_ok (w_table w)" "state_of (w_table w) (config_consumer (pc_config pc), message_key_of pc msg) = None"
    and "decode_message pc msg = Inr incoming" "2 ^ 63 \<le> unat (rp_length (ic_persisted incoming))"
    and "\<And>log. raw_path (sv_fs sv log) (pc_raw_root pc) (rp_storage_uri (ic_persisted incoming)) = Inr path"
      "\<And>log. fs_open (sv_fs sv log) path = Inr ()" "\<And>log. fs_seek (sv_fs sv log) path (rp_offset (ic_persisted incoming)) = Inr ()"
  shows "handle_message sv pc msg w = None"
proof -
  let ?c = "config_consumer (pc_config pc)" and ?k = "message_key_of pc msg" and ?w1 = "io_effect RetryStatement w"
  have key: "wf_key ?c ?k" "clean ?c" "clean ?k"
    using config_facts [OF assms(1)] key_facts [OF assms(1)] by (simp_all add: wf_key_def)
  have load: "io_load sv (pc_libs pc) ?c ?k w = Some (?w1, Inr None)"
    using assms(4) by (simp add: io_load_def healthy_facts(1) [OF assms(2)] load_effect [OF assms(3) key])
  have "uuid_v7 (en_message_id (ic_envelope incoming))"
    using assms(5) by (auto simp: decode_message_def decode_raw_persisted_def result_simps wf_envelope_def split: if_splits)
  then obtain u where u: "rl_parse_uuid (pc_libs pc) (en_message_id (ic_envelope incoming)) = Inr u"
    using assms(1) by (auto simp: sound_libs_def)
  have "raw_read (sv_fs sv es) (pc_raw_root pc) (ic_persisted incoming) = None" for es
    using assms(6-9) by (simp add: raw_read_def ISIZE_MAX_def)
  then have "process_message sv pc incoming w2 = None" for w2
    by (simp add: process_message_def io_bind_def io_match_def io_read_def)
  then show ?thesis
    using assms(5) u
    by (simp add: handle_message_def Let_def config_facts(1) [OF assms(1)] message_key_of_def [symmetric] io_run(3)
        io_run(2) [where c = "io_load sv (pc_libs pc) ?c ?k", OF load] handle_active_def decode_message_def parse_message_id_def)
      (simp add: io_match_def)
qed

end
