(* ===== verification/Redelivery.thy ===== *)
theory Redelivery
  imports Runtime_Failures
begin

text \<open>
  A redelivered message publishes what the first delivery published, and a stored row gives back the
  event and the transformation it was made of.
\<close>

section \<open>Canonical JSON\<close>

fun sorted_json :: "'n json \<Rightarrow> bool" where
  "sorted_json (JObject members) \<longleftrightarrow> btree_invar members \<and> list_all (\<lambda>m. sorted_json (snd m)) members"
| "sorted_json (JArray vs) \<longleftrightarrow> list_all sorted_json vs"
| "sorted_json _ \<longleftrightarrow> True"

lemma fold_btree_insert_sorted:
  assumes "btree_invar ms"
  shows "fold (\<lambda>(k, v). btree_insert k v) ms [] = ms"
proof (rule btree_eqI)
  let ?m = "fold (\<lambda>(k, v). btree_insert k v) ms []"
  show invar: "btree_invar ?m" by (rule btree_invar_fold) (simp add: btree_invar_def)
  have "distinct (map fst ms)" using assms by (simp add: btree_invar_def strict_sorted_iff)
  then have "map_of (rev ms) = map_of ms" by (intro map_of_inject_set [THEN iffD2]) (simp_all add: rev_map [symmetric])
  then have "btree_get ?m k = btree_get ms k" for k
    using btree_get_fold [of "[]" ms k] by (simp add: btree_invar_def btree_get_def split: option.splits)
  then have "(k, v) \<in> set ?m \<longleftrightarrow> (k, v) \<in> set ms" for k v
    using btree_get_mem [OF invar, of k v] btree_get_mem [OF assms, of k v] by simp
  then show "set ?m = set ms" by auto
qed (rule assms)

lemma canonicalize_sorted: "sorted_json j \<Longrightarrow> canonicalize j = j"
proof (induction j rule: canonicalize.induct)
  case (1 members)
  have "map (\<lambda>member. (fst member, canonicalize (snd member))) members = members"
    by (rule map_idI) (use 1 in \<open>auto simp: list_all_iff\<close>)
  with 1(2) show ?case by (simp add: fold_btree_insert_sorted)
qed (auto simp: list_all_iff map_idI)

lemma set_btree_insert: "set (btree_insert k v m) \<subseteq> insert (k, v) (set m)"
  by (induction k v m rule: btree_insert.induct) auto

lemma set_fold_btree_insert: "set (fold (\<lambda>(k, v). btree_insert k v) ps m) \<subseteq> set ps \<union> set m"
proof (induction ps arbitrary: m)
  case (Cons p ps)
  obtain k v where p: "p = (k, v)" by (cases p)
  have "set (fold (\<lambda>(k, v). btree_insert k v) ps (btree_insert k v m)) \<subseteq> set ps \<union> set (btree_insert k v m)" by (rule Cons.IH)
  also have "\<dots> \<subseteq> set (p # ps) \<union> set m" using set_btree_insert [of k v m] p by auto
  finally show ?case by (simp add: p)
qed simp

lemma sorted_json_object:
  assumes "list_all (\<lambda>m. sorted_json (snd m)) members"
  shows "sorted_json (json_object members)"
proof -
  let ?m = "fold (\<lambda>(k, v). btree_insert k v) members []"
  have "btree_invar ?m" by (rule btree_invar_fold) (simp add: btree_invar_def)
  moreover have "list_all (\<lambda>m. sorted_json (snd m)) ?m"
    using assms set_fold_btree_insert [of members "[]"] by (auto simp: list_all_iff)
  ultimately show ?thesis by (simp add: json_object_def)
qed

lemma sorted_ssh_event:
  "sorted_json metadata \<Longrightarrow> sorted_json (ssh_ocsf_event username source_ip port invalid_user message metadata t)"
  unfolding ssh_ocsf_event_def by (rule sorted_json_object) (simp add: json_number_def sorted_json_object)

lemma sorted_ssh_metadata: "sorted_json (ssh_metadata a b c d)"
  unfolding ssh_metadata_def
  by (rule sorted_json_object) (simp add: json_number_def sorted_json_object split: option.split)

text \<open>The conversion to protobuf values does not depend on the texts of its errors.\<close>

lemma json_to_struct_value_error:
  "json_to_struct_value e as_f64 j = Inr v \<Longrightarrow> json_to_struct_value e' as_f64 j = Inr v"
proof (induction j arbitrary: v)
  case (JNumber n)
  then show ?case by (cases "as_f64 n") auto
next
  case (JArray vs)
  then show ?case by (auto simp: result_simps elim!: list.rel_mono_strong)
next
  case (JObject members)
  have "list_all2 (\<lambda>m p. and_then (json_to_struct_value e' as_f64 (snd m)) (\<lambda>v. Inr (fst m, v)) = Inr p) members ps"
    if "list_all2 (\<lambda>m p. and_then (json_to_struct_value e as_f64 (snd m)) (\<lambda>v. Inr (fst m, v)) = Inr p) members ps" for ps
    using that
  proof (rule list.rel_mono_strong)
    fix m p
    assume "m \<in> set members" and r: "and_then (json_to_struct_value e as_f64 (snd m)) (\<lambda>v. Inr (fst m, v)) = Inr p"
    then obtain v where "json_to_struct_value e as_f64 (snd m) = Inr v" "p = (fst m, v)" by (auto simp: result_simps)
    moreover from this JObject.IH [OF \<open>m \<in> set members\<close>, of "snd m"]
    have "json_to_struct_value e' as_f64 (snd m) = Inr v" by (cases m) auto
    ultimately show "and_then (json_to_struct_value e' as_f64 (snd m)) (\<lambda>v. Inr (fst m, v)) = Inr p" by simp
  qed
  then show ?case using JObject.prems by (auto simp: result_simps)
qed auto

lemma json_to_struct_object:
  "json_to_struct e1 e as_f64 j = Inr ps \<longleftrightarrow> (\<exists>members. j = JObject members) \<and> json_to_struct_value e as_f64 j = Inr (Value (Some (StructValue ps)))"
  by (cases j) (auto simp: json_to_struct_def result_simps)

lemma json_to_struct_error: "json_to_struct e1 e as_f64 j = Inr ps \<Longrightarrow> json_to_struct e2 e' as_f64 j = Inr ps"
  unfolding json_to_struct_object by (auto intro: json_to_struct_value_error)

section \<open>The stored row\<close>

text \<open>The row that is stored for a plan gives back the normalized event and the transformation of the plan,
  when reading the canonical JSON text gives back the tree it was written from.\<close>

theorem stored_row_roundtrip:
  assumes "map_ssh_authentication parsed persisted event_time now_millis = Inr mapped"
    and "plan_of env core persisted parsed event_time now mapped nid tid = Inr plan"
    and "from_plan plan time ingest incoming message_id component_version instance_id = Inr row"
    and "parse_json (sn_ocsf_event_json row) = Inr (canonicalize (mo_ocsf_event mapped))"
  shows "stored_normalized_event parse_json (ce_as_f64 env) row = Inr (np_normalized_event plan)
    \<and> stored_transformation row = np_transformation plan"
proof -
  obtain username source_ip port invalid_user message metadata t where
    "mo_ocsf_event mapped = ssh_ocsf_event username source_ip port invalid_user message metadata t" "sorted_json metadata"
    using assms(1) sorted_ssh_metadata by (auto simp: map_ssh_authentication_def result_simps split: prod.splits if_splits)
  then have canonical: "canonicalize (mo_ocsf_event mapped) = mo_ocsf_event mapped"
    by (simp add: canonicalize_sorted sorted_ssh_event)
  obtain ps where ps: "json_to_struct (core_invalid ''OCSF event root must be a JSON object'')
      (core_invalid ''OCSF JSON number cannot be represented as protobuf Struct number'') (ce_as_f64 env) (mo_ocsf_event mapped) = Inr ps"
    and ev: "ne_ocsf_event (np_normalized_event plan) = Some ps"
    using assms(2) by (auto simp: plan_of_def normalized_event_of_def result_simps Let_def)
  have "json_to_struct (stored_invalid ''stored OCSF event root must be an object'')
      (stored_invalid ''stored OCSF number cannot be represented by protobuf Struct'') (ce_as_f64 env) (mo_ocsf_event mapped) = Inr ps"
    by (rule json_to_struct_error [OF ps])
  with assms(2-4) ps ev canonical show ?thesis
    by (auto simp: stored_normalized_event_def stored_transformation_def stored_normalized_at_def from_plan_def plan_of_def
        normalized_event_of_def transformation_of_def result_simps Let_def)
qed

section \<open>The same message again\<close>

text \<open>C16: processing is idempotent. After a delivery was processed, its normalized row and publication are
  fixed: whenever the store answers with that row, processing the same handoff again inserts nothing,
  draws no identity and publishes exactly the same message under the same message identity.\<close>

theorem redelivery_publishes_same_message:
  assumes "default_core (pc_core pc)" "\<And>es. sv_fs sv es = fs" "process_message sv pc incoming w = Some (w1, Inr ())"
  shows "\<exists>row p outcome. stored_row (pc_libs pc) (drop (length (w_log w)) (w_log w1)) row
    \<and> publication_of (pc_libs pc) row (ic_request_id incoming) = Inr p \<and> Sent p outcome \<in> set (drop (length (w_log w)) (w_log w1))
    \<and> (\<forall>sv' w2. (\<forall>es. sv_fs sv' es = fs) \<and> (\<forall>query. found_row (rl_decode_row (pc_libs pc)) (sv_get sv' (w_log w2) query) = Inr (Some row))
        \<longrightarrow> (\<exists>query o1 o2. process_message sv' pc incoming w2
              = Some (w2\<lparr>w_log := w_log w2 @ [Queried query o1, Sent p o2]\<rparr>, normalized_accepted o2)))"
proof -
  obtain es raw identity row where es: "w_log w1 = w_log w @ es"
    and raw: "raw_read fs (pc_raw_root pc) (ic_persisted incoming) = Some (Inr raw)"
    and identity: "derive_identity (rl_core (pc_libs pc)) (pc_core pc) (ic_persisted incoming) raw = Inr identity"
    and row: "stored_row (pc_libs pc) es row" "published_row (pc_libs pc) (ic_request_id incoming) es row"
      "validate_hash_key (di_logical_key identity) = Inr ()"
      "validate_existing_identity row (rp_event_id (ic_persisted incoming)) identity = Inr ()"
    using process_message_Inr [OF assms(3)] assms(1,2) by auto
  obtain p outcome where p: "publication_of (pc_libs pc) row (ic_request_id incoming) = Inr p" "Sent p outcome \<in> set es"
    using row(2) by (auto simp: published_row_def)
  have again: "\<exists>query o1 o2. process_message sv' pc incoming w2
      = Some (w2\<lparr>w_log := w_log w2 @ [Queried query o1, Sent p o2]\<rparr>, normalized_accepted o2)"
    if sv': "\<And>es. sv_fs sv' es = fs" "\<And>query. found_row (rl_decode_row (pc_libs pc)) (sv_get sv' (w_log w2) query) = Inr (Some row)" for sv' w2
  proof -
    let ?q = "find_query (cf_clickhouse_database (pc_config pc)) (di_logical_key identity)"
    let ?w3 = "io_effect (Queried ?q (sv_get sv' (w_log w2) ?q)) w2"
    have "io_read sv' (pc_raw_root pc) (ic_persisted incoming) w2 = Some (w2, Inr raw)" by (simp add: io_read_def sv'(1) raw)
    moreover have "find_by_logical_key sv' (rl_decode_row (pc_libs pc)) (cf_clickhouse_database (pc_config pc)) (di_logical_key identity) w2
        = Some (?w3, Inr (Some row))"
      by (simp add: find_by_logical_key_def io_run(3) row(3) Let_def sv'(2))
    moreover have "publish_normalized sv' (pc_libs pc) row (ic_request_id incoming) ?w3
        = Some (io_effect (Sent p (sv_publish sv' (w_log ?w3) p)) ?w3, normalized_accepted (sv_publish sv' (w_log ?w3) p))"
      using p(1) by (simp add: publish_normalized_def publication_of_def io_run(3) io_publish_def Let_def del: io_effect_simps)
    ultimately have "process_message sv' pc incoming w2
        = Some (io_effect (Sent p (sv_publish sv' (w_log ?w3) p)) ?w3, normalized_accepted (sv_publish sv' (w_log ?w3) p))"
      by (simp add: process_message_def io_run identity row(4) del: io_effect_simps)
    then show ?thesis by (auto simp: io_effect_def)
  qed
  show ?thesis using again p row(1) es by (intro exI [of _ row] exI [of _ p] exI [of _ outcome]) auto
qed

end
