(* ===== verification/Analytical_Repository.thy ===== *)
theory Analytical_Repository
  imports Mvp_Rules Postgres
begin

text \<open>
  The analytical repository (\<open>lib.rs\<close> of cerbero-detection-runtime): idempotent persistence of
  Signals and Findings with a transactional outbox. The database is a record of tables; the
  statements have the effect that PostgreSQL gives them under the constraints of
  \<open>migrations/postgres/000006_analytical_runtime.sql\<close> and \<open>000002_raw_preservation.sql\<close>. A statement
  that fails aborts the transaction and leaves the database as it was. The connection may break at any
  call of a transaction: before it begins, at any statement, and at the commit, which the server may
  have carried out all the same. Parameters: the fate of each call, the protobuf codec of prost, the
  text of a database error, SHA-256 and the identity that \<open>Uuid::now_v7\<close> yields for an envelope.
\<close>

section \<open>Tables\<close>

text \<open>The tables of Signals and of Findings have the same columns.\<close>

record object_row =
  ob_id :: string
  ob_logical_key :: string
  ob_tenant_id :: string
  ob_created_at :: "int \<times> int"
  ob_payload :: string

record signal_input_row =
  iw_signal_id :: string
  iw_ordinal :: int
  iw_input_type :: int
  iw_input_id :: string
  iw_relation :: string

record finding_input_row =
  jw_finding_id :: string
  jw_input_type :: string
  jw_input_id :: string
  jw_relation :: string

record provenance_row =
  pw_finding_id :: string
  pw_correlation_rule_id :: string
  pw_correlation_rule_version :: string
  pw_configuration_hash :: string
  pw_input_ids :: string

record outbox_row =
  ow_message_id :: string
  ow_subject :: string
  ow_payload :: string

record analytical_db =
  db_signals :: "object_row list"
  db_signal_inputs :: "signal_input_row list"
  db_findings :: "object_row list"
  db_finding_inputs :: "finding_input_row list"
  db_provenance :: "provenance_row list"
  db_outbox :: "outbox_row list"

definition empty_db :: analytical_db where
  "empty_db = \<lparr>db_signals = [], db_signal_inputs = [], db_findings = [], db_finding_inputs = [],
     db_provenance = [], db_outbox = []\<rparr>"

section \<open>Statements\<close>

text \<open>\<open>INSERT ... ON CONFLICT (logical_key) DO NOTHING\<close>, with the number of inserted rows.\<close>

definition insert_object :: "string \<Rightarrow> object_row \<Rightarrow> object_row list \<Rightarrow> (object_row list \<times> nat) pg" where
  "insert_object table row rows =
    (if \<not> valid_sha256_text (ob_logical_key row) then Inl (CheckViolation (table @ ''_logical_key_check''))
     else if ob_payload row = [] then Inl (CheckViolation (table @ ''_payload_check''))
     else if ob_logical_key row \<in> ob_logical_key ` set rows then Inr (rows, 0)
     else if ob_id row \<in> ob_id ` set rows then Inl (UniqueViolation (table @ ''_pkey''))
     else Inr (rows @ [row], 1))"

definition insert_signal :: "object_row \<Rightarrow> analytical_db \<Rightarrow> (analytical_db \<times> nat) pg" where
  "insert_signal row db =
    and_then (insert_object ''signals'' row (db_signals db)) (\<lambda>(rows, n). Inr (db\<lparr>db_signals := rows\<rparr>, n))"

definition insert_signal_input :: "signal_input_row \<Rightarrow> analytical_db \<Rightarrow> analytical_db pg" where
  "insert_signal_input row db =
    (if iw_ordinal row < 0 then Inl (CheckViolation ''signal_inputs_ordinal_check'')
     else if \<not> (1 \<le> iw_input_type row \<and> iw_input_type row \<le> 3)
     then Inl (CheckViolation ''signal_inputs_input_type_check'')
     else if iw_input_id row = '''' then Inl (CheckViolation ''signal_inputs_input_id_check'')
     else if iw_relation row = '''' then Inl (CheckViolation ''signal_inputs_relation_check'')
     else if list_ex (\<lambda>r. iw_signal_id r = iw_signal_id row \<and> iw_ordinal r = iw_ordinal row) (db_signal_inputs db)
     then Inl (UniqueViolation ''signal_inputs_pkey'')
     else Inr (db\<lparr>db_signal_inputs := db_signal_inputs db @ [row]\<rparr>))"

definition insert_finding :: "object_row \<Rightarrow> analytical_db \<Rightarrow> (analytical_db \<times> nat) pg" where
  "insert_finding row db =
    and_then (insert_object ''findings'' row (db_findings db)) (\<lambda>(rows, n). Inr (db\<lparr>db_findings := rows\<rparr>, n))"

definition insert_finding_input :: "finding_input_row \<Rightarrow> analytical_db \<Rightarrow> analytical_db pg" where
  "insert_finding_input row db =
    (if jw_input_type row = '''' then Inl (CheckViolation ''finding_inputs_input_type_check'')
     else if jw_input_id row = '''' then Inl (CheckViolation ''finding_inputs_input_id_check'')
     else if jw_relation row = '''' then Inl (CheckViolation ''finding_inputs_relation_check'')
     else if row \<in> set (db_finding_inputs db) then Inl (UniqueViolation ''finding_inputs_pkey'')
     else Inr (db\<lparr>db_finding_inputs := db_finding_inputs db @ [row]\<rparr>))"

definition insert_provenance :: "provenance_row \<Rightarrow> analytical_db \<Rightarrow> analytical_db pg" where
  "insert_provenance row db =
    (if pw_correlation_rule_id row = '''' \<or> pw_correlation_rule_version row = '''' \<or> pw_configuration_hash row = ''''
     then Inl (CheckViolation ''finding_correlation_provenance_check'')
     else if pw_finding_id row \<in> pw_finding_id ` set (db_provenance db)
     then Inl (UniqueViolation ''finding_correlation_provenance_pkey'')
     else Inr (db\<lparr>db_provenance := db_provenance db @ [row]\<rparr>))"

definition insert_outbox :: "outbox_row \<Rightarrow> analytical_db \<Rightarrow> analytical_db pg" where
  "insert_outbox row db =
    (if ow_subject row = '''' then Inl (CheckViolation ''outbox_subject_check'')
     else if ow_payload row = [] then Inl (CheckViolation ''outbox_payload_check'')
     else if ow_message_id row \<in> ow_message_id ` set (db_outbox db) then Inl (UniqueViolation ''outbox_pkey'')
     else Inr (db\<lparr>db_outbox := db_outbox db @ [row]\<rparr>))"

section \<open>Logical keys\<close>

definition signal_key_input :: "signal_input \<Rightarrow> string" where
  "signal_key_input x = ''|'' @ show_nat (unat (si_ordinal x)) @ '':'' @ show_int (si_input_type x) @ '':''
     @ si_input_id x @ '':'' @ si_relation x"

definition signal_key_text :: "signal \<Rightarrow> string" where
  "signal_key_text s = sg_tenant_id s @ ''|'' @ sg_rule_id s @ ''|'' @ sg_rule_version s @ ''|''
     @ show_int (sg_rule_type s) @ ''|'' @ show_int (sg_execution_mode s)
     @ concat (map signal_key_input (sg_inputs s))"

definition signal_logical_key :: "(string \<Rightarrow> string) \<Rightarrow> signal \<Rightarrow> string" where
  "signal_logical_key digest s = sha256_lower_hex digest (signal_key_text s)"

definition finding_key_text :: "finding \<Rightarrow> finding_correlation_provenance \<Rightarrow> string" where
  "finding_key_text f p = fd_tenant_id f @ ''|'' @ cp_correlation_rule_id p @ ''|''
     @ cp_correlation_rule_version p @ ''|'' @ show_int (fd_execution_mode f) @ ''|'' @ cp_configuration_hash p
     @ concat (map (\<lambda>i. ''|'' @ i) (cp_input_ids p))"

definition finding_logical_key :: "(string \<Rightarrow> string) \<Rightarrow> finding \<Rightarrow> (string, runtime_error) result" where
  "finding_logical_key digest f =
    and_then (ok_or (RuntimeError ''correlation provenance is required'') (fd_correlation_provenance f)) (\<lambda>p.
    Inr (sha256_lower_hex digest (finding_key_text f p)))"

definition timestamp_parts :: "timestamp option \<Rightarrow> string \<Rightarrow> (int \<times> int, runtime_error) result" where
  "timestamp_parts t field =
    and_then (ok_or (RuntimeError (field @ '' is required'')) t) (\<lambda>ts. Inr (seconds ts, nanos ts))"

definition replace_char :: "char \<Rightarrow> string \<Rightarrow> string \<Rightarrow> string" where
  "replace_char c t s = concat (map (\<lambda>x. if x = c then t else [x]) s)"

definition escape_json :: "string \<Rightarrow> string" where
  "escape_json value =
    replace_char CHR 0x22 [CHR 0x5C, CHR 0x22] (replace_char CHR 0x5C [CHR 0x5C, CHR 0x5C] value)"

definition json_array :: "string list \<Rightarrow> string" where
  "json_array values = ''['' @ join_with CHR '','' (map (\<lambda>v. [CHR 0x22] @ escape_json v @ [CHR 0x22]) values) @ '']''"

section \<open>Envelopes\<close>

record envelope_spec =
  es_message_type :: string
  es_payload_schema :: string
  es_type_url :: string

definition envelope_of ::
  "envelope_spec \<Rightarrow> string \<Rightarrow> timestamp option \<Rightarrow> string \<Rightarrow> string \<Rightarrow> string \<Rightarrow> string
     \<Rightarrow> (envelope, runtime_error) result" where
  "envelope_of spec tenant_id emitted_at payload component_version instance_id message_id =
    map_err (\<lambda>e. RuntimeError (display_violation e)) (validated validate_envelope
      \<lparr>en_contract_version = ''1'', en_message_id = message_id, en_message_type = es_message_type spec,
       en_tenant_id = tenant_id,
       en_producer = Some \<lparr>pr_component = ''cerbero-detection-runtime'',
         pr_component_version = component_version, pr_instance_id = instance_id\<rparr>,
       en_emitted_at = emitted_at, en_trace_id = '''', en_causation_id = '''', en_correlation_id = '''',
       en_payload_schema = es_payload_schema spec,
       en_payload = Some \<lparr>any_type_url = es_type_url spec, any_value = payload\<rparr>\<rparr>)"

text \<open>What the repository takes from prost, from PostgreSQL's client and from its construction.\<close>

record repository =
  encode_signal :: "signal \<Rightarrow> string"
  decode_signal :: "string \<Rightarrow> (signal, string) result"
  encode_finding :: "finding \<Rightarrow> string"
  decode_finding :: "string \<Rightarrow> (finding, string) result"
  encode_envelope :: "envelope \<Rightarrow> string"
  display_pg :: "pg_error \<Rightarrow> string"
  repo_digest :: "string \<Rightarrow> string"
  component_version :: string
  instance_id :: string

definition pg_run :: "repository \<Rightarrow> 'a pg \<Rightarrow> ('a, runtime_error) result" where
  "pg_run repo r = map_err (\<lambda>e. RuntimeError (display_pg repo e)) r"

text \<open>The calls of one transaction, and what becomes of each: it is answered, or the client returns the
  error of a broken connection.\<close>

datatype tx_call = TxBegin | TxObject | TxInput nat | TxProvenance | TxOutbox | TxRead | TxCommit

type_synonym tx_link = "tx_call \<Rightarrow> query_fate"

definition answering :: tx_link where
  "answering = (\<lambda>_. Answered)"

definition tx_send :: "tx_link \<Rightarrow> tx_call \<Rightarrow> ('a, runtime_error) result \<Rightarrow> ('a, runtime_error) result" where
  "tx_send link call r = (case link call of
      Answered \<Rightarrow> r | Lost e \<Rightarrow> Inl (RuntimeError e) | LostAfter e \<Rightarrow> Inl (RuntimeError e))"

text \<open>The commit: when its answer is lost, the server may have committed or not.\<close>

definition tx_commit ::
  "tx_link \<Rightarrow> analytical_db \<Rightarrow> (analytical_db \<times> 'a, runtime_error) result \<Rightarrow> analytical_db \<times> ('a, runtime_error) result" where
  "tx_commit link db r = (case r of
      Inl e \<Rightarrow> (db, Inl e)
    | Inr (db', x) \<Rightarrow> (case link TxCommit of
        Answered \<Rightarrow> (db', Inr x)
      | Lost e \<Rightarrow> (db, Inl (RuntimeError e))
      | LostAfter e \<Rightarrow> (db', Inl (RuntimeError e))))"

definition persist_outbox ::
  "repository \<Rightarrow> tx_link \<Rightarrow> string \<Rightarrow> envelope \<Rightarrow> analytical_db \<Rightarrow> (analytical_db, runtime_error) result" where
  "persist_outbox repo link subject env db =
    tx_send link TxOutbox (pg_run repo (insert_outbox \<lparr>ow_message_id = pg_uuid (en_message_id env), ow_subject = subject,
      ow_payload = encode_envelope repo env\<rparr> db))"

section \<open>Signals\<close>

definition i32_try_from_u32 :: "32 word \<Rightarrow> (int, runtime_error) result" where
  "i32_try_from_u32 w = (if unat w < 2 ^ 31 then Inr (int (unat w))
     else Inl (RuntimeError ''out of range integral type conversion attempted''))"

definition i16_try_from_i32 :: "int \<Rightarrow> (int, runtime_error) result" where
  "i16_try_from_i32 i = (if - (2 ^ 15) \<le> i \<and> i < 2 ^ 15 then Inr i
     else Inl (RuntimeError ''out of range integral type conversion attempted''))"

definition persist_signal_input ::
  "repository \<Rightarrow> tx_link \<Rightarrow> string \<Rightarrow> analytical_db \<Rightarrow> nat \<times> signal_input \<Rightarrow> (analytical_db, runtime_error) result" where
  "persist_signal_input repo link signal_id db item = (case item of (i, x) \<Rightarrow>
    and_then (i32_try_from_u32 (si_ordinal x)) (\<lambda>ordinal.
    and_then (i16_try_from_i32 (si_input_type x)) (\<lambda>input_type.
    tx_send link (TxInput i) (
    and_then (pg_run repo (pg_text (si_input_id x))) (\<lambda>input_id.
    and_then (pg_run repo (pg_text (si_relation x))) (\<lambda>relation.
    pg_run repo (insert_signal_input \<lparr>iw_signal_id = pg_uuid signal_id, iw_ordinal = ordinal,
      iw_input_type = input_type, iw_input_id = input_id, iw_relation = relation\<rparr> db)))))))"

definition signal_envelope_spec :: envelope_spec where
  "signal_envelope_spec = \<lparr>es_message_type = ''SignalCreated'', es_payload_schema = ''cerbero.signal.v1'',
     es_type_url = ''type.googleapis.com/cerbero.contracts.v1.Signal''\<rparr>"

text \<open>The rows that follow a fresh Signal: its inputs and the outbox message.\<close>

definition signal_details ::
  "repository \<Rightarrow> tx_link \<Rightarrow> string \<Rightarrow> signal \<Rightarrow> analytical_db \<Rightarrow> (analytical_db, runtime_error) result" where
  "signal_details repo link message_id s db =
    and_then (try_fold (persist_signal_input repo link (sg_signal_id s)) db (enumerate 0 (sg_inputs s))) (\<lambda>db.
    and_then (envelope_of signal_envelope_spec (sg_tenant_id s) (sg_created_at s) (encode_signal repo s)
      (component_version repo) (instance_id repo) message_id) (\<lambda>env.
    persist_outbox repo link ''cerbero.v1.signal.created'' env db))"

definition signal_tx ::
  "repository \<Rightarrow> tx_link \<Rightarrow> string \<Rightarrow> signal \<Rightarrow> analytical_db \<Rightarrow> (analytical_db \<times> string, runtime_error) result" where
  "signal_tx repo link message_id s db =
    and_then (map_err (\<lambda>e. RuntimeError (display_violation e)) (validate_signal s)) (\<lambda>_.
    let logical_key = signal_logical_key (repo_digest repo) s in
    and_then (tx_send link TxBegin (Inr ())) (\<lambda>_.
    and_then (timestamp_parts (sg_created_at s) ''signal.created_at'') (\<lambda>created.
    and_then (tx_send link TxObject (pg_run repo (insert_signal \<lparr>ob_id = pg_uuid (sg_signal_id s), ob_logical_key = logical_key,
      ob_tenant_id = pg_uuid (sg_tenant_id s), ob_created_at = created, ob_payload = encode_signal repo s\<rparr> db))) (\<lambda>(db, inserted).
    and_then (if inserted = 1 then signal_details repo link message_id s db else Inr db) (\<lambda>db.
    and_then (tx_send link TxRead (ok_or (RuntimeError ''query returned an unexpected number of rows'')
      (find (\<lambda>r. ob_logical_key r = logical_key) (db_signals db)))) (\<lambda>row.
    Inr (db, ob_payload row)))))))"

text \<open>The row is read inside the transaction and decoded after the commit.\<close>

definition persist_signal ::
  "repository \<Rightarrow> tx_link \<Rightarrow> string \<Rightarrow> signal \<Rightarrow> analytical_db \<Rightarrow> analytical_db \<times> (signal, runtime_error) result" where
  "persist_signal repo link message_id s db =
    (case tx_commit link db (signal_tx repo link message_id s db) of
       (db', r) \<Rightarrow> (db', and_then r (\<lambda>stored. map_err RuntimeError (decode_signal repo stored))))"

section \<open>Findings\<close>

definition persist_finding_input ::
  "repository \<Rightarrow> tx_link \<Rightarrow> string \<Rightarrow> analytical_db \<Rightarrow> nat \<times> finding_input \<Rightarrow> (analytical_db, runtime_error) result" where
  "persist_finding_input repo link finding_id db item = (case item of (i, x) \<Rightarrow>
    tx_send link (TxInput i) (
    and_then (pg_run repo (pg_text (fi_input_type x))) (\<lambda>input_type.
    and_then (pg_run repo (pg_text (fi_input_id x))) (\<lambda>input_id.
    and_then (pg_run repo (pg_text (fi_relation x))) (\<lambda>relation.
    pg_run repo (insert_finding_input \<lparr>jw_finding_id = pg_uuid finding_id, jw_input_type = input_type,
      jw_input_id = input_id, jw_relation = relation\<rparr> db))))))"

definition persist_provenance ::
  "repository \<Rightarrow> tx_link \<Rightarrow> string \<Rightarrow> finding_correlation_provenance option \<Rightarrow> analytical_db
     \<Rightarrow> (analytical_db, runtime_error) result" where
  "persist_provenance repo link finding_id provenance db =
    (case provenance of None \<Rightarrow> Inr db
     | Some p \<Rightarrow> tx_send link TxProvenance (
        and_then (pg_run repo (pg_text (cp_correlation_rule_id p))) (\<lambda>rule_id.
        and_then (pg_run repo (pg_text (cp_correlation_rule_version p))) (\<lambda>rule_version.
        and_then (pg_run repo (pg_text (cp_configuration_hash p))) (\<lambda>configuration_hash.
        pg_run repo (insert_provenance \<lparr>pw_finding_id = pg_uuid finding_id, pw_correlation_rule_id = rule_id,
          pw_correlation_rule_version = rule_version, pw_configuration_hash = configuration_hash,
          pw_input_ids = json_array (cp_input_ids p)\<rparr> db))))))"

definition finding_envelope_spec :: envelope_spec where
  "finding_envelope_spec = \<lparr>es_message_type = ''FindingCreated'', es_payload_schema = ''cerbero.finding.v1'',
     es_type_url = ''type.googleapis.com/cerbero.contracts.v1.Finding''\<rparr>"

definition finding_details ::
  "repository \<Rightarrow> tx_link \<Rightarrow> string \<Rightarrow> finding \<Rightarrow> analytical_db \<Rightarrow> (analytical_db, runtime_error) result" where
  "finding_details repo link message_id f db =
    and_then (try_fold (persist_finding_input repo link (fd_finding_id f)) db (enumerate 0 (fd_inputs f))) (\<lambda>db.
    and_then (persist_provenance repo link (fd_finding_id f) (fd_correlation_provenance f) db) (\<lambda>db.
    and_then (envelope_of finding_envelope_spec (fd_tenant_id f) (fd_created_at f) (encode_finding repo f)
      (component_version repo) (instance_id repo) message_id) (\<lambda>env.
    persist_outbox repo link ''cerbero.v1.finding.created'' env db)))"

definition finding_tx ::
  "repository \<Rightarrow> tx_link \<Rightarrow> string \<Rightarrow> finding \<Rightarrow> analytical_db \<Rightarrow> (analytical_db \<times> string, runtime_error) result" where
  "finding_tx repo link message_id f db =
    and_then (map_err (\<lambda>e. RuntimeError (display_violation e)) (validate_finding f)) (\<lambda>_.
    and_then (finding_logical_key (repo_digest repo) f) (\<lambda>logical_key.
    and_then (tx_send link TxBegin (Inr ())) (\<lambda>_.
    and_then (timestamp_parts (fd_created_at f) ''finding.created_at'') (\<lambda>created.
    and_then (tx_send link TxObject (pg_run repo (insert_finding \<lparr>ob_id = pg_uuid (fd_finding_id f), ob_logical_key = logical_key,
      ob_tenant_id = pg_uuid (fd_tenant_id f), ob_created_at = created, ob_payload = encode_finding repo f\<rparr> db))) (\<lambda>(db, inserted).
    and_then (if inserted = 1 then finding_details repo link message_id f db else Inr db) (\<lambda>db.
    and_then (tx_send link TxRead (ok_or (RuntimeError ''query returned an unexpected number of rows'')
      (find (\<lambda>r. ob_logical_key r = logical_key) (db_findings db)))) (\<lambda>row.
    Inr (db, ob_payload row))))))))"

definition persist_finding ::
  "repository \<Rightarrow> tx_link \<Rightarrow> string \<Rightarrow> finding \<Rightarrow> analytical_db \<Rightarrow> analytical_db \<times> (finding, runtime_error) result" where
  "persist_finding repo link message_id f db =
    (case tx_commit link db (finding_tx repo link message_id f db) of
       (db', r) \<Rightarrow> (db', and_then r (\<lambda>stored. map_err RuntimeError (decode_finding repo stored))))"

section \<open>Effects of the transactions\<close>

lemma pg_run_ok [result_simps]: "pg_run repo r = Inr x \<longleftrightarrow> r = Inr x"
  by (simp add: pg_run_def result_simps)

lemma tx_send_ok [result_simps]: "tx_send link call r = Inr x \<longleftrightarrow> link call = Answered \<and> r = Inr x"
  by (cases "link call") (simp_all add: tx_send_def)

lemma tx_send_answering [simp]: "tx_send answering call r = r"
  by (simp add: tx_send_def answering_def)

lemma tx_commit_answering [simp]:
  "tx_commit answering db r = (case r of Inl e \<Rightarrow> (db, Inl e) | Inr (db', x) \<Rightarrow> (db', Inr x))"
  by (simp add: tx_commit_def answering_def split: sum.split)

lemma tx_commit_cases:
  assumes "tx_commit link db r = (db', r')"
  obtains "db' = db" "\<exists>e. r' = Inl e"
  | x where "r = Inr (db', x)" "r' = Inr x \<or> (\<exists>e. r' = Inl e)"
  using assms by (cases "link TxCommit") (auto simp: tx_commit_def split: sum.splits prod.splits)

lemma int_try_from_ok [result_simps]:
  "i32_try_from_u32 w = Inr i \<longleftrightarrow> unat w < 2 ^ 31 \<and> i = int (unat w)"
  "i16_try_from_i32 j = Inr k \<longleftrightarrow> - (2 ^ 15) \<le> j \<and> j < 2 ^ 15 \<and> k = j"
  by (auto simp: i32_try_from_u32_def i16_try_from_i32_def)

definition signal_input_row_of :: "string \<Rightarrow> signal_input \<Rightarrow> signal_input_row" where
  "signal_input_row_of signal_id x = \<lparr>iw_signal_id = pg_uuid signal_id, iw_ordinal = int (unat (si_ordinal x)),
     iw_input_type = si_input_type x, iw_input_id = si_input_id x, iw_relation = si_relation x\<rparr>"

definition finding_input_row_of :: "string \<Rightarrow> finding_input \<Rightarrow> finding_input_row" where
  "finding_input_row_of finding_id x = \<lparr>jw_finding_id = pg_uuid finding_id, jw_input_type = fi_input_type x,
     jw_input_id = fi_input_id x, jw_relation = fi_relation x\<rparr>"

lemma signal_inputs_effect:
  "try_fold (persist_signal_input repo link sid) db xs = Inr db' \<Longrightarrow>
     db' = db\<lparr>db_signal_inputs := db_signal_inputs db @ map (signal_input_row_of sid) (map snd xs)\<rparr>"
proof (induction xs arbitrary: db)
  case (Cons x xs)
  then obtain db1 where "persist_signal_input repo link sid db x = Inr db1"
    and rest: "try_fold (persist_signal_input repo link sid) db1 xs = Inr db'" by (auto simp: result_simps)
  then have "db1 = db\<lparr>db_signal_inputs := db_signal_inputs db @ [signal_input_row_of sid (snd x)]\<rparr>"
    by (auto simp: persist_signal_input_def result_simps insert_signal_input_def signal_input_row_of_def split: prod.splits)
  with Cons.IH [OF rest] show ?case by simp
qed simp

lemma finding_inputs_effect:
  "try_fold (persist_finding_input repo link fid) db xs = Inr db' \<Longrightarrow>
     db' = db\<lparr>db_finding_inputs := db_finding_inputs db @ map (finding_input_row_of fid) (map snd xs)\<rparr>"
proof (induction xs arbitrary: db)
  case (Cons x xs)
  then obtain db1 where "persist_finding_input repo link fid db x = Inr db1"
    and rest: "try_fold (persist_finding_input repo link fid) db1 xs = Inr db'" by (auto simp: result_simps)
  then have "db1 = db\<lparr>db_finding_inputs := db_finding_inputs db @ [finding_input_row_of fid (snd x)]\<rparr>"
    by (auto simp: persist_finding_input_def result_simps insert_finding_input_def finding_input_row_of_def split: prod.splits)
  with Cons.IH [OF rest] show ?case by simp
qed simp

text \<open>An outbox row that announces a payload: a valid envelope around it, encoded.\<close>

definition announces :: "repository \<Rightarrow> string \<Rightarrow> string \<Rightarrow> outbox_row \<Rightarrow> bool" where
  "announces repo subject payload row \<longleftrightarrow> ow_subject row = subject
     \<and> (\<exists>env any. ow_payload row = encode_envelope repo env \<and> wf_envelope env
          \<and> ow_message_id row = pg_uuid (en_message_id env) \<and> en_payload env = Some any \<and> any_value any = payload)"

lemma outbox_effect:
  assumes "envelope_of spec tenant t payload cv iid mid = Inr env" "persist_outbox repo link subject env db = Inr db'"
  shows "\<exists>row. announces repo subject payload row \<and> ow_message_id row = pg_uuid mid
    \<and> ow_message_id row \<notin> ow_message_id ` set (db_outbox db) \<and> db' = db\<lparr>db_outbox := db_outbox db @ [row]\<rparr>"
proof (intro exI conjI)
  let ?row = "\<lparr>ow_message_id = pg_uuid mid, ow_subject = subject, ow_payload = encode_envelope repo env\<rparr>"
  have env: "wf_envelope env" "en_message_id env = mid" "\<exists>any. en_payload env = Some any \<and> any_value any = payload"
    using assms(1) by (auto simp: envelope_of_def result_simps)
  then show "announces repo subject payload ?row" by (auto simp: announces_def)
  show "ow_message_id ?row = pg_uuid mid" by simp
  show "ow_message_id ?row \<notin> ow_message_id ` set (db_outbox db)" "db' = db\<lparr>db_outbox := db_outbox db @ [?row]\<rparr>"
    using assms(2) env(2) by (auto simp: persist_outbox_def insert_outbox_def result_simps split: if_splits)
qed

lemma provenance_effect:
  assumes "persist_provenance repo link fid p db = Inr db'"
  shows "\<exists>rows. db' = db\<lparr>db_provenance := db_provenance db @ rows\<rparr>"
  using assms
proof (cases p)
  case None
  then show ?thesis using assms by (intro exI [of _ "[]"]) (simp add: persist_provenance_def)
qed (auto simp: persist_provenance_def insert_provenance_def result_simps)

lemma find_append_fresh: "(\<forall>x\<in>set xs. \<not> P x) \<Longrightarrow> find P (xs @ [y]) = (if P y then Some y else None)"
  by (induction xs) auto

text \<open>What a transaction does to the table of its object: the logical key is known and nothing
  changes, or a fresh row is appended. Either way the payload under the key is returned.\<close>

definition stores :: "object_row list \<Rightarrow> object_row \<Rightarrow> object_row list \<Rightarrow> string \<Rightarrow> bool" where
  "stores rows row rows' stored \<longleftrightarrow>
     ob_payload row \<noteq> [] \<and> valid_sha256_text (ob_logical_key row)
     \<and> (if ob_logical_key row \<in> ob_logical_key ` set rows
        then rows' = rows \<and> (\<exists>r. find (\<lambda>r. ob_logical_key r = ob_logical_key row) rows = Some r \<and> stored = ob_payload r)
        else ob_id row \<notin> ob_id ` set rows \<and> rows' = rows @ [row] \<and> stored = ob_payload row)"

lemma find_key_exists: "k \<in> ob_logical_key ` set rows \<Longrightarrow> \<exists>r. find (\<lambda>r. ob_logical_key r = k) rows = Some r"
  by (cases "find (\<lambda>r. ob_logical_key r = k) rows") (auto simp: find_None_iff)

lemma insert_object_ok:
  "insert_object table row rows = Inr (rows', n) \<longleftrightarrow>
     (\<exists>stored. stores rows row rows' stored) \<and> n = (if ob_logical_key row \<in> ob_logical_key ` set rows then 0 else 1)"
  using find_key_exists [of "ob_logical_key row" rows] by (auto simp: insert_object_def stores_def)

lemma stores_read_back:
  "stores rows row rows' stored \<Longrightarrow> \<exists>r. find (\<lambda>r. ob_logical_key r = ob_logical_key row) rows' = Some r \<and> stored = ob_payload r"
proof (cases "ob_logical_key row \<in> ob_logical_key ` set rows")
  case False
  then have "\<forall>x\<in>set rows. ob_logical_key x \<noteq> ob_logical_key row" by (metis imageI)
  moreover assume "stores rows row rows' stored"
  ultimately show ?thesis using False by (simp add: stores_def find_append_fresh)
qed (simp add: stores_def)

text \<open>The rows of a fresh object that its details add.\<close>

definition signal_row_of :: "repository \<Rightarrow> signal \<Rightarrow> int \<times> int \<Rightarrow> object_row" where
  "signal_row_of repo s created = \<lparr>ob_id = pg_uuid (sg_signal_id s),
     ob_logical_key = signal_logical_key (repo_digest repo) s, ob_tenant_id = pg_uuid (sg_tenant_id s),
     ob_created_at = created, ob_payload = encode_signal repo s\<rparr>"

lemma signal_details_effect:
  assumes "signal_details repo link mid s db = Inr db'"
  shows "\<exists>msg. announces repo ''cerbero.v1.signal.created'' (encode_signal repo s) msg
    \<and> ow_message_id msg \<notin> ow_message_id ` set (db_outbox db)
    \<and> db' = db\<lparr>db_signal_inputs := db_signal_inputs db @ map (signal_input_row_of (sg_signal_id s)) (sg_inputs s),
        db_outbox := db_outbox db @ [msg]\<rparr>"
proof -
  obtain db3 env where f: "try_fold (persist_signal_input repo link (sg_signal_id s)) db (enumerate 0 (sg_inputs s)) = Inr db3"
    and e: "envelope_of signal_envelope_spec (sg_tenant_id s) (sg_created_at s) (encode_signal repo s)
      (component_version repo) (instance_id repo) mid = Inr env"
    and o: "persist_outbox repo link ''cerbero.v1.signal.created'' env db3 = Inr db'"
    using assms by (auto simp: signal_details_def result_simps)
  show ?thesis using outbox_effect [OF e o] signal_inputs_effect [OF f] by fastforce
qed

lemma finding_details_effect:
  assumes "finding_details repo link mid f db = Inr db'"
  shows "\<exists>msg rows. announces repo ''cerbero.v1.finding.created'' (encode_finding repo f) msg
    \<and> ow_message_id msg \<notin> ow_message_id ` set (db_outbox db)
    \<and> db' = db\<lparr>db_finding_inputs := db_finding_inputs db @ map (finding_input_row_of (fd_finding_id f)) (fd_inputs f),
        db_provenance := db_provenance db @ rows, db_outbox := db_outbox db @ [msg]\<rparr>"
proof -
  obtain db2 db3 env where f: "try_fold (persist_finding_input repo link (fd_finding_id f)) db (enumerate 0 (fd_inputs f)) = Inr db2"
    and p: "persist_provenance repo link (fd_finding_id f) (fd_correlation_provenance f) db2 = Inr db3"
    and e: "envelope_of finding_envelope_spec (fd_tenant_id f) (fd_created_at f) (encode_finding repo f)
      (component_version repo) (instance_id repo) mid = Inr env"
    and o: "persist_outbox repo link ''cerbero.v1.finding.created'' env db3 = Inr db'"
    using assms by (auto simp: finding_details_def result_simps)
  show ?thesis
    using outbox_effect [OF e o] finding_inputs_effect [OF f] provenance_effect [OF p] by fastforce
qed

lemma signal_tx_effect:
  assumes "signal_tx repo link mid s db = Inr (db', stored)"
  obtains created where "wf_signal s"
    "stores (db_signals db) (signal_row_of repo s created) (db_signals db') stored"
    "db_findings db' = db_findings db" "db_finding_inputs db' = db_finding_inputs db"
    "db' = db \<or> (db_signals db' = db_signals db @ [signal_row_of repo s created]
       \<and> db_signal_inputs db' = db_signal_inputs db @ map (signal_input_row_of (sg_signal_id s)) (sg_inputs s)
       \<and> (\<exists>msg. announces repo ''cerbero.v1.signal.created'' (encode_signal repo s) msg
            \<and> ow_message_id msg \<notin> ow_message_id ` set (db_outbox db) \<and> db_outbox db' = db_outbox db @ [msg]))"
proof -
  obtain t rows n row where wf: "wf_signal s"
    and ins: "insert_object ''signals'' (signal_row_of repo s t) (db_signals db) = Inr (rows, n)"
    and det: "(if n = 1 then signal_details repo link mid s (db\<lparr>db_signals := rows\<rparr>) else Inr (db\<lparr>db_signals := rows\<rparr>)) = Inr db'"
    and row: "find (\<lambda>r. ob_logical_key r = ob_logical_key (signal_row_of repo s t)) (db_signals db') = Some row"
    and res: "stored = ob_payload row"
    using assms unfolding signal_tx_def insert_signal_def Let_def
    by (auto simp: result_simps signal_row_of_def split: prod.splits)
  obtain stored' where st: "stores (db_signals db) (signal_row_of repo s t) rows stored'"
    using ins by (auto simp: insert_object_ok)
  have rows: "db_signals db' = rows"
    using det by (auto split: if_splits dest!: signal_details_effect)
  then have "stored' = stored" using stores_read_back [OF st] row res by auto
  then have A: "stores (db_signals db) (signal_row_of repo s t) (db_signals db') stored" using st rows by simp
  have B: "db_findings db' = db_findings db" "db_finding_inputs db' = db_finding_inputs db"
    using det by (auto split: if_splits dest!: signal_details_effect)
  show thesis
  proof (cases "n = 1")
    case True
    then have "rows = db_signals db @ [signal_row_of repo s t]"
      using st ins by (auto simp: insert_object_ok stores_def split: if_splits)
    then show thesis using that [OF wf A B] det True by (auto dest!: signal_details_effect)
  next
    case False
    then have "rows = db_signals db" using st ins
      by (auto simp: insert_object_ok stores_def split: if_splits)
    then show thesis using that [OF wf A B] det False by auto
  qed
qed

definition finding_row_of :: "repository \<Rightarrow> finding \<Rightarrow> string \<Rightarrow> int \<times> int \<Rightarrow> object_row" where
  "finding_row_of repo f key created = \<lparr>ob_id = pg_uuid (fd_finding_id f), ob_logical_key = key,
     ob_tenant_id = pg_uuid (fd_tenant_id f), ob_created_at = created, ob_payload = encode_finding repo f\<rparr>"

lemma finding_tx_effect:
  assumes "finding_tx repo link mid f db = Inr (db', stored)"
  obtains key created where "wf_finding f" "finding_logical_key (repo_digest repo) f = Inr key"
    "stores (db_findings db) (finding_row_of repo f key created) (db_findings db') stored"
    "db_signals db' = db_signals db" "db_signal_inputs db' = db_signal_inputs db"
    "db' = db \<or> (db_findings db' = db_findings db @ [finding_row_of repo f key created]
       \<and> db_finding_inputs db' = db_finding_inputs db @ map (finding_input_row_of (fd_finding_id f)) (fd_inputs f)
       \<and> (\<exists>msg. announces repo ''cerbero.v1.finding.created'' (encode_finding repo f) msg
            \<and> ow_message_id msg \<notin> ow_message_id ` set (db_outbox db) \<and> db_outbox db' = db_outbox db @ [msg]))"
proof -
  obtain key t rows n row where wf: "wf_finding f" and key: "finding_logical_key (repo_digest repo) f = Inr key"
    and ins: "insert_object ''findings'' (finding_row_of repo f key t) (db_findings db) = Inr (rows, n)"
    and det: "(if n = 1 then finding_details repo link mid f (db\<lparr>db_findings := rows\<rparr>) else Inr (db\<lparr>db_findings := rows\<rparr>)) = Inr db'"
    and row: "find (\<lambda>r. ob_logical_key r = ob_logical_key (finding_row_of repo f key t)) (db_findings db') = Some row"
    and res: "stored = ob_payload row"
    using assms unfolding finding_tx_def insert_finding_def
    by (auto simp: result_simps finding_row_of_def split: prod.splits)
  obtain stored' where st: "stores (db_findings db) (finding_row_of repo f key t) rows stored'"
    using ins by (auto simp: insert_object_ok)
  have rows: "db_findings db' = rows"
    using det by (auto split: if_splits dest!: finding_details_effect)
  then have "stored' = stored" using stores_read_back [OF st] row res by auto
  then have A: "stores (db_findings db) (finding_row_of repo f key t) (db_findings db') stored" using st rows by simp
  have B: "db_signals db' = db_signals db" "db_signal_inputs db' = db_signal_inputs db"
    using det by (auto split: if_splits dest!: finding_details_effect)
  show thesis
  proof (cases "n = 1")
    case True
    then have "rows = db_findings db @ [finding_row_of repo f key t]"
      using st ins by (auto simp: insert_object_ok stores_def split: if_splits)
    then show thesis using that [OF wf key A B] det True by (auto dest!: finding_details_effect)
  next
    case False
    then have "rows = db_findings db" using st ins
      by (auto simp: insert_object_ok stores_def split: if_splits)
    then show thesis using that [OF wf key A B] det False by auto
  qed
qed

end
