(* ===== verification/Mvp_Batch.thy ===== *)
theory Mvp_Batch
  imports Mvp_Source Analytical_Repository
begin

text \<open>
  One bounded execution of the batch runtime (\<open>MvpBatchRuntime::execute\<close> in \<open>mvp_batch.rs\<close> of
  cerbero-detection-runtime): load, EVENT rules on every event, the THRESHOLD rule, the SEQUENCE over
  the durable EVENT Signals, every result persisted before it is used. The state is the database, the
  number of identities drawn from \<open>Uuid::now_v7\<close> and what will become of the connection in the
  transactions to come; a failing step ends the run and keeps what was committed before it. The
  environment collects the parameters: the identity supply, the ClickHouse exchange and decoders of
  the source, the YAML decoder and text of the Sigma pack, and the repository.
\<close>

section \<open>Runs\<close>

datatype batch_stop = Failed runtime_error | Panicked

text \<open>One entry per transaction to come tells how the connection behaves in it; when the list ends, the
  connection answers.\<close>

record batch_state =
  bs_db :: analytical_db
  bs_next :: nat
  bs_links :: "tx_link list"

type_synonym 'a batch = "batch_state \<Rightarrow> batch_state \<times> ('a, batch_stop) result"

definition batch_return :: "'a \<Rightarrow> 'a batch" where
  "batch_return x st = (st, Inr x)"

definition batch_bind :: "'a batch \<Rightarrow> ('a \<Rightarrow> 'b batch) \<Rightarrow> 'b batch" where
  "batch_bind m f st = (case m st of (st', Inl e) \<Rightarrow> (st', Inl e) | (st', Inr x) \<Rightarrow> f x st')"

definition batch_lift :: "('a, runtime_error) result \<Rightarrow> 'a batch" where
  "batch_lift r st = (st, map_err Failed r)"

text \<open>A loop whose body may fail: it stops at the first failure.\<close>

fun batch_each :: "('x \<Rightarrow> 'y batch) \<Rightarrow> 'x list \<Rightarrow> 'y list batch" where
  "batch_each body [] = batch_return []"
| "batch_each body (x # xs) = batch_bind (body x) (\<lambda>y. batch_bind (batch_each body xs) (\<lambda>ys. batch_return (y # ys)))"

record 'n batch_env =
  now_v7 :: "nat \<Rightarrow> string"
  env_fetch :: "mvp_clickhouse_config \<Rightarrow> (string \<times> string) list \<Rightarrow> http_outcome"
  env_decode_row :: "string \<Rightarrow> (stored_normalized_row, string) result"
  env_parse_json :: "string \<Rightarrow> ('n json, string) result"
  env_as_f64 :: "'n \<Rightarrow> f64 option"
  env_debug_str :: "string \<Rightarrow> string"
  env_parse_documents :: "string \<Rightarrow> sigma_document list imported"
  env_sigma_source :: string
  env_repository :: repository
  env_config :: mvp_clickhouse_config

record mvp_batch_result =
  events_loaded :: nat
  result_signals :: "signal list"
  result_findings :: "finding list"

definition fresh_id :: "'n batch_env \<Rightarrow> string batch" where
  "fresh_id env st = (st\<lparr>bs_next := bs_next st + 1\<rparr>, Inr (now_v7 env (bs_next st)))"

definition next_link :: "tx_link batch" where
  "next_link st = (case bs_links st of
      [] \<Rightarrow> (st, Inr answering) | link # links \<Rightarrow> (st\<lparr>bs_links := links\<rparr>, Inr link))"

definition store_signal :: "'n batch_env \<Rightarrow> signal \<Rightarrow> signal batch" where
  "store_signal env s = batch_bind (fresh_id env) (\<lambda>message_id. batch_bind next_link (\<lambda>link st.
    case persist_signal (env_repository env) link message_id s (bs_db st) of
      (db, r) \<Rightarrow> (st\<lparr>bs_db := db\<rparr>, map_err Failed r)))"

definition store_finding :: "'n batch_env \<Rightarrow> finding \<Rightarrow> finding batch" where
  "store_finding env f = batch_bind (fresh_id env) (\<lambda>message_id. batch_bind next_link (\<lambda>link st.
    case persist_finding (env_repository env) link message_id f (bs_db st) of
      (db, r) \<Rightarrow> (st\<lparr>bs_db := db\<rparr>, map_err Failed r)))"

section \<open>Steps\<close>

record event_presentation =
  ep_severity :: string
  ep_summary :: string

definition event_step ::
  "'n batch_env \<Rightarrow> mvp_batch_request \<Rightarrow> batch_event \<Rightarrow> mvp_compiled_event_plan \<times> event_presentation
     \<Rightarrow> signal option batch" where
  "event_step env request b item = (case item of (plan, presentation) \<Rightarrow>
    batch_bind (batch_lift (map_err (\<lambda>e. RuntimeError (''EVENT evaluation failed: ''
        @ display_event_signal_error display_mvp_policy_error e))
      (evaluate_normalized_event_for_signal (\<lambda>f. f) (compiled_plan plan) (be_event b)
        (br_execution_mode request) (br_evaluated_at request) mvp_leaf_policy))) (\<lambda>evaluation.
    case evaluation of
      SignalNoMatch \<Rightarrow> batch_return None
    | SignalMatch provenance \<Rightarrow>
        batch_bind (batch_bind (fresh_id env) (\<lambda>signal_id.
          batch_bind (batch_lift (map_err (\<lambda>e. RuntimeError (''EVENT materialization failed: '' @ display_violation e))
            (materialize_event_signal (\<lambda>v. v) provenance (be_event b)
              \<lparr>esc_signal_id = signal_id, esc_severity = ep_severity presentation, esc_confidence = None,
               esc_summary = ep_summary presentation, esc_input_relation = ''EVENT_MATCH'',
               esc_created_at = br_created_at request, esc_source_event_time = be_source_event_time b\<rparr>)))
          (store_signal env)))
        (\<lambda>durable. batch_return (Some durable))))"

definition threshold_step ::
  "'n batch_env \<Rightarrow> mvp_batch_request \<Rightarrow> string threshold_signal_provenance \<Rightarrow> signal batch" where
  "threshold_step env request provenance =
    batch_bind (fresh_id env) (\<lambda>signal_id.
    batch_bind (batch_lift (map_err (\<lambda>e. RuntimeError (''THRESHOLD materialization failed: '' @ display_violation e))
      (materialize_threshold_signal (\<lambda>v. v) provenance
        \<lparr>tsc_signal_id = signal_id, tsc_severity = ''HIGH'', tsc_confidence = None,
         tsc_summary = ''SSH authentication burst: 10 failed logins within 5 minutes'',
         tsc_input_relation = ''THRESHOLD_INPUT'', tsc_created_at = br_created_at request, tsc_source_count = 1\<rparr>)))
    (store_signal env))"

definition finding_step ::
  "'n batch_env \<Rightarrow> mvp_batch_request \<Rightarrow> sequence_correlation_match \<Rightarrow> finding batch" where
  "finding_step env request correlation_match =
    batch_bind (fresh_id env) (\<lambda>finding_id.
    batch_bind (batch_lift (map_err (\<lambda>e. RuntimeError (''SEQUENCE materialization failed: '' @ display_violation e))
      (materialize_sequence_correlation_finding correlation_match
        \<lparr>cfc_finding_id = finding_id, cfc_severity = ''HIGH'', cfc_confidence = Some ''MEDIUM'',
         cfc_title = ''Account compromise sequence'',
         cfc_description = ''Failed login followed by successful login and privilege escalation'',
         cfc_input_relation = ''SEQUENCE_INPUT'', cfc_created_at = br_created_at request\<rparr>)))
    (store_finding env))"

definition event_rules ::
  "'n batch_env \<Rightarrow> (mvp_compiled_event_plan \<times> event_presentation) list batch" where
  "event_rules env = (let digest = repo_digest (env_repository env) in
    batch_bind (batch_lift (compile_event_rule digest FAILED_LOGIN_RULE_ID ''mvp-failed-login-v1''
      failed_login_expression)) (\<lambda>failed_plan.
    batch_bind (batch_lift (compile_event_rule digest SUCCESSFUL_LOGIN_RULE_ID ''mvp-successful-login-v1''
      successful_login_expression)) (\<lambda>success_plan.
    batch_bind (batch_lift (compile_event_rule digest PRIVILEGE_ESCALATION_RULE_ID ''mvp-privilege-escalation-v1''
      privilege_escalation_expression)) (\<lambda>privilege_plan.
    batch_return
      [(failed_plan, \<lparr>ep_severity = ''MEDIUM'', ep_summary = ''Failed login matched''\<rparr>),
       (success_plan, \<lparr>ep_severity = ''LOW'', ep_summary = ''Successful login matched''\<rparr>),
       (privilege_plan, \<lparr>ep_severity = ''HIGH'', ep_summary = ''Privilege escalation matched''\<rparr>)]))))"

section \<open>The execution\<close>

definition execute_events ::
  "'n batch_env \<Rightarrow> mvp_batch_request \<Rightarrow> batch_event list \<Rightarrow> signal list batch" where
  "execute_events env request events =
    batch_bind (event_rules env) (\<lambda>rules.
    batch_bind (batch_each (\<lambda>b. batch_each (event_step env request b) rules) events) (\<lambda>found.
    batch_return (List.map_filter (\<lambda>x. x) (concat found))))"

definition execute_thresholds ::
  "'n batch_env \<Rightarrow> mvp_batch_request \<Rightarrow> batch_event list \<Rightarrow> signal list batch" where
  "execute_thresholds env request events =
    (case compile_threshold_rule (env_debug_str env) (env_parse_documents env)
        (repo_digest (env_repository env)) (env_sigma_source env) of
       None \<Rightarrow> (\<lambda>st. (st, Inl Panicked))
     | Some compiled \<Rightarrow>
        batch_bind (batch_lift compiled) (\<lambda>threshold_plan.
        batch_bind (batch_lift (map_err (\<lambda>e. RuntimeError (''THRESHOLD evaluation failed: ''
            @ display_threshold_error display_mvp_policy_error e))
          (evaluate_threshold_normalized_events (\<lambda>f. f) threshold_plan (map be_event events)
            (br_execution_mode request) (br_evaluated_at request) mvp_policy)))
        (batch_each (threshold_step env request))))"

definition execute_sequences ::
  "'n batch_env \<Rightarrow> mvp_batch_request \<Rightarrow> batch_event list \<Rightarrow> signal list \<Rightarrow> finding list batch" where
  "execute_sequences env request events sequence_signals =
    batch_bind (batch_lift (compile_sequence_rule (repo_digest (env_repository env)))) (\<lambda>sequence_plan.
    batch_bind (batch_lift (mvp_sequence_policy_new events)) (\<lambda>users.
    batch_bind (batch_lift (map_err (\<lambda>e. RuntimeError (''SEQUENCE evaluation failed: ''
        @ display_sequence_error display_mvp_policy_error e))
      (evaluate_sequence_signals sequence_plan sequence_signals (br_execution_mode request)
        (mvp_sequence_policy users))))
    (batch_each (finding_step env request))))"

definition execute :: "'n batch_env \<Rightarrow> mvp_batch_request \<Rightarrow> mvp_batch_result batch" where
  "execute env request =
    batch_bind (batch_lift (validate_request request)) (\<lambda>_.
    batch_bind (batch_lift (load (env_fetch env) (env_decode_row env) (env_parse_json env) (env_as_f64 env)
      (env_config env) request)) (\<lambda>events.
    batch_bind (execute_events env request events) (\<lambda>sequence_signals.
    batch_bind (execute_thresholds env request events) (\<lambda>threshold_signals.
    batch_bind (execute_sequences env request events sequence_signals) (\<lambda>findings.
    batch_return
      \<lparr>events_loaded = length events,
       result_signals = sort_key sg_signal_id (sequence_signals @ threshold_signals),
       result_findings = sort_key fd_finding_id findings\<rparr>)))))"

end
