(* ===== verification/Idempotent_Store.thy ===== *)
theory Idempotent_Store
  imports Cerbero_Prelude
begin

text \<open>
  The contract under which the batch runtime uses its repository: an object is stored under a
  logical key, the first object of a key stays, and persisting returns what the key holds. In the
  locale it is shown that a run over any list of objects can be repeated: a second run that is answered
  returns the same objects and changes nothing. A call that fails may have stored its object, but loses
  none. The Signal and the Finding side of the repository are the
  instances.
\<close>

fun persist_all ::
  "('i \<Rightarrow> 'a \<Rightarrow> 'db \<Rightarrow> 'db \<times> ('a, 'e) result) \<Rightarrow> ('i \<times> 'a) list \<Rightarrow> 'db \<Rightarrow> 'db \<times> ('a list, 'e) result" where
  "persist_all persist [] db = (db, Inr [])"
| "persist_all persist ((i, x) # xs) db =
    (case persist i x db of
       (db', Inl e) \<Rightarrow> (db', Inl e)
     | (db', Inr y) \<Rightarrow> (case persist_all persist xs db' of (db'', r) \<Rightarrow> (db'', and_then r (\<lambda>ys. Inr (y # ys)))))"

locale idempotent_store =
  fixes persist :: "'i \<Rightarrow> 'a \<Rightarrow> 'db \<Rightarrow> 'db \<times> ('a, 'e) result"
    and key :: "'a \<Rightarrow> 'k" and lookup :: "'db \<Rightarrow> 'k \<Rightarrow> 'a option"
    and acceptable :: "'a \<Rightarrow> bool" and invar :: "'db \<Rightarrow> bool" and answered :: "'i \<Rightarrow> bool"
  assumes persist_ok: "invar db \<Longrightarrow> persist i x db = (db', Inr y) \<Longrightarrow> acceptable x \<and> lookup db' (key x) = Some y"
    and persist_invar: "invar db \<Longrightarrow> persist i x db = (db', r) \<Longrightarrow> invar db'"
    and persist_keeps: "invar db \<Longrightarrow> persist i x db = (db', r) \<Longrightarrow> lookup db k = Some z \<Longrightarrow> lookup db' k = Some z"
    and persist_known: "invar db \<Longrightarrow> acceptable x \<Longrightarrow> lookup db (key x) = Some y \<Longrightarrow> answered i \<Longrightarrow> persist i x db = (db, Inr y)"
begin

lemma persist_all_ConsE:
  assumes "persist_all persist ((i, x) # xs) db = (db', Inr ys)"
  obtains db1 y zs where "persist i x db = (db1, Inr y)" "persist_all persist xs db1 = (db', Inr zs)" "ys = y # zs"
  using assms by (auto simp: result_simps split: prod.splits sum.splits)

lemma persist_all_stored:
  assumes "persist_all persist xs db = (db', Inr ys)" "invar db"
  shows "invar db' \<and> list_all2 (\<lambda>x y. acceptable x \<and> lookup db' (key x) = Some y) (map snd xs) ys
    \<and> (\<forall>k z. lookup db k = Some z \<longrightarrow> lookup db' k = Some z)"
  using assms
proof (induction xs arbitrary: db ys)
  case (Cons ix xs)
  obtain i x where ix: "ix = (i, x)" by (cases ix)
  obtain db1 y zs where p: "persist i x db = (db1, Inr y)" and rest: "persist_all persist xs db1 = (db', Inr zs)"
    and ys: "ys = y # zs"
    using Cons.prems(1) unfolding ix by (rule persist_all_ConsE)
  note ok = persist_ok [OF Cons.prems(2) p] persist_invar [OF Cons.prems(2) p]
  then have IH: "invar db'" "list_all2 (\<lambda>x y. acceptable x \<and> lookup db' (key x) = Some y) (map snd xs) zs"
    "\<forall>k z. lookup db1 k = Some z \<longrightarrow> lookup db' k = Some z"
    using Cons.IH [OF rest] by auto
  then show ?case using ok persist_keeps [OF Cons.prems(2) p] by (simp add: ix ys)
qed simp

lemma persist_all_known:
  assumes "invar db" "list_all2 (\<lambda>x y. acceptable x \<and> lookup db (key x) = Some y) (map snd xs) ys"
    and "\<forall>i\<in>fst ` set xs. answered i"
  shows "persist_all persist xs db = (db, Inr ys)"
  using assms(2,3)
proof (induction xs arbitrary: ys)
  case (Cons ix xs)
  then show ?case by (cases ix) (auto simp: list_all2_Cons1 persist_known [OF assms(1)])
qed simp

lemma replay:
  assumes "invar db" "persist_all persist xs db = (db', Inr ys)" "map snd xs' = map snd xs" "\<forall>i\<in>fst ` set xs'. answered i"
  shows "persist_all persist xs' db' = (db', Inr ys)"
  using persist_all_stored [OF assms(2,1)] assms(3,4) by (intro persist_all_known) auto

end

end
