(* ===== verification/Repository_Correctness.thy ===== *)
theory Repository_Correctness
  imports Analytical_Repository Idempotent_Store Contract_Properties
begin

text \<open>
  The properties of the analytical repository: both sides meet the contract of an idempotent store,
  every stored object is announced exactly once in the outbox, and the logical key separates
  evaluations unless a free text carries the separators of the key.
\<close>

section \<open>What is assumed of the codec\<close>

text \<open>Protobuf decodes what it encoded, a message with a non-empty field does not encode to nothing and
  SHA-256 has 32 bytes.\<close>

definition codec_ok :: "repository \<Rightarrow> bool" where
  "codec_ok repo \<longleftrightarrow>
     (\<forall>s. wf_signal s \<longrightarrow> decode_signal repo (encode_signal repo s) = Inr s \<and> encode_signal repo s \<noteq> [])
   \<and> (\<forall>f. wf_finding f \<longrightarrow> decode_finding repo (encode_finding repo f) = Inr f \<and> encode_finding repo f \<noteq> [])
   \<and> (\<forall>bytes. length (repo_digest repo bytes) = 32)"

section \<open>Tables of encoded objects\<close>

definition table_inv :: "('a \<Rightarrow> string) \<Rightarrow> ('a \<Rightarrow> string) \<Rightarrow> ('a \<Rightarrow> bool) \<Rightarrow> object_row list \<Rightarrow> bool" where
  "table_inv key enc good rows \<longleftrightarrow>
     (\<forall>r\<in>set rows. \<exists>x. good x \<and> ob_payload r = enc x \<and> ob_logical_key r = key x)"

definition table_lookup :: "(string \<Rightarrow> ('a, string) result) \<Rightarrow> object_row list \<Rightarrow> string \<Rightarrow> 'a option" where
  "table_lookup dec rows k = (case find (\<lambda>r. ob_logical_key r = k) rows of None \<Rightarrow> None
     | Some r \<Rightarrow> (case dec (ob_payload r) of Inr x \<Rightarrow> Some x | Inl _ \<Rightarrow> None))"

lemma find_append_Some: "find P xs = Some r \<Longrightarrow> find P (xs @ ys) = Some r"
  by (induction xs) (auto split: if_splits)

lemma stores_cases:
  assumes "stores rows row rows' stored"
  shows "rows' = rows \<or> rows' = rows @ [row]"
  using assms by (auto simp: stores_def split: if_splits)

lemma stores_keeps:
  assumes "stores rows row rows' stored" "table_lookup dec rows k = Some z"
  shows "table_lookup dec rows' k = Some z"
  using stores_cases [OF assms(1)] assms(2)
  by (auto simp: table_lookup_def find_append_Some split: option.splits)

lemma stores_inv:
  assumes "stores rows row rows' stored" "table_inv key enc good rows" "good x"
    "ob_payload row = enc x" "ob_logical_key row = key x"
  shows "table_inv key enc good rows'"
  using stores_cases [OF assms(1)] assms(2-5) by (auto simp: table_inv_def)

lemma stores_lookup:
  assumes "stores rows row rows' stored" "dec stored = Inr y"
  shows "table_lookup dec rows' (ob_logical_key row) = Some y"
  using stores_read_back [OF assms(1)] assms(2) by (auto simp: table_lookup_def)

lemma stores_decodes:
  assumes "stores rows row rows' stored" "table_inv key enc good rows'" "\<And>x. good x \<Longrightarrow> dec (enc x) = Inr x"
  shows "\<exists>y. dec stored = Inr y"
proof -
  obtain r where "find (\<lambda>r. ob_logical_key r = ob_logical_key row) rows' = Some r" "stored = ob_payload r"
    using stores_read_back [OF assms(1)] by auto
  then have "r \<in> set rows'" by (auto simp: find_Some_iff)
  then show ?thesis using assms(2,3) \<open>stored = ob_payload r\<close> by (auto simp: table_inv_def)
qed

lemma table_lookup_find:
  "table_lookup dec rows k = Some y \<Longrightarrow>
     \<exists>r. find (\<lambda>r. ob_logical_key r = k) rows = Some r \<and> dec (ob_payload r) = Inr y \<and> k \<in> ob_logical_key ` set rows"
  by (auto simp: table_lookup_def find_Some_iff split: option.splits sum.splits)

section \<open>Signals\<close>

abbreviation signal_key :: "repository \<Rightarrow> signal \<Rightarrow> string" where
  "signal_key repo \<equiv> signal_logical_key (repo_digest repo)"

definition signals_inv :: "repository \<Rightarrow> analytical_db \<Rightarrow> bool" where
  "signals_inv repo db \<longleftrightarrow> codec_ok repo
     \<and> table_inv (signal_key repo) (encode_signal repo) wf_signal (db_signals db)"

definition stored_signal :: "repository \<Rightarrow> analytical_db \<Rightarrow> string \<Rightarrow> signal option" where
  "stored_signal repo db k = table_lookup (decode_signal repo) (db_signals db) k"

lemma signal_key_valid: "codec_ok repo \<Longrightarrow> valid_sha256_text (signal_key repo s)"
  unfolding signal_logical_key_def by (rule valid_sha256_text_lower_hex) (simp add: codec_ok_def)

lemma signal_tx_inv:
  assumes "signals_inv repo db" "signal_tx repo link i s db = Inr (db', stored)"
  shows "signals_inv repo db' \<and> wf_signal s \<and> (\<exists>y. decode_signal repo stored = Inr y \<and> stored_signal repo db' (signal_key repo s) = Some y)
    \<and> (\<forall>k z. stored_signal repo db k = Some z \<longrightarrow> stored_signal repo db' k = Some z)"
  using assms(2)
proof (rule signal_tx_effect)
  fix t
  assume good: "wf_signal s" and st: "stores (db_signals db) (signal_row_of repo s t) (db_signals db') stored"
  have inv: "table_inv (signal_key repo) (encode_signal repo) wf_signal (db_signals db')"
    using assms(1) good by (intro stores_inv [OF st, where x = s]) (simp_all add: signals_inv_def signal_row_of_def)
  then obtain y where "decode_signal repo stored = Inr y"
    using stores_decodes [OF st inv, of "decode_signal repo"] assms(1) by (auto simp: signals_inv_def codec_ok_def)
  then show ?thesis
    using good inv assms(1) stores_lookup [OF st] stores_keeps [OF st]
    by (auto simp: signals_inv_def stored_signal_def signal_row_of_def)
qed

lemma persist_signal_tx:
  assumes "persist_signal repo link i s db = (db', r)"
  obtains "db' = db" "\<exists>e. r = Inl e"
  | stored where "signal_tx repo link i s db = Inr (db', stored)" "r = map_err RuntimeError (decode_signal repo stored) \<or> (\<exists>e. r = Inl e)"
proof (cases "tx_commit link db (signal_tx repo link i s db)")
  case (Pair db1 r1)
  with assms have "db1 = db'" "r = and_then r1 (\<lambda>stored. map_err RuntimeError (decode_signal repo stored))"
    by (simp_all add: persist_signal_def)
  with Pair that show thesis by (auto elim!: tx_commit_cases)
qed

interpretation signal_store: idempotent_store "\<lambda>(link, i). persist_signal repo link i" "signal_key repo" "stored_signal repo"
  wf_signal "signals_inv repo" "\<lambda>(link, i). link = answering" for repo
proof (unfold_locales, unfold split_paired_all prod.case)
  fix repo db db' link i x y k z and r :: "(signal, runtime_error) result"
  assume inv: "signals_inv repo db"
  show "wf_signal x \<and> stored_signal repo db' (signal_key repo x) = Some y" if "persist_signal repo link i x db = (db', Inr y)"
    using that signal_tx_inv [OF inv, of link i x db'] by (auto simp: result_simps elim!: persist_signal_tx)
  show "signals_inv repo db'" "stored_signal repo db k = Some z \<Longrightarrow> stored_signal repo db' k = Some z"
    if "persist_signal repo link i x db = (db', r)"
    using that inv signal_tx_inv [OF inv, of link i x db'] by (auto elim!: persist_signal_tx)
  show "persist_signal repo link i x db = (db, Inr y)"
    if x: "wf_signal x" and known: "stored_signal repo db (signal_key repo x) = Some y" and link: "link = answering"
  proof -
    obtain r where r: "find (\<lambda>r. ob_logical_key r = signal_key repo x) (db_signals db) = Some r"
      "decode_signal repo (ob_payload r) = Inr y" "signal_key repo x \<in> ob_logical_key ` set (db_signals db)"
      using known unfolding stored_signal_def by (auto dest!: table_lookup_find)
    obtain t where "sg_created_at x = Some t" using x by (auto simp: wf_signal_def)
    moreover have "validate_signal x = Inr ()" using x by (simp add: validate_signal_ok)
    ultimately have "signal_tx repo answering i x db = Inr (db, ob_payload r)"
      using x r inv signal_key_valid [of repo x]
      by (simp add: signal_tx_def timestamp_parts_def insert_signal_def insert_object_def
          signals_inv_def codec_ok_def pg_run_def Let_def)
    then show ?thesis using r(2) by (simp add: persist_signal_def link)
  qed
qed

section \<open>Findings\<close>

definition finding_key :: "repository \<Rightarrow> finding \<Rightarrow> string" where
  "finding_key repo f = (case fd_correlation_provenance f of None \<Rightarrow> ''''
     | Some p \<Rightarrow> sha256_lower_hex (repo_digest repo) (finding_key_text f p))"

definition wf_correlation_finding :: "finding \<Rightarrow> bool" where
  "wf_correlation_finding f \<longleftrightarrow> wf_finding f \<and> fd_correlation_provenance f \<noteq> None"

lemma finding_logical_key_ok:
  "finding_logical_key (repo_digest repo) f = Inr k \<longleftrightarrow> fd_correlation_provenance f \<noteq> None \<and> k = finding_key repo f"
  by (auto simp: finding_logical_key_def finding_key_def result_simps)

lemma finding_key_valid:
  "codec_ok repo \<Longrightarrow> fd_correlation_provenance f \<noteq> None \<Longrightarrow> valid_sha256_text (finding_key repo f)"
  using valid_sha256_text_lower_hex [of "repo_digest repo" "finding_key_text f (the (fd_correlation_provenance f))"]
  by (auto simp: finding_key_def codec_ok_def)

definition findings_inv :: "repository \<Rightarrow> analytical_db \<Rightarrow> bool" where
  "findings_inv repo db \<longleftrightarrow> codec_ok repo
     \<and> table_inv (finding_key repo) (encode_finding repo) wf_correlation_finding (db_findings db)"

definition stored_finding :: "repository \<Rightarrow> analytical_db \<Rightarrow> string \<Rightarrow> finding option" where
  "stored_finding repo db k = table_lookup (decode_finding repo) (db_findings db) k"

lemma finding_tx_inv:
  assumes "findings_inv repo db" "finding_tx repo link i f db = Inr (db', stored)"
  shows "findings_inv repo db' \<and> wf_correlation_finding f
    \<and> (\<exists>y. decode_finding repo stored = Inr y \<and> stored_finding repo db' (finding_key repo f) = Some y)
    \<and> (\<forall>k z. stored_finding repo db k = Some z \<longrightarrow> stored_finding repo db' k = Some z)"
  using assms(2)
proof (rule finding_tx_effect)
  fix key t
  assume "wf_finding f" and key: "finding_logical_key (repo_digest repo) f = Inr key"
    and st: "stores (db_findings db) (finding_row_of repo f key t) (db_findings db') stored"
  then have good: "wf_correlation_finding f" and key_eq: "key = finding_key repo f"
    by (auto simp: wf_correlation_finding_def finding_logical_key_ok)
  have inv: "table_inv (finding_key repo) (encode_finding repo) wf_correlation_finding (db_findings db')"
    using assms(1) good
    by (intro stores_inv [OF st, where x = f]) (simp_all add: findings_inv_def finding_row_of_def key_eq)
  then obtain y where "decode_finding repo stored = Inr y"
    using stores_decodes [OF st inv, of "decode_finding repo"] assms(1)
    by (auto simp: findings_inv_def codec_ok_def wf_correlation_finding_def)
  then show ?thesis
    using good inv assms(1) stores_lookup [OF st] stores_keeps [OF st]
    by (auto simp: findings_inv_def stored_finding_def finding_row_of_def key_eq)
qed

lemma persist_finding_tx:
  assumes "persist_finding repo link i f db = (db', r)"
  obtains "db' = db" "\<exists>e. r = Inl e"
  | stored where "finding_tx repo link i f db = Inr (db', stored)" "r = map_err RuntimeError (decode_finding repo stored) \<or> (\<exists>e. r = Inl e)"
proof (cases "tx_commit link db (finding_tx repo link i f db)")
  case (Pair db1 r1)
  with assms have "db1 = db'" "r = and_then r1 (\<lambda>stored. map_err RuntimeError (decode_finding repo stored))"
    by (simp_all add: persist_finding_def)
  with Pair that show thesis by (auto elim!: tx_commit_cases)
qed

interpretation finding_store: idempotent_store "\<lambda>(link, i). persist_finding repo link i" "finding_key repo" "stored_finding repo"
  wf_correlation_finding "findings_inv repo" "\<lambda>(link, i). link = answering" for repo
proof (unfold_locales, unfold split_paired_all prod.case)
  fix repo db db' link i x y k z and r :: "(finding, runtime_error) result"
  assume inv: "findings_inv repo db"
  show "wf_correlation_finding x \<and> stored_finding repo db' (finding_key repo x) = Some y" if "persist_finding repo link i x db = (db', Inr y)"
    using that finding_tx_inv [OF inv, of link i x db'] by (auto simp: result_simps elim!: persist_finding_tx)
  show "findings_inv repo db'" "stored_finding repo db k = Some z \<Longrightarrow> stored_finding repo db' k = Some z"
    if "persist_finding repo link i x db = (db', r)"
    using that inv finding_tx_inv [OF inv, of link i x db'] by (auto elim!: persist_finding_tx)
  show "persist_finding repo link i x db = (db, Inr y)"
    if x: "wf_correlation_finding x" and known: "stored_finding repo db (finding_key repo x) = Some y" and link: "link = answering"
  proof -
    obtain r where r: "find (\<lambda>r. ob_logical_key r = finding_key repo x) (db_findings db) = Some r"
      "decode_finding repo (ob_payload r) = Inr y" "finding_key repo x \<in> ob_logical_key ` set (db_findings db)"
      using known unfolding stored_finding_def by (auto dest!: table_lookup_find)
    obtain t where "fd_created_at x = Some t" using x by (auto simp: wf_finding_def wf_correlation_finding_def)
    moreover have "validate_finding x = Inr ()" "finding_logical_key (repo_digest repo) x = Inr (finding_key repo x)"
      using x by (simp_all add: validate_finding_ok wf_correlation_finding_def finding_logical_key_ok)
    ultimately have "finding_tx repo answering i x db = Inr (db, ob_payload r)"
      using x r inv finding_key_valid [of repo x]
      by (simp add: finding_tx_def timestamp_parts_def insert_finding_def insert_object_def
          findings_inv_def codec_ok_def pg_run_def wf_correlation_finding_def)
    then show ?thesis using r(2) by (simp add: persist_finding_def link)
  qed
qed

section \<open>Reachable databases\<close>

datatype repo_operation = PersistSignal tx_link string signal | PersistFinding tx_link string finding

fun run_operation :: "repository \<Rightarrow> repo_operation \<Rightarrow> analytical_db \<Rightarrow> analytical_db" where
  "run_operation repo (PersistSignal link message_id s) db = fst (persist_signal repo link message_id s db)"
| "run_operation repo (PersistFinding link message_id f) db = fst (persist_finding repo link message_id f db)"

inductive reachable_db :: "repository \<Rightarrow> analytical_db \<Rightarrow> bool" for repo where
  initial: "reachable_db repo empty_db"
| operation: "reachable_db repo db \<Longrightarrow> reachable_db repo (run_operation repo op db)"

text \<open>A step as a transaction that either left no trace or had the effects shown for it, whatever became of the
  connection.\<close>

lemma run_signal_cases:
  obtains "run_operation repo (PersistSignal link i s) db = db"
  | stored db' where "signal_tx repo link i s db = Inr (db', stored)" "run_operation repo (PersistSignal link i s) db = db'"
  by (cases "persist_signal repo link i s db") (auto elim: persist_signal_tx)

lemma run_finding_cases:
  obtains "run_operation repo (PersistFinding link i f) db = db"
  | stored db' where "finding_tx repo link i f db = Inr (db', stored)" "run_operation repo (PersistFinding link i f) db = db'"
  by (cases "persist_finding repo link i f db") (auto elim: persist_finding_tx)

lemma reachable_inv:
  assumes "reachable_db repo db" "codec_ok repo"
  shows "signals_inv repo db \<and> findings_inv repo db"
  using assms(1)
proof induction
  case initial
  then show ?case by (simp add: signals_inv_def findings_inv_def assms(2) empty_db_def table_inv_def)
next
  case (operation db op)
  show ?case
  proof (cases op)
    case (PersistSignal link i s)
    show ?thesis
      unfolding PersistSignal
      by (rule run_signal_cases [of repo link i s db])
        (use operation.IH signal_tx_inv in \<open>auto simp: findings_inv_def elim: signal_tx_effect\<close>)
  next
    case (PersistFinding link i f)
    show ?thesis
      unfolding PersistFinding
      by (rule run_finding_cases [of repo link i f db])
        (use operation.IH finding_tx_inv in \<open>auto simp: signals_inv_def elim: finding_tx_effect\<close>)
  qed
qed

text \<open>Persisting is idempotent over whole runs: in every database that the repository can reach, a run
  that stored a list of Signals, over whatever connection, can be repeated with other message identities;
  a second run that is answered returns the same Signals and changes nothing, so no Signal is stored or announced twice.\<close>

theorem signals_replay_idempotent:
  assumes "reachable_db repo db" "codec_ok repo"
    and "persist_all (\<lambda>(link, i). persist_signal repo link i) xs db = (db', Inr ys)" "map snd xs' = map snd xs"
    and "\<forall>((link, i), x)\<in>set xs'. link = answering"
  shows "persist_all (\<lambda>(link, i). persist_signal repo link i) xs' db' = (db', Inr ys)"
  using reachable_inv [OF assms(1,2)] assms(5) by (intro signal_store.replay [OF _ assms(3,4)]) auto

text \<open>The same holds of runs over Findings.\<close>

lemma findings_replay_idempotent:
  assumes "reachable_db repo db" "codec_ok repo"
    and "persist_all (\<lambda>(link, i). persist_finding repo link i) xs db = (db', Inr ys)" "map snd xs' = map snd xs"
    and "\<forall>((link, i), x)\<in>set xs'. link = answering"
  shows "persist_all (\<lambda>(link, i). persist_finding repo link i) xs' db' = (db', Inr ys)"
  using reachable_inv [OF assms(1,2)] assms(5) by (intro finding_store.replay [OF _ assms(3,4)]) auto

section \<open>The outbox\<close>

definition signal_messages :: "analytical_db \<Rightarrow> outbox_row list" where
  "signal_messages db = filter (\<lambda>m. ow_subject m = ''cerbero.v1.signal.created'') (db_outbox db)"

definition finding_messages :: "analytical_db \<Rightarrow> outbox_row list" where
  "finding_messages db = filter (\<lambda>m. ow_subject m = ''cerbero.v1.finding.created'') (db_outbox db)"

definition outbox_inv :: "repository \<Rightarrow> analytical_db \<Rightarrow> bool" where
  "outbox_inv repo db \<longleftrightarrow>
     list_all2 (\<lambda>r m. announces repo ''cerbero.v1.signal.created'' (ob_payload r) m) (db_signals db) (signal_messages db)
   \<and> list_all2 (\<lambda>r m. announces repo ''cerbero.v1.finding.created'' (ob_payload r) m) (db_findings db) (finding_messages db)
   \<and> distinct (map ow_message_id (db_outbox db))
   \<and> distinct (map ob_logical_key (db_signals db)) \<and> distinct (map ob_id (db_signals db))
   \<and> distinct (map ob_logical_key (db_findings db)) \<and> distinct (map ob_id (db_findings db))"

lemma announces_subject: "announces repo subject payload m \<Longrightarrow> ow_subject m = subject"
  by (simp add: announces_def)

lemma list_all2_snoc: "list_all2 P (xs @ [x]) (ys @ [y]) \<longleftrightarrow> list_all2 P xs ys \<and> P x y"
  by (induction xs ys rule: list_induct2') (auto simp: list_all2_Cons1 list_all2_Cons2)

lemma stores_distinct:
  assumes "stores rows row rows' stored" "distinct (map ob_logical_key rows)" "distinct (map ob_id rows)"
  shows "distinct (map ob_logical_key rows') \<and> distinct (map ob_id rows')"
  using assms by (auto simp: stores_def split: if_splits)

lemma signal_tx_outbox:
  assumes "outbox_inv repo db" "signal_tx repo link i s db = Inr (db', stored)"
  shows "outbox_inv repo db'"
  using assms(2)
proof (rule signal_tx_effect)
  fix t
  assume st: "stores (db_signals db) (signal_row_of repo s t) (db_signals db') stored" and "db_findings db' = db_findings db"
    and "db' = db \<or> (db_signals db' = db_signals db @ [signal_row_of repo s t]
       \<and> db_signal_inputs db' = db_signal_inputs db @ map (signal_input_row_of (sg_signal_id s)) (sg_inputs s)
       \<and> (\<exists>msg. announces repo ''cerbero.v1.signal.created'' (encode_signal repo s) msg
            \<and> ow_message_id msg \<notin> ow_message_id ` set (db_outbox db) \<and> db_outbox db' = db_outbox db @ [msg]))"
  then show ?thesis
    using assms(1) stores_distinct [OF st]
    by (elim disjE exE conjE) (simp_all add: outbox_inv_def signal_messages_def finding_messages_def
        list_all2_snoc signal_row_of_def announces_subject)
qed

lemma finding_tx_outbox:
  assumes "outbox_inv repo db" "finding_tx repo link i f db = Inr (db', stored)"
  shows "outbox_inv repo db'"
  using assms(2)
proof (rule finding_tx_effect)
  fix key t
  assume st: "stores (db_findings db) (finding_row_of repo f key t) (db_findings db') stored" and "db_signals db' = db_signals db"
    and "db' = db \<or> (db_findings db' = db_findings db @ [finding_row_of repo f key t]
       \<and> db_finding_inputs db' = db_finding_inputs db @ map (finding_input_row_of (fd_finding_id f)) (fd_inputs f)
       \<and> (\<exists>msg. announces repo ''cerbero.v1.finding.created'' (encode_finding repo f) msg
            \<and> ow_message_id msg \<notin> ow_message_id ` set (db_outbox db) \<and> db_outbox db' = db_outbox db @ [msg]))"
  then show ?thesis
    using assms(1) stores_distinct [OF st]
    by (elim disjE exE conjE) (simp_all add: outbox_inv_def signal_messages_def finding_messages_def
        list_all2_snoc finding_row_of_def announces_subject)
qed

text \<open>C13: in every reachable database each stored Signal and Finding is announced by exactly one outbox
  message, in the order of storage, whose envelope is valid and carries the stored payload; message
  identities, object identities and logical keys are unique.\<close>

theorem outbox_announces_once:
  assumes "reachable_db repo db"
  shows "outbox_inv repo db"
  using assms
proof induction
  case initial
  then show ?case by (simp add: outbox_inv_def empty_db_def signal_messages_def finding_messages_def)
next
  case (operation db op)
  show ?case
  proof (cases op)
    case (PersistSignal link i s)
    then show ?thesis
      using operation.IH signal_tx_outbox by (cases rule: run_signal_cases [of repo link i s db]) auto
  next
    case (PersistFinding link i f)
    then show ?thesis
      using operation.IH finding_tx_outbox by (cases rule: run_finding_cases [of repo link i f db]) auto
  qed
qed

end
