(* ===== verification/Sample_Repository.thy ===== *)
theory Sample_Repository
  imports Repository_Correctness "HOL-Library.Countable"
begin

text \<open>
  A concrete repository on which the properties of persistence are instantiated: messages are
  countable, and a message is encoded as the decimal text of its number.
\<close>

section \<open>Countable messages\<close>

instance f64 :: countable by countable_datatype

instance pvalue :: countable by countable_datatype

instance word :: (len) countable
  by (rule countable_classI [of unat]) (simp add: word_unat_eq_iff)

instance timestamp_ext :: (countable) countable
  by (rule countable_classI [of "\<lambda>t. to_nat (seconds t, nanos t, timestamp.more t)"]) (auto intro: timestamp.equality)

instance signal_provenance_ext :: (countable) countable
  by (rule countable_classI [of "\<lambda>p. to_nat (sp_evaluated_at p, sp_execution_backend p, signal_provenance.more p)"])
    (auto intro: signal_provenance.equality)

instance signal_input_ext :: (countable) countable
  by (rule countable_classI [of "\<lambda>x. to_nat (si_signal_id x, si_input_type x, si_input_id x, si_relation x, si_ordinal x,
      signal_input.more x)"]) (auto intro: signal_input.equality)

instance signal_ext :: (countable) countable
  by (rule countable_classI [of "\<lambda>s. to_nat (to_nat (sg_signal_id s, sg_tenant_id s, sg_rule_id s, sg_rule_version s,
      sg_rule_type s, sg_severity s, sg_confidence s, sg_status s), to_nat (sg_first_observed_at s, sg_last_observed_at s,
      sg_created_at s, sg_execution_mode s, sg_source_count s, sg_event_count s, sg_summary s), sg_provenance s,
      sg_inputs s, signal.more s)"]) (auto intro: signal.equality)

instance finding_input_ext :: (countable) countable
  by (rule countable_classI [of "\<lambda>x. to_nat (fi_finding_id x, fi_input_type x, fi_input_id x, fi_relation x,
      finding_input.more x)"]) (auto intro: finding_input.equality)

instance finding_correlation_provenance_ext :: (countable) countable
  by (rule countable_classI [of "\<lambda>p. to_nat (to_nat (cp_correlation_rule_id p, cp_correlation_rule_version p,
      cp_window_start p, cp_window_end p, cp_input_ids p), cp_output_finding_id p, cp_execution_backend p,
      cp_execution_mode p, cp_configuration_hash p, finding_correlation_provenance.more p)"])
    (auto intro: finding_correlation_provenance.equality)

instance finding_ext :: (countable) countable
  by (rule countable_classI [of "\<lambda>f. to_nat (to_nat (fd_finding_id f, fd_tenant_id f, fd_finding_type f, fd_status f,
      fd_severity f, fd_confidence f, fd_title f, fd_description f), to_nat (fd_first_seen f, fd_last_seen f,
      fd_created_at f, fd_updated_at f, fd_primary_rule_id f, fd_primary_rule_version f), to_nat (fd_correlation_rule_id f,
      fd_correlation_rule_version f, fd_disposition f, fd_metadata f, fd_execution_mode f), fd_inputs f,
      fd_correlation_provenance f, finding.more f)"]) (auto intro: finding.equality)

definition sample_repo :: repository where
  "sample_repo = \<lparr>encode_signal = (\<lambda>s. show_nat (to_nat s)),
     decode_signal = (\<lambda>bytes. Inr (from_nat (digits_value 0 bytes))),
     encode_finding = (\<lambda>f. show_nat (to_nat f)),
     decode_finding = (\<lambda>bytes. Inr (from_nat (digits_value 0 bytes))),
     encode_envelope = en_message_id, display_pg = (\<lambda>_. ''db error''), repo_digest = sample_digest,
     component_version = ''0.1.0'', instance_id = ''detection-1''\<rparr>"

lemma sample_digest_length: "length (sample_digest bytes) = 32"
  by (cases bytes) (simp_all add: sample_digest_def)

lemma sample_codec_ok: "codec_ok sample_repo"
  by (simp add: codec_ok_def sample_repo_def digits_value_show_nat show_nat_nonempty sample_digest_length)

lemma sample_repo_fields [simp]:
  "component_version sample_repo = ''0.1.0''" "instance_id sample_repo = ''detection-1''"
  "encode_envelope sample_repo env = en_message_id env" "encode_signal sample_repo s = show_nat (to_nat s)"
  "decode_signal sample_repo (show_nat n) = Inr (from_nat n)"
  "encode_finding sample_repo f = show_nat (to_nat f)" "decode_finding sample_repo (show_nat n) = Inr (from_nat n)"
  by (simp_all add: sample_repo_def digits_value_show_nat)

section \<open>Concrete runs\<close>

lemma sample_envelope:
  assumes "is_ascii_hexdigit c" "es_message_type spec \<noteq> ''''" "es_payload_schema spec \<noteq> ''''"
  shows "\<exists>env. envelope_of spec tenant (Some sample_time) payload ''0.1.0'' ''detection-1'' (sample_uuid c) = Inr env
    \<and> en_message_id env = sample_uuid c"
  using assms unfolding envelope_of_def
  by (subst envelope_contract.gate_complete) (simp_all add: wf_envelope_def sample_uuid_hex sample_time_ok)

lemma sample_uuid_no_zero: "c \<noteq> CHR 0x00 \<Longrightarrow> CHR 0x00 \<notin> set (sample_uuid c)" "sample_uuid c \<noteq> []"
  by (simp_all add: sample_uuid_def)

abbreviation run_signal :: signal where
  "run_signal \<equiv> sample_signal CHR ''1'' ''LOW'' 10"

lemma run_signal_facts:
  "validate_signal run_signal = Inr ()" "wf_signal run_signal" "sg_created_at run_signal = Some sample_time"
  "sg_inputs run_signal = [\<lparr>si_signal_id = sample_uuid CHR ''1'', si_input_type = 1,
     si_input_id = sample_uuid CHR ''1'', si_relation = ''EVENT_MATCH'', si_ordinal = 0\<rparr>]"
  using sample_signals_valid(1) by (simp_all add: validate_signal_ok sample_signal_def event_signal_of_def sample_event_def)

lemma sample_signal_tx:
  assumes "is_ascii_hexdigit c" "wf_signal s" "sg_created_at s = Some sample_time"
    and "sg_inputs s = [\<lparr>si_signal_id = sg_signal_id s, si_input_type = 1, si_input_id = sample_uuid CHR ''1'',
      si_relation = ''EVENT_MATCH'', si_ordinal = 0\<rparr>]"
  shows "\<exists>db. signal_tx sample_repo answering (sample_uuid c) s empty_db = Inr (db, show_nat (to_nat s))"
proof -
  obtain env where env: "envelope_of signal_envelope_spec (sg_tenant_id s) (Some sample_time)
      (show_nat (to_nat s)) ''0.1.0'' ''detection-1'' (sample_uuid c) = Inr env" "en_message_id env = sample_uuid c"
    using sample_envelope [OF assms(1), of signal_envelope_spec "sg_tenant_id s" "show_nat (to_nat s)"]
    by (auto simp: signal_envelope_spec_def)
  have "validate_signal s = Inr ()" using assms(2) by (simp add: validate_signal_ok)
  then show ?thesis
    using env assms(3,4) signal_key_valid [OF sample_codec_ok, of s]
    by (simp add: signal_tx_def Let_def timestamp_parts_def insert_signal_def insert_object_def empty_db_def pg_run_def
        show_nat_nonempty signal_details_def persist_signal_input_def i32_try_from_u32_def i16_try_from_i32_def
        pg_text_def sample_uuid_no_zero insert_signal_input_def persist_outbox_def insert_outbox_def)
qed

theorem signals_replay_idempotent_witness:
  "\<exists>db. persist_all (\<lambda>(link, i). persist_signal sample_repo link i) [((answering, sample_uuid CHR ''7''), run_signal)] empty_db = (db, Inr [run_signal])
    \<and> persist_all (\<lambda>(link, i). persist_signal sample_repo link i) [((answering, sample_uuid CHR ''6''), run_signal)] db = (db, Inr [run_signal])"
proof -
  obtain db where "signal_tx sample_repo answering (sample_uuid CHR ''7'') run_signal empty_db = Inr (db, show_nat (to_nat run_signal))"
    using sample_signal_tx [of "CHR ''7''" run_signal] run_signal_facts
    by (auto simp: byte_class_defs sample_signal_def event_signal_of_def)
  then have run: "persist_all (\<lambda>(link, i). persist_signal sample_repo link i) [((answering, sample_uuid CHR ''7''), run_signal)] empty_db
      = (db, Inr [run_signal])"
    by (simp add: persist_signal_def)
  then show ?thesis
    using signals_replay_idempotent [OF reachable_db.initial sample_codec_ok run,
        of "[((answering, sample_uuid CHR ''6''), run_signal)]"] by auto
qed

text \<open>A commit whose answer is lost.\<close>

theorem outbox_announces_once_witness:
  "outbox_inv sample_repo (run_operation sample_repo
     (PersistSignal (answering(TxCommit := LostAfter ''closed'')) (sample_uuid CHR ''7'') run_signal) empty_db)"
  by (intro outbox_announces_once reachable_db.intros)

end
