(* ===== verification/Mvp_Batch_Correctness.thy ===== *)
theory Mvp_Batch_Correctness
  imports Mvp_Batch Mvp_Correctness Sample_Repository
begin

text \<open>
  The properties of a whole batch execution, over a connection that may break in any transaction. A step
  is governed if it keeps the database reachable, loses no stored object whatever its outcome,
  establishes its postcondition when it returns, and repeats: run again over a connection that
  answers, on any database that extends the one it left, it returns the same value and changes
  nothing. Governed steps compose, so the execution is governed.
\<close>

section \<open>Governed steps\<close>

definition extends :: "repository \<Rightarrow> analytical_db \<Rightarrow> analytical_db \<Rightarrow> bool" where
  "extends repo db db' \<longleftrightarrow>
     (\<forall>k z. stored_signal repo db k = Some z \<longrightarrow> stored_signal repo db' k = Some z)
   \<and> (\<forall>k z. stored_finding repo db k = Some z \<longrightarrow> stored_finding repo db' k = Some z)"

lemma extends_refl [simp]: "extends repo db db"
  by (simp add: extends_def)

lemma extends_trans: "extends repo a b \<Longrightarrow> extends repo b c \<Longrightarrow> extends repo a c"
  by (simp add: extends_def)

definition sound_db :: "repository \<Rightarrow> analytical_db \<Rightarrow> bool" where
  "sound_db repo db \<longleftrightarrow> reachable_db repo db \<and> codec_ok repo"

definition stable :: "repository \<Rightarrow> (analytical_db \<Rightarrow> 'a \<Rightarrow> bool) \<Rightarrow> bool" where
  "stable repo Q \<longleftrightarrow> (\<forall>db db' x. extends repo db db' \<longrightarrow> Q db x \<longrightarrow> Q db' x)"

lemma stableI: "(\<And>db db' x. extends repo db db' \<Longrightarrow> Q db x \<Longrightarrow> Q db' x) \<Longrightarrow> stable repo Q"
  by (auto simp: stable_def)

lemma stableD: "stable repo Q \<Longrightarrow> extends repo db db' \<Longrightarrow> Q db x \<Longrightarrow> Q db' x"
  unfolding stable_def by blast

definition governed :: "repository \<Rightarrow> 'a batch \<Rightarrow> (analytical_db \<Rightarrow> 'a \<Rightarrow> bool) \<Rightarrow> bool" where
  "governed repo m Q \<longleftrightarrow> stable repo Q \<and> (\<forall>st st' r. sound_db repo (bs_db st) \<longrightarrow> m st = (st', r) \<longrightarrow>
     sound_db repo (bs_db st') \<and> extends repo (bs_db st) (bs_db st')
     \<and> (\<forall>x. r = Inr x \<longrightarrow> Q (bs_db st') x \<and> (\<forall>db n. sound_db repo db \<longrightarrow> extends repo (bs_db st') db \<longrightarrow>
          (\<exists>n'. m \<lparr>bs_db = db, bs_next = n, bs_links = []\<rparr> = (\<lparr>bs_db = db, bs_next = n', bs_links = []\<rparr>, Inr x)))))"

lemma governedI:
  assumes "stable repo Q"
    and "\<And>st st' r. sound_db repo (bs_db st) \<Longrightarrow> m st = (st', r) \<Longrightarrow>
      sound_db repo (bs_db st') \<and> extends repo (bs_db st) (bs_db st')"
    and "\<And>st st' x. sound_db repo (bs_db st) \<Longrightarrow> m st = (st', Inr x) \<Longrightarrow> Q (bs_db st') x"
    and "\<And>st st' x db n. sound_db repo (bs_db st) \<Longrightarrow> m st = (st', Inr x) \<Longrightarrow> sound_db repo db \<Longrightarrow>
      extends repo (bs_db st') db \<Longrightarrow> \<exists>n'. m \<lparr>bs_db = db, bs_next = n, bs_links = []\<rparr> = (\<lparr>bs_db = db, bs_next = n', bs_links = []\<rparr>, Inr x)"
  shows "governed repo m Q"
  using assms unfolding governed_def by blast

lemma governed_stable: "governed repo m Q \<Longrightarrow> stable repo Q"
  by (simp add: governed_def)

lemma governed_step:
  assumes "governed repo m Q" "sound_db repo (bs_db st)" "m st = (st', r)"
  shows "sound_db repo (bs_db st')" "extends repo (bs_db st) (bs_db st')"
    "r = Inr x \<Longrightarrow> Q (bs_db st') x"
    "r = Inr x \<Longrightarrow> sound_db repo db \<Longrightarrow> extends repo (bs_db st') db \<Longrightarrow>
      \<exists>n'. m \<lparr>bs_db = db, bs_next = n, bs_links = []\<rparr> = (\<lparr>bs_db = db, bs_next = n', bs_links = []\<rparr>, Inr x)"
  using assms unfolding governed_def by blast+

lemma governed_return: "governed repo (batch_return x) (\<lambda>_ y. y = x)"
  by (rule governedI) (auto simp: batch_return_def stable_def)

lemma governed_lift: "governed repo (batch_lift e) (\<lambda>_ y. e = Inr y)"
  by (rule governedI) (auto simp: batch_lift_def stable_def result_simps)

lemma governed_panic: "governed repo (\<lambda>st. (st, Inl Panicked)) (\<lambda>_ _. False)"
  by (rule governedI) (auto simp: stable_def)

lemma governed_conseq:
  assumes "governed repo m Q" "stable repo R" "\<And>db x. Q db x \<Longrightarrow> R db x"
  shows "governed repo m R"
  using assms unfolding governed_def by blast

lemma batch_bind_cases:
  assumes "batch_bind m f st = (st', r)"
  obtains e where "m st = (st', Inl e)" "r = Inl e"
  | st1 x where "m st = (st1, Inr x)" "f x st1 = (st', r)"
  using assms by (auto simp: batch_bind_def split: prod.splits sum.splits)

lemma governed_bind:
  assumes m: "governed repo m Q" and f: "\<And>x. governed repo (f x) (R x)"
  shows "governed repo (batch_bind m f) (\<lambda>db y. \<exists>x. Q db x \<and> R x db y)"
proof (rule governedI)
  show "stable repo (\<lambda>db y. \<exists>x. Q db x \<and> R x db y)"
    using governed_stable [OF m] governed_stable [OF f] unfolding stable_def by blast
next
  fix st st' r
  assume st: "sound_db repo (bs_db st)" and run: "batch_bind m f st = (st', r)"
  from run show "sound_db repo (bs_db st') \<and> extends repo (bs_db st) (bs_db st')"
  proof (cases rule: batch_bind_cases)
    case (1 e)
    then show ?thesis using governed_step(1,2) [OF m st] by blast
  next
    case (2 st1 x)
    then show ?thesis
      using governed_step(1,2) [OF m st 2(1)] governed_step(1,2) [OF f _ 2(2)] extends_trans by blast
  qed
next
  fix st st' y
  assume st: "sound_db repo (bs_db st)" and run: "batch_bind m f st = (st', Inr y)"
  from run obtain st1 x where s: "m st = (st1, Inr x)" "f x st1 = (st', Inr y)"
    by (cases rule: batch_bind_cases) auto
  note st1 = governed_step [OF m st s(1)]
  note st2 = governed_step [OF f st1(1) s(2)]
  show "\<exists>x. Q (bs_db st') x \<and> R x (bs_db st') y"
    using st1(3) st2(2,3) stableD [OF governed_stable [OF m]] by blast
  fix db n
  assume db: "sound_db repo db" "extends repo (bs_db st') db"
  obtain n1 where "m \<lparr>bs_db = db, bs_next = n, bs_links = []\<rparr> = (\<lparr>bs_db = db, bs_next = n1, bs_links = []\<rparr>, Inr x)"
    using st1(4) [OF refl db(1) extends_trans [OF st2(2) db(2)]] by blast
  moreover obtain n2 where "f x \<lparr>bs_db = db, bs_next = n1, bs_links = []\<rparr> = (\<lparr>bs_db = db, bs_next = n2, bs_links = []\<rparr>, Inr y)"
    using st2(4) [OF refl db] by blast
  ultimately show "\<exists>n'. batch_bind m f \<lparr>bs_db = db, bs_next = n, bs_links = []\<rparr> = (\<lparr>bs_db = db, bs_next = n', bs_links = []\<rparr>, Inr y)"
    by (simp add: batch_bind_def)
qed

lemma governed_each:
  assumes "\<And>x. governed repo (body x) (R x)"
  shows "governed repo (batch_each body xs) (\<lambda>db ys. list_all2 (\<lambda>x y. R x db y) xs ys)"
proof (induction xs)
  case Nil
  show ?case by (simp add: governed_conseq [OF governed_return] stable_def)
next
  case (Cons x xs)
  have "governed repo (batch_each body (x # xs)) (\<lambda>db zs. \<exists>y. R x db y \<and> (\<exists>ys. list_all2 (\<lambda>x y. R x db y) xs ys \<and> zs = y # ys))"
    unfolding batch_each.simps by (intro governed_bind assms Cons.IH governed_return)
  then show ?case
  proof (rule governed_conseq)
    show "stable repo (\<lambda>db ys. list_all2 (\<lambda>x y. R x db y) (x # xs) ys)"
      using governed_stable [OF assms] by (intro stableI) (auto elim!: list_all2_mono dest: stableD)
  qed auto
qed

lemmas governed_rules = governed_bind governed_each governed_lift governed_return

section \<open>Storing under a fresh identity\<close>

definition durable_signal :: "repository \<Rightarrow> analytical_db \<Rightarrow> signal \<Rightarrow> bool" where
  "durable_signal repo db s \<longleftrightarrow> wf_signal s \<and> stored_signal repo db (signal_key repo s) = Some s"

definition durable_finding :: "repository \<Rightarrow> analytical_db \<Rightarrow> finding \<Rightarrow> bool" where
  "durable_finding repo db f \<longleftrightarrow> wf_correlation_finding f \<and> stored_finding repo db (finding_key repo f) = Some f"

lemma table_lookup_origin:
  assumes "table_inv key enc good rows" "table_lookup dec rows k = Some y" "\<And>x. good x \<Longrightarrow> dec (enc x) = Inr x"
  shows "good y \<and> key y = k"
proof -
  obtain r where r: "find (\<lambda>r. ob_logical_key r = k) rows = Some r" "dec (ob_payload r) = Inr y"
    using table_lookup_find [OF assms(2)] by blast
  then have "r \<in> set rows" "ob_logical_key r = k" by (auto simp: find_Some_iff)
  with assms(1) obtain x where "good x" "ob_payload r = enc x" "key x = k" by (auto simp: table_inv_def)
  with r(2) assms(3) show ?thesis by auto
qed

lemma stored_signal_origin:
  assumes "reachable_db repo db" "codec_ok repo" "stored_signal repo db k = Some y"
  shows "wf_signal y \<and> signal_key repo y = k"
proof (rule table_lookup_origin [where good = wf_signal and key = "signal_key repo"])
  show "table_inv (signal_key repo) (encode_signal repo) wf_signal (db_signals db)"
    using reachable_inv [OF assms(1,2)] by (simp add: signals_inv_def)
  show "table_lookup (decode_signal repo) (db_signals db) k = Some y" using assms(3) by (simp add: stored_signal_def)
qed (use assms(2) in \<open>simp add: codec_ok_def\<close>)

lemma stored_finding_origin:
  assumes "reachable_db repo db" "codec_ok repo" "stored_finding repo db k = Some y"
  shows "wf_correlation_finding y \<and> finding_key repo y = k"
proof (rule table_lookup_origin [where good = wf_correlation_finding and key = "finding_key repo"])
  show "table_inv (finding_key repo) (encode_finding repo) wf_correlation_finding (db_findings db)"
    using reachable_inv [OF assms(1,2)] by (simp add: findings_inv_def)
  show "table_lookup (decode_finding repo) (db_findings db) k = Some y" using assms(3) by (simp add: stored_finding_def)
qed (use assms(2) in \<open>simp add: codec_ok_def wf_correlation_finding_def\<close>)

lemma run_signal_findings: "db_findings (run_operation repo (PersistSignal link i s) db) = db_findings db"
  by (rule run_signal_cases [of repo link i s db]) (auto elim: signal_tx_effect)

lemma run_finding_signals: "db_signals (run_operation repo (PersistFinding link i f) db) = db_signals db"
  by (rule run_finding_cases [of repo link i f db]) (auto elim: finding_tx_effect)

lemma persist_signal_extends:
  assumes "sound_db repo db" "persist_signal repo link i s db = (db', r)"
  shows "sound_db repo db' \<and> extends repo db db'"
proof
  have db': "db' = run_operation repo (PersistSignal link i s) db" using assms(2) by simp
  then show "sound_db repo db'" using assms(1) unfolding sound_db_def by (blast intro: reachable_db.operation)
  have inv: "signals_inv repo db" using reachable_inv assms(1) unfolding sound_db_def by blast
  have "stored_signal repo db k = Some z \<Longrightarrow> stored_signal repo db' k = Some z" for k z
    using signal_store.persist_keeps [OF inv, of "(link, i)" s db' r] assms(2) by simp
  moreover have "db_findings db' = db_findings db" by (simp only: db' run_signal_findings)
  ultimately show "extends repo db db'" by (simp add: extends_def stored_finding_def)
qed

lemma persist_finding_extends:
  assumes "sound_db repo db" "persist_finding repo link i f db = (db', r)"
  shows "sound_db repo db' \<and> extends repo db db'"
proof
  have db': "db' = run_operation repo (PersistFinding link i f) db" using assms(2) by simp
  then show "sound_db repo db'" using assms(1) unfolding sound_db_def by (blast intro: reachable_db.operation)
  have inv: "findings_inv repo db" using reachable_inv assms(1) unfolding sound_db_def by blast
  have "stored_finding repo db k = Some z \<Longrightarrow> stored_finding repo db' k = Some z" for k z
    using finding_store.persist_keeps [OF inv, of "(link, i)" f db' r] assms(2) by simp
  moreover have "db_signals db' = db_signals db" by (simp only: db' run_finding_signals)
  ultimately show "extends repo db db'" by (simp add: extends_def stored_signal_def)
qed

text \<open>Both sides share the step: draw an identity, make the object, persist it under a second
  identity. The step is governed if the logical key does not depend on the identity.\<close>

definition identified_step ::
  "(tx_link \<Rightarrow> string \<Rightarrow> 'a \<Rightarrow> analytical_db \<Rightarrow> analytical_db \<times> ('a, runtime_error) result) \<Rightarrow> (nat \<Rightarrow> string)
     \<Rightarrow> ('e \<Rightarrow> runtime_error) \<Rightarrow> (string \<Rightarrow> ('a, 'e) result) \<Rightarrow> 'a batch" where
  "identified_step persist ids wrap build st =
    (case build (ids (bs_next st)) of
       Inl e \<Rightarrow> (st\<lparr>bs_next := bs_next st + 1\<rparr>, Inl (Failed (wrap e)))
     | Inr x \<Rightarrow> (case next_link (st\<lparr>bs_next := bs_next st + 2\<rparr>) of
         (st', link) \<Rightarrow> (case persist (projr link) (ids (bs_next st + 1)) x (bs_db st) of
           (db, r) \<Rightarrow> (st'\<lparr>bs_db := db\<rparr>, map_err Failed r))))"

lemma next_link_simps:
  "next_link st = (st\<lparr>bs_links := tl (bs_links st)\<rparr>, Inr (case bs_links st of [] \<Rightarrow> answering | link # _ \<Rightarrow> link))"
  by (cases "bs_links st"; cases st) (simp_all add: next_link_def)

locale identified_store =
  fixes persist :: "tx_link \<Rightarrow> string \<Rightarrow> 'a \<Rightarrow> analytical_db \<Rightarrow> analytical_db \<times> ('a, runtime_error) result"
    and key :: "'a \<Rightarrow> string" and lookup :: "analytical_db \<Rightarrow> string \<Rightarrow> 'a option"
    and acceptable :: "'a \<Rightarrow> bool" and repo :: repository
  assumes extending: "sound_db repo db \<Longrightarrow> persist link i x db = (db', r) \<Longrightarrow> sound_db repo db' \<and> extends repo db db'"
    and storing: "sound_db repo db \<Longrightarrow> persist link i x db = (db', Inr y) \<Longrightarrow> lookup db' (key x) = Some y"
    and known: "sound_db repo db \<Longrightarrow> acceptable x \<Longrightarrow> lookup db (key x) = Some y \<Longrightarrow> persist answering i x db = (db, Inr y)"
    and origin: "sound_db repo db \<Longrightarrow> lookup db k = Some y \<Longrightarrow> acceptable y \<and> key y = k"
    and monotone: "extends repo db db' \<Longrightarrow> lookup db k = Some y \<Longrightarrow> lookup db' k = Some y"
begin

lemma step_governed:
  assumes build: "\<And>i j x. uuid_v7 j \<Longrightarrow> build i = Inr x \<Longrightarrow> \<exists>x'. build j = Inr x' \<and> acceptable x' \<and> key x' = key x"
    and ids: "\<And>n. uuid_v7 (ids n)"
  shows "governed repo (identified_step persist ids wrap build)
    (\<lambda>db y. acceptable y \<and> lookup db (key y) = Some y \<and> (\<exists>i x. build i = Inr x \<and> key y = key x))"
proof (rule governedI)
  show "stable repo (\<lambda>db y. acceptable y \<and> lookup db (key y) = Some y \<and> (\<exists>i x. build i = Inr x \<and> key y = key x))"
    using monotone by (auto simp: stable_def)
next
  fix st st' r
  assume "sound_db repo (bs_db st)" "identified_step persist ids wrap build st = (st', r)"
  then show "sound_db repo (bs_db st') \<and> extends repo (bs_db st) (bs_db st')"
    using extending [of "bs_db st"] by (auto simp: identified_step_def next_link_simps split: sum.splits prod.splits)
next
  fix st st' y
  assume st: "sound_db repo (bs_db st)" and run: "identified_step persist ids wrap build st = (st', Inr y)"
  then obtain x link where x: "build (ids (bs_next st)) = Inr x"
    and p: "persist link (ids (bs_next st + 1)) x (bs_db st) = (bs_db st', Inr y)"
    by (auto simp: identified_step_def next_link_simps result_simps split: sum.splits prod.splits)
  have y: "lookup (bs_db st') (key x) = Some y" by (rule storing [OF st p])
  then have y': "acceptable y" "key y = key x" using origin extending [OF st p] by blast+
  with x y show "acceptable y \<and> lookup (bs_db st') (key y) = Some y \<and> (\<exists>i x. build i = Inr x \<and> key y = key x)" by auto
  fix db n
  assume db: "sound_db repo db" "extends repo (bs_db st') db"
  obtain x' where x': "build (ids n) = Inr x'" "acceptable x'" "key x' = key x" using build [OF ids x] by blast
  then have "persist answering (ids (n + 1)) x' db = (db, Inr y)" using known [OF db(1)] monotone [OF db(2) y] by simp
  with x'(1) show "\<exists>n'. identified_step persist ids wrap build \<lparr>bs_db = db, bs_next = n, bs_links = []\<rparr> = (\<lparr>bs_db = db, bs_next = n', bs_links = []\<rparr>, Inr y)"
    by (simp add: identified_step_def next_link_def)
qed

end

interpretation signal_steps: identified_store "persist_signal repo" "signal_key repo" "stored_signal repo" wf_signal repo
  for repo
proof unfold_locales
  fix repo db db' link i x y k and r :: "(signal, runtime_error) result"
  assume db: "sound_db repo db"
  then have inv: "signals_inv repo db" using reachable_inv unfolding sound_db_def by blast
  show "sound_db repo db' \<and> extends repo db db'" if "persist_signal repo link i x db = (db', r)"
    using persist_signal_extends [OF db that] .
  show "stored_signal repo db' (signal_key repo x) = Some y" if "persist_signal repo link i x db = (db', Inr y)"
    using signal_store.persist_ok [OF inv, of "(link, i)"] that by simp
  show "persist_signal repo answering i x db = (db, Inr y)" if "wf_signal x" "stored_signal repo db (signal_key repo x) = Some y"
    using signal_store.persist_known [OF inv that, of "(answering, i)"] by simp
  show "wf_signal y \<and> signal_key repo y = k" if "stored_signal repo db k = Some y"
    using stored_signal_origin [OF _ _ that] db unfolding sound_db_def by blast
qed (simp add: extends_def)

interpretation finding_steps: identified_store "persist_finding repo" "finding_key repo" "stored_finding repo"
  wf_correlation_finding repo for repo
proof unfold_locales
  fix repo db db' link i x y k and r :: "(finding, runtime_error) result"
  assume db: "sound_db repo db"
  then have inv: "findings_inv repo db" using reachable_inv unfolding sound_db_def by blast
  show "sound_db repo db' \<and> extends repo db db'" if "persist_finding repo link i x db = (db', r)"
    using persist_finding_extends [OF db that] .
  show "stored_finding repo db' (finding_key repo x) = Some y" if "persist_finding repo link i x db = (db', Inr y)"
    using finding_store.persist_ok [OF inv, of "(link, i)"] that by simp
  show "persist_finding repo answering i x db = (db, Inr y)"
    if "wf_correlation_finding x" "stored_finding repo db (finding_key repo x) = Some y"
    using finding_store.persist_known [OF inv that, of "(answering, i)"] by simp
  show "wf_correlation_finding y \<and> finding_key repo y = k" if "stored_finding repo db k = Some y"
    using stored_finding_origin [OF _ _ that] db unfolding sound_db_def by blast
qed (simp add: extends_def)

text \<open>The steps of the runtime have this shape.\<close>

lemma signal_step_shape:
  "batch_bind (fresh_id env) (\<lambda>i. batch_bind (batch_lift (map_err wrap (build i))) (store_signal env))
   = identified_step (persist_signal (env_repository env)) (now_v7 env) wrap build"
  by (rule ext) (simp add: batch_bind_def fresh_id_def batch_lift_def store_signal_def identified_step_def next_link_simps
      split: sum.split prod.split)

lemma finding_step_shape:
  "batch_bind (fresh_id env) (\<lambda>i. batch_bind (batch_lift (map_err wrap (build i))) (store_finding env))
   = identified_step (persist_finding (env_repository env)) (now_v7 env) wrap build"
  by (rule ext) (simp add: batch_bind_def fresh_id_def batch_lift_def store_finding_def identified_step_def next_link_simps
      split: sum.split prod.split)

section \<open>Objects under another identity\<close>

definition renamed_signal :: "string \<Rightarrow> signal \<Rightarrow> signal" where
  "renamed_signal j s = s\<lparr>sg_signal_id := j, sg_inputs := map (\<lambda>x. x\<lparr>si_signal_id := j\<rparr>) (sg_inputs s)\<rparr>"

lemma renamed_signal_wf: "wf_signal s \<Longrightarrow> uuid_v7 j \<Longrightarrow> wf_signal (renamed_signal j s)"
  by (simp add: renamed_signal_def wf_signal_def wf_signal_inputs_def wf_signal_input_def wf_signal_counts_def
      normalized_inputs_def filter_map comp_def)

lemma renamed_signal_key: "signal_key repo (renamed_signal j s) = signal_key repo s"
  by (simp add: renamed_signal_def signal_logical_key_def signal_key_text_def signal_key_input_def [abs_def] comp_def)

lemma renamed_signal_validated:
  "validated validate_signal s = Inr x \<Longrightarrow> uuid_v7 j \<Longrightarrow> validated validate_signal (renamed_signal j s) = Inr (renamed_signal j s)
     \<and> wf_signal (renamed_signal j s) \<and> signal_key repo (renamed_signal j s) = signal_key repo x"
  using renamed_signal_wf [of s j] by (simp add: result_simps validate_signal_ok renamed_signal_key)

lemma event_signal_rename:
  "event_signal_of sv p event (c\<lparr>esc_signal_id := j\<rparr>) = renamed_signal j (event_signal_of sv p event c)"
  by (simp add: event_signal_of_def renamed_signal_def)

lemma threshold_inputs_rename:
  "try_map (threshold_signal_input c) items = Inr inputs \<Longrightarrow>
     try_map (threshold_signal_input (c\<lparr>tsc_signal_id := j\<rparr>)) items = Inr (map (\<lambda>x. x\<lparr>si_signal_id := j\<rparr>) inputs)"
  by (induction items arbitrary: inputs) (auto simp: threshold_signal_input_def result_simps split: prod.splits)

lemma threshold_signal_rename:
  "threshold_signal_of sv p (c\<lparr>tsc_signal_id := j\<rparr>) n (map (\<lambda>x. x\<lparr>si_signal_id := j\<rparr>) inputs)
     = renamed_signal j (threshold_signal_of sv p c n inputs)"
  by (simp add: threshold_signal_of_def renamed_signal_def)

lemma event_materialization_rename:
  assumes "materialize_event_signal sv p event c = Inr x" "uuid_v7 j"
  shows "\<exists>x'. materialize_event_signal sv p event (c\<lparr>esc_signal_id := j\<rparr>) = Inr x' \<and> wf_signal x'
    \<and> signal_key repo x' = signal_key repo x"
  using assms renamed_signal_validated [of "event_signal_of sv p event c" x j]
  by (auto simp: materialize_event_signal_def event_signal_rename split: if_splits)

lemma threshold_materialization_rename:
  assumes "materialize_threshold_signal sv p c = Inr x" "uuid_v7 j"
  shows "\<exists>x'. materialize_threshold_signal sv p (c\<lparr>tsc_signal_id := j\<rparr>) = Inr x' \<and> wf_signal x'
    \<and> signal_key repo x' = signal_key repo x"
proof -
  obtain n inputs where n: "u64_try_from (length (tsp_normalized_event_ids p)) = Some n" "tsp_normalized_event_ids p \<noteq> []"
    and i: "try_map (threshold_signal_input c) (enumerate 0 (tsp_normalized_event_ids p)) = Inr inputs"
    and v: "validated validate_signal (threshold_signal_of sv p c n inputs) = Inr x"
    using assms(1) by (auto simp: materialize_threshold_signal_def result_simps and_then_eq_Inr split: if_splits)
  show ?thesis
    using renamed_signal_validated [OF v assms(2)]
    by (simp add: materialize_threshold_signal_def n threshold_inputs_rename [OF i] threshold_signal_rename)
qed

definition renamed_finding :: "string \<Rightarrow> finding \<Rightarrow> finding" where
  "renamed_finding j f = f\<lparr>fd_finding_id := j, fd_inputs := map (\<lambda>x. x\<lparr>fi_finding_id := j\<rparr>) (fd_inputs f),
     fd_correlation_provenance := map_option (\<lambda>p. p\<lparr>cp_output_finding_id := j\<rparr>) (fd_correlation_provenance f)\<rparr>"

lemma renamed_finding_wf: "wf_finding f \<Longrightarrow> uuid_v7 j \<Longrightarrow> wf_finding (renamed_finding j f)"
  by (auto simp: renamed_finding_def wf_finding_def wf_finding_inputs_def relation_key_def [abs_def] comp_def image_image
      wf_type_provenance_def wf_correlation_provenance_def)

lemma finding_materialization_rename:
  assumes "materialize_sequence_correlation_finding m c = Inr x" "uuid_v7 j"
  shows "\<exists>x'. materialize_sequence_correlation_finding m (c\<lparr>cfc_finding_id := j\<rparr>) = Inr x' \<and> wf_correlation_finding x'
    \<and> finding_key repo x' = finding_key repo x"
proof -
  let ?f = "correlation_finding_of m c"
  have x: "wf_finding ?f" "x = ?f"
    using assms(1) by (simp_all add: materialize_sequence_correlation_finding_def result_simps validate_finding_ok)
  have ren: "correlation_finding_of m (c\<lparr>cfc_finding_id := j\<rparr>) = renamed_finding j ?f"
    by (simp add: correlation_finding_of_def renamed_finding_def comp_def)
  have "finding_key repo (renamed_finding j ?f) = finding_key repo ?f" "fd_correlation_provenance (renamed_finding j ?f) \<noteq> None"
    by (simp_all add: finding_key_def finding_key_text_def renamed_finding_def correlation_finding_of_def)
  then show ?thesis
    using renamed_finding_wf [OF x(1) assms(2)] x(2)
    by (simp add: materialize_sequence_correlation_finding_def ren result_simps validate_finding_ok wf_correlation_finding_def)
qed

section \<open>The steps of an execution\<close>

text \<open>The documented behaviour of \<open>Uuid::now_v7\<close>: every identity is a version 7 UUID in canonical text.\<close>

definition identities_ok :: "'n batch_env \<Rightarrow> bool" where
  "identities_ok env \<longleftrightarrow> (\<forall>n. uuid_v7 (now_v7 env n))"

text \<open>The texts under which the Signals of EVENT rules and the Findings of the SEQUENCE are stored.\<close>

definition event_identity :: "mvp_batch_request \<Rightarrow> normalized_event \<Rightarrow> string \<Rightarrow> string" where
  "event_identity request event rid = ne_tenant_id event @ ''|'' @ rid @ ''|1|1|''
     @ show_int (execution_mode_i32 (br_execution_mode request)) @ ''|0:1:'' @ ne_normalized_event_id event @ '':EVENT_MATCH''"

definition finding_identity :: "(string \<Rightarrow> string) \<Rightarrow> mvp_batch_request \<Rightarrow> string \<Rightarrow> string list \<Rightarrow> string" where
  "finding_identity digest request tenant ids = tenant @ ''|CER-COR-0003|2|''
     @ show_int (execution_mode_i32 (br_execution_mode request)) @ ''|''
     @ sha256_lower_hex digest ''mvp-account-compromise-sequence-v1'' @ concat (map (\<lambda>i. ''|'' @ i) ids)"

definition event_outcome ::
  "'n batch_env \<Rightarrow> mvp_batch_request \<Rightarrow> batch_event \<Rightarrow> mvp_compiled_event_plan \<Rightarrow> analytical_db \<Rightarrow> signal option \<Rightarrow> bool" where
  "event_outcome env request b plan db r \<longleftrightarrow>
    (\<exists>verdict. evaluate_event_execution_plan predicates (compiled_plan plan) (field_state (\<lambda>f. f) (be_event b)) mvp_leaf_policy
        = Inr verdict \<and> (r \<noteq> None \<longleftrightarrow> verdict = Match))
   \<and> (\<forall>y. r = Some y \<longrightarrow> durable_signal (env_repository env) db y
       \<and> (plan_rule_version (compiled_plan plan) = ''1'' \<longrightarrow> signal_key (env_repository env) y
           = sha256_lower_hex (repo_digest (env_repository env))
               (event_identity request (be_event b) (as_str (plan_rule_id (compiled_plan plan))))))"

lemma event_outcome_stable: "stable (env_repository env) (event_outcome env request b plan)"
  by (auto simp: stable_def event_outcome_def durable_signal_def extends_def)

lemma evaluate_for_signal_verdict:
  assumes "evaluate_normalized_event_for_signal to_str plan event mode t policy = Inr evaluation"
  shows "\<exists>verdict. evaluate_event_execution_plan predicates plan (field_state to_str event) policy = Inr verdict
    \<and> (verdict = Match \<longleftrightarrow> (\<exists>p. evaluation = SignalMatch p))"
  using assms by (auto simp: evaluate_normalized_event_for_signal_def result_simps split: if_splits)
    (metis event_evaluation_result.exhaust)

lemma show_literals: "show_int 1 = ''1''" "show_int 2 = ''2''" "show_nat 0 = ''0''"
  by code_simp+

lemma event_key_text:
  assumes "materialize_event_signal (\<lambda>v. v) p event c = Inr x" "esc_input_relation c = ''EVENT_MATCH''"
    "esp_rule_version p = ''1''" "esp_execution_mode p = br_execution_mode request"
  shows "signal_key_text x = event_identity request event (as_str (esp_rule_id p))"
  using assms by (auto simp: materialize_event_signal_def result_simps event_signal_of_def signal_key_text_def
      signal_key_input_def event_identity_def show_literals split: if_splits)

lemma event_build_governed:
  assumes "identities_ok env"
  shows "governed (env_repository env) (batch_bind (fresh_id env) (\<lambda>i.
      batch_bind (batch_lift (map_err wrap (materialize_event_signal sv p event (c\<lparr>esc_signal_id := i\<rparr>)))) (store_signal env)))
    (\<lambda>db y. durable_signal (env_repository env) db y \<and> (\<exists>i x. materialize_event_signal sv p event (c\<lparr>esc_signal_id := i\<rparr>) = Inr x
       \<and> signal_key (env_repository env) y = signal_key (env_repository env) x))"
  unfolding signal_step_shape durable_signal_def conj_assoc
proof (rule signal_steps.step_governed)
  show "\<And>n. uuid_v7 (now_v7 env n)" using assms by (simp add: identities_ok_def)
  fix i j x
  assume "uuid_v7 j" "materialize_event_signal sv p event (c\<lparr>esc_signal_id := i\<rparr>) = Inr x"
  from event_materialization_rename [OF this(2,1)]
  show "\<exists>x'. materialize_event_signal sv p event (c\<lparr>esc_signal_id := j\<rparr>) = Inr x' \<and> wf_signal x'
      \<and> signal_key (env_repository env) x' = signal_key (env_repository env) x" by simp
qed

definition event_result ::
  "'n batch_env \<Rightarrow> mvp_batch_request \<Rightarrow> batch_event \<Rightarrow> event_signal_context \<Rightarrow> string event_signal_evaluation_result
     \<Rightarrow> analytical_db \<Rightarrow> signal option \<Rightarrow> bool" where
  "event_result env request b c evaluation db r = (case evaluation of SignalNoMatch \<Rightarrow> r = None
    | SignalMatch p \<Rightarrow> \<exists>y. (durable_signal (env_repository env) db y
        \<and> (\<exists>i x. materialize_event_signal (\<lambda>v. v) p (be_event b) (c\<lparr>esc_signal_id := i\<rparr>) = Inr x
             \<and> signal_key (env_repository env) y = signal_key (env_repository env) x)) \<and> r = Some y)"

definition event_context :: "mvp_batch_request \<Rightarrow> batch_event \<Rightarrow> event_presentation \<Rightarrow> event_signal_context" where
  "event_context request b presentation = \<lparr>esc_signal_id = '''', esc_severity = ep_severity presentation, esc_confidence = None,
      esc_summary = ep_summary presentation, esc_input_relation = ''EVENT_MATCH'',
      esc_created_at = br_created_at request, esc_source_event_time = be_source_event_time b\<rparr>"

lemma event_step_result:
  assumes "identities_ok env"
  shows "governed (env_repository env) (event_step env request b (plan, presentation))
    (\<lambda>db r. \<exists>evaluation. map_err (\<lambda>e. RuntimeError (''EVENT evaluation failed: ''
        @ display_event_signal_error display_mvp_policy_error e))
      (evaluate_normalized_event_for_signal (\<lambda>f. f) (compiled_plan plan) (be_event b)
        (br_execution_mode request) (br_evaluated_at request) mvp_leaf_policy) = Inr evaluation
      \<and> event_result env request b (event_context request b presentation) evaluation db r)"
  unfolding event_step_def prod.case
proof (rule governed_bind [OF governed_lift])
  fix evaluation :: "string event_signal_evaluation_result"
  note build = governed_bind [OF event_build_governed [OF assms, where c = "event_context request b presentation"]
      governed_return [of _ "Some y" for y]]
  show "governed (env_repository env) (case evaluation of SignalNoMatch \<Rightarrow> batch_return None
    | SignalMatch provenance \<Rightarrow> batch_bind (batch_bind (fresh_id env) (\<lambda>signal_id.
        batch_bind (batch_lift (map_err (\<lambda>e. RuntimeError (''EVENT materialization failed: '' @ display_violation e))
          (materialize_event_signal (\<lambda>v. v) provenance (be_event b)
            \<lparr>esc_signal_id = signal_id, esc_severity = ep_severity presentation, esc_confidence = None,
             esc_summary = ep_summary presentation, esc_input_relation = ''EVENT_MATCH'',
             esc_created_at = br_created_at request, esc_source_event_time = be_source_event_time b\<rparr>)))
        (store_signal env))) (\<lambda>durable. batch_return (Some durable)))
      (event_result env request b (event_context request b presentation) evaluation)"
    using build by (cases evaluation) (simp_all add: event_result_def [abs_def] event_context_def governed_return)
qed

lemma event_result_outcome:
  assumes "evaluate_normalized_event_for_signal (\<lambda>f. f) (compiled_plan plan) (be_event b)
      (br_execution_mode request) (br_evaluated_at request) mvp_leaf_policy = Inr evaluation"
    and "event_result env request b (event_context request b presentation) evaluation db r"
  shows "event_outcome env request b plan db r"
  unfolding event_outcome_def
proof (intro conjI allI impI)
  show "\<exists>verdict. evaluate_event_execution_plan predicates (compiled_plan plan) (field_state (\<lambda>f. f) (be_event b)) mvp_leaf_policy
      = Inr verdict \<and> (r \<noteq> None \<longleftrightarrow> verdict = Match)"
    using evaluate_for_signal_verdict [OF assms(1)] assms(2)
    by (auto simp: event_result_def split: event_signal_evaluation_result.splits)
  fix y
  assume "r = Some y"
  with assms(2) obtain p i x where p: "evaluation = SignalMatch p" and y: "durable_signal (env_repository env) db y"
    and x: "materialize_event_signal (\<lambda>v. v) p (be_event b) ((event_context request b presentation)\<lparr>esc_signal_id := i\<rparr>) = Inr x"
      "signal_key (env_repository env) y = signal_key (env_repository env) x"
    by (auto simp: event_result_def split: event_signal_evaluation_result.splits)
  show "durable_signal (env_repository env) db y" by (rule y)
  assume "plan_rule_version (compiled_plan plan) = ''1''"
  then show "signal_key (env_repository env) y = sha256_lower_hex (repo_digest (env_repository env))
      (event_identity request (be_event b) (as_str (plan_rule_id (compiled_plan plan))))"
    using assms(1) event_key_text [OF x(1), of request] x(2)
    unfolding p evaluate_for_signal_match signal_logical_key_def by (simp add: event_context_def)
qed

lemma event_step_governed:
  assumes "identities_ok env"
  shows "governed (env_repository env) (event_step env request b (plan, presentation)) (event_outcome env request b plan)"
  by (rule governed_conseq [OF event_step_result [OF assms] event_outcome_stable])
    (auto simp: result_simps intro: event_result_outcome)

text \<open>The THRESHOLD and the SEQUENCE step.\<close>

lemma durable_stable: "stable repo (durable_signal repo)" "stable repo (durable_finding repo)"
  by (auto simp: stable_def durable_signal_def durable_finding_def extends_def)

definition threshold_identity :: "string threshold_signal_provenance \<Rightarrow> string" where
  "threshold_identity m = tsp_tenant_id m @ ''|'' @ as_str (tsp_rule_id m) @ ''|'' @ tsp_rule_version m @ ''|2|''
     @ show_int (execution_mode_i32 (tsp_execution_mode m))
     @ concat (map (\<lambda>(i, event_id). ''|'' @ show_nat i @ '':1:'' @ event_id @ '':THRESHOLD_INPUT'')
         (enumerate 0 (tsp_normalized_event_ids m)))"

definition threshold_outcome ::
  "'n batch_env \<Rightarrow> string threshold_signal_provenance \<Rightarrow> analytical_db \<Rightarrow> signal \<Rightarrow> bool" where
  "threshold_outcome env m db s \<longleftrightarrow> durable_signal (env_repository env) db s
     \<and> signal_key (env_repository env) s = sha256_lower_hex (repo_digest (env_repository env)) (threshold_identity m)"

lemma threshold_outcome_stable: "stable (env_repository env) (threshold_outcome env m)"
  using durable_stable(1) [of "env_repository env"] by (auto simp: stable_def threshold_outcome_def)

lemma threshold_inputs_text:
  assumes "try_map (threshold_signal_input c) items = Inr inputs" "tsc_input_relation c = ''THRESHOLD_INPUT''"
  shows "concat (map signal_key_input inputs)
    = concat (map (\<lambda>(i, event_id). ''|'' @ show_nat i @ '':1:'' @ event_id @ '':THRESHOLD_INPUT'') items)"
  using assms(1)
proof (induction items arbitrary: inputs)
  case (Cons item items)
  obtain x xs where x: "threshold_signal_input c item = Inr x" "try_map (threshold_signal_input c) items = Inr xs" "inputs = x # xs"
    using Cons.prems by (auto simp: result_simps)
  have "signal_key_input x = (case item of (i, event_id) \<Rightarrow> ''|'' @ show_nat i @ '':1:'' @ event_id @ '':THRESHOLD_INPUT'')"
    using x(1) assms(2) by (auto simp: threshold_signal_input_def signal_key_input_def result_simps show_literals u32_try_from_eq_Some split: prod.splits)
  then show ?case using Cons.IH [OF x(2)] by (simp add: x(3))
qed simp

lemma threshold_key_text:
  assumes "materialize_threshold_signal (\<lambda>v. v) m c = Inr x" "tsc_input_relation c = ''THRESHOLD_INPUT''"
  shows "signal_key_text x = threshold_identity m"
proof -
  obtain n inputs where i: "try_map (threshold_signal_input c) (enumerate 0 (tsp_normalized_event_ids m)) = Inr inputs"
    and x: "x = threshold_signal_of (\<lambda>v. v) m c n inputs"
    using assms(1) by (auto simp: materialize_threshold_signal_def and_then_eq_Inr validated_def split: if_splits)
  show ?thesis unfolding x by (simp add: signal_key_text_def threshold_signal_of_def threshold_identity_def
      threshold_inputs_text [OF i assms(2)] show_literals)
qed

lemma threshold_step_governed:
  assumes "identities_ok env"
  shows "governed (env_repository env) (threshold_step env request p) (threshold_outcome env p)"
proof -
  have "governed (env_repository env) (threshold_step env request p)
    (\<lambda>db y. wf_signal y \<and> stored_signal (env_repository env) db (signal_key (env_repository env) y) = Some y
      \<and> (\<exists>i x. materialize_threshold_signal (\<lambda>v. v) p \<lparr>tsc_signal_id = i, tsc_severity = ''HIGH'', tsc_confidence = None,
           tsc_summary = ''SSH authentication burst: 10 failed logins within 5 minutes'',
           tsc_input_relation = ''THRESHOLD_INPUT'', tsc_created_at = br_created_at request, tsc_source_count = 1\<rparr> = Inr x
           \<and> signal_key (env_repository env) y = signal_key (env_repository env) x))"
    unfolding threshold_step_def signal_step_shape
  proof (rule signal_steps.step_governed)
    show "\<And>n. uuid_v7 (now_v7 env n)" using assms by (simp add: identities_ok_def)
  qed (drule threshold_materialization_rename, assumption, simp)
  then show ?thesis
    by (rule governed_conseq [OF _ threshold_outcome_stable])
      (auto simp: threshold_outcome_def durable_signal_def signal_logical_key_def dest!: threshold_key_text)
qed

definition finding_outcome ::
  "'n batch_env \<Rightarrow> mvp_batch_request \<Rightarrow> sequence_correlation_match \<Rightarrow> analytical_db \<Rightarrow> finding \<Rightarrow> bool" where
  "finding_outcome env request m db f \<longleftrightarrow> durable_finding (env_repository env) db f
     \<and> (\<exists>c. finding_key (env_repository env) f = finding_key (env_repository env) (correlation_finding_of m c))"

lemma finding_step_governed:
  assumes "identities_ok env"
  shows "governed (env_repository env) (finding_step env request m) (finding_outcome env request m)"
proof -
  have "governed (env_repository env) (finding_step env request m)
    (\<lambda>db y. wf_correlation_finding y \<and> stored_finding (env_repository env) db (finding_key (env_repository env) y) = Some y
      \<and> (\<exists>i x. materialize_sequence_correlation_finding m \<lparr>cfc_finding_id = i, cfc_severity = ''HIGH'', cfc_confidence = Some ''MEDIUM'',
           cfc_title = ''Account compromise sequence'',
           cfc_description = ''Failed login followed by successful login and privilege escalation'',
           cfc_input_relation = ''SEQUENCE_INPUT'', cfc_created_at = br_created_at request\<rparr> = Inr x
           \<and> finding_key (env_repository env) y = finding_key (env_repository env) x))"
    unfolding finding_step_def finding_step_shape
  proof (rule finding_steps.step_governed)
    show "\<And>n. uuid_v7 (now_v7 env n)" using assms by (simp add: identities_ok_def)
  qed (drule finding_materialization_rename, assumption, simp)
  then show ?thesis
    by (rule governed_conseq) (use durable_stable(2) in \<open>auto simp: finding_outcome_def durable_finding_def
        materialize_sequence_correlation_finding_def result_simps stable_def extends_def\<close>)
qed

section \<open>The EVENT stage\<close>

text \<open>The three EVENT rules of the pack: identity, plan name and expression.\<close>

definition event_pack :: "(string \<times> string \<times> mvp_expression) list" where
  "event_pack = [(FAILED_LOGIN_RULE_ID, ''mvp-failed-login-v1'', failed_login_expression),
     (SUCCESSFUL_LOGIN_RULE_ID, ''mvp-successful-login-v1'', successful_login_expression),
     (PRIVILEGE_ESCALATION_RULE_ID, ''mvp-privilege-escalation-v1'', privilege_escalation_expression)]"

definition compiled_rules ::
  "'n batch_env \<Rightarrow> (mvp_compiled_event_plan \<times> event_presentation) list \<Rightarrow> bool" where
  "compiled_rules env rules \<longleftrightarrow> list_all2 (\<lambda>(rid, name, e) (plan, presentation).
     compile_event_rule (repo_digest (env_repository env)) rid name e = Inr plan) event_pack rules"

lemma event_rules_governed: "governed repo (event_rules env) (\<lambda>db rules. compiled_rules env rules)"
  unfolding event_rules_def Let_def
  by (rule governed_conseq, (rule governed_rules)+)
    (auto simp: stable_def compiled_rules_def event_pack_def)

lemma event_pack_shapes:
  "(rid, name, e) \<in> set event_pack \<Longrightarrow> empty_nodes e = [] \<and> (\<forall>l\<in>set (leaves e). mvp_leaf_ok l) \<and> detection_rule_id rid"
  unfolding event_pack_def using mvp_expression_shapes mvp_rule_ids by auto

lemma compiled_rule_facts:
  assumes "compile_event_rule digest rid name e = Inr plan" "(rid, name, e) \<in> set event_pack"
  shows "plan_rule_id (compiled_plan plan) = RuleId rid" "plan_rule_version (compiled_plan plan) = ''1''"
  using compile_event_rule_exists [of e rid digest name] event_pack_shapes [OF assms(2)] assms(1)
  by (auto simp: RULE_VERSION_def)

lemma rule_outcome:
  assumes "compile_event_rule digest rid name e = Inr plan" "(rid, name, e) \<in> set event_pack"
    and "event_outcome env request b plan db r"
  shows "r \<noteq> None \<longleftrightarrow> holds (mvp_leaf_holds (be_event b)) e"
    and "r = Some y \<Longrightarrow> durable_signal (env_repository env) db y \<and> signal_key (env_repository env) y
      = sha256_lower_hex (repo_digest (env_repository env)) (event_identity request (be_event b) rid)"
proof -
  obtain verdict where v: "evaluate_event_execution_plan predicates (compiled_plan plan) (field_state (\<lambda>f. f) (be_event b))
      mvp_leaf_policy = Inr verdict" "r \<noteq> None \<longleftrightarrow> verdict = Match"
    using assms(3) unfolding event_outcome_def by blast
  have "verdict = Match \<longleftrightarrow> holds (mvp_leaf_holds (be_event b)) e"
    using assms(1) unfolding compile_event_rule_def map_err_eq_Inr
    by (rule mvp.compiled_plan_decides [OF _ mvp_leaf_completes v(1)])
  with v(2) show "r \<noteq> None \<longleftrightarrow> holds (mvp_leaf_holds (be_event b)) e" by simp
  show "r = Some y \<Longrightarrow> durable_signal (env_repository env) db y \<and> signal_key (env_repository env) y
      = sha256_lower_hex (repo_digest (env_repository env)) (event_identity request (be_event b) rid)"
    using assms(3) compiled_rule_facts [OF assms(1,2)] by (auto simp: event_outcome_def)
qed

text \<open>The logical keys that the EVENT rules assign to a batch, in the order of the loops: one for each
  event and each rule whose expression holds of it.\<close>

definition event_hits :: "batch_event \<Rightarrow> string list" where
  "event_hits b = map fst (filter (\<lambda>(rid, name, e). holds (mvp_leaf_holds (be_event b)) e) event_pack)"

definition event_keys :: "'n batch_env \<Rightarrow> mvp_batch_request \<Rightarrow> batch_event list \<Rightarrow> string list" where
  "event_keys env request events = concat (map (\<lambda>b. map (\<lambda>rid.
     sha256_lower_hex (repo_digest (env_repository env)) (event_identity request (be_event b) rid)) (event_hits b)) events)"

lemma selected_rules:
  "concat (map (\<lambda>(rid, name, e). if P e then [f rid] else []) rules) = map f (map fst (filter (\<lambda>(rid, name, e). P e) rules))"
  by (induction rules) auto

lemma event_keys_listed:
  "event_keys env request events = [sha256_lower_hex (repo_digest (env_repository env)) (event_identity request (be_event b) rid).
     b \<leftarrow> events, (rid, name, e) \<leftarrow> event_pack, holds (mvp_leaf_holds (be_event b)) e]"
  by (simp only: event_keys_def event_hits_def selected_rules)

definition event_signals ::
  "'n batch_env \<Rightarrow> mvp_batch_request \<Rightarrow> batch_event list \<Rightarrow> analytical_db \<Rightarrow> signal list \<Rightarrow> bool" where
  "event_signals env request events db signals \<longleftrightarrow>
     (\<forall>s\<in>set signals. durable_signal (env_repository env) db s)
     \<and> map (signal_key (env_repository env)) signals = event_keys env request events"

lemma event_signals_stable: "stable (env_repository env) (event_signals env request events)"
  using durable_stable(1) [of "env_repository env"] by (auto simp: stable_def event_signals_def)

lemma list_all2_memD:
  "list_all2 P xs ys \<Longrightarrow> y \<in> set ys \<Longrightarrow> \<exists>x\<in>set xs. P x y"
  "list_all2 P xs ys \<Longrightarrow> x \<in> set xs \<Longrightarrow> \<exists>y\<in>set ys. P x y"
  by (auto simp: list_all2_conv_all_nth in_set_conv_nth) (metis nth_mem)+

lemma map_filter_append: "List.map_filter f (xs @ ys) = List.map_filter f xs @ List.map_filter f ys"
  by (simp add: List.map_filter_def)

lemma rule_outcomes:
  assumes "list_all2 (\<lambda>(rid, name, e) (plan, presentation). compile_event_rule digest rid name e = Inr plan) pack rules"
    and "list_all2 (\<lambda>item r. event_outcome env request b (fst item) db r) rules rs" "set pack \<subseteq> set event_pack"
  shows "(\<forall>s\<in>set (List.map_filter (\<lambda>x. x) rs). durable_signal (env_repository env) db s)
    \<and> map (signal_key (env_repository env)) (List.map_filter (\<lambda>x. x) rs) = map (\<lambda>(rid, name, e).
        sha256_lower_hex (repo_digest (env_repository env)) (event_identity request (be_event b) rid))
      (filter (\<lambda>(rid, name, e). holds (mvp_leaf_holds (be_event b)) e) pack)"
  using assms
proof (induction pack rules arbitrary: rs rule: list_all2_induct)
  case Nil
  then show ?case by (simp add: List.map_filter_simps)
next
  case (Cons rule rules item items)
  obtain rid name e plan presentation where split: "rule = (rid, name, e)" "item = (plan, presentation)" by (cases rule, cases item)
  obtain r rs' where rs: "rs = r # rs'" "event_outcome env request b plan db r"
    "list_all2 (\<lambda>item r. event_outcome env request b (fst item) db r) items rs'"
    using Cons.prems(1) by (auto simp: split list_all2_Cons1)
  have plan: "compile_event_rule digest rid name e = Inr plan" "(rid, name, e) \<in> set event_pack"
    using Cons.hyps(1) Cons.prems(2) by (simp_all add: split)
  show ?case
    using Cons.IH [OF rs(3)] Cons.prems(2) rule_outcome [OF plan rs(2)]
    by (cases r) (auto simp: rs(1) split List.map_filter_simps)
qed

lemma batch_outcomes:
  assumes rules: "compiled_rules env rules"
    and found: "list_all2 (\<lambda>b rs. list_all2 (\<lambda>item r. event_outcome env request b (fst item) db r) rules rs) events found"
  shows "event_signals env request events db (List.map_filter (\<lambda>x. x) (concat found))"
  using found
proof (induction events found rule: list_all2_induct)
  case Nil
  then show ?case by (simp add: event_signals_def event_keys_def List.map_filter_simps)
next
  case (Cons b events rs found)
  show ?case
    using rule_outcomes [OF rules [unfolded compiled_rules_def] Cons.hyps(1) order_refl] Cons.IH
    by (auto simp: event_signals_def event_keys_def event_hits_def map_filter_append split_beta comp_def)
qed

lemma execute_events_governed:
  assumes "identities_ok env"
  shows "governed (env_repository env) (execute_events env request events) (event_signals env request events)"
proof -
  have step: "governed (env_repository env) (event_step env request b item) (event_outcome env request b (fst item))" for b item
    using event_step_governed [OF assms] by (cases item) simp
  show ?thesis
    unfolding execute_events_def
    by (rule governed_conseq, (rule governed_rules event_rules_governed step)+, rule event_signals_stable)
      (auto intro: batch_outcomes)
qed

section \<open>The whole execution\<close>

definition threshold_signals ::
  "'n batch_env \<Rightarrow> mvp_batch_request \<Rightarrow> batch_event list \<Rightarrow> analytical_db \<Rightarrow> signal list \<Rightarrow> bool" where
  "threshold_signals env request events db signals \<longleftrightarrow>
     (\<exists>plan ms. compile_threshold_rule (env_debug_str env) (env_parse_documents env)
          (repo_digest (env_repository env)) (env_sigma_source env) = Some (Inr plan)
       \<and> evaluate_threshold_normalized_events (\<lambda>f. f) plan (map be_event events)
           (br_execution_mode request) (br_evaluated_at request) mvp_policy = Inr ms
       \<and> list_all2 (\<lambda>m s. threshold_outcome env m db s) ms signals)"

lemma threshold_signals_stable: "stable (env_repository env) (threshold_signals env request events)"
  using threshold_outcome_stable [of env] unfolding stable_def threshold_signals_def by (blast intro: list_all2_mono)

lemma execute_thresholds_governed:
  assumes "identities_ok env"
  shows "governed (env_repository env) (execute_thresholds env request events) (threshold_signals env request events)"
proof (cases "compile_threshold_rule (env_debug_str env) (env_parse_documents env)
    (repo_digest (env_repository env)) (env_sigma_source env)")
  case None
  then show ?thesis using governed_conseq [OF governed_panic threshold_signals_stable] by (simp add: execute_thresholds_def)
next
  case (Some compiled)
  show ?thesis
    unfolding execute_thresholds_def Some option.case
    by (rule governed_conseq, (rule governed_rules threshold_step_governed [OF assms])+, rule threshold_signals_stable)
      (auto simp: threshold_signals_def Some result_simps)
qed

definition sequence_findings ::
  "'n batch_env \<Rightarrow> mvp_batch_request \<Rightarrow> batch_event list \<Rightarrow> signal list \<Rightarrow> analytical_db \<Rightarrow> finding list \<Rightarrow> bool" where
  "sequence_findings env request events signals db findings \<longleftrightarrow>
     (\<exists>users ms. mvp_sequence_policy_new events = Inr users
       \<and> evaluate_sequence_signals (account_compromise_plan (repo_digest (env_repository env))) signals
           (br_execution_mode request) (mvp_sequence_policy users) = Inr ms
       \<and> list_all2 (\<lambda>m f. finding_outcome env request m db f) ms findings)"

lemma sequence_findings_stable: "stable (env_repository env) (sequence_findings env request events signals)"
  using durable_stable(2) [of "env_repository env"] unfolding stable_def sequence_findings_def finding_outcome_def
  by (blast intro: list_all2_mono)

lemma execute_sequences_governed:
  assumes "identities_ok env"
  shows "governed (env_repository env) (execute_sequences env request events signals)
    (sequence_findings env request events signals)"
  unfolding execute_sequences_def
  by (rule governed_conseq, (rule governed_rules finding_step_governed [OF assms])+, rule sequence_findings_stable)
    (auto simp: sequence_findings_def result_simps dest: compiled_sequence_rule)

definition batch_report ::
  "'n batch_env \<Rightarrow> mvp_batch_request \<Rightarrow> analytical_db \<Rightarrow> mvp_batch_result \<Rightarrow> bool" where
  "batch_report env request db res \<longleftrightarrow>
     (\<exists>events event_part threshold_part findings.
        load (env_fetch env) (env_decode_row env) (env_parse_json env) (env_as_f64 env) (env_config env) request = Inr events
        \<and> event_signals env request events db event_part
        \<and> threshold_signals env request events db threshold_part
        \<and> sequence_findings env request events event_part db findings
        \<and> res = \<lparr>events_loaded = length events, result_signals = sort_key sg_signal_id (event_part @ threshold_part),
            result_findings = sort_key fd_finding_id findings\<rparr>)"

lemma batch_report_stable: "stable (env_repository env) (batch_report env request)"
  using event_signals_stable [of env request] sequence_findings_stable [of env request] threshold_signals_stable [of env request]
  unfolding stable_def batch_report_def by blast

lemma execute_governed:
  assumes "identities_ok env"
  shows "governed (env_repository env) (execute env request) (batch_report env request)"
  unfolding execute_def
  by (rule governed_conseq, (rule governed_rules execute_events_governed [OF assms] execute_thresholds_governed [OF assms]
        execute_sequences_governed [OF assms])+, rule batch_report_stable)
    (auto simp: batch_report_def)

text \<open>C9: an execution can be repeated: after a run that returned a result, running the same request over the
  same source again, with whatever identities are drawn then and over a connection that answers,
  returns the same Signals and Findings and leaves the database as it is, so nothing is stored or
  announced twice. (Identities are version 7 UUIDs, the codec decodes what it encoded.)\<close>

theorem execute_replays:
  assumes "identities_ok env" "codec_ok (env_repository env)" "reachable_db (env_repository env) (bs_db st)"
    and "execute env request st = (st', Inr res)"
  shows "\<exists>n'. execute env request (st'\<lparr>bs_next := n, bs_links := []\<rparr>) = (st'\<lparr>bs_next := n', bs_links := []\<rparr>, Inr res)"
proof -
  have "sound_db (env_repository env) (bs_db st)" using assms(2,3) by (simp add: sound_db_def)
  note run = governed_step [OF execute_governed [OF assms(1)] this assms(4)]
  show ?thesis using run(4) [OF refl run(1) extends_refl, of n] by (cases st') simp
qed

text \<open>C12: whatever way an execution ends, with a result, an error, a panic, or a connection that breaks at
  the start of a transaction, at any statement or at a commit, done or not done, the database it
  leaves is one the repository can reach and has lost no stored Signal or Finding; when it returns, every returned Signal and Finding passes the
  contract and is the one stored under its logical key, and both lists are ordered by identity.\<close>

theorem execute_durable:
  assumes "identities_ok env" "codec_ok (env_repository env)" "reachable_db (env_repository env) (bs_db st)"
    and "execute env request st = (st', r)"
  shows "reachable_db (env_repository env) (bs_db st') \<and> extends (env_repository env) (bs_db st) (bs_db st')
    \<and> (\<forall>res. r = Inr res \<longrightarrow>
      (\<forall>s\<in>set (result_signals res). durable_signal (env_repository env) (bs_db st') s)
      \<and> (\<forall>f\<in>set (result_findings res). durable_finding (env_repository env) (bs_db st') f)
      \<and> sorted (map sg_signal_id (result_signals res)) \<and> sorted (map fd_finding_id (result_findings res)))"
proof -
  have "sound_db (env_repository env) (bs_db st)" using assms(2,3) by (simp add: sound_db_def)
  note run = governed_step [OF execute_governed [OF assms(1)] this assms(4)]
  have "batch_report env request (bs_db st') res \<Longrightarrow>
      (\<forall>s\<in>set (result_signals res). durable_signal (env_repository env) (bs_db st') s)
      \<and> (\<forall>f\<in>set (result_findings res). durable_finding (env_repository env) (bs_db st') f)
      \<and> sorted (map sg_signal_id (result_signals res)) \<and> sorted (map fd_finding_id (result_findings res))" for res
    by (auto simp: batch_report_def event_signals_def threshold_signals_def threshold_outcome_def sequence_findings_def
        finding_outcome_def dest: list_all2_memD(1))
  then show ?thesis using run(1-3) unfolding sound_db_def by blast
qed

lemma execute_report:
  assumes "identities_ok env" "codec_ok (env_repository env)" "reachable_db (env_repository env) (bs_db st)"
    and "execute env request st = (st', Inr res)"
  shows "batch_report env request (bs_db st') res"
  using governed_step(3) [OF execute_governed [OF assms(1)] _ assms(4) refl] assms(2,3) by (simp add: sound_db_def)

text \<open>C10: the Signals of an execution are exactly those that the loaded events call for. By logical key,
  and counted with their multiplicity, the returned Signals are one for each loaded event and each of
  the three EVENT rules whose expression holds of the event, and one for each match of the THRESHOLD
  rule over the loaded events; there is no other.\<close>

theorem execute_signals_exact:
  assumes "identities_ok env" "codec_ok (env_repository env)" "reachable_db (env_repository env) (bs_db st)"
    and "execute env request st = (st', Inr res)"
  shows "\<exists>events plan ms. load (env_fetch env) (env_decode_row env) (env_parse_json env) (env_as_f64 env)
      (env_config env) request = Inr events \<and> events_loaded res = length events
    \<and> compile_threshold_rule (env_debug_str env) (env_parse_documents env) (repo_digest (env_repository env))
        (env_sigma_source env) = Some (Inr plan)
    \<and> evaluate_threshold_normalized_events (\<lambda>f. f) plan (map be_event events)
        (br_execution_mode request) (br_evaluated_at request) mvp_policy = Inr ms
    \<and> mset (map (signal_key (env_repository env)) (result_signals res)) = mset
        ([sha256_lower_hex (repo_digest (env_repository env)) (event_identity request (be_event b) rid).
            b \<leftarrow> events, (rid, name, e) \<leftarrow> event_pack, holds (mvp_leaf_holds (be_event b)) e]
         @ [sha256_lower_hex (repo_digest (env_repository env)) (threshold_identity m). m \<leftarrow> ms])"
proof -
  obtain events event_part threshold_part findings where
      load: "load (env_fetch env) (env_decode_row env) (env_parse_json env) (env_as_f64 env) (env_config env) request = Inr events"
      and ev: "event_signals env request events (bs_db st') event_part"
      and th: "threshold_signals env request events (bs_db st') threshold_part"
      and res: "res = \<lparr>events_loaded = length events, result_signals = sort_key sg_signal_id (event_part @ threshold_part),
         result_findings = sort_key fd_finding_id findings\<rparr>"
    using execute_report [OF assms] unfolding batch_report_def by blast
  obtain plan ms where plan: "compile_threshold_rule (env_debug_str env) (env_parse_documents env)
        (repo_digest (env_repository env)) (env_sigma_source env) = Some (Inr plan)"
      "evaluate_threshold_normalized_events (\<lambda>f. f) plan (map be_event events)
        (br_execution_mode request) (br_evaluated_at request) mvp_policy = Inr ms"
      and ms: "list_all2 (\<lambda>m s. threshold_outcome env m (bs_db st') s) ms threshold_part"
    using th unfolding threshold_signals_def by blast
  from ms have "map (signal_key (env_repository env)) threshold_part
      = map (\<lambda>m. sha256_lower_hex (repo_digest (env_repository env)) (threshold_identity m)) ms"
    by (induction rule: list_all2_induct) (simp_all add: threshold_outcome_def)
  moreover have "map (signal_key (env_repository env)) event_part = event_keys env request events"
    using ev by (simp add: event_signals_def)
  ultimately have "mset (map (signal_key (env_repository env)) (result_signals res))
      = mset (event_keys env request events @ map (\<lambda>m. sha256_lower_hex (repo_digest (env_repository env)) (threshold_identity m)) ms)"
    by (metis (no_types, lifting) map_append mset_map mset_sort res mvp_batch_result.select_convs(2))
  then show ?thesis
    by (intro exI [of _ events] exI [of _ plan] exI [of _ ms]) (simp add: load plan res event_keys_listed)
qed

lemma finding_key_identity:
  assumes "evaluate_sequence_signals (account_compromise_plan (repo_digest repo)) signals (br_execution_mode request) policy = Inr ms"
    and "m \<in> set ms"
  shows "finding_key repo (correlation_finding_of m c)
    = sha256_lower_hex (repo_digest repo) (finding_identity (repo_digest repo) request (scm_tenant_id m) (scm_input_signal_ids m))"
  by (rule sequence_match_selected [OF assms]) (simp add: finding_key_def correlation_finding_of_def finding_key_text_def
      finding_identity_def account_compromise_plan_def mvp_constants)

text \<open>The user of an event, by the identity of the event.\<close>

definition event_users :: "batch_event list \<Rightarrow> string \<rightharpoonup> string" where
  "event_users events i = (case find (\<lambda>b. ne_normalized_event_id (be_event b) = i) events of
     None \<Rightarrow> None | Some b \<Rightarrow> (case event_string_field (be_event b) ''user.name'' of Inr u \<Rightarrow> u | Inl _ \<Rightarrow> None))"

lemma loaded_distinct:
  assumes "load fetch decode_row parse_json as_f64 config request = Inr events"
  shows "distinct (map batch_id events)"
proof -
  obtain lines where "load_body decode_row parse_json as_f64 lines = Inr events"
    using assms by (auto simp: load_def split: http_outcome.splits if_splits)
  then show ?thesis by (rule load_body_events) (simp add: distinct_map)
qed

lemma sequence_user_step_ok: "sequence_user_step known b = Inr users \<longleftrightarrow>
    (\<exists>user. event_string_field (be_event b) ''user.name'' = Inr user
       \<and> users = (case user of None \<Rightarrow> known | Some u \<Rightarrow> known(batch_id b \<mapsto> u)))"
  by (auto simp: sequence_user_step_def result_simps batch_id_def split: option.splits)

lemma sequence_users_fold:
  assumes "try_fold sequence_user_step known events = Inr users" "distinct (map batch_id events)"
  shows "users i = (case event_users events i of Some u \<Rightarrow> Some u | None \<Rightarrow> known i)"
  using assms
proof (induction events arbitrary: known)
  case (Cons b events)
  obtain user where user: "event_string_field (be_event b) ''user.name'' = Inr user"
    and rest: "try_fold sequence_user_step (case user of None \<Rightarrow> known | Some u \<Rightarrow> known(batch_id b \<mapsto> u)) events = Inr users"
    using Cons.prems(1) by (auto simp: and_then_eq_Inr sequence_user_step_ok)
  have other: "event_users events i = None" if "batch_id b = i"
  proof -
    have "find (\<lambda>b. ne_normalized_event_id (be_event b) = i) events = None"
      using that Cons.prems(2) unfolding find_None_iff batch_id_def
      by (metis (no_types, lifting) distinct.simps(2) image_eqI list.simps(9) set_map)
    then show ?thesis by (simp add: event_users_def)
  qed
  have step: "event_users (b # events) i = (if batch_id b = i then user else event_users events i)"
    by (simp add: event_users_def user batch_id_def)
  show ?case
    using Cons.IH [OF rest] Cons.prems(2) other by (cases user) (auto simp: step batch_id_def split: option.splits)
qed (simp add: event_users_def)

lemma sequence_users:
  assumes "mvp_sequence_policy_new events = Inr users" "distinct (map batch_id events)"
  shows "users = event_users events"
  using sequence_users_fold [OF assms(1) [unfolded mvp_sequence_policy_new_def] assms(2)] by (auto split: option.splits)

lemma sequence_findings_chains:
  assumes "codec_ok (env_repository env)" "distinct (map batch_id events)"
    and "sequence_findings env request events signals db findings"
  defines "key \<equiv> \<lambda>tenant ids. sha256_lower_hex (repo_digest (env_repository env))
      (finding_identity (repo_digest (env_repository env)) request tenant ids)"
  shows "f \<in> set findings \<Longrightarrow> \<exists>tenant user a b c. compromise_chain (event_users events) signals tenant user a b c
      \<and> finding_key (env_repository env) f = key tenant [sg_signal_id a, sg_signal_id b, sg_signal_id c]"
    and "compromise_chain (event_users events) signals tenant user a b c \<Longrightarrow> \<exists>f\<in>set findings. \<exists>ids.
      (\<forall>i\<in>set ids. \<exists>s\<in>set signals. sg_signal_id s = i \<and> signal_user (event_users events) s = Some user)
      \<and> finding_key (env_repository env) f = key tenant ids"
proof -
  let ?digest = "repo_digest (env_repository env)"
  obtain ms where eval: "evaluate_sequence_signals (account_compromise_plan ?digest) signals
        (br_execution_mode request) (mvp_sequence_policy (event_users events)) = Inr ms"
    and fs: "list_all2 (\<lambda>m f. finding_outcome env request m db f) ms findings"
    using assms(3) sequence_users [OF _ assms(2)] unfolding sequence_findings_def by blast
  have m_key: "finding_key (env_repository env) f = key (scm_tenant_id m) (scm_input_signal_ids m)"
    if "m \<in> set ms" "finding_outcome env request m db f" for m f
    using that finding_key_identity [OF eval that(1)] by (auto simp: finding_outcome_def key_def)
  have plan: "compile_sequence_rule ?digest = Inr (account_compromise_plan ?digest)"
    unfolding account_compromise_plan_def by (rule compile_sequence_rule_ok) (use assms(1) in \<open>simp add: codec_ok_def\<close>)
  {
    assume "f \<in> set findings"
    then obtain m where m: "m \<in> set ms" "finding_outcome env request m db f" using list_all2_memD(1) [OF fs] by blast
    show "\<exists>tenant user a b c. compromise_chain (event_users events) signals tenant user a b c
        \<and> finding_key (env_repository env) f = key tenant [sg_signal_id a, sg_signal_id b, sg_signal_id c]"
      using compromise_match_chain [OF plan eval m(1)] m_key [OF m] by metis
  next
    assume chain: "compromise_chain (event_users events) signals tenant user a b c"
    obtain m where m: "m \<in> set ms" "scm_tenant_id m = tenant" "\<forall>i\<in>set (scm_input_signal_ids m).
        \<exists>s\<in>set signals. sg_signal_id s = i \<and> signal_user (event_users events) s = Some user"
      using compromise_chain_matched [OF plan eval chain] by blast
    then show "\<exists>f\<in>set findings. \<exists>ids. (\<forall>i\<in>set ids. \<exists>s\<in>set signals. sg_signal_id s = i
        \<and> signal_user (event_users events) s = Some user) \<and> finding_key (env_repository env) f = key tenant ids"
      using list_all2_memD(2) [OF fs m(1)] m_key by metis
  }
qed

text \<open>C11: the Findings of an execution are exactly justified. Let the loaded events be given, with the user
  that each of them names, and the returned Signals of the EVENT rules over these events. Each
  returned Finding is stored under the logical key of a chain of three of these Signals, a failed
  login, a successful login and a privilege escalation of one user in order within ten minutes; and
  for each such chain a Finding of its tenant is returned whose Signals belong to the user.\<close>

theorem execute_findings_exact:
  assumes "identities_ok env" "codec_ok (env_repository env)" "reachable_db (env_repository env) (bs_db st)"
    and "execute env request st = (st', Inr res)"
  shows "\<exists>events signals. load (env_fetch env) (env_decode_row env) (env_parse_json env) (env_as_f64 env)
      (env_config env) request = Inr events
    \<and> mset signals \<subseteq># mset (result_signals res)
    \<and> map (signal_key (env_repository env)) signals = event_keys env request events
    \<and> (\<forall>f\<in>set (result_findings res). \<exists>tenant user a b c. compromise_chain (event_users events) signals tenant user a b c
         \<and> finding_key (env_repository env) f = sha256_lower_hex (repo_digest (env_repository env))
             (finding_identity (repo_digest (env_repository env)) request tenant [sg_signal_id a, sg_signal_id b, sg_signal_id c]))
    \<and> (\<forall>tenant user a b c. compromise_chain (event_users events) signals tenant user a b c \<longrightarrow>
         (\<exists>f\<in>set (result_findings res). \<exists>ids.
           (\<forall>i\<in>set ids. \<exists>s\<in>set signals. sg_signal_id s = i \<and> signal_user (event_users events) s = Some user)
           \<and> finding_key (env_repository env) f = sha256_lower_hex (repo_digest (env_repository env))
               (finding_identity (repo_digest (env_repository env)) request tenant ids)))"
proof -
  obtain events signals rest findings where
      load: "load (env_fetch env) (env_decode_row env) (env_parse_json env) (env_as_f64 env) (env_config env) request = Inr events"
      and signals: "event_signals env request events (bs_db st') signals"
      and findings: "sequence_findings env request events signals (bs_db st') findings"
      and res: "res = \<lparr>events_loaded = length events, result_signals = sort_key sg_signal_id (signals @ rest),
         result_findings = sort_key fd_finding_id findings\<rparr>"
    using execute_report [OF assms] unfolding batch_report_def by blast
  note chains = sequence_findings_chains [OF assms(2) loaded_distinct [OF load] findings]
  show ?thesis
    using signals chains by (intro exI [of _ events] exI [of _ signals]) (simp add: load res event_signals_def)
qed

end
