(* ===== verification/Pipeline.thy ===== *)
theory Pipeline
  imports Redelivery Mvp_Batch_Correctness
begin

text \<open>
  Across the crates: the row the normalizer stores in ClickHouse (\<open>clickhouse.rs\<close>) is what the batch
  runtime reads from there (\<open>mvp_batch.rs\<close>). The meaning of the source's query on the rows of the table is
  written out here; ClickHouse answers it with rows that satisfy its condition, as many as the limit
  allows. A failed login that carries an event time is loaded as the event the normalizer published
  and yields its Signal; one without an event time is never loaded.
\<close>

section \<open>The query of the batch source\<close>

definition row_millis :: "stored_normalization \<Rightarrow> int" where
  "row_millis row = sn_event_time_seconds row * 1000 + truncating_div (sn_event_time_nanos row) 1000000"

text \<open>The condition of the query. A stored time is a valid timestamp, so its milliseconds fit the 64 bits of
  the database.\<close>

definition selected_row :: "mvp_batch_request \<Rightarrow> stored_normalization \<Rightarrow> bool" where
  "selected_row request row \<longleftrightarrow> sn_tenant_id row = br_tenant_id request
     \<and> sn_execution_mode row = execution_mode_i32 (br_execution_mode request) \<and> sn_event_time_present row = 1
     \<and> br_start_millis request \<le> row_millis row \<and> row_millis row \<le> br_end_millis request"

text \<open>Its columns.\<close>

definition source_row :: "stored_normalization \<Rightarrow> stored_normalized_row" where
  "source_row row =
    \<lparr>sr_tenant_id = sn_tenant_id row, sr_normalized_event_id = sn_normalized_event_id row, sr_raw_event_id = sn_raw_event_id row,
     sr_event_time_present = sn_event_time_present row, sr_event_time_seconds = sn_event_time_seconds row,
     sr_event_time_nanos = sn_event_time_nanos row, sr_normalized_at_seconds = sn_normalized_at_seconds row,
     sr_normalized_at_nanos = sn_normalized_at_nanos row, sr_ocsf_version = sn_ocsf_version row, sr_class_uid = sn_class_uid row,
     sr_category_uid = sn_category_uid row, sr_activity_id = sn_activity_id row, sr_severity = sn_severity row,
     sr_parser_id = sn_parser_id row, sr_parser_version = sn_parser_version row,
     sr_normalization_status = sn_normalization_status row, sr_normalized_hash_algorithm = sn_normalized_hash_algorithm row,
     sr_normalized_hash = sn_normalized_hash row, sr_pipeline_version = sn_pipeline_version row,
     sr_ocsf_event_json = sn_ocsf_event_json row\<rparr>"

text \<open>ClickHouse answers the query on a table: one line per row, selected rows only, all of them unless the
  limit cuts them off.\<close>

definition answers_query ::
  "(mvp_clickhouse_config \<Rightarrow> (string \<times> string) list \<Rightarrow> http_outcome) \<Rightarrow> (string \<Rightarrow> (stored_normalized_row, string) result)
     \<Rightarrow> mvp_clickhouse_config \<Rightarrow> mvp_batch_request \<Rightarrow> stored_normalization list \<Rightarrow> bool" where
  "answers_query fetch decode_row config request table \<longleftrightarrow> (\<exists>body rows.
     fetch config (source_parameters (cc_database config) request) = Response 200 body
     \<and> list_all2 (\<lambda>line row. decode_row line = Inr (source_row row)) (filter (\<lambda>line. trim line \<noteq> '''') (str_lines body)) rows
     \<and> mset rows \<subseteq># mset (filter (selected_row request) table)
     \<and> length rows = min (unat (br_max_events request)) (length (filter (selected_row request) table)))"

text \<open>Parsing the canonical JSON text of a tree gives back the canonical tree.\<close>

definition json_codec :: "('o, 't) core_env \<Rightarrow> (string \<Rightarrow> (string json, string) result) \<Rightarrow> bool" where
  "json_codec env parse_json \<longleftrightarrow> (\<forall>node. parse_json (canonical_json_bytes env node) = Inr (canonicalize node))"

section \<open>What the source reads from a stored row\<close>

text \<open>The batch runtime and the normalizer convert JSON to protobuf values in the same way.\<close>

lemma prost_value_eq:
  "json_to_prost_value as_f64 j = json_to_struct_value (RuntimeError ''stored OCSF number is outside protobuf Struct range'') as_f64 j"
proof (induction j)
  case (JArray vs)
  then show ?case by (simp cong: try_map_cong)
next
  case (JObject members)
  have "try_map (\<lambda>m. and_then (json_to_prost_value as_f64 (snd m)) (\<lambda>v. Inr (fst m, v))) members
      = try_map (\<lambda>m. and_then (json_to_struct_value (RuntimeError ''stored OCSF number is outside protobuf Struct range'') as_f64 (snd m))
          (\<lambda>v. Inr (fst m, v))) members"
    using JObject by (intro try_map_cong) auto
  then show ?case by simp
qed simp_all

lemma prost_struct_eq: "json_to_prost_struct as_f64 j =
    json_to_struct (RuntimeError ''stored OCSF event root must be an object'')
      (RuntimeError ''stored OCSF number is outside protobuf Struct range'') as_f64 j"
  by (cases j) (simp_all add: json_to_prost_struct_def json_to_struct_def prost_value_eq)

lemma login_row_loaded:
  assumes "default_core core" "normalize env core incoming persisted raw = Some (ids, Inr plan)"
    and "from_plan plan (np_resolved_event_time plan) ingest envelope message_id component instance = Inr row"
    and "json_codec env parse_json"
  shows "into_batch_event parse_json (ce_as_f64 env) (source_row row) =
      and_then (map_err (\<lambda>e. RuntimeError (''invalid stored event_time: '' @ display_violation e))
        (validate_optional_timestamp ''event_time'' (rp_event_time persisted))) (\<lambda>_.
      Inr \<lparr>be_event = np_normalized_event plan, be_source_event_time = rp_event_time persisted\<rparr>)"
    "holds (mvp_leaf_holds (np_normalized_event plan)) failed_login_expression"
proof -
  let ?event = "np_normalized_event plan"
  obtain p trace parsed stamp m mapped nid tid where mapped: "map_ssh_authentication parsed persisted (from_persisted persisted) m = Inr mapped"
    and plan: "plan_of env core persisted parsed (from_persisted persisted) stamp mapped nid tid = Inr plan"
    using assms(1,2) by (rule normalize_parts)
  obtain username source_ip port invalid_user message metadata t where
    ocsf: "mo_ocsf_event mapped = ssh_ocsf_event username source_ip port invalid_user message metadata t" and "sorted_json metadata"
    using mapped sorted_ssh_metadata by (auto simp: map_ssh_authentication_def result_simps split: prod.splits if_splits)
  then have canonical: "canonicalize (mo_ocsf_event mapped) = mo_ocsf_event mapped" by (simp add: canonicalize_sorted sorted_ssh_event)
  obtain ps where ps: "json_to_struct (core_invalid ''OCSF event root must be a JSON object'')
      (core_invalid ''OCSF JSON number cannot be represented as protobuf Struct number'') (ce_as_f64 env) (mo_ocsf_event mapped) = Inr ps"
    and event: "ne_ocsf_event ?event = Some ps"
    using plan by (auto simp: plan_of_def normalized_event_of_def result_simps Let_def)
  have parsed_text: "parse_json (sn_ocsf_event_json row) = Inr (mo_ocsf_event mapped)"
    using assms(3,4) plan canonical
    by (auto simp: json_codec_def from_plan_def plan_of_def result_simps Let_def dest!: from_utf8_eq)
  have struct: "json_to_prost_struct (ce_as_f64 env) (mo_ocsf_event mapped) = Inr ps"
    unfolding prost_struct_eq by (rule json_to_struct_error [OF ps])
  have time: "np_resolved_event_time plan = rp_event_time persisted"
    using plan by (auto simp: plan_of_def result_simps Let_def from_persisted_def unresolved_def split: option.splits)
  with assms(3) have "row_event_time (source_row row) = Inr (rp_event_time persisted)"
    by (cases "rp_event_time persisted") (auto simp: source_row_def from_plan_def row_event_time_def result_simps Let_def)
  moreover obtain s n where "ne_normalized_at ?event = Some \<lparr>seconds = s, nanos = n\<rparr>"
    using plan by (cases stamp) (auto simp: plan_of_def normalized_event_of_def result_simps Let_def)
  ultimately show "into_batch_event parse_json (ce_as_f64 env) (source_row row) =
      and_then (map_err (\<lambda>e. RuntimeError (''invalid stored event_time: '' @ display_violation e))
        (validate_optional_timestamp ''event_time'' (rp_event_time persisted))) (\<lambda>_.
      Inr \<lparr>be_event = ?event, be_source_event_time = rp_event_time persisted\<rparr>)"
    using assms(3) parsed_text event struct by (cases "np_normalized_event plan") (auto simp: into_batch_event_def source_row_def from_plan_def result_simps Let_def)
  show "holds (mvp_leaf_holds ?event) failed_login_expression"
    using ssh_ocsf_fields(1,2) [OF ps [unfolded ocsf] event] by (simp add: failed_login_expression_def mvp_and_def mvp_eq_def)
qed

section \<open>What an execution makes of it\<close>

lemma answered_rows:
  assumes "answers_query fetch decode_row config request table" "row \<in> set table" "selected_row request row"
    and "length (filter (selected_row request) table) \<le> unat (br_max_events request)"
    and "load fetch decode_row parse_json as_f64 config request = Inr events"
  obtains b where "into_batch_event parse_json as_f64 (source_row row) = Inr b" "b \<in> set events"
proof -
  obtain body rows where body: "fetch config (source_parameters (cc_database config) request) = Response 200 body"
    and lines: "list_all2 (\<lambda>line row. decode_row line = Inr (source_row row)) (filter (\<lambda>line. trim line \<noteq> '''') (str_lines body)) rows"
    and rows: "mset rows \<subseteq># mset (filter (selected_row request) table)" "length rows = length (filter (selected_row request) table)"
    using assms(1,4) by (auto simp: answers_query_def)
  have "mset rows = mset (filter (selected_row request) table)"
    using rows by (metis mset_subset_size order_less_irrefl size_mset subset_mset.le_imp_less_or_eq)
  from mset_eq_setD [OF this] have "row \<in> set rows" using assms(2,3) by simp
  then obtain line where line: "line \<in> set (filter (\<lambda>line. trim line \<noteq> '''') (str_lines body))" "decode_row line = Inr (source_row row)"
    using list_all2_memD(1) [OF lines] by blast
  have "load_body decode_row parse_json as_f64 (str_lines body) = Inr events" using assms(5) by (simp add: load_def body)
  then obtain items where items: "try_map (decode_line decode_row parse_json as_f64) (filter (\<lambda>line. trim line \<noteq> '''') (str_lines body)) = Inr items"
    "set events = set items" by (rule load_body_events)
  then have "list_all2 (\<lambda>line b. decode_line decode_row parse_json as_f64 line = Inr b)
      (filter (\<lambda>line. trim line \<noteq> '''') (str_lines body)) items" by (simp only: try_map_eq_Inr)
  from list_all2_memD(2) [OF this line(1)] obtain b where
    "decode_line decode_row parse_json as_f64 line = Inr b" "b \<in> set items" by blast
  then show thesis using that line(2) items(2) by (simp add: decode_line_def)
qed

text \<open>C18: from the log line to the Signal, across both crates and the store. When the row of a normalized
  failed login is in the table, carries an event time in the window, and the batch does not overflow
  its limit, then every execution that finishes returns a Signal of the failed-login rule for exactly
  the event the normalizer published, found by its logical key. Assumed: ClickHouse answers the
  query with the stored rows and parsing canonical JSON gives back the tree.\<close>

theorem failed_login_reaches_signal:
  assumes "default_core core" "normalize env core incoming persisted raw = Some (ids, Inr plan)"
    and "from_plan plan (np_resolved_event_time plan) ingest envelope message_id component instance = Inr row"
    and "json_codec env (env_parse_json batch)" "env_as_f64 batch = ce_as_f64 env"
    and "answers_query (env_fetch batch) (env_decode_row batch) (env_config batch) request table"
    and "row \<in> set table" "selected_row request row"
    and "length (filter (selected_row request) table) \<le> unat (br_max_events request)"
    and "identities_ok batch" "codec_ok (env_repository batch)" "reachable_db (env_repository batch) (bs_db st)"
    and "execute batch request st = (st', Inr res)"
  shows "\<exists>signal \<in> set (result_signals res). signal_key (env_repository batch) signal
    = sha256_lower_hex (repo_digest (env_repository batch)) (event_identity request (np_normalized_event plan) FAILED_LOGIN_RULE_ID)"
proof -
  have "sound_db (env_repository batch) (bs_db st)" using assms(11,12) by (simp add: sound_db_def)
  note run = governed_step [OF execute_governed [OF assms(10)] this assms(13)]
  have "batch_report batch request (bs_db st') res" by (rule run(3)) (rule refl)
  then obtain events event_part threshold_part findings where
      loaded: "load (env_fetch batch) (env_decode_row batch) (env_parse_json batch) (env_as_f64 batch) (env_config batch) request = Inr events"
      and signals: "event_signals batch request events (bs_db st') event_part"
      and res: "res = \<lparr>events_loaded = length events, result_signals = sort_key sg_signal_id (event_part @ threshold_part),
         result_findings = sort_key fd_finding_id findings\<rparr>"
    unfolding batch_report_def by blast
  obtain b where b: "into_batch_event (env_parse_json batch) (env_as_f64 batch) (source_row row) = Inr b" "b \<in> set events"
    by (rule answered_rows [OF assms(6-9) loaded])
  have event: "be_event b = np_normalized_event plan" using b(1) unfolding assms(5) login_row_loaded(1) [OF assms(1-4)]
    by (auto simp: result_simps)
  have "(FAILED_LOGIN_RULE_ID, ''mvp-failed-login-v1'', failed_login_expression) \<in> set event_pack" by (simp add: event_pack_def)
  with b(2) event login_row_loaded(2) [OF assms(1-4)] have "sha256_lower_hex (repo_digest (env_repository batch))
      (event_identity request (np_normalized_event plan) FAILED_LOGIN_RULE_ID) \<in> set (event_keys batch request events)"
    unfolding event_keys_listed by force
  then have "\<exists>signal \<in> set event_part. signal_key (env_repository batch) signal
    = sha256_lower_hex (repo_digest (env_repository batch)) (event_identity request (np_normalized_event plan) FAILED_LOGIN_RULE_ID)"
    using signals unfolding event_signals_def by (metis (no_types, lifting) ex_map_conv imageE set_map)
  then show ?thesis by (auto simp: res)
qed

text \<open>C38: a failed login without an event time is never seen by the detection. The normalizer stores such a
  login, with the ingest time as the time of the OCSF event, but no request of the batch runtime ever
  selects its row, whatever window it asks for.\<close>

theorem undated_login_never_selected:
  assumes "default_core core" "normalize env core incoming persisted raw = Some (ids, Inr plan)" "rp_event_time persisted = None"
    and "from_plan plan (np_resolved_event_time plan) ingest envelope message_id component instance = Inr row"
  shows "\<not> selected_row request row"
proof -
  obtain p trace parsed stamp m mapped nid tid where
    "plan_of env core persisted parsed (from_persisted persisted) stamp mapped nid tid = Inr plan"
    using assms(1,2) by (rule normalize_parts)
  then have "np_resolved_event_time plan = None"
    using assms(3) by (auto simp: plan_of_def result_simps Let_def from_persisted_def unresolved_def)
  then have "sn_event_time_present row = 0" using assms(4) by (auto simp: from_plan_def result_simps Let_def)
  then show ?thesis by (simp add: selected_row_def)
qed

end
