(* ===== verification/Sample_Batch.thy ===== *)
theory Sample_Batch
  imports Mvp_Batch_Correctness
begin

text \<open>
  A concrete execution: ClickHouse answers with one row, a failed login without a user. The run
  stores one Signal and returns it; the properties of executions are instantiated on it.
\<close>

section \<open>The environment\<close>

definition login_row :: stored_normalized_row where
  "login_row = (sample_row ''aaaaa'')\<lparr>sr_normalized_event_id := sample_uuid CHR ''1'', sr_raw_event_id := sample_uuid CHR ''2''\<rparr>"

definition login_json :: "unit json" where
  "login_json = JObject [(''activity_name'', JString ''Logon''), (''status'', JString ''Failure'')]"

definition login_env :: "unit batch_env" where
  "login_env = \<lparr>now_v7 = (\<lambda>n. sample_uuid (if even n then CHR ''7'' else CHR ''6'')),
     env_fetch = (\<lambda>_ _. Response 200 ''a''), env_decode_row = (\<lambda>_. Inr login_row),
     env_parse_json = (\<lambda>_. Inr login_json), env_as_f64 = (\<lambda>_. None), env_debug_str = (\<lambda>s. s),
     env_parse_documents = sample_pack, env_sigma_source = ''rule'', env_repository = sample_repo,
     env_config = \<lparr>cc_endpoint = ''http://localhost'', cc_database = ''cerbero'', cc_user = ''u'', cc_password = ''p''\<rparr>\<rparr>"

definition login_request :: mvp_batch_request where
  "login_request = \<lparr>br_tenant_id = sample_tenant, br_execution_mode = Test, br_start_millis = 0,
     br_end_millis = 10000, br_max_events = 10, br_evaluated_at = sample_time, br_created_at = sample_time\<rparr>"

text \<open>The environments of the runs differ in the source and its rows only; the events are failed logins
  of one identity, with a stored event time of five seconds.\<close>

definition runs_sample :: "'n batch_env \<Rightarrow> bool" where
  "runs_sample env \<longleftrightarrow> env_repository env = sample_repo \<and> env_debug_str env = (\<lambda>s. s) \<and> env_parse_documents env = sample_pack
     \<and> env_sigma_source env = ''rule'' \<and> (\<forall>n. now_v7 env n = sample_uuid (if even n then CHR ''7'' else CHR ''6''))"

definition failed_login :: "normalized_event \<Rightarrow> bool" where
  "failed_login event \<longleftrightarrow> ne_normalized_event_id event = sample_uuid CHR ''1'' \<and> ne_tenant_id event = sample_tenant
     \<and> field_state (\<lambda>f. f) event ''activity_name'' = Present (Value (Some (StringValue ''Logon'')))
     \<and> field_state (\<lambda>f. f) event ''status'' = Present (Value (Some (StringValue ''Failure'')))"

definition loaded_login :: "normalized_event \<Rightarrow> batch_event" where
  "loaded_login event = \<lparr>be_event = event, be_source_event_time = Some \<lparr>seconds = 5, nanos = 0\<rparr>\<rparr>"

lemma loaded_login_fields [simp]: "be_event (loaded_login event) = event"
  "be_source_event_time (loaded_login event) = Some \<lparr>seconds = 5, nanos = 0\<rparr>" by (simp_all add: loaded_login_def)

definition login_event :: normalized_event where
  "login_event = (sample_event CHR ''1'' 3002)\<lparr>ne_raw_event_id := sample_uuid CHR ''2'',
      ne_normalized_at := Some \<lparr>seconds = 0, nanos = 0\<rparr>,
      ne_ocsf_event := Some [(''activity_name'', Value (Some (StringValue ''Logon''))),
        (''status'', Value (Some (StringValue ''Failure'')))]\<rparr>"

abbreviation login_batch_event :: batch_event where
  "login_batch_event \<equiv> loaded_login login_event"

lemma login_env_runs: "runs_sample login_env"
  by (simp add: login_env_def runs_sample_def)

lemma login_env_fields [simp]: "env_repository login_env = sample_repo"
  by (simp add: login_env_def)

lemma login_request_fields [simp]:
  "br_execution_mode login_request = Test" "br_evaluated_at login_request = sample_time"
  "br_created_at login_request = sample_time"
  by (simp_all add: login_request_def)

lemma runs_sample_identities: "runs_sample env \<Longrightarrow> identities_ok env"
  by (simp add: identities_ok_def runs_sample_def sample_uuid_ok)

lemma one_line: "trim ''a'' \<noteq> []" "str_lines ''a'' = [''a'']"
  by (rule trim_nonempty [of "CHR ''a''"]) (simp_all add: solid_def byte_def str_lines_def)

lemma login_load:
  "load (env_fetch login_env) (env_decode_row login_env) (env_parse_json login_env) (env_as_f64 login_env)
     (env_config login_env) login_request = Inr [login_batch_event]"
  by (simp add: load_def login_env_def load_body_def one_line load_step_def into_batch_event_def
      login_row_def sample_row_def row_event_time_def login_json_def validate_optional_timestamp_def
      validate_timestamp_def proto_timestamp_defs json_to_prost_struct_def Let_def btree_get_def
      loaded_login_def login_event_def sample_event_def)

lemma login_validated: "validate_request login_request = Inr ()"
  by (simp add: validate_request_def login_request_def MAX_BATCH_EVENTS_def)

lemma login_event_failed: "failed_login login_event" "field_state (\<lambda>f. f) login_event ''user.name'' = Absent"
  by (simp_all add: failed_login_def field_state_def login_event_def sample_event_def resolve_ocsf_field_def classify_value_def)

section \<open>The run\<close>

abbreviation pack_rule :: "string \<Rightarrow> string \<Rightarrow> mvp_expression \<Rightarrow> (mvp_compiled_event_plan, runtime_error) result" where
  "pack_rule \<equiv> compile_event_rule (repo_digest sample_repo)"

abbreviation quiet_rules :: "mvp_expression set" where
  "quiet_rules \<equiv> {successful_login_expression, privilege_escalation_expression}"

definition login_start :: batch_state where
  "login_start = \<lparr>bs_db = empty_db, bs_next = 0, bs_links = []\<rparr>"

definition signal_for :: "normalized_event \<Rightarrow> signal" where
  "signal_for event = event_signal_of (\<lambda>v. v)
     \<lparr>esp_rule_id = RuleId FAILED_LOGIN_RULE_ID, esp_rule_version = RULE_VERSION,
      esp_normalized_event_id = sample_uuid CHR ''1'', esp_evaluated_at = sample_time,
      esp_execution_backend = ClickHouse, esp_execution_mode = Test\<rparr> event
     \<lparr>esc_signal_id = sample_uuid CHR ''7'', esc_severity = ''MEDIUM'', esc_confidence = None,
      esc_summary = ''Failed login matched'', esc_input_relation = ''EVENT_MATCH'', esc_created_at = sample_time,
      esc_source_event_time = Some \<lparr>seconds = 5, nanos = 0\<rparr>\<rparr>"

abbreviation login_signal :: signal where
  "login_signal \<equiv> signal_for login_event"

lemma login_texts: "has_text ''MEDIUM''" "has_text ''Failed login matched''"
  by (rule has_text_solid [of "CHR ''M''"] has_text_solid [of "CHR ''F''"]; simp add: solid_def byte_def)+

lemma signal_for_valid: "failed_login event \<Longrightarrow> wf_signal (signal_for event)"
    "failed_login event \<Longrightarrow> validate_signal (signal_for event) = Inr ()"
  using mvp_rule_ids(1)
  by (simp_all add: signal_for_def event_signal_of_wf wf_event_signal_context_def login_texts sample_texts sample_time_ok
      sample_uuid_ok valid_timestamp_def failed_login_def RULE_VERSION_def validate_signal_ok)

lemma signal_for_persisted:
  assumes "failed_login event"
  shows "\<exists>db. persist_signal sample_repo answering (sample_uuid CHR ''6'') (signal_for event) empty_db = (db, Inr (signal_for event))"
proof -
  obtain db where "signal_tx sample_repo answering (sample_uuid CHR ''6'') (signal_for event) empty_db = Inr (db, show_nat (to_nat (signal_for event)))"
    using sample_signal_tx [of "CHR ''6''" "signal_for event"] signal_for_valid(1) [OF assms] assms
    by (auto simp: byte_class_defs signal_for_def event_signal_of_def failed_login_def)
  then show ?thesis by (simp add: persist_signal_def)
qed

lemma failed_login_outcomes:
  assumes "failed_login event" "pack_rule rid name e = Inr c"
  shows "e = failed_login_expression \<Longrightarrow> evaluate_event_execution_plan predicates (compiled_plan c) (field_state (\<lambda>f. f) event) mvp_leaf_policy = Inr Match"
    "e \<in> quiet_rules \<Longrightarrow> evaluate_event_execution_plan predicates (compiled_plan c) (field_state (\<lambda>f. f) event) mvp_leaf_policy = Inr NoMatch"
proof -
  have "evaluate_event_execution_plan predicates (compiled_plan c) (field_state (\<lambda>f. f) event) mvp_leaf_policy
      = evaluate_event_execution_plan (\<lambda>p. p) (lower_event_predicate e) (field_state (\<lambda>f. f) event) mvp_leaf_policy"
    using assms(2) unfolding compile_event_rule_def map_err_eq_Inr
    by (simp add: evaluate_event_execution_plan_def mvp_compile_unique(1))
  with assms(1) show "e = failed_login_expression \<Longrightarrow> evaluate_event_execution_plan predicates (compiled_plan c) (field_state (\<lambda>f. f) event) mvp_leaf_policy = Inr Match"
    "e \<in> quiet_rules \<Longrightarrow> evaluate_event_execution_plan predicates (compiled_plan c) (field_state (\<lambda>f. f) event) mvp_leaf_policy = Inr NoMatch"
    by (auto simp: evaluate_event_execution_plan_def failed_login_expression_def successful_login_expression_def
      privilege_escalation_expression_def mvp_and_def mvp_eq_def mvp_leaf_policy_def mvp_evaluate_comparison_def failed_login_def)
qed

lemma quiet_step:
  assumes "failed_login event" "pack_rule rid name e = Inr c" "e \<in> quiet_rules"
  shows "event_step env login_request (loaded_login event) (c, presentation) st = (st, Inr None)"
  using failed_login_outcomes(2) [OF assms] assms(1) by (simp add: event_step_def batch_bind_def batch_lift_def batch_return_def
      evaluate_normalized_event_for_signal_def sample_uuid_ok failed_login_def)

lemma login_step:
  assumes env: "runs_sample env" and event: "failed_login event" and c: "pack_rule FAILED_LOGIN_RULE_ID name failed_login_expression = Inr c"
    and p: "persist_signal sample_repo answering (sample_uuid CHR ''6'') (signal_for event) empty_db = (db, Inr (signal_for event))"
  shows "event_step env login_request (loaded_login event) (c, \<lparr>ep_severity = ''MEDIUM'', ep_summary = ''Failed login matched''\<rparr>) login_start
    = (\<lparr>bs_db = db, bs_next = 2, bs_links = []\<rparr>, Inr (Some (signal_for event)))"
proof -
  have facts: "plan_rule_id (compiled_plan c) = RuleId FAILED_LOGIN_RULE_ID" "plan_rule_version (compiled_plan c) = RULE_VERSION"
    "plan_backend (compiled_plan c) = ClickHouse"
    using c unfolding compile_event_rule_def map_err_eq_Inr by (simp_all add: mvp_compile_unique(2-4))
  have id: "ne_normalized_event_id event = sample_uuid CHR ''1''" using event by (simp add: failed_login_def)
  note signal = signal_for_def [symmetric]
  show ?thesis
    using signal_for_valid(2) [OF event] p env
    by (simp add: event_step_def batch_bind_def batch_lift_def batch_return_def evaluate_normalized_event_for_signal_def
        failed_login_outcomes(1) [OF event c refl] id facts materialize_event_signal_def validated_def fresh_id_def store_signal_def next_link_simps
        signal login_start_def numeral_2_eq_2 runs_sample_def)
qed

lemma login_events:
  assumes env: "runs_sample env" and event: "failed_login event"
    and p: "persist_signal sample_repo answering (sample_uuid CHR ''6'') (signal_for event) empty_db = (db, Inr (signal_for event))"
  shows "execute_events env login_request [loaded_login event] login_start = (\<lparr>bs_db = db, bs_next = 2, bs_links = []\<rparr>, Inr [signal_for event])"
proof -
  obtain a b c where abc: "pack_rule FAILED_LOGIN_RULE_ID ''mvp-failed-login-v1'' failed_login_expression = Inr a"
    "pack_rule SUCCESSFUL_LOGIN_RULE_ID ''mvp-successful-login-v1'' successful_login_expression = Inr b"
    "pack_rule PRIVILEGE_ESCALATION_RULE_ID ''mvp-privilege-escalation-v1'' privilege_escalation_expression = Inr c"
    using compile_event_rule_exists mvp_expression_shapes mvp_rule_ids by metis
  then have "event_rules env login_start = (login_start, Inr
      [(a, \<lparr>ep_severity = ''MEDIUM'', ep_summary = ''Failed login matched''\<rparr>),
       (b, \<lparr>ep_severity = ''LOW'', ep_summary = ''Successful login matched''\<rparr>),
       (c, \<lparr>ep_severity = ''HIGH'', ep_summary = ''Privilege escalation matched''\<rparr>)])"
    using env by (simp add: event_rules_def Let_def batch_bind_def batch_lift_def batch_return_def runs_sample_def)
  then show ?thesis
    by (simp add: execute_events_def batch_bind_def batch_return_def login_step [OF env event abc(1) p]
        quiet_step [OF event abc(2)] quiet_step [OF event abc(3)] List.map_filter_simps)
qed

lemma sample_threshold_rule:
  obtains t where "compile_threshold_rule (\<lambda>s. s) sample_pack (repo_digest sample_repo) ''rule'' = Some (Inr t)"
    "ctp_threshold t = 10" "ctp_group_by t = [''user.name'', ''src_endpoint.ip'']" "tw_duration_millis (ctp_window t) = 300000"
    "tw_time_basis (ctp_window t) = EventTime" "tw_time_field (ctp_window t) = ''time''"
    "predicates (compiled_plan (ctp_filter t)) = lower_event_predicate failed_login_expression"
  using compile_threshold_rule_ok by blast

lemma sample_sequence_rule: "compile_sequence_rule (repo_digest sample_repo) = Inr (account_compromise_plan (repo_digest sample_repo))"
  unfolding account_compromise_plan_def by (rule compile_sequence_rule_ok) (use sample_codec_ok in \<open>simp add: codec_ok_def\<close>)

text \<open>One candidate is neither ten failed logins nor three stages.\<close>

lemma lone_threshold_candidate: "threshold_sorted_match t 10 window mode evaluated_at tenant [c] = Inr None"
proof -
  have "Suc 0 - advance_left [c] window 0 0 < 10" by simp
  then show ?thesis by (simp add: threshold_sorted_match_def Let_def)
qed

lemma lone_sequence_candidate: "sequence_sorted_match (account_compromise_plan digest) window mode tenant [c] = Inr None"
  by (simp add: sequence_sorted_match_def select_sequence_def account_compromise_plan_def upt_rec enumerate_eq_zip)

lemma lone_login_thresholds:
  assumes "runs_sample env" "failed_login event"
    and "\<And>t :: mvp_compiled_threshold_plan. \<lbrakk>ctp_group_by t = [''user.name'', ''src_endpoint.ip'']; tw_time_basis (ctp_window t) = EventTime; tw_time_field (ctp_window t) = ''time'';
      predicates (compiled_plan (ctp_filter t)) = lower_event_predicate failed_login_expression\<rbrakk>
      \<Longrightarrow> \<exists>found. threshold_candidate (\<lambda>f. f) t mvp_policy event = Inr found"
  shows "execute_thresholds env login_request [loaded_login event] st = (st, Inr [])"
proof -
  obtain t where t: "compile_threshold_rule (\<lambda>s. s) sample_pack (repo_digest sample_repo) ''rule'' = Some (Inr t)"
    "ctp_threshold t = 10" "ctp_group_by t = [''user.name'', ''src_endpoint.ip'']" "tw_duration_millis (ctp_window t) = 300000"
    "tw_time_basis (ctp_window t) = EventTime" "tw_time_field (ctp_window t) = ''time''"
    "predicates (compiled_plan (ctp_filter t)) = lower_event_predicate failed_login_expression"
    by (rule sample_threshold_rule)
  obtain found where found: "threshold_candidate (\<lambda>f. f) t mvp_policy event = Inr found" using assms(3) [OF t(3,5-7)] by blast
  with assms(2) have "evaluate_threshold_normalized_events (\<lambda>f. f) t [event] Test sample_time mvp_policy = Inr []"
    by (cases found) (auto simp: evaluate_threshold_normalized_events_def t usize_try_from_def i64_try_from_def checked_i64_def
        fits_i64_def failed_login_def List.map_filter_simps btree_push_def btree_get_def lone_threshold_candidate)
  with assms(1) show ?thesis
    by (simp add: execute_thresholds_def t batch_bind_def batch_lift_def batch_return_def runs_sample_def)
qed

lemma lone_login_sequences:
  assumes "runs_sample env" "failed_login event" "mvp_sequence_policy_new [loaded_login event] = Inr users"
    and "\<exists>found. sequence_candidate_of (account_compromise_plan (repo_digest sample_repo)) (mvp_sequence_policy users) (signal_for event) = Inr found"
  shows "execute_sequences env login_request [loaded_login event] [signal_for event] st = (st, Inr [])"
proof -
  obtain found where found: "sequence_candidate_of (account_compromise_plan (repo_digest sample_repo)) (mvp_sequence_policy users)
      (signal_for event) = Inr found" using assms(4) by blast
  have "validate_unique_signals [signal_for event] Test = Inr [(sg_signal_id (signal_for event), signal_for event)]"
    by (simp add: validate_unique_signals_def unique_signal_step_def signal_for_valid(2) [OF assms(2)] validate_execution_mode_def btree_get_def)
      (simp add: signal_for_def event_signal_of_def)
  moreover have "i64_try_from (csp_max_window_millis (account_compromise_plan (repo_digest sample_repo))) = Some 600000"
    by (simp add: account_compromise_plan_def i64_try_from_def checked_i64_def fits_i64_def)
  ultimately have "evaluate_sequence_signals (account_compromise_plan (repo_digest sample_repo)) [signal_for event] Test
      (mvp_sequence_policy users) = Inr []"
    using found by (cases found) (auto simp: evaluate_sequence_signals_def collect_sequence_candidates_def sequence_collect_step_def
        btree_push_def btree_get_def lone_sequence_candidate List.map_filter_simps)
  with assms(1,3) show ?thesis
    by (simp add: execute_sequences_def sample_sequence_rule batch_bind_def batch_lift_def batch_return_def runs_sample_def)
qed

lemma lone_login_run:
  assumes "runs_sample env" "failed_login event"
    and "load (env_fetch env) (env_decode_row env) (env_parse_json env) (env_as_f64 env) (env_config env) login_request = Inr [loaded_login event]"
    and "\<And>st. execute_thresholds env login_request [loaded_login event] st = (st, Inr [])"
    and "\<And>st. execute_sequences env login_request [loaded_login event] [signal_for event] st = (st, Inr [])"
  obtains db where "execute env login_request login_start = (\<lparr>bs_db = db, bs_next = 2, bs_links = []\<rparr>,
    Inr \<lparr>events_loaded = 1, result_signals = [signal_for event], result_findings = []\<rparr>)"
proof -
  obtain db where db: "persist_signal sample_repo answering (sample_uuid CHR ''6'') (signal_for event) empty_db = (db, Inr (signal_for event))"
    using signal_for_persisted [OF assms(2)] by blast
  show thesis
    by (rule that [of db]) (simp add: execute_def batch_bind_def batch_lift_def batch_return_def login_validated assms(3-5)
        login_events [OF assms(1,2) db])
qed

lemma login_thresholds: "execute_thresholds login_env login_request [login_batch_event] st = (st, Inr [])"
  using login_event_failed
  by (intro lone_login_thresholds [OF login_env_runs login_event_failed(1)])
    (auto simp: threshold_candidate_def evaluate_event_execution_plan_def failed_login_expression_def mvp_and_def
        mvp_eq_def mvp_policy_def mvp_leaf_policy_def mvp_evaluate_comparison_def event_string_field_def failed_login_def)

lemma login_sequences: "execute_sequences login_env login_request [login_batch_event] [login_signal] st = (st, Inr [])"
proof (rule lone_login_sequences [OF login_env_runs login_event_failed(1)])
  show "mvp_sequence_policy_new [login_batch_event] = Inr Map.empty"
    by (simp add: mvp_sequence_policy_new_def sequence_user_step_def event_string_field_def login_event_failed(2))
  have "mvp_sequence_group_key Map.empty [''user.name''] login_signal = Inr None"
    by (simp add: mvp_sequence_group_key_def split: option.split)
  then show "\<exists>found. sequence_candidate_of (account_compromise_plan (repo_digest sample_repo)) (mvp_sequence_policy Map.empty) login_signal = Inr found"
    by (simp add: sequence_candidate_of_def account_compromise_plan_def mvp_sequence_policy_def)
qed

definition login_result :: mvp_batch_result where
  "login_result = \<lparr>events_loaded = 1, result_signals = [login_signal], result_findings = []\<rparr>"

lemma login_run:
  obtains db where "execute login_env login_request login_start = (\<lparr>bs_db = db, bs_next = 2, bs_links = []\<rparr>, Inr login_result)"
  unfolding login_result_def
  by (rule lone_login_run [OF login_env_runs login_event_failed(1) login_load login_thresholds login_sequences])

section \<open>The properties on the run\<close>

lemma login_reachable: "reachable_db (env_repository login_env) (bs_db login_start)"
  by (simp add: login_start_def reachable_db.initial)

lemma login_codec: "codec_ok (env_repository login_env)"
  by (simp add: sample_codec_ok)

theorem execute_replays_witness:
  "\<exists>db n. execute login_env login_request \<lparr>bs_db = db, bs_next = 40, bs_links = []\<rparr> = (\<lparr>bs_db = db, bs_next = n, bs_links = []\<rparr>, Inr login_result)"
proof -
  obtain db where run: "execute login_env login_request login_start = (\<lparr>bs_db = db, bs_next = 2, bs_links = []\<rparr>, Inr login_result)"
    by (rule login_run)
  show ?thesis using execute_replays [OF runs_sample_identities [OF login_env_runs] login_codec login_reachable run, of 40] by auto
qed

text \<open>The Signal of the run is durable; a run whose first commit is done but not answered loses nothing.\<close>

theorem execute_durable_witness:
  "(\<exists>db r. execute login_env login_request login_start = (\<lparr>bs_db = db, bs_next = 2, bs_links = []\<rparr>, Inr r)
     \<and> (\<forall>s\<in>set (result_signals r). durable_signal sample_repo db s) \<and> result_signals r = [login_signal])
   \<and> (\<exists>st r. execute login_env login_request (login_start\<lparr>bs_links := [answering(TxCommit := LostAfter ''closed'')]\<rparr>) = (st, r)
     \<and> reachable_db sample_repo (bs_db st) \<and> extends sample_repo empty_db (bs_db st))"
proof
  obtain db where run: "execute login_env login_request login_start = (\<lparr>bs_db = db, bs_next = 2, bs_links = []\<rparr>, Inr login_result)"
    by (rule login_run)
  from execute_durable [OF runs_sample_identities [OF login_env_runs] login_codec login_reachable run]
  show "\<exists>db r. execute login_env login_request login_start = (\<lparr>bs_db = db, bs_next = 2, bs_links = []\<rparr>, Inr r)
     \<and> (\<forall>s\<in>set (result_signals r). durable_signal sample_repo db s) \<and> result_signals r = [login_signal]"
    by (simp add: run login_result_def)
  let ?start = "login_start\<lparr>bs_links := [answering(TxCommit := LostAfter ''closed'')]\<rparr>"
  obtain st r where broken: "execute login_env login_request ?start = (st, r)" by fastforce
  with execute_durable [OF runs_sample_identities [OF login_env_runs] login_codec _ broken] login_reachable
  show "\<exists>st r. execute login_env login_request ?start = (st, r)
      \<and> reachable_db sample_repo (bs_db st) \<and> extends sample_repo empty_db (bs_db st)"
    by (auto simp: login_start_def)
qed

text \<open>The key of the one Signal is that of the login under the failed-login rule, counted once.\<close>

theorem execute_signals_exact_witness:
  "mset (map (signal_key sample_repo) [login_signal]) = {#sha256_lower_hex (repo_digest sample_repo)
     (event_identity login_request (be_event login_batch_event) FAILED_LOGIN_RULE_ID)#}"
proof -
  obtain db where run: "execute login_env login_request login_start = (\<lparr>bs_db = db, bs_next = 2, bs_links = []\<rparr>, Inr login_result)"
    by (rule login_run)
  have rules: "holds (mvp_leaf_holds login_event) failed_login_expression"
    "\<not> holds (mvp_leaf_holds login_event) successful_login_expression"
    "\<not> holds (mvp_leaf_holds login_event) privilege_escalation_expression"
    using login_event_failed(1) by (simp_all add: failed_login_expression_def successful_login_expression_def
        privilege_escalation_expression_def mvp_and_def mvp_eq_def failed_login_def)
  have "size (mset (map (signal_key sample_repo) [login_signal])) = 1" by simp
  with rules execute_signals_exact [OF runs_sample_identities [OF login_env_runs] login_codec login_reachable run] show ?thesis
    by (auto simp: login_load login_result_def event_pack_def)
qed

end
