(* ===== verification/Sample_Pipeline.thy ===== *)
theory Sample_Pipeline
  imports Pipeline Sample_Batch
begin

text \<open>
  A concrete login all the way: a line of the ssh daemon with an event time is normalized, its row is
  stored, the batch runtime loads it and returns the Signal of the failed-login rule.
\<close>

section \<open>The stored row\<close>

instance json :: (countable) countable by countable_datatype

text \<open>The bytes of a JSON tree: its number, in digits.\<close>

definition wire_env :: "(int, int) core_env" where
  "wire_env = sample_env\<lparr>ce_to_vec := \<lambda>node. show_nat (to_nat node)\<rparr>"

definition wire_parse :: "string \<Rightarrow> (string json, string) result" where
  "wire_parse s = Inr (from_nat (digits_value 0 s))"

definition dated_handoff :: raw_event_persisted where
  "dated_handoff = sample_handoff\<lparr>rp_event_time := Some \<lparr>seconds = 5, nanos = 0\<rparr>\<rparr>"

lemma wire_codec: "json_codec wire_env wire_parse"
  by (simp add: json_codec_def wire_parse_def canonical_json_bytes_def wire_env_def digits_value_show_nat)

lemma dated_sound: "sound_handoff wire_env sample_incoming dated_handoff sample_log_line"
  by (simp add: sound_handoff_def validate_handoff_def sample_incoming_def dated_handoff_def sample_handoff_def sample_persisted_def
      wire_env_def sample_env_def sample_log_line_def sample_uuid_ok sample_time_ok valid_timestamp_def)

lemma dated_normalized:
  obtains plan where "normalize wire_env sample_core sample_incoming dated_handoff sample_log_line = Some ([], Inr plan)"
proof -
  have numbers: "ce_as_f64 wire_env n \<noteq> None" for n by (simp add: wire_env_def sample_env_def)
  show thesis
    using normalize_sshd_line [OF sample_core_new sample_time_ok sample_ids sample_uuid_ok(1,2) numbers dated_sound
        sample_line_checks sample_line_probe] that by blast
qed

text \<open>The row of the normalized login, as the normalizer's store writes it.\<close>

definition dated_row :: "normalization_plan \<Rightarrow> (stored_normalization, normalizer_error) result" where
  "dated_row plan = from_plan plan (np_resolved_event_time plan) sample_time sample_incoming (sample_uuid CHR ''5'') ''1'' ''i''"

definition dated_login :: "normalized_event \<Rightarrow> bool" where
  "dated_login event \<longleftrightarrow> failed_login event
     \<and> field_state (\<lambda>f. f) event ''time'' = Present (Value (Some (NumberValue (Finite 0))))
     \<and> (\<exists>user. field_state (\<lambda>f. f) event ''user.name'' = Present (Value (Some (StringValue user))))
     \<and> (\<exists>ip. field_state (\<lambda>f. f) event ''src_endpoint.ip'' = Present (Value (Some (StringValue ip))))"

lemma sample_core_fields:
  "nc_mappings sample_core = default_mappings" "nc_clock sample_core = Inr sample_time" "nc_next_id sample_core = fixed_next_id"
  "nc_ids sample_core = [sample_uuid CHR ''1'', sample_uuid CHR ''2'']" "nc_execution_mode sample_core = Test"
  by (simp_all add: sample_core_def sample_core_result_def new_core_def with_linux_sshd_version_def sshd_constants)

lemma ascii_show_nat: "ascii (show_nat n)"
  using show_nat_digits [of n] by (auto simp: ascii_def byte_class_defs)

lemma dated_parts:
  assumes "normalize wire_env sample_core sample_incoming dated_handoff sample_log_line = Some ([], Inr plan)"
  obtains parsed m mapped where
    "map_ssh_authentication parsed dated_handoff (from_persisted dated_handoff) m = Inr mapped"
    "plan_of wire_env sample_core dated_handoff parsed (from_persisted dated_handoff) sample_time mapped
      (sample_uuid CHR ''1'') (sample_uuid CHR ''2'') = Inr plan"
proof -
  have draw: "draw_ids sample_core = ([], Inr (sample_uuid CHR ''1'', sample_uuid CHR ''2''))"
    by (simp add: draw_ids_def sample_core_fields sample_ids)
  obtain parsed where build: "build_normalization_plan wire_env sample_core dated_handoff parsed = Some ([], Inr plan)"
    using assms by (auto simp: normalize_def result_simps split: sum.splits)
  then have "pe_parser_id parsed = LINUX_SSHD_PARSER_ID"
    and "for_parser (nc_mappings sample_core) (pe_parser_id parsed) = Inr ssh_authentication_mapping"
    by (auto simp: build_normalization_plan_def sample_core_fields for_parser_default map_err_def split: sum.splits)
  then obtain stamp mapped where
    mapped: "mapped_event sample_core ssh_authentication_mapping dated_handoff parsed (from_persisted dated_handoff) = Inr (stamp, mapped)"
    and plan: "plan_of wire_env sample_core dated_handoff parsed (from_persisted dated_handoff) stamp mapped
      (sample_uuid CHR ''1'') (sample_uuid CHR ''2'') = Inr plan"
    using build by (auto simp: build_normalization_plan_def resolve_sshd draw split: sum.splits)
  then obtain m where "map_ssh_authentication parsed dated_handoff (from_persisted dated_handoff) m = Inr mapped" "stamp = sample_time"
    by (auto simp: mapped_event_def result_simps ssh_authentication_mapping_def sample_core_fields)
  with plan that show thesis by blast
qed

lemma dated_event:
  assumes "normalize wire_env sample_core sample_incoming dated_handoff sample_log_line = Some ([], Inr plan)"
  shows "dated_login (np_normalized_event plan)" "ne_normalized_event_id (np_normalized_event plan) = sample_uuid CHR ''1''"
    "ne_tenant_id (np_normalized_event plan) = sample_tenant"
    "np_resolved_event_time plan = Some \<lparr>seconds = 5, nanos = 0\<rparr>" "tf_execution_mode (np_transformation plan) = execution_mode_i32 Test"
    "ne_normalized_at (np_normalized_event plan) = Some sample_time" "ascii (np_canonical_ocsf_json plan)"
proof -
  obtain parsed m mapped where map: "map_ssh_authentication parsed dated_handoff (from_persisted dated_handoff) m = Inr mapped"
    and plan: "plan_of wire_env sample_core dated_handoff parsed (from_persisted dated_handoff) sample_time mapped
      (sample_uuid CHR ''1'') (sample_uuid CHR ''2'') = Inr plan" using assms by (rule dated_parts)
  obtain username source_ip port invalid_user message metadata t where
    ocsf: "mo_ocsf_event mapped = ssh_ocsf_event username source_ip port invalid_user message metadata t"
    using map by (rule map_ssh_parts)
  obtain ps where ps: "json_to_struct (core_invalid ''OCSF event root must be a JSON object'')
      (core_invalid ''OCSF JSON number cannot be represented as protobuf Struct number'') (ce_as_f64 wire_env) (mo_ocsf_event mapped) = Inr ps"
    and event: "ne_ocsf_event (np_normalized_event plan) = Some ps"
    using plan by (auto simp: plan_of_def normalized_event_of_def result_simps Let_def)
  have "map_of ps ''time'' = Some (Value (Some (NumberValue (Finite 0))))"
    using json_to_struct_member [OF ps [unfolded ocsf ssh_ocsf_event_def], of "''time''"]
    by (simp add: wire_env_def sample_env_def json_number_def)
  then have "field_state (\<lambda>f. f) (np_normalized_event plan) ''time'' = Present (Value (Some (NumberValue (Finite 0))))"
    by (simp add: field_state_def event resolve_ocsf_field_def classify_value_def)
  moreover from plan show "ne_normalized_event_id (np_normalized_event plan) = sample_uuid CHR ''1''"
    "ne_tenant_id (np_normalized_event plan) = sample_tenant"
    "np_resolved_event_time plan = Some \<lparr>seconds = 5, nanos = 0\<rparr>" "tf_execution_mode (np_transformation plan) = execution_mode_i32 Test"
    "ne_normalized_at (np_normalized_event plan) = Some sample_time" "ascii (np_canonical_ocsf_json plan)"
    by (auto simp: plan_of_def normalized_event_of_def transformation_of_def result_simps Let_def sample_core_fields dated_handoff_def
        sample_handoff_def from_persisted_def canonical_json_bytes_def wire_env_def ascii_show_nat)
  ultimately show "dated_login (np_normalized_event plan)"
    using ssh_ocsf_fields [OF ps [unfolded ocsf] event] by (simp add: dated_login_def failed_login_def)
qed

lemma dated_stored:
  assumes "normalize wire_env sample_core sample_incoming dated_handoff sample_log_line = Some ([], Inr plan)"
  obtains row where "dated_row plan = Inr row" "selected_row login_request row"
proof -
  note event = dated_event [OF assms]
  show thesis
    by (rule that, simp add: dated_row_def from_plan_def event from_utf8_ascii Let_def)
      (simp add: selected_row_def event row_millis_def login_request_def truncating_div_def)
qed

section \<open>The run\<close>

definition dated_batch :: "stored_normalization \<Rightarrow> string batch_env" where
  "dated_batch row = \<lparr>now_v7 = now_v7 login_env, env_fetch = env_fetch login_env, env_decode_row = (\<lambda>_. Inr (source_row row)),
     env_parse_json = wire_parse, env_as_f64 = ce_as_f64 wire_env, env_debug_str = (\<lambda>s. s),
     env_parse_documents = sample_pack, env_sigma_source = ''rule'', env_repository = sample_repo, env_config = env_config login_env\<rparr>"

lemma dated_batch_fields [simp]:
  "env_repository (dated_batch row) = sample_repo" "env_decode_row (dated_batch row) = (\<lambda>_. Inr (source_row row))"
  "env_parse_json (dated_batch row) = wire_parse" "env_as_f64 (dated_batch row) = ce_as_f64 wire_env"
  "env_fetch (dated_batch row) = (\<lambda>_ _. Response 200 ''a'')"
  by (simp_all add: dated_batch_def login_env_def)

lemma dated_batch_runs: "runs_sample (dated_batch row)"
  using login_env_runs by (simp add: runs_sample_def dated_batch_def)

lemma dated_load:
  assumes "normalize wire_env sample_core sample_incoming dated_handoff sample_log_line = Some ([], Inr plan)" "dated_row plan = Inr row"
  shows "load (env_fetch (dated_batch row)) (env_decode_row (dated_batch row)) (env_parse_json (dated_batch row))
     (env_as_f64 (dated_batch row)) (env_config (dated_batch row)) login_request = Inr [loaded_login (np_normalized_event plan)]"
proof -
  have "into_batch_event wire_parse (ce_as_f64 wire_env) (source_row row) = Inr (loaded_login (np_normalized_event plan))"
    by (subst login_row_loaded(1) [OF sample_core_ok(2) assms(1) assms(2) [unfolded dated_row_def] wire_codec])
      (simp add: dated_handoff_def validate_optional_timestamp_def validate_timestamp_def proto_timestamp_defs loaded_login_def)
  then show ?thesis by (simp add: load_def load_body_def load_step_def one_line Let_def btree_get_def)
qed

lemma dated_thresholds:
  assumes "dated_login event"
  shows "execute_thresholds (dated_batch row) login_request [loaded_login event] st = (st, Inr [])"
proof -
  have "integral_number (Finite 0) = Some 0" by (simp add: integral_number_def rat_fract_def rat_trunc_def f64_epsilon_def)
  with assms show ?thesis
    by (intro lone_login_thresholds [OF dated_batch_runs])
      (auto simp: threshold_candidate_def evaluate_event_execution_plan_def failed_login_expression_def mvp_and_def
        mvp_eq_def mvp_policy_def mvp_leaf_policy_def mvp_evaluate_comparison_def dated_login_def failed_login_def
        event_string_field_def mvp_threshold_event_time_millis_def event_integer_field_def)
qed

lemma dated_sequences:
  assumes "dated_login event"
  shows "execute_sequences (dated_batch row) login_request [loaded_login event] [signal_for event] st = (st, Inr [])"
proof -
  have event: "failed_login event" using assms by (simp add: dated_login_def)
  obtain user where user: "field_state (\<lambda>f. f) event ''user.name'' = Present (Value (Some (StringValue user)))"
    using assms by (auto simp: dated_login_def)
  have users: "mvp_sequence_policy_new [loaded_login event] = Inr [sample_uuid CHR ''1'' \<mapsto> user]"
    using event by (simp add: mvp_sequence_policy_new_def sequence_user_step_def event_string_field_def user failed_login_def)
  have "timestamp_to_millis_checked \<lparr>seconds = 5, nanos = 0\<rparr> = Inr 5000"
    by (simp add: timestamp_to_millis_checked_def checked_mul_i64_def checked_add_i64_def checked_i64_def fits_i64_def)
  then have time: "mvp_sequence_time_millis (signal_for event) = Inr (Some 5000)"
    by (simp add: mvp_sequence_time_millis_def signal_for_def event_signal_of_def)
  have group_key: "mvp_sequence_group_key [sample_uuid CHR ''1'' \<mapsto> user] [''user.name''] (signal_for event) = Inr (Some user)"
    using event by (simp add: mvp_sequence_group_key_def signal_for_def event_signal_of_def failed_login_def SIGNAL_INPUT_NORMALIZED_EVENT_def)
  show ?thesis
    by (rule lone_login_sequences [OF dated_batch_runs event users])
      (simp add: sequence_candidate_of_def account_compromise_plan_def mvp_sequence_policy_def mvp_sequence_order_key_def time group_key)
qed

lemma dated_run:
  assumes "normalize wire_env sample_core sample_incoming dated_handoff sample_log_line = Some ([], Inr plan)" "dated_row plan = Inr row"
  obtains db where "execute (dated_batch row) login_request login_start = (\<lparr>bs_db = db, bs_next = 2, bs_links = []\<rparr>,
    Inr \<lparr>events_loaded = 1, result_signals = [signal_for (np_normalized_event plan)], result_findings = []\<rparr>)"
proof -
  note event = dated_event(1) [OF assms(1)]
  then have "failed_login (np_normalized_event plan)" by (simp add: dated_login_def)
  from lone_login_run [OF dated_batch_runs this dated_load [OF assms] dated_thresholds [OF event] dated_sequences [OF event]] that
  show thesis .
qed

section \<open>The properties on the login\<close>

theorem undated_login_never_selected_witness:
  "\<exists>plan row. normalize sample_env sample_core sample_incoming sample_handoff sample_log_line = Some ([], Inr plan)
     \<and> from_plan plan (np_resolved_event_time plan) sample_time sample_incoming (sample_uuid CHR ''5'') ''1'' ''i'' = Inr row
     \<and> \<not> selected_row login_request row"
proof -
  obtain plan where plan: "normalize sample_env sample_core sample_incoming sample_handoff sample_log_line = Some ([], Inr plan)"
    by (rule sample_normalized)
  obtain p trace parsed now m mapped nid tid where
    "plan_of sample_env sample_core sample_handoff parsed (from_persisted sample_handoff) now mapped nid tid = Inr plan"
    using sample_core_ok(2) plan by (rule normalize_parts)
  moreover have "from_utf8 ''{}'' = Inr ''{}''" by code_simp
  ultimately obtain row where row: "from_plan plan (np_resolved_event_time plan) sample_time sample_incoming (sample_uuid CHR ''5'') ''1'' ''i'' = Inr row"
    by (auto simp: from_plan_def plan_of_def normalized_event_of_def result_simps Let_def canonical_json_bytes_def sample_env_def)
  from undated_login_never_selected [OF sample_core_ok(2) plan sample_event_time row] plan row show ?thesis by blast
qed

theorem failed_login_reaches_signal_witness:
  "\<exists>plan row. normalize wire_env sample_core sample_incoming dated_handoff sample_log_line = Some ([], Inr plan)
     \<and> dated_row plan = Inr row
     \<and> signal_key sample_repo (signal_for (np_normalized_event plan))
       = sha256_lower_hex (repo_digest sample_repo) (event_identity login_request (np_normalized_event plan) FAILED_LOGIN_RULE_ID)"
proof -
  obtain plan where plan: "normalize wire_env sample_core sample_incoming dated_handoff sample_log_line = Some ([], Inr plan)"
    by (rule dated_normalized)
  obtain row where row: "dated_row plan = Inr row" "selected_row login_request row" using plan by (rule dated_stored)
  obtain db where run: "execute (dated_batch row) login_request login_start = (\<lparr>bs_db = db, bs_next = 2, bs_links = []\<rparr>,
      Inr \<lparr>events_loaded = 1, result_signals = [signal_for (np_normalized_event plan)], result_findings = []\<rparr>)"
    using plan row(1) by (rule dated_run)
  have answers: "answers_query (env_fetch (dated_batch row)) (env_decode_row (dated_batch row)) (env_config (dated_batch row)) login_request [row]"
    using row(2) by (auto simp: answers_query_def one_line login_request_def)
  from failed_login_reaches_signal [OF sample_core_ok(2) plan row(1) [unfolded dated_row_def] _ _ answers _ row(2) _ runs_sample_identities [OF dated_batch_runs] _ _ run]
  have "signal_key sample_repo (signal_for (np_normalized_event plan))
      = sha256_lower_hex (repo_digest sample_repo) (event_identity login_request (np_normalized_event plan) FAILED_LOGIN_RULE_ID)"
    using row(2) by (simp add: wire_codec sample_codec_ok login_start_def reachable_db.initial) (simp add: login_request_def)
  with plan row(1) show ?thesis by blast
qed

end
