(* ===== verification/Sample_Chain.thy ===== *)
theory Sample_Chain
  imports Sample_Batch
begin

text \<open>
  A concrete execution that ends in a Finding: ClickHouse answers with three rows of one user, a failed
  login, a successful login and a privilege escalation within eighty seconds. The run stores three
  Signals and the Finding over them; the exactness of Findings is instantiated on it.
\<close>

section \<open>The environment\<close>

text \<open>A digest that tells the texts of the three Signals apart: it repeats the last digit of the rule
  identity.\<close>

definition chain_digest :: "string \<Rightarrow> string" where
  "chain_digest bytes = replicate 32 (if 50 < length bytes then bytes ! 50 else CHR ''0'')"

definition chain_repo :: repository where
  "chain_repo = sample_repo\<lparr>repo_digest := chain_digest\<rparr>"

lemma chain_repo_fields [simp]:
  "component_version chain_repo = ''0.1.0''" "instance_id chain_repo = ''detection-1''"
  "encode_envelope chain_repo env = en_message_id env" "encode_signal chain_repo s = show_nat (to_nat s)"
  "decode_signal chain_repo (show_nat n) = Inr (from_nat n)" "repo_digest chain_repo = chain_digest"
  "encode_finding chain_repo f = show_nat (to_nat f)" "decode_finding chain_repo (show_nat n) = Inr (from_nat n)"
  by (simp_all add: chain_repo_def)

lemma chain_codec: "codec_ok chain_repo"
  using sample_codec_ok by (simp add: codec_ok_def chain_repo_def chain_digest_def)

definition chain_json :: "string \<Rightarrow> unit json" where
  "chain_json line = JObject [(''activity_name'', JString (if line = ''3'' then ''Privilege Escalation'' else ''Logon'')),
     (''status'', JString (if line = ''1'' then ''Failure'' else ''Success'')), (''user'', JObject [(''name'', JString ''root'')])]"

definition chain_seconds :: "string \<Rightarrow> int" where
  "chain_seconds line = (if line = ''1'' then 10 else if line = ''2'' then 50 else 90)"

definition chain_row :: "string \<Rightarrow> stored_normalized_row" where
  "chain_row line = (sample_row ''a'')\<lparr>sr_normalized_event_id := sample_uuid (hd line), sr_raw_event_id := sample_uuid (hd line),
     sr_event_time_seconds := chain_seconds line, sr_ocsf_event_json := line\<rparr>"

definition chain_env :: "unit batch_env" where
  "chain_env = \<lparr>now_v7 = (\<lambda>n. sample_uuid (if n < 8 then ''01234567'' ! n else CHR ''8'')),
     env_fetch = (\<lambda>_ _. Response 200 [CHR ''1'', CHR 0x0A, CHR ''2'', CHR 0x0A, CHR ''3'']),
     env_decode_row = (\<lambda>line. Inr (chain_row line)), env_parse_json = (\<lambda>line. Inr (chain_json line)),
     env_as_f64 = (\<lambda>_. None), env_debug_str = (\<lambda>s. s), env_parse_documents = sample_pack, env_sigma_source = ''rule'',
     env_repository = chain_repo, env_config = env_config login_env\<rparr>"

lemma chain_env_fields [simp]: "env_repository chain_env = chain_repo"
  "now_v7 chain_env n = sample_uuid (if n < 8 then ''01234567'' ! n else CHR ''8'')" by (simp_all add: chain_env_def)

lemma chain_identities: "identities_ok chain_env"
proof -
  have "is_ascii_hexdigit (if n < 8 then ''01234567'' ! n else CHR ''8'')" for n :: nat
  proof (cases "n < 8")
    case True
    then have "n \<in> {0, 1, 2, 3, 4, 5, 6, 7}" by auto
    then show ?thesis by (auto simp: byte_class_defs)
  qed (simp add: byte_class_defs)
  then show ?thesis by (simp add: identities_ok_def sample_uuid_hex)
qed

definition chain_event :: "string \<Rightarrow> normalized_event" where
  "chain_event line = (sample_event (hd line) 3002)\<lparr>ne_normalized_at := Some \<lparr>seconds = 0, nanos = 0\<rparr>,
     ne_ocsf_event := Some [(''activity_name'', Value (Some (StringValue (if line = ''3'' then ''Privilege Escalation'' else ''Logon'')))),
       (''status'', Value (Some (StringValue (if line = ''1'' then ''Failure'' else ''Success'')))),
       (''user'', Value (Some (StructValue [(''name'', Value (Some (StringValue ''root'')))])))]\<rparr>"

definition chain_loaded :: "string \<Rightarrow> batch_event" where
  "chain_loaded line = \<lparr>be_event = chain_event line, be_source_event_time = Some \<lparr>seconds = chain_seconds line, nanos = 0\<rparr>\<rparr>"

lemma chain_loaded_fields [simp]: "be_event (chain_loaded line) = chain_event line"
  "be_source_event_time (chain_loaded line) = Some \<lparr>seconds = chain_seconds line, nanos = 0\<rparr>"
  "ne_normalized_event_id (chain_event line) = sample_uuid (hd line)" "ne_tenant_id (chain_event line) = sample_tenant"
  by (simp_all add: chain_loaded_def chain_event_def sample_event_def)

lemma chain_fields [simp]:
  "field_state (\<lambda>f. f) (chain_event line) ''activity_name''
     = Present (Value (Some (StringValue (if line = ''3'' then ''Privilege Escalation'' else ''Logon''))))"
  "field_state (\<lambda>f. f) (chain_event line) ''status''
     = Present (Value (Some (StringValue (if line = ''1'' then ''Failure'' else ''Success''))))"
  "field_state (\<lambda>f. f) (chain_event line) ''user.name'' = Present (Value (Some (StringValue ''root'')))"
  "field_state (\<lambda>f. f) (chain_event line) ''src_endpoint.ip'' = Absent"
  by (simp_all add: chain_event_def field_state_def resolve_ocsf_field_def classify_value_def)

lemma chain_row_loaded:
  assumes "line \<in> {''1'', ''2'', ''3''}"
  shows "into_batch_event (\<lambda>line. Inr (chain_json line)) (\<lambda>_. None) (chain_row line) = Inr (chain_loaded line)"
  using assms by (auto simp: into_batch_event_def chain_row_def sample_row_def row_event_time_def chain_json_def chain_seconds_def
      validate_optional_timestamp_def validate_timestamp_def proto_timestamp_defs json_to_prost_struct_def
      chain_loaded_def chain_event_def sample_event_def)

abbreviation chain_batch :: "batch_event list" where
  "chain_batch \<equiv> map chain_loaded [''1'', ''2'', ''3'']"

lemma chain_timestamp_millis: "timestamp_to_millis_checked \<lparr>seconds = chain_seconds line, nanos = 0\<rparr> = Inr (chain_seconds line * 1000)"
  by (simp add: chain_seconds_def timestamp_to_millis_checked_def checked_mul_i64_def checked_add_i64_def checked_i64_def fits_i64_def)

lemma chain_load:
  "load (env_fetch chain_env) (env_decode_row chain_env) (env_parse_json chain_env) (env_as_f64 chain_env)
     (env_config chain_env) login_request = Inr chain_batch"
proof -
  have lines: "str_lines [CHR ''1'', CHR 0x0A, CHR ''2'', CHR 0x0A, CHR ''3''] = [''1'', ''2'', ''3'']"
    by (simp add: str_lines_def strip_cr_def)
  have "trim [c] \<noteq> []" if "c \<in> {CHR ''1'', CHR ''2'', CHR ''3''}" for c
    using that by (intro trim_nonempty [of c]) (auto simp: solid_def byte_def)
  then have trims: "trim ''1'' \<noteq> []" "trim ''2'' \<noteq> []" "trim ''3'' \<noteq> []" by auto
  show ?thesis
    by (simp add: load_def chain_env_def load_body_def lines trims load_step_def chain_row_loaded Let_def btree_get_def
        batch_order_def timestamp_millis_def chain_timestamp_millis)
      (simp add: chain_seconds_def)
qed

section \<open>The Signals\<close>

definition chain_rule :: "string \<Rightarrow> string" where
  "chain_rule line = (if line = ''1'' then FAILED_LOGIN_RULE_ID else if line = ''2'' then SUCCESSFUL_LOGIN_RULE_ID
     else PRIVILEGE_ESCALATION_RULE_ID)"

definition chain_presentation :: "string \<Rightarrow> event_presentation" where
  "chain_presentation line = (if line = ''1'' then \<lparr>ep_severity = ''MEDIUM'', ep_summary = ''Failed login matched''\<rparr>
     else if line = ''2'' then \<lparr>ep_severity = ''LOW'', ep_summary = ''Successful login matched''\<rparr>
     else \<lparr>ep_severity = ''HIGH'', ep_summary = ''Privilege escalation matched''\<rparr>)"

text \<open>The identities drawn for the Signal of a line and for its message.\<close>

definition chain_id :: "string \<Rightarrow> char" where
  "chain_id line = (if line = ''1'' then CHR ''0'' else if line = ''2'' then CHR ''2'' else CHR ''4'')"

definition chain_message :: "string \<Rightarrow> char" where
  "chain_message line = (if line = ''1'' then CHR ''1'' else if line = ''2'' then CHR ''3'' else CHR ''5'')"

definition made_signal :: "string \<Rightarrow> signal" where
  "made_signal line = event_signal_of (\<lambda>v. v)
     \<lparr>esp_rule_id = RuleId (chain_rule line), esp_rule_version = RULE_VERSION,
      esp_normalized_event_id = sample_uuid (hd line), esp_evaluated_at = sample_time,
      esp_execution_backend = ClickHouse, esp_execution_mode = Test\<rparr> (chain_event line)
     \<lparr>esc_signal_id = sample_uuid (chain_id line), esc_severity = ep_severity (chain_presentation line), esc_confidence = None,
      esc_summary = ep_summary (chain_presentation line), esc_input_relation = ''EVENT_MATCH'', esc_created_at = sample_time,
      esc_source_event_time = Some \<lparr>seconds = chain_seconds line, nanos = 0\<rparr>\<rparr>"

lemma made_signal_fields [simp]:
  "sg_signal_id (made_signal line) = sample_uuid (chain_id line)" "sg_tenant_id (made_signal line) = sample_tenant"
  "sg_rule_id (made_signal line) = chain_rule line" "sg_created_at (made_signal line) = Some sample_time"
  "sg_first_observed_at (made_signal line) = Some \<lparr>seconds = chain_seconds line, nanos = 0\<rparr>"
  "sg_execution_mode (made_signal line) = 3"
  "sg_inputs (made_signal line) = [\<lparr>si_signal_id = sample_uuid (chain_id line), si_input_type = 1,
     si_input_id = sample_uuid (hd line), si_relation = ''EVENT_MATCH'', si_ordinal = 0\<rparr>]"
  by (simp_all add: made_signal_def event_signal_of_def)

lemma chain_texts: "has_text ''Successful login matched''" "has_text ''Privilege escalation matched''"
  by (rule has_text_solid [of "CHR ''S''"] has_text_solid [of "CHR ''P''"]; simp add: solid_def byte_def)+

abbreviation chain_lines :: "string set" where
  "chain_lines \<equiv> {''1'', ''2'', ''3''}"

lemma made_signal_wf:
  assumes "line \<in> chain_lines"
  shows "wf_signal (made_signal line)" "validate_signal (made_signal line) = Inr ()"
proof -
  have "detection_rule_id (chain_rule line)" using mvp_rule_ids by (simp add: chain_rule_def)
  moreover have "uuid_v7 (sample_uuid (chain_id line))" "uuid_v7 (sample_uuid (hd line))"
    using assms by (auto intro!: sample_uuid_hex simp: chain_id_def byte_class_defs)
  ultimately show "wf_signal (made_signal line)"
    by (auto simp: made_signal_def event_signal_of_wf wf_event_signal_context_def login_texts sample_texts chain_texts
        sample_time_ok sample_uuid_ok valid_timestamp_def RULE_VERSION_def chain_presentation_def chain_seconds_def)
  then show "validate_signal (made_signal line) = Inr ()" by (simp add: validate_signal_ok)
qed

lemma made_signal_key: "line \<in> chain_lines \<Longrightarrow> signal_key chain_repo (made_signal line) = concat (map hex_byte (replicate 32 (hd line)))"
  by (auto simp: signal_logical_key_def sha256_lower_hex_def chain_digest_def signal_key_text_def chain_rule_def mvp_constants
      sample_tenant_def sample_uuid_def)

text \<open>What persisting a fresh Signal adds to the database.\<close>

definition with_signal :: "string \<Rightarrow> analytical_db \<Rightarrow> analytical_db" where
  "with_signal line db = db\<lparr>
     db_signals := db_signals db @ [\<lparr>ob_id = pg_uuid (sample_uuid (chain_id line)), ob_logical_key = signal_key chain_repo (made_signal line),
       ob_tenant_id = pg_uuid sample_tenant, ob_created_at = (1700000000, 0), ob_payload = show_nat (to_nat (made_signal line))\<rparr>],
     db_signal_inputs := db_signal_inputs db @ [\<lparr>iw_signal_id = pg_uuid (sample_uuid (chain_id line)), iw_ordinal = 0, iw_input_type = 1,
       iw_input_id = sample_uuid (hd line), iw_relation = ''EVENT_MATCH''\<rparr>],
     db_outbox := db_outbox db @ [\<lparr>ow_message_id = pg_uuid (sample_uuid (chain_message line)), ow_subject = ''cerbero.v1.signal.created'',
       ow_payload = sample_uuid (chain_message line)\<rparr>]\<rparr>"

lemma made_signal_persisted:
  assumes "line \<in> chain_lines"
    and "signal_key chain_repo (made_signal line) \<notin> ob_logical_key ` set (db_signals db)"
    "pg_uuid (sample_uuid (chain_id line)) \<notin> ob_id ` set (db_signals db)"
    "pg_uuid (sample_uuid (chain_id line)) \<notin> iw_signal_id ` set (db_signal_inputs db)"
    "pg_uuid (sample_uuid (chain_message line)) \<notin> ow_message_id ` set (db_outbox db)"
  shows "persist_signal chain_repo answering (sample_uuid (chain_message line)) (made_signal line) db
    = (with_signal line db, Inr (made_signal line))"
proof -
  have hex: "is_ascii_hexdigit (chain_message line)" using assms(1) by (auto simp: chain_message_def byte_class_defs)
  obtain env where env: "envelope_of signal_envelope_spec sample_tenant (Some sample_time)
      (show_nat (to_nat (made_signal line))) ''0.1.0'' ''detection-1'' (sample_uuid (chain_message line)) = Inr env"
    "en_message_id env = sample_uuid (chain_message line)"
    using sample_envelope [OF hex, of signal_envelope_spec sample_tenant "show_nat (to_nat (made_signal line))"]
    by (auto simp: signal_envelope_spec_def)
  have find: "find (\<lambda>r. ob_logical_key r = k) (rows @ [row]) = Some row"
    if "k \<notin> ob_logical_key ` set rows" "ob_logical_key row = k" for k row and rows :: "object_row list"
    using that by (induction rows) auto
  have inputs: "\<not> list_ex (\<lambda>r. iw_signal_id r = pg_uuid (sample_uuid (chain_id line)) \<and> iw_ordinal r = 0) (db_signal_inputs db)"
    using assms(4) unfolding list_ex_iff by (metis image_eqI)
  have "CHR 0x00 \<notin> set (sample_uuid (hd line))" using assms(1) by (auto intro!: sample_uuid_no_zero)
  then show ?thesis
    using env inputs assms(2,3,5) made_signal_wf(2) [OF assms(1)] signal_key_valid [OF chain_codec, of "made_signal line"] find [OF assms(2)]
    by (simp add: persist_signal_def signal_tx_def Let_def timestamp_parts_def insert_signal_def insert_object_def pg_run_def
        show_nat_nonempty signal_details_def persist_signal_input_def i32_try_from_u32_def i16_try_from_i32_def
        pg_text_def sample_uuid_no_zero insert_signal_input_def persist_outbox_def insert_outbox_def with_signal_def)
qed

section \<open>The run\<close>

abbreviation chain_plan :: "string \<Rightarrow> string \<Rightarrow> mvp_expression \<Rightarrow> (mvp_compiled_event_plan, runtime_error) result" where
  "chain_plan \<equiv> compile_event_rule chain_digest"

lemma chain_verdict:
  assumes "chain_plan rid name e = Inr c" "(rid, name, e) \<in> set event_pack" "line \<in> chain_lines"
  shows "evaluate_event_execution_plan predicates (compiled_plan c) (field_state (\<lambda>f. f) (chain_event line)) mvp_leaf_policy
    = Inr (if rid = chain_rule line then Match else NoMatch)"
proof -
  have "evaluate_event_execution_plan predicates (compiled_plan c) (field_state (\<lambda>f. f) (chain_event line)) mvp_leaf_policy
      = evaluate_event_execution_plan (\<lambda>p. p) (lower_event_predicate e) (field_state (\<lambda>f. f) (chain_event line)) mvp_leaf_policy"
    using assms(1) unfolding compile_event_rule_def map_err_eq_Inr
    by (simp add: evaluate_event_execution_plan_def mvp_compile_unique(1))
  with assms(2,3) show ?thesis
    by (auto simp: event_pack_def evaluate_event_execution_plan_def failed_login_expression_def successful_login_expression_def
        privilege_escalation_expression_def mvp_and_def mvp_eq_def mvp_leaf_policy_def mvp_evaluate_comparison_def
        chain_rule_def mvp_constants)
qed

lemma chain_event_step:
  assumes "chain_plan rid name e = Inr c" "(rid, name, e) \<in> set event_pack" "line \<in> chain_lines"
  shows "rid \<noteq> chain_rule line \<Longrightarrow> event_step chain_env login_request (chain_loaded line) (c, presentation) st = (st, Inr None)"
    "\<lbrakk>rid = chain_rule line; presentation = chain_presentation line; now_v7 chain_env n = sample_uuid (chain_id line);
      now_v7 chain_env (n + 1) = sample_uuid (chain_message line);
      persist_signal chain_repo answering (sample_uuid (chain_message line)) (made_signal line) db = (db', Inr (made_signal line))\<rbrakk>
     \<Longrightarrow> event_step chain_env login_request (chain_loaded line) (c, presentation) \<lparr>bs_db = db, bs_next = n, bs_links = []\<rparr>
       = (\<lparr>bs_db = db', bs_next = n + 2, bs_links = []\<rparr>, Inr (Some (made_signal line)))"
proof -
  have id: "validate_uuid_v7 field (sample_uuid (hd line)) = Inr ()" for field using assms(3) by auto
  have facts: "plan_rule_id (compiled_plan c) = RuleId rid" "plan_rule_version (compiled_plan c) = RULE_VERSION"
    "plan_backend (compiled_plan c) = ClickHouse"
    using assms(1) unfolding compile_event_rule_def map_err_eq_Inr by (simp_all add: mvp_compile_unique(2-4))
  note evaluate = event_step_def batch_bind_def batch_lift_def batch_return_def evaluate_normalized_event_for_signal_def
      chain_verdict [OF assms] id
  show "rid \<noteq> chain_rule line \<Longrightarrow> event_step chain_env login_request (chain_loaded line) (c, presentation) st = (st, Inr None)"
    by (simp add: evaluate)
  show "\<lbrakk>rid = chain_rule line; presentation = chain_presentation line; now_v7 chain_env n = sample_uuid (chain_id line);
      now_v7 chain_env (n + 1) = sample_uuid (chain_message line);
      persist_signal chain_repo answering (sample_uuid (chain_message line)) (made_signal line) db = (db', Inr (made_signal line))\<rbrakk>
     \<Longrightarrow> event_step chain_env login_request (chain_loaded line) (c, presentation) \<lparr>bs_db = db, bs_next = n, bs_links = []\<rparr>
       = (\<lparr>bs_db = db', bs_next = n + 2, bs_links = []\<rparr>, Inr (Some (made_signal line)))"
    using made_signal_wf(2) [OF assms(3)]
    by (simp add: evaluate facts materialize_event_signal_def validated_def fresh_id_def store_signal_def next_link_simps
        made_signal_def [symmetric] del: chain_env_fields(2))
qed

definition chain_db :: analytical_db where
  "chain_db = with_signal ''3'' (with_signal ''2'' (with_signal ''1'' empty_db))"

lemma pg_uuid_sample: "c \<in> set ''01234567'' \<Longrightarrow> pg_uuid (sample_uuid c) = sample_uuid c"
  by (auto simp: pg_uuid_def sample_uuid_def to_ascii_lowercase_def byte_class_defs)

lemma chain_pg [simp]: "pg_uuid (sample_uuid (chain_id line)) = sample_uuid (chain_id line)"
  "pg_uuid (sample_uuid (chain_message line)) = sample_uuid (chain_message line)"
  by (rule pg_uuid_sample, simp add: chain_id_def chain_message_def)+

lemma chain_keys_differ: "\<lbrakk>a \<in> chain_lines; b \<in> chain_lines; a \<noteq> b\<rbrakk> \<Longrightarrow>
    signal_key chain_repo (made_signal a) \<noteq> signal_key chain_repo (made_signal b)"
  by (simp only: made_signal_key hex_text_inject replicate_eq_replicate) auto

lemma chain_persisted:
  "persist_signal chain_repo answering (sample_uuid (chain_message ''1'')) (made_signal ''1'') empty_db
     = (with_signal ''1'' empty_db, Inr (made_signal ''1''))"
  "persist_signal chain_repo answering (sample_uuid (chain_message ''2'')) (made_signal ''2'') (with_signal ''1'' empty_db)
     = (with_signal ''2'' (with_signal ''1'' empty_db), Inr (made_signal ''2''))"
  "persist_signal chain_repo answering (sample_uuid (chain_message ''3'')) (made_signal ''3'') (with_signal ''2'' (with_signal ''1'' empty_db))
     = (chain_db, Inr (made_signal ''3''))"
proof -
  have keys: "signal_logical_key chain_digest (made_signal ''2'') \<noteq> signal_logical_key chain_digest (made_signal ''1'')"
    "signal_logical_key chain_digest (made_signal ''3'') \<noteq> signal_logical_key chain_digest (made_signal ''1'')"
    "signal_logical_key chain_digest (made_signal ''3'') \<noteq> signal_logical_key chain_digest (made_signal ''2'')"
    unfolding chain_repo_fields(6) [symmetric] by (rule chain_keys_differ; simp)+
  note facts = with_signal_def empty_db_def keys
  show "persist_signal chain_repo answering (sample_uuid (chain_message ''1'')) (made_signal ''1'') empty_db
     = (with_signal ''1'' empty_db, Inr (made_signal ''1''))"
    by (rule made_signal_persisted) (simp_all add: facts)
  show "persist_signal chain_repo answering (sample_uuid (chain_message ''2'')) (made_signal ''2'') (with_signal ''1'' empty_db)
     = (with_signal ''2'' (with_signal ''1'' empty_db), Inr (made_signal ''2''))"
    by (rule made_signal_persisted) (simp_all add: facts, simp_all add: chain_id_def chain_message_def)
  show "persist_signal chain_repo answering (sample_uuid (chain_message ''3'')) (made_signal ''3'') (with_signal ''2'' (with_signal ''1'' empty_db))
     = (chain_db, Inr (made_signal ''3''))"
    unfolding chain_db_def
    by (rule made_signal_persisted) (simp_all add: facts, simp_all add: chain_id_def chain_message_def)
qed

lemma chain_events:
  "execute_events chain_env login_request chain_batch \<lparr>bs_db = empty_db, bs_next = 0, bs_links = []\<rparr>
   = (\<lparr>bs_db = chain_db, bs_next = 6, bs_links = []\<rparr>, Inr (map made_signal [''1'', ''2'', ''3'']))"
proof -
  obtain a b c where abc: "chain_plan FAILED_LOGIN_RULE_ID ''mvp-failed-login-v1'' failed_login_expression = Inr a"
    "chain_plan SUCCESSFUL_LOGIN_RULE_ID ''mvp-successful-login-v1'' successful_login_expression = Inr b"
    "chain_plan PRIVILEGE_ESCALATION_RULE_ID ''mvp-privilege-escalation-v1'' privilege_escalation_expression = Inr c"
    using compile_event_rule_exists mvp_expression_shapes mvp_rule_ids by metis
  then have rules: "event_rules chain_env st = (st, Inr
      [(a, chain_presentation ''1''), (b, chain_presentation ''2''), (c, chain_presentation ''3'')])" for st
    by (simp add: event_rules_def Let_def batch_bind_def batch_lift_def batch_return_def chain_presentation_def)
  have pack: "(FAILED_LOGIN_RULE_ID, ''mvp-failed-login-v1'', failed_login_expression) \<in> set event_pack"
    "(SUCCESSFUL_LOGIN_RULE_ID, ''mvp-successful-login-v1'', successful_login_expression) \<in> set event_pack"
    "(PRIVILEGE_ESCALATION_RULE_ID, ''mvp-privilege-escalation-v1'', privilege_escalation_expression) \<in> set event_pack"
    by (simp_all add: event_pack_def)
  note steps = chain_event_step [OF abc(1) pack(1)] chain_event_step [OF abc(2) pack(2)] chain_event_step [OF abc(3) pack(3)]
  have ids: "now_v7 chain_env 0 = sample_uuid (chain_id ''1'')" "now_v7 chain_env (0 + 1) = sample_uuid (chain_message ''1'')"
    "now_v7 chain_env 2 = sample_uuid (chain_id ''2'')" "now_v7 chain_env (2 + 1) = sample_uuid (chain_message ''2'')"
    "now_v7 chain_env 4 = sample_uuid (chain_id ''3'')" "now_v7 chain_env (4 + 1) = sample_uuid (chain_message ''3'')"
    by (simp_all add: chain_id_def chain_message_def)
  have first: "event_step chain_env login_request (chain_loaded ''1'') (a, chain_presentation ''1'')
      \<lparr>bs_db = empty_db, bs_next = 0, bs_links = []\<rparr>
      = (\<lparr>bs_db = with_signal ''1'' empty_db, bs_next = 2, bs_links = []\<rparr>, Inr (Some (made_signal ''1'')))"
    using steps(2) [OF _ _ refl ids(1,2) chain_persisted(1)] by (simp add: chain_rule_def)
  have second: "event_step chain_env login_request (chain_loaded ''2'') (b, chain_presentation ''2'')
      \<lparr>bs_db = with_signal ''1'' empty_db, bs_next = 2, bs_links = []\<rparr>
      = (\<lparr>bs_db = with_signal ''2'' (with_signal ''1'' empty_db), bs_next = 4, bs_links = []\<rparr>, Inr (Some (made_signal ''2'')))"
    using steps(4) [OF _ _ refl ids(3,4) chain_persisted(2)] by (simp add: chain_rule_def)
  have third: "event_step chain_env login_request (chain_loaded ''3'') (c, chain_presentation ''3'')
      \<lparr>bs_db = with_signal ''2'' (with_signal ''1'' empty_db), bs_next = 4, bs_links = []\<rparr>
      = (\<lparr>bs_db = chain_db, bs_next = 6, bs_links = []\<rparr>, Inr (Some (made_signal ''3'')))"
    using steps(6) [OF _ _ refl ids(5,6) chain_persisted(3)] by (simp add: chain_rule_def)
  have quiet: "event_step chain_env login_request (chain_loaded line) (a, p) st = (st, Inr None)" if "line \<in> {''2'', ''3''}" for line p st
    using steps(1) [of line p st] that by (auto simp: chain_rule_def mvp_constants)
  have quiet_b: "event_step chain_env login_request (chain_loaded line) (b, p) st = (st, Inr None)" if "line \<in> {''1'', ''3''}" for line p st
    using steps(3) [of line p st] that by (auto simp: chain_rule_def mvp_constants)
  have quiet_c: "event_step chain_env login_request (chain_loaded line) (c, p) st = (st, Inr None)" if "line \<in> {''1'', ''2''}" for line p st
    using steps(5) [of line p st] that by (auto simp: chain_rule_def mvp_constants)
  show ?thesis
    by (simp add: execute_events_def rules batch_bind_def batch_return_def first second third quiet quiet_b quiet_c List.map_filter_simps)
qed

lemma chain_thresholds: "execute_thresholds chain_env login_request chain_batch st = (st, Inr [])"
proof -
  obtain t where t: "compile_threshold_rule (\<lambda>s. s) sample_pack chain_digest ''rule'' = Some (Inr t)"
    "ctp_threshold t = 10" "ctp_group_by t = [''user.name'', ''src_endpoint.ip'']" "tw_duration_millis (ctp_window t) = 300000"
    "predicates (compiled_plan (ctp_filter t)) = lower_event_predicate failed_login_expression"
    using compile_threshold_rule_ok by blast
  have "threshold_candidate (\<lambda>f. f) t mvp_policy (chain_event line) = Inr None" for line
    by (simp add: threshold_candidate_def t evaluate_event_execution_plan_def failed_login_expression_def mvp_and_def
        mvp_eq_def mvp_policy_def mvp_leaf_policy_def mvp_evaluate_comparison_def event_string_field_def)
  then have "evaluate_threshold_normalized_events (\<lambda>f. f) t (map be_event chain_batch) Test sample_time mvp_policy = Inr []"
    by (simp add: evaluate_threshold_normalized_events_def t usize_try_from_def i64_try_from_def checked_i64_def
        fits_i64_def List.map_filter_simps)
  then show ?thesis
    by (simp add: execute_thresholds_def chain_env_def t batch_bind_def batch_lift_def batch_return_def)
qed

section \<open>The Finding\<close>

definition chain_owner :: "string \<rightharpoonup> string" where
  "chain_owner = [sample_uuid CHR ''1'' \<mapsto> ''root'', sample_uuid CHR ''2'' \<mapsto> ''root'', sample_uuid CHR ''3'' \<mapsto> ''root'']"

lemma chain_owner_new: "mvp_sequence_policy_new chain_batch = Inr chain_owner"
  by (simp add: mvp_sequence_policy_new_def sequence_user_step_def event_string_field_def chain_owner_def)

definition made_match :: sequence_correlation_match where
  "made_match = \<lparr>scm_correlation_rule_id = ACCOUNT_COMPROMISE_RULE_ID,
     scm_correlation_rule_version = CORRELATION_RULE_VERSION,
     scm_tenant_id = sample_tenant, scm_window_start = timestamp_from_millis 10000,
     scm_window_end = timestamp_from_millis 90000,
     scm_input_signal_ids = map (\<lambda>line. sample_uuid (chain_id line)) [''1'', ''2'', ''3''],
     scm_execution_backend = ClickHouse, scm_execution_mode = Test,
     scm_configuration_hash = sha256_lower_hex chain_digest ''mvp-account-compromise-sequence-v1''\<rparr>"

lemma made_policy:
  assumes "line \<in> chain_lines"
  shows "sequence_group_key (mvp_sequence_policy chain_owner) [''user.name''] (made_signal line) = Inr (Some ''root'')"
    "sequence_time_millis (mvp_sequence_policy chain_owner) (made_signal line) = Inr (Some (chain_seconds line * 1000))"
    "sequence_order_key (mvp_sequence_policy chain_owner) Observed (made_signal line)
       = Inr (Some (chain_seconds line * 1000, sample_uuid (chain_id line)))"
  using assms by (auto simp: mvp_sequence_policy_def mvp_sequence_group_key_def mvp_sequence_time_millis_def
      mvp_sequence_order_key_def chain_timestamp_millis chain_owner_def SIGNAL_INPUT_NORMALIZED_EVENT_def)

lemma chain_values:
  "chain_id ''1'' = CHR ''0''" "chain_id ''2'' = CHR ''2''" "chain_id ''3'' = CHR ''4''"
  "chain_seconds ''1'' = 10" "chain_seconds ''2'' = 50" "chain_seconds ''3'' = 90"
  "chain_rule ''1'' = FAILED_LOGIN_RULE_ID" "chain_rule ''2'' = SUCCESSFUL_LOGIN_RULE_ID" "chain_rule ''3'' = PRIVILEGE_ESCALATION_RULE_ID"
  by (simp_all add: chain_id_def chain_seconds_def chain_rule_def)

lemma made_eval:
  "evaluate_sequence_signals (account_compromise_plan chain_digest) (map made_signal [''1'', ''2'', ''3'']) Test
     (mvp_sequence_policy chain_owner) = Inr [made_match]"
proof -
  have stage: "stage_matches (mvp_sequence_policy chain_owner) st s = Inr (sg_rule_id s = st)" for st s
    by (simp add: mvp_sequence_policy_def)
  have rules: "FAILED_LOGIN_RULE_ID \<noteq> SUCCESSFUL_LOGIN_RULE_ID" "FAILED_LOGIN_RULE_ID \<noteq> PRIVILEGE_ESCALATION_RULE_ID"
    "SUCCESSFUL_LOGIN_RULE_ID \<noteq> PRIVILEGE_ESCALATION_RULE_ID"
    by (simp_all add: mvp_constants)
  show ?thesis
    by (simp add: account_compromise_plan_def made_match_def rules rules [symmetric] chain_values stage made_signal_wf made_policy
      evaluate_sequence_signals_def validate_unique_signals_def unique_signal_step_def
      validate_execution_mode_def btree_get_def collect_sequence_candidates_def sequence_collect_step_def
      sequence_candidate_of_def btree_push_def sequence_sorted_match_def select_sequence_def sequence_order_def
      i64_try_from_def checked_i64_def fits_i64_def validate_timestamp_def proto_timestamp_defs
      timestamp_from_millis_def List.map_filter_simps upt_rec)
qed

definition made_finding :: finding where
  "made_finding = correlation_finding_of made_match
     \<lparr>cfc_finding_id = sample_uuid CHR ''6'', cfc_severity = ''HIGH'', cfc_confidence = Some ''MEDIUM'',
      cfc_title = ''Account compromise sequence'',
      cfc_description = ''Failed login followed by successful login and privilege escalation'',
      cfc_input_relation = ''SEQUENCE_INPUT'', cfc_created_at = sample_time\<rparr>"

lemma finding_texts: "has_text ''Account compromise sequence''" "has_text ''SEQUENCE_INPUT''"
  "has_text ''Failed login followed by successful login and privilege escalation''" "has_text ''MEDIUM''"
  by (rule has_text_solid [of "CHR ''A''"] has_text_solid [of "CHR ''S''"] has_text_solid [of "CHR ''F''"]
      has_text_solid [of "CHR ''M''"]; simp add: solid_def byte_def; fail)+

lemma made_plan: "compile_sequence_rule chain_digest = Inr (account_compromise_plan chain_digest)"
  unfolding account_compromise_plan_def by (rule compile_sequence_rule_ok) (simp add: chain_digest_def)

lemma made_finding_wf: "wf_finding made_finding"
proof -
  have "csp_stages (account_compromise_plan chain_digest) \<noteq> []" "has_text (csp_correlation_rule_id (account_compromise_plan chain_digest))"
    "has_text (csp_correlation_rule_version (account_compromise_plan chain_digest))"
    "has_text (csp_configuration_hash (account_compromise_plan chain_digest))"
    using made_plan by (auto simp: compile_sequence_rule_def compile_sequence_correlation_plan_def account_compromise_plan_def result_simps)
  from sequence_match_wf [OF made_eval _ this] have "wf_sequence_match made_match" by simp
  then show ?thesis
    unfolding made_finding_def
    by (rule correlation_finding_of_wf) (simp add: wf_correlation_context_def finding_texts sample_texts sample_uuid_ok sample_time_ok)
qed

lemma made_finding_valid: "validate_finding made_finding = Inr ()"
  using made_finding_wf by (simp add: validate_finding_ok)

lemma made_finding_persisted:
  "\<exists>db. persist_finding chain_repo answering (sample_uuid CHR ''7'') made_finding chain_db = (db, Inr made_finding)"
proof -
  obtain env where env: "envelope_of finding_envelope_spec sample_tenant (Some sample_time)
      (show_nat (to_nat made_finding)) ''0.1.0'' ''detection-1'' (sample_uuid CHR ''7'') = Inr env"
    "en_message_id env = sample_uuid CHR ''7''"
    using sample_envelope [of "CHR ''7''" finding_envelope_spec sample_tenant "show_nat (to_nat made_finding)"]
    by (auto simp: finding_envelope_spec_def byte_class_defs)
  have made: "fd_tenant_id made_finding = sample_tenant" "fd_created_at made_finding = Some sample_time"
    "fd_finding_id made_finding = sample_uuid CHR ''6''"
    "fd_inputs made_finding = map (\<lambda>c. \<lparr>fi_finding_id = sample_uuid CHR ''6'', fi_input_type = SIGNAL_INPUT_TYPE,
       fi_input_id = sample_uuid c, fi_relation = ''SEQUENCE_INPUT''\<rparr>) [CHR ''0'', CHR ''2'', CHR ''4'']"
    by (simp_all add: made_finding_def correlation_finding_of_def made_match_def chain_values)
  obtain p where p: "fd_correlation_provenance made_finding = Some p"
    and parts: "cp_correlation_rule_id p = ACCOUNT_COMPROMISE_RULE_ID" "cp_correlation_rule_version p = CORRELATION_RULE_VERSION"
      "cp_configuration_hash p = sha256_lower_hex chain_digest ''mvp-account-compromise-sequence-v1''"
    by (simp add: made_finding_def correlation_finding_of_def made_match_def)
  have hash: "sha256_lower_hex chain_digest ''mvp-account-compromise-sequence-v1'' = concat (map hex_byte (replicate 32 CHR ''0''))"
    by (simp only: sha256_lower_hex_def chain_digest_def) simp
  have key: "valid_sha256_text (sha256_lower_hex chain_digest (finding_key_text made_finding p))"
    by (rule valid_sha256_text_lower_hex) (simp add: chain_digest_def)
  have clean: "hex_byte CHR ''0'' \<noteq> []" "CHR 0x00 \<notin> set (hex_byte CHR ''0'')" by code_simp+
  have outbox: "db_outbox chain_db = map (\<lambda>c. \<lparr>ow_message_id = sample_uuid c, ow_subject = ''cerbero.v1.signal.created'',
       ow_payload = sample_uuid c\<rparr>) [CHR ''1'', CHR ''3'', CHR ''5'']"
    by (simp add: chain_db_def with_signal_def empty_db_def chain_message_def pg_uuid_sample)
  have others: "db_findings chain_db = []" "db_finding_inputs chain_db = []" "db_provenance chain_db = []"
    by (simp_all add: chain_db_def with_signal_def empty_db_def)
  show ?thesis
    using env made_finding_valid made p key
    by (simp add: persist_finding_def finding_tx_def finding_logical_key_def Let_def timestamp_parts_def insert_finding_def
        insert_object_def pg_run_def show_nat_nonempty finding_details_def persist_finding_input_def persist_provenance_def parts hash clean
        pg_text_def sample_uuid_no_zero insert_finding_input_def insert_provenance_def persist_outbox_def insert_outbox_def
        outbox others SIGNAL_INPUT_TYPE_def mvp_constants pg_uuid_sample)
qed

lemma chain_sequences:
  obtains db where "execute_sequences chain_env login_request chain_batch (map made_signal [''1'', ''2'', ''3''])
      \<lparr>bs_db = chain_db, bs_next = 6, bs_links = []\<rparr> = (\<lparr>bs_db = db, bs_next = 8, bs_links = []\<rparr>, Inr [made_finding])"
proof -
  obtain db where db: "persist_finding chain_repo answering (sample_uuid CHR ''7'') made_finding chain_db = (db, Inr made_finding)"
    using made_finding_persisted by blast
  have valid: "validated validate_finding made_finding = Inr made_finding"
    by (simp add: validated_def made_finding_valid)
  have "finding_step chain_env login_request made_match \<lparr>bs_db = chain_db, bs_next = 6, bs_links = []\<rparr>
      = (\<lparr>bs_db = db, bs_next = 8, bs_links = []\<rparr>, Inr made_finding)"
    using db valid by (simp add: finding_step_def batch_bind_def batch_lift_def fresh_id_def store_finding_def next_link_simps
        materialize_sequence_correlation_finding_def made_finding_def [symmetric])
  then have "execute_sequences chain_env login_request chain_batch (map made_signal [''1'', ''2'', ''3''])
      \<lparr>bs_db = chain_db, bs_next = 6, bs_links = []\<rparr> = (\<lparr>bs_db = db, bs_next = 8, bs_links = []\<rparr>, Inr [made_finding])"
    using made_eval chain_owner_new
    by (simp add: execute_sequences_def made_plan batch_bind_def batch_lift_def batch_return_def)
  then show thesis by (rule that)
qed

definition chain_result :: mvp_batch_result where
  "chain_result = \<lparr>events_loaded = 3, result_signals = map made_signal [''1'', ''2'', ''3''], result_findings = [made_finding]\<rparr>"

lemma sample_uuid_le: "sample_uuid a \<le> sample_uuid b \<longleftrightarrow> a \<le> b"
  by (auto simp: sample_uuid_def le_less)

lemma chain_run:
  obtains db where "execute chain_env login_request \<lparr>bs_db = empty_db, bs_next = 0, bs_links = []\<rparr>
    = (\<lparr>bs_db = db, bs_next = 8, bs_links = []\<rparr>, Inr chain_result)"
proof -
  obtain db where "execute_sequences chain_env login_request chain_batch (map made_signal [''1'', ''2'', ''3''])
      \<lparr>bs_db = chain_db, bs_next = 6, bs_links = []\<rparr> = (\<lparr>bs_db = db, bs_next = 8, bs_links = []\<rparr>, Inr [made_finding])"
    by (rule chain_sequences)
  then show thesis
    using chain_load chain_events chain_thresholds
    by (intro that [of db]) (simp add: execute_def batch_bind_def batch_lift_def batch_return_def login_validated chain_result_def
        chain_values sample_uuid_le)
qed

text \<open>The Finding of the run stands on a chain of its three Signals.\<close>

theorem execute_findings_exact_witness:
  "\<exists>signals tenant user a b c. mset signals \<subseteq># mset (map made_signal [''1'', ''2'', ''3''])
     \<and> map (signal_key chain_repo) signals = event_keys chain_env login_request chain_batch
     \<and> compromise_chain (event_users chain_batch) signals tenant user a b c
     \<and> finding_key chain_repo made_finding = sha256_lower_hex chain_digest
         (finding_identity chain_digest login_request tenant [sg_signal_id a, sg_signal_id b, sg_signal_id c])"
proof -
  obtain db where run: "execute chain_env login_request \<lparr>bs_db = empty_db, bs_next = 0, bs_links = []\<rparr>
      = (\<lparr>bs_db = db, bs_next = 8, bs_links = []\<rparr>, Inr chain_result)"
    by (rule chain_run)
  have "codec_ok (env_repository chain_env)"
    "reachable_db (env_repository chain_env) (bs_db \<lparr>bs_db = empty_db, bs_next = 0, bs_links = []\<rparr>)"
    by (simp_all add: chain_codec reachable_db.initial)
  from execute_findings_exact [OF chain_identities this run] show ?thesis
    unfolding chain_load by (auto simp: chain_result_def simp del: list.map) blast
qed

end
