(* ===== verification/Repository_Keys.thy ===== *)
theory Repository_Keys
  imports Repository_Correctness
begin

text \<open>
  When two Signals share a logical key (\<open>signal_logical_key\<close> in \<open>lib.rs\<close> of
  cerbero-detection-runtime): the text under the hash determines what was evaluated if the free texts
  in it do not contain its separators, and two different evaluations can share it otherwise.
\<close>

section \<open>Joining is injective without separators\<close>

lemma split_on_plain: "sep \<notin> set p \<Longrightarrow> split_on sep p = [p]"
  by (induction p) auto

lemma split_on_append: "sep \<notin> set p \<Longrightarrow> split_on sep (p @ sep # s) = p # split_on sep s"
  by (induction p) auto

lemma split_join: "ps \<noteq> [] \<Longrightarrow> \<forall>p\<in>set ps. sep \<notin> set p \<Longrightarrow> split_on sep (join_with sep ps) = ps"
  by (induction sep ps rule: join_with.induct) (auto simp: split_on_plain split_on_append)

lemma join_inject:
  assumes "join_with sep ps = join_with sep qs" "ps \<noteq> []" "qs \<noteq> []"
    "\<forall>p\<in>set ps. sep \<notin> set p" "\<forall>q\<in>set qs. sep \<notin> set q"
  shows "ps = qs"
  using split_join [OF assms(2,4)] split_join [OF assms(3,5)] assms(1) by metis

lemma join_with_Cons: "ps \<noteq> [] \<Longrightarrow> join_with sep (p # ps) = p @ sep # join_with sep ps"
  by (cases ps) simp_all

lemma join_with_append: "ps \<noteq> [] \<Longrightarrow> join_with sep (ps @ qs) = join_with sep ps @ concat (map (\<lambda>q. sep # q) qs)"
proof (induction ps)
  case (Cons p ps)
  show ?case
  proof (cases "ps = []")
    case True
    then show ?thesis by (induction qs arbitrary: p) (simp_all add: join_with_Cons)
  next
    case False
    then show ?thesis using Cons by (simp add: join_with_Cons)
  qed
qed simp

lemma show_nat_inject: "show_nat a = show_nat b \<longleftrightarrow> a = b"
  using digits_value_show_nat [of a] digits_value_show_nat [of b] by metis

lemma show_nat_plain: "\<not> is_ascii_digit c \<Longrightarrow> c \<notin> set (show_nat n)"
  using show_nat_digits by blast

lemma show_int_inject: "show_int a = show_int b \<longleftrightarrow> a = b"
proof -
  have "CHR ''-'' \<notin> set (show_nat n)" for n by (rule show_nat_plain) (simp add: byte_class_defs)
  then have "show_nat n \<noteq> CHR ''-'' # s" for n s by (metis list.set_intros(1))
  then show ?thesis by (auto simp: show_int_def show_nat_inject) metis+
qed

lemma show_int_plain: "\<not> is_ascii_digit c \<Longrightarrow> c \<noteq> CHR ''-'' \<Longrightarrow> c \<notin> set (show_int i)"
  by (simp add: show_int_def show_nat_plain)

section \<open>The key text\<close>

definition input_parts :: "signal_input \<Rightarrow> string list" where
  "input_parts x = [show_nat (unat (si_ordinal x)), show_int (si_input_type x), si_input_id x, si_relation x]"

definition key_parts :: "signal \<Rightarrow> string list" where
  "key_parts s = [sg_tenant_id s, sg_rule_id s, sg_rule_version s, show_int (sg_rule_type s), show_int (sg_execution_mode s)]
     @ map (\<lambda>x. join_with CHR '':'' (input_parts x)) (sg_inputs s)"

lemma signal_key_text_parts: "signal_key_text s = join_with CHR ''|'' (key_parts s)"
  unfolding key_parts_def
  by (subst join_with_append) (simp_all add: signal_key_text_def signal_key_input_def [abs_def] input_parts_def comp_def)

lemma uuid_plain:
  assumes "uuid_v7 s" "\<not> is_ascii_hexdigit c" "c \<noteq> CHR ''-''"
  shows "c \<notin> set s"
proof
  assume "c \<in> set s"
  then obtain i where i: "i < 36" "s ! i = c" using assms(1) by (auto simp: in_set_conv_nth uuid_v7_def)
  then have "if i \<in> {8, 13, 18, 23} then s ! i = CHR ''-'' else is_ascii_hexdigit (s ! i)"
    using assms(1) unfolding uuid_v7_def by blast
  then show False using i assms(2,3) by (auto split: if_splits)
qed

lemma separators:
  "\<not> is_ascii_digit CHR ''|''" "\<not> is_ascii_digit CHR '':''" "\<not> is_ascii_hexdigit CHR ''|''" "\<not> is_ascii_hexdigit CHR '':''"
  by (simp_all add: byte_class_defs)

lemmas separator_free = show_nat_plain [OF separators(1)] show_nat_plain [OF separators(2)]
  show_int_plain [OF separators(1)] show_int_plain [OF separators(2)]
  uuid_plain [OF _ separators(3)] uuid_plain [OF _ separators(4)]

lemma rule_id_plain: "detection_rule_id s \<Longrightarrow> CHR ''|'' \<notin> set s"
  using separators(1) by (auto simp: detection_rule_id_def)

text \<open>The free texts of a Signal that its key contains.\<close>

definition plain_texts :: "signal \<Rightarrow> bool" where
  "plain_texts s \<longleftrightarrow> CHR ''|'' \<notin> set (sg_rule_version s)
     \<and> (\<forall>x\<in>set (sg_inputs s). CHR ''|'' \<notin> set (si_relation x) \<and> CHR '':'' \<notin> set (si_relation x))"

lemma wf_signal_input_ids: "wf_signal s \<Longrightarrow> x \<in> set (sg_inputs s) \<Longrightarrow> uuid_v7 (si_input_id x)"
  by (auto simp: wf_signal_def wf_signal_inputs_def wf_signal_input_def in_set_conv_nth)

lemma input_parts_plain:
  assumes "wf_signal s" "plain_texts s" "x \<in> set (sg_inputs s)" "c \<in> {CHR ''|'', CHR '':''}"
  shows "\<forall>p\<in>set (input_parts x). c \<notin> set p"
  using assms wf_signal_input_ids [OF assms(1,3)]
  by (auto simp: input_parts_def plain_texts_def separator_free)

lemma set_join_with: "set (join_with sep ps) \<subseteq> insert sep (\<Union>p\<in>set ps. set p)"
  by (induction sep ps rule: join_with.induct) auto

lemma key_parts_plain:
  assumes "wf_signal s" "plain_texts s"
  shows "\<forall>p\<in>set (key_parts s). CHR ''|'' \<notin> set p"
proof -
  have "CHR ''|'' \<notin> set (join_with CHR '':'' (input_parts x))" if "x \<in> set (sg_inputs s)" for x
    using input_parts_plain [OF assms that, of "CHR ''|''"] set_join_with [of "CHR '':''" "input_parts x"] by auto
  moreover have "CHR ''|'' \<notin> set (sg_tenant_id s)" "CHR ''|'' \<notin> set (sg_rule_id s)"
    using assms(1) rule_id_plain by (auto simp: wf_signal_def separator_free)
  ultimately show ?thesis
    using assms(2) by (auto simp: key_parts_def plain_texts_def separator_free)
qed

definition input_identity :: "signal_input \<Rightarrow> nat \<times> int \<times> string \<times> string" where
  "input_identity x = (unat (si_ordinal x), si_input_type x, si_input_id x, si_relation x)"

text \<open>Without separators in the rule version and the relations the key text determines the
  evaluation: equal texts mean the same tenant, rule, version, type and mode and the same inputs in
  the same order, so different evaluations get different keys up to collisions of SHA-256.\<close>

theorem signal_key_text_determines:
  assumes "wf_signal s" "wf_signal s'" "plain_texts s" "plain_texts s'" "signal_key_text s = signal_key_text s'"
  shows "sg_tenant_id s = sg_tenant_id s' \<and> sg_rule_id s = sg_rule_id s' \<and> sg_rule_version s = sg_rule_version s'
    \<and> sg_rule_type s = sg_rule_type s' \<and> sg_execution_mode s = sg_execution_mode s'
    \<and> map input_identity (sg_inputs s) = map input_identity (sg_inputs s')"
proof -
  have parts: "key_parts s = key_parts s'"
    using assms(5) key_parts_plain [OF assms(1,3)] key_parts_plain [OF assms(2,4)]
    unfolding signal_key_text_parts by (intro join_inject) (auto simp: key_parts_def)
  have "input_identity x = input_identity y"
    if "x \<in> set (sg_inputs s)" "y \<in> set (sg_inputs s')" "join_with CHR '':'' (input_parts x) = join_with CHR '':'' (input_parts y)"
    for x y
  proof -
    have "input_parts x = input_parts y"
      using that(3) input_parts_plain [OF assms(1,3) that(1), of "CHR '':''"]
        input_parts_plain [OF assms(2,4) that(2), of "CHR '':''"]
      by (intro join_inject) (auto simp: input_parts_def)
    then show ?thesis by (simp add: input_parts_def input_identity_def show_nat_inject show_int_inject)
  qed
  moreover have "map (\<lambda>x. join_with CHR '':'' (input_parts x)) (sg_inputs s)
      = map (\<lambda>x. join_with CHR '':'' (input_parts x)) (sg_inputs s')" using parts by (simp add: key_parts_def)
  ultimately have "map input_identity (sg_inputs s) = map input_identity (sg_inputs s')"
    by (auto simp: list_eq_iff_nth_eq in_set_conv_nth) (metis nth_mem)
  then show ?thesis using parts by (simp add: key_parts_def show_int_inject)
qed

theorem signal_key_text_determines_witness:
  "signal_key_text (sample_signal CHR ''1'' ''LOW'' 10) = signal_key_text (sample_signal CHR ''2'' ''HIGH'' 90)
   \<and> map input_identity (sg_inputs (sample_signal CHR ''1'' ''LOW'' 10))
      = map input_identity (sg_inputs (sample_signal CHR ''2'' ''HIGH'' 90))"
proof -
  have eq: "signal_key_text (sample_signal CHR ''1'' ''LOW'' 10) = signal_key_text (sample_signal CHR ''2'' ''HIGH'' 90)"
    by (simp add: signal_key_text_def signal_key_input_def sample_signal_def event_signal_of_def)
  have plain: "plain_texts (sample_signal c sev t)" for c sev t
    by (simp add: plain_texts_def sample_signal_def event_signal_of_def)
  show ?thesis
    using signal_key_text_determines [OF _ _ plain plain eq] sample_signals_valid eq
    by (simp add: validate_signal_ok)
qed

section \<open>A collision\<close>

text \<open>Two THRESHOLD Signals: one over two events, one over a single event whose relation text spells out
  the second input.\<close>

definition burst_input :: "string \<Rightarrow> 32 word \<Rightarrow> char \<Rightarrow> string \<Rightarrow> signal_input" where
  "burst_input sid ordinal c relation = \<lparr>si_signal_id = sid, si_input_type = 1, si_input_id = sample_uuid c,
     si_relation = relation, si_ordinal = ordinal\<rparr>"

definition burst_signal :: "char \<Rightarrow> 64 word \<Rightarrow> signal_input list \<Rightarrow> signal" where
  "burst_signal c events inputs = (sample_signal c ''LOW'' 10)\<lparr>sg_rule_type := 2, sg_event_count := events,
     sg_inputs := inputs\<rparr>"

definition pair_signal :: signal where
  "pair_signal = burst_signal CHR ''1'' 2 [burst_input (sample_uuid CHR ''1'') 0 CHR ''3'' ''HIT'',
     burst_input (sample_uuid CHR ''1'') 1 CHR ''4'' ''HIT'']"

definition single_signal :: signal where
  "single_signal = burst_signal CHR ''2'' 1
     [burst_input (sample_uuid CHR ''2'') 0 CHR ''3'' (''HIT|1:1:'' @ sample_uuid CHR ''4'' @ '':HIT'')]"

lemma burst_signal_wf:
  assumes "is_ascii_hexdigit c" "wf_signal_inputs (sample_uuid c) inputs" "events \<noteq> 0"
    "normalized_inputs inputs = unat events" "1 \<le> events"
  shows "wf_signal (burst_signal c events inputs)"
proof -
  have "wf_signal (sample_signal c ''LOW'' 10)" using assms(1) by (intro sample_signal_wf) (simp_all add: sample_texts)
  then show ?thesis
    using assms(2-) by (simp add: wf_signal_def wf_signal_counts_def burst_signal_def)
      (simp add: sample_signal_def event_signal_of_def)
qed

lemma hit_texts: "has_text ''HIT''" "has_text (''HIT'' @ s)"
  by (rule has_text_solid [of "CHR ''H''"]; simp add: solid_def byte_def)+

text \<open>C33: the logical key does not separate evaluations when a relation contains its separators: there are
  two valid Signals over different inputs with the same key text, so persisting the second returns
  the first.\<close>

theorem signal_key_collision:
  "wf_signal pair_signal \<and> wf_signal single_signal \<and> signal_key_text pair_signal = signal_key_text single_signal
   \<and> length (sg_inputs pair_signal) \<noteq> length (sg_inputs single_signal)"
proof (intro conjI)
  have uuids: "uuid_v7 (sample_uuid CHR ''3'')" "uuid_v7 (sample_uuid CHR ''4'')"
    by (rule sample_uuid_hex, simp add: byte_class_defs)+
  show "wf_signal pair_signal"
    unfolding pair_signal_def using uuids
    by (intro burst_signal_wf) (simp_all add: wf_signal_inputs_def wf_signal_input_def burst_input_def hit_texts
        normalized_inputs_def less_Suc_eq all_conj_distrib imp_disjL byte_class_defs)
  show "wf_signal single_signal"
    unfolding single_signal_def using uuids hit_texts(2) [of "''|1:1:'' @ sample_uuid CHR ''4'' @ '':HIT''"]
    by (intro burst_signal_wf) (simp_all add: wf_signal_inputs_def wf_signal_input_def burst_input_def
        normalized_inputs_def byte_class_defs)
  have "show_nat 0 = ''0''" "show_nat (Suc 0) = ''1''" "show_int 1 = ''1''"
    by (simp_all add: show_nat.simps show_int_def digit_char_def) code_simp+
  then show "signal_key_text pair_signal = signal_key_text single_signal"
    by (simp add: signal_key_text_def pair_signal_def single_signal_def burst_signal_def burst_input_def
        signal_key_input_def sample_signal_def event_signal_of_def)
  show "length (sg_inputs pair_signal) \<noteq> length (sg_inputs single_signal)"
    by (simp add: pair_signal_def single_signal_def burst_signal_def)
qed

end
