(* ===== verification/Metrics.thy ===== *)
theory Metrics
  imports Rust_Std "HOL-Library.Multiset"
begin

text \<open>
  The metrics of the normalizer (\<open>metrics.rs\<close>). The fourteen atomic counters of
  \<open>MemoryNormalizerMetrics\<close> are a function of their names, the maps behind a mutex partial functions. A call
  is the list of its atomic updates: other threads may run between any two of them.
\<close>

section \<open>Counters\<close>

datatype parse_metric = MetricParseSuccess | MetricParsePartial | MetricParseFailed | MetricParseUnsupported

datatype normalization_metric = MetricNormalizationSuccess | MetricNormalizationPartial | MetricNormalizationFailed

datatype metric_counter =
    EventsParsedTotal | EventsNormalizedTotal | ParseSuccessTotal | ParsePartialTotal | ParseFailedTotal | ParseUnsupportedTotal
  | NormalizationSuccessTotal | NormalizationPartialTotal | NormalizationFailedTotal
  | ParserLatencyObservations | ParserLatencyTotalNanoseconds
  | NormalizationLatencyObservations | NormalizationLatencyTotalNanoseconds | DlqNormalizationTotal

record memory_metrics =
  mm_counters :: "metric_counter \<Rightarrow> 64 word"
  mm_parser_by_id :: "string \<Rightarrow> 64 word option"
  mm_mapping_by_id :: "string \<Rightarrow> 64 word option"

definition metrics_default :: memory_metrics where
  "metrics_default = \<lparr>mm_counters = (\<lambda>_. 0), mm_parser_by_id = Map.empty, mm_mapping_by_id = Map.empty\<rparr>"

definition saturating_add :: "64 word \<Rightarrow> 64 word \<Rightarrow> 64 word" where
  "saturating_add a b = (if unat a + unat b < 2 ^ 64 then a + b else - 1)"

text \<open>A \<open>Duration\<close> is its number of nanoseconds.\<close>

definition duration_nanoseconds :: "nat \<Rightarrow> 64 word" where
  "duration_nanoseconds nanos = (if nanos < 2 ^ 64 then of_nat nanos else - 1)"

section \<open>Updates\<close>

datatype metric_update =
    Increment metric_counter "64 word"
  | CountParser string
  | CountMapping string

definition saturating_increment :: "metric_counter \<Rightarrow> 64 word \<Rightarrow> memory_metrics \<Rightarrow> memory_metrics" where
  "saturating_increment c v m = m\<lparr>mm_counters := (mm_counters m)(c := saturating_add (mm_counters m c) v)\<rparr>"

definition increment_map :: "string \<Rightarrow> (string \<Rightarrow> 64 word option) \<Rightarrow> (string \<Rightarrow> 64 word option)" where
  "increment_map key values =
    (let entry = (case values key of None \<Rightarrow> 0 | Some v \<Rightarrow> v) in values(key \<mapsto> saturating_add entry 1))"

fun update :: "metric_update \<Rightarrow> memory_metrics \<Rightarrow> memory_metrics" where
  "update (Increment c v) m = saturating_increment c v m"
| "update (CountParser key) m = m\<lparr>mm_parser_by_id := increment_map key (mm_parser_by_id m)\<rparr>"
| "update (CountMapping key) m = m\<lparr>mm_mapping_by_id := increment_map key (mm_mapping_by_id m)\<rparr>"

definition record_parse :: "parse_metric \<Rightarrow> string option \<Rightarrow> nat \<Rightarrow> metric_update list" where
  "record_parse status parser_id latency =
    [Increment EventsParsedTotal 1, Increment ParserLatencyObservations 1,
     Increment ParserLatencyTotalNanoseconds (duration_nanoseconds latency),
     Increment (case status of MetricParseSuccess \<Rightarrow> ParseSuccessTotal | MetricParsePartial \<Rightarrow> ParsePartialTotal
       | MetricParseFailed \<Rightarrow> ParseFailedTotal | MetricParseUnsupported \<Rightarrow> ParseUnsupportedTotal) 1]
    @ (case parser_id of None \<Rightarrow> [] | Some key \<Rightarrow> [CountParser key])"

definition record_normalization :: "normalization_metric \<Rightarrow> string option \<Rightarrow> nat \<Rightarrow> metric_update list" where
  "record_normalization status mapping_id latency =
    [Increment NormalizationLatencyObservations 1,
     Increment NormalizationLatencyTotalNanoseconds (duration_nanoseconds latency)]
    @ (case status of
        MetricNormalizationSuccess \<Rightarrow> [Increment EventsNormalizedTotal 1, Increment NormalizationSuccessTotal 1]
      | MetricNormalizationPartial \<Rightarrow> [Increment EventsNormalizedTotal 1, Increment NormalizationPartialTotal 1]
      | MetricNormalizationFailed \<Rightarrow> [Increment NormalizationFailedTotal 1])
    @ (case mapping_id of None \<Rightarrow> [] | Some key \<Rightarrow> [CountMapping key])"

definition record_dlq :: "metric_update list" where
  "record_dlq = [Increment DlqNormalizationTotal 1]"

text \<open>The calls of a process, and a run of their updates in some order.\<close>

datatype metric_call =
    ParseCall parse_metric "string option" nat
  | NormalizationCall normalization_metric "string option" nat
  | DlqCall

fun call_updates :: "metric_call \<Rightarrow> metric_update list" where
  "call_updates (ParseCall status parser_id latency) = record_parse status parser_id latency"
| "call_updates (NormalizationCall status mapping_id latency) = record_normalization status mapping_id latency"
| "call_updates DlqCall = record_dlq"

definition run_updates :: "metric_update list \<Rightarrow> memory_metrics \<Rightarrow> memory_metrics" where
  "run_updates us m = fold update us m"

section \<open>The value of a counter\<close>

fun amount :: "metric_counter \<Rightarrow> metric_update \<Rightarrow> nat" where
  "amount c (Increment c' v) = (if c' = c then unat v else 0)"
| "amount c _ = 0"

lemma unat_saturating_add: "unat (saturating_add a b) = min (unat a + unat b) (2 ^ 64 - 1)"
proof (cases "unat a + unat b < 2 ^ 64")
  case True
  then show ?thesis by (simp add: saturating_add_def unat_word_ariths)
next
  case False
  moreover have "unat (- 1 :: 64 word) = 2 ^ 64 - 1" by (simp add: unsigned_minus_1_eq_mask mask_eq_exp_minus_1)
  ultimately show ?thesis by (simp add: saturating_add_def)
qed

lemma update_counter: "unat (mm_counters (update u m) c) = min (unat (mm_counters m c) + amount c u) (2 ^ 64 - 1)"
proof (cases u)
  case (Increment c' v)
  have "unat (mm_counters m c) \<le> 2 ^ 64 - 1" using unat_bound_u64 [of "mm_counters m c"] by simp
  then show ?thesis by (simp add: Increment saturating_increment_def unat_saturating_add)
qed (use unat_bound_u64 [of "mm_counters m c"] in \<open>simp_all add: min_def\<close>)

text \<open>A counter holds the saturated sum of its increments, in whatever order they happened.\<close>

lemma run_counter: "unat (mm_counters (run_updates us m) c) = min (unat (mm_counters m c) + sum_list (map (amount c) us)) (2 ^ 64 - 1)"
proof (induction us arbitrary: m)
  case Nil
  then show ?case using unat_bound_u64 [of "mm_counters m c"] by (simp add: run_updates_def min_def)
next
  case (Cons u us)
  have "unat (mm_counters (run_updates (u # us) m) c)
      = min (unat (mm_counters (update u m) c) + sum_list (map (amount c) us)) (2 ^ 64 - 1)"
    using Cons by (simp add: run_updates_def)
  then show ?case by (simp add: update_counter min_def)
qed

lemma sum_calls: "sum_list (map (amount c) (concat (map call_updates calls)))
    = sum_list (map (\<lambda>call. sum_list (map (amount c) (call_updates call))) calls)"
  by (induction calls) simp_all

lemma interleaved_sum:
  assumes "mset us = mset (concat (map call_updates calls))"
  shows "sum_list (map (amount c) us) = sum_list (map (\<lambda>call. sum_list (map (amount c) (call_updates call))) calls)"
proof -
  have "sum_list (map (amount c) us) = sum_list (map (amount c) (concat (map call_updates calls)))"
    using assms by (metis mset_map sum_mset_sum_list)
  then show ?thesis by (simp add: sum_calls)
qed

end
