(* ===== verification/Metrics_Correctness.thy ===== *)
theory Metrics_Correctness
  imports Metrics Normalized_Store
begin

text \<open>
  What the core records (the metric calls of \<open>normalize\<close> in \<open>core.rs\<close>) and that the counters balance,
  however the updates of concurrent calls interleave.
\<close>

section \<open>The calls of the core\<close>

fun parse_metric_status :: "parsing_status \<Rightarrow> parse_metric" where
  "parse_metric_status ParseSuccess = MetricParseSuccess"
| "parse_metric_status ParsePartial = MetricParsePartial"
| "parse_metric_status ParseFailed = MetricParseFailed"
| "parse_metric_status ParseUnsupported = MetricParseUnsupported"

fun normalization_metric_status :: "normalization_status \<Rightarrow> normalization_metric" where
  "normalization_metric_status NormSuccess = MetricNormalizationSuccess"
| "normalization_metric_status NormPartial = MetricNormalizationPartial"
| "normalization_metric_status NormFailed = MetricNormalizationFailed"
| "normalization_metric_status NormUnspecified = MetricNormalizationFailed"

record ('o, 't, 'i) norm_job =
  jb_env :: "('o, 't) core_env"
  jb_core :: "('o, 'i) normalizer_core"
  jb_incoming :: envelope
  jb_persisted :: raw_event_persisted
  jb_raw :: string
  jb_parse_latency :: nat
  jb_normalization_latency :: nat

definition plan_status :: "normalization_plan \<Rightarrow> normalization_status" where
  "plan_status plan = (case normalization_status_try_from (ne_normalization_status (np_normalized_event plan)) of
      None \<Rightarrow> NormUnspecified | Some s \<Rightarrow> s)"

definition plan_calls :: "nat \<Rightarrow> ('i \<times> (normalization_plan, normalizer_error) result) option \<Rightarrow> metric_call list" where
  "plan_calls latency outcome = (case outcome of
      None \<Rightarrow> []
    | Some (_, Inr plan) \<Rightarrow> [NormalizationCall (normalization_metric_status (plan_status plan)) (Some (np_mapping_id plan)) latency]
    | Some (_, Inl _) \<Rightarrow> [NormalizationCall MetricNormalizationFailed None latency])"

text \<open>The calls one invocation of \<open>normalize\<close> makes.\<close>

definition normalize_calls :: "('o, 't, 'i) norm_job \<Rightarrow> metric_call list" where
  "normalize_calls j =
    (case and_then (validate_handoff (jb_incoming j) (jb_persisted j)) (\<lambda>_.
          validate_raw_bytes (jb_env j) (jb_persisted j) (jb_raw j)) of
       Inl _ \<Rightarrow> []
     | Inr _ \<Rightarrow> (case parse (nc_parsers (jb_core j)) (core_input (jb_persisted j) (jb_raw j)) of
         Inl e \<Rightarrow> [ParseCall (if px_code e = ''CER-PARSE-NO-MATCH'' then MetricParseUnsupported else MetricParseFailed) None
           (jb_parse_latency j)]
       | Inr parsed \<Rightarrow>
           ParseCall (parse_metric_status (pe_status parsed)) (Some (pe_parser_id parsed)) (jb_parse_latency j)
           # plan_calls (jb_normalization_latency j) (build_normalization_plan (jb_env j) (jb_core j) (jb_persisted j) parsed)))"

definition job_result :: "('o, 't, 'i) norm_job \<Rightarrow> ('i \<times> (normalization_plan, normalizer_error) result) option" where
  "job_result j = normalize (jb_env j) (jb_core j) (jb_incoming j) (jb_persisted j) (jb_raw j)"

section \<open>Balance\<close>

text \<open>A job is admitted when its handoff and its bytes pass the checks, and productive when it yields an event that is
  completely or partially normalized.\<close>

definition admitted :: "('o, 't, 'i) norm_job \<Rightarrow> bool" where
  "admitted j \<longleftrightarrow> validate_handoff (jb_incoming j) (jb_persisted j) = Inr ()
     \<and> validate_raw_bytes (jb_env j) (jb_persisted j) (jb_raw j) = Inr ()"

definition productive :: "('o, 't, 'i) norm_job \<Rightarrow> bool" where
  "productive j \<longleftrightarrow> (\<exists>ids plan. job_result j = Some (ids, Inr plan) \<and> plan_status plan \<in> {NormSuccess, NormPartial})"

definition recorded :: "metric_counter \<Rightarrow> metric_call list \<Rightarrow> nat" where
  "recorded c calls = sum_list (map (\<lambda>call. sum_list (map (amount c) (call_updates call))) calls)"

lemma recorded_simps [simp]:
  "recorded c [] = 0" "recorded c (call # calls) = sum_list (map (amount c) (call_updates call)) + recorded c calls"
  "recorded c (calls @ calls') = recorded c calls + recorded c calls'"
  by (simp_all add: recorded_def)

lemma recorded_concat: "recorded c (concat (map f js)) = sum_list (map (\<lambda>j. recorded c (f j)) js)"
  by (induction js) simp_all

lemmas call_defs = record_parse_def record_normalization_def record_dlq_def

lemma plan_calls_recorded:
  "recorded EventsParsedTotal (plan_calls l out) = 0" "recorded ParseSuccessTotal (plan_calls l out) = 0"
  "recorded ParsePartialTotal (plan_calls l out) = 0" "recorded ParseFailedTotal (plan_calls l out) = 0"
  "recorded ParseUnsupportedTotal (plan_calls l out) = 0"
  "recorded EventsNormalizedTotal (plan_calls l out)
     = (if \<exists>ids plan. out = Some (ids, Inr plan) \<and> plan_status plan \<in> {NormSuccess, NormPartial} then 1 else 0)"
  "recorded EventsNormalizedTotal (plan_calls l out)
     = recorded NormalizationSuccessTotal (plan_calls l out) + recorded NormalizationPartialTotal (plan_calls l out)"
  by (auto simp: plan_calls_def call_defs split: option.splits sum.splits normalization_metric.splits
      elim: normalization_metric_status.elims)

lemma parse_call_recorded:
  fixes status id l
  defines "us \<equiv> call_updates (ParseCall status id l)"
  shows "sum_list (map (amount EventsParsedTotal) us) = 1"
    "sum_list (map (amount ParseSuccessTotal) us) + sum_list (map (amount ParsePartialTotal) us)
       + sum_list (map (amount ParseFailedTotal) us) + sum_list (map (amount ParseUnsupportedTotal) us) = 1"
    "sum_list (map (amount EventsNormalizedTotal) us) = 0" "sum_list (map (amount NormalizationSuccessTotal) us) = 0"
    "sum_list (map (amount NormalizationPartialTotal) us) = 0"
  unfolding us_def
  by (cases status; cases id; simp add: call_defs)+

lemma job_recorded:
  "recorded EventsParsedTotal (normalize_calls j) = (if admitted j then 1 else 0)"
  "recorded EventsParsedTotal (normalize_calls j) = recorded ParseSuccessTotal (normalize_calls j)
     + recorded ParsePartialTotal (normalize_calls j) + recorded ParseFailedTotal (normalize_calls j)
     + recorded ParseUnsupportedTotal (normalize_calls j)"
  "recorded EventsNormalizedTotal (normalize_calls j) = (if productive j then 1 else 0)"
  by (simp_all add: normalize_calls_def admitted_def productive_def job_result_def normalize_def result_simps
      parse_call_recorded plan_calls_recorded del: call_updates.simps split: sum.splits)

lemma job_recorded_normalized:
  "recorded EventsNormalizedTotal (normalize_calls j)
     = recorded NormalizationSuccessTotal (normalize_calls j) + recorded NormalizationPartialTotal (normalize_calls j)"
  by (simp add: normalize_calls_def parse_call_recorded plan_calls_recorded(7) del: call_updates.simps split: sum.splits)

lemma sum_indicator: "sum_list (map (\<lambda>j. if P j then 1 else 0 :: nat) js) = length (filter P js)"
  by (induction js) simp_all

text \<open>The counters of a process that starts at zero, after the updates of all calls of some jobs in any order.\<close>

lemma counter_value:
  assumes "mset us = mset (concat (map call_updates (concat (map normalize_calls jobs))))"
    and "sum_list (map (\<lambda>j. recorded c (normalize_calls j)) jobs) < 2 ^ 64"
  shows "unat (mm_counters (run_updates us metrics_default) c) = sum_list (map (\<lambda>j. recorded c (normalize_calls j)) jobs)"
  using assms(2) interleaved_sum [OF assms(1), of c] recorded_concat [of c normalize_calls jobs]
  by (simp add: run_counter metrics_default_def recorded_def)

text \<open>The metrics count every event once. However the atomic updates of concurrent normalizations
  interleave, when no counter is full the parsed total is the number of admitted handoffs and the sum
  of the four parse statuses, and the normalized total is the number of normalizations that yielded an
  event and the sum of the successful and the partial ones.\<close>

theorem metrics_balance:
  assumes "mset us = mset (concat (map call_updates (concat (map normalize_calls jobs))))" "length jobs < 2 ^ 64"
  shows "let count = (\<lambda>c. unat (mm_counters (run_updates us metrics_default) c)) in
    count EventsParsedTotal = length (filter admitted jobs)
    \<and> count EventsParsedTotal = count ParseSuccessTotal + count ParsePartialTotal + count ParseFailedTotal + count ParseUnsupportedTotal
    \<and> count EventsNormalizedTotal = length (filter productive jobs)
    \<and> count EventsNormalizedTotal = count NormalizationSuccessTotal + count NormalizationPartialTotal"
proof -
  let ?sum = "\<lambda>c. sum_list (map (\<lambda>j. recorded c (normalize_calls j)) jobs)"
  have parsed: "?sum EventsParsedTotal = length (filter admitted jobs)" by (simp add: job_recorded(1) sum_indicator)
  have normalized: "?sum EventsNormalizedTotal = length (filter productive jobs)" by (simp add: job_recorded(3) sum_indicator)
  have parts: "?sum EventsParsedTotal = ?sum ParseSuccessTotal + ?sum ParsePartialTotal + ?sum ParseFailedTotal + ?sum ParseUnsupportedTotal"
    by (simp only: job_recorded(2) sum_list_addf)
  have halves: "?sum EventsNormalizedTotal = ?sum NormalizationSuccessTotal + ?sum NormalizationPartialTotal"
    by (simp only: job_recorded_normalized sum_list_addf)
  have bound: "?sum EventsParsedTotal < 2 ^ 64" "?sum EventsNormalizedTotal < 2 ^ 64"
    using parsed normalized assms(2) by (auto intro: le_less_trans [OF length_filter_le])
  have total: "unat (mm_counters (run_updates us metrics_default) c) = ?sum c"
    if "c \<in> {EventsParsedTotal, ParseSuccessTotal, ParsePartialTotal, ParseFailedTotal, ParseUnsupportedTotal,
      EventsNormalizedTotal, NormalizationSuccessTotal, NormalizationPartialTotal}" for c
    using that bound parts halves by (intro counter_value [OF assms(1)]) auto
  show ?thesis using parsed normalized parts halves by (simp add: total)
qed

end
