(* ===== verification/Sample_Runtime.thy ===== *)
theory Sample_Runtime
  imports Redelivery Runtime_Loop Metrics_Correctness
begin

text \<open>A concrete processor, its services and messages, and the properties of the runtime applied to them.\<close>

section \<open>The processor\<close>

definition sample_config :: "int runtime_config" where
  "sample_config =
    \<lparr>cf_nats_url = ''n'', cf_nats_user = ''n'', cf_nats_password = ''n'', cf_component_version = ''1'', cf_instance_id = ''i'',
     cf_pipeline_version = ''1'', cf_execution_mode = Test, cf_replay_input = Historical, cf_linux_sshd_parser_version = ''1'',
     cf_source_time_policies = [], cf_raw_store_path = ''/raw'', cf_clickhouse_url = ''c'', cf_clickhouse_database = ''db'',
     cf_clickhouse_user = ''c'', cf_clickhouse_password = ''c'', cf_postgres_host = ''p'', cf_postgres_port = 5432,
     cf_postgres_database = ''p'', cf_postgres_user = ''p'', cf_postgres_password = ''p'', cf_retry_min_delay = 1,
     cf_retry_max_delay = 10, cf_retry_budget = 3\<rparr>"

lemma sample_config_valid: "validate_config sample_config = Inr sample_config"
proof -
  have "trim ''n'' \<noteq> []" "trim ''1'' \<noteq> []" "trim ''i'' \<noteq> []" "trim ''c'' \<noteq> []" "trim ''db'' \<noteq> []" "trim ''p'' \<noteq> []"
    by code_simp+
  moreover have "simple_identifier ''db''" by code_simp
  ultimately show ?thesis by (simp add: validate_config_def required_settings_def sample_config_def)
qed

definition sample_runtime_core :: "(int, unit) normalizer_core" where
  "sample_runtime_core = projr (build_core sample_libs sample_config (Inr sample_time) (\<lambda>u. (u, sample_uuid CHR ''1'')) ())"

definition sample_delivered :: raw_event_persisted where
  "sample_delivered = sample_handoff\<lparr>rp_storage_uri := ''raw:///t/raw.bin'', rp_segment_id := ''s'', rp_length := 68,
     rp_persisted_at := Some sample_time\<rparr>"

definition sample_envelope :: envelope where
  "sample_envelope = sample_incoming\<lparr>en_contract_version := ''1'', en_producer := Some \<lparr>pr_component = ''p'', pr_component_version = ''1'', pr_instance_id = ''''\<rparr>,
     en_emitted_at := Some sample_time,
     en_payload := Some \<lparr>any_type_url = ''cerbero.contracts.v1.RawEventPersisted'', any_value = ''v''\<rparr>\<rparr>"

definition sample_stored_row :: stored_normalization where
  "sample_stored_row = (let identity = projr (derive_identity sample_env sample_runtime_core sample_delivered sample_log_line) in
    \<lparr>sn_logical_key = di_logical_key identity, sn_tenant_id = sample_tenant, sn_normalized_event_id = sample_uuid CHR ''1'',
     sn_raw_event_id = rp_event_id sample_delivered, sn_event_time_present = 0, sn_event_time_seconds = 0, sn_event_time_nanos = 0,
     sn_ingest_time_seconds = 1700000000, sn_ingest_time_nanos = 0, sn_normalized_at_seconds = 1700000000, sn_normalized_at_nanos = 0,
     sn_ocsf_version = di_ocsf_version identity, sn_class_uid = 3002, sn_category_uid = 3, sn_activity_id = Some 1, sn_severity = Some 2,
     sn_parser_id = di_parser_id identity, sn_parser_version = di_parser_version identity, sn_mapping_id = di_mapping_id identity,
     sn_mapping_version = di_mapping_version identity, sn_normalization_status = 2, sn_normalized_hash_algorithm = ''sha256'',
     sn_normalized_hash = '''', sn_pipeline_version = di_pipeline_version identity, sn_ocsf_event_json = ''{}'',
     sn_transformation_id = sample_uuid CHR ''2'', sn_configuration_hash = di_configuration_hash identity,
     sn_execution_mode = execution_mode_i32 (di_execution_mode identity), sn_publication_message_id = sample_uuid CHR ''5'',
     sn_causation_message_id = sample_uuid CHR ''4'', sn_trace_id = '''', sn_correlation_id = '''',
     sn_producer_component_version = ''1'', sn_producer_instance_id = ''i''\<rparr>)"

definition sample_runtime_libs ::
  "(envelope, string) result \<Rightarrow> raw_event_persisted \<Rightarrow> (int, int, unit) runtime_libs" where
  "sample_runtime_libs envelope persisted =
    \<lparr>rl_core = sample_env, rl_decode_envelope = (\<lambda>_. envelope), rl_decode_persisted = (\<lambda>_. Inr persisted),
     rl_encode_envelope = en_message_id, rl_encode_normalized = ne_normalized_event_id, rl_encode_row = (\<lambda>_. Inr ''row''),
     rl_decode_row = (\<lambda>_. Inr sample_stored_row), rl_parse_json = (\<lambda>_. Inr (JObject [])), rl_encode_dlq = (\<lambda>letter. Inr (dl_error_code letter)),
     rl_parse_uuid = (\<lambda>_. Inr 1), rl_now_v7 = (\<lambda>u. (u, sample_uuid CHR ''1'')), rl_before_epoch = '''',
     rl_show_pg = (\<lambda>_. ''db''), rl_to_pg = (\<lambda>t. t)\<rparr>"

definition sample_processor :: "(envelope, string) result \<Rightarrow> raw_event_persisted \<Rightarrow> (int, int, unit) processor" where
  "sample_processor envelope persisted = \<lparr>pc_config = sample_config, pc_raw_root = ''/raw'', pc_core = sample_runtime_core,
     pc_libs = sample_runtime_libs envelope persisted\<rparr>"

definition sample_fs :: raw_fs where
  "sample_fs = \<lparr>fs_canonicalize = (\<lambda>p. Inr p), fs_is_dir = (\<lambda>_. True), fs_open = (\<lambda>_. Inr ()), fs_seek = (\<lambda>_ _. Inr ()),
     fs_read_exact = (\<lambda>_ _ _. Inr sample_log_line)\<rparr>"

definition sample_services :: services where
  "sample_services =
    \<lparr>sv_get = (\<lambda>_ _. Response 200 ''row''), sv_post = (\<lambda>_ _ _. Response 200 ''''),
     sv_publish = (\<lambda>_ p. PubAck (if pb_subject p = NORMALIZED_CREATED_SUBJECT then ANALYTICS_STREAM_NAME else DLQ_STREAM_NAME) 1),
     sv_ack = (\<lambda>_ _. Inr ()), sv_fates = (\<lambda>_. (Answered, Answered)), sv_now = (\<lambda>_. 1700000000000000000), sv_fs = (\<lambda>_. sample_fs)\<rparr>"

definition sample_message :: "int \<Rightarrow> bus_message" where
  "sample_message delivered = \<lparr>bm_subject = RAW_PERSISTED_SUBJECT, bm_payload = ''p'', bm_header = (\<lambda>_. None),
     bm_info = Some \<lparr>mi_delivered = delivered, mi_stream_sequence = 7, mi_consumer_sequence = 7\<rparr>\<rparr>"

definition sample_world :: "unit world" where
  "sample_world = \<lparr>w_ids = (), w_table = Map.empty, w_log = []\<rparr>"

section \<open>They meet the hypotheses\<close>

lemma digest_length_sample: "length (sample_digest bytes) = 32"
  by (cases bytes) (simp_all add: sample_digest_def)

lemma sample_sound_libs: "sound_libs (sample_processor envelope persisted)"
  by (simp add: sound_libs_def sample_processor_def sample_runtime_libs_def sample_env_def sample_config_valid mono_def digest_length_sample)

lemma sample_healthy: "healthy sample_services (sample_processor envelope persisted)"
  by (simp add: healthy_def sample_services_def sample_processor_def sample_config_def dlq_accepted_def accepted_def bus_constants
      fits_i64_def)

lemma sample_budget: "cf_retry_budget (pc_config (sample_processor envelope persisted)) = 3"
  by (simp add: sample_processor_def sample_config_def)

lemma sample_key: "message_key_of (sample_processor envelope persisted) (sample_message n) = ''stream:'' @ show_nat 7"
  by (simp add: message_key_of_def delivery_identity_def sample_message_def)

lemma sample_world_ok: "retry_table_ok (w_table sample_world)" "state_of (w_table sample_world) k = None"
  "reachable_table show_pg to_pg (w_table sample_world)"
  by (simp_all add: sample_world_def retry_table_ok_def state_of_def reachable_table.no_rows)

text \<open>A payload that does not decode: the error is storable and nothing panics.\<close>

lemma sample_malformed: "decode_message (sample_processor (Inl ''bad'') persisted) msg = Inl (fatal ''CER-NORM-ENVELOPE-DECODE'' ''bad'')"
  by (simp add: decode_message_def decode_raw_persisted_def sample_processor_def sample_runtime_libs_def)

lemma sample_malformed_handled:
  "\<exists>w'. handle_message sample_services (sample_processor (Inl ''bad'') sample_delivered) msg sample_world = Some (w', Inr ())"
proof -
  let ?pc = "sample_processor (Inl ''bad'') sample_delivered"
  have "\<not> may_panic ?pc msg" by (simp add: may_panic_def sample_malformed)
  then obtain w' r where w': "handle_message sample_services ?pc msg sample_world = Some (w', r)"
    using total_handle [of ?pc msg sample_services] by (metis totalE)
  have "storable e" if "attempt_error sample_services ?pc msg e" for e
    using that by (simp add: attempt_error_def sample_malformed storable_def fatal_def clean_def trim_code)
  with delivery_outcome [OF sample_healthy sample_sound_libs sample_world_ok(1) w'] have "r = Inr ()"
    by (auto simp: delivery_done_def progress_def)
  with w' show ?thesis by blast
qed

section \<open>Witnesses\<close>

definition nul_envelope :: envelope where
  "nul_envelope = sample_envelope\<lparr>en_message_type := [CHR 0x00]\<rparr>"

lemma sample_envelope_ok: "wf_envelope sample_envelope" "wf_envelope nul_envelope"
  by (simp_all add: wf_envelope_def sample_envelope_def nul_envelope_def sample_incoming_def sample_uuid_ok sample_time_ok)

definition sample_broker :: broker where
  "sample_broker = \<lparr>br_get_stream = (\<lambda>_. Inr ()), br_get_or_create = (\<lambda>_ _. Inr ()), br_delete = (\<lambda>_. Inr ())\<rparr>"

text \<open>Two starts, each ended by the message.\<close>

theorem nul_message_type_stops_normalizer_witness:
  "\<exists>w'. restarted sample_broker (sample_processor (Inr nul_envelope) sample_delivered)
     [[(sample_services, MessageReceived (sample_message 1))], [(sample_services, MessageReceived (sample_message 2))]] sample_world
     = Some (w', replicate 2 (Stopped (Inl (postgres_error ''record retry failure'' ''db''))))
     \<and> w_log w' = replicate 4 RetryStatement"
proof -
  let ?pc = "sample_processor (Inr nul_envelope) sample_delivered"
  let ?starts = "[[(sample_services, MessageReceived (sample_message 1))], [(sample_services, MessageReceived (sample_message 2))]]"
  have decode: "rl_decode_envelope (pc_libs ?pc) (bm_payload (sample_message 1)) = Inr nul_envelope"
    by (simp add: sample_processor_def sample_runtime_libs_def)
  have "CHR 0x00 \<in> set (en_message_type nul_envelope)" by (simp add: nul_envelope_def)
  moreover have "\<forall>events \<in> set ?starts. \<exists>sv m rest. events = (sv, MessageReceived m) # rest \<and> healthy sv ?pc
      \<and> bm_payload m = bm_payload (sample_message 1) \<and> message_key_of ?pc m = message_key_of ?pc (sample_message 1)"
    by (simp add: sample_healthy sample_key) (simp add: sample_message_def)
  ultimately obtain w' where "restarted sample_broker ?pc ?starts sample_world = Some (w', replicate (length ?starts)
        (Stopped (Inl (postgres_error ''record retry failure'' (rl_show_pg (pc_libs ?pc) InvalidText)))))"
      "w_log w' = w_log sample_world @ replicate (2 * length ?starts) RetryStatement"
    using nul_message_type_stops_normalizer [OF sample_sound_libs sample_world_ok(1,2) decode sample_envelope_ok(2)] by blast
  moreover have "rl_show_pg (pc_libs ?pc) InvalidText = ''db''" "length ?starts = 2" "w_log sample_world = []"
    by (simp_all add: sample_processor_def sample_runtime_libs_def sample_world_def)
  ultimately show ?thesis by (intro exI [of _ w']) (simp only: append_Nil mult_2 numeral_plus_numeral semiring_norm simp_thms)
qed

definition oversized :: raw_event_persisted where
  "oversized = sample_delivered\<lparr>rp_raw_size := 2 ^ 63, rp_length := 2 ^ 63\<rparr>"

lemma sample_decodes:
  assumes "wf_raw_event_persisted persisted" "rp_tenant_id persisted = sample_tenant"
  shows "decode_message (sample_processor (Inr sample_envelope) persisted) (sample_message n)
    = Inr \<lparr>ic_envelope = sample_envelope, ic_persisted = persisted, ic_request_id = None\<rparr>"
proof -
  have "validate_envelope sample_envelope = Inr ()" using sample_envelope_ok validate_envelope_ok [of sample_envelope] by simp
  moreover have "validate_raw_event_persisted persisted = Inr ()" using assms(1) validate_raw_event_persisted_ok [of persisted] by simp
  moreover have "ends_with ''cerbero.contracts.v1.RawEventPersisted'' ''cerbero.contracts.v1.RawEventPersisted''" by code_simp
  ultimately show ?thesis
    using assms(2)
    by (simp add: decode_message_def decode_raw_persisted_def sample_processor_def sample_runtime_libs_def validate_type_url_def)
      (simp add: sample_envelope_def sample_incoming_def sample_message_def)
qed

lemma sample_delivered_ok: "wf_raw_event_persisted sample_delivered" "wf_raw_event_persisted oversized"
proof -
  have "valid_sha256_text (sha256_lower_hex sample_digest sample_log_line)"
    by (rule valid_sha256_text_lower_hex) (rule digest_length_sample)
  then show "wf_raw_event_persisted sample_delivered" "wf_raw_event_persisted oversized"
    by (simp_all add: wf_raw_event_persisted_def sample_delivered_def oversized_def sample_handoff_def sample_persisted_def
        sample_uuid_ok sample_time_ok) (simp_all add: sample_tenant_def sample_uuid_def)
qed

lemma sample_path: "raw_path sample_fs ''/raw'' ''raw:///t/raw.bin'' = Inr ''/raw/t/raw.bin''"
  by code_simp

lemma sample_delivered_fields:
  "rp_storage_uri sample_delivered = ''raw:///t/raw.bin''" "rp_tenant_id sample_delivered = sample_tenant" "unat (rp_length sample_delivered) = 68"
  "rp_storage_uri oversized = ''raw:///t/raw.bin''" "rp_tenant_id oversized = sample_tenant" "unat (rp_length oversized) = 2 ^ 63"
  by (simp_all add: sample_delivered_def oversized_def sample_handoff_def)

theorem oversized_length_panics_witness:
  "handle_message sample_services (sample_processor (Inr sample_envelope) oversized) (sample_message 1) sample_world = None"
proof (rule oversized_length_panics [OF sample_sound_libs sample_healthy sample_world_ok(1,2)
      sample_decodes [OF sample_delivered_ok(2) sample_delivered_fields(5)], where path = "''/raw/t/raw.bin''"])
qed (simp_all add: sample_delivered_fields sample_services_def sample_processor_def sample_path, simp_all add: sample_fs_def)

lemma sample_read: "raw_read sample_fs ''/raw'' sample_delivered = Some (Inr sample_log_line)"
  unfolding raw_read_def sample_delivered_fields sample_path ISIZE_MAX_def by (simp add: sample_fs_def)

theorem raw_read_contained_witness:
  "raw_read sample_fs ''/raw'' sample_delivered = Some (Inr sample_log_line) \<and> path_starts_with ''/raw'' ''/raw/t/raw.bin''"
proof -
  have "path_join ''/raw'' ''t/raw.bin'' = ''/raw/t/raw.bin''" by code_simp
  with raw_read_contained [OF sample_read] sample_read show ?thesis
    by (auto simp: sample_delivered_fields) (simp add: sample_fs_def)
qed

section \<open>A processed delivery\<close>

lemma sample_runtime_core_new:
  "new_core sample_libs ''1'' Test ''1'' (Inr sample_time) (system_next_id (\<lambda>u. (u, sample_uuid CHR ''1''))) () = Inr sample_runtime_core"
  by (simp add: sample_runtime_core_def build_core_def sample_config_def new_core_def with_linux_sshd_version_def sshd_constants
      set_source_time_policies_def)

lemma sample_runtime_core_default: "default_core sample_runtime_core"
  by (rule new_core_default [OF sample_runtime_core_new])

lemma sample_delivered_sound: "sound_handoff sample_env sample_incoming sample_delivered sample_log_line"
  by (simp add: sound_handoff_def validate_handoff_def sample_incoming_def sample_delivered_def sample_handoff_def sample_persisted_def
      sample_env_def sample_log_line_def sample_uuid_ok sample_time_ok)

lemma sample_identity:
  "\<exists>identity. derive_identity sample_env sample_runtime_core sample_delivered sample_log_line = Inr identity \<and> di_execution_mode identity = Test
     \<and> validate_hash_key (di_logical_key identity) = Inr ()"
proof -
  have ids: "system_next_id (\<lambda>u :: unit. (u, sample_uuid CHR ''1'')) () = ((), Inr (sample_uuid CHR ''1''))"
    by (simp add: system_next_id_def)
  obtain plan where "normalize sample_env sample_runtime_core sample_incoming sample_delivered sample_log_line = Some ((), Inr plan)"
    using normalize_sshd_line [OF sample_runtime_core_new sample_time_ok ids ids sample_uuid_ok(1,1) sample_numbers sample_delivered_sound
        sample_line_checks sample_line_probe] by auto
  moreover have "sample_runtime_core\<lparr>nc_clock := nc_clock sample_runtime_core, nc_ids := nc_ids sample_runtime_core\<rparr> = sample_runtime_core" by simp
  ultimately have identity: "derive_identity sample_env sample_runtime_core sample_delivered sample_log_line
      = Inr (plan_identity plan (nc_execution_mode sample_runtime_core))"
    using derive_plan_identity [OF sample_runtime_core_default] by metis
  have "nc_execution_mode sample_runtime_core = Test" 
    by (simp add: sample_runtime_core_def build_core_def sample_config_def new_core_def with_linux_sshd_version_def sshd_constants
        set_source_time_policies_def)
  moreover obtain key_text where "sha256_lower_hex sample_digest key_text = np_logical_key plan"
    using identity by (auto simp: derive_identity_def result_simps plan_identity_def Let_def logical_key_for_def sample_env_def)
  moreover have "valid_sha256_text (sha256_lower_hex sample_digest key_text)"
    by (rule valid_sha256_text_lower_hex) (rule digest_length_sample)
  ultimately show ?thesis using identity
    by (auto simp: plan_identity_def Let_def validate_hash_key_def valid_sha256_text_def list_all_iff is_lower_hexdigit_def
        is_ascii_hexdigit_def is_ascii_uppercase_def is_ascii_digit_def)
qed

definition sample_incoming_message :: incoming_raw_persisted where
  "sample_incoming_message = \<lparr>ic_envelope = sample_envelope, ic_persisted = sample_delivered, ic_request_id = None\<rparr>"

abbreviation sample_pc :: "(int, int, unit) processor" where
  "sample_pc \<equiv> sample_processor (Inr sample_envelope) sample_delivered"

lemma sample_publication: "\<exists>p. publication_of (pc_libs sample_pc) sample_stored_row None = Inr p \<and> pb_subject p = NORMALIZED_CREATED_SUBJECT"
proof -
  obtain identity where identity: "derive_identity sample_env sample_runtime_core sample_delivered sample_log_line = Inr identity"
    "di_execution_mode identity = Test" using sample_identity by blast
  have "stored_execution_mode sample_stored_row = Some Test" by (simp add: stored_execution_mode_def sample_stored_row_def identity Let_def execution_mode_try_from_def)
  moreover have "wf_envelope (normalized_envelope payload sample_time sample_stored_row)" for payload
    by (simp add: wf_envelope_def normalized_envelope_def sample_stored_row_def Let_def sample_uuid_ok sample_time_ok)
  then have "validate_envelope (normalized_envelope payload sample_time sample_stored_row) = Inr ()" for payload
    using validate_envelope_ok [of "normalized_envelope payload sample_time sample_stored_row"] by simp
  moreover have "stored_normalized_at sample_stored_row = sample_time" by (simp add: stored_normalized_at_def sample_stored_row_def Let_def sample_time_def)
  ultimately show ?thesis
    by (simp add: publication_of_def normalized_publication_def stored_normalized_event_def sample_processor_def sample_runtime_libs_def
        json_to_struct_def Let_def execution_mode_header_value_def)
qed

lemma sample_processed: "\<exists>w1. process_message sample_services sample_pc sample_incoming_message w = Some (w1, Inr ())"
proof -
  obtain identity where identity: "derive_identity sample_env sample_runtime_core sample_delivered sample_log_line = Inr identity"
    "validate_hash_key (di_logical_key identity) = Inr ()" using sample_identity by blast
  obtain p where p: "publication_of (pc_libs sample_pc) sample_stored_row None = Inr p" "pb_subject p = NORMALIZED_CREATED_SUBJECT"
    using sample_publication by blast
  have read: "io_read sample_services (pc_raw_root sample_pc) sample_delivered w = Some (w, Inr sample_log_line)"
    using sample_read by (simp add: io_read_def sample_services_def sample_processor_def)
  have same: "validate_existing_identity sample_stored_row (rp_event_id sample_delivered) identity = Inr ()"
    by (simp add: validate_existing_identity_def sample_stored_row_def identity Let_def)
  have trimmed: "trim ''row'' = ''row''" by code_simp
  have pcs: "rl_core (pc_libs sample_pc) = sample_env" "pc_core sample_pc = sample_runtime_core" "rl_decode_row (pc_libs sample_pc) = (\<lambda>_. Inr sample_stored_row)"
    by (simp_all add: sample_processor_def sample_runtime_libs_def)
  let ?q = "find_query (cf_clickhouse_database (pc_config sample_pc)) (di_logical_key identity)"
  let ?w1 = "io_effect (Queried ?q (Response 200 ''row'')) w"
  have find: "find_by_logical_key sample_services (rl_decode_row (pc_libs sample_pc)) (cf_clickhouse_database (pc_config sample_pc))
      (di_logical_key identity) w = Some (?w1, Inr (Some sample_stored_row))"
    by (simp add: find_by_logical_key_def io_run(3) identity(2) Let_def found_row_def clickhouse_body_def pcs(3) trimmed sample_services_def)
  have "normalized_accepted (sv_publish sample_services (w_log ?w1) p) = Inr ()"
    by (simp add: sample_services_def p(2) normalized_accepted_def accepted_def)
  then have "publish_normalized sample_services (pc_libs sample_pc) sample_stored_row None ?w1
      = Some (io_effect (Sent p (sv_publish sample_services (w_log ?w1) p)) ?w1, Inr ())"
    using p(1) by (simp add: publish_normalized_def publication_of_def io_run(3) io_publish_def Let_def del: io_effect_simps)
  then show ?thesis
    unfolding process_message_def sample_incoming_message_def incoming_raw_persisted.simps
    by (simp add: io_run(2) [where c = "io_read sample_services (pc_raw_root sample_pc) sample_delivered", OF read] identity(1) pcs(1,2)
        io_run(2) [where c = "find_by_logical_key sample_services (rl_decode_row (pc_libs sample_pc)) (cf_clickhouse_database (pc_config sample_pc))
          (di_logical_key identity)", OF find] io_run(3) same del: io_effect_simps)
qed

text \<open>ClickHouse does not answer.\<close>

definition broken_services :: services where
  "broken_services = sample_services\<lparr>sv_get := (\<lambda>_ _. TransportFailed ''timeout'')\<rparr>"

lemma broken_processed:
  "\<exists>w1. process_message broken_services sample_pc sample_incoming_message w = Some (w1, Inl (clickhouse_transport ''timeout''))"
proof -
  obtain identity where identity: "derive_identity sample_env sample_runtime_core sample_delivered sample_log_line = Inr identity"
    "validate_hash_key (di_logical_key identity) = Inr ()" using sample_identity by blast
  have read: "io_read broken_services (pc_raw_root sample_pc) sample_delivered w = Some (w, Inr sample_log_line)"
    using sample_read by (simp add: io_read_def broken_services_def sample_services_def sample_processor_def)
  have pcs: "rl_core (pc_libs sample_pc) = sample_env" "pc_core sample_pc = sample_runtime_core"
    by (simp_all add: sample_processor_def sample_runtime_libs_def)
  let ?find = "find_by_logical_key broken_services (rl_decode_row (pc_libs sample_pc)) (cf_clickhouse_database (pc_config sample_pc))
      (di_logical_key identity)"
  obtain w1 where find: "?find w = Some (w1, Inl (clickhouse_transport ''timeout''))"
    by (simp add: find_by_logical_key_def io_run(3) identity(2) Let_def found_row_def clickhouse_body_def broken_services_def)
  then have "io_bind ?find g w = Some (w1, Inl (clickhouse_transport ''timeout''))" for g :: "stored_normalization option \<Rightarrow> (unit, unit) io"
    by (simp add: io_bind_def io_match_def io_lift_def)
  then show ?thesis
    unfolding process_message_def sample_incoming_message_def incoming_raw_persisted.simps
    by (simp add: io_run(2) [where c = "io_read broken_services (pc_raw_root sample_pc) sample_delivered", OF read] identity(1) pcs)
qed

text \<open>A delivery that ClickHouse fails, and two that find it back: the message is settled.\<close>

theorem redelivery_settles_witness:
  "snd (deliver_until_settled sample_pc
     [(broken_services, sample_message 1), (sample_services, sample_message 2), (sample_services, sample_message 3)] sample_world)
     = DeliverySettled"
proof -
  let ?ds = "[(broken_services, sample_message 1), (sample_services, sample_message 2), (sample_services, sample_message 3)]"
  obtain w' outcome where run: "deliver_until_settled sample_pc ?ds sample_world = (w', outcome)" by fastforce
  have decode: "decode_message sample_pc (sample_message n) = Inr sample_incoming_message" for n
    unfolding sample_incoming_message_def by (rule sample_decodes [OF sample_delivered_ok(1) sample_delivered_fields(2)])
  have healthy: "healthy broken_services sample_pc" using sample_healthy by (simp add: healthy_def broken_services_def)
  have "resolve (ce_time sample_env) (nc_policies sample_runtime_core) sample_delivered parsed \<noteq> None" for parsed
    by (simp add: resolve_def sample_runtime_core_def build_core_def sample_config_def new_core_def with_linux_sshd_version_def
        sshd_constants set_source_time_policies_def btree_get_def)
  then have calm: "\<not> may_panic sample_pc (sample_message n)" for n
    by (simp add: may_panic_def decode no_panic_def sample_incoming_message_def sample_delivered_fields ISIZE_MAX_def)
      (simp add: sample_processor_def sample_runtime_libs_def)
  have stored: "storable e" if attempt: "attempt_error sv sample_pc (sample_message n) e" "sv = broken_services \<or> sv = sample_services" for sv n e
  proof -
    obtain w w1 where "process_message sv sample_pc sample_incoming_message w = Some (w1, Inl e)"
      using attempt unfolding attempt_error_def decode sum.case by blast
    with that(2) broken_processed [of w] sample_processed [of w] have "e = clickhouse_transport ''timeout''" by auto
    then show ?thesis by (simp add: storable_def clickhouse_transport_def transient_def clean_def trim_code)
  qed
  have "outcome = DeliverySettled
      \<or> (\<exists>(sv, msg) \<in> set ?ds. \<exists>e. attempt_error sv sample_pc msg e \<and> \<not> storable e \<and> outcome = HandlerFailed (record_refusal sample_pc e))
      \<or> (\<exists>(sv, msg) \<in> set ?ds. may_panic sample_pc msg \<and> outcome = HandlerPanicked)"
  proof (rule redelivery_settles [where show_pg = "\<lambda>_. ''db''" and key = "''stream:'' @ show_nat 7", OF sample_sound_libs _ _ _ run])
    show "reachable_table (\<lambda>_. ''db'') (rl_to_pg (pc_libs sample_pc)) (w_table sample_world)" by (rule sample_world_ok)
  qed (simp_all add: sample_healthy healthy sample_key sample_world_ok deliveries_left_def sample_budget)
  then have "outcome = DeliverySettled" using stored calm by auto
  then show ?thesis by (simp only: run snd_conv)
qed

theorem redelivery_publishes_same_message_witness:
  "\<exists>p o2. process_message sample_services sample_pc sample_incoming_message sample_world
     = Some (sample_world\<lparr>w_log := o2 @ [p]\<rparr>, Inr ())"
proof -
  obtain w1 where w1: "process_message sample_services sample_pc sample_incoming_message sample_world = Some (w1, Inr ())"
    using sample_processed by blast
  have core: "default_core (pc_core sample_pc)" by (simp add: sample_processor_def sample_runtime_core_default)
  have fs: "sv_fs sample_services es = sample_fs" for es by (simp add: sample_services_def)
  have trimmed: "trim ''row'' = ''row''" by code_simp
  have found: "found_row (rl_decode_row (pc_libs sample_pc)) (sv_get sample_services es query) = Inr (Some sample_stored_row)" for es query
    by (simp add: found_row_def clickhouse_body_def sample_services_def sample_processor_def sample_runtime_libs_def trimmed)
  obtain row p where row: "stored_row (pc_libs sample_pc) (drop (length (w_log sample_world)) (w_log w1)) row"
    and again: "\<forall>sv' w2. (\<forall>es. sv_fs sv' es = sample_fs)
        \<and> (\<forall>query. found_row (rl_decode_row (pc_libs sample_pc)) (sv_get sv' (w_log w2) query) = Inr (Some row))
        \<longrightarrow> (\<exists>query o1 o2. process_message sv' sample_pc sample_incoming_message w2
              = Some (w2\<lparr>w_log := w_log w2 @ [Queried query o1, Sent p o2]\<rparr>, normalized_accepted o2))"
    using redelivery_publishes_same_message [OF core fs w1] by blast
  have "row = sample_stored_row"
    using row by (auto simp: stored_row_def found_row_def sample_processor_def sample_runtime_libs_def result_simps split: if_splits)
  with again fs found obtain query o1 o2 where "process_message sample_services sample_pc sample_incoming_message sample_world
      = Some (sample_world\<lparr>w_log := w_log sample_world @ [Queried query o1, Sent p o2]\<rparr>, normalized_accepted o2)" by blast
  with w1 show ?thesis by (intro exI [of _ "Sent p o2"] exI [of _ "[Queried query o1]"]) (simp add: sample_world_def)
qed

theorem stored_row_roundtrip_witness:
  "\<exists>plan (mapped :: mapping_output) row. normalize sample_env sample_core sample_incoming sample_handoff sample_log_line = Some ([], Inr plan)
     \<and> from_plan plan None sample_time sample_incoming (sample_uuid CHR ''5'') ''1'' ''i'' = Inr row
     \<and> stored_normalized_event (\<lambda>_. Inr (canonicalize (mo_ocsf_event mapped))) (ce_as_f64 sample_env) row = Inr (np_normalized_event plan)
     \<and> stored_transformation row = np_transformation plan"
proof -
  obtain plan where plan: "normalize sample_env sample_core sample_incoming sample_handoff sample_log_line = Some ([], Inr plan)"
    by (rule sample_normalized)
  obtain p trace parsed now m mapped nid tid where
    mapped: "map_ssh_authentication parsed sample_handoff (from_persisted sample_handoff) m = Inr mapped"
    and made: "plan_of sample_env sample_core sample_handoff parsed (from_persisted sample_handoff) now mapped nid tid = Inr plan"
    using sample_core_ok(2) plan by (rule normalize_parts)
  have "from_utf8 ''{}'' = Inr ''{}''" by code_simp
  with made obtain row where row: "from_plan plan None sample_time sample_incoming (sample_uuid CHR ''5'') ''1'' ''i'' = Inr row"
    by (auto simp: from_plan_def plan_of_def normalized_event_of_def result_simps Let_def canonical_json_bytes_def sample_env_def)
  have "stored_normalized_event (\<lambda>_. Inr (canonicalize (mo_ocsf_event mapped))) (ce_as_f64 sample_env) row = Inr (np_normalized_event plan)
      \<and> stored_transformation row = np_transformation plan"
    by (rule stored_row_roundtrip [OF mapped made row]) simp
  with plan row show ?thesis by (intro exI [of _ plan] exI [of _ mapped] exI [of _ row]) simp
qed

section \<open>A run\<close>

definition sample_connections :: connections where
  "sample_connections = \<lparr>cn_postgres = Inr (), cn_nats = Inr (), cn_messages = Inr ()\<rparr>"

definition sample_events :: "(services \<times> loop_event) list" where
  "sample_events = [(sample_services, ShutdownChanged False), (sample_services, MessageReceived (sample_message 1)),
     (sample_services, ShutdownChanged True)]"

definition sample_run :: "(unit world \<times> admin_call list \<times> run_outcome) option" where
  "sample_run = run_with_metrics (sample_runtime_libs (Inl ''bad'') sample_delivered) sample_libs sample_fs sample_connections
     sample_broker sample_config (Inr sample_time) None sample_events sample_world"

lemma sample_starts:
  "\<exists>calls. start_processor (sample_runtime_libs (Inl ''bad'') sample_delivered) sample_libs sample_fs sample_connections
     sample_broker sample_config (Inr sample_time) () = (calls, Inr (sample_processor (Inl ''bad'') sample_delivered))"
proof -
  have "build_core sample_libs sample_config (Inr sample_time) (\<lambda>u. (u, sample_uuid CHR ''1'')) () = Inr sample_runtime_core"
    by (simp add: sample_runtime_core_def build_core_def sample_config_def new_core_def with_linux_sshd_version_def sshd_constants)
  then show ?thesis
    by (simp add: start_processor_def admin_simps new_raw_reader_def open_consumer_def sample_fs_def sample_connections_def
        sample_broker_def sample_config_def normalizer_consumer_route_def sample_runtime_libs_def sample_processor_def Let_def)
qed

lemma sample_stops: "\<exists>w calls. sample_run = Some (w, calls, Stopped (Inr ()))"
proof -
  let ?pc = "sample_processor (Inl ''bad'') sample_delivered"
  obtain w1 where w1: "handle_message sample_services ?pc (sample_message 1) sample_world = Some (w1, Inr ())"
    using sample_malformed_handled by blast
  obtain calls where "clean_shutdown sample_broker ?pc = (calls, Inr ())"
    by (simp add: clean_shutdown_def delete_execution_consumer_def admin_simps sample_processor_def sample_config_def sample_broker_def
        normalizer_consumer_route_def)
  with w1 have "processing_loop sample_broker ?pc sample_events sample_world = Some (w1, calls, Stopped (Inr ()))"
    by (simp add: sample_events_def shut_down_def)
  moreover have "w_ids sample_world = ()" by (simp add: sample_world_def)
  ultimately show ?thesis using sample_starts by (auto simp: sample_run_def run_with_metrics_def race_postgres_def)
qed

theorem run_hands_over_witness:
  "\<exists>(pc :: (int, int, unit) processor) w calls outcome. sample_run = Some (w, calls, outcome) \<and> pc_config pc = sample_config \<and> run_log pc [sample_message 1] (w_log w)"
proof -
  obtain w calls where run: "sample_run = Some (w, calls, Stopped (Inr ()))" using sample_stops by blast
  have "prefix (w_log sample_world @ w_log w) (w_log w)" by (simp add: sample_world_def)
  from run_hands_over [OF run [unfolded sample_run_def] this] run show ?thesis
    by (auto simp: sample_events_def)
qed

theorem run_stops_cleanly_witness:
  "\<exists>w calls name. sample_run = Some (w, calls, Stopped (Inr ())) \<and> normalizer_consumer_name Test Historical = Inr name
     \<and> last calls = DeleteConsumer name"
proof -
  obtain w calls where run: "sample_run = Some (w, calls, Stopped (Inr ()))" using sample_stops by blast
  from run_stops_cleanly [OF run [unfolded sample_run_def]] run show ?thesis
    by (auto simp: sample_config_def)
qed

section \<open>Metrics of a normalization\<close>

definition sample_job :: "(int, int, unit) norm_job" where
  "sample_job = \<lparr>jb_env = sample_env, jb_core = sample_runtime_core, jb_incoming = sample_incoming, jb_persisted = sample_delivered,
     jb_raw = sample_log_line, jb_parse_latency = 5, jb_normalization_latency = 7\<rparr>"

lemma sample_job_admitted: "admitted sample_job"
proof -
  have "u64_try_from (length sample_log_line) = Some (rp_raw_size sample_delivered)"
    using sample_delivered_sound by (metis sound_handoff_def u64_try_from_eq_Some)
  then show ?thesis
    using sample_delivered_sound by (simp add: sound_handoff_def admitted_def sample_job_def validate_raw_bytes_def)
qed

theorem metrics_balance_witness:
  "unat (mm_counters (run_updates (rev (concat (map call_updates (normalize_calls sample_job)))) metrics_default) EventsParsedTotal) = 1"
proof -
  have "mset (rev (concat (map call_updates (normalize_calls sample_job))))
      = mset (concat (map call_updates (concat (map normalize_calls [sample_job]))))" by simp
  from metrics_balance [OF this] show ?thesis by (simp add: sample_job_admitted Let_def del: call_updates.simps)
qed

end
