(* ===== verification/Tui.thy ===== *)
theory Tui
  imports Dead_Letter
begin

text \<open>
  The terminal interface (\<open>cerbero-tui/src/main.rs\<close>): command line, API client, application state, keys,
  the frame that is drawn, and the interactive loop with its worker. The loop and the worker run
  concurrently and meet in two unbounded channels; the model is a step relation on both. HTTP
  replies, key events and the clock are parameters or free choices of a step; the layout of the
  widgets on the screen is ratatui's and left out, their texts are modelled.
\<close>

section \<open>Characters\<close>

text \<open>A Rust \<open>char\<close> is a scalar value; a \<open>String\<close> holds its UTF-8 bytes.\<close>

definition is_scalar :: "nat \<Rightarrow> bool" where
  "is_scalar c \<longleftrightarrow> c < 0xD800 \<or> (0xE000 \<le> c \<and> c < 0x110000)"

definition encode_utf8 :: "nat \<Rightarrow> string" where
  "encode_utf8 c =
    (if c < 0x80 then [char_of c]
     else if c < 0x800 then [char_of (0xC0 + c div 64), char_of (0x80 + c mod 64)]
     else if c < 0x10000 then [char_of (0xE0 + c div 4096), char_of (0x80 + c div 64 mod 64), char_of (0x80 + c mod 64)]
     else [char_of (0xF0 + c div 262144), char_of (0x80 + c div 4096 mod 64), char_of (0x80 + c div 64 mod 64), char_of (0x80 + c mod 64)])"

definition string_push :: "string \<Rightarrow> nat \<Rightarrow> string" where
  "string_push s c = s @ encode_utf8 c"

definition is_continuation :: "char \<Rightarrow> bool" where
  "is_continuation b \<longleftrightarrow> 0x80 \<le> (of_char b :: nat) \<and> (of_char b :: nat) < 0xC0"

text \<open>\<open>String::pop\<close> drops the last character: its continuation bytes and its first byte.\<close>

definition string_pop :: "string \<Rightarrow> string" where
  "string_pop s = rev (drop 1 (dropWhile is_continuation (rev s)))"

definition trim_end_matches :: "char \<Rightarrow> string \<Rightarrow> string" where
  "trim_end_matches c s = rev (dropWhile (\<lambda>b. b = c) (rev s))"

section \<open>Requests and responses\<close>

definition TENANT_HEADER :: string where "TENANT_HEADER = ''X-Cerbero-Tenant-ID''"

definition VIEWS :: "string list" where
  "VIEWS = [''Overview'', ''Events'', ''Search'', ''Findings'', ''Incidents'', ''Cases'', ''Entities'', ''ATT&CK'', ''Rules'',
     ''Agents'', ''System'']"

record search_time_range =
  tr_from :: string
  tr_to :: string

record search_sort =
  so_field :: string
  so_direction :: string

record search_request =
  rq_query :: string
  rq_time_range :: search_time_range
  rq_cursor :: string
  rq_limit :: "64 word"
  rq_sort :: "search_sort list"

record search_execution =
  se_request_id :: string
  se_partial_result :: bool
  se_truncated :: bool
  se_timed_out :: bool

record event_item =
  ei_normalized_event_id :: string
  ei_tenant_id :: string
  ei_event_time :: string
  ei_severity_id :: "32 word option"
  ei_ocsf_event :: "string json"

record search_response =
  sp_items :: "event_item list"
  sp_next_cursor :: string
  sp_execution :: search_execution

section \<open>The API client\<close>

record api_client =
  ac_base_url :: string
  ac_tenant_id :: string

datatype client_error = VariableUnset string | NotLoopback | ClientBuild string

text \<open>\<open>env\<close> gives the variables that are set to Unicode text, \<open>build\<close> the outcome of building the HTTP client.\<close>

definition client_from_env :: "(string \<Rightarrow> string option) \<Rightarrow> (unit, string) result \<Rightarrow> (api_client, client_error) result" where
  "client_from_env env build =
    and_then (ok_or (VariableUnset ''CERBERO_TUI_API_URL'') (env ''CERBERO_TUI_API_URL'')) (\<lambda>base_url.
    and_then (ok_or (VariableUnset ''CERBERO_TUI_TENANT_ID'') (env ''CERBERO_TUI_TENANT_ID'')) (\<lambda>tenant_id.
    if \<not> (starts_with ''http://127.0.0.1:'' base_url \<or> starts_with ''http://localhost:'' base_url)
    then Inl NotLoopback
    else
    and_then (map_err ClientBuild build) (\<lambda>_.
    Inr \<lparr>ac_base_url = trim_end_matches CHR ''/'' base_url, ac_tenant_id = tenant_id\<rparr>)))"

record http_post =
  hp_url :: string
  hp_headers :: "(string \<times> string) list"
  hp_json :: search_request

definition search_post :: "api_client \<Rightarrow> search_request \<Rightarrow> http_post" where
  "search_post client request =
    \<lparr>hp_url = ac_base_url client @ ''/api/v1/search'', hp_headers = [(TENANT_HEADER, ac_tenant_id client)], hp_json = request\<rparr>"

text \<open>What comes back: no response, or a status, the request id header if it is text, and the body as text
  and as a decoded response.\<close>

record http_response =
  hr_status :: nat
  hr_request_id :: "string option"
  hr_text :: "(string, string) result"
  hr_json :: "(search_response, string) result"

definition search_result :: "(http_response, string) result \<Rightarrow> (search_response, string) result" where
  "search_result reply =
    and_then (map_err (\<lambda>e. ''API transport error: '' @ e) reply) (\<lambda>response.
    let request_id = (case hr_request_id response of None \<Rightarrow> '''' | Some v \<Rightarrow> v) in
    if \<not> (200 \<le> hr_status response \<and> hr_status response < 300) then
      let body = (case hr_text response of Inl _ \<Rightarrow> ''unable to read API error'' | Inr b \<Rightarrow> b) in
      Inl (''API '' @ show_nat (hr_status response) @ '': '' @ trim body @ '' (request '' @ request_id @ '')'')
    else map_err (\<lambda>e. ''API response decode error: '' @ e) (hr_json response))"

section \<open>The command line\<close>

record cli =
  cl_snapshot :: bool
  cl_query :: string
  cl_from :: "string option"
  cl_to :: "string option"
  cl_limit :: "64 word"

text \<open>Parsing stops with the usage text, with an error of its own, or with a limit that is not a number.\<close>

datatype cli_stop = HelpShown | CliError string | LimitUnparsable string

fun parse_arguments :: "cli \<Rightarrow> string list \<Rightarrow> (cli, cli_stop) result" where
  "parse_arguments c [] = Inr c"
| "parse_arguments c (argument # arguments) =
    (if argument = ''--snapshot'' then parse_arguments (c\<lparr>cl_snapshot := True\<rparr>) arguments
     else if argument = ''--query'' then (case arguments of
         [] \<Rightarrow> Inl (CliError ''--query requires a value'')
       | v # rest \<Rightarrow> parse_arguments (c\<lparr>cl_query := v\<rparr>) rest)
     else if argument = ''--from'' then (case arguments of
         [] \<Rightarrow> Inl (CliError ''--from requires a value'')
       | v # rest \<Rightarrow> parse_arguments (c\<lparr>cl_from := Some v\<rparr>) rest)
     else if argument = ''--to'' then (case arguments of
         [] \<Rightarrow> Inl (CliError ''--to requires a value'')
       | v # rest \<Rightarrow> parse_arguments (c\<lparr>cl_to := Some v\<rparr>) rest)
     else if argument = ''--limit'' then (case arguments of
         [] \<Rightarrow> Inl (CliError ''--limit requires a value'')
       | v # rest \<Rightarrow> (case parse_u64 v of
             None \<Rightarrow> Inl (LimitUnparsable v)
           | Some n \<Rightarrow> parse_arguments (c\<lparr>cl_limit := n\<rparr>) rest))
     else if argument = ''--help'' \<or> argument = ''-h'' then Inl HelpShown
     else Inl (CliError (''unknown argument: '' @ argument)))"

definition cli_default :: cli where
  "cli_default = \<lparr>cl_snapshot = False, cl_query = '''', cl_from = None, cl_to = None, cl_limit = 50\<rparr>"

definition cli_parse :: "string list \<Rightarrow> (cli, cli_stop) result" where
  "cli_parse arguments = and_then (parse_arguments cli_default arguments) (\<lambda>c.
    if (cl_from c \<noteq> None) \<noteq> (cl_to c \<noteq> None) then Inl (CliError ''--from and --to must be supplied together'')
    else if \<not> (1 \<le> cl_limit c \<and> cl_limit c \<le> 200) then Inl (CliError ''--limit must be 1..200'')
    else Inr c)"

section \<open>The application\<close>

record tui_app =
  ap_tenant_id :: string
  ap_view_index :: nat
  ap_query :: string
  ap_editing :: bool
  ap_loading :: bool
  ap_items :: "event_item list"
  ap_next_cursor :: string
  ap_status :: string
  ap_request_id :: string
  ap_partial :: bool
  ap_from :: string
  ap_to :: string
  ap_limit :: "64 word"

text \<open>The clock in nanoseconds and the time crate's formatting, which fails with a text.\<close>

definition default_time_range :: "(int \<Rightarrow> (string, string) result) \<Rightarrow> int \<Rightarrow> (string \<times> string, string) result" where
  "default_time_range format now =
    and_then (format (now - 15 * 60 * 10 ^ 9)) (\<lambda>from.
    and_then (format now) (\<lambda>to. Inr (from, to)))"

definition app_new :: "(int \<Rightarrow> (string, string) result) \<Rightarrow> int \<Rightarrow> string \<Rightarrow> cli \<Rightarrow> (tui_app, string) result" where
  "app_new format now tenant_id c =
    and_then (case (cl_from c, cl_to c) of (Some from, Some to) \<Rightarrow> Inr (from, to) | _ \<Rightarrow> default_time_range format now) (\<lambda>(from, to).
    Inr \<lparr>ap_tenant_id = tenant_id, ap_view_index = 2, ap_query = cl_query c, ap_editing = False, ap_loading = False,
      ap_items = [], ap_next_cursor = '''', ap_status = ''ready'', ap_request_id = '''', ap_partial = False,
      ap_from = from, ap_to = to, ap_limit = cl_limit c\<rparr>)"

definition app_request :: "tui_app \<Rightarrow> string \<Rightarrow> search_request" where
  "app_request app cursor =
    \<lparr>rq_query = ap_query app, rq_time_range = \<lparr>tr_from = ap_from app, tr_to = ap_to app\<rparr>, rq_cursor = cursor,
     rq_limit = ap_limit app, rq_sort = [\<lparr>so_field = ''event_time'', so_direction = ''desc''\<rparr>]\<rparr>"

definition apply_search :: "search_response \<Rightarrow> tui_app \<Rightarrow> tui_app" where
  "apply_search response app =
    app\<lparr>ap_items := sp_items response, ap_next_cursor := sp_next_cursor response,
      ap_request_id := se_request_id (sp_execution response),
      ap_partial := (se_partial_result (sp_execution response) \<or> se_truncated (sp_execution response)
        \<or> se_timed_out (sp_execution response)),
      ap_loading := False, ap_status := show_nat (length (sp_items response)) @ '' result(s)''\<rparr>"

definition apply_error :: "string \<Rightarrow> tui_app \<Rightarrow> tui_app" where
  "apply_error e app = app\<lparr>ap_loading := False, ap_status := e\<rparr>"

definition apply_result :: "(search_response, string) result \<Rightarrow> tui_app \<Rightarrow> tui_app" where
  "apply_result r = (case r of Inr response \<Rightarrow> apply_search response | Inl e \<Rightarrow> apply_error e)"

section \<open>Keys\<close>

datatype key_code = KeyEsc | KeyEnter | KeyBackspace | KeyTab | KeyBackTab | KeyUp | KeyDown | KeyChar nat | KeyOther

record key_event =
  ky_code :: key_code
  ky_control :: bool

datatype action =
    ActQuit | ActNextView | ActPreviousView | ActBeginSearchEdit | ActCommitSearch | ActCancelEdit | ActBackspace
  | ActInsert nat | ActRefresh | ActNextPage | ActNone

definition keymap :: "key_event \<Rightarrow> bool \<Rightarrow> action" where
  "keymap key editing =
    (if editing then (case ky_code key of
        KeyEsc \<Rightarrow> ActCancelEdit
      | KeyEnter \<Rightarrow> ActCommitSearch
      | KeyBackspace \<Rightarrow> ActBackspace
      | KeyChar character \<Rightarrow> if \<not> ky_control key then ActInsert character else ActNone
      | _ \<Rightarrow> ActNone)
     else (case ky_code key of
        KeyTab \<Rightarrow> ActNextView | KeyDown \<Rightarrow> ActNextView
      | KeyBackTab \<Rightarrow> ActPreviousView | KeyUp \<Rightarrow> ActPreviousView
      | KeyChar c \<Rightarrow>
          if c = of_char CHR ''q'' then ActQuit
          else if c = of_char CHR ''/'' then ActBeginSearchEdit
          else if c = of_char CHR ''r'' then ActRefresh
          else if c = of_char CHR ''n'' then ActNextPage else ActNone
      | _ \<Rightarrow> ActNone))"

text \<open>The new state and the request sent to the worker, if any; \<open>None\<close> leaves the loop. Sending fails only
  when the worker has stopped, and it runs as long as the loop holds its channel.\<close>

definition send :: "tui_app \<Rightarrow> string \<Rightarrow> (tui_app \<times> search_request option) option" where
  "send app cursor = Some (app, Some (app_request app cursor))"

definition handle_action :: "action \<Rightarrow> tui_app \<Rightarrow> (tui_app \<times> search_request option) option" where
  "handle_action act app = (case act of
      ActQuit \<Rightarrow> None
    | ActNextView \<Rightarrow> Some (app\<lparr>ap_view_index := (ap_view_index app + 1) mod length VIEWS\<rparr>, None)
    | ActPreviousView \<Rightarrow> Some (app\<lparr>ap_view_index := (ap_view_index app + length VIEWS - 1) mod length VIEWS\<rparr>, None)
    | ActBeginSearchEdit \<Rightarrow> Some (app\<lparr>ap_view_index := 2, ap_editing := True, ap_status := ''editing query''\<rparr>, None)
    | ActCommitSearch \<Rightarrow>
        send (app\<lparr>ap_editing := False, ap_loading := True, ap_next_cursor := '''', ap_status := ''loading search''\<rparr>) ''''
    | ActCancelEdit \<Rightarrow> Some (app\<lparr>ap_editing := False, ap_status := ''query edit cancelled''\<rparr>, None)
    | ActBackspace \<Rightarrow> Some (app\<lparr>ap_query := string_pop (ap_query app)\<rparr>, None)
    | ActInsert character \<Rightarrow> Some (app\<lparr>ap_query := string_push (ap_query app) character\<rparr>, None)
    | ActRefresh \<Rightarrow> send (app\<lparr>ap_loading := True, ap_status := ''refreshing''\<rparr>) ''''
    | ActNextPage \<Rightarrow>
        if ap_next_cursor app \<noteq> ''''
        then send (app\<lparr>ap_loading := True, ap_status := ''loading next page''\<rparr>) (ap_next_cursor app)
        else Some (app, None)
    | ActNone \<Rightarrow> Some (app, None))"

section \<open>The frame\<close>

definition json_get :: "'n json \<Rightarrow> string \<Rightarrow> 'n json option" where
  "json_get v key = (case v of JObject members \<Rightarrow> json_object_get members key | _ \<Rightarrow> None)"

fun json_as_str :: "'n json \<Rightarrow> string option" where
  "json_as_str (JString s) = Some s"
| "json_as_str _ = None"

definition or_dash :: "string option \<Rightarrow> string" where
  "or_dash v = (case v of None \<Rightarrow> ''-'' | Some s \<Rightarrow> s)"

text \<open>The pointer \<open>/user/name\<close>: neither token is an array index.\<close>

definition event_user :: "event_item \<Rightarrow> string" where
  "event_user item = or_dash (Option.bind (Option.bind (json_get (ei_ocsf_event item) ''user'') (\<lambda>u. json_get u ''name'')) json_as_str)"

definition event_message :: "event_item \<Rightarrow> string" where
  "event_message item = or_dash (Option.bind (json_get (ei_ocsf_event item) ''message'') json_as_str)"

definition event_line :: "event_item \<Rightarrow> string" where
  "event_line item = ei_event_time item @ ''  sev=''
     @ (case ei_severity_id item of None \<Rightarrow> ''-'' | Some v \<Rightarrow> show_nat (unat v))
     @ ''  user='' @ event_user item @ ''  '' @ event_message item @ ''  '' @ ei_normalized_event_id item"

datatype workspace =
    EventsView string string "string list"
  | ReservedView string string

record tui_frame =
  fr_header :: string
  fr_navigation :: "string list"
  fr_workspace :: workspace
  fr_footer :: string

definition render_navigation :: "tui_app \<Rightarrow> string list" where
  "render_navigation app = map (\<lambda>(index, view). (if index = ap_view_index app then ''> '' else ''  '') @ view) (enumerate 0 VIEWS)"

definition render_events :: "tui_app \<Rightarrow> workspace" where
  "render_events app = EventsView (if ap_editing app then ''Query [editing]'' else ''Query'') (ap_query app) (map event_line (ap_items app))"

definition render_workspace :: "string \<Rightarrow> tui_app \<Rightarrow> workspace" where
  "render_workspace view app =
    (if view = ''Search'' \<or> view = ''Events'' then render_events app
     else ReservedView view (view @ [CHR 0x0A, CHR 0x0A] @ ''This canonical view is reserved in the v1 navigation.''
       @ [CHR 0x0A] @ ''Step 32 first vertical makes Search/Events operational through the API.''))"

text \<open>Indexing \<open>VIEWS\<close> panics out of range: \<open>None\<close>.\<close>

definition render :: "tui_app \<Rightarrow> tui_frame option" where
  "render app =
    (if ap_view_index app < length VIEWS then
       let view = VIEWS ! ap_view_index app in
       Some \<lparr>fr_header = ''CERBERO  tenant='' @ ap_tenant_id app @ ''  view='' @ view @ ''  ''
           @ (if ap_loading app then ''LOADING'' else ''READY''),
         fr_navigation = render_navigation app,
         fr_workspace = render_workspace view app,
         fr_footer = ap_status app @ ''  request='' @ (if ap_request_id app = '''' then ''-'' else ap_request_id app)
           @ ''  / edit  r refresh  n next  Tab views  q quit'' @ (if ap_partial app then ''  PARTIAL'' else '''')\<rparr>
     else None)"

section \<open>The snapshot\<close>

definition show_bool :: "bool \<Rightarrow> string" where
  "show_bool b = (if b then ''true'' else ''false'')"

definition snapshot_line :: "event_item \<Rightarrow> string" where
  "snapshot_line item = ei_normalized_event_id item @ '' | tenant='' @ ei_tenant_id item @ '' | '' @ ei_event_time item
     @ '' | user='' @ event_user item @ '' | '' @ event_message item"

text \<open>The lines a snapshot prints, given the reply to each request.\<close>

definition snapshot ::
  "(int \<Rightarrow> (string, string) result) \<Rightarrow> int \<Rightarrow> (http_post \<Rightarrow> (http_response, string) result) \<Rightarrow> api_client \<Rightarrow> cli
     \<Rightarrow> (string list, string) result" where
  "snapshot format now http client c =
    and_then (app_new format now (ac_tenant_id client) c) (\<lambda>app.
    and_then (search_result (http (search_post client (app_request app '''')))) (\<lambda>response.
    Inr ([''CERBERO Search snapshot tenant='' @ ac_tenant_id client, ''query='' @ cl_query c,
       ''request_id='' @ se_request_id (sp_execution response),
       ''partial='' @ show_bool (se_partial_result (sp_execution response))]
      @ map snapshot_line (sp_items response))))"

section \<open>The interactive loop and the worker\<close>

text \<open>The loop drains the results, then polls for a key, then draws again. The result channel carries results;
  each is kept here with the request it answers, and \<open>ts_shown\<close> keeps those the loop has applied, so
  that properties can speak of them.\<close>

datatype loop_phase = Draining | Polling | Quit

record tui_state =
  ts_app :: tui_app
  ts_phase :: loop_phase
  ts_commands :: "search_request list"
  ts_busy :: "search_request option"
  ts_results :: "(search_request \<times> (search_response, string) result) list"
  ts_shown :: "(search_request \<times> (search_response, string) result) list"

definition tui_start :: "tui_app \<Rightarrow> tui_state" where
  "tui_start app =
    \<lparr>ts_app = app\<lparr>ap_loading := True, ap_status := ''loading search''\<rparr>, ts_phase = Draining,
     ts_commands = [app_request app ''''], ts_busy = None, ts_results = [], ts_shown = []\<rparr>"

definition press :: "key_event \<Rightarrow> tui_state \<Rightarrow> tui_state" where
  "press key s = (case handle_action (keymap key (ap_editing (ts_app s))) (ts_app s) of
      None \<Rightarrow> s\<lparr>ts_phase := Quit\<rparr>
    | Some (app, request) \<Rightarrow> s\<lparr>ts_app := app, ts_phase := Draining,
        ts_commands := ts_commands s @ (case request of None \<Rightarrow> [] | Some r \<Rightarrow> [r])\<rparr>)"

text \<open>The worker takes one command at a time and answers it with the outcome of its HTTP request.\<close>

definition worker_receive :: "tui_state \<Rightarrow> tui_state option" where
  "worker_receive s = (case (ts_busy s, ts_commands s) of
      (None, r # rs) \<Rightarrow> Some (s\<lparr>ts_commands := rs, ts_busy := Some r\<rparr>)
    | _ \<Rightarrow> None)"

definition worker_answer :: "(http_response, string) result \<Rightarrow> tui_state \<Rightarrow> tui_state option" where
  "worker_answer reply s = (case ts_busy s of
      Some r \<Rightarrow> Some (s\<lparr>ts_busy := None, ts_results := ts_results s @ [(r, search_result reply)]\<rparr>)
    | None \<Rightarrow> None)"

text \<open>Steps: the worker receives a command, and answers it with some outcome of its HTTP request; the loop
  applies a result, finds the channel empty, sees no key within the poll (or an event that is no key),
  or handles a key.\<close>

inductive tui_step :: "tui_state \<Rightarrow> tui_state \<Rightarrow> bool" where
  worker_receives: "worker_receive s = Some s' \<Longrightarrow> tui_step s s'"
| worker_answers: "worker_answer reply s = Some s' \<Longrightarrow> tui_step s s'"
| loop_applies: "ts_phase s = Draining \<Longrightarrow> ts_results s = (r, outcome) # rest \<Longrightarrow>
    tui_step s (s\<lparr>ts_app := apply_result outcome (ts_app s), ts_results := rest, ts_shown := ts_shown s @ [(r, outcome)]\<rparr>)"
| loop_drained: "ts_phase s = Draining \<Longrightarrow> ts_results s = [] \<Longrightarrow> tui_step s (s\<lparr>ts_phase := Polling\<rparr>)"
| loop_no_key: "ts_phase s = Polling \<Longrightarrow> tui_step s (s\<lparr>ts_phase := Draining\<rparr>)"
| loop_key: "ts_phase s = Polling \<Longrightarrow> tui_step s (press key s)"

inductive tui_reachable :: "tui_app \<Rightarrow> tui_state \<Rightarrow> bool" for app0 where
  tui_begins: "tui_reachable app0 (tui_start app0)"
| tui_steps: "tui_reachable app0 s \<Longrightarrow> tui_step s s' \<Longrightarrow> tui_reachable app0 s'"

inductive_cases tui_stepE: "tui_step s s'"

end
