(* ===== verification/Tui_Correctness.thy ===== *)
theory Tui_Correctness
  imports Tui
begin

text \<open>
  Properties of the terminal interface: the command line, editing, the invariant of the loop and its
  worker, and two flaws: a cursor reused for another query, and an API address that is not local.
\<close>

section \<open>The command line\<close>

lemma cli_parse_Inr:
  assumes "cli_parse arguments = Inr c"
  shows "1 \<le> cl_limit c" "cl_limit c \<le> 200" "cl_from c = None \<longleftrightarrow> cl_to c = None"
  using assms by (auto simp: cli_parse_def result_simps split: if_splits)

section \<open>Editing\<close>

text \<open>Backspace takes back exactly one typed character, however many bytes it has.\<close>

lemma continuation_byte: "is_continuation (char_of (128 + n mod 64 :: nat))"
  by (simp add: is_continuation_def)

lemma first_byte: "n < 0x80 \<or> 0xC0 \<le> n \<Longrightarrow> n < 256 \<Longrightarrow> \<not> is_continuation (char_of (n :: nat))"
  by (auto simp: is_continuation_def)

lemma encode_utf8_split:
  assumes "is_scalar c"
  obtains b bs where "encode_utf8 c = b # bs" "\<not> is_continuation b" "list_all is_continuation bs"
proof -
  have bound: "c < 0x110000" using assms by (auto simp: is_scalar_def)
  consider "c < 0x80" | "0x80 \<le> c" "c < 0x800" | "0x800 \<le> c" "c < 0x10000" | "0x10000 \<le> c" by linarith
  then show thesis
  proof cases
    case 1
    then show thesis by (intro that [of "char_of c" "[]"] first_byte) (simp_all add: encode_utf8_def)
  next
    case 2
    then show thesis
      by (intro that [of "char_of (0xC0 + c div 64)" "[char_of (0x80 + c mod 64)]"] first_byte)
        (simp_all add: encode_utf8_def continuation_byte)
  next
    case 3
    then show thesis
      by (intro that [of "char_of (0xE0 + c div 4096)" "[char_of (0x80 + c div 64 mod 64), char_of (0x80 + c mod 64)]"] first_byte)
        (simp_all add: encode_utf8_def continuation_byte)
  next
    case 4
    then show thesis
      using bound
      by (intro that [of "char_of (0xF0 + c div 262144)"
          "[char_of (0x80 + c div 4096 mod 64), char_of (0x80 + c div 64 mod 64), char_of (0x80 + c mod 64)]"] first_byte)
        (simp_all add: encode_utf8_def continuation_byte)
  qed
qed

lemma pop_push [simp]:
  assumes "is_scalar c"
  shows "string_pop (string_push s c) = s"
proof -
  obtain b bs where b: "encode_utf8 c = b # bs" "\<not> is_continuation b" "list_all is_continuation bs"
    using assms by (rule encode_utf8_split)
  then have "dropWhile is_continuation (rev bs @ b # rev s) = b # rev s"
    by (subst dropWhile_append2) (auto simp: list_all_iff)
  with b(1) show ?thesis by (simp add: string_pop_def string_push_def)
qed

section \<open>The invariant of the loop\<close>

definition pending :: "tui_state \<Rightarrow> search_request list" where
  "pending s = map fst (ts_results s) @ (case ts_busy s of None \<Rightarrow> [] | Some r \<Rightarrow> [r]) @ ts_commands s"

fun last_items :: "(search_request \<times> (search_response, string) result) list \<Rightarrow> event_item list \<Rightarrow> event_item list" where
  "last_items [] items = items"
| "last_items ((r, Inr response) # rest) items = last_items rest (sp_items response)"
| "last_items ((r, Inl e) # rest) items = last_items rest items"

text \<open>The cursor was handed out by an answer the loop has applied.\<close>

definition issued :: "(search_request \<times> (search_response, string) result) list \<Rightarrow> string \<Rightarrow> bool" where
  "issued shown cursor \<longleftrightarrow> cursor = '''' \<or> (\<exists>r response. (r, Inr response) \<in> set shown \<and> cursor = sp_next_cursor response)"

definition well_sent :: "tui_app \<Rightarrow> tui_state \<Rightarrow> search_request \<Rightarrow> bool" where
  "well_sent app0 s r \<longleftrightarrow> rq_limit r = ap_limit app0 \<and> rq_time_range r = \<lparr>tr_from = ap_from app0, tr_to = ap_to app0\<rparr>
     \<and> rq_sort r = [\<lparr>so_field = ''event_time'', so_direction = ''desc''\<rparr>] \<and> issued (ts_shown s) (rq_cursor r)"

definition same_session :: "tui_app \<Rightarrow> tui_app \<Rightarrow> bool" where
  "same_session app0 app \<longleftrightarrow> ap_tenant_id app = ap_tenant_id app0 \<and> ap_from app = ap_from app0 \<and> ap_to app = ap_to app0
     \<and> ap_limit app = ap_limit app0"

definition tui_ok :: "tui_app \<Rightarrow> tui_state \<Rightarrow> bool" where
  "tui_ok app0 s \<longleftrightarrow> ap_view_index (ts_app s) < length VIEWS \<and> same_session app0 (ts_app s)
     \<and> (ap_loading (ts_app s) \<longrightarrow> pending s \<noteq> []) \<and> list_all (well_sent app0 s) (map fst (ts_shown s) @ pending s)
     \<and> issued (ts_shown s) (ap_next_cursor (ts_app s)) \<and> ap_items (ts_app s) = last_items (ts_shown s) (ap_items app0)"

lemma last_items_append: "last_items (shown @ [(r, outcome)]) items =
    (case outcome of Inl _ \<Rightarrow> last_items shown items | Inr response \<Rightarrow> sp_items response)"
  by (induction shown items rule: last_items.induct) (auto split: sum.splits)

lemma issued_empty [simp]: "issued shown ''''"
  by (simp add: issued_def)

lemma issued_append: "issued shown cursor \<Longrightarrow> issued (shown @ new) cursor"
  by (auto simp: issued_def)

lemma well_sent_shown: "well_sent app0 s r \<Longrightarrow> ts_shown s' = ts_shown s @ new \<Longrightarrow> well_sent app0 s' r"
  by (auto simp: well_sent_def intro: issued_append)

lemma views_length: "length VIEWS = 11"
  by (simp add: VIEWS_def)

text \<open>What an action does to the parts the invariant speaks of.\<close>

lemma handle_action_effect:
  assumes "handle_action act app = Some (app', request)" "ap_view_index app < length VIEWS"
  shows "ap_view_index app' < length VIEWS" "same_session app app'" "ap_items app' = ap_items app"
    "ap_next_cursor app' \<in> {'''', ap_next_cursor app}"
    "(request = None \<and> ap_loading app' = ap_loading app)
      \<or> (\<exists>cursor \<in> {'''', ap_next_cursor app}. request = Some (app_request app' cursor))"
  using assms
  by (cases act; fastforce simp: handle_action_def send_def same_session_def views_length split: if_splits)+

lemma press_ok:
  assumes "tui_ok app0 s"
  shows "tui_ok app0 (press key s)"
proof (cases "handle_action (keymap key (ap_editing (ts_app s))) (ts_app s)")
  case None
  then have "press key s = s\<lparr>ts_phase := Quit\<rparr>" by (simp add: press_def)
  then show ?thesis using assms by (simp add: tui_ok_def pending_def well_sent_def list_all_iff)
next
  case (Some p)
  obtain app request where p: "p = (app, request)" by (cases p)
  have view: "ap_view_index (ts_app s) < length VIEWS" using assms by (simp add: tui_ok_def)
  note eff = handle_action_effect [OF Some [unfolded p] view]
  have new: "press key s = s\<lparr>ts_app := app, ts_phase := Draining,
      ts_commands := ts_commands s @ (case request of None \<Rightarrow> [] | Some r \<Rightarrow> [r])\<rparr>"
    by (simp add: press_def Some p)
  have sent: "well_sent app0 (press key s) r" if "request = Some r" for r
    using that eff(2,5) assms unfolding new
    by (auto simp: well_sent_def app_request_def tui_ok_def same_session_def)
  have old: "well_sent app0 (press key s) r" if "well_sent app0 s r" for r
    using that by (simp add: new well_sent_def)
  have "pending (press key s) = pending s @ (case request of None \<Rightarrow> [] | Some r \<Rightarrow> [r])"
    by (simp add: new pending_def)
  moreover have "ts_app (press key s) = app" "ts_shown (press key s) = ts_shown s" by (simp_all add: new)
  ultimately show ?thesis
    using assms eff sent old unfolding tui_ok_def
    by (auto simp: list_all_iff same_session_def split: option.splits)
qed

lemma applies_ok:
  assumes "tui_ok app0 s" "ts_results s = (r, outcome) # rest"
  shows "tui_ok app0 (s\<lparr>ts_app := apply_result outcome (ts_app s), ts_results := rest, ts_shown := ts_shown s @ [(r, outcome)]\<rparr>)"
    (is "tui_ok app0 ?s'")
proof -
  have same: "map fst (ts_shown ?s') @ pending ?s' = map fst (ts_shown s) @ pending s"
    using assms(2) by (simp add: pending_def)
  have "well_sent app0 ?s' q" if "well_sent app0 s q" for q by (rule well_sent_shown [OF that]) simp
  then have "list_all (well_sent app0 ?s') (map fst (ts_shown s) @ pending s)"
    using assms(1) unfolding tui_ok_def list_all_iff by blast
  then have sent: "list_all (well_sent app0 ?s') (map fst (ts_shown ?s') @ pending ?s')" by (simp only: same)
  have "issued (ts_shown ?s') (ap_next_cursor (ts_app ?s'))"
    using assms(1) by (cases outcome) (auto simp: issued_def tui_ok_def apply_result_def apply_search_def apply_error_def)
  moreover have "ap_view_index (ts_app ?s') = ap_view_index (ts_app s)" "same_session (ts_app s) (ts_app ?s')" "\<not> ap_loading (ts_app ?s')"
    by (simp_all add: apply_result_def apply_search_def apply_error_def same_session_def split: sum.splits)
  moreover have "ap_items (ts_app ?s') = last_items (ts_shown ?s') (ap_items app0)"
    using assms(1)
    by (cases outcome) (simp_all add: last_items_append tui_ok_def apply_result_def apply_search_def apply_error_def)
  ultimately show ?thesis using assms(1) sent unfolding tui_ok_def by (simp add: same_session_def)
qed

lemma start_ok: "ap_view_index app0 < length VIEWS \<Longrightarrow> ap_next_cursor app0 = '''' \<Longrightarrow> tui_ok app0 (tui_start app0)"
  by (simp add: tui_ok_def tui_start_def pending_def well_sent_def app_request_def same_session_def issued_def)

lemma tui_step_ok:
  assumes "tui_step s s'" "tui_ok app0 s"
  shows "tui_ok app0 s'"
  using assms
proof cases
  case (loop_applies r outcome rest)
  then show ?thesis using applies_ok assms(2) by simp
next
  case (loop_key key)
  then show ?thesis using press_ok assms(2) by simp
next
  case worker_receives
  then obtain r rs where "ts_commands s = r # rs" "ts_busy s = None" "s' = s\<lparr>ts_commands := rs, ts_busy := Some r\<rparr>"
    by (auto simp: worker_receive_def split: option.splits list.splits)
  then show ?thesis using assms(2) by (auto simp: tui_ok_def pending_def well_sent_def list_all_iff)
next
  case (worker_answers reply)
  then obtain r where "ts_busy s = Some r" "s' = s\<lparr>ts_busy := None, ts_results := ts_results s @ [(r, search_result reply)]\<rparr>"
    by (auto simp: worker_answer_def split: option.splits)
  then show ?thesis using assms(2) by (auto simp: tui_ok_def pending_def well_sent_def list_all_iff)
qed (auto simp: tui_ok_def pending_def well_sent_def list_all_iff)

lemma reachable_ok:
  assumes "tui_reachable app0 s" "ap_view_index app0 < length VIEWS" "ap_next_cursor app0 = ''''"
  shows "tui_ok app0 s"
  using assms by (induction rule: tui_reachable.induct) (auto intro: start_ok tui_step_ok)

text \<open>C29: the terminal interface never gets stuck or lies about what it shows. However keys, replies and the
  two tasks interleave, in every reachable state the frame can be drawn, the tenant of the session is
  the one configured, a loading indicator means that a request is on its way, every request ever sent
  keeps the time range, the newest-first order and a limit of 1 to 200 and carries no cursor but one
  handed out before, and the events shown are those of the latest successful reply.\<close>

theorem tui_session_invariant:
  assumes "cli_parse arguments = Inr c" "app_new format now tenant_id c = Inr app0" "tui_reachable app0 s"
  shows "render (ts_app s) \<noteq> None \<and> ap_tenant_id (ts_app s) = tenant_id
    \<and> (ap_loading (ts_app s) \<longrightarrow> pending s \<noteq> [])
    \<and> list_all (\<lambda>r. well_sent app0 s r \<and> 1 \<le> rq_limit r \<and> rq_limit r \<le> 200) (map fst (ts_shown s) @ pending s)
    \<and> ap_items (ts_app s) = last_items (ts_shown s) []"
proof -
  have app0: "ap_view_index app0 = 2" "ap_next_cursor app0 = ''''" "ap_items app0 = []" "ap_tenant_id app0 = tenant_id"
    "ap_limit app0 = cl_limit c"
    using assms(2) by (auto simp: app_new_def result_simps)
  then have ok: "tui_ok app0 s" using reachable_ok [OF assms(3)] by (simp add: views_length)
  moreover have "1 \<le> rq_limit r \<and> rq_limit r \<le> 200" if "well_sent app0 s r" for r
    using that app0(5) cli_parse_Inr [OF assms(1)] by (simp add: well_sent_def)
  ultimately show ?thesis
    using app0 by (auto simp: tui_ok_def same_session_def render_def Let_def list_all_iff)
qed

section \<open>A cursor for another query\<close>

text \<open>Runs of the loop, for examples.\<close>

lemma reachable_trans [trans]: "tui_reachable app0 s \<Longrightarrow> tui_step s s' \<Longrightarrow> tui_reachable app0 s'"
  by (rule tui_steps)

lemma reachable_first_page:
  "tui_reachable app0 ((tui_start app0)\<lparr>ts_app := apply_result (search_result reply) (ts_app (tui_start app0)), ts_phase := Polling,
     ts_commands := [], ts_shown := [(app_request app0 '''', search_result reply)]\<rparr>)"
proof -
  let ?r = "app_request app0 ''''"
  let ?s1 = "(tui_start app0)\<lparr>ts_commands := [], ts_busy := Some ?r\<rparr>"
  let ?s2 = "(tui_start app0)\<lparr>ts_commands := [], ts_results := [(?r, search_result reply)]\<rparr>"
  let ?s3 = "(tui_start app0)\<lparr>ts_app := apply_result (search_result reply) (ts_app (tui_start app0)), ts_commands := [],
    ts_shown := [(?r, search_result reply)]\<rparr>"
  have "tui_reachable app0 (tui_start app0)" by (rule tui_begins)
  also have "tui_step (tui_start app0) ?s1" by (rule worker_receives) (simp add: tui_start_def worker_receive_def)
  also have "tui_step ?s1 ?s2" by (rule worker_answers [of reply]) (simp add: tui_start_def worker_answer_def)
  also have "tui_step ?s2 ?s3" using loop_applies [of ?s2 ?r "search_result reply" "[]"] by (simp add: tui_start_def)
  also have "tui_step ?s3 (?s3\<lparr>ts_phase := Polling\<rparr>)" using loop_drained [of ?s3] by (simp add: tui_start_def)
  finally show ?thesis by (simp add: tui_start_def)
qed

text \<open>A key pressed while the loop polls and nothing has arrived; the loop polls again.\<close>

lemma reachable_key:
  assumes "tui_reachable app0 s" "ts_phase s = Polling" "ts_results s = []"
    and "handle_action (keymap key (ap_editing (ts_app s))) (ts_app s) = Some (app, request)"
  shows "tui_reachable app0 (s\<lparr>ts_app := app, ts_commands := ts_commands s @ (case request of None \<Rightarrow> [] | Some r \<Rightarrow> [r])\<rparr>)"
proof -
  have pressed: "press key s = s\<lparr>ts_app := app, ts_phase := Draining,
      ts_commands := ts_commands s @ (case request of None \<Rightarrow> [] | Some r \<Rightarrow> [r])\<rparr>"
    using assms(4) by (simp add: press_def)
  note assms(1)
  also have "tui_step s (press key s)" using assms(2) by (rule loop_key)
  also have "tui_step (press key s) ((press key s)\<lparr>ts_phase := Polling\<rparr>)"
    using assms(3) by (intro loop_drained) (simp_all add: pressed)
  also have "(press key s)\<lparr>ts_phase := Polling\<rparr>
      = s\<lparr>ts_app := app, ts_commands := ts_commands s @ (case request of None \<Rightarrow> [] | Some r \<Rightarrow> [r])\<rparr>"
    unfolding pressed using assms(2) by (cases s) simp
  finally show ?thesis .
qed

text \<open>C39: cancelling an edit keeps the edited text, and the next page then asks for another query with the old
  query's cursor, which the search API refuses. Once the first page of any query has been shown with a
  cursor, starting an edit, typing a character, cancelling and asking for the next page sends a
  request whose query is not the one its cursor was issued for.\<close>

theorem cancelled_edit_breaks_paging:
  assumes "app_new format now tenant_id c = Inr app0" "search_result reply = Inr response" "sp_next_cursor response \<noteq> ''''"
    and "is_scalar character"
  shows "\<exists>s r. tui_reachable app0 s \<and> ts_shown s = [(app_request app0 '''', Inr response)] \<and> ts_commands s = [r]
    \<and> rq_cursor r = sp_next_cursor response \<and> rq_query r = string_push (cl_query c) character \<and> rq_query r \<noteq> cl_query c
    \<and> ap_status (ts_app s) = ''loading next page''"
proof -
  have app0: "ap_query app0 = cl_query c" "\<not> ap_editing app0" using assms(1) by (auto simp: app_new_def result_simps)
  have different: "string_push (cl_query c) character \<noteq> cl_query c"
    using assms(4) by (metis append_self_conv encode_utf8_split list.distinct(1) string_push_def)
  define s0 where "s0 = (tui_start app0)\<lparr>ts_app := apply_result (Inr response) (ts_app (tui_start app0)), ts_phase := Polling,
     ts_commands := [], ts_shown := [(app_request app0 '''', Inr response)]\<rparr>"
  have shown: "ts_phase s0 = Polling" "ts_results s0 = []" "ts_commands s0 = []" "ts_shown s0 = [(app_request app0 '''', Inr response)]"
    "ap_query (ts_app s0) = cl_query c" "\<not> ap_editing (ts_app s0)" "ap_next_cursor (ts_app s0) = sp_next_cursor response"
    using app0 by (simp_all add: s0_def tui_start_def apply_result_def apply_search_def)
  note keys = handle_action_def keymap_def send_def shown assms(3)
  define a1 where "a1 = (ts_app s0)\<lparr>ap_view_index := 2, ap_editing := True, ap_status := ''editing query''\<rparr>"
  define a2 where "a2 = a1\<lparr>ap_query := string_push (ap_query a1) character\<rparr>"
  define a3 where "a3 = a2\<lparr>ap_editing := False, ap_status := ''query edit cancelled''\<rparr>"
  define a4 where "a4 = a3\<lparr>ap_loading := True, ap_status := ''loading next page''\<rparr>"
  have "tui_reachable app0 s0" using reachable_first_page [of app0 reply] by (simp add: s0_def assms(2))
  then have "tui_reachable app0 (s0\<lparr>ts_app := a1, ts_commands := []\<rparr>)"
    using reachable_key [of app0 s0 "\<lparr>ky_code = KeyChar 47, ky_control = False\<rparr>" a1 None] by (simp add: keys a1_def)
  then have "tui_reachable app0 (s0\<lparr>ts_app := a2, ts_commands := []\<rparr>)"
    using reachable_key [of app0 "s0\<lparr>ts_app := a1, ts_commands := []\<rparr>" "\<lparr>ky_code = KeyChar character, ky_control = False\<rparr>" a2 None]
    by (simp add: keys a1_def a2_def)
  then have "tui_reachable app0 (s0\<lparr>ts_app := a3, ts_commands := []\<rparr>)"
    using reachable_key [of app0 "s0\<lparr>ts_app := a2, ts_commands := []\<rparr>" "\<lparr>ky_code = KeyEsc, ky_control = False\<rparr>" a3 None]
    by (simp add: keys a1_def a2_def a3_def)
  then have "tui_reachable app0 (s0\<lparr>ts_app := a4, ts_commands := [app_request a4 (sp_next_cursor response)]\<rparr>)"
    using reachable_key [of app0 "s0\<lparr>ts_app := a3, ts_commands := []\<rparr>" "\<lparr>ky_code = KeyChar 110, ky_control = False\<rparr>" a4
        "Some (app_request a4 (sp_next_cursor response))"]
    by (simp add: keys a1_def a2_def a3_def a4_def)
  moreover have "ap_query a4 = string_push (cl_query c) character" "ap_status a4 = ''loading next page''"
    by (simp_all add: a1_def a2_def a3_def a4_def shown)
  ultimately show ?thesis
    using different shown(4) unfolding app_request_def
    by (intro exI [of _ "s0\<lparr>ts_app := a4, ts_commands := [app_request a4 (sp_next_cursor response)]\<rparr>"]
        exI [of _ "app_request a4 (sp_next_cursor response)"]) (simp add: app_request_def)
qed

section \<open>The address of the API\<close>

text \<open>The host of an \<open>http\<close> URL (RFC 3986, section 3.2): what follows the user information of the authority, up to
  the port.\<close>

definition url_authority :: "string \<Rightarrow> string" where
  "url_authority url = takeWhile (\<lambda>c. c \<notin> {CHR ''/'', CHR ''?'', CHR ''#''}) (drop 7 url)"

definition url_host :: "string \<Rightarrow> string" where
  "url_host url = takeWhile (\<lambda>c. c \<noteq> CHR '':'') (rev (takeWhile (\<lambda>c. c \<noteq> CHR ''@'') (rev (url_authority url))))"

lemma host_after_userinfo:
  assumes "list_all (\<lambda>c. c \<notin> {CHR ''/'', CHR ''?'', CHR ''#'', CHR '':'', CHR ''@''}) host"
    "list_all (\<lambda>c. c \<notin> {CHR ''/'', CHR ''?'', CHR ''#''}) userinfo"
  shows "url_host (''http://'' @ userinfo @ ''@'' @ host @ CHR ''/'' # path) = host"
proof -
  have "url_authority (''http://'' @ userinfo @ ''@'' @ host @ CHR ''/'' # path) = userinfo @ ''@'' @ host"
    using assms by (simp add: url_authority_def takeWhile_append list_all_iff takeWhile_eq_all_conv [THEN iffD2] conj_commute)
  moreover have "takeWhile (\<lambda>c. c \<noteq> CHR ''@'') (rev host @ CHR ''@'' # rev userinfo) = rev host"
    using assms(1) by (subst takeWhile_append2) (auto simp: list_all_iff)
  moreover have "takeWhile (\<lambda>c. c \<noteq> CHR '':'') host = host" using assms(1) by (auto simp: takeWhile_eq_all_conv list_all_iff)
  ultimately show ?thesis by (simp add: url_host_def)
qed

text \<open>C40: the loopback check can be passed with any host. An address that starts with the loopback text as
  user information is accepted, and every search then goes to the host behind it, with the tenant in
  its header.\<close>

theorem loopback_check_passed_by_userinfo:
  assumes "list_all (\<lambda>c. c \<notin> {CHR ''/'', CHR ''?'', CHR ''#'', CHR '':'', CHR ''@''}) host" "host \<noteq> []"
    and "env ''CERBERO_TUI_API_URL'' = Some (''http://127.0.0.1:80@'' @ host)" "env ''CERBERO_TUI_TENANT_ID'' = Some tenant_id"
  shows "\<exists>client. client_from_env env (Inr ()) = Inr client \<and> url_host (hp_url (search_post client request)) = host
    \<and> hp_headers (search_post client request) = [(TENANT_HEADER, tenant_id)]"
proof -
  have "last host \<noteq> CHR ''/''" using assms(1,2) by (auto simp: list_all_iff)
  then have "trim_end_matches CHR ''/'' (''http://127.0.0.1:80@'' @ host) = ''http://127.0.0.1:80@'' @ host"
    using assms(2) by (cases host rule: rev_cases) (simp_all add: trim_end_matches_def)
  then have "client_from_env env (Inr ()) = Inr \<lparr>ac_base_url = ''http://127.0.0.1:80@'' @ host, ac_tenant_id = tenant_id\<rparr>"
    using assms(3,4) by (simp add: client_from_env_def starts_with_def)
  moreover have "url_host (''http://127.0.0.1:80@'' @ host @ ''/api/v1/search'') = host"
    using host_after_userinfo [OF assms(1), of "''127.0.0.1:80''" "''api/v1/search''"] by simp
  ultimately show ?thesis by (simp add: search_post_def)
qed

section \<open>Witnesses\<close>

definition sample_arguments :: "string list" where
  "sample_arguments = [''--query'', ''a'', ''--from'', ''f'', ''--to'', ''t'', ''--limit'', show_nat 200]"

definition sample_cli :: cli where
  "sample_cli = \<lparr>cl_snapshot = False, cl_query = ''a'', cl_from = Some ''f'', cl_to = Some ''t'', cl_limit = 200\<rparr>"

definition sample_app :: tui_app where
  "sample_app = projr (app_new (\<lambda>_. Inl ''no time'') 0 ''t1'' sample_cli)"

definition sample_reply :: "(http_response, string) result" where
  "sample_reply = Inr \<lparr>hr_status = 200, hr_request_id = None, hr_text = Inr '''',
     hr_json = Inr \<lparr>sp_items = [], sp_next_cursor = ''c1'',
       sp_execution = \<lparr>se_request_id = ''r1'', se_partial_result = True, se_truncated = True, se_timed_out = False\<rparr>\<rparr>\<rparr>"

lemma sample_cli_parsed: "cli_parse sample_arguments = Inr sample_cli"
proof -
  have "parse_u64 (show_nat 200) = Some 200" using parse_u64_show_nat [of 200] by simp
  then show ?thesis by (simp add: cli_parse_def sample_arguments_def cli_default_def sample_cli_def)
qed

lemma sample_app_new: "app_new (\<lambda>_. Inl ''no time'') 0 ''t1'' sample_cli = Inr sample_app"
  by (simp add: sample_app_def app_new_def sample_cli_def)

theorem tui_session_invariant_witness:
  "tui_reachable sample_app (tui_start sample_app) \<and> ap_loading (ts_app (tui_start sample_app))
     \<and> pending (tui_start sample_app) \<noteq> [] \<and> render (ts_app (tui_start sample_app)) \<noteq> None"
proof -
  have "ap_loading (ts_app (tui_start sample_app))" by (simp add: tui_start_def)
  with tui_session_invariant [OF sample_cli_parsed sample_app_new tui_begins] show ?thesis
    by (simp add: tui_begins)
qed

theorem cancelled_edit_breaks_paging_witness:
  "\<exists>s r. tui_reachable sample_app s \<and> ts_commands s = [r] \<and> rq_cursor r = ''c1'' \<and> rq_query r \<noteq> ''a''"
proof -
  obtain response where response: "search_result sample_reply = Inr response" "sp_next_cursor response = ''c1''"
    by (simp add: search_result_def sample_reply_def Let_def)
  have "is_scalar 0xE9" by (simp add: is_scalar_def)
  with cancelled_edit_breaks_paging [OF sample_app_new response(1), of "0xE9"] response(2) show ?thesis
    by (auto simp: sample_cli_def)
qed

theorem loopback_check_passed_by_userinfo_witness:
  "\<exists>client. client_from_env (\<lambda>name. if name = ''CERBERO_TUI_API_URL'' then Some ''http://127.0.0.1:80@example.org'' else Some ''t1'')
     (Inr ()) = Inr client \<and> url_host (hp_url (search_post client (app_request sample_app ''''))) = ''example.org''"
  using loopback_check_passed_by_userinfo [of "''example.org''"
      "\<lambda>name. if name = ''CERBERO_TUI_API_URL'' then Some ''http://127.0.0.1:80@example.org'' else Some ''t1''" "''t1''" "app_request sample_app ''''"]
  by auto

end
