(* ===== verification/Spec2Isabelle.thy ===== *)
theory Spec2Isabelle
  imports Sample_Pipeline Sample_Chain Repository_Keys Sample_Runtime Tui_Correctness
begin

text \<open>
  Cerbero SIEM: a verification development of the Rust crates of the repository.

  \<^bold>\<open>The program.\<close> Cerbero takes in raw security events, preserves and normalizes them and runs detection
  rules over the result. Raw bytes are persisted by Go services, which hand a message
  \<open>RawEventPersisted\<close> to the normalizer (\<open>crates/cerbero-normalizer\<close>) over NATS JetStream. The normalizer
  reads the bytes from the raw store, selects a parser, maps the parsed event to OCSF, stores a row in
  ClickHouse and publishes \<open>NormalizedEventCreated\<close>; failures are counted in PostgreSQL and end in a dead
  letter. The detection runtime (\<open>crates/cerbero-detection-runtime\<close>) loads a bounded batch of rows from
  ClickHouse, runs the rules of the detection core (\<open>crates/cerbero-detection-core\<close>) over it and stores
  Signals and Findings in PostgreSQL with an outbox. The wire contracts and their validators are in
  \<open>crates/cerbero-common\<close>. The terminal interface (\<open>crates/cerbero-tui\<close>) searches the normalized events
  through the HTTP API.

  \<^bold>\<open>Foundations.\<close> \<open>Cerbero_Prelude\<close>: \<open>Result\<close> as a sum type (\<open>Inl\<close> the error), the combinators for the
  operator \<open>?\<close> and for loops with early return, the collection \<open>result_simps\<close>, and the locale
  \<open>contract_validator\<close> of a validator that decides a predicate. \<open>Rust_Std\<close>, \<open>Rust_Text\<close>: strings as
  lists of bytes, machine integers, trimming, number parsing, UTF-8 validation. \<open>Ordered_Map\<close>: \<open>BTreeMap\<close>
  behind the locale \<open>ordered_map\<close>, and \<open>unique_collector\<close>, the loop that collects objects by identity and
  refuses conflicting duplicates. \<open>Json\<close>: \<open>serde_json::Value\<close> and \<open>canonical.rs\<close>. \<open>Postgres\<close>: what the
  stores share of the database.

  \<^bold>\<open>Contracts\<close> (\<open>cerbero-common/src/contracts\<close>). \<open>Contracts\<close>, \<open>Signal_Contract\<close> and \<open>Finding_Contract\<close> have
  the generated structs as records and the validators check by check in the order of the source; each
  decides its well-formedness predicate (interpretations of \<open>contract_validator\<close>, \<open>Contract_Properties\<close>).

  \<^bold>\<open>Detection core\<close> (\<open>cerbero-detection-core/src\<close>). \<open>Rule_Contract\<close>, \<open>Detection_Ast\<close> (AST, structural
  validation, type checking, optimizer), \<open>Event_Evaluation\<close> (lowering, plans, short-circuit evaluation, with
  the Boolean semantics \<open>holds\<close> as specification and the locale \<open>event_stages\<close>), \<open>Event_Signal\<close>,
  \<open>Threshold\<close> (deduplication, grouping, sliding window) and \<open>Correlation\<close> (collapse of duplicate Signals,
  greedy selection of one sequence per group). \<open>Threshold_Correctness\<close> and \<open>Correlation_Correctness\<close>: a match
  is justified, no qualifying group is missed, the order of the input does not matter, every match
  becomes an object the contracts accept; and where these fail. \<open>Sigma\<close>: the importer of Sigma rules.

  \<^bold>\<open>Detection runtime\<close> (\<open>cerbero-detection-runtime/src\<close>). \<open>Mvp_Rules\<close> (frozen rule pack and policies),
  \<open>Mvp_Source\<close> (request and ClickHouse source) and \<open>Mvp_Batch\<close> (one execution) are \<open>mvp_batch.rs\<close>;
  \<open>Analytical_Repository\<close> is \<open>lib.rs\<close>, both transactions statement by statement over tables with the
  constraints of the migrations, and over a connection that may break at every call (\<open>tx_link\<close>: at the
  start, at a statement, or at the commit, executed or not). \<open>Idempotent_Store\<close> is the contract between them, interpreted for Signals
  and for Findings in \<open>Repository_Correctness\<close>, which also shows that every stored object is announced
  exactly once. \<open>Mvp_Correctness\<close> is about rules and source, \<open>Mvp_Batch_Correctness\<close> about whole executions:
  they can be repeated and lose nothing however they end; by logical key their Signals are exactly those
  that the EVENT rules and the THRESHOLD evaluation give for the loaded events, every Finding stands on a
  chain of these Signals and every chain leads to a Finding. \<open>Repository_Keys\<close>: what a logical key
  identifies.

  \<^bold>\<open>Normalizer\<close> (\<open>cerbero-normalizer/src\<close>).
  \<^item> \<open>Parser\<close>, \<open>Parser_Formats\<close>: the registry and the five parsers; \<open>Parser_Correctness\<close>,
    \<open>Format_Correctness\<close>: selection finds the unique best parser, RFC 5424 lines are read back field by
    field, and the inputs that are misread.
  \<^item> \<open>Source_Time\<close>, \<open>Ocsf_Mapping\<close>, \<open>Normalizer_Core\<close>: from bytes to a normalization plan;
    \<open>Core_Correctness\<close>: the plan passes the contracts and is bound to its input, a plain failed-login line
    of sshd becomes a failed logon of its user and address, and a failed login that was normalized is
    what the detection rule for failed logins matches.
  \<^item> \<open>Retry_State\<close>: the reference transition of \<open>retry_state.rs\<close> and the SQL of \<open>retry_state_postgres.rs\<close>;
    \<open>Retry_Correctness\<close>: recording a failure is the reference transition for every failure and every fate
    of the two statements (\<open>record_failure_spec\<close>), except that the store keeps the message identity of a
    lifecycle where the reference refuses another one.
  \<^item> \<open>Event_Bus\<close>, \<open>Dead_Letter\<close>, \<open>Raw_Store\<close>, \<open>Normalized_Store\<close>, \<open>Runtime_Config\<close>: the parts the runtime
    is built of, one per source file (the publications of \<open>eventbus.rs\<close> are in \<open>Dead_Letter\<close>).
  \<^item> \<open>Normalizer_Runtime\<close>: the handling of a delivery (\<open>RuntimeProcessor\<close>) as computations over a world
    of identities, retry table and log of effects; \<open>Runtime_Loop\<close>: starting, the loop, shutdown and exit
    code. \<open>Runtime_Correctness\<close> and \<open>Runtime_Loop\<close>: nothing is acknowledged before it was handed over,
    wherever a run is cut; \<open>Runtime_Liveness\<close>: redelivery settles a message within its budget, unless the
    handler panics or returns the refusal of an error text that the retry table cannot hold, and when
    these happen; \<open>Redelivery\<close>: a redelivery publishes the same message; \<open>Runtime_Failures\<close>: a message that
    ends every start of the process, and one that panics it.
  \<^item> \<open>Metrics\<close>, \<open>Metrics_Correctness\<close>: the counters balance under any interleaving of atomic updates.

  \<^bold>\<open>Terminal interface\<close> (\<open>cerbero-tui/src/main.rs\<close>). \<open>Tui\<close>: command line, client, state, keys, frames and
  the step relation of the loop and its worker; \<open>Tui_Correctness\<close>: the invariant of reachable states and two
  flaws.

  \<^bold>\<open>Across the crates.\<close> \<open>Pipeline\<close> joins the normalizer and the detection at the table between them: the meaning
  of the query of \<open>mvp_batch.rs\<close> on the rows that \<open>clickhouse.rs\<close> writes. A failed login that carries an event
  time becomes a Signal for the event the normalizer published; one without is stored and never selected.

  \<^bold>\<open>Samples.\<close> \<open>Sample_Data\<close>, \<open>Sample_Signals\<close>, \<open>Sample_Repository\<close>, \<open>Sample_Batch\<close>, \<open>Sample_Chain\<close>, \<open>Sample_Pipeline\<close> and
  \<open>Sample_Runtime\<close> hold concrete data on which the hypotheses of the properties are met.

  \<^bold>\<open>Conventions.\<close> A fallible function returns a sum; a panic is \<open>None\<close> around it. Loops are structural
  recursions or folds over the data they consume, so no fuel is used and every function is total; the
  two loops that do not end by themselves, the consumer of the normalizer and the terminal interface,
  are run over the events they receive or given as a step relation. Unsigned integers are words where
  their width matters, signed ones integers with the range written out; a \<open>Duration\<close> and an instant are
  numbers of nanoseconds.

  \<^bold>\<open>Parameters.\<close> Code of other crates is an argument: SHA-256 (\<open>digest\<close>), the protobuf and JSON codecs, YAML,
  base64, the time crate (\<open>time_lib\<close>, \<open>format_libs\<close>, \<open>core_env\<close>, \<open>runtime_libs\<close>), the file system, the HTTP,
  NATS and PostgreSQL clients. A service answers as a function of the log of effects so far, so it may
  answer anything. What a property needs of them is a named hypothesis: \<open>codec_ok\<close> (decoding gives back
  what was encoded, digests have 32 bytes), \<open>identities_ok\<close> (new identities are version 7 UUIDs), \<open>sound_libs\<close>
  (digest length, a monotone conversion of times for the database, a valid configuration), \<open>healthy\<close>
  (PostgreSQL and the broker answer), \<open>answering\<close> (a connection that does not break),
  \<open>answers_query\<close> (ClickHouse answers a query with the selected rows of the table, up to the limit),
  \<open>json_codec\<close> (parsing canonical JSON gives back the tree).

  \<^bold>\<open>Not modelled.\<close> Protobuf encoding and decoding, derived by prost (the generated structs are records);
  the layout of widgets and the terminal modes; log lines on standard error; building clients and
  connections beyond their outcome; a \<open>snapshot\<close> of the metrics, which copies the counters one by one; the
  crates \<open>cerbero-agent\<close> and \<open>cerbero-integrity\<close>, which are placeholders; the Go services, which meet these
  crates only in the messages and tables modelled here; migrations and scripts beyond the constraints
  of the tables; the exhaustion of memory, so a buffer of up to \<open>isize::MAX\<close> bytes is always allocated and
  only a longer one panics (\<open>raw_read\<close>); the URL parser of the HTTP client, for which \<open>url_host\<close> reads the
  host of an address by RFC 3986 and is used only for the form with user information.
\<close>

end
